(* ===== verification/Agent_Prelude.thy ===== *)
theory Agent_Prelude
  imports Main "HOL-Library.Word"
begin

text \<open>
  Shared vocabulary of the development: C strings, the conversions between C integers and
  decimal text (\<open>atoi\<close>, \<open>%d\<close>), the ways a C program stops (an exit, a failed assertion, a
  fatal signal, undefined behaviour), the log of effects a run leaves behind, and the
  sequencing combinator the component models are written with.
\<close>

named_theorems outcome_simps \<open>evaluation of sequenced outcomes\<close>
named_theorems ok_iffs \<open>what it means that an operation returned\<close>

section \<open>C strings\<close>

text \<open>
  A \<open>char\<close> is a byte. A \<open>char *\<close> handed to \<open>strcmp\<close>, \<open>strlen\<close>, \<open>%s\<close> or \<open>strndup\<close> is read up to
  its first NUL byte: \<open>c_str\<close> is what such a reader sees of a block of bytes.
\<close>

abbreviation NUL :: char where
  "NUL \<equiv> CHR 0x00"

definition c_str :: "string \<Rightarrow> string" where
  "c_str s = takeWhile (\<lambda>c. c \<noteq> NUL) s"

definition nul_free :: "string \<Rightarrow> bool" where
  "nul_free s \<longleftrightarrow> NUL \<notin> set s"

text \<open>The result \<open>strcmp(a, b) == 0\<close>.\<close>

definition strcmp_eq :: "string \<Rightarrow> string \<Rightarrow> bool" where
  "strcmp_eq a b \<longleftrightarrow> c_str a = c_str b"

section \<open>C integers and decimal text\<close>

text \<open>Conversion of an integer value to a 32-bit signed \<open>int\<close>, and to a 64-bit \<open>size_t\<close>.\<close>

definition to_int32 :: "int \<Rightarrow> int" where
  "to_int32 x = sint (word_of_int x :: 32 word)"

definition to_size_t :: "int \<Rightarrow> 64 word" where
  "to_size_t x = word_of_int x"

abbreviation INT_MAX :: int where
  "INT_MAX \<equiv> 2147483647"

definition int32 :: "int \<Rightarrow> bool" where
  "int32 x \<longleftrightarrow> - 2147483648 \<le> x \<and> x \<le> 2147483647"

definition digit_char :: "nat \<Rightarrow> char" where
  "digit_char d = char_of (48 + d)"

definition is_digit :: "char \<Rightarrow> bool" where
  "is_digit c \<longleftrightarrow> 48 \<le> (of_char c :: nat) \<and> (of_char c :: nat) \<le> 57"

text \<open>\<open>isspace\<close> of the C locale: blank, and tab to carriage return.\<close>

definition is_space :: "char \<Rightarrow> bool" where
  "is_space c \<longleftrightarrow> (of_char c :: nat) = 32 \<or> (9 \<le> (of_char c :: nat) \<and> (of_char c :: nat) \<le> 13)"

fun digits_value :: "string \<Rightarrow> int \<Rightarrow> int" where
  "digits_value [] acc = acc"
| "digits_value (c # cs) acc = digits_value cs (10 * acc + (int (of_char c) - 48))"

text \<open>
  \<open>strtol(s, NULL, 10)\<close>: leading space, one optional sign, the longest run of digits, the
  value kept within a 64-bit \<open>long\<close>.
\<close>

definition strtol10 :: "string \<Rightarrow> int" where
  "strtol10 s =
     (let s1 = dropWhile is_space (c_str s);
          neg = (case s1 of c # _ \<Rightarrow> c = CHR ''-'' | [] \<Rightarrow> False);
          s2 = (case s1 of c # r \<Rightarrow> if c = CHR ''-'' \<or> c = CHR ''+'' then r else s1 | [] \<Rightarrow> s1);
          v = digits_value (takeWhile is_digit s2) 0
      in max (- (2 ^ 63)) (min (2 ^ 63 - 1) (if neg then - v else v)))"

text \<open>\<open>atoi\<close> is \<open>(int) strtol(s, NULL, 10)\<close>.\<close>

definition atoi :: "string \<Rightarrow> int" where
  "atoi s = to_int32 (strtol10 s)"

fun dec_nat :: "nat \<Rightarrow> string" where
  "dec_nat n = (if n < 10 then [digit_char n] else dec_nat (n div 10) @ [digit_char (n mod 10)])"

declare dec_nat.simps [simp del]

text \<open>What \<open>%d\<close> prints.\<close>

definition fmt_d :: "int \<Rightarrow> string" where
  "fmt_d i = (if i < 0 then CHR ''-'' # dec_nat (nat (- i)) else dec_nat (nat i))"

section \<open>Stops, outcomes and the effect log\<close>

text \<open>The values of \<open>errno\<close> the program, or the kernel on its behalf, tells apart.\<close>

datatype errno = EAGAIN | EWOULDBLOCK | EPIPE | EOTHER nat

text \<open>Undefined behaviour the model stops at.\<close>

datatype fault =
    NullDeref            \<comment> \<open>a NULL pointer is used as a string, a FILE or an object\<close>
  | WildPtr              \<comment> \<open>a pointer that was never assigned is read\<close>
  | UseAfterFree         \<comment> \<open>a pointer into a released block is read\<close>
  | BufferOverflow nat   \<comment> \<open>that many bytes were written to a smaller fixed array\<close>
  | SignedOverflow       \<comment> \<open>an \<open>int\<close> sum leaves its range\<close>

datatype stop =
    Exit_failure string  \<comment> \<open>\<open>perror_die\<close> or \<open>die\<close> with this message\<close>
  | Assert_failed        \<comment> \<open>\<open>assert\<close> aborted the process\<close>
  | Sigpipe              \<comment> \<open>killed by SIGPIPE, which the program leaves at its default\<close>
  | Crash fault

datatype ('a, 'w) outcome =
    Ok 'a 'w
  | Stop stop 'w

definition obind :: "('a, 'w) outcome \<Rightarrow> ('a \<Rightarrow> 'w \<Rightarrow> ('b, 'w) outcome) \<Rightarrow> ('b, 'w) outcome" where
  "obind m f = (case m of Ok x w \<Rightarrow> f x w | Stop s w \<Rightarrow> Stop s w)"

text \<open>
  Pointers to strings. \<open>Owned\<close> points into storage of a live \<open>json_object\<close>; when that object
  is released the same pointer value is \<open>Freed\<close>. \<open>Wild\<close> is the content of uninitialised
  memory. \<open>Lit\<close> points to storage that outlives every use (a literal, a private copy).
\<close>

datatype cptr = Wild | Null | Lit string | Owned string | Freed

text \<open>
  Effects. \<open>OobRead i n\<close> and \<open>OobWrite i n\<close> are accesses at offset \<open>i\<close> of a heap block of \<open>n\<close>
  bytes with \<open>n \<le> i\<close>: they are undefined in C, but the process usually survives them, so
  they are recorded and the run goes on. \<open>Print\<close> is a line the program prints on standard
  output in its normal operation; the diagnostics of the \<open>DEBUG\<close> macro are left out.
\<close>

datatype effect =
    Malloc | Free
  | JsonNew | JsonPut
  | Fopen string | Fclose
  | Connect string string string string nat
  | StoreResult
  | OobRead nat nat | OobWrite nat nat
  | Query string
  | Send int cptr nat int
  | Print string
  | Socket int | ReuseAddr int | Bind int "16 word" | Listen int nat
  | SetFl int "32 word"
  | EpollAdd int "32 word" | EpollMod int "32 word" | EpollDel int
  | CloseFd int

record 'db world =
  w_db :: 'db
  w_log :: "effect list"

definition emit :: "effect \<Rightarrow> ('db, 'z) world_scheme \<Rightarrow> ('db, 'z) world_scheme" where
  "emit e w = w\<lparr>w_log := w_log w @ [e]\<rparr>"

text \<open>Reading the bytes behind a string pointer.\<close>

definition c_read :: "cptr \<Rightarrow> 'w \<Rightarrow> (string, 'w) outcome" where
  "c_read p w = (case p of
       Wild \<Rightarrow> Stop (Crash WildPtr) w
     | Null \<Rightarrow> Stop (Crash NullDeref) w
     | Freed \<Rightarrow> Stop (Crash UseAfterFree) w
     | Lit s \<Rightarrow> Ok (c_str s) w
     | Owned s \<Rightarrow> Ok (c_str s) w)"

text \<open>The pointers a string function can read, and the text it sees there.\<close>

fun readable :: "cptr \<Rightarrow> bool" where
  "readable (Lit _) = True"
| "readable (Owned _) = True"
| "readable _ = False"

fun ptr_text :: "cptr \<Rightarrow> string" where
  "ptr_text (Lit s) = c_str s"
| "ptr_text (Owned s) = c_str s"
| "ptr_text _ = []"

text \<open>
  \<open>sprintf\<close> of an already formatted text into an array of \<open>n\<close> bytes: the text and its
  terminator have to fit.
\<close>

definition sprintf_buf :: "nat \<Rightarrow> string \<Rightarrow> 'w \<Rightarrow> (string, 'w) outcome" where
  "sprintf_buf n s w =
     (if length s < n then Ok s w else Stop (Crash (BufferOverflow (Suc (length s)))) w)"

section \<open>Lemmas\<close>

subsection \<open>Sequencing\<close>

lemma obind_Ok [simp, outcome_simps]: "obind (Ok x w) f = f x w"
  by (simp add: obind_def)

lemma obind_Stop [simp, outcome_simps]: "obind (Stop s w) f = Stop s w"
  by (simp add: obind_def)

lemma obind_assoc: "obind (obind m f) g = obind m (\<lambda>x w. obind (f x w) g)"
  by (cases m) simp_all

lemma obind_eq_Ok [ok_iffs]:
  "obind m f = Ok y v \<longleftrightarrow> (\<exists>x w. m = Ok x w \<and> f x w = Ok y v)"
  by (cases m) auto

lemma obind_eq_Stop:
  "obind m f = Stop s v \<longleftrightarrow> m = Stop s v \<or> (\<exists>x w. m = Ok x w \<and> f x w = Stop s v)"
  by (cases m) auto

lemma obind_cong [fundef_cong]:
  assumes "m = m'" and "\<And>x w. m' = Ok x w \<Longrightarrow> f x w = f' x w"
  shows "obind m f = obind m' f'"
  using assms by (cases m') auto

lemma c_read_simps [simp, outcome_simps]:
  "c_read Wild w = Stop (Crash WildPtr) w"
  "c_read Null w = Stop (Crash NullDeref) w"
  "c_read Freed w = Stop (Crash UseAfterFree) w"
  "c_read (Lit s) w = Ok (c_str s) w"
  "c_read (Owned s) w = Ok (c_str s) w"
  by (simp_all add: c_read_def)

lemma sprintf_buf_fits [simp, outcome_simps]: "length s < n \<Longrightarrow> sprintf_buf n s w = Ok s w"
  by (simp add: sprintf_buf_def)

lemma sprintf_buf_Ok [ok_iffs]: "sprintf_buf n s w = Ok t v \<longleftrightarrow> length s < n \<and> t = s \<and> v = w"
  by (auto simp: sprintf_buf_def)

lemma emit_sel [simp]:
  "w_db (emit e w) = w_db w"
  "w_log (emit e w) = w_log w @ [e]"
  by (simp_all add: emit_def)

subsection \<open>C strings\<close>

lemma c_str_Nil [simp]: "c_str [] = []"
  by (simp add: c_str_def)

lemma c_str_Cons [simp]: "c_str (c # s) = (if c = NUL then [] else c # c_str s)"
  by (simp add: c_str_def)

lemma nul_free_c_str [simp]: "nul_free (c_str s)"
  by (auto simp: nul_free_def c_str_def dest: set_takeWhileD)

lemma c_str_nul_free [simp]: "nul_free s \<Longrightarrow> c_str s = s"
  by (auto simp: nul_free_def c_str_def takeWhile_eq_all_conv)

lemma c_str_idem [simp]: "c_str (c_str s) = c_str s"
  by simp

lemma c_str_append_nul: "nul_free s \<Longrightarrow> c_str (s @ NUL # t) = s"
  by (induction s) (auto simp: nul_free_def)

lemma nul_free_simps [simp]:
  "nul_free []"
  "nul_free (c # s) \<longleftrightarrow> c \<noteq> NUL \<and> nul_free s"
  "nul_free (s @ t) \<longleftrightarrow> nul_free s \<and> nul_free t"
  by (auto simp: nul_free_def)

lemma c_read_Ok_iff [ok_iffs]: "c_read p w = Ok s v \<longleftrightarrow> readable p \<and> s = ptr_text p \<and> v = w"
  by (cases p) auto

lemma c_read_readable [simp, outcome_simps]: "readable p \<Longrightarrow> c_read p w = Ok (ptr_text p) w"
  by (cases p) simp_all

lemma nul_free_ptr_text [simp]: "nul_free (ptr_text p)"
  by (cases p) simp_all

lemma c_read_Stop: "c_read p w = Stop st v \<Longrightarrow> v = w \<and> (\<exists>f. st = Crash f)"
  by (cases p) auto

subsection \<open>Decimal text\<close>

lemma of_char_digit_char: "d < 10 \<Longrightarrow> (of_char (digit_char d) :: nat) = 48 + d"
  by (simp add: digit_char_def)

lemma is_digit_digit_char [simp]: "d < 10 \<Longrightarrow> is_digit (digit_char d)"
  by (simp add: is_digit_def of_char_digit_char)

lemma is_digit_not_special:
  "is_digit c \<Longrightarrow> c \<noteq> NUL"
  "is_digit c \<Longrightarrow> \<not> is_space c"
  "is_digit c \<Longrightarrow> c \<noteq> CHR ''-''"
  "is_digit c \<Longrightarrow> c \<noteq> CHR ''+''"
  by (auto simp: is_digit_def is_space_def)

lemma dec_nat_digits: "\<forall>c \<in> set (dec_nat n). is_digit c"
proof (induction n rule: dec_nat.induct)
  case (1 n)
  show ?case
    using 1 by (subst dec_nat.simps) auto
qed

lemma dec_nat_not_Nil [simp]: "dec_nat n \<noteq> []"
  by (subst dec_nat.simps) simp

lemma digits_value_append:
  "digits_value (xs @ [c]) acc = 10 * digits_value xs acc + (int (of_char c) - 48)"
  by (induction xs arbitrary: acc) simp_all

lemma digits_value_dec_nat: "digits_value (dec_nat n) 0 = int n"
proof (induction n rule: dec_nat.induct)
  case (1 n)
  show ?case
  proof (cases "n < 10")
    case True
    then show ?thesis by (subst dec_nat.simps) (simp add: of_char_digit_char)
  next
    case False
    with 1 have IH: "digits_value (dec_nat (n div 10)) 0 = int (n div 10)" by simp
    have "digits_value (dec_nat n) 0 = 10 * int (n div 10) + int (n mod 10)"
      using False IH by (subst dec_nat.simps) (simp add: digits_value_append of_char_digit_char)
    also have "\<dots> = int (10 * (n div 10) + n mod 10)" by (simp only: of_nat_add of_nat_mult of_nat_numeral)
    finally show ?thesis by simp
  qed
qed

lemma takeWhile_digits [simp]: "takeWhile is_digit (dec_nat n) = dec_nat n"
  by (simp add: takeWhile_eq_all_conv dec_nat_digits)

lemma nul_free_dec_nat [simp]: "nul_free (dec_nat n)"
  using dec_nat_digits [of n] is_digit_not_special(1) by (auto simp: nul_free_def)

lemma nul_free_fmt_d [simp]: "nul_free (fmt_d i)"
  by (simp add: fmt_d_def)

lemma fmt_d_not_Nil [simp]: "fmt_d i \<noteq> []"
  by (simp add: fmt_d_def)

lemma dec_nat_head:
  obtains c cs where "dec_nat n = c # cs" and "is_digit c"
  using dec_nat_digits [of n] by (cases "dec_nat n") auto

lemma strtol10_fmt_d:
  assumes "int32 i"
  shows "strtol10 (fmt_d i) = i"
proof (cases "i < 0")
  case True
  have "\<not> is_space (CHR ''-'')" by (simp add: is_space_def)
  with True assms show ?thesis
    by (simp add: strtol10_def fmt_d_def digits_value_dec_nat int32_def Let_def)
next
  case False
  obtain c cs where c: "dec_nat (nat i) = c # cs" "is_digit c"
    by (rule dec_nat_head)
  then have "c \<noteq> NUL" "\<not> is_space c" "c \<noteq> CHR ''-''" "c \<noteq> CHR ''+''"
    using is_digit_not_special by blast+
  with c have "strtol10 (dec_nat (nat i)) =
      max (- (2 ^ 63)) (min (2 ^ 63 - 1) (digits_value (takeWhile is_digit (dec_nat (nat i))) 0))"
    using nul_free_dec_nat [of "nat i"] by (simp add: strtol10_def Let_def del: takeWhile_digits)
  with False assms show ?thesis
    by (simp add: fmt_d_def digits_value_dec_nat int32_def)
qed

lemma to_int32_id [simp]: "int32 i \<Longrightarrow> to_int32 i = i"
  unfolding to_int32_def int32_def
  by (subst sint_sbintrunc') (simp add: signed_take_bit_int_eq_self)

lemma int32_to_int32 [simp]: "int32 (to_int32 i)"
proof -
  have "- (2 ^ 31) \<le> sint (word_of_int i :: 32 word)" "sint (word_of_int i :: 32 word) < 2 ^ 31"
    using sint_ge [of "word_of_int i :: 32 word"] sint_lt [of "word_of_int i :: 32 word"]
    by simp_all
  then show ?thesis by (simp add: to_int32_def int32_def)
qed

lemma int32_atoi [simp]: "int32 (atoi s)"
  by (simp add: atoi_def)

text \<open>Printing an \<open>int\<close> with \<open>%d\<close> and reading it back with \<open>atoi\<close> is the identity.\<close>

lemma atoi_fmt_d [simp]: "int32 i \<Longrightarrow> atoi (fmt_d i) = i"
  by (simp add: atoi_def strtol10_fmt_d)

lemma length_dec_nat: "n < 10 ^ k \<Longrightarrow> 0 < k \<Longrightarrow> length (dec_nat n) \<le> k"
proof (induction k arbitrary: n)
  case 0
  then show ?case by simp
next
  case (Suc k)
  show ?case
  proof (cases "n < 10")
    case True
    then show ?thesis by (subst dec_nat.simps) simp
  next
    case False
    with Suc.prems have "n div 10 < 10 ^ k" and "0 < k"
      by (auto intro: gr0I)
    then have "length (dec_nat (n div 10)) \<le> k" by (rule Suc.IH)
    with False show ?thesis by (subst dec_nat.simps) simp
  qed
qed

text \<open>An \<open>int\<close> prints in at most eleven characters.\<close>

lemma length_fmt_d:
  assumes "int32 i"
  shows "length (fmt_d i) \<le> 11"
proof -
  from assms have "nat (- i) < 10 ^ 10" and "nat i < 10 ^ 10"
    by (auto simp: int32_def)
  then have "length (dec_nat (nat (- i))) \<le> 10" and "length (dec_nat (nat i)) \<le> 10"
    by (simp_all only: length_dec_nat zero_less_numeral)
  then show ?thesis by (simp add: fmt_d_def)
qed

end
