(* ===== verification/Agent_Utils.thy ===== *)
theory Agent_Utils
  imports Agent_Prelude
begin

unbundle bit_operations_syntax

text \<open>
  The helpers of \<^verbatim>\<open>utils.c\<close>: fatal errors, checked allocation, the guarded \<open>free\<close>, the listening
  socket and the non-blocking mode. The results of the system calls are arguments.
\<close>

section \<open>Definitions\<close>

text \<open>The message is the text after formatting; control never comes back.\<close>

definition die :: "string \<Rightarrow> 'w \<Rightarrow> ('a, 'w) outcome" where
  "die msg w = Stop (Exit_failure msg) w"

definition perror_die :: "string \<Rightarrow> 'w \<Rightarrow> ('a, 'w) outcome" where
  "perror_die msg w = Stop (Exit_failure msg) w"

text \<open>\<open>ptr\<close> is what \<open>malloc\<close> answers, \<open>None\<close> for NULL.\<close>

definition xmalloc ::
  "'p option \<Rightarrow> ('db, 'z) world_scheme \<Rightarrow> ('p, ('db, 'z) world_scheme) outcome" where
  "xmalloc ptr w = (case ptr of
       None \<Rightarrow> die ''malloc failed'' w
     | Some p \<Rightarrow> Ok p (emit Malloc w))"

definition mj_free :: "'p option \<Rightarrow> ('db, 'z) world_scheme \<Rightarrow> ('db, 'z) world_scheme" where
  "mj_free data w = (case data of None \<Rightarrow> w | Some _ \<Rightarrow> emit Free w)"

text \<open>The argument is what \<open>getnameinfo\<close> found: host and service, or an error.\<close>

definition report_peer_connected ::
  "(string \<times> string) option \<Rightarrow> ('db, 'z) world_scheme \<Rightarrow> ('db, 'z) world_scheme" where
  "report_peer_connected name w = (case name of
       Some (hostbuf, portbuf) \<Rightarrow>
         emit (Print (''peer ('' @ hostbuf @ '', '' @ portbuf @ '') connected'')) w
     | None \<Rightarrow> emit (Print ''peer (unknonwn) connected'') w)"

abbreviation N_BACKLOG :: nat where
  "N_BACKLOG \<equiv> 64"

record listen_answers =
  l_socket :: int
  l_setsockopt :: int
  l_bind :: int
  l_listen :: int

text \<open>
  \<open>sin_port\<close> has 16 bits: \<open>htons(portnum)\<close> keeps the low half of the \<open>int\<close>. The port is
  recorded in host order.
\<close>

definition listen_inet_socket ::
  "listen_answers \<Rightarrow> int \<Rightarrow> ('db, 'z) world_scheme \<Rightarrow> (int, ('db, 'z) world_scheme) outcome" where
  "listen_inet_socket a portnum w =
     (let sockfd = l_socket a in
      if sockfd < 0 then perror_die ''ERROR opening socket'' w
      else let w = emit (Socket sockfd) w in
      if l_setsockopt a < 0 then perror_die ''setsockopt'' w
      else let w = emit (ReuseAddr sockfd) w in
      if l_bind a < 0 then perror_die ''ERROR on binding'' w
      else let w = emit (Bind sockfd (word_of_int portnum)) w in
      if l_listen a < 0 then perror_die ''ERROR on listen'' w
      else Ok sockfd (emit (Listen sockfd N_BACKLOG) w))"

abbreviation O_NONBLOCK :: "32 word" where
  "O_NONBLOCK \<equiv> 0x800"

record fcntl_answers =
  f_getfl :: int
  f_setfl :: int

definition make_socket_non_blocking ::
  "fcntl_answers \<Rightarrow> int \<Rightarrow> ('db, 'z) world_scheme \<Rightarrow> (unit, ('db, 'z) world_scheme) outcome" where
  "make_socket_non_blocking a sockfd w =
     (let flags = f_getfl a in
      if flags = -1 then perror_die ''fcntl F_GETFL'' w
      else if f_setfl a = -1 then perror_die ''fcntl F_SETFL O_NONBLOCK'' w
      else Ok () (emit (SetFl sockfd (word_of_int flags OR O_NONBLOCK)) w))"

section \<open>Lemmas\<close>

lemma die_simps [simp, outcome_simps]:
  "die msg w = Stop (Exit_failure msg) w"
  "perror_die msg w = Stop (Exit_failure msg) w"
  by (simp_all add: die_def perror_die_def)

lemma mj_free_simps [simp]:
  "mj_free None w = w"
  "mj_free (Some p) w = emit Free w"
  by (simp_all add: mj_free_def)

lemma report_peer_connected_db [simp]: "w_db (report_peer_connected name w) = w_db w"
  by (auto simp: report_peer_connected_def split: option.split)

lemma make_socket_non_blocking_Ok [ok_iffs]:
  "make_socket_non_blocking a sockfd w = Ok u v \<longleftrightarrow>
     f_getfl a \<noteq> -1 \<and> f_setfl a \<noteq> -1 \<and>
     v = emit (SetFl sockfd (word_of_int (f_getfl a) OR O_NONBLOCK)) w"
  by (auto simp: make_socket_non_blocking_def Let_def)

lemma listen_inet_socket_Ok [ok_iffs]:
  "listen_inet_socket a portnum w = Ok fd v \<longleftrightarrow>
     0 \<le> l_socket a \<and> 0 \<le> l_setsockopt a \<and> 0 \<le> l_bind a \<and> 0 \<le> l_listen a \<and> fd = l_socket a \<and>
     v = emit (Listen fd N_BACKLOG) (emit (Bind fd (word_of_int portnum))
           (emit (ReuseAddr fd) (emit (Socket fd) w)))"
  by (auto simp: listen_inet_socket_def Let_def)

lemma bit_O_NONBLOCK: "bit O_NONBLOCK i \<longleftrightarrow> i = 11"
proof -
  have "O_NONBLOCK = push_bit 11 1" by simp
  moreover have "bit (push_bit 11 (1 :: 32 word)) i \<longleftrightarrow> i = 11"
    unfolding bit_push_bit_iff bit_1_iff by auto
  ultimately show ?thesis by (simp only:)
qed

section \<open>Properties\<close>

text \<open>
  \<open>listen_inet_socket\<close> gives a socket exactly when \<open>socket\<close>, \<open>setsockopt\<close>, \<open>bind\<close> and
  \<open>listen\<close> all succeed, the four calls are then made in that order with a backlog of 64, and the
  port bound is \<open>portnum\<close> modulo 65536: a larger number on the command line silently
  serves another port.
\<close>

theorem listen_inet_socket_binds:
  "(\<exists>fd v. listen_inet_socket a portnum w = Ok fd v) =
     (0 \<le> l_socket a \<and> 0 \<le> l_setsockopt a \<and> 0 \<le> l_bind a \<and> 0 \<le> l_listen a) \<and>
   (case listen_inet_socket a portnum w of
      Ok fd v \<Rightarrow> fd = l_socket a \<and>
        (\<exists>port. uint port = portnum mod 65536 \<and>
           w_log v = w_log w @ [Socket fd, ReuseAddr fd, Bind fd port, Listen fd 64])
    | Stop s v \<Rightarrow> (\<exists>msg. s = Exit_failure msg))"
proof -
  have "uint (word_of_int portnum :: 16 word) = portnum mod 65536"
    by (simp add: uint_word_of_int)
  then show ?thesis
    by (auto simp: listen_inet_socket_def Let_def intro!: exI [of _ "word_of_int portnum :: 16 word"])
qed

text \<open>
  \<open>make_socket_non_blocking\<close> sets \<open>O_NONBLOCK\<close> and leaves every other file status flag as
  \<open>fcntl(F_GETFL)\<close> reported it.
\<close>

theorem make_socket_non_blocking_flags:
  assumes "make_socket_non_blocking a sockfd w = Ok u v"
  shows "\<exists>fl. w_log v = w_log w @ [SetFl sockfd fl] \<and>
    (\<forall>i. bit fl i \<longleftrightarrow> i = 11 \<or> bit (word_of_int (f_getfl a) :: 32 word) i)"
proof -
  let ?fl = "word_of_int (f_getfl a) OR O_NONBLOCK"
  have "bit ?fl i \<longleftrightarrow> i = 11 \<or> bit (word_of_int (f_getfl a) :: 32 word) i" for i
    unfolding bit_or_iff bit_O_NONBLOCK by blast
  moreover have "w_log v = w_log w @ [SetFl sockfd ?fl]"
    using assms by (simp add: make_socket_non_blocking_Ok)
  ultimately show ?thesis by blast
qed

theorem make_socket_non_blocking_flags_witness:
  "\<exists>fl. w_log (emit (SetFl 5 (word_of_int 2 OR O_NONBLOCK)) \<lparr>w_db = (), w_log = []\<rparr>) =
      w_log \<lparr>w_db = (), w_log = []\<rparr> @ [SetFl 5 fl] \<and>
    (\<forall>i. bit fl i \<longleftrightarrow> i = 11 \<or> bit (word_of_int (f_getfl \<lparr>f_getfl = 2, f_setfl = 0\<rparr>) :: 32 word) i)"
  by (rule make_socket_non_blocking_flags [of "\<lparr>f_getfl = 2, f_setfl = 0\<rparr>" _ _ "()"])
    (simp add: make_socket_non_blocking_def)

end
