(* ===== verification/Agent_Parse.thy ===== *)
theory Agent_Parse
  imports Agent_Utils
begin

text \<open>
  The message parser of \<^verbatim>\<open>parse.c\<close> with the data it fills in, the \<open>session_t\<close> of \<^verbatim>\<open>main.h\<close>. The
  json-c library is a parameter (\<open>json_api\<close>); its values are the datatype \<open>json\<close>.
\<close>

section \<open>JSON values\<close>

text \<open>
  A \<open>json_object *\<close>: NULL is the null value (\<open>json_type_null\<close>), the other constructors are the
  remaining members of \<open>enum json_type\<close>. An object is its list of entries in the order the
  library links them. A string carries all its bytes, which may include NUL. The content of a
  double is never looked at; its text stands for it.
\<close>

datatype json =
    JNull
  | JBool bool
  | JDouble string
  | JInt int
  | JObject "(string \<times> json) list"
  | JArray "json list"
  | JString string

datatype json_type =
    json_type_null | json_type_boolean | json_type_double | json_type_int
  | json_type_object | json_type_array | json_type_string

fun json_object_get_type :: "json \<Rightarrow> json_type" where
  "json_object_get_type JNull = json_type_null"
| "json_object_get_type (JBool _) = json_type_boolean"
| "json_object_get_type (JDouble _) = json_type_double"
| "json_object_get_type (JInt _) = json_type_int"
| "json_object_get_type (JObject _) = json_type_object"
| "json_object_get_type (JArray _) = json_type_array"
| "json_object_get_type (JString _) = json_type_string"

text \<open>The functions of json-c the program calls and whose results matter.\<close>

record json_api =
  json_tokener_parse :: "string \<Rightarrow> json"
  json_object_to_json_string :: "json \<Rightarrow> string"
  json_object_object_add :: "json \<Rightarrow> string \<Rightarrow> json \<Rightarrow> json"

text \<open>
  The entries \<open>json_object_object_foreach\<close> walks. The macro reads \<open>head\<close> through the table
  \<open>json_object_get_object\<close> gives; only an object has one.
\<close>

definition json_object_object_foreach :: "json \<Rightarrow> 'w \<Rightarrow> ((string \<times> json) list, 'w) outcome" where
  "json_object_object_foreach obj w = (case obj of
       JObject es \<Rightarrow> Ok es w
     | _ \<Rightarrow> Stop (Crash NullDeref) w)"

section \<open>Sessions\<close>

datatype agent_type_t = REQ_INVALID | REQ_UX | REQ_LINUX_CLAYMORE | REQ_WINDOW_CLAYMORE

fun agent_type_code :: "agent_type_t \<Rightarrow> int" where
  "agent_type_code REQ_INVALID = 0"
| "agent_type_code REQ_UX = 1"
| "agent_type_code REQ_LINUX_CLAYMORE = 2"
| "agent_type_code REQ_WINDOW_CLAYMORE = 3"

instantiation agent_type_t :: linorder
begin

definition less_eq_agent_type_t :: "agent_type_t \<Rightarrow> agent_type_t \<Rightarrow> bool" where
  "a \<le> b \<longleftrightarrow> agent_type_code a \<le> agent_type_code b"

definition less_agent_type_t :: "agent_type_t \<Rightarrow> agent_type_t \<Rightarrow> bool" where
  "a < b \<longleftrightarrow> agent_type_code a < agent_type_code b"

instance
proof
  fix x y z :: agent_type_t
  show "x < y \<longleftrightarrow> x \<le> y \<and> \<not> y \<le> x"
    by (auto simp: less_eq_agent_type_t_def less_agent_type_t_def)
  show "x \<le> x" by (simp add: less_eq_agent_type_t_def)
  show "x \<le> y \<Longrightarrow> y \<le> z \<Longrightarrow> x \<le> z" by (simp add: less_eq_agent_type_t_def)
  show "x \<le> y \<Longrightarrow> y \<le> x \<Longrightarrow> x = y"
    by (cases x; cases y) (simp_all add: less_eq_agent_type_t_def)
  show "x \<le> y \<or> y \<le> x" by (auto simp: less_eq_agent_type_t_def)
qed

end

record session_t =
  s_fd :: int
  client_fd :: int
  agent_type :: agent_type_t
  cmd_type :: cptr
  miner_mac :: cptr
  path :: cptr
  path_install :: cptr
  sequence :: int
  seg_fin :: bool

text \<open>
  \<open>malloc(sizeof(session_t))\<close>: the integers have whatever values \<open>junk\<close> has, the pointers
  point nowhere. In C, reading through such a pointer is undefined: the process may end there or go on with
  any text. The model stops at the read with \<open>WildPtr\<close>, so that an \<open>Ok\<close> result says that no such read
  took place, while this \<open>Stop\<close> says no more than that one was made; the same holds of \<open>UseAfterFree\<close>.
\<close>

definition malloc_session :: "session_t \<Rightarrow> session_t" where
  "malloc_session junk =
     junk\<lparr>cmd_type := Wild, miner_mac := Wild, path := Wild, path_install := Wild\<rparr>"

text \<open>
  Releasing a JSON object turns every pointer into it into a dangling one. A session only
  ever holds pointers into the object of the message being handled.
\<close>

fun put_ptr :: "cptr \<Rightarrow> cptr" where
  "put_ptr (Owned s) = Freed"
| "put_ptr p = p"

definition json_object_put_session :: "session_t \<Rightarrow> session_t" where
  "json_object_put_session s =
     s\<lparr>cmd_type := put_ptr (cmd_type s), miner_mac := put_ptr (miner_mac s),
       path := put_ptr (path s), path_install := put_ptr (path_install s)\<rparr>"

section \<open>The operations\<close>

abbreviation AGENT_TYPE_LINUX_NVIDIA :: string where
  "AGENT_TYPE_LINUX_NVIDIA \<equiv> ''linux-claymore-nvidia''"

abbreviation AGENT_TYPE_UX :: string where
  "AGENT_TYPE_UX \<equiv> ''ux''"

definition parse_string_to_json :: "json_api \<Rightarrow> string \<Rightarrow> json" where
  "parse_string_to_json api str = json_tokener_parse api (c_str str)"

fun get_agent_type_loop :: "(string \<times> json) list \<Rightarrow> agent_type_t" where
  "get_agent_type_loop [] = REQ_INVALID"
| "get_agent_type_loop ((key, val) # es) =
     (case val of
        JString value \<Rightarrow>
          if strcmp_eq value AGENT_TYPE_LINUX_NVIDIA then REQ_LINUX_CLAYMORE
          else if strcmp_eq value AGENT_TYPE_UX then REQ_UX
          else REQ_INVALID
      | _ \<Rightarrow> get_agent_type_loop es)"

definition get_agent_type :: "json \<Rightarrow> 'w \<Rightarrow> (agent_type_t, 'w) outcome" where
  "get_agent_type json w =
     obind (json_object_object_foreach json w) (\<lambda>es w. Ok (get_agent_type_loop es) w)"

text \<open>
  One turn of the loop of \<open>parse_json_cmd\<close>. The two empty-string cases allocate a block whose
  only pointer is overwritten at once.
\<close>

definition parse_json_cmd_entry ::
  "string \<Rightarrow> string \<Rightarrow> session_t \<Rightarrow> ('db, 'z) world_scheme \<Rightarrow> session_t \<times> ('db, 'z) world_scheme" where
  "parse_json_cmd_entry key v session w =
     (if strcmp_eq key ''commend_type'' then (session\<lparr>cmd_type := Owned v\<rparr>, w)
      else if strcmp_eq key ''sequence'' then (session\<lparr>sequence := atoi v\<rparr>, w)
      else if strcmp_eq key ''miner_mac'' then (session\<lparr>miner_mac := Owned v\<rparr>, w)
      else if strcmp_eq key ''path'' then
        (if length v \<noteq> 0 then (session\<lparr>path := Owned v\<rparr>, w)
         else (session\<lparr>path := Lit ''''\<rparr>, emit Malloc w))
      else if strcmp_eq key ''path_install'' then
        (if length v \<noteq> 0 then (session\<lparr>path_install := Owned v\<rparr>, w)
         else (session\<lparr>path_install := Null\<rparr>, emit Malloc w))
      else (session, w))"

fun parse_json_cmd_loop ::
  "(string \<times> json) list \<Rightarrow> session_t \<Rightarrow> ('db, 'z) world_scheme \<Rightarrow> session_t \<times> ('db, 'z) world_scheme" where
  "parse_json_cmd_loop [] session w = (session, w)"
| "parse_json_cmd_loop ((key, val) # es) session w =
     (case val of
        JString v \<Rightarrow> (case parse_json_cmd_entry key v session w of
                        (session, w) \<Rightarrow> parse_json_cmd_loop es session w)
      | _ \<Rightarrow> parse_json_cmd_loop es session w)"

definition parse_json_cmd ::
  "json \<Rightarrow> session_t \<Rightarrow> ('db, 'z) world_scheme \<Rightarrow> (session_t, ('db, 'z) world_scheme) outcome" where
  "parse_json_cmd json_obj session w =
     obind (json_object_object_foreach json_obj w) (\<lambda>es w.
       case parse_json_cmd_loop es session w of (session, w) \<Rightarrow> Ok session w)"

fun parse_json_agent_loop :: "(string \<times> json) list \<Rightarrow> session_t \<Rightarrow> session_t" where
  "parse_json_agent_loop [] session = session"
| "parse_json_agent_loop ((key, val) # es) session =
     (case val of
        JString v \<Rightarrow>
          parse_json_agent_loop es
            (if strcmp_eq key ''miner_mac'' then session\<lparr>miner_mac := Owned v\<rparr> else session)
      | _ \<Rightarrow> parse_json_agent_loop es session)"

definition parse_json_agent :: "json \<Rightarrow> session_t \<Rightarrow> 'w \<Rightarrow> (session_t, 'w) outcome" where
  "parse_json_agent json_obj session w =
     obind (json_object_object_foreach json_obj w) (\<lambda>es w. Ok (parse_json_agent_loop es session) w)"

definition parse_cmd_type :: "cptr \<Rightarrow> 'w \<Rightarrow> (int, 'w) outcome" where
  "parse_cmd_type p w =
     obind (c_read p w) (\<lambda>cmd w. if strcmp_eq cmd ''file-download'' then Ok 1 w else Ok (-1) w)"

section \<open>What the parser is meant to compute\<close>

text \<open>
  The string-valued entries of an object, keys as \<open>strcmp\<close> sees them; the value the last of them
  gives to a key; and the session a command message describes.
\<close>

fun string_entries :: "(string \<times> json) list \<Rightarrow> (string \<times> string) list" where
  "string_entries [] = []"
| "string_entries ((key, val) # es) =
     (case val of JString v \<Rightarrow> (c_str key, v) # string_entries es | _ \<Rightarrow> string_entries es)"

definition last_string :: "string \<Rightarrow> (string \<times> json) list \<Rightarrow> string option" where
  "last_string key es = map_of (rev (string_entries es)) key"

definition classify :: "string \<Rightarrow> agent_type_t" where
  "classify v =
     (if c_str v = AGENT_TYPE_LINUX_NVIDIA then REQ_LINUX_CLAYMORE
      else if c_str v = AGENT_TYPE_UX then REQ_UX else REQ_INVALID)"

definition path_ptr :: "string \<Rightarrow> cptr" where
  "path_ptr v = (if v = [] then Lit [] else Owned v)"

definition install_ptr :: "string \<Rightarrow> cptr" where
  "install_ptr v = (if v = [] then Null else Owned v)"

definition cmd_session :: "(string \<times> json) list \<Rightarrow> session_t \<Rightarrow> session_t" where
  "cmd_session es s = s\<lparr>
     cmd_type := case_option (cmd_type s) Owned (last_string ''commend_type'' es),
     miner_mac := case_option (miner_mac s) Owned (last_string ''miner_mac'' es),
     path := case_option (path s) path_ptr (last_string ''path'' es),
     path_install := case_option (path_install s) install_ptr (last_string ''path_install'' es),
     sequence := case_option (sequence s) atoi (last_string ''sequence'' es)\<rparr>"

definition empty_paths :: "(string \<times> json) list \<Rightarrow> nat" where
  "empty_paths es =
     length (filter (\<lambda>(k, v). (k = ''path'' \<or> k = ''path_install'') \<and> v = []) (string_entries es))"

section \<open>Lemmas\<close>

lemma foreach_object [simp, outcome_simps]: "json_object_object_foreach (JObject es) w = Ok es w"
  by (simp add: json_object_object_foreach_def)

lemma foreach_not_object:
  "json_object_get_type j \<noteq> json_type_object \<Longrightarrow>
     json_object_object_foreach j w = Stop (Crash NullDeref) w"
  by (cases j) (simp_all add: json_object_object_foreach_def)

lemma c_str_key_simps [simp]:
  "c_str ''commend_type'' = ''commend_type''" "c_str ''sequence'' = ''sequence''"
  "c_str ''miner_mac'' = ''miner_mac''" "c_str ''path'' = ''path''"
  "c_str ''path_install'' = ''path_install''" "c_str ''file-download'' = ''file-download''"
  by simp_all

lemma last_string_Nil [simp]: "last_string key [] = None"
  by (simp add: last_string_def)

lemma last_string_Cons:
  "last_string key ((k, val) # es) =
     (case last_string key es of
        Some v \<Rightarrow> Some v
      | None \<Rightarrow> (case val of JString v \<Rightarrow> if c_str k = key then Some v else None | _ \<Rightarrow> None))"
  by (auto simp: last_string_def map_add_def split: json.split option.split)

lemma last_string_string:
  "last_string key ((k, JString v) # es) =
     (case last_string key es of
        Some u \<Rightarrow> Some u | None \<Rightarrow> if c_str k = key then Some v else None)"
  by (simp add: last_string_Cons split: option.split)

lemma last_string_other:
  "(\<And>v. val \<noteq> JString v) \<Longrightarrow> last_string key ((k, val) # es) = last_string key es"
  by (cases val) (auto simp: last_string_Cons split: option.split)

lemma get_agent_type_loop_eq:
  "get_agent_type_loop es =
     (case string_entries es of [] \<Rightarrow> REQ_INVALID | (_, v) # _ \<Rightarrow> classify v)"
  by (induction es rule: get_agent_type_loop.induct)
    (auto simp: classify_def strcmp_eq_def split: json.splits)

lemma cmd_session_other:
  "(\<And>v. val \<noteq> JString v) \<Longrightarrow> cmd_session ((k, val) # es) s = cmd_session es s"
  by (simp add: cmd_session_def last_string_other)

lemma cmd_session_string:
  "cmd_session ((k, JString v) # es) s = cmd_session es (fst (parse_json_cmd_entry k v s w))"
  by (auto simp: cmd_session_def parse_json_cmd_entry_def last_string_string strcmp_eq_def
      path_ptr_def install_ptr_def split: option.split)

lemma empty_paths_Nil [simp]: "empty_paths [] = 0"
  by (simp add: empty_paths_def)

lemma empty_paths_other: "(\<And>v. val \<noteq> JString v) \<Longrightarrow> empty_paths ((k, val) # es) = empty_paths es"
  by (cases val) (auto simp: empty_paths_def)

lemma parse_json_cmd_entry_log:
  "snd (parse_json_cmd_entry k v s w) =
     w\<lparr>w_log := w_log w @ replicate (empty_paths [(k, JString v)]) Malloc\<rparr>"
  by (auto simp: parse_json_cmd_entry_def empty_paths_def strcmp_eq_def emit_def)

lemma empty_paths_string:
  "empty_paths ((k, JString v) # es) = empty_paths [(k, JString v)] + empty_paths es"
  by (simp add: empty_paths_def)

lemma parse_json_cmd_loop_eq:
  "parse_json_cmd_loop es s w =
     (cmd_session es s, w\<lparr>w_log := w_log w @ replicate (empty_paths es) Malloc\<rparr>)"
proof (induction es arbitrary: s w)
  case Nil
  show ?case by (simp add: cmd_session_def)
next
  case (Cons e es)
  obtain k val where e: "e = (k, val)" by fastforce
  show ?case
  proof (cases "\<exists>v. val = JString v")
    case True
    then obtain v where v: "val = JString v" ..
    obtain s1 w1 where sw: "parse_json_cmd_entry k v s w = (s1, w1)" by fastforce
    then have "s1 = fst (parse_json_cmd_entry k v s w)"
      and w1: "w1 = w\<lparr>w_log := w_log w @ replicate (empty_paths [(k, JString v)]) Malloc\<rparr>"
      using parse_json_cmd_entry_log [of k v s w] by simp_all
    then have s1: "cmd_session es s1 = cmd_session ((k, JString v) # es) s"
      by (simp add: cmd_session_string [where w = w])
    show ?thesis
      by (simp add: e v sw Cons.IH s1 w1 empty_paths_string [of k v es] replicate_add)
  next
    case False
    then have ns: "\<And>v. val \<noteq> JString v" by blast
    then have "parse_json_cmd_loop (e # es) s w = parse_json_cmd_loop es s w"
      by (cases val) (auto simp: e)
    with ns show ?thesis by (simp add: e Cons.IH cmd_session_other empty_paths_other)
  qed
qed

lemma parse_json_cmd_eq [outcome_simps]:
  "parse_json_cmd (JObject es) s w =
     Ok (cmd_session es s) (w\<lparr>w_log := w_log w @ replicate (empty_paths es) Malloc\<rparr>)"
  by (simp add: parse_json_cmd_def parse_json_cmd_loop_eq)

lemma parse_json_agent_loop_eq:
  "parse_json_agent_loop es s =
     s\<lparr>miner_mac := case_option (miner_mac s) Owned (last_string ''miner_mac'' es)\<rparr>"
  by (induction es s rule: parse_json_agent_loop.induct)
    (auto simp: last_string_Cons strcmp_eq_def split: json.splits option.splits)

lemma parse_json_agent_eq [outcome_simps]:
  "parse_json_agent (JObject es) s w =
     Ok (s\<lparr>miner_mac := case_option (miner_mac s) Owned (last_string ''miner_mac'' es)\<rparr>) w"
  by (simp add: parse_json_agent_def parse_json_agent_loop_eq)

lemma get_agent_type_Ok [ok_iffs]:
  "get_agent_type j w = Ok t v \<longleftrightarrow> v = w \<and> (\<exists>es. j = JObject es \<and> t = get_agent_type_loop es)"
  by (cases j) (auto simp: get_agent_type_def json_object_object_foreach_def)

section \<open>Properties\<close>

text \<open>
  \<open>get_agent_type\<close> looks at the value of the first string-valued member of the object,
  whatever its key and whatever non-string members come before it, and answers the agent
  type that value names, \<open>REQ_INVALID\<close> when it names none or no member is a string.
\<close>

theorem get_agent_type_first_string:
  "get_agent_type (JObject es) w =
     Ok (case string_entries es of [] \<Rightarrow> REQ_INVALID | (_, v) # _ \<Rightarrow> classify v) w"
  by (simp add: get_agent_type_def get_agent_type_loop_eq)

text \<open>
  C18. \<open>parse_json_cmd\<close> leaves each field of the session with the value of the last string
  member of its key (\<open>commend_type\<close>, \<open>miner_mac\<close>, \<open>path\<close>, \<open>path_install\<close>, and \<open>sequence\<close>
  through \<open>atoi\<close>) and untouched when there is none; an empty \<open>path\<close> becomes the empty literal,
  an empty \<open>path_install\<close> becomes NULL, and each empty one leaks one block.
\<close>

theorem parse_json_cmd_fields:
  "parse_json_cmd (JObject es) s w =
     Ok (cmd_session es s) (w\<lparr>w_log := w_log w @ replicate (empty_paths es) Malloc\<rparr>)"
  by (rule parse_json_cmd_eq)

end
