(* ===== verification/Agent_Session.thy ===== *)
theory Agent_Session
  imports Agent_Parse
begin

text \<open>
  The functions of \<^verbatim>\<open>session.c\<close>: \<open>socket_read\<close>, which reassembles a NUL-terminated message from
  the chunks \<open>recv\<close> gives, \<open>msg_client_info\<close>, which builds the command sent to an agent, and
  the unused \<open>append_null\<close>. \<open>json_lib\<close> states what the program relies on of json-c.
\<close>

section \<open>Definitions\<close>

abbreviation MAX_RECV_BUFF_SIZE :: nat where
  "MAX_RECV_BUFF_SIZE \<equiv> 256"

text \<open>
  One answer of \<open>recv(fd, buff, 256, MSG_DONTWAIT)\<close>: the bytes stored in \<open>buff\<close> (none when the
  peer has shut the connection down), or \<open>-1\<close> with \<open>errno\<close>. The answers to the successive
  calls of one \<open>socket_read\<close> are a list; the call never blocks, so past its end the answer is
  \<open>EAGAIN\<close>.
\<close>

datatype recv_result = Recv string | RecvErr errno

text \<open>
  The loop of \<open>socket_read\<close>: \<open>data\<close> is the content of the block \<open>recv_data\<close> points to, which
  \<open>realloc\<close> keeps at exactly \<open>recv_len\<close> bytes; \<open>slack n\<close> is the byte that happens to lie behind
  a block of \<open>n\<close> bytes. The block starts out as 256 zero bytes and is then cut to what has arrived, so an
  allocator that shrinks a block in place leaves a zero there, one that moves it need not: any \<open>slack\<close> is
  possible, and the properties say what follows from it. The result is \<open>recv_data\<close> (\<open>None\<close> for NULL)
  and \<open>*ret\<close>.
\<close>

fun socket_read_loop ::
  "(nat \<Rightarrow> char) \<Rightarrow> recv_result list \<Rightarrow> string \<Rightarrow> ('db, 'z) world_scheme \<Rightarrow>
     (string option \<times> int, ('db, 'z) world_scheme) outcome" where
  "socket_read_loop slack [] data w = Ok (Some data, -2) w"
| "socket_read_loop slack (RecvErr e # rs) data w =
     (if e = EAGAIN \<or> e = EWOULDBLOCK then Ok (Some data, -2) w else Ok (Some data, -3) w)"
| "socket_read_loop slack (Recv buff # rs) data w =
     (let len = length buff in
      if len = 0 then Ok (None, -1) (mj_free (Some data) w)
      else let recv_len = length data + len in
      if int recv_len > INT_MAX then Stop (Crash SignedOverflow) w
      else let recv_data = data @ buff in
      if recv_data ! (recv_len - 1) = NUL then Ok (Some recv_data, 0) w
      else let w = emit (OobRead recv_len recv_len) w in
      if slack recv_len = NUL then Ok (Some recv_data, 0) w
      else socket_read_loop slack rs recv_data w)"

definition socket_read ::
  "(nat \<Rightarrow> char) \<Rightarrow> recv_result list \<Rightarrow> ('db, 'z) world_scheme \<Rightarrow>
     (string option \<times> int, ('db, 'z) world_scheme) outcome" where
  "socket_read slack rs w = socket_read_loop slack rs [] (emit Malloc w)"

text \<open>
  The same loop on a socket whose answers never end: \<open>recvs i\<close> is the answer to the call number \<open>i\<close>. Every
  turn that goes on adds at least one byte to a block of at most \<open>INT_MAX\<close> bytes.
\<close>

function socket_read_from ::
  "(nat \<Rightarrow> char) \<Rightarrow> (nat \<Rightarrow> recv_result) \<Rightarrow> nat \<Rightarrow> string \<Rightarrow> ('db, 'z) world_scheme \<Rightarrow>
     (string option \<times> int, ('db, 'z) world_scheme) outcome" where
  "socket_read_from slack recvs i data w = (case recvs i of
       RecvErr e \<Rightarrow> if e = EAGAIN \<or> e = EWOULDBLOCK then Ok (Some data, -2) w else Ok (Some data, -3) w
     | Recv buff \<Rightarrow>
         let len = length buff in
         if len = 0 then Ok (None, -1) (mj_free (Some data) w)
         else let recv_len = length data + len in
         if int recv_len > INT_MAX then Stop (Crash SignedOverflow) w
         else let recv_data = data @ buff in
         if recv_data ! (recv_len - 1) = NUL then Ok (Some recv_data, 0) w
         else let w = emit (OobRead recv_len recv_len) w in
         if slack recv_len = NUL then Ok (Some recv_data, 0) w
         else socket_read_from slack recvs (i + 1) recv_data w)"
  by pat_completeness auto

termination
  by (relation "measure (\<lambda>(slack, recvs, i, data, w). nat (INT_MAX + 1 - int (length data)))") auto

definition socket_read_endless ::
  "(nat \<Rightarrow> char) \<Rightarrow> (nat \<Rightarrow> recv_result) \<Rightarrow> ('db, 'z) world_scheme \<Rightarrow>
     (string option \<times> int, ('db, 'z) world_scheme) outcome" where
  "socket_read_endless slack recvs w = socket_read_from slack recvs 0 [] (emit Malloc w)"

text \<open>\<open>json_object_new_string\<close> takes a string; it has no answer for NULL.\<close>

definition json_object_new_string :: "string option \<Rightarrow> 'w \<Rightarrow> (json, 'w) outcome" where
  "json_object_new_string s w = (case s of
       None \<Rightarrow> Stop (Crash NullDeref) w
     | Some t \<Rightarrow> Ok (JString (c_str t)) w)"

text \<open>
  The \<open>case 1\<close> of the switch in \<open>msg_client_info\<close>. \<open>fs\<close> gives the content of the files that can
  be opened. A file that can be opened is opened twice; the byte written at
  \<open>file_size + 1\<close> lies behind the block of \<open>file_size + 1\<close> bytes. The result is \<open>file_buff\<close>. The files are
  regular ones, which \<open>ftell\<close> measures and \<open>fread\<close> reads whole, and the second \<open>fopen\<close> and the \<open>malloc\<close> do
  not fail where the first \<open>fopen\<close> did not: the code checks none of them.
\<close>

definition msg_read_file ::
  "(string \<Rightarrow> string option) \<Rightarrow> string \<Rightarrow> ('db, 'z) world_scheme \<Rightarrow>
     (string option, ('db, 'z) world_scheme) outcome" where
  "msg_read_file fs file w = (case fs file of
       None \<Rightarrow> Ok None w
     | Some bytes \<Rightarrow>
         let file_size = length bytes;
             w = emit (Fopen file) (emit (Fopen file) w);
             w = emit Malloc w;
             w = emit (OobWrite (file_size + 1) (file_size + 1)) w
         in Ok (Some bytes) w)"

text \<open>\<open>fclose(fp)\<close>; \<open>fp\<close> is NULL exactly when no file was opened.\<close>

definition c_fclose ::
  "string option \<Rightarrow> ('db, 'z) world_scheme \<Rightarrow> (unit, ('db, 'z) world_scheme) outcome" where
  "c_fclose fp w = (case fp of None \<Rightarrow> Stop (Crash NullDeref) w | Some _ \<Rightarrow> Ok () (emit Fclose w))"

text \<open>The result of \<open>msg_client_info\<close> is the buffer; \<open>*len\<close> is its length.\<close>

definition msg_client_info ::
  "json_api \<Rightarrow> (string \<Rightarrow> string option) \<Rightarrow> session_t \<Rightarrow> ('db, 'z) world_scheme \<Rightarrow>
     (string, ('db, 'z) world_scheme) outcome" where
  "msg_client_info api fs session w =
     (let add = json_object_object_add api; w = emit JsonNew w in
      obind (c_read (cmd_type session) w) (\<lambda>cmd w.
      obind (c_read (path session) w) (\<lambda>file w.
      let json = add (JObject []) ''commend_type'' (JString cmd);
          json = add json ''path'' (JString file);
          json = add json ''sequence'' (JInt (sequence session))
      in
      obind (parse_cmd_type (cmd_type session) w) (\<lambda>cmd_type w.
      obind (if cmd_type = 1 then msg_read_file fs file w else Ok None w) (\<lambda>file_buff w.
      obind (json_object_new_string file_buff w) (\<lambda>content w.
      let json = add json ''content'' content in
      obind (c_read (path_install session) w) (\<lambda>install w.
      let json = add json ''path_install'' (JString install);
          buff = c_str (json_object_to_json_string api json);
          w = mj_free file_buff (emit Malloc w)
      in
      obind (c_fclose file_buff w) (\<lambda>_ w. Ok buff w))))))))"

text \<open>
  \<open>append_null\<close> (not called anywhere): it grows the block to \<open>len + 1\<close> bytes and writes the
  terminator at offset \<open>len + 1\<close>.
\<close>

definition append_null :: "int \<Rightarrow> ('db, 'z) world_scheme \<Rightarrow> (int, ('db, 'z) world_scheme) outcome" where
  "append_null len w =
     (if len = INT_MAX then Stop (Crash SignedOverflow) w
      else Ok (len + 1) (emit (OobWrite (nat (len + 1)) (nat (len + 1))) w))"

section \<open>What the program relies on of json-c\<close>

text \<open>
  A flat message: an object of distinct keys whose members are strings without NUL bytes and
  \<open>int\<close>s. Adding a member under a new key appends it, and parsing what was printed gives the
  object back.
\<close>

fun flat_value :: "json \<Rightarrow> bool" where
  "flat_value (JString s) = nul_free s"
| "flat_value (JInt i) = int32 i"
| "flat_value _ = False"

definition flat_entries :: "(string \<times> json) list \<Rightarrow> bool" where
  "flat_entries es \<longleftrightarrow>
     distinct (map fst es) \<and> (\<forall>(k, v) \<in> set es. nul_free k \<and> flat_value v)"

locale json_lib =
  fixes api :: json_api
  assumes add_fresh:
      "k \<notin> fst ` set es \<Longrightarrow>
         json_object_object_add api (JObject es) k v = JObject (es @ [(k, v)])"
    and parse_print:
      "flat_entries es \<Longrightarrow>
         json_tokener_parse api (c_str (json_object_to_json_string api (JObject es))) = JObject es"
begin

lemma add_chain:
  "json_object_object_add api (json_object_object_add api (json_object_object_add api
     (json_object_object_add api (json_object_object_add api (JObject [])
       ''commend_type'' a) ''path'' b) ''sequence'' c) ''content'' d) ''path_install'' e =
   JObject [(''commend_type'', a), (''path'', b), (''sequence'', c), (''content'', d),
            (''path_install'', e)]"
  by (simp add: add_fresh)

end

text \<open>The command an agent is meant to receive.\<close>

definition command_entries ::
  "string \<Rightarrow> string \<Rightarrow> int \<Rightarrow> string \<Rightarrow> string \<Rightarrow> (string \<times> json) list" where
  "command_entries cmd file seq content install =
     [(''commend_type'', JString cmd), (''path'', JString file), (''sequence'', JInt seq),
      (''content'', JString content), (''path_install'', JString install)]"

text \<open>The out-of-range reads of reassembling the chunks \<open>cs\<close> after \<open>n\<close> bytes: one per chunk but the last.\<close>

fun prefix_reads :: "nat \<Rightarrow> string list \<Rightarrow> effect list" where
  "prefix_reads n [] = []"
| "prefix_reads n (c # cs) =
     (if cs = [] then []
      else OobRead (n + length c) (n + length c) # prefix_reads (n + length c) cs)"

text \<open>The answers of a list, as those of a socket that has no more to say.\<close>

definition then_again :: "recv_result list \<Rightarrow> nat \<Rightarrow> recv_result" where
  "then_again rs i = (if i < length rs then rs ! i else RecvErr EAGAIN)"

text \<open>
  The pieces of \<open>cs\<close> that are read, after \<open>n\<close> bytes, when each piece but the last lacks the terminator: up to
  the first one behind which a zero happens to lie.
\<close>

fun pieces_read :: "(nat \<Rightarrow> char) \<Rightarrow> nat \<Rightarrow> string list \<Rightarrow> string list" where
  "pieces_read slack n [] = []"
| "pieces_read slack n (c # cs) =
     (if slack (n + length c) = NUL then [c] else c # pieces_read slack (n + length c) cs)"

text \<open>
  What arrived before the call number \<open>n\<close>; whether an answer to a call with the text \<open>d\<close> in the block is the last
  one asked for; and what \<open>socket_read\<close> gives then.
\<close>

fun piece :: "recv_result \<Rightarrow> string" where
  "piece (Recv c) = c"
| "piece (RecvErr e) = []"

definition text_before :: "(nat \<Rightarrow> recv_result) \<Rightarrow> nat \<Rightarrow> string" where
  "text_before recvs n = concat (map (\<lambda>i. piece (recvs i)) [0..<n])"

fun ends_read :: "(nat \<Rightarrow> char) \<Rightarrow> string \<Rightarrow> recv_result \<Rightarrow> bool" where
  "ends_read slack d (RecvErr e) \<longleftrightarrow> True"
| "ends_read slack d (Recv c) \<longleftrightarrow>
     c = [] \<or> INT_MAX < int (length (d @ c)) \<or> last c = NUL \<or> slack (length (d @ c)) = NUL"

fun read_ending :: "string \<Rightarrow> recv_result \<Rightarrow> 'w \<Rightarrow> (string option \<times> int, 'w) outcome" where
  "read_ending d (RecvErr e) w = Ok (Some d, if e = EAGAIN \<or> e = EWOULDBLOCK then -2 else -3) w"
| "read_ending d (Recv c) w =
     (if c = [] then Ok (None, -1) w
      else if INT_MAX < int (length (d @ c)) then Stop (Crash SignedOverflow) w
      else Ok (Some (d @ c), 0) w)"

definition sendable :: "(string \<Rightarrow> string option) \<Rightarrow> session_t \<Rightarrow> bool" where
  "sendable fs s \<longleftrightarrow>
     readable (cmd_type s) \<and> readable (path s) \<and> readable (path_install s) \<and>
     ptr_text (cmd_type s) = ''file-download'' \<and> fs (ptr_text (path s)) \<noteq> None"

section \<open>Lemmas\<close>

lemma parse_cmd_type_eq [outcome_simps]:
  "readable p \<Longrightarrow>
     parse_cmd_type p w = Ok (if ptr_text p = ''file-download'' then 1 else -1) w"
  by (auto simp: parse_cmd_type_def strcmp_eq_def)

lemma socket_read_loop_step:
  assumes "c \<noteq> []" and "int (length data + length c) \<le> INT_MAX"
  shows "socket_read_loop slack (Recv c # rs) data w =
    (if last c = NUL then Ok (Some (data @ c), 0) w
     else if slack (length data + length c) = NUL
     then Ok (Some (data @ c), 0) (emit (OobRead (length data + length c) (length data + length c)) w)
     else socket_read_loop slack rs (data @ c)
       (emit (OobRead (length data + length c) (length data + length c)) w))"
proof -
  have "(data @ c) ! (length data + length c - 1) = last c"
    using assms(1) last_conv_nth [of "data @ c"] by simp
  with assms show ?thesis by (simp add: Let_def del: length_append)
qed

text \<open>A message in pieces.\<close>

lemma socket_read_loop_pieces:
  assumes "concat cs = m @ [NUL]" and "nul_free m" and "[] \<notin> set cs"
    and "int (length data + length m) < INT_MAX"
  shows "socket_read_loop slack (map Recv cs @ rs) data w =
    Ok (Some (data @ concat (pieces_read slack (length data) cs)), 0)
      (w\<lparr>w_log := w_log w @
         prefix_reads (length data) (take (Suc (length (pieces_read slack (length data) cs))) cs)\<rparr>)"
  using assms
proof (induction cs arbitrary: data m w)
  case Nil
  then show ?case by simp
next
  case (Cons c cs)
  have c: "c \<noteq> []" using Cons.prems(3) by auto
  show ?case
  proof (cases "cs = []")
    case True
    with Cons.prems show ?thesis by (simp add: socket_read_loop_step del: socket_read_loop.simps(3))
  next
    case False
    then have "concat cs \<noteq> []" using Cons.prems(3) by (cases cs) auto
    then obtain m' where m': "concat cs = m' @ [last (concat cs)]"
      by (metis append_butlast_last_id)
    with Cons.prems(1) have m: "m = c @ m'" and cs: "concat cs = m' @ [NUL]"
      by (metis append_assoc append1_eq_conv concat.simps(2))+
    from c have "last c \<in> set c" by simp
    with m Cons.prems(2) have "last c \<noteq> NUL" by (auto simp: nul_free_def)
    moreover have "int (length data + length c) \<le> INT_MAX" using Cons.prems(4) m by simp
    moreover have "socket_read_loop slack (map Recv cs @ rs) (data @ c) w' =
        Ok (Some ((data @ c) @ concat (pieces_read slack (length (data @ c)) cs)), 0)
          (w'\<lparr>w_log := w_log w' @ prefix_reads (length (data @ c))
             (take (Suc (length (pieces_read slack (length (data @ c)) cs))) cs)\<rparr>)"
      for w' :: "('a, 'b) world_scheme"
      using Cons.prems m by (intro Cons.IH) (auto simp: cs)
    moreover have "take (Suc 0) cs \<noteq> []" "take (Suc n) cs \<noteq> []" for n using False by (cases cs; simp)+
    ultimately show ?thesis
      using c False
      by (cases cs) (simp_all add: socket_read_loop_step emit_def del: socket_read_loop.simps(3))
  qed
qed

lemma ball_first:
  "(\<forall>k \<in> {1..<Suc n}. P k) \<longleftrightarrow> (0 < n \<longrightarrow> P 1) \<and> (\<forall>k \<in> {1..<n}. P (Suc k))"
proof -
  have "(\<forall>k \<in> {1..<Suc n}. P k) \<longleftrightarrow> (\<forall>k \<in> {0..<n}. P (Suc k))"
    unfolding One_nat_def image_Suc_atLeastLessThan [symmetric] by blast
  also have "\<dots> \<longleftrightarrow> (0 < n \<longrightarrow> P 1) \<and> (\<forall>k \<in> {1..<n}. P (Suc k))"
  proof (cases n)
    case (Suc l)
    then have "{0..<n} = insert 0 {1..<n}" by auto
    then show ?thesis using Suc by simp
  qed simp
  finally show ?thesis .
qed

lemma pieces_read_all:
  "pieces_read slack n cs = cs \<longleftrightarrow> (\<forall>k \<in> {1..<length cs}. slack (n + length (concat (take k cs))) \<noteq> NUL)"
proof (induction cs arbitrary: n)
  case (Cons c cs)
  have "(\<forall>k \<in> {1..<length (c # cs)}. slack (n + length (concat (take k (c # cs)))) \<noteq> NUL) \<longleftrightarrow>
      (cs \<noteq> [] \<longrightarrow> slack (n + length c) \<noteq> NUL) \<and>
      (\<forall>k \<in> {1..<length cs}. slack (n + length c + length (concat (take k cs))) \<noteq> NUL)"
    unfolding length_Cons ball_first by (simp add: add.assoc)
  then show ?case using Cons.IH [of "n + length c"] by auto
qed simp

lemma pieces_read_concat:
  assumes "[] \<notin> set cs"
  shows "concat (pieces_read slack n cs) = concat cs \<longleftrightarrow> pieces_read slack n cs = cs"
  using assms
proof (induction cs arbitrary: n)
  case (Cons c cs)
  have "concat cs = [] \<longleftrightarrow> cs = []" using Cons.prems by (cases cs) auto
  with Cons show ?case by auto
qed simp

text \<open>An endless socket.\<close>

lemma last_behind: "c \<noteq> [] \<Longrightarrow> (data @ c) ! (length data + length c - 1) = last c"
  using last_conv_nth [of "data @ c"] by simp

lemma text_before_Suc: "text_before recvs (Suc n) = text_before recvs n @ piece (recvs n)"
  by (simp add: text_before_def)

lemma socket_read_from_ends:
  assumes "int (length (text_before recvs i)) \<le> INT_MAX" and "i \<le> length (text_before recvs i)"
    and "\<And>k. k < i \<Longrightarrow> \<not> ends_read slack (text_before recvs k) (recvs k)"
  shows "\<exists>n v. int n \<le> INT_MAX \<and> (\<forall>k < n. \<not> ends_read slack (text_before recvs k) (recvs k)) \<and>
    ends_read slack (text_before recvs n) (recvs n) \<and>
    socket_read_from slack recvs i (text_before recvs i) w = read_ending (text_before recvs n) (recvs n) v"
  using assms
proof (induction "nat (INT_MAX + 1 - int (length (text_before recvs i)))" arbitrary: i w rule: less_induct)
  case less
  let ?d = "text_before recvs i"
  note [simp del] = socket_read_from.simps
  show ?case
  proof (cases "ends_read slack ?d (recvs i)")
    case True
    have "\<exists>v. socket_read_from slack recvs i ?d w = read_ending ?d (recvs i) v"
    proof (cases "recvs i")
      case (Recv c)
      with True show ?thesis
        using last_behind [of c ?d] by (auto simp: socket_read_from.simps [of slack recvs i] Let_def)
    qed (auto simp: socket_read_from.simps [of slack recvs i])
    moreover have "int i \<le> INT_MAX" using less.prems(1,2) by simp
    ultimately show ?thesis using True less.prems(3) by blast
  next
    case False
    then obtain c where c: "recvs i = Recv c" "c \<noteq> []" "int (length (?d @ c)) \<le> INT_MAX" "last c \<noteq> NUL"
        "slack (length (?d @ c)) \<noteq> NUL"
      by (cases "recvs i") (auto simp: not_less)
    have d: "text_before recvs (Suc i) = ?d @ c" using c(1) by (simp add: text_before_Suc)
    have step: "socket_read_from slack recvs i ?d w = socket_read_from slack recvs (Suc i) (text_before recvs (Suc i))
        (emit (OobRead (length ?d + length c) (length ?d + length c)) w)"
      using c last_behind [OF c(2), of ?d] by (simp add: socket_read_from.simps [of slack recvs i] Let_def d)
    have "1 \<le> length c" using c(2) by (cases c) auto
    then show ?thesis
      unfolding step using c(3) less.prems(2,3) False
      by (intro less.hyps) (auto simp: d less_Suc_eq)
  qed
qed

lemma socket_read_from_list:
  "rs = drop i all \<Longrightarrow> i \<le> length all \<Longrightarrow>
     socket_read_from slack (then_again all) i data w = socket_read_loop slack rs data w"
proof (induction rs arbitrary: i data w)
  case Nil
  then show ?case by (simp add: then_again_def)
next
  case (Cons r rs)
  have i: "i < length all" using Cons.prems by (cases "i < length all") auto
  have "r # rs = all ! i # drop (Suc i) all" using Cons.prems(1) Cons_nth_drop_Suc [OF i] by metis
  then have r: "then_again all i = r" "rs = drop (Suc i) all" using i by (simp_all add: then_again_def)
  have "socket_read_from slack (then_again all) (Suc i) d u = socket_read_loop slack rs d u"
    for d and u :: "('a, 'b) world_scheme"
    using Cons.IH r(2) i by simp
  then show ?case by (cases r) (simp_all add: socket_read_from.simps [of slack "then_again all" i] r(1) Let_def)
qed

lemma msg_client_info_Ok:
  "msg_client_info api fs s w = Ok b v \<longleftrightarrow>
     readable (cmd_type s) \<and> readable (path s) \<and> readable (path_install s) \<and>
     ptr_text (cmd_type s) = ''file-download'' \<and>
     (\<exists>bytes. fs (ptr_text (path s)) = Some bytes \<and>
        b = c_str (json_object_to_json_string api
          (json_object_object_add api (json_object_object_add api (json_object_object_add api
            (json_object_object_add api (json_object_object_add api (JObject [])
              ''commend_type'' (JString (ptr_text (cmd_type s)))) ''path'' (JString (ptr_text (path s))))
              ''sequence'' (JInt (sequence s))) ''content'' (JString (c_str bytes)))
              ''path_install'' (JString (ptr_text (path_install s))))) \<and>
        v = w\<lparr>w_log := w_log w @ [JsonNew, Fopen (ptr_text (path s)), Fopen (ptr_text (path s)),
              Malloc, OobWrite (Suc (length bytes)) (Suc (length bytes)), Malloc, Free, Fclose]\<rparr>)"
  (is "?L \<longleftrightarrow> ?R")
proof (cases "readable (cmd_type s) \<and> readable (path s)")
  case False
  then show ?thesis
    by (auto simp: msg_client_info_def Let_def ok_iffs)
next
  case True
  then show ?thesis
    by (cases "ptr_text (cmd_type s) = ''file-download''"; cases "fs (ptr_text (path s))")
      (auto simp: msg_client_info_def Let_def parse_cmd_type_eq msg_read_file_def
        json_object_new_string_def c_fclose_def ok_iffs emit_def)
qed

lemma msg_client_info_sendable:
  "sendable fs s \<Longrightarrow> \<exists>b v. msg_client_info api fs s w = Ok b v"
  by (auto simp: msg_client_info_Ok sendable_def)

lemma msg_client_info_Stop:
  "msg_client_info api fs s w = Stop st v \<Longrightarrow> \<exists>f. st = Crash f"
  by (auto simp: msg_client_info_def Let_def obind_eq_Stop parse_cmd_type_def msg_read_file_def
      json_object_new_string_def c_fclose_def split: if_splits option.splits dest: c_read_Stop)

section \<open>Properties\<close>

text \<open>
  C9. What \<open>socket_read\<close> makes of a message that TCP cuts up, for every way of cutting it and every content of
  the memory behind the block: it gives the pieces up to the first one behind which a zero
  happens to lie, with \<open>*ret = 0\<close>, at the price of one read outside the block for every piece that does
  not end in NUL; so the message comes whole, with its terminator, exactly when the byte behind the
  block is non-zero after every piece but the last. A message in one piece always comes whole.
\<close>

theorem socket_read_reassembles:
  assumes "concat cs = m @ [NUL]" and "nul_free m" and "[] \<notin> set cs" and "int (length m) < INT_MAX"
  shows "socket_read slack (map Recv cs @ rs) w =
      Ok (Some (concat (pieces_read slack 0 cs)), 0)
        (w\<lparr>w_log := w_log w @ Malloc # prefix_reads 0 (take (Suc (length (pieces_read slack 0 cs))) cs)\<rparr>) \<and>
    (concat (pieces_read slack 0 cs) = m @ [NUL] \<longleftrightarrow>
      (\<forall>k \<in> {1..<length cs}. slack (length (concat (take k cs))) \<noteq> NUL))"
  using socket_read_loop_pieces [of cs m "[]" slack rs "emit Malloc w"] assms
    pieces_read_concat [OF assms(3), of slack 0] pieces_read_all [of slack 0 cs]
  by (simp add: socket_read_def emit_def)

theorem socket_read_reassembles_witness:
  "socket_read (\<lambda>n. if n = 7 then NUL else CHR ''z'') (map Recv [''{|a'', ''|:1}'', [NUL]] @ []) \<lparr>w_db = (), w_log = []\<rparr> =
     Ok (Some ''{|a|:1}'', 0)
       (\<lparr>w_db = (), w_log = []\<rparr>\<lparr>w_log := w_log \<lparr>w_db = (), w_log = []\<rparr> @
          Malloc # prefix_reads 0 [''{|a'', ''|:1}'', [NUL]]\<rparr>) \<and>
   socket_read (\<lambda>_. CHR ''z'') (map Recv [''{|a'', ''|:1}'', [NUL]] @ []) \<lparr>w_db = (), w_log = []\<rparr> =
     Ok (Some (''{|a|:1}'' @ [NUL]), 0)
       (\<lparr>w_db = (), w_log = []\<rparr>\<lparr>w_log := w_log \<lparr>w_db = (), w_log = []\<rparr> @
          Malloc # prefix_reads 0 [''{|a'', ''|:1}'', [NUL]]\<rparr>)"
  using socket_read_reassembles [of "[''{|a'', ''|:1}'', [NUL]]" "''{|a|:1}''" "\<lambda>n. if n = 7 then NUL else CHR ''z''" "[]"
      "\<lparr>w_db = (), w_log = []\<rparr>"]
    socket_read_reassembles [of "[''{|a'', ''|:1}'', [NUL]]" "''{|a|:1}''" "\<lambda>_. CHR ''z''" "[]" "\<lparr>w_db = (), w_log = []\<rparr>"]
  by simp

text \<open>
  C19. \<open>socket_read\<close> ends on a socket whose answers never end: it makes at most \<open>INT_MAX + 1\<close> calls of \<open>recv\<close>, and
  what it gives is decided by the first answer that is an error, the end of the stream, a piece
  that ends in NUL or behind which a zero lies, or a piece with which the length overflows. An error gives the
  text so far with \<open>-2\<close> (\<open>EAGAIN\<close>, \<open>EWOULDBLOCK\<close>) or \<open>-3\<close>, the end of the stream NULL with \<open>-1\<close>, and the other
  pieces the text with the piece and \<open>0\<close>. On a socket that runs out of answers it is \<open>socket_read\<close> on
  the list of them.
\<close>

theorem socket_read_returns:
  "(\<exists>n v. int n \<le> INT_MAX \<and> (\<forall>k < n. \<not> ends_read slack (text_before recvs k) (recvs k)) \<and>
     ends_read slack (text_before recvs n) (recvs n) \<and>
     socket_read_endless slack recvs w = read_ending (text_before recvs n) (recvs n) v) \<and>
   socket_read_endless slack (then_again rs) w = socket_read slack rs w"
  using socket_read_from_ends [of recvs 0 slack "emit Malloc w"] socket_read_from_list [of rs 0 rs slack "[]" "emit Malloc w"]
  by (simp_all add: socket_read_endless_def socket_read_def text_before_def)

theorem socket_read_returns_witness:
  "\<exists>v. socket_read_endless (\<lambda>_. CHR ''z'') (\<lambda>n. if n = 0 then Recv ''{|a'' else if n = 1 then Recv ''|:'' else RecvErr EAGAIN)
     \<lparr>w_db = (), w_log = []\<rparr> = Ok (Some ''{|a|:'', -2) v"
proof -
  let ?z = "\<lambda>_ :: nat. CHR ''z''" and ?r = "\<lambda>n :: nat. if n = 0 then Recv ''{|a'' else if n = 1 then Recv ''|:'' else RecvErr EAGAIN"
  obtain n v where n: "\<forall>k < n. \<not> ends_read ?z (text_before ?r k) (?r k)" "ends_read ?z (text_before ?r n) (?r n)"
      "socket_read_endless ?z ?r \<lparr>w_db = (), w_log = []\<rparr> = read_ending (text_before ?r n) (?r n) v"
    using socket_read_returns [of ?z ?r "\<lparr>w_db = (), w_log = []\<rparr>" "[]"] by blast
  have "ends_read ?z (text_before ?r 2) (?r 2)" by simp
  then have "\<not> 2 < n" using n(1) by blast
  moreover have "n \<noteq> 0" using n(2) by (cases "n = 0") (simp_all add: text_before_def)
  moreover have "n \<noteq> 1" using n(2) by (cases "n = 1") (simp_all add: text_before_def)
  ultimately have "n = 2" by linarith
  then show ?thesis using n(3) by (simp add: text_before_def numeral_2_eq_2)
qed

text \<open>
  The terminator test also reads the byte behind the block. For a first piece that does
  not end in NUL that read is out of range, and when the byte happens to be zero the piece is
  handed on as a complete message although the rest of it has not arrived.
\<close>

theorem socket_read_slack_truncates:
  assumes "c \<noteq> []" and "last c \<noteq> NUL" and "length c \<le> MAX_RECV_BUFF_SIZE"
    and "slack (length c) = NUL"
  shows "socket_read slack (Recv c # rs) w =
    Ok (Some c, 0) (w\<lparr>w_log := w_log w @ [Malloc, OobRead (length c) (length c)]\<rparr>)"
  using assms
  by (simp add: socket_read_def socket_read_loop_step emit_def del: socket_read_loop.simps(3))

theorem socket_read_slack_truncates_witness:
  "socket_read (\<lambda>_. NUL) [Recv ''{|agent_ty'', Recv ''pe|:1}''] \<lparr>w_db = (), w_log = []\<rparr> =
     Ok (Some ''{|agent_ty'', 0) (\<lparr>w_db = (), w_log = []\<rparr>\<lparr>w_log :=
       w_log \<lparr>w_db = (), w_log = []\<rparr> @ [Malloc, OobRead 10 10]\<rparr>)"
  using socket_read_slack_truncates [of "''{|agent_ty''" "\<lambda>_. NUL" "[Recv ''pe|:1}'']" "\<lparr>w_db = (), w_log = []\<rparr>"]
  by simp

text \<open>
  Two messages that arrive in one piece are read as one buffer, and only the text up to
  the first NUL reaches the JSON parser: the second message is lost.
\<close>

theorem socket_read_coalesced:
  assumes "nul_free m1" and "length m1 + length m2 + 2 \<le> MAX_RECV_BUFF_SIZE"
  shows "\<exists>d v. socket_read slack (Recv (m1 @ NUL # m2 @ [NUL]) # rs) w = Ok (Some d, 0) v \<and>
    parse_string_to_json api d = json_tokener_parse api m1"
  using assms
  by (simp add: socket_read_def socket_read_loop_step parse_string_to_json_def c_str_append_nul
      del: socket_read_loop.simps(3))

theorem socket_read_coalesced_witness:
  "\<exists>d v. socket_read (\<lambda>_. NUL) (Recv (''{}'' @ NUL # ''[]'' @ [NUL]) # []) \<lparr>w_db = (), w_log = []\<rparr> =
      Ok (Some d, 0) v \<and>
    parse_string_to_json \<lparr>json_tokener_parse = JString, json_object_to_json_string = (\<lambda>_. []),
      json_object_object_add = (\<lambda>j _ _. j)\<rparr> d =
    json_tokener_parse \<lparr>json_tokener_parse = JString, json_object_to_json_string = (\<lambda>_. []),
      json_object_object_add = (\<lambda>j _ _. j)\<rparr> ''{}''"
  by (rule socket_read_coalesced) simp_all

text \<open>
  \<open>msg_client_info\<close> comes back only for the command \<open>file-download\<close> with a \<open>path\<close> that can
  be opened and a \<open>path_install\<close> that is not NULL, dangling or unset; for every other command,
  and for a file that does not exist, the process crashes.
\<close>

theorem msg_client_info_returns_iff:
  "case msg_client_info api fs s w of
     Ok b v \<Rightarrow> sendable fs s
   | Stop st v \<Rightarrow> \<not> sendable fs s \<and> (\<exists>f. st = Crash f)"
proof (cases "msg_client_info api fs s w")
  case (Ok b v)
  then have "sendable fs s" by (auto simp: msg_client_info_Ok sendable_def)
  with Ok show ?thesis by simp
next
  case (Stop st v)
  then have "\<not> sendable fs s"
    by (metis msg_client_info_sendable outcome.distinct(1))
  with Stop show ?thesis by (auto dest: msg_client_info_Stop)
qed

end
