(* ===== verification/Agent_Log.thy ===== *)
theory Agent_Log
  imports Agent_Parse
begin

text \<open>
  The session table access of \<^verbatim>\<open>log.c\<close>. The MySQL client library is a parameter (\<open>mysql_api\<close>);
  the model builds the statements byte for byte as \<open>sprintf\<close> does, into arrays of 256 bytes.
  The lexical syntax of MySQL string literals (\<open>sql_lex\<close>) says what a statement means.
\<close>

section \<open>Definitions\<close>

text \<open>
  A row holds one C string or NULL per column. A result set is its list of rows; the
  connection, with the database behind it, is of type \<open>'db\<close>.
\<close>

type_synonym mysql_row = "string option list"

record 'db mysql_api =
  mysql_query :: "'db \<Rightarrow> string \<Rightarrow> int \<times> 'db"
  mysql_store_result :: "'db \<Rightarrow> mysql_row list option \<times> 'db"
  mysql_fetch_row :: "mysql_row list \<Rightarrow> mysql_row option"

abbreviation QUERY_LEN :: nat where
  "QUERY_LEN \<equiv> 256"

abbreviation quote :: char where
  "quote \<equiv> CHR 0x27"

definition quoted :: "string \<Rightarrow> string" where
  "quoted s = quote # s @ [quote]"

text \<open>The texts the format strings of \<^verbatim>\<open>log.c\<close> produce.\<close>

definition insert_sql :: "string \<Rightarrow> int \<Rightarrow> int \<Rightarrow> string" where
  "insert_sql mac fd atype =
     ''insert into cmd_agent_session (mac, fd, agent_type) values ('' @ quoted mac @ '', '' @
     quoted (fmt_d fd) @ '', '' @ quoted (fmt_d atype) @ '')''"

definition update_sql :: "int \<Rightarrow> int \<Rightarrow> string \<Rightarrow> string" where
  "update_sql fd atype mac =
     ''update cmd_agent_session set fd = '' @ quoted (fmt_d fd) @ '', agent_type = '' @
     quoted (fmt_d atype) @ '' where mac = '' @ quoted mac"

definition select_fd_sql :: "string \<Rightarrow> string" where
  "select_fd_sql mac = ''select fd from cmd_agent_session where mac = '' @ quoted mac"

definition delete_mac_sql :: "string \<Rightarrow> string" where
  "delete_mac_sql mac = ''delete from cmd_agent_session where mac='' @ quoted mac"

definition delete_fd_sql :: "int \<Rightarrow> string" where
  "delete_fd_sql fd = ''delete from cmd_agent_session where fd='' @ quoted (fmt_d fd)"

text \<open>
  The format string runs over a line break: the blanks that indent its second line belong to
  the statement, and so does the \<open>ANDi\<close>.
\<close>

definition update_log_sql :: "int \<Rightarrow> int \<Rightarrow> string \<Rightarrow> string" where
  "update_log_sql status seqno mac =
     ''update cmd_agent_session set status = '' @ fmt_d status @
     ''             where sequence = '' @ quoted (fmt_d seqno) @ '' ANDi mac = '' @ quoted mac"

definition select_session_sql :: "int \<Rightarrow> string" where
  "select_session_sql fd =
     ''select agent_type from cmd_agent_session where fd = '' @ quoted (fmt_d fd)"

text \<open>One call of \<open>mysql_query\<close> on the connection of the world.\<close>

definition do_query ::
  "'db mysql_api \<Rightarrow> string \<Rightarrow> ('db, 'z) world_scheme \<Rightarrow> int \<times> ('db, 'z) world_scheme" where
  "do_query api q w =
     (case mysql_query api (w_db w) q of (rc, d) \<Rightarrow> (rc, emit (Query q) (w\<lparr>w_db := d\<rparr>)))"

text \<open>
  \<open>connected\<close> says whether \<open>mysql_real_connect\<close> gave a connection; the result is whether
  \<open>conn\<close> is non-NULL. The handle allocated first is not released on failure.
\<close>

definition mysql_conn :: "bool \<Rightarrow> ('db, 'z) world_scheme \<Rightarrow> bool \<times> ('db, 'z) world_scheme" where
  "mysql_conn connected w =
     (let w = emit Malloc w;
          w = emit (Connect ''127.0.0.1'' ''root'' '''' ''monitoring'' 3306) w
      in (connected, w))"

definition mysql_insert_fd ::
  "'db mysql_api \<Rightarrow> cptr \<Rightarrow> int \<Rightarrow> agent_type_t \<Rightarrow> ('db, 'z) world_scheme \<Rightarrow>
     (int, ('db, 'z) world_scheme) outcome" where
  "mysql_insert_fd api mac_ptr fd atype w =
     obind (c_read mac_ptr w) (\<lambda>mac w.
     obind (sprintf_buf QUERY_LEN (insert_sql mac fd (agent_type_code atype)) w) (\<lambda>query_insert w.
     obind (sprintf_buf QUERY_LEN (update_sql fd (agent_type_code atype) mac) w) (\<lambda>query_update w.
       case do_query api query_insert w of (rc, w) \<Rightarrow>
         if rc = 0 then Ok fd w
         else (case do_query api query_update w of (rc, w) \<Rightarrow>
           if rc = 0 then Ok fd w else Ok (-2) w))))"

text \<open>
  The result handling \<open>mysql_select_fd\<close> and \<open>mysql_select_session\<close> share: store the result,
  fetch one row, read its first column with \<open>atoi\<close> into an unsigned 32-bit variable and return
  that as an \<open>int\<close>. The result set is never freed.
\<close>

definition select_first_int ::
  "'db mysql_api \<Rightarrow> string \<Rightarrow> ('db, 'z) world_scheme \<Rightarrow> (int, ('db, 'z) world_scheme) outcome" where
  "select_first_int api query w =
     (case do_query api query w of (rc, w) \<Rightarrow>
        if rc = 0 then
          (case mysql_store_result api (w_db w) of (ret, d) \<Rightarrow>
            let w = w\<lparr>w_db := d\<rparr> in
            (case ret of
               None \<Rightarrow> Ok (-4) w
             | Some rows \<Rightarrow>
                 let w = emit StoreResult w in
                 (case mysql_fetch_row api rows of
                    None \<Rightarrow> Ok (-5) w
                  | Some row \<Rightarrow>
                      (case row of
                         [] \<Rightarrow> Stop (Crash WildPtr) w
                       | None # _ \<Rightarrow> Stop (Crash NullDeref) w
                       | Some t # _ \<Rightarrow> Ok (sint (word_of_int (atoi t) :: 32 word)) w))))
        else Ok (-3) w)"

definition mysql_select_fd ::
  "'db mysql_api \<Rightarrow> cptr \<Rightarrow> ('db, 'z) world_scheme \<Rightarrow> (int, ('db, 'z) world_scheme) outcome" where
  "mysql_select_fd api mac_ptr w =
     obind (c_read mac_ptr w) (\<lambda>mac w.
     obind (sprintf_buf QUERY_LEN (select_fd_sql mac) w) (\<lambda>query w. select_first_int api query w))"

definition mysql_delete_mac ::
  "'db mysql_api \<Rightarrow> cptr \<Rightarrow> ('db, 'z) world_scheme \<Rightarrow> (int, ('db, 'z) world_scheme) outcome" where
  "mysql_delete_mac api mac_ptr w =
     obind (c_read mac_ptr w) (\<lambda>mac w.
     obind (sprintf_buf QUERY_LEN (delete_mac_sql mac) w) (\<lambda>query w.
       case do_query api query w of (rc, w) \<Rightarrow> if rc = 0 then Ok 0 w else Ok (-2) w))"

definition mysql_delete_fd ::
  "'db mysql_api \<Rightarrow> int \<Rightarrow> ('db, 'z) world_scheme \<Rightarrow> (int, ('db, 'z) world_scheme) outcome" where
  "mysql_delete_fd api fd w =
     obind (sprintf_buf QUERY_LEN (delete_fd_sql fd) w) (\<lambda>query w.
       case do_query api query w of (rc, w) \<Rightarrow> if rc = 0 then Ok 0 w else Ok (-2) w)"

definition mysql_update_log ::
  "'db mysql_api \<Rightarrow> int \<Rightarrow> cptr \<Rightarrow> int \<Rightarrow> ('db, 'z) world_scheme \<Rightarrow>
     (int, ('db, 'z) world_scheme) outcome" where
  "mysql_update_log api seqno mac_ptr status w =
     obind (c_read mac_ptr w) (\<lambda>mac w.
     obind (sprintf_buf QUERY_LEN (update_log_sql status seqno mac) w) (\<lambda>query_update w.
       case do_query api query_update w of (rc, w) \<Rightarrow> if rc = 0 then Ok 0 w else Ok (-2) w))"

definition mysql_select_session ::
  "'db mysql_api \<Rightarrow> int \<Rightarrow> ('db, 'z) world_scheme \<Rightarrow> (int, ('db, 'z) world_scheme) outcome" where
  "mysql_select_session api fd w =
     obind (sprintf_buf QUERY_LEN (select_session_sql fd) w) (\<lambda>query w. select_first_int api query w)"

section \<open>What a statement means: the lexical syntax\<close>

text \<open>
  The tokens of a statement: words (names, keywords, numbers), string literals in single
  quotes, other characters. Inside a literal a doubled quote and a backslash escape stand
  for one character.
\<close>

datatype sql_token = TWord string | TStr string | TSym char

datatype sql_mode = LNone | LWord string | LStr string | LEsc string | LQuote string

definition word_char :: "char \<Rightarrow> bool" where
  "word_char c \<longleftrightarrow> (let n = (of_char c :: nat) in
     48 \<le> n \<and> n \<le> 57 \<or> 65 \<le> n \<and> n \<le> 90 \<or> 97 \<le> n \<and> n \<le> 122 \<or> n = 95 \<or> n = 36 \<or> 128 \<le> n)"

definition sql_escape :: "char \<Rightarrow> char" where
  "sql_escape c =
     (if c = CHR ''n'' then CHR 0x0A else if c = CHR ''t'' then CHR 0x09
      else if c = CHR ''r'' then CHR 0x0D else if c = CHR ''b'' then CHR 0x08
      else if c = CHR ''0'' then NUL else if c = CHR ''Z'' then CHR 0x1A else c)"

definition sql_start :: "char \<Rightarrow> sql_token list \<times> sql_mode" where
  "sql_start c =
     (if c = quote then ([], LStr [])
      else if is_space c then ([], LNone)
      else if word_char c then ([], LWord [c])
      else ([TSym c], LNone))"

fun sql_step :: "sql_mode \<Rightarrow> char \<Rightarrow> sql_token list \<times> sql_mode" where
  "sql_step LNone c = sql_start c"
| "sql_step (LWord a) c =
     (if word_char c then ([], LWord (c # a))
      else case sql_start c of (ts, m) \<Rightarrow> (TWord (rev a) # ts, m))"
| "sql_step (LStr a) c =
     (if c = quote then ([], LQuote a) else if c = CHR 0x5C then ([], LEsc a) else ([], LStr (c # a)))"
| "sql_step (LEsc a) c = ([], LStr (sql_escape c # a))"
| "sql_step (LQuote a) c =
     (if c = quote then ([], LStr (quote # a))
      else case sql_start c of (ts, m) \<Rightarrow> (TStr (rev a) # ts, m))"

fun sql_run :: "sql_mode \<Rightarrow> string \<Rightarrow> sql_token list \<times> sql_mode" where
  "sql_run m [] = ([], m)"
| "sql_run m (c # cs) =
     (case sql_step m c of (ts, m1) \<Rightarrow> (case sql_run m1 cs of (us, m2) \<Rightarrow> (ts @ us, m2)))"

fun sql_finish :: "sql_mode \<Rightarrow> sql_token list option" where
  "sql_finish LNone = Some []"
| "sql_finish (LWord a) = Some [TWord (rev a)]"
| "sql_finish (LQuote a) = Some [TStr (rev a)]"
| "sql_finish (LStr a) = None"
| "sql_finish (LEsc a) = None"

definition sql_lex :: "string \<Rightarrow> sql_token list option" where
  "sql_lex s = (case sql_run LNone s of (ts, m) \<Rightarrow> map_option (\<lambda>us. ts @ us) (sql_finish m))"

text \<open>A statement with its literals taken out, and the literals in order.\<close>

fun sql_skeleton :: "sql_token list \<Rightarrow> sql_token list" where
  "sql_skeleton [] = []"
| "sql_skeleton (TStr _ # ts) = TStr [] # sql_skeleton ts"
| "sql_skeleton (t # ts) = t # sql_skeleton ts"

fun sql_literals :: "sql_token list \<Rightarrow> string list" where
  "sql_literals [] = []"
| "sql_literals (TStr s # ts) = s # sql_literals ts"
| "sql_literals (_ # ts) = sql_literals ts"

definition sql_parts :: "string \<Rightarrow> (sql_token list \<times> string list) option" where
  "sql_parts q = map_option (\<lambda>ts. (sql_skeleton ts, sql_literals ts)) (sql_lex q)"

text \<open>A text that can stand between single quotes as it is.\<close>

definition sql_safe :: "string \<Rightarrow> bool" where
  "sql_safe s \<longleftrightarrow> quote \<notin> set s \<and> CHR 0x5C \<notin> set s"

text \<open>The templates of the statements, literals taken out.\<close>

definition insert_skel :: "sql_token list" where
  "insert_skel =
     [TWord ''insert'', TWord ''into'', TWord ''cmd_agent_session'', TSym CHR ''('', TWord ''mac'',
      TSym CHR '','', TWord ''fd'', TSym CHR '','', TWord ''agent_type'', TSym CHR '')'',
      TWord ''values'', TSym CHR ''('', TStr [], TSym CHR '','', TStr [], TSym CHR '','', TStr [],
      TSym CHR '')'']"

definition update_skel :: "sql_token list" where
  "update_skel =
     [TWord ''update'', TWord ''cmd_agent_session'', TWord ''set'', TWord ''fd'', TSym CHR ''='',
      TStr [], TSym CHR '','', TWord ''agent_type'', TSym CHR ''='', TStr [], TWord ''where'',
      TWord ''mac'', TSym CHR ''='', TStr []]"

definition select_fd_skel :: "sql_token list" where
  "select_fd_skel =
     [TWord ''select'', TWord ''fd'', TWord ''from'', TWord ''cmd_agent_session'', TWord ''where'',
      TWord ''mac'', TSym CHR ''='', TStr []]"

definition delete_mac_skel :: "sql_token list" where
  "delete_mac_skel =
     [TWord ''delete'', TWord ''from'', TWord ''cmd_agent_session'', TWord ''where'', TWord ''mac'',
      TSym CHR ''='', TStr []]"

definition delete_fd_skel :: "sql_token list" where
  "delete_fd_skel =
     [TWord ''delete'', TWord ''from'', TWord ''cmd_agent_session'', TWord ''where'', TWord ''fd'',
      TSym CHR ''='', TStr []]"

text \<open>The status is not quoted: it is a number token in the statement, with a minus sign before it when it is negative.\<close>

definition number_tokens :: "int \<Rightarrow> sql_token list" where
  "number_tokens i = (if i < 0 then [TSym CHR ''-'', TWord (dec_nat (nat (- i)))] else [TWord (dec_nat (nat i))])"

definition update_log_skel :: "int \<Rightarrow> sql_token list" where
  "update_log_skel st =
     [TWord ''update'', TWord ''cmd_agent_session'', TWord ''set'', TWord ''status'', TSym CHR ''=''] @ number_tokens st @
     [TWord ''where'', TWord ''sequence'', TSym CHR ''='', TStr [], TWord ''ANDi'', TWord ''mac'', TSym CHR ''='', TStr []]"

definition select_session_skel :: "sql_token list" where
  "select_session_skel =
     [TWord ''select'', TWord ''agent_type'', TWord ''from'', TWord ''cmd_agent_session'',
      TWord ''where'', TWord ''fd'', TSym CHR ''='', TStr []]"

text \<open>A row of \<open>cmd_agent_session\<close>: mac, fd, agent type.\<close>

type_synonym session_row = "string \<times> int \<times> int"

text \<open>The table as a registry: the descriptor each name is bound to.\<close>

definition registry_of ::
  "('db \<Rightarrow> session_row list) \<Rightarrow> ('db, 'z) world_scheme \<Rightarrow> string \<Rightarrow> int option" where
  "registry_of tbl w = (\<lambda>m. map_option fst (map_of (tbl (w_db w)) m))"

definition db_up :: "('db \<Rightarrow> bool) \<Rightarrow> ('db, 'z) world_scheme \<Rightarrow> bool" where
  "db_up up w \<longleftrightarrow> up (w_db w)"

section \<open>Lemmas\<close>

subsection \<open>The lexer\<close>

lemma sql_run_append:
  "sql_run m (xs @ ys) =
     (case sql_run m xs of (ts, m1) \<Rightarrow> (case sql_run m1 ys of (us, m2) \<Rightarrow> (ts @ us, m2)))"
  by (induction xs arbitrary: m) (auto split: prod.split)

lemma sql_run_LStr: "sql_safe s \<Longrightarrow> sql_run (LStr a) s = ([], LStr (rev s @ a))"
  by (induction s arbitrary: a) (auto simp: sql_safe_def)

lemma sql_run_quoted: "sql_safe s \<Longrightarrow> sql_run LNone (quoted s) = ([], LQuote (rev s))"
  by (simp add: quoted_def sql_start_def sql_run_append sql_run_LStr)

lemma sql_safe_dec_nat: "sql_safe (dec_nat n)"
  using dec_nat_digits [of n] by (auto simp: sql_safe_def is_digit_def)

lemma sql_safe_fmt_d [simp]: "sql_safe (fmt_d i)"
  using sql_safe_dec_nat by (auto simp: fmt_d_def sql_safe_def)

lemma sql_run_separators:
  "sql_run (LQuote (rev s)) '', '' = ([TStr s, TSym CHR '','' ], LNone)"
  "sql_run (LQuote (rev s)) '')'' = ([TStr s, TSym CHR '')''], LNone)"
  "sql_run (LQuote (rev s)) '', agent_type = '' =
     ([TStr s, TSym CHR '','', TWord ''agent_type'', TSym CHR ''=''], LNone)"
  "sql_run (LQuote (rev s)) '' where mac = '' =
     ([TStr s, TWord ''where'', TWord ''mac'', TSym CHR ''=''], LNone)"
  by (simp_all add: sql_start_def is_space_def word_char_def)

lemma sql_run_heads:
  "sql_run LNone ''insert into cmd_agent_session (mac, fd, agent_type) values ('' =
     ([TWord ''insert'', TWord ''into'', TWord ''cmd_agent_session'', TSym CHR ''('', TWord ''mac'',
      TSym CHR '','', TWord ''fd'', TSym CHR '','', TWord ''agent_type'', TSym CHR '')'',
      TWord ''values'', TSym CHR ''(''], LNone)"
  "sql_run LNone ''update cmd_agent_session set fd = '' =
     ([TWord ''update'', TWord ''cmd_agent_session'', TWord ''set'', TWord ''fd'', TSym CHR ''=''], LNone)"
  "sql_run LNone ''select fd from cmd_agent_session where mac = '' =
     ([TWord ''select'', TWord ''fd'', TWord ''from'', TWord ''cmd_agent_session'', TWord ''where'',
      TWord ''mac'', TSym CHR ''=''], LNone)"
  "sql_run LNone ''delete from cmd_agent_session where mac='' =
     ([TWord ''delete'', TWord ''from'', TWord ''cmd_agent_session'', TWord ''where'', TWord ''mac'',
      TSym CHR ''=''], LNone)"
  "sql_run LNone ''delete from cmd_agent_session where fd='' =
     ([TWord ''delete'', TWord ''from'', TWord ''cmd_agent_session'', TWord ''where'', TWord ''fd'',
      TSym CHR ''=''], LNone)"
  "sql_run LNone ''select agent_type from cmd_agent_session where fd = '' =
     ([TWord ''select'', TWord ''agent_type'', TWord ''from'', TWord ''cmd_agent_session'',
      TWord ''where'', TWord ''fd'', TSym CHR ''=''], LNone)"
  by code_simp+

lemma sql_parts_insert:
  "sql_safe m \<Longrightarrow> sql_parts (insert_sql m fd a) = Some (insert_skel, [m, fmt_d fd, fmt_d a])"
  unfolding sql_parts_def sql_lex_def insert_sql_def insert_skel_def
  by (simp only: sql_run_append sql_run_heads sql_run_quoted sql_safe_fmt_d sql_run_separators
      prod.case sql_finish.simps) simp

lemma sql_parts_update:
  "sql_safe m \<Longrightarrow> sql_parts (update_sql fd a m) = Some (update_skel, [fmt_d fd, fmt_d a, m])"
  unfolding sql_parts_def sql_lex_def update_sql_def update_skel_def
  by (simp only: sql_run_append sql_run_heads sql_run_quoted sql_safe_fmt_d sql_run_separators
      prod.case sql_finish.simps) simp

lemma sql_parts_select_fd:
  "sql_safe m \<Longrightarrow> sql_parts (select_fd_sql m) = Some (select_fd_skel, [m])"
  unfolding sql_parts_def sql_lex_def select_fd_sql_def select_fd_skel_def
  by (simp only: sql_run_append sql_run_heads sql_run_quoted prod.case sql_finish.simps) simp

lemma sql_parts_delete_mac:
  "sql_safe m \<Longrightarrow> sql_parts (delete_mac_sql m) = Some (delete_mac_skel, [m])"
  unfolding sql_parts_def sql_lex_def delete_mac_sql_def delete_mac_skel_def
  by (simp only: sql_run_append sql_run_heads sql_run_quoted prod.case sql_finish.simps) simp

lemma sql_parts_delete_fd: "sql_parts (delete_fd_sql fd) = Some (delete_fd_skel, [fmt_d fd])"
  unfolding sql_parts_def sql_lex_def delete_fd_sql_def delete_fd_skel_def
  by (simp only: sql_run_append sql_run_heads sql_run_quoted sql_safe_fmt_d prod.case
      sql_finish.simps) simp

lemma sql_parts_select_session:
  "sql_parts (select_session_sql fd) = Some (select_session_skel, [fmt_d fd])"
  unfolding sql_parts_def sql_lex_def select_session_sql_def select_session_skel_def
  by (simp only: sql_run_append sql_run_heads sql_run_quoted sql_safe_fmt_d prod.case
      sql_finish.simps) simp

lemmas sql_parts_simps =
  sql_parts_insert sql_parts_update sql_parts_select_fd sql_parts_delete_mac sql_parts_delete_fd
  sql_parts_select_session

subsection \<open>Lengths\<close>

lemma length_quoted [simp]: "length (quoted s) = length s + 2"
  by (simp add: quoted_def)

lemma length_sql:
  "length (insert_sql m fd a) = length m + length (fmt_d fd) + length (fmt_d a) + 71"
  "length (update_sql fd a m) = length m + length (fmt_d fd) + length (fmt_d a) + 68"
  "length (select_fd_sql m) = length m + 47"
  "length (delete_mac_sql m) = length m + 42"
  "length (delete_fd_sql fd) = length (fmt_d fd) + 41"
  "length (select_session_sql fd) = length (fmt_d fd) + 54"
  by (simp_all add: insert_sql_def update_sql_def select_fd_sql_def delete_mac_sql_def
      delete_fd_sql_def select_session_sql_def)

lemma length_agent_type_code [simp]: "length (fmt_d (agent_type_code t)) = 1"
  by (cases t) (simp_all add: fmt_d_def dec_nat.simps)

subsection \<open>The operations only touch the connection and the log\<close>

lemma emit_more [simp]: "world.more (emit e w) = world.more w"
  by (simp add: emit_def)

lemma do_query_more: "do_query api q w = (rc, v) \<Longrightarrow> world.more v = world.more w"
  by (auto simp: do_query_def split: prod.splits)

lemma do_query_eq:
  "mysql_query api (w_db w) q = (rc, d) \<Longrightarrow> do_query api q w = (rc, emit (Query q) (w\<lparr>w_db := d\<rparr>))"
  by (simp add: do_query_def)

lemma mysql_insert_fd_more:
  "mysql_insert_fd api p fd t w = Ok r v \<Longrightarrow> world.more v = world.more w"
  by (auto simp: mysql_insert_fd_def ok_iffs
      split: prod.splits if_splits dest!: do_query_more)

lemma select_first_int_more:
  "select_first_int api q w = Ok r v \<Longrightarrow> world.more v = world.more w"
  by (auto simp: select_first_int_def Let_def
      split: prod.splits if_splits option.splits list.splits dest!: do_query_more)

lemma mysql_select_fd_more: "mysql_select_fd api p w = Ok r v \<Longrightarrow> world.more v = world.more w"
  by (auto simp: mysql_select_fd_def ok_iffs
      dest!: select_first_int_more)

lemma mysql_delete_fd_more: "mysql_delete_fd api fd w = Ok r v \<Longrightarrow> world.more v = world.more w"
  by (auto simp: mysql_delete_fd_def ok_iffs
      split: prod.splits if_splits dest!: do_query_more)

subsection \<open>Association lists with distinct keys\<close>

lemma map_of_update_rows:
  "m \<in> fst ` set xs \<Longrightarrow>
     map_of (map (\<lambda>(k, r). (k, if k = m then r' else r)) xs) = (map_of xs)(m \<mapsto> r')"
proof -
  have "map_of (map (\<lambda>(k, r). (k, if k = m then r' else r)) xs) k =
      (if k = m then map_option (\<lambda>_. r') (map_of xs k) else map_of xs k)" for k
    by (induction xs) auto
  moreover assume "m \<in> fst ` set xs"
  then have "map_of xs m \<noteq> None" by (simp add: map_of_eq_None_iff)
  ultimately show ?thesis by (auto simp: fun_eq_iff)
qed

lemma map_of_append_row: "m \<notin> fst ` set xs \<Longrightarrow> map_of (xs @ [(m, r)]) = (map_of xs)(m \<mapsto> r)"
  by (auto simp: map_add_def fun_eq_iff map_of_eq_None_iff [symmetric] split: option.split)

lemma map_of_filter_rows:
  "distinct (map fst xs) \<Longrightarrow>
     map_of (filter (\<lambda>(k, r). P r) xs) k = (case map_of xs k of Some r \<Rightarrow> if P r then Some r else None | None \<Rightarrow> None)"
proof (induction xs)
  case (Cons x xs)
  then show ?case
    by (cases x) (auto simp: map_of_eq_None_iff image_iff split: option.split dest: map_of_SomeD)
qed simp

lemma map_of_filter_key: "map_of (filter (\<lambda>(k, r). k \<noteq> m) xs) = (map_of xs)(m := None)"
  by (induction xs) (auto simp: fun_eq_iff)

lemma first_row:
  assumes "r \<in> set rs" and "\<And>k f a. (k, f, a) \<in> set rs \<Longrightarrow> a = c"
  shows "(case rs of [] \<Rightarrow> z | (k, f, a) # _ \<Rightarrow> a) = c"
  using assms by (cases rs) auto

lemma filter_key_rows:
  "distinct (map fst xs) \<Longrightarrow>
     filter (\<lambda>(k, r). k = m) xs = (case map_of xs m of Some r \<Rightarrow> [(m, r)] | None \<Rightarrow> [])"
proof (induction xs)
  case (Cons x xs)
  have "m \<notin> fst ` set xs \<Longrightarrow> filter (\<lambda>(k, r). k = m) xs = []"
    by (force simp: filter_empty_conv)
  with Cons show ?case by (cases x) auto
qed simp

subsection \<open>The status statement\<close>

lemma sql_run_digits:
  "\<forall>c \<in> set ds. is_digit c \<Longrightarrow> sql_run (LWord acc) ds = ([], LWord (rev ds @ acc))"
proof (induction ds arbitrary: acc)
  case (Cons d ds)
  then have "word_char d" by (auto simp: is_digit_def word_char_def Let_def)
  with Cons show ?case by simp
qed simp

lemma sql_run_fmt_d: "\<exists>ts a. sql_run LNone (fmt_d i) = (ts, LWord a) \<and> ts @ [TWord (rev a)] = number_tokens i"
proof -
  have nat: "sql_run LNone (dec_nat n) = ([], LWord (rev (dec_nat n)))" for n
  proof -
    obtain d ds where n: "dec_nat n = d # ds" "is_digit d" by (rule dec_nat_head)
    then have "sql_start d = ([], LWord [d])"
      by (auto simp: sql_start_def is_digit_def is_space_def word_char_def Let_def)
    moreover have "\<forall>c \<in> set ds. is_digit c" using dec_nat_digits [of n] n(1) by simp
    ultimately show ?thesis using n(1) by (simp add: sql_run_digits)
  qed
  moreover have "sql_start (CHR ''-'') = ([TSym CHR ''-''], LNone)"
    by (simp add: sql_start_def is_space_def word_char_def)
  ultimately show ?thesis by (auto simp: fmt_d_def number_tokens_def)
qed

lemma sql_run_status_middle:
  "sql_run (LWord acc) ''             where sequence = '' =
     ([TWord (rev acc), TWord ''where'', TWord ''sequence'', TSym CHR ''=''], LNone)"
  "sql_run (LQuote (rev s)) '' ANDi mac = '' =
     ([TStr s, TWord ''ANDi'', TWord ''mac'', TSym CHR ''=''], LNone)"
  by (simp_all add: sql_start_def is_space_def word_char_def)

lemma sql_lex_update_log:
  assumes "sql_safe m"
  shows "sql_lex (update_log_sql st sq m) = Some (
    [TWord ''update'', TWord ''cmd_agent_session'', TWord ''set'', TWord ''status'', TSym CHR ''=''] @ number_tokens st @
    [TWord ''where'', TWord ''sequence'', TSym CHR ''='', TStr (fmt_d sq), TWord ''ANDi'', TWord ''mac'',
     TSym CHR ''='', TStr m])"
proof -
  have head: "sql_run LNone ''update cmd_agent_session set status = '' =
      ([TWord ''update'', TWord ''cmd_agent_session'', TWord ''set'', TWord ''status'', TSym CHR ''=''], LNone)"
    by code_simp
  obtain ts acc where st: "sql_run LNone (fmt_d st) = (ts, LWord acc)" "ts @ [TWord (rev acc)] = number_tokens st"
    using sql_run_fmt_d by blast
  show ?thesis
    unfolding sql_lex_def update_log_sql_def st(2) [symmetric]
    by (simp only: sql_run_append head st(1) sql_run_status_middle sql_run_quoted [OF sql_safe_fmt_d]
        sql_run_quoted [OF assms] prod.case sql_finish.simps) simp
qed

lemma sql_parts_update_log:
  "sql_safe m \<Longrightarrow> sql_parts (update_log_sql st sq m) = Some (update_log_skel st, [fmt_d sq, m])"
  by (simp add: sql_parts_def sql_lex_update_log update_log_skel_def number_tokens_def)

section \<open>The contract of the session table\<close>

text \<open>
  What a caller of \<^verbatim>\<open>log.c\<close> may rely on: a registry of names (\<open>reg\<close>) in which \<open>insert\<close> binds a
  name to a descriptor, \<open>select\<close> looks one up (\<open>-5\<close> when there is none) and \<open>delete\<close> forgets a
  descriptor. \<open>frame\<close> is everything the operations leave alone.
\<close>

locale session_registry =
  fixes insert :: "cptr \<Rightarrow> int \<Rightarrow> agent_type_t \<Rightarrow> 'w \<Rightarrow> (int, 'w) outcome"
    and select :: "cptr \<Rightarrow> 'w \<Rightarrow> (int, 'w) outcome"
    and delete :: "int \<Rightarrow> 'w \<Rightarrow> (int, 'w) outcome"
    and reg :: "'w \<Rightarrow> string \<Rightarrow> int option"
    and good :: "'w \<Rightarrow> bool"
    and name_ok :: "string \<Rightarrow> bool"
    and frame :: "'w \<Rightarrow> 'f"
  assumes insert_law:
      "good w \<Longrightarrow> readable p \<Longrightarrow> name_ok (ptr_text p) \<Longrightarrow> int32 fd \<Longrightarrow>
         \<exists>v. insert p fd t w = Ok fd v \<and> good v \<and> reg v = (reg w)(ptr_text p \<mapsto> fd) \<and> frame v = frame w"
    and select_law:
      "good w \<Longrightarrow> readable p \<Longrightarrow> name_ok (ptr_text p) \<Longrightarrow>
         \<exists>v. select p w = Ok (case reg w (ptr_text p) of None \<Rightarrow> -5 | Some fd \<Rightarrow> fd) v \<and>
           good v \<and> reg v = reg w \<and> frame v = frame w"
    and delete_law:
      "good w \<Longrightarrow> int32 fd \<Longrightarrow>
         \<exists>v. delete fd w = Ok 0 v \<and> good v \<and> frame v = frame w \<and>
           reg v = (\<lambda>m. if reg w m = Some fd then None else reg w m)"
begin

lemma insert_Ok:
  assumes "good w" "readable p" "name_ok (ptr_text p)" "int32 fd" "insert p fd t w = Ok r v"
  shows "r = fd" "good v" "reg v = (reg w)(ptr_text p \<mapsto> fd)" "frame v = frame w"
  using insert_law [OF assms(1-4), of t] assms(5) by auto

lemma select_Ok:
  assumes "good w" "readable p" "name_ok (ptr_text p)" "select p w = Ok r v"
  shows "r = (case reg w (ptr_text p) of None \<Rightarrow> -5 | Some fd \<Rightarrow> fd)"
    "good v" "reg v = reg w" "frame v = frame w"
  using select_law [OF assms(1-3)] assms(4) by auto

lemma delete_Ok:
  assumes "good w" "int32 fd" "delete fd w = Ok r v"
  shows "r = 0" "good v" "reg v = (\<lambda>m. if reg w m = Some fd then None else reg w m)"
    "frame v = frame w"
  using delete_law [OF assms(1-2)] assms(3) by auto

lemma ran_insert:
  assumes "good w" "readable p" "name_ok (ptr_text p)" "int32 fd" "insert p fd t w = Ok r v"
  shows "ran (reg v) \<subseteq> {fd} \<union> ran (reg w)"
  using insert_Ok(3) [OF assms] by (auto simp: ran_def split: if_splits)

lemma ran_delete:
  assumes "good w" "int32 fd" "delete fd w = Ok r v"
  shows "ran (reg v) = ran (reg w) - {fd}"
  unfolding delete_Ok(3) [OF assms] ran_def by (auto split: if_splits) (metis option.inject)

lemma lookup_after_insert:
  assumes "good w" "readable p" "name_ok (ptr_text p)" "int32 fd"
  shows "\<exists>v u. insert p fd t w = Ok fd v \<and> select p v = Ok fd u"
proof -
  obtain v where v: "insert p fd t w = Ok fd v" "good v" "reg v = (reg w)(ptr_text p \<mapsto> fd)"
    using insert_law [OF assms] by blast
  then show ?thesis using select_law [OF v(2) assms(2,3)] by auto
qed

text \<open>A name that moves to a second descriptor survives the closing of the first.\<close>

lemma reconnect:
  assumes "good w" "readable p" "name_ok (ptr_text p)" "int32 old" "int32 new" "old \<noteq> new"
  shows "obind (insert p old t w) (\<lambda>_ w. obind (insert p new t w) (\<lambda>_ w.
           obind (delete old w) (\<lambda>_ w. select p w))) = Ok r v \<Longrightarrow> r = new"
    and "\<exists>v. obind (insert p old t w) (\<lambda>_ w. obind (insert p new t w) (\<lambda>_ w.
           obind (delete old w) (\<lambda>_ w. select p w))) = Ok new v"
proof -
  obtain w1 where 1: "insert p old t w = Ok old w1" "good w1"
    using insert_law [OF assms(1-4)] by blast
  obtain w2 where 2: "insert p new t w1 = Ok new w2" "good w2" "reg w2 = (reg w1)(ptr_text p \<mapsto> new)"
    using insert_law [OF 1(2) assms(2,3,5)] by blast
  obtain w3 where 3: "delete old w2 = Ok 0 w3" "good w3"
      "reg w3 = (\<lambda>m. if reg w2 m = Some old then None else reg w2 m)"
    using delete_law [OF 2(2) assms(4)] by blast
  obtain w4 where 4: "select p w3 = Ok new w4"
    using select_law [OF 3(2) assms(2,3)] 2(3) 3(3) assms(6) by auto
  show "\<exists>v. obind (insert p old t w) (\<lambda>_ w. obind (insert p new t w) (\<lambda>_ w.
           obind (delete old w) (\<lambda>_ w. select p w))) = Ok new v"
    by (simp add: 1 2 3 4)
  show "obind (insert p old t w) (\<lambda>_ w. obind (insert p new t w) (\<lambda>_ w.
           obind (delete old w) (\<lambda>_ w. select p w))) = Ok r v \<Longrightarrow> r = new"
    by (simp add: 1 2 3 4)
qed

end

text \<open>
  What \<^verbatim>\<open>log.c\<close> relies on of MySQL: \<open>tbl\<close> reads the rows of \<open>cmd_agent_session\<close> (mac, fd,
  agent type) off the connection, \<open>up\<close> says the server answers and the table has its primary
  key \<open>mac\<close>, and \<open>mac_ok\<close> is the names the key column stores and compares byte by byte. The
  laws are what the documentation says of the statements the program sends.
\<close>

locale mysql_table =
  fixes api :: "'db mysql_api"
    and tbl :: "'db \<Rightarrow> session_row list"
    and up :: "'db \<Rightarrow> bool"
    and mac_ok :: "string \<Rightarrow> bool"
  assumes mac_ok_text: "mac_ok m \<Longrightarrow> length m \<le> 172"
    and ux_name: "mac_ok ''UX_SESSION''"
    and mac_key: "up d \<Longrightarrow> distinct (map fst (tbl d))"
    and row_ints: "up d \<Longrightarrow> (m, fd, a) \<in> set (tbl d) \<Longrightarrow> int32 fd \<and> int32 a"
    and insert_new: "up d \<Longrightarrow> mac_ok m \<Longrightarrow> int32 fd \<Longrightarrow> m \<notin> fst ` set (tbl d) \<Longrightarrow>
      \<exists>d'. mysql_query api d (insert_sql m fd (agent_type_code t)) = (0, d') \<and> up d' \<and>
        tbl d' = tbl d @ [(m, fd, agent_type_code t)]"
    and insert_duplicate: "up d \<Longrightarrow> mac_ok m \<Longrightarrow> int32 fd \<Longrightarrow> m \<in> fst ` set (tbl d) \<Longrightarrow>
      \<exists>rc d'. mysql_query api d (insert_sql m fd (agent_type_code t)) = (rc, d') \<and> rc \<noteq> 0 \<and> up d' \<and> tbl d' = tbl d"
    and update_rows: "up d \<Longrightarrow> mac_ok m \<Longrightarrow> int32 fd \<Longrightarrow>
      \<exists>d'. mysql_query api d (update_sql fd (agent_type_code t) m) = (0, d') \<and> up d' \<and>
        tbl d' = map (\<lambda>(k, r). (k, if k = m then (fd, agent_type_code t) else r)) (tbl d)"
    and select_rows: "up d \<Longrightarrow> mac_ok m \<Longrightarrow>
      \<exists>d' d''. mysql_query api d (select_fd_sql m) = (0, d') \<and>
        mysql_store_result api d' =
          (Some (map (\<lambda>(k, f, a). [Some (fmt_d f)]) (filter (\<lambda>(k, r). k = m) (tbl d))), d'') \<and>
        up d'' \<and> tbl d'' = tbl d"
    and delete_rows: "up d \<Longrightarrow> int32 fd \<Longrightarrow>
      \<exists>d'. mysql_query api d (delete_fd_sql fd) = (0, d') \<and> up d' \<and>
        tbl d' = filter (\<lambda>(k, r). fst r \<noteq> fd) (tbl d)"
    and delete_mac_rows: "up d \<Longrightarrow> mac_ok m \<Longrightarrow>
      \<exists>d'. mysql_query api d (delete_mac_sql m) = (0, d') \<and> up d' \<and>
        tbl d' = filter (\<lambda>(k, r). k \<noteq> m) (tbl d)"
    and session_rows: "up d \<Longrightarrow> int32 fd \<Longrightarrow>
      \<exists>d' d''. mysql_query api d (select_session_sql fd) = (0, d') \<and>
        mysql_store_result api d' =
          (Some (map (\<lambda>(k, f, a). [Some (fmt_d a)]) (filter (\<lambda>(k, r). fst r = fd) (tbl d))), d'') \<and>
        up d'' \<and> tbl d'' = tbl d"
    and fetch_row: "mysql_fetch_row api rows = (case rows of [] \<Rightarrow> None | r # _ \<Rightarrow> Some r)"
begin

lemma fits:
  "mac_ok m \<Longrightarrow> int32 fd \<Longrightarrow> length (insert_sql m fd (agent_type_code t)) < QUERY_LEN"
  "mac_ok m \<Longrightarrow> int32 fd \<Longrightarrow> length (update_sql fd (agent_type_code t) m) < QUERY_LEN"
  "mac_ok m \<Longrightarrow> length (select_fd_sql m) < QUERY_LEN"
  "int32 fd \<Longrightarrow> length (delete_fd_sql fd) < QUERY_LEN"
  "mac_ok m \<Longrightarrow> length (delete_mac_sql m) < QUERY_LEN"
  "int32 fd \<Longrightarrow> length (select_session_sql fd) < QUERY_LEN"
  using mac_ok_text [of m] length_fmt_d [of fd] by (simp_all add: length_sql)

lemma mysql_insert_fd_rows:
  assumes "db_up up w" "readable p" "mac_ok (ptr_text p)" "int32 fd"
  shows "\<exists>v. mysql_insert_fd api p fd t w = Ok fd v \<and> db_up up v \<and>
    map_of (tbl (w_db v)) = (map_of (tbl (w_db w)))(ptr_text p \<mapsto> (fd, agent_type_code t))"
proof -
  let ?m = "ptr_text p" and ?a = "agent_type_code t" and ?d = "w_db w"
  show ?thesis
  proof (cases "?m \<in> fst ` set (tbl ?d)")
    case False
    then obtain d' where "mysql_query api ?d (insert_sql ?m fd ?a) = (0, d')" "up d'"
        "tbl d' = tbl ?d @ [(?m, fd, ?a)]"
      using insert_new [of ?d ?m fd t] assms unfolding db_up_def by blast
    then show ?thesis
      using assms False
      by (simp add: mysql_insert_fd_def fits do_query_eq map_of_append_row db_up_def del: map_of_append)
  next
    case True
    then obtain rc d' where 1: "mysql_query api ?d (insert_sql ?m fd ?a) = (rc, d')" "rc \<noteq> 0" "up d'"
        "tbl d' = tbl ?d"
      using insert_duplicate [of ?d ?m fd t] assms unfolding db_up_def by blast
    obtain d'' where 2: "mysql_query api d' (update_sql fd ?a ?m) = (0, d'')" "up d''"
        "tbl d'' = map (\<lambda>(k, r). (k, if k = ?m then (fd, ?a) else r)) (tbl d')"
      using update_rows [OF 1(3) assms(3,4), of t] by blast
    show ?thesis
      using assms 1 2 True by (simp add: mysql_insert_fd_def fits do_query_eq map_of_update_rows db_up_def)
  qed
qed

lemma mysql_insert_fd_law:
  assumes "db_up up w" "readable p" "mac_ok (ptr_text p)" "int32 fd"
  shows "\<exists>v. mysql_insert_fd api p fd t w = Ok fd v \<and> db_up up v \<and>
    registry_of tbl v = (registry_of tbl w)(ptr_text p \<mapsto> fd) \<and> world.more v = world.more w"
  using mysql_insert_fd_rows [OF assms, of t]
  by (auto simp: registry_of_def fun_eq_iff dest: mysql_insert_fd_more)

lemma mysql_select_fd_law:
  assumes "db_up up w" "readable p" "mac_ok (ptr_text p)"
  shows "\<exists>v. mysql_select_fd api p w = Ok (case registry_of tbl w (ptr_text p) of None \<Rightarrow> -5 | Some fd \<Rightarrow> fd) v \<and>
    db_up up v \<and> registry_of tbl v = registry_of tbl w \<and> world.more v = world.more w"
proof -
  let ?m = "ptr_text p" and ?d = "w_db w"
  obtain d' d'' where d: "mysql_query api ?d (select_fd_sql ?m) = (0, d')"
      "mysql_store_result api d' =
         (Some (map (\<lambda>(k, f, a). [Some (fmt_d f)]) (filter (\<lambda>(k, r). k = ?m) (tbl ?d))), d'')"
      "up d''" "tbl d'' = tbl ?d"
    using select_rows [of ?d ?m] assms unfolding db_up_def by blast
  have rows: "filter (\<lambda>(k, r). k = ?m) (tbl ?d) =
      (case map_of (tbl ?d) ?m of Some r \<Rightarrow> [(?m, r)] | None \<Rightarrow> [])"
    using mac_key assms(1) by (intro filter_key_rows) (simp add: db_up_def)
  have "\<exists>v. mysql_select_fd api p w = Ok (case registry_of tbl w ?m of None \<Rightarrow> -5 | Some fd \<Rightarrow> fd) v \<and> w_db v = d''"
  proof (cases "map_of (tbl ?d) ?m")
    case None
    then show ?thesis
      using assms d(1,2) rows
      by (simp add: mysql_select_fd_def fits select_first_int_def do_query_eq fetch_row registry_of_def)
  next
    case (Some r)
    moreover from this have "int32 (fst r)"
      using row_ints [of ?d ?m "fst r" "snd r"] assms(1) map_of_SomeD by (fastforce simp: db_up_def)
    ultimately show ?thesis
      using assms d(1,2) rows to_int32_id [of "fst r"]
      by (cases r) (simp add: mysql_select_fd_def fits select_first_int_def do_query_eq fetch_row
          registry_of_def to_int32_def)
  qed
  then show ?thesis using d(3,4) by (auto simp: db_up_def registry_of_def dest: mysql_select_fd_more)
qed

lemma mysql_delete_fd_law:
  assumes "db_up up w" "int32 fd"
  shows "\<exists>v. mysql_delete_fd api fd w = Ok 0 v \<and> db_up up v \<and> world.more v = world.more w \<and>
    registry_of tbl v = (\<lambda>m. if registry_of tbl w m = Some fd then None else registry_of tbl w m)"
proof -
  obtain d' where d: "mysql_query api (w_db w) (delete_fd_sql fd) = (0, d')" "up d'"
      "tbl d' = filter (\<lambda>(k, r). fst r \<noteq> fd) (tbl (w_db w))"
    using delete_rows [of "w_db w" fd] assms unfolding db_up_def by blast
  have "map_of (tbl d') m = (case map_of (tbl (w_db w)) m of
      Some r \<Rightarrow> if fst r \<noteq> fd then Some r else None | None \<Rightarrow> None)" for m
    unfolding d(3) using mac_key assms(1) by (intro map_of_filter_rows) (simp add: db_up_def)
  with d(1,2) assms show ?thesis
    by (auto simp: mysql_delete_fd_def fits do_query_eq db_up_def registry_of_def fun_eq_iff split: option.split)
qed

text \<open>The operations of \<^verbatim>\<open>log.c\<close> the server does not call.\<close>

lemma mysql_delete_mac_law:
  assumes "db_up up w" "readable p" "mac_ok (ptr_text p)"
  shows "\<exists>v. mysql_delete_mac api p w = Ok 0 v \<and> db_up up v \<and>
    registry_of tbl v = (registry_of tbl w)(ptr_text p := None)"
proof -
  let ?m = "ptr_text p"
  obtain d' where d: "mysql_query api (w_db w) (delete_mac_sql ?m) = (0, d')" "up d'"
      "tbl d' = filter (\<lambda>(k, r). k \<noteq> ?m) (tbl (w_db w))"
    using delete_mac_rows [of "w_db w" ?m] assms unfolding db_up_def by blast
  have "map_of (tbl d') = (map_of (tbl (w_db w)))(?m := None)"
    unfolding d(3) by (rule map_of_filter_key)
  with d(1,2) assms show ?thesis
    by (auto simp: mysql_delete_mac_def fits do_query_eq db_up_def registry_of_def fun_eq_iff)
qed

lemma mysql_select_session_law:
  assumes "db_up up w" "int32 fd"
  shows "\<exists>v. mysql_select_session api fd w =
    Ok (case filter (\<lambda>(k, r). fst r = fd) (tbl (w_db w)) of [] \<Rightarrow> -5 | (k, f, a) # _ \<Rightarrow> a) v"
proof -
  let ?rs = "filter (\<lambda>(k, r). fst r = fd) (tbl (w_db w))"
  obtain d' d'' where d: "mysql_query api (w_db w) (select_session_sql fd) = (0, d')"
      "mysql_store_result api d' = (Some (map (\<lambda>(k, f, a). [Some (fmt_d a)]) ?rs), d'')"
    using session_rows [of "w_db w" fd] assms unfolding db_up_def by blast
  show ?thesis
  proof (cases ?rs)
    case Nil
    with d assms show ?thesis
      by (simp add: mysql_select_session_def fits select_first_int_def do_query_eq fetch_row)
  next
    case (Cons r rs)
    obtain k f a where r: "r = (k, f, a)" by (cases r)
    have "r \<in> set ?rs" by (simp add: Cons)
    then have "int32 a" using row_ints [of "w_db w" k f a] assms(1) r by (auto simp: db_up_def)
    then show ?thesis
      using d assms Cons r to_int32_id [of a]
      by (simp add: mysql_select_session_def fits select_first_int_def do_query_eq fetch_row to_int32_def)
  qed
qed

lemma session_type_after_insert:
  assumes "db_up up w" "readable p" "mac_ok (ptr_text p)" "int32 fd" "fd \<notin> ran (registry_of tbl w)"
  shows "\<exists>v. obind (mysql_insert_fd api p fd t w) (\<lambda>_ w. mysql_select_session api fd w) =
    Ok (agent_type_code t) v"
proof -
  obtain w1 where 1: "mysql_insert_fd api p fd t w = Ok fd w1" "db_up up w1"
      "map_of (tbl (w_db w1)) = (map_of (tbl (w_db w)))(ptr_text p \<mapsto> (fd, agent_type_code t))"
    using mysql_insert_fd_rows [OF assms(1-4), of t] by blast
  have old: "map_of (tbl (w_db w)) k \<noteq> Some (fd, a)" for k a
    using assms(5) by (auto simp: ran_def registry_of_def)
  let ?rs = "filter (\<lambda>(k, r). fst r = fd) (tbl (w_db w1))"
  have "(ptr_text p, fd, agent_type_code t) \<in> set ?rs"
    using map_of_SomeD [of "tbl (w_db w1)" "ptr_text p"] 1(3) by simp
  moreover have "a = agent_type_code t" if "(k, f, a) \<in> set ?rs" for k f a
  proof -
    from that have "map_of (tbl (w_db w1)) k = Some (fd, a)"
      using mac_key [of "w_db w1"] 1(2) by (auto simp: db_up_def)
    then show ?thesis using 1(3) old by (auto split: if_splits)
  qed
  ultimately have "(case ?rs of [] \<Rightarrow> -5 | (k, f, a) # _ \<Rightarrow> a) = agent_type_code t"
    by (rule first_row)
  then show ?thesis using 1(1) mysql_select_session_law [OF 1(2) assms(4)] by auto
qed

end

sublocale mysql_table \<subseteq> registry: session_registry
  "mysql_insert_fd api" "mysql_select_fd api" "mysql_delete_fd api" "registry_of tbl" "db_up up" mac_ok world.more
  using mysql_insert_fd_law mysql_select_fd_law mysql_delete_fd_law
  by unfold_locales blast+

lemma mysql_table_registry:
  "mysql_table api tbl up mac_ok \<Longrightarrow>
     session_registry (mysql_insert_fd api) (mysql_select_fd api) (mysql_delete_fd api) (registry_of tbl)
       (db_up up) mac_ok world.more"
proof -
  assume "mysql_table api tbl up mac_ok"
  note laws = mysql_table.mysql_insert_fd_law [OF this] mysql_table.mysql_select_fd_law [OF this]
    mysql_table.mysql_delete_fd_law [OF this]
  show ?thesis by unfold_locales (use laws in blast)+
qed

section \<open>Properties\<close>

text \<open>
  C16. A name without quotes and backslashes cannot change the shape of a statement: each of the seven
  statements lexes to its template, and its literals are exactly the arguments, the
  integers as \<open>%d\<close> prints them. The templates are fixed, but for the status of \<open>mysql_update_log\<close>, which
  stands in its statement as a number; that template has the word \<open>ANDi\<close> between its conditions.
\<close>

theorem statements_are_templates:
  assumes "sql_safe m"
  shows "sql_parts (insert_sql m fd a) = Some (insert_skel, [m, fmt_d fd, fmt_d a]) \<and>
    sql_parts (update_sql fd a m) = Some (update_skel, [fmt_d fd, fmt_d a, m]) \<and>
    sql_parts (select_fd_sql m) = Some (select_fd_skel, [m]) \<and>
    sql_parts (delete_mac_sql m) = Some (delete_mac_skel, [m]) \<and>
    sql_parts (delete_fd_sql fd) = Some (delete_fd_skel, [fmt_d fd]) \<and>
    sql_parts (select_session_sql fd) = Some (select_session_skel, [fmt_d fd]) \<and>
    sql_parts (update_log_sql status seqno m) = Some (update_log_skel status, [fmt_d seqno, m])"
  using assms by (simp add: sql_parts_simps sql_parts_update_log)

theorem statements_are_templates_witness:
  "sql_parts (insert_sql ''00:1b'' 7 2) = Some (insert_skel, [''00:1b'', fmt_d 7, fmt_d 2]) \<and>
    sql_parts (update_sql 7 2 ''00:1b'') = Some (update_skel, [fmt_d 7, fmt_d 2, ''00:1b'']) \<and>
    sql_parts (select_fd_sql ''00:1b'') = Some (select_fd_skel, [''00:1b'']) \<and>
    sql_parts (delete_mac_sql ''00:1b'') = Some (delete_mac_skel, [''00:1b'']) \<and>
    sql_parts (delete_fd_sql 7) = Some (delete_fd_skel, [fmt_d 7]) \<and>
    sql_parts (select_session_sql 7) = Some (select_session_skel, [fmt_d 7]) \<and>
    sql_parts (update_log_sql (- 1) 7 ''00:1b'') = Some (update_log_skel (- 1), [fmt_d 7, ''00:1b''])"
  by (rule statements_are_templates) (simp add: sql_safe_def)

text \<open>
  The names are not escaped: with the \<open>miner_mac\<close> \<^verbatim>\<open>x' or '1'='1\<close> the query for the
  descriptor of one agent becomes a query for the descriptors of all agents.
\<close>

theorem select_fd_injection:
  "sql_lex (select_fd_sql (''x'' @ [quote] @ '' or '' @ quoted ''1'' @ ''='' @ [quote] @ ''1'')) =
     Some [TWord ''select'', TWord ''fd'', TWord ''from'', TWord ''cmd_agent_session'', TWord ''where'',
       TWord ''mac'', TSym CHR ''='', TStr ''x'', TWord ''or'', TStr ''1'', TSym CHR ''='', TStr ''1'']"
  by code_simp

text \<open>
  With the name \<^verbatim>\<open>x','99','1'),('y\<close> the statement of a registration inserts two rows, the first of which binds
  the name \<^verbatim>\<open>x\<close> to descriptor 99, whoever has it.
\<close>

theorem insert_fd_injection:
  "sql_lex (insert_sql (''x'' @ [quote] @ '','' @ quoted ''99'' @ '','' @ quoted ''1'' @ ''),('' @ [quote] @ ''y'') 5 2) =
     Some [TWord ''insert'', TWord ''into'', TWord ''cmd_agent_session'', TSym CHR ''('', TWord ''mac'', TSym CHR '','',
       TWord ''fd'', TSym CHR '','', TWord ''agent_type'', TSym CHR '')'', TWord ''values'',
       TSym CHR ''('', TStr ''x'', TSym CHR '','', TStr ''99'', TSym CHR '','', TStr ''1'', TSym CHR '')'', TSym CHR '','',
       TSym CHR ''('', TStr ''y'', TSym CHR '','', TStr ''5'', TSym CHR '','', TStr ''2'', TSym CHR '')'']"
  by code_simp

text \<open>
  C21. \<open>mysql_insert_fd\<close> overruns its 256-byte statement buffer exactly when the name and the
  printed descriptor together have more than 183 characters; the length of the name is the
  peer's choice.
\<close>

theorem mysql_insert_fd_overflow_iff:
  assumes "readable p"
  shows "(\<exists>n v. mysql_insert_fd api p fd t w = Stop (Crash (BufferOverflow n)) v) \<longleftrightarrow>
    length (ptr_text p) + length (fmt_d fd) > 183"
  using assms
  by (auto simp: mysql_insert_fd_def sprintf_buf_def length_sql split: prod.split)

theorem mysql_insert_fd_overflow_witness:
  "(\<exists>n v. mysql_insert_fd \<lparr>mysql_query = (\<lambda>d q. (0, d)), mysql_store_result = (\<lambda>d. (None, d)),
        mysql_fetch_row = (\<lambda>r. None)\<rparr> (Owned (replicate 200 (CHR ''a''))) 7 REQ_UX
        \<lparr>w_db = (), w_log = []\<rparr> = Stop (Crash (BufferOverflow n)) v) \<longleftrightarrow>
    length (ptr_text (Owned (replicate 200 (CHR ''a'')))) + length (fmt_d 7) > 183"
  by (rule mysql_insert_fd_overflow_iff) simp

text \<open>
  The error codes of \<open>mysql_select_fd\<close>: \<open>-3\<close> when the query fails, \<open>-4\<close> when it has no result
  set, \<open>-5\<close> when the result set is empty, and otherwise the \<open>atoi\<close> of the first column, which
  comes back unchanged through the \<open>unsigned int\<close> it is stored in. A result set is never freed.
\<close>

theorem mysql_select_fd_results:
  assumes "readable p" and "length (ptr_text p) \<le> 208"
    and "mysql_query api (w_db w) (select_fd_sql (ptr_text p)) = (rc, d)"
    and "mysql_store_result api d = (res, d')"
  shows "mysql_select_fd api p w =
    (let w1 = w\<lparr>w_db := d, w_log := w_log w @ [Query (select_fd_sql (ptr_text p))]\<rparr> in
     if rc \<noteq> 0 then Ok (-3) w1
     else case res of
       None \<Rightarrow> Ok (-4) (w1\<lparr>w_db := d'\<rparr>)
     | Some rows \<Rightarrow>
         let w2 = w1\<lparr>w_db := d', w_log := w_log w1 @ [StoreResult]\<rparr> in
         case mysql_fetch_row api rows of
           None \<Rightarrow> Ok (-5) w2
         | Some [] \<Rightarrow> Stop (Crash WildPtr) w2
         | Some (None # _) \<Rightarrow> Stop (Crash NullDeref) w2
         | Some (Some t # _) \<Rightarrow> Ok (atoi t) w2)"
proof -
  have "sint (word_of_int (atoi t) :: 32 word) = atoi t" for t
    using to_int32_id [OF int32_atoi] by (simp add: to_int32_def)
  with assms show ?thesis
    by (auto simp: mysql_select_fd_def select_first_int_def do_query_eq length_sql emit_def Let_def
        split: option.split list.split)
qed

theorem mysql_select_fd_results_witness:
  "mysql_select_fd \<lparr>mysql_query = (\<lambda>d q. (0, d)), mysql_store_result = (\<lambda>d. (Some [[Some ''7'']], d)),
      mysql_fetch_row = (\<lambda>r. Some (hd r))\<rparr> (Lit ''aa'') \<lparr>w_db = (), w_log = []\<rparr> =
    Ok 7 \<lparr>w_db = (), w_log = [Query (select_fd_sql ''aa''), StoreResult]\<rparr>"
proof -
  have "atoi ''7'' = 7" by code_simp
  then show ?thesis
    using mysql_select_fd_results [of "Lit ''aa''" "\<lparr>mysql_query = (\<lambda>d q. (0, d)),
      mysql_store_result = (\<lambda>d. (Some [[Some ''7'']], d)), mysql_fetch_row = (\<lambda>r. Some (hd r))\<rparr>"
      "\<lparr>w_db = (), w_log = []\<rparr>" 0 "()" "Some [[Some ''7'']]" "()"]
    by simp
qed

text \<open>
  The statement \<open>mysql_update_log\<close> sends is never the update it is meant to be: between the
  two conditions of its \<open>where\<close> clause stands the word \<open>ANDi\<close> instead of \<open>AND\<close>, whatever the
  arguments.
\<close>

theorem update_log_statement_typo:
  assumes "sql_safe m"
  shows "\<exists>ts. sql_lex (update_log_sql st sq m) = Some (ts @
    [TWord ''where'', TWord ''sequence'', TSym CHR ''='', TStr (fmt_d sq), TWord ''ANDi'', TWord ''mac'',
     TSym CHR ''='', TStr m])"
  using sql_lex_update_log [OF assms] by (metis append.assoc)

theorem update_log_statement_typo_witness:
  "\<exists>ts. sql_lex (update_log_sql 1 7 ''00:1b'') = Some (ts @
    [TWord ''where'', TWord ''sequence'', TSym CHR ''='', TStr (fmt_d 7), TWord ''ANDi'', TWord ''mac'',
     TSym CHR ''='', TStr ''00:1b''])"
  by (rule update_log_statement_typo) (simp add: sql_safe_def)

end
