(* ===== verification/Agent_Reference.thy ===== *)
theory Agent_Reference
  imports Agent_Session Agent_Log "HOL-Library.AList"
begin

text \<open>
  Executable stand-ins for the two libraries the program is linked against: a table engine that
  runs the statements of \<^verbatim>\<open>log.c\<close> from their text, and a printer and parser for flat JSON
  objects. They show that the contracts \<open>mysql_table\<close> and \<open>json_lib\<close> can be met and let
  concrete runs of the server be evaluated; no definition of the program's model depends on them.
\<close>

section \<open>A table engine for the session statements\<close>

record ref_db =
  rows :: "session_row list"
  pending :: "mysql_row list option"

definition ref_exec :: "ref_db \<Rightarrow> sql_token list \<Rightarrow> string list \<Rightarrow> int \<times> ref_db" where
  "ref_exec d sk ls =
     (if sk = insert_skel then
        (case ls of
           [m, f, a] \<Rightarrow> if m \<in> set (map fst (rows d)) then (1, d)
                        else (0, d\<lparr>rows := rows d @ [(m, atoi f, atoi a)]\<rparr>)
         | _ \<Rightarrow> (1, d))
      else if sk = update_skel then
        (case ls of
           [f, a, m] \<Rightarrow> (0, d\<lparr>rows := map (\<lambda>(k, r). (k, if k = m then (atoi f, atoi a) else r)) (rows d)\<rparr>)
         | _ \<Rightarrow> (1, d))
      else if sk = select_fd_skel then
        (case ls of
           [m] \<Rightarrow> (0, d\<lparr>pending :=
             Some (map (\<lambda>(k, f, a). [Some (fmt_d f)]) (filter (\<lambda>(k, r). k = m) (rows d)))\<rparr>)
         | _ \<Rightarrow> (1, d))
      else if sk = delete_mac_skel then
        (case ls of [m] \<Rightarrow> (0, d\<lparr>rows := filter (\<lambda>(k, r). k \<noteq> m) (rows d)\<rparr>) | _ \<Rightarrow> (1, d))
      else if sk = delete_fd_skel then
        (case ls of [f] \<Rightarrow> (0, d\<lparr>rows := filter (\<lambda>(k, r). fst r \<noteq> atoi f) (rows d)\<rparr>) | _ \<Rightarrow> (1, d))
      else if sk = select_session_skel then
        (case ls of
           [f] \<Rightarrow> (0, d\<lparr>pending :=
             Some (map (\<lambda>(k, f', a). [Some (fmt_d a)]) (filter (\<lambda>(k, r). fst r = atoi f) (rows d)))\<rparr>)
         | _ \<Rightarrow> (1, d))
      else (1, d))"

definition ref_query :: "ref_db \<Rightarrow> string \<Rightarrow> int \<times> ref_db" where
  "ref_query d q = (case sql_parts q of None \<Rightarrow> (1, d) | Some (sk, ls) \<Rightarrow> ref_exec d sk ls)"

definition ref_mysql :: "ref_db mysql_api" where
  "ref_mysql = \<lparr>mysql_query = ref_query,
     mysql_store_result = (\<lambda>d. (pending d, d\<lparr>pending := None\<rparr>)),
     mysql_fetch_row = (\<lambda>rs. case rs of [] \<Rightarrow> None | r # _ \<Rightarrow> Some r)\<rparr>"

definition ref_up :: "ref_db \<Rightarrow> bool" where
  "ref_up d \<longleftrightarrow> distinct (map fst (rows d)) \<and> (\<forall>(m, f, a) \<in> set (rows d). int32 f \<and> int32 a)"

definition ref_mac_ok :: "string \<Rightarrow> bool" where
  "ref_mac_ok m \<longleftrightarrow> sql_safe m \<and> length m \<le> 172"

definition empty_db :: ref_db where
  "empty_db = \<lparr>rows = [], pending = None\<rparr>"

section \<open>A printer and parser for flat JSON objects\<close>

abbreviation DQ :: char where "DQ \<equiv> CHR 0x22"
abbreviation BS :: char where "BS \<equiv> CHR 0x5C"

fun esc :: "string \<Rightarrow> string" where
  "esc [] = []"
| "esc (c # cs) = (if c = DQ \<or> c = BS then BS # c # esc cs else c # esc cs)"

fun print_value :: "json \<Rightarrow> string" where
  "print_value (JString s) = DQ # esc s @ [DQ]"
| "print_value (JInt i) = fmt_d i"
| "print_value _ = ''null''"

fun print_members :: "(string \<times> json) list \<Rightarrow> string" where
  "print_members [] = ''}''"
| "print_members ((k, v) # es) =
     DQ # esc k @ [DQ, CHR '':''] @ print_value v @ (if es = [] then ''}'' else CHR '','' # print_members es)"

fun ref_print :: "json \<Rightarrow> string" where
  "ref_print (JObject es) = CHR ''{'' # print_members es"
| "ref_print j = print_value j"

fun scan_str :: "string \<Rightarrow> (string \<times> string) option" where
  "scan_str [] = None"
| "scan_str (c # cs) =
     (if c = DQ then Some ([], cs)
      else if c = BS then (case cs of [] \<Rightarrow> None | d # ds \<Rightarrow> map_option (apfst (Cons d)) (scan_str ds))
      else map_option (apfst (Cons c)) (scan_str cs))"

definition num_char :: "char \<Rightarrow> bool" where
  "num_char c \<longleftrightarrow> is_digit c \<or> c = CHR ''-''"

definition scan_value :: "string \<Rightarrow> (json \<times> string) option" where
  "scan_value s = (case s of
       [] \<Rightarrow> None
     | c # cs \<Rightarrow>
         if c = DQ then map_option (apfst JString) (scan_str cs)
         else if num_char c then Some (JInt (atoi (takeWhile num_char s)), dropWhile num_char s)
         else None)"

fun scan_members :: "nat \<Rightarrow> string \<Rightarrow> (string \<times> json) list option" where
  "scan_members 0 s = None"
| "scan_members (Suc n) s = (case s of
       [] \<Rightarrow> None
     | c # cs \<Rightarrow>
         if c = CHR ''}'' then Some []
         else if c \<noteq> DQ then None
         else (case scan_str cs of
             None \<Rightarrow> None
           | Some (k, r) \<Rightarrow> (case r of
               [] \<Rightarrow> None
             | e # r1 \<Rightarrow> if e \<noteq> CHR '':'' then None else (case scan_value r1 of
                 None \<Rightarrow> None
               | Some (v, r2) \<Rightarrow> (case r2 of
                   [] \<Rightarrow> None
                 | f # r3 \<Rightarrow> if f = CHR ''}'' then Some [(k, v)]
                     else if f = CHR '','' then map_option (Cons (k, v)) (scan_members n r3)
                     else None)))))"

text \<open>A member takes at least one byte, so the length of the text is fuel enough.\<close>

definition ref_parse :: "string \<Rightarrow> json" where
  "ref_parse s = (case s of
       [] \<Rightarrow> JNull
     | c # cs \<Rightarrow> if c = CHR ''{'' then (case scan_members (length s) cs of None \<Rightarrow> JNull | Some es \<Rightarrow> JObject es)
                else JNull)"

fun ref_add :: "json \<Rightarrow> string \<Rightarrow> json \<Rightarrow> json" where
  "ref_add (JObject es) k v = JObject (AList.update k v es)"
| "ref_add j k v = j"

definition ref_json :: json_api where
  "ref_json = \<lparr>json_tokener_parse = ref_parse, json_object_to_json_string = ref_print,
     json_object_object_add = ref_add\<rparr>"

section \<open>The table engine meets its contract\<close>

lemma skel_distinct [simp]:
  "update_skel \<noteq> insert_skel" "select_fd_skel \<noteq> insert_skel" "select_fd_skel \<noteq> update_skel"
  "delete_mac_skel \<noteq> insert_skel" "delete_mac_skel \<noteq> update_skel" "delete_mac_skel \<noteq> select_fd_skel"
  "delete_fd_skel \<noteq> insert_skel" "delete_fd_skel \<noteq> update_skel" "delete_fd_skel \<noteq> select_fd_skel"
  "delete_fd_skel \<noteq> delete_mac_skel"
  "select_session_skel \<noteq> insert_skel" "select_session_skel \<noteq> update_skel"
  "select_session_skel \<noteq> select_fd_skel" "select_session_skel \<noteq> delete_mac_skel"
  "select_session_skel \<noteq> delete_fd_skel"
  by (simp_all add: insert_skel_def update_skel_def select_fd_skel_def delete_mac_skel_def
      delete_fd_skel_def select_session_skel_def)

lemma int32_agent_type_code [simp]: "int32 (agent_type_code t)"
  by (cases t) (simp_all add: int32_def)

lemma ref_mysql_sel [simp]:
  "mysql_query ref_mysql = ref_query"
  "mysql_store_result ref_mysql d = (pending d, d\<lparr>pending := None\<rparr>)"
  "mysql_fetch_row ref_mysql rs = (case rs of [] \<Rightarrow> None | r # _ \<Rightarrow> Some r)"
  by (simp_all add: ref_mysql_def)

lemmas ref_query_simps = ref_query_def ref_exec_def sql_parts_simps ref_up_def ref_mac_ok_def

interpretation ref_mysql: mysql_table ref_mysql rows ref_up ref_mac_ok
proof (unfold_locales, goal_cases)
  case (1 m)
  then show ?case by (simp add: ref_mac_ok_def)
next
  case 2
  show ?case by (simp add: ref_mac_ok_def sql_safe_def)
next
  case (3 d)
  then show ?case by (simp add: ref_up_def)
next
  case (4 d m fd a)
  then show ?case by (auto simp: ref_up_def)
next
  case (5 d m fd t)
  then show ?case by (auto simp: ref_query_simps)
next
  case (6 d m fd t)
  then show ?case by (auto simp: ref_query_simps image_iff)
next
  case (7 d m fd t)
  then show ?case by (auto simp: ref_query_simps comp_def case_prod_beta)
next
  case (8 d m)
  then show ?case by (auto simp: ref_query_simps)
next
  case (9 d fd)
  then show ?case by (auto simp: ref_query_simps distinct_map_filter)
next
  case (10 d m)
  then show ?case by (auto simp: ref_query_simps distinct_map_filter)
next
  case (11 d fd)
  then show ?case by (auto simp: ref_query_simps)
next
  case (12 rows)
  show ?case by simp
qed

section \<open>The JSON functions meet their contract\<close>

lemma scan_str_esc: "scan_str (esc s @ DQ # r) = Some (s, r)"
  by (induction s) auto

lemma num_char_fmt_d: "takeWhile num_char (fmt_d i @ r) = fmt_d i @ takeWhile num_char r"
  "dropWhile num_char (fmt_d i @ r) = dropWhile num_char r"
proof -
  have "\<forall>c \<in> set (fmt_d i). num_char c"
    using dec_nat_digits by (auto simp: fmt_d_def num_char_def)
  then show "takeWhile num_char (fmt_d i @ r) = fmt_d i @ takeWhile num_char r"
    "dropWhile num_char (fmt_d i @ r) = dropWhile num_char r"
    by (induction "fmt_d i") (auto simp: takeWhile_append2 dropWhile_append2)
qed

lemma fmt_d_head: obtains c cs where "fmt_d i = c # cs" and "num_char c" and "c \<noteq> DQ"
proof -
  obtain c cs where c: "dec_nat (nat i) = c # cs" "is_digit c" by (rule dec_nat_head)
  then have "c \<noteq> DQ" by (auto simp: is_digit_def)
  with c show ?thesis
    using that [of "CHR ''-''" "dec_nat (nat (- i))"] that [of c cs]
    by (cases "i < 0") (simp_all add: fmt_d_def num_char_def)
qed

lemma scan_value_print:
  assumes "flat_value v" and "\<not> num_char f"
  shows "scan_value (print_value v @ f # r) = Some (v, f # r)"
proof (cases v)
  case (JInt i)
  obtain c cs where "fmt_d i = c # cs" "num_char c" "c \<noteq> DQ" by (rule fmt_d_head)
  then have "scan_value (fmt_d i @ f # r) =
      Some (JInt (atoi (takeWhile num_char (fmt_d i @ f # r))), dropWhile num_char (fmt_d i @ f # r))"
    by (simp add: scan_value_def)
  with assms JInt show ?thesis by (simp only: num_char_fmt_d) simp
qed (use assms in \<open>auto simp: scan_value_def scan_str_esc\<close>)

lemma scan_members_print:
  assumes "\<forall>(k, v) \<in> set es. flat_value v" and "length es < n"
  shows "scan_members n (print_members es) = Some es"
  using assms
proof (induction es arbitrary: n)
  case Nil
  then show ?case by (cases n) simp_all
next
  case (Cons e es)
  obtain k v where e: "e = (k, v)" by fastforce
  from Cons.prems obtain n' where n: "n = Suc n'" and len: "length es < n'" by (cases n) auto
  from Cons.prems e have v: "flat_value v" by simp
  have sep: "\<not> num_char (CHR ''}'')" "\<not> num_char (CHR '','')"
    by (simp_all add: num_char_def is_digit_def)
  show ?case
  proof (cases "es = []")
    case True
    then show ?thesis using scan_value_print [OF v sep(1)] by (simp add: e n scan_str_esc)
  next
    case False
    have "scan_members n' (print_members es) = Some es"
      using Cons.prems len by (intro Cons.IH) auto
    with False show ?thesis using scan_value_print [OF v sep(2)] by (simp add: e n scan_str_esc)
  qed
qed

lemma length_print_members: "length es < Suc (length (print_members es))"
  by (induction es rule: print_members.induct) auto

lemma nul_free_esc [simp]: "nul_free s \<Longrightarrow> nul_free (esc s)"
  by (induction s) auto

lemma nul_free_print_value: "flat_value v \<Longrightarrow> nul_free (print_value v)"
  by (cases v) auto

lemma nul_free_print_members:
  "\<forall>(k, v) \<in> set es. nul_free k \<and> flat_value v \<Longrightarrow> nul_free (print_members es)"
  by (induction es rule: print_members.induct) (auto simp: nul_free_print_value)

interpretation ref_json: json_lib ref_json
proof (unfold_locales, goal_cases)
  case (1 k es v)
  then show ?case
    by (simp add: ref_json_def) (induction es; auto)
next
  case (2 es)
  then have "nul_free (print_members es)" and "\<forall>(k, v) \<in> set es. flat_value v"
    by (auto simp: flat_entries_def intro!: nul_free_print_members)
  then show ?case
    by (simp add: ref_json_def ref_parse_def scan_members_print length_print_members
        del: scan_members.simps)
qed

end
