(* ===== verification/Agent_Server.thy ===== *)
theory Agent_Server
  imports Agent_Session Agent_Log
begin

unbundle bit_operations_syntax

text \<open>
  The event loop of \<^verbatim>\<open>main.c\<close>: the per-descriptor peer state, the three callbacks, the handling of
  one epoll event, of the batch one \<open>epoll_wait\<close> returns, and the start-up. What the kernel
  answers while one event is handled is the record \<open>answers\<close>.
\<close>

section \<open>State\<close>

datatype ProcessingState = INITIAL_ACK | WAIT_FOR_MSG | IN_MSG

record peer_state_t =
  pstate :: ProcessingState
  send_data :: cptr
  sendbuf_end :: int
  sendptr :: int

record fd_status_t =
  want_read :: bool
  want_write :: bool

definition fd_status_R :: fd_status_t where
  "fd_status_R = \<lparr>want_read = True, want_write = False\<rparr>"

definition fd_status_W :: fd_status_t where
  "fd_status_W = \<lparr>want_read = False, want_write = True\<rparr>"

definition fd_status_RW :: fd_status_t where
  "fd_status_RW = \<lparr>want_read = True, want_write = True\<rparr>"

definition fd_status_NORW :: fd_status_t where
  "fd_status_NORW = \<lparr>want_read = False, want_write = False\<rparr>"

abbreviation MAXFDS :: int where "MAXFDS \<equiv> 16 * 1024"
abbreviation (input) SYNACK_LEN :: int where "SYNACK_LEN \<equiv> 8"

abbreviation (input) EPOLLIN :: "32 word" where "EPOLLIN \<equiv> 0x001"
abbreviation (input) EPOLLOUT :: "32 word" where "EPOLLOUT \<equiv> 0x004"
abbreviation (input) EPOLLERR :: "32 word" where "EPOLLERR \<equiv> 0x008"
abbreviation (input) EPOLLHUP :: "32 word" where "EPOLLHUP \<equiv> 0x010"

text \<open>
  The server: \<open>global_state\<close> is the array of the same name (its index is checked where the
  code asserts it), \<open>epoll_set\<close> the interest list of the epoll instance, \<open>sockets\<close> the
  descriptors of accepted connections that are open.
\<close>

record 'db server = "'db world" +
  global_state :: "int \<Rightarrow> peer_state_t"
  epoll_set :: "int \<Rightarrow> 32 word option"
  sockets :: "int set"

datatype accept_result = Accepted int | AcceptErr errno
datatype send_result = Sent int | SendErr errno

record answers =
  a_accept :: accept_result
  a_name :: "(string \<times> string) option"
  a_fcntl :: fcntl_answers
  a_epoll_ctl :: int
  a_recv :: "recv_result list"
  a_slack :: "nat \<Rightarrow> char"
  a_send :: send_result
  a_fs :: "string \<Rightarrow> string option"

record event =
  ev_fd :: int
  ev_events :: "32 word"

section \<open>Callbacks\<close>

text \<open>
  \<open>send\<close>: the count or \<open>-1\<close>. No call passes \<open>MSG_NOSIGNAL\<close>, so sending on a connection the peer
  has closed (EPIPE) raises SIGPIPE.
\<close>

definition c_send :: "send_result \<Rightarrow> int \<Rightarrow> cptr \<Rightarrow> nat \<Rightarrow> ('db, 'z) world_scheme \<Rightarrow>
    (int, ('db, 'z) world_scheme) outcome" where
  "c_send r fd data len w = (case r of
       Sent n \<Rightarrow> Ok n (emit (Send fd data len n) w)
     | SendErr e \<Rightarrow> if e = EPIPE then Stop Sigpipe w else Ok (-1) (emit (Send fd data len (-1)) w))"

definition on_peer_connected ::
  "int \<Rightarrow> (string \<times> string) option \<Rightarrow> ('db, 'z) server_scheme \<Rightarrow>
     (fd_status_t, ('db, 'z) server_scheme) outcome" where
  "on_peer_connected sockfd peer_name w =
     (if \<not> sockfd < MAXFDS then Stop Assert_failed w
      else
        let w = report_peer_connected peer_name w;
            peerstate = (global_state w sockfd)\<lparr>pstate := INITIAL_ACK, sendptr := 0,
              sendbuf_end := SYNACK_LEN\<rparr>
        in Ok fd_status_R (w\<lparr>global_state := (global_state w)(sockfd := peerstate)\<rparr>))"

text \<open>Which branch a request of the operator's console took.\<close>

datatype ux_report = UX_not_found | UX_sent | UX_send_failed

text \<open>The case \<open>REQ_UX\<close> of \<open>on_peer_ready_recv\<close>; \<open>result\<close> is a \<open>size_t\<close>.\<close>

definition ux_request ::
  "'db mysql_api \<Rightarrow> json_api \<Rightarrow> answers \<Rightarrow> session_t \<Rightarrow> ('db, 'z) world_scheme \<Rightarrow>
     (ux_report, ('db, 'z) world_scheme) outcome" where
  "ux_request db js a session w =
     obind (mysql_insert_fd db (Lit ''UX_SESSION'') (s_fd session) REQ_UX w) (\<lambda>_ w.
     obind (mysql_select_fd db (miner_mac session) w) (\<lambda>ret w.
       if ret < 0 then Ok UX_not_found w
       else
         obind (msg_client_info js (a_fs a) session w) (\<lambda>msg w.
         obind (c_send (a_send a) ret (Lit msg) (length msg) w) (\<lambda>n w.
           let result = to_size_t n in
           if result > 0 then Ok UX_sent w else Ok UX_send_failed w))))"

text \<open>What follows a successful read in \<open>on_peer_ready_recv\<close>: parse, dispatch, clean up.\<close>

definition handle_message ::
  "'db mysql_api \<Rightarrow> json_api \<Rightarrow> answers \<Rightarrow> int \<Rightarrow> string \<Rightarrow> session_t \<Rightarrow> ('db, 'z) world_scheme \<Rightarrow>
     (fd_status_t \<times> session_t, ('db, 'z) world_scheme) outcome" where
  "handle_message db js a fd recv_data session w =
     (let recv_data_json = parse_string_to_json js recv_data;
          w = (if recv_data_json = JNull then w else emit JsonNew w)
      in
      obind (get_agent_type recv_data_json w) (\<lambda>atype w.
      obind (if atype = REQ_UX then
               parse_json_cmd recv_data_json (session\<lparr>s_fd := fd, agent_type := REQ_UX\<rparr>) w
             else if atype = REQ_LINUX_CLAYMORE then
               parse_json_agent recv_data_json (session\<lparr>s_fd := fd, agent_type := REQ_LINUX_CLAYMORE\<rparr>) w
             else Ok session w) (\<lambda>session w.
      obind (case atype of
               REQ_INVALID \<Rightarrow> Ok () w
             | REQ_UX \<Rightarrow> obind (ux_request db js a session w) (\<lambda>_ w. Ok () w)
             | REQ_LINUX_CLAYMORE \<Rightarrow>
                 obind (mysql_insert_fd db (miner_mac session) (s_fd session) REQ_LINUX_CLAYMORE w)
                   (\<lambda>_ w. Ok () w)
             | REQ_WINDOW_CLAYMORE \<Rightarrow> Ok () w) (\<lambda>_ w.
        let w = emit JsonPut (mj_free (Some recv_data) w);
            ready_to_send = False
        in Ok (\<lparr>want_read = \<not> ready_to_send, want_write = ready_to_send\<rparr>,
               json_object_put_session session) w))))"

definition on_peer_ready_recv ::
  "'db mysql_api \<Rightarrow> json_api \<Rightarrow> answers \<Rightarrow> int \<Rightarrow> session_t \<Rightarrow> ('db, 'z) world_scheme \<Rightarrow>
     (fd_status_t \<times> session_t, ('db, 'z) world_scheme) outcome" where
  "on_peer_ready_recv db js a fd session w =
     (if \<not> fd < MAXFDS then Stop Assert_failed w
      else obind (socket_read (a_slack a) (a_recv a) w) (\<lambda>(recv_data, ret) w.
        case recv_data of
          None \<Rightarrow> Ok (fd_status_NORW, session) (mj_free recv_data w)
        | Some data \<Rightarrow>
            if ret = -1 then Ok (fd_status_NORW, session) w
            else if ret = -2 then Ok (fd_status_R, session) w
            else if ret = -3 then perror_die ''recv'' w
            else handle_message db js a fd data session w))"

definition send_would_block :: "send_result \<Rightarrow> bool" where
  "send_would_block r \<longleftrightarrow> (case r of SendErr e \<Rightarrow> e = EAGAIN \<or> e = EWOULDBLOCK | Sent _ \<Rightarrow> False)"

definition on_peer_ready_send ::
  "answers \<Rightarrow> int \<Rightarrow> ('db, 'z) server_scheme \<Rightarrow> (fd_status_t, ('db, 'z) server_scheme) outcome" where
  "on_peer_ready_send a sockfd w =
     (if \<not> sockfd < MAXFDS then Stop Assert_failed w
      else let peerstate = global_state w sockfd in
      if sendptr peerstate \<ge> sendbuf_end peerstate then Ok fd_status_RW w
      else let sendlen = sendbuf_end peerstate - sendptr peerstate in
      obind (c_send (a_send a) sockfd (send_data peerstate) (nat sendlen) w) (\<lambda>nsent w.
        if nsent = -1 then
          (if send_would_block (a_send a) then Ok fd_status_W w else perror_die ''send'' w)
        else if nsent < sendlen then
          Ok fd_status_W (w\<lparr>global_state := (global_state w)(sockfd :=
            peerstate\<lparr>sendptr := sendptr peerstate + nsent\<rparr>)\<rparr>)
        else
          Ok fd_status_R (w\<lparr>global_state := (global_state w)(sockfd :=
            peerstate\<lparr>sendptr := 0, sendbuf_end := 0,
              pstate := (if pstate peerstate = INITIAL_ACK then WAIT_FOR_MSG else pstate peerstate)\<rparr>)\<rparr>)))"

section \<open>One event of the loop in main\<close>

definition events_of :: "fd_status_t \<Rightarrow> 32 word" where
  "events_of status =
     (let events = (0 :: 32 word);
          events = (if want_read status then events OR EPOLLIN else events);
          events = (if want_write status then events OR EPOLLOUT else events)
      in events)"

definition epoll_add :: "answers \<Rightarrow> int \<Rightarrow> 32 word \<Rightarrow> ('db, 'z) server_scheme \<Rightarrow>
    (unit, ('db, 'z) server_scheme) outcome" where
  "epoll_add a fd ev w =
     (if a_epoll_ctl a < 0 then perror_die ''epoll_ctl EPOLL_CTL_ADD'' w
      else Ok () (emit (EpollAdd fd ev) (w\<lparr>epoll_set := (epoll_set w)(fd \<mapsto> ev)\<rparr>)))"

definition epoll_mod :: "answers \<Rightarrow> int \<Rightarrow> 32 word \<Rightarrow> ('db, 'z) server_scheme \<Rightarrow>
    (unit, ('db, 'z) server_scheme) outcome" where
  "epoll_mod a fd ev w =
     (if a_epoll_ctl a < 0 then perror_die ''epoll_ctl EPOLL_CTL_MOD'' w
      else Ok () (emit (EpollMod fd ev) (w\<lparr>epoll_set := (epoll_set w)(fd \<mapsto> ev)\<rparr>)))"

definition epoll_del :: "answers \<Rightarrow> int \<Rightarrow> ('db, 'z) server_scheme \<Rightarrow>
    (unit, ('db, 'z) server_scheme) outcome" where
  "epoll_del a fd w =
     (if a_epoll_ctl a < 0 then perror_die ''epoll_ctl EPOLL_CTL_DEL'' w
      else Ok () (emit (EpollDel fd) (w\<lparr>epoll_set := (epoll_set w)(fd := None)\<rparr>)))"

definition close_fd :: "int \<Rightarrow> ('db, 'z) server_scheme \<Rightarrow> ('db, 'z) server_scheme" where
  "close_fd fd w = emit (CloseFd fd) (w\<lparr>sockets := sockets w - {fd}\<rparr>)"

definition closing_text :: "int \<Rightarrow> string" where
  "closing_text fd = ''socket '' @ fmt_d fd @ '' closing''"

definition handle_accept ::
  "answers \<Rightarrow> ('db, 'z) server_scheme \<Rightarrow> (unit, ('db, 'z) server_scheme) outcome" where
  "handle_accept a w = (case a_accept a of
       AcceptErr e \<Rightarrow>
         if e = EAGAIN \<or> e = EWOULDBLOCK
         then Ok () (emit (Print ''accept returned EAGAIN or EWOULDBLOCK'') w)
         else perror_die ''accept'' w
     | Accepted newsockfd \<Rightarrow>
         let w = w\<lparr>sockets := insert newsockfd (sockets w)\<rparr> in
         obind (make_socket_non_blocking (a_fcntl a) newsockfd w) (\<lambda>_ w.
           if newsockfd \<ge> MAXFDS then
             die (''socket fd ('' @ fmt_d newsockfd @ '') >= MAXFDS ('' @ fmt_d MAXFDS @ '')'') w
           else
             obind (on_peer_connected newsockfd (a_name a) w) (\<lambda>status w.
               epoll_add a newsockfd (events_of status) w)))"

definition handle_readable ::
  "'db mysql_api \<Rightarrow> json_api \<Rightarrow> answers \<Rightarrow> int \<Rightarrow> session_t \<Rightarrow> ('db, 'z) server_scheme \<Rightarrow>
     (session_t, ('db, 'z) server_scheme) outcome" where
  "handle_readable db js a fd session w =
     obind (on_peer_ready_recv db js a fd session w) (\<lambda>(status, session) w.
       let events = events_of status in
       if events = 0 then
         obind (mysql_delete_fd db fd w) (\<lambda>_ w.
         obind (epoll_del a fd w) (\<lambda>_ w.
           Ok session (close_fd fd (emit (Print (closing_text fd)) w))))
       else
         obind (epoll_mod a fd events w) (\<lambda>_ w. Ok session w))"

definition handle_writable ::
  "answers \<Rightarrow> int \<Rightarrow> ('db, 'z) server_scheme \<Rightarrow> (unit, ('db, 'z) server_scheme) outcome" where
  "handle_writable a fd w =
     obind (on_peer_ready_send a fd w) (\<lambda>status w.
       let events = events_of status in
       if events = 0 then
         obind (epoll_del a fd (emit (Print (closing_text fd)) w)) (\<lambda>_ w. Ok () (close_fd fd w))
       else epoll_mod a fd events w)"

definition handle_event ::
  "'db mysql_api \<Rightarrow> json_api \<Rightarrow> int \<Rightarrow> event \<Rightarrow> answers \<Rightarrow> session_t \<Rightarrow> ('db, 'z) server_scheme \<Rightarrow>
     (session_t, ('db, 'z) server_scheme) outcome" where
  "handle_event db js listener_sockfd ev a session w =
     (if ev_events ev AND EPOLLERR \<noteq> 0 then perror_die ''epoll_wait returned EPOLLERR'' w
      else if ev_fd ev = listener_sockfd then obind (handle_accept a w) (\<lambda>_ w. Ok session w)
      else if ev_events ev AND EPOLLIN \<noteq> 0 then handle_readable db js a (ev_fd ev) session w
      else if ev_events ev AND EPOLLOUT \<noteq> 0 then
        obind (handle_writable a (ev_fd ev) w) (\<lambda>_ w. Ok session w)
      else Ok session w)"

section \<open>The loop\<close>

fun handle_events ::
  "'db mysql_api \<Rightarrow> json_api \<Rightarrow> int \<Rightarrow> (event \<times> answers) list \<Rightarrow> session_t \<Rightarrow> ('db, 'z) server_scheme \<Rightarrow>
     (session_t, ('db, 'z) server_scheme) outcome" where
  "handle_events db js lfd [] session w = Ok session w"
| "handle_events db js lfd ((ev, a) # evs) session w =
     obind (handle_event db js lfd ev a session w) (\<lambda>session w. handle_events db js lfd evs session w)"

text \<open>
  One turn of the endless loop, given what \<open>malloc\<close> left in the session block and what
  \<open>epoll_wait\<close> reported; and the first turns of the loop.
\<close>

definition loop_turn ::
  "'db mysql_api \<Rightarrow> json_api \<Rightarrow> int \<Rightarrow> session_t \<times> (event \<times> answers) list \<Rightarrow> ('db, 'z) server_scheme \<Rightarrow>
     (unit, ('db, 'z) server_scheme) outcome" where
  "loop_turn db js lfd turn w =
     (case turn of (junk, evs) \<Rightarrow>
        obind (handle_events db js lfd evs (malloc_session junk) (emit Malloc w)) (\<lambda>session w.
          Ok () (mj_free (Some session) w)))"

fun main_loop ::
  "'db mysql_api \<Rightarrow> json_api \<Rightarrow> int \<Rightarrow> (session_t \<times> (event \<times> answers) list) list \<Rightarrow>
     ('db, 'z) server_scheme \<Rightarrow> (unit, ('db, 'z) server_scheme) outcome" where
  "main_loop db js lfd [] w = Ok () w"
| "main_loop db js lfd (turn # turns) w =
     obind (loop_turn db js lfd turn w) (\<lambda>_ w. main_loop db js lfd turns w)"

section \<open>Start-up\<close>

record start_answers =
  st_connected :: bool
  st_listen :: listen_answers
  st_fcntl :: fcntl_answers
  st_epoll_create :: int
  st_epoll_ctl :: int
  st_calloc :: bool

text \<open>
  \<open>main\<close> up to the loop: \<open>None\<close> is \<open>return -1\<close>, \<open>Some fd\<close> is the listening socket with which the
  loop is entered.
\<close>

definition main_start ::
  "start_answers \<Rightarrow> string list \<Rightarrow> ('db, 'z) server_scheme \<Rightarrow>
     (int option, ('db, 'z) server_scheme) outcome" where
  "main_start a argv w =
     (case mysql_conn (st_connected a) w of (conn, w) \<Rightarrow>
        if \<not> conn then Ok None w
        else
          let portnum = (if length argv \<ge> 2 then atoi (argv ! 1) else 88);
              w = emit (Print (''Serving on port '' @ fmt_d portnum)) w
          in
          obind (listen_inet_socket (st_listen a) portnum w) (\<lambda>listener_sockfd w.
          obind (make_socket_non_blocking (st_fcntl a) listener_sockfd w) (\<lambda>_ w.
            if st_epoll_create a < 0 then perror_die ''epoll_create1'' w
            else if st_epoll_ctl a < 0 then perror_die ''epoll_ctl EPOLL_CTL_ADD'' w
            else
              let w = emit (EpollAdd listener_sockfd EPOLLIN)
                        (w\<lparr>epoll_set := (epoll_set w)(listener_sockfd \<mapsto> EPOLLIN)\<rparr>)
              in
              if \<not> st_calloc a then die ''Unable to allocate memory for epoll_events'' w
              else Ok (Some listener_sockfd) (emit Malloc w))))"

section \<open>Invariant and environment\<close>

text \<open>
  Every open connection has a descriptor below \<open>MAXFDS\<close>, is watched for input and nothing else,
  and is still in the state \<open>on_peer_connected\<close> gave it; nothing but the listener and the open
  connections is watched.
\<close>

definition server_inv :: "int \<Rightarrow> ('db, 'z) server_scheme \<Rightarrow> bool" where
  "server_inv lfd w \<longleftrightarrow>
     lfd \<notin> sockets w \<and> epoll_set w lfd = Some EPOLLIN \<and>
     dom (epoll_set w) = insert lfd (sockets w) \<and>
     (\<forall>fd \<in> sockets w. 0 \<le> fd \<and> fd < MAXFDS \<and> epoll_set w fd = Some EPOLLIN \<and>
        pstate (global_state w fd) = INITIAL_ACK \<and> sendptr (global_state w fd) = 0 \<and>
        sendbuf_end (global_state w fd) = SYNACK_LEN)"

text \<open>
  The kernel: epoll reports a watched descriptor and, beside errors and hang-ups, only events
  that were asked for; \<open>accept\<close> gives a descriptor that is not in use.
\<close>

definition event_ok :: "int \<Rightarrow> ('db, 'z) server_scheme \<Rightarrow> event \<Rightarrow> answers \<Rightarrow> bool" where
  "event_ok lfd w ev a \<longleftrightarrow>
     (\<exists>m. epoll_set w (ev_fd ev) = Some m \<and>
        ev_events ev AND NOT (m OR EPOLLERR OR EPOLLHUP) = 0) \<and>
     (case a_accept a of Accepted n \<Rightarrow> 0 \<le> n \<and> n \<noteq> lfd \<and> n \<notin> sockets w | AcceptErr _ \<Rightarrow> True)"

fun sent_ok :: "send_result \<Rightarrow> bool" where
  "sent_ok (Sent n) \<longleftrightarrow> 0 \<le> n \<and> n \<le> INT_MAX"
| "sent_ok (SendErr _) \<longleftrightarrow> True"

text \<open>The bytes that went out on a descriptor.\<close>

fun wire :: "int \<Rightarrow> effect list \<Rightarrow> string" where
  "wire fd [] = []"
| "wire fd (Send fd' p len n # es) =
     (if fd' = fd then take (nat n) (case p of Lit s \<Rightarrow> s | Owned s \<Rightarrow> s | _ \<Rightarrow> []) else []) @ wire fd es"
| "wire fd (_ # es) = wire fd es"

section \<open>Lemmas\<close>

subsection \<open>What leaves the server's own fields alone\<close>

lemma server_more_cong:
  fixes v w :: "('db, 'z) server_scheme"
  assumes "world.more v = world.more w"
  shows "global_state v = global_state w" "epoll_set v = epoll_set w" "sockets v = sockets w"
  using assms by (cases v; cases w; simp)+

lemma server_emit [simp]:
  fixes w :: "('db, 'z) server_scheme"
  shows "global_state (emit e w) = global_state w" "epoll_set (emit e w) = epoll_set w"
    "sockets (emit e w) = sockets w"
  by (simp_all add: emit_def)

lemma mj_free_more [simp]: "world.more (mj_free p w) = world.more w" "w_db (mj_free p w) = w_db w"
  by (cases p; simp)+

lemma socket_read_loop_more:
  "socket_read_loop slack rs data w = Ok r v \<Longrightarrow> world.more v = world.more w \<and> w_db v = w_db w"
proof (induction slack rs data w rule: socket_read_loop.induct)
  case (3 slack buff rs data w)
  then show ?case by (auto simp: Let_def split: if_splits)
qed (auto split: if_splits)

lemma socket_read_more:
  "socket_read slack rs w = Ok r v \<Longrightarrow> world.more v = world.more w \<and> w_db v = w_db w"
  by (auto simp: socket_read_def dest: socket_read_loop_more)

lemma c_send_more: "c_send r fd p n w = Ok k v \<Longrightarrow> world.more v = world.more w \<and> w_db v = w_db w"
  by (auto simp: c_send_def split: send_result.splits if_splits)

lemma msg_client_info_more:
  "msg_client_info js fs s w = Ok b v \<Longrightarrow> world.more v = world.more w \<and> w_db v = w_db w"
  by (auto simp: msg_client_info_Ok)

lemma ux_request_more: "ux_request db js a s w = Ok r v \<Longrightarrow> world.more v = world.more w"
  by (auto simp: ux_request_def ok_iffs Let_def split: if_splits
      dest!: mysql_insert_fd_more mysql_select_fd_more msg_client_info_more c_send_more)

lemma parse_json_cmd_more:
  "parse_json_cmd j s w = Ok r v \<Longrightarrow> world.more v = world.more w \<and> w_db v = w_db w"
  by (cases j) (auto simp: parse_json_cmd_def parse_json_cmd_loop_eq json_object_object_foreach_def)

lemma parse_json_agent_more: "parse_json_agent j s w = Ok r v \<Longrightarrow> v = w"
  by (cases j) (auto simp: parse_json_agent_def json_object_object_foreach_def)

lemma handle_message_more:
  "handle_message db js a fd d s w = Ok r v \<Longrightarrow> world.more v = world.more w"
  by (auto simp: handle_message_def ok_iffs Let_def
      split: if_splits agent_type_t.splits
      dest!: parse_json_cmd_more parse_json_agent_more ux_request_more mysql_insert_fd_more)

lemma on_peer_ready_recv_more:
  "on_peer_ready_recv db js a fd s w = Ok r v \<Longrightarrow> world.more v = world.more w"
  by (auto simp: on_peer_ready_recv_def ok_iffs split: if_splits option.splits
      dest!: socket_read_more handle_message_more)

subsection \<open>Statuses and event masks\<close>

lemma status_simps [simp]:
  "want_read fd_status_R" "\<not> want_write fd_status_R" "\<not> want_read fd_status_NORW"
  "\<not> want_write fd_status_NORW" "want_write fd_status_W" "\<not> want_read fd_status_W"
  "want_read fd_status_RW" "want_write fd_status_RW"
  by (simp_all add: fd_status_R_def fd_status_W_def fd_status_RW_def fd_status_NORW_def)

lemma events_of_simps [simp]:
  "events_of fd_status_R = EPOLLIN" "events_of fd_status_NORW = 0" "events_of fd_status_W = EPOLLOUT"
  "events_of fd_status_RW = EPOLLIN OR EPOLLOUT"
  by (simp_all add: events_of_def)

lemma handle_message_status:
  "handle_message db js a fd d s w = Ok (st, s') v \<Longrightarrow> st = fd_status_R"
  by (auto simp: handle_message_def ok_iffs Let_def fd_status_R_def)

lemma on_peer_ready_recv_status:
  "on_peer_ready_recv db js a fd s w = Ok (st, s') v \<Longrightarrow> st = fd_status_R \<or> st = fd_status_NORW"
  by (auto simp: on_peer_ready_recv_def ok_iffs split: if_splits option.splits
      dest: handle_message_status)

lemma no_epollout:
  assumes "ev AND NOT (EPOLLIN OR EPOLLERR OR EPOLLHUP) = (0 :: 32 word)"
  shows "ev AND EPOLLOUT = 0"
proof -
  have e: "NOT (EPOLLIN OR EPOLLERR OR EPOLLHUP) AND EPOLLOUT = EPOLLOUT" by simp
  have "ev AND EPOLLOUT = ev AND (NOT (EPOLLIN OR EPOLLERR OR EPOLLHUP) AND EPOLLOUT)"
    by (simp only: e)
  also have "\<dots> = (ev AND NOT (EPOLLIN OR EPOLLERR OR EPOLLHUP)) AND EPOLLOUT"
    by (simp only: and.assoc)
  also have "\<dots> = 0" unfolding assms by simp
  finally show ?thesis .
qed

lemma server_inv_mask:
  assumes "server_inv lfd w" and "epoll_set w fd = Some m"
  shows "m = EPOLLIN"
proof -
  have "fd \<in> insert lfd (sockets w)" using assms by (auto simp: server_inv_def)
  with assms show ?thesis by (auto simp: server_inv_def)
qed

lemma event_ok_no_epollout:
  assumes "server_inv lfd w" and "event_ok lfd w ev a"
  shows "ev_events ev AND EPOLLOUT = 0"
proof -
  obtain m where m: "epoll_set w (ev_fd ev) = Some m"
      "ev_events ev AND NOT (m OR EPOLLERR OR EPOLLHUP) = 0"
    using assms(2) unfolding event_ok_def by blast
  then have "m = EPOLLIN" using server_inv_mask [OF assms(1)] by blast
  with m(2) have "ev_events ev AND NOT (EPOLLIN OR EPOLLERR OR EPOLLHUP) = 0" by (simp only:)
  then show ?thesis by (rule no_epollout)
qed

subsection \<open>The invariant is kept\<close>

lemma server_inv_more:
  fixes v w :: "('db, 'z) server_scheme"
  assumes "world.more v = world.more w"
  shows "server_inv lfd v \<longleftrightarrow> server_inv lfd w"
  by (simp add: server_inv_def server_more_cong [OF assms])

lemma report_peer_connected_more [simp]: "world.more (report_peer_connected n w) = world.more w"
  by (auto simp: report_peer_connected_def split: option.split)

lemma on_peer_connected_Ok:
  "on_peer_connected fd n w = Ok st v \<longleftrightarrow>
     fd < MAXFDS \<and> st = fd_status_R \<and>
     v = (report_peer_connected n w)\<lparr>global_state := (global_state w)(fd :=
       (global_state w fd)\<lparr>pstate := INITIAL_ACK, sendptr := 0, sendbuf_end := SYNACK_LEN\<rparr>)\<rparr>"
  by (auto simp: on_peer_connected_def Let_def server_more_cong [OF report_peer_connected_more])

lemma epoll_Ok [ok_iffs]:
  "epoll_add a fd ev w = Ok u v \<longleftrightarrow>
     0 \<le> a_epoll_ctl a \<and> v = emit (EpollAdd fd ev) (w\<lparr>epoll_set := (epoll_set w)(fd \<mapsto> ev)\<rparr>)"
  "epoll_mod a fd ev w = Ok u v \<longleftrightarrow>
     0 \<le> a_epoll_ctl a \<and> v = emit (EpollMod fd ev) (w\<lparr>epoll_set := (epoll_set w)(fd \<mapsto> ev)\<rparr>)"
  "epoll_del a fd w = Ok u v \<longleftrightarrow>
     0 \<le> a_epoll_ctl a \<and> v = emit (EpollDel fd) (w\<lparr>epoll_set := (epoll_set w)(fd := None)\<rparr>)"
  by (auto simp: epoll_add_def epoll_mod_def epoll_del_def)

lemma handle_accept_Accepted:
  assumes "handle_accept a w = Ok u v" and "a_accept a = Accepted n"
  shows "n < MAXFDS" "sockets v = insert n (sockets w)" "epoll_set v = (epoll_set w)(n \<mapsto> EPOLLIN)"
    "global_state v = (global_state w)(n :=
       (global_state w n)\<lparr>pstate := INITIAL_ACK, sendptr := 0, sendbuf_end := SYNACK_LEN\<rparr>)"
    "w_db v = w_db w"
  using assms
  by (auto simp: handle_accept_def ok_iffs on_peer_connected_Ok
      server_more_cong [OF report_peer_connected_more] split: if_splits)

lemma handle_accept_AcceptErr:
  assumes "handle_accept a w = Ok u v" and "a_accept a = AcceptErr e"
  shows "world.more v = world.more w" "w_db v = w_db w"
  using assms by (auto simp: handle_accept_def split: if_splits)

lemma handle_accept_inv:
  assumes "server_inv lfd w" and "handle_accept a w = Ok u v"
    and "case a_accept a of Accepted n \<Rightarrow> 0 \<le> n \<and> n \<noteq> lfd \<and> n \<notin> sockets w | AcceptErr _ \<Rightarrow> True"
  shows "server_inv lfd v"
proof (cases "a_accept a")
  case (Accepted n)
  note new = handle_accept_Accepted [OF assms(2) Accepted]
  show ?thesis
    using assms(1,3) Accepted new(1) unfolding server_inv_def new(2-4) by auto
next
  case (AcceptErr e)
  then show ?thesis
    using assms(1) server_inv_more [OF handle_accept_AcceptErr(1) [OF assms(2)]] by simp
qed

text \<open>A readable connection either stays as it is or is closed and forgotten.\<close>

lemma handle_readable_Ok:
  assumes "handle_readable db js a fd s w = Ok s' v"
  obtains (kept) w1 where "on_peer_ready_recv db js a fd s w = Ok (fd_status_R, s') w1"
      "v = emit (EpollMod fd EPOLLIN) (w1\<lparr>epoll_set := (epoll_set w)(fd \<mapsto> EPOLLIN)\<rparr>)"
      "sockets v = sockets w" "global_state v = global_state w"
  | (closed) w1 r w2 where "on_peer_ready_recv db js a fd s w = Ok (fd_status_NORW, s') w1"
      "mysql_delete_fd db fd w1 = Ok r w2" "w_db v = w_db w2"
      "epoll_set v = (epoll_set w)(fd := None)" "sockets v = sockets w - {fd}"
      "global_state v = global_state w"
proof -
  from assms obtain st w1 where 1: "on_peer_ready_recv db js a fd s w = Ok (st, s') w1"
    and rest: "(if events_of st = 0 then
         obind (mysql_delete_fd db fd w1) (\<lambda>_ w.
         obind (epoll_del a fd w) (\<lambda>_ w.
           Ok s' (close_fd fd (emit (Print (closing_text fd)) w))))
       else
         obind (epoll_mod a fd (events_of st) w1) (\<lambda>_ w. Ok s' w)) = Ok s' v"
    by (auto simp: handle_readable_def ok_iffs Let_def split: if_splits)
  note frame1 = server_more_cong [OF on_peer_ready_recv_more [OF 1]]
  from on_peer_ready_recv_status [OF 1] show ?thesis
  proof
    assume st: "st = fd_status_R"
    from rest have v: "v = emit (EpollMod fd EPOLLIN) (w1\<lparr>epoll_set := (epoll_set w1)(fd \<mapsto> EPOLLIN)\<rparr>)"
      unfolding st by (simp add: ok_iffs)
    show ?thesis
    proof (rule kept [of w1])
      show "on_peer_ready_recv db js a fd s w = Ok (fd_status_R, s') w1" using 1 st by simp
    qed (simp_all add: v frame1)
  next
    assume st: "st = fd_status_NORW"
    from rest obtain r w2 where 2: "mysql_delete_fd db fd w1 = Ok r w2"
      and v: "v = close_fd fd (emit (Print (closing_text fd))
                (emit (EpollDel fd) (w2\<lparr>epoll_set := (epoll_set w2)(fd := None)\<rparr>)))"
      unfolding st by (auto simp: ok_iffs)
    note frame2 = server_more_cong [OF mysql_delete_fd_more [OF 2]]
    show ?thesis
    proof (rule closed [of w1 r w2])
      show "on_peer_ready_recv db js a fd s w = Ok (fd_status_NORW, s') w1" using 1 st by simp
      show "mysql_delete_fd db fd w1 = Ok r w2" by (rule 2)
    qed (simp_all add: v close_fd_def frame1 frame2)
  qed
qed

lemma handle_readable_inv:
  assumes "server_inv lfd w" and "fd \<in> sockets w" and "handle_readable db js a fd s w = Ok s' v"
  shows "server_inv lfd v"
  using assms(3)
proof (cases rule: handle_readable_Ok)
  case (kept w1)
  then have "epoll_set v = epoll_set w" using assms(1,2) by (auto simp: server_inv_def)
  with kept assms(1) show ?thesis by (simp add: server_inv_def)
next
  case (closed w1 r w2)
  then show ?thesis using assms(1,2) by (auto simp: server_inv_def)
qed

text \<open>The three ways an event of a well-behaved kernel can be handled.\<close>

lemma handle_event_cases:
  assumes "server_inv lfd w" and "event_ok lfd w ev a" and "handle_event db js lfd ev a s w = Ok s' v"
  obtains (accept) u where "ev_fd ev = lfd" "handle_accept a w = Ok u v" "s' = s"
  | (readable) "ev_fd ev \<in> sockets w" "ev_events ev AND EPOLLIN \<noteq> 0"
      "handle_readable db js a (ev_fd ev) s w = Ok s' v"
  | (idle) "ev_fd ev \<in> sockets w" "s' = s" "v = w"
proof -
  have out: "ev_events ev AND EPOLLOUT = 0" by (rule event_ok_no_epollout [OF assms(1,2)])
  have "ev_fd ev = lfd \<or> ev_fd ev \<in> sockets w"
    using assms(1,2) by (auto simp: server_inv_def event_ok_def)
  moreover have "lfd \<notin> sockets w" using assms(1) by (simp add: server_inv_def)
  ultimately show ?thesis
    using assms(3) out that unfolding handle_event_def
    by (auto simp: ok_iffs split: if_splits)
qed

lemma handle_event_inv:
  assumes "server_inv lfd w" and "event_ok lfd w ev a" and "handle_event db js lfd ev a s w = Ok s' v"
  shows "server_inv lfd v"
  using assms
proof (cases rule: handle_event_cases)
  case (accept u)
  with assms show ?thesis by (auto simp: event_ok_def intro: handle_accept_inv)
next
  case readable
  then show ?thesis using assms(1) by (auto intro: handle_readable_inv)
next
  case idle
  with assms(1) show ?thesis by simp
qed

subsection \<open>Sending\<close>

lemma to_size_t_pos:
  assumes "-1 \<le> n" and "n \<le> INT_MAX"
  shows "0 < to_size_t n \<longleftrightarrow> n \<noteq> 0"
proof -
  have "to_size_t n = 0 \<longleftrightarrow> (2 :: int) ^ 64 dvd n"
    by (simp add: to_size_t_def word_of_int_eq_0_iff)
  also have "\<dots> \<longleftrightarrow> n = 0"
    using assms zdvd_imp_le [of "2 ^ 64" n] zdvd_imp_le [of "2 ^ 64" "- n"] by auto
  finally show ?thesis by (simp add: word_gt_0)
qed

lemma c_send_Ok:
  "c_send r fd p len w = Ok n v \<longleftrightarrow>
     v = emit (Send fd p len n) w \<and> (r = Sent n \<or> n = -1 \<and> (\<exists>e. r = SendErr e \<and> e \<noteq> EPIPE))"
  by (auto simp: c_send_def split: send_result.split)

lemma wire_append: "wire fd (xs @ ys) = wire fd xs @ wire fd ys"
  by (induction fd xs rule: wire.induct) simp_all

subsection \<open>Sessions between messages\<close>

lemma readable_put_ptr [simp]: "readable (put_ptr p) \<longleftrightarrow> (\<exists>s. p = Lit s)"
  by (cases p) auto

lemma cmd_session_mac_not_Lit:
  "\<not> readable (miner_mac s) \<Longrightarrow> miner_mac (cmd_session es s) \<noteq> Lit t"
  by (auto simp: cmd_session_def split: option.splits)

lemma handle_message_session:
  assumes "handle_message db js a fd d s w = Ok (st, s') v" and "\<not> readable (miner_mac s)"
  shows "\<not> readable (miner_mac s')"
proof -
  from assms(1) obtain es where j: "parse_string_to_json js d = JObject es"
    by (auto simp: handle_message_def ok_iffs Let_def)
  with assms show ?thesis
    by (auto simp: handle_message_def ok_iffs Let_def json_object_put_session_def
        parse_json_cmd_eq parse_json_agent_eq cmd_session_mac_not_Lit split: if_splits option.splits)
qed

lemma on_peer_ready_recv_session:
  assumes "on_peer_ready_recv db js a fd s w = Ok (st, s') v" and "\<not> readable (miner_mac s)"
  shows "\<not> readable (miner_mac s')"
  using assms
  by (auto simp: on_peer_ready_recv_def ok_iffs split: if_splits option.splits
      dest: handle_message_session)

lemma handle_event_session:
  assumes "handle_event db js lfd ev a s w = Ok s' v" and "\<not> readable (miner_mac s)"
  shows "\<not> readable (miner_mac s')"
  using assms
  by (auto simp: handle_event_def handle_readable_def ok_iffs Let_def split: if_splits
      dest: on_peer_ready_recv_session)

end
