(* ===== verification/Agent_System.thy ===== *)
theory Agent_System
  imports Agent_Server
begin

unbundle bit_operations_syntax

text \<open>
  The server running against a database that keeps the contract \<open>mysql_table\<close>: what one message
  does to the session table, and which states the event loop can reach.
\<close>

section \<open>Definitions\<close>

text \<open>Static storage is zero: \<open>global_state\<close> before any peer connected, and the whole process.\<close>

definition zero_peer :: peer_state_t where
  "zero_peer = \<lparr>pstate = INITIAL_ACK, send_data = Null, sendbuf_end = 0, sendptr = 0\<rparr>"

definition boot :: "'db \<Rightarrow> 'db server" where
  "boot d = \<lparr>w_db = d, w_log = [], global_state = (\<lambda>_. zero_peer), epoll_set = Map.empty, sockets = {}\<rparr>"

text \<open>The names a message that arrives with these answers may carry.\<close>

definition message_ok ::
  "(string \<Rightarrow> bool) \<Rightarrow> json_api \<Rightarrow> answers \<Rightarrow> ('db, 'z) world_scheme \<Rightarrow> bool" where
  "message_ok mac_ok js a w \<longleftrightarrow>
     (\<forall>data ret v es m.
        socket_read (a_slack a) (a_recv a) w = Ok (Some data, ret) v \<longrightarrow>
        parse_string_to_json js data = JObject es \<longrightarrow>
        last_string ''miner_mac'' es = Some m \<longrightarrow> mac_ok (c_str m))"

text \<open>Every descriptor in the session table belongs to an open connection.\<close>

definition registered_open :: "('db \<Rightarrow> session_row list) \<Rightarrow> ('db, 'z) server_scheme \<Rightarrow> bool" where
  "registered_open tbl w \<longleftrightarrow> ran (registry_of tbl w) \<subseteq> sockets w"

text \<open>
  The states between two events: after the start-up on the database \<open>d\<close>, after an event of a
  kernel that keeps its promises, and at the start of the next batch, with a fresh session. The names
  that arrive are those that satisfy the parameter \<open>mac_ok\<close>: with \<open>\<lambda>_. True\<close> these are the states the code reaches
  on any input; a statement about the content of the session table takes the names for which the database keeps
  its contract, since a name with a quote can make the unescaped statements mean anything.
\<close>

inductive reachable ::
  "'db mysql_api \<Rightarrow> json_api \<Rightarrow> (string \<Rightarrow> bool) \<Rightarrow> 'db \<Rightarrow> int \<Rightarrow> session_t \<Rightarrow> 'db server \<Rightarrow> bool"
  for db :: "'db mysql_api" and js :: json_api and mac_ok :: "string \<Rightarrow> bool" and d :: 'db and lfd :: int
where
  start: "main_start st argv (boot d) = Ok (Some lfd) w \<Longrightarrow>
    reachable db js mac_ok d lfd (malloc_session junk) (emit Malloc w)"
| event: "reachable db js mac_ok d lfd s w \<Longrightarrow> event_ok lfd w ev a \<Longrightarrow> message_ok mac_ok js a w \<Longrightarrow>
    handle_event db js lfd ev a s w = Ok s' w' \<Longrightarrow> reachable db js mac_ok d lfd s' w'"
| turn: "reachable db js mac_ok d lfd s w \<Longrightarrow>
    reachable db js mac_ok d lfd (malloc_session junk) (emit Malloc (mj_free (Some s) w))"

text \<open>What is asked of the environment along a batch of events, and along a run of the loop.\<close>

fun events_ok ::
  "'db mysql_api \<Rightarrow> json_api \<Rightarrow> (string \<Rightarrow> bool) \<Rightarrow> int \<Rightarrow> (event \<times> answers) list \<Rightarrow> session_t \<Rightarrow>
     ('db, 'z) server_scheme \<Rightarrow> bool" where
  "events_ok db js mac_ok lfd [] s w = True"
| "events_ok db js mac_ok lfd ((ev, a) # evs) s w =
     (event_ok lfd w ev a \<and> message_ok mac_ok js a w \<and>
      (case handle_event db js lfd ev a s w of
         Ok s' w' \<Rightarrow> events_ok db js mac_ok lfd evs s' w' | Stop _ _ \<Rightarrow> True))"

fun turns_ok ::
  "'db mysql_api \<Rightarrow> json_api \<Rightarrow> (string \<Rightarrow> bool) \<Rightarrow> int \<Rightarrow> (session_t \<times> (event \<times> answers) list) list \<Rightarrow>
     ('db, 'z) server_scheme \<Rightarrow> bool" where
  "turns_ok db js mac_ok lfd [] w = True"
| "turns_ok db js mac_ok lfd ((junk, evs) # turns) w =
     (events_ok db js mac_ok lfd evs (malloc_session junk) (emit Malloc w) \<and>
      (case loop_turn db js lfd (junk, evs) w of
         Ok _ w' \<Rightarrow> turns_ok db js mac_ok lfd turns w' | Stop _ _ \<Rightarrow> True))"

text \<open>
  What \<open>recv\<close> answers when the complete message \<open>m\<close> has arrived in the pieces \<open>cs\<close>, and the byte
  behind the growing block is not zero after any piece but the last (which is no condition for a message
  in one piece); and the epoll event of a peer that sent it.
\<close>

definition arrives :: "answers \<Rightarrow> string list \<Rightarrow> string \<Rightarrow> bool" where
  "arrives a cs m \<longleftrightarrow>
     a_recv a = map Recv cs \<and> concat cs = m @ [NUL] \<and> nul_free m \<and> [] \<notin> set cs \<and>
     int (length m) < INT_MAX \<and>
     (\<forall>k \<in> {1..<length cs}. a_slack a (length (concat (take k cs))) \<noteq> NUL)"

definition peer_input ::
  "('db, 'z) server_scheme \<Rightarrow> event \<Rightarrow> answers \<Rightarrow> string list \<Rightarrow> string \<Rightarrow> bool" where
  "peer_input w ev a cs m \<longleftrightarrow>
     ev_fd ev \<in> sockets w \<and> ev_events ev AND EPOLLERR = 0 \<and> ev_events ev AND EPOLLIN \<noteq> 0 \<and>
     0 \<le> a_epoll_ctl a \<and> arrives a cs m"

text \<open>
  A request of the operator's console to have an agent download a file, as C strings: the agent's
  name, the file, where to install it and the sequence number.
\<close>

definition download_request ::
  "(string \<times> json) list \<Rightarrow> string \<Rightarrow> string \<Rightarrow> string \<Rightarrow> int \<Rightarrow> bool" where
  "download_request es mac file install seqno \<longleftrightarrow>
     get_agent_type_loop es = REQ_UX \<and>
     map_option c_str (last_string ''miner_mac'' es) = Some mac \<and>
     map_option c_str (last_string ''commend_type'' es) = Some ''file-download'' \<and>
     map_option c_str (last_string ''path'' es) = Some file \<and>
     map_option c_str (last_string ''path_install'' es) = Some install \<and>
     last_string ''path_install'' es \<noteq> Some [] \<and>
     map_option atoi (last_string ''sequence'' es) = Some seqno"

text \<open>
  The session block is not cleared between the events of a batch. What an earlier message left in it is \<open>stale\<close>:
  pointers into the released object, apart from the constant text that stands for an empty path.
\<close>

definition stale :: "session_t \<Rightarrow> bool" where
  "stale s \<longleftrightarrow> \<not> readable (cmd_type s) \<and> \<not> readable (miner_mac s) \<and> \<not> readable (path_install s) \<and>
     (readable (path s) \<longrightarrow> ptr_text (path s) = [])"

text \<open>A request from which no command can be built, whatever an earlier message left in the block.\<close>

definition unsendable_order :: "(string \<Rightarrow> string option) \<Rightarrow> (string \<times> json) list \<Rightarrow> bool" where
  "unsendable_order fs es \<longleftrightarrow>
     (case last_string ''commend_type'' es of None \<Rightarrow> True | Some t \<Rightarrow> c_str t \<noteq> ''file-download'') \<or>
     (case last_string ''path_install'' es of None \<Rightarrow> True | Some t \<Rightarrow> t = []) \<or>
     (case last_string ''path'' es of None \<Rightarrow> fs [] = None | Some t \<Rightarrow> fs (c_str t) = None)"

text \<open>
  The messages the server gets through, given the session table before the message and the descriptor it
  comes from: none of unknown type does harm; a registration needs a name, and a request too, short
  enough for the statements that are built from it; and when the name of a request is bound (the console's
  own name always is) the command must be one that can be built and the agent must not have closed its connection.
\<close>

definition message_survives ::
  "(string \<Rightarrow> int option) \<Rightarrow> answers \<Rightarrow> int \<Rightarrow> (string \<times> json) list \<Rightarrow> bool" where
  "message_survives reg a fd es \<longleftrightarrow> (case get_agent_type_loop es of
       REQ_UX \<Rightarrow> (case last_string ''miner_mac'' es of
           None \<Rightarrow> False
         | Some mac \<Rightarrow> length (c_str mac) \<le> 208 \<and>
             ((reg(''UX_SESSION'' \<mapsto> fd)) (c_str mac) = None \<or>
              \<not> unsendable_order (a_fs a) es \<and> a_send a \<noteq> SendErr EPIPE))
     | REQ_LINUX_CLAYMORE \<Rightarrow> (case last_string ''miner_mac'' es of
           None \<Rightarrow> False
         | Some mac \<Rightarrow> length (c_str mac) + length (fmt_d fd) \<le> 183)
     | _ \<Rightarrow> True)"

text \<open>The session and the world with which a request reaches \<open>ux_request\<close>, and what follows.\<close>

definition ux_session :: "(string \<times> json) list \<Rightarrow> int \<Rightarrow> session_t \<Rightarrow> session_t" where
  "ux_session es fd s = cmd_session es (s\<lparr>s_fd := fd, agent_type := REQ_UX\<rparr>)"

definition ux_world :: "('db, 'z) world_scheme \<Rightarrow> string list \<Rightarrow> (string \<times> json) list \<Rightarrow> ('db, 'z) world_scheme" where
  "ux_world w cs es =
     w\<lparr>w_log := w_log w @ Malloc # prefix_reads 0 cs @ JsonNew # replicate (empty_paths es) Malloc\<rparr>"

text \<open>What the handler logs for a command it passes on.\<close>

definition delivery_log ::
  "string \<Rightarrow> string \<Rightarrow> string \<Rightarrow> string \<Rightarrow> int \<Rightarrow> int \<Rightarrow> effect list" where
  "delivery_log mac file bytes msg agent k =
     [Query (select_fd_sql mac), StoreResult, JsonNew, Fopen file, Fopen file, Malloc,
      OobWrite (Suc (length bytes)) (Suc (length bytes)), Malloc, Free, Fclose,
      Send agent (Lit msg) (length msg) k]"

section \<open>Lemmas\<close>

lemma main_start_Ok:
  "main_start a argv w = Ok r v \<Longrightarrow>
     (\<not> st_connected a \<and> r = None \<or>
      (\<exists>fd. st_connected a \<and> r = Some fd \<and> fd = l_socket (st_listen a) \<and>
        epoll_set v = (epoll_set w)(fd \<mapsto> EPOLLIN))) \<and>
     sockets v = sockets w \<and> global_state v = global_state w \<and> w_db v = w_db w"
  by (auto simp: main_start_def mysql_conn_def Let_def ok_iffs split: if_splits)

lemma registry_of_db: "w_db v = w_db w \<Longrightarrow> registry_of tbl v = registry_of tbl w"
  by (simp add: registry_of_def)

lemma db_up_db: "w_db v = w_db w \<Longrightarrow> db_up up v \<longleftrightarrow> db_up up w"
  by (simp add: db_up_def)

lemma malloc_session_unreadable [simp]: "\<not> readable (miner_mac (malloc_session junk))"
  by (simp add: malloc_session_def)

lemma server_inv_log:
  "server_inv lfd (emit e w) \<longleftrightarrow> server_inv lfd w" "server_inv lfd (mj_free p w) \<longleftrightarrow> server_inv lfd w"
  by (rule server_inv_more, simp)+

subsection \<open>Messages and the session table\<close>

context mysql_table
begin

lemma ux_request_registry:
  assumes "db_up up w" and "int32 (s_fd s)"
    and "readable (miner_mac s) \<Longrightarrow> mac_ok (ptr_text (miner_mac s))"
    and "ux_request api js a s w = Ok r v"
  shows "db_up up v" "registry_of tbl v = (registry_of tbl w)(''UX_SESSION'' \<mapsto> s_fd s)"
proof -
  from assms(4) obtain r1 w1 ret w2 where
    1: "mysql_insert_fd api (Lit ''UX_SESSION'') (s_fd s) REQ_UX w = Ok r1 w1" and
    2: "mysql_select_fd api (miner_mac s) w1 = Ok ret w2" and
    v: "w_db v = w_db w2"
    by (auto simp: ux_request_def ok_iffs Let_def split: if_splits
        dest!: msg_client_info_more c_send_more)
  have "readable (miner_mac s)"
    using 2 by (auto simp: mysql_select_fd_def ok_iffs)
  moreover have ux: "ptr_text (Lit ''UX_SESSION'') = ''UX_SESSION''" by simp
  ultimately have "db_up up w1 \<and> registry_of tbl w1 = (registry_of tbl w)(''UX_SESSION'' \<mapsto> s_fd s)"
    and "db_up up w2 \<and> registry_of tbl w2 = registry_of tbl w1"
    using registry.insert_Ok [OF assms(1) _ _ assms(2) 1] ux_name
      registry.select_Ok [of w1 "miner_mac s", OF _ _ _ 2] assms(3)
    unfolding ux by simp_all
  then show "db_up up v" "registry_of tbl v = (registry_of tbl w)(''UX_SESSION'' \<mapsto> s_fd s)"
    using db_up_db [OF v] registry_of_db [OF v] by simp_all
qed

text \<open>A message binds at most one name, and binds it to the descriptor it came from.\<close>

lemma handle_message_registry:
  assumes "db_up up w" and "int32 fd" and "\<not> readable (miner_mac s)"
    and "parse_string_to_json js d = JObject es"
    and "\<And>m. last_string ''miner_mac'' es = Some m \<Longrightarrow> mac_ok (c_str m)"
    and "handle_message api js a fd d s w = Ok r v"
  shows "db_up up v" "registry_of tbl v = (case get_agent_type_loop es of
      REQ_UX \<Rightarrow> (registry_of tbl w)(''UX_SESSION'' \<mapsto> fd)
    | REQ_LINUX_CLAYMORE \<Rightarrow>
        (registry_of tbl w)(c_str (the (last_string ''miner_mac'' es)) \<mapsto> fd)
    | _ \<Rightarrow> registry_of tbl w)"
proof -
  let ?w1 = "emit JsonNew w"
  have "db_up up v \<and> registry_of tbl v = (case get_agent_type_loop es of
      REQ_UX \<Rightarrow> (registry_of tbl w)(''UX_SESSION'' \<mapsto> fd)
    | REQ_LINUX_CLAYMORE \<Rightarrow>
        (registry_of tbl w)(c_str (the (last_string ''miner_mac'' es)) \<mapsto> fd)
    | _ \<Rightarrow> registry_of tbl w)"
  proof (cases "get_agent_type_loop es")
    case REQ_UX
    let ?s = "cmd_session es (s\<lparr>s_fd := fd, agent_type := REQ_UX\<rparr>)"
    let ?w2 = "?w1\<lparr>w_log := w_log ?w1 @ replicate (empty_paths es) Malloc\<rparr>"
    from assms(4,6) REQ_UX obtain u w3 where ux: "ux_request api js a ?s ?w2 = Ok u w3"
      and v: "w_db v = w_db w3"
      by (auto simp: handle_message_def Let_def get_agent_type_def outcome_simps ok_iffs)
    have mac: "readable (miner_mac ?s) \<Longrightarrow> mac_ok (ptr_text (miner_mac ?s))"
      using assms(3,5) by (auto simp: cmd_session_def split: option.splits)
    have "db_up up ?w2" "int32 (s_fd ?s)" "registry_of tbl ?w2 = registry_of tbl w" "s_fd ?s = fd"
      using assms(1,2) by (simp_all add: db_up_def registry_of_def cmd_session_def)
    then show ?thesis
      using ux_request_registry [OF _ _ mac ux] REQ_UX db_up_db [OF v] registry_of_db [OF v] by simp
  next
    case REQ_LINUX_CLAYMORE
    let ?p = "case_option (miner_mac (s\<lparr>s_fd := fd, agent_type := REQ_LINUX_CLAYMORE\<rparr>)) Owned
      (last_string ''miner_mac'' es)"
    from assms(4,6) REQ_LINUX_CLAYMORE obtain u w3
      where ins: "mysql_insert_fd api ?p fd REQ_LINUX_CLAYMORE ?w1 = Ok u w3" and v: "w_db v = w_db w3"
      by (auto simp: handle_message_def Let_def get_agent_type_def outcome_simps ok_iffs)
    then have "readable ?p" by (auto simp: mysql_insert_fd_def ok_iffs)
    with assms(3) obtain m where m: "last_string ''miner_mac'' es = Some m" and p: "?p = Owned m"
      by (auto split: option.splits)
    have "db_up up ?w1" "registry_of tbl ?w1 = registry_of tbl w"
      using assms(1) by (simp_all add: db_up_def registry_of_def)
    then show ?thesis
      using registry.insert_Ok [OF _ _ _ assms(2) ins] assms(5) [OF m] m p REQ_LINUX_CLAYMORE
        db_up_db [OF v] registry_of_db [OF v] by simp
  next
    case REQ_INVALID
    then have e: "w_db v = w_db w"
      using assms(4,6) by (auto simp: handle_message_def Let_def get_agent_type_def)
    show ?thesis
      using assms(1) REQ_INVALID by (simp add: db_up_db [OF e] registry_of_db [OF e])
  next
    case REQ_WINDOW_CLAYMORE
    then have e: "w_db v = w_db w"
      using assms(4,6) by (auto simp: handle_message_def Let_def get_agent_type_def)
    show ?thesis
      using assms(1) REQ_WINDOW_CLAYMORE by (simp add: db_up_db [OF e] registry_of_db [OF e])
  qed
  then show "db_up up v" "registry_of tbl v = (case get_agent_type_loop es of
      REQ_UX \<Rightarrow> (registry_of tbl w)(''UX_SESSION'' \<mapsto> fd)
    | REQ_LINUX_CLAYMORE \<Rightarrow>
        (registry_of tbl w)(c_str (the (last_string ''miner_mac'' es)) \<mapsto> fd)
    | _ \<Rightarrow> registry_of tbl w)" by simp_all
qed

lemma on_peer_ready_recv_registry:
  assumes "db_up up w" and "int32 fd" and "\<not> readable (miner_mac s)" and "message_ok mac_ok js a w"
    and "on_peer_ready_recv api js a fd s w = Ok r v"
  shows "db_up up v" "ran (registry_of tbl v) \<subseteq> {fd} \<union> ran (registry_of tbl w)"
proof -
  have "db_up up v \<and> (\<forall>m. registry_of tbl v m = registry_of tbl w m \<or> registry_of tbl v m = Some fd)"
  proof (cases "w_db v = w_db w")
    case True
    with assms(1) show ?thesis by (simp add: db_up_db [OF True] registry_of_db [OF True])
  next
    case False
    with assms(5) obtain data ret w1 where
      rd: "socket_read (a_slack a) (a_recv a) w = Ok (Some data, ret) w1" and
      hm: "handle_message api js a fd data s w1 = Ok r v"
      by (auto simp: on_peer_ready_recv_def ok_iffs split: if_splits option.splits
          dest: socket_read_more)
    from hm obtain es where j: "parse_string_to_json js data = JObject es"
      by (auto simp: handle_message_def ok_iffs Let_def)
    have ok: "last_string ''miner_mac'' es = Some m \<Longrightarrow> mac_ok (c_str m)" for m
      using assms(4) rd j unfolding message_ok_def by blast
    have w1: "w_db w1 = w_db w" using rd by (simp add: socket_read_more)
    show ?thesis
      using handle_message_registry [OF _ assms(2,3) j ok hm] assms(1) db_up_db [OF w1] registry_of_db [OF w1]
      by (auto split: agent_type_t.splits)
  qed
  then show "db_up up v" "ran (registry_of tbl v) \<subseteq> {fd} \<union> ran (registry_of tbl w)"
    by (auto simp: ran_def) (metis option.inject)
qed

lemma handle_readable_registry:
  assumes "db_up up w" and "int32 fd" and "\<not> readable (miner_mac s)" and "message_ok mac_ok js a w"
    and "fd \<in> sockets w" and "registered_open tbl w"
    and "handle_readable api js a fd s w = Ok s' v"
  shows "db_up up v \<and> registered_open tbl v"
  using assms(7)
proof (cases rule: handle_readable_Ok)
  case (kept w1)
  have e: "w_db v = w_db w1" using kept(2) by simp
  show ?thesis
    using on_peer_ready_recv_registry [OF assms(1-4) kept(1)] kept(3) assms(5,6)
    by (auto simp: registered_open_def db_up_db [OF e] registry_of_db [OF e])
next
  case (closed w1 r w2)
  note 1 = on_peer_ready_recv_registry [OF assms(1-4) closed(1)]
  have "ran (registry_of tbl w2) = ran (registry_of tbl w1) - {fd}" and "db_up up w2"
    using registry.ran_delete [OF 1(1) assms(2) closed(2)] registry.delete_Ok(2) [OF 1(1) assms(2) closed(2)]
    by simp_all
  with 1(2) closed(5) assms(6) show ?thesis
    by (auto simp: registered_open_def db_up_db [OF closed(3)] registry_of_db [OF closed(3)])
qed

lemma handle_event_registry:
  assumes "server_inv lfd w" and "event_ok lfd w ev a" and "message_ok mac_ok js a w"
    and "\<not> readable (miner_mac s)" and "db_up up w" and "registered_open tbl w"
    and "handle_event api js lfd ev a s w = Ok s' v"
  shows "db_up up v \<and> registered_open tbl v"
  using assms(1,2,7)
proof (cases rule: handle_event_cases)
  case (accept u)
  show ?thesis
  proof (cases "a_accept a")
    case (Accepted n)
    note new = handle_accept_Accepted [OF accept(2) Accepted]
    show ?thesis
      using assms(5,6) new(2) by (auto simp: registered_open_def db_up_db [OF new(5)] registry_of_db [OF new(5)])
  next
    case (AcceptErr e)
    note old = handle_accept_AcceptErr [OF accept(2) AcceptErr]
    show ?thesis
      using assms(5,6) server_more_cong(3) [OF old(1)]
      by (simp add: registered_open_def db_up_db [OF old(2)] registry_of_db [OF old(2)])
  qed
next
  case readable
  have "int32 (ev_fd ev)" using assms(1) readable(1) by (auto simp: server_inv_def int32_def)
  then show ?thesis using handle_readable_registry assms(3-6) readable by blast
next
  case idle
  with assms(5,6) show ?thesis by simp
qed

lemma reachable_registry:
  assumes "up d" and "tbl d = []" and "reachable api js mac_ok d lfd s w"
  shows "server_inv lfd w \<and> \<not> readable (miner_mac s) \<and> db_up up w \<and> registered_open tbl w"
  using assms(3)
proof (induction rule: reachable.induct)
  case (start st argv w junk)
  then have "server_inv lfd w"
    using main_start_Ok [OF start] by (auto simp: server_inv_def boot_def)
  moreover have "w_db w = d" using main_start_Ok [OF start] by (simp add: boot_def)
  ultimately show ?case
    using assms(1,2) by (simp add: server_inv_log db_up_def registered_open_def registry_of_def ran_def)
next
  case (event s w ev a s' w')
  from event.IH have inv: "server_inv lfd w" "\<not> readable (miner_mac s)" "db_up up w" "registered_open tbl w"
    by simp_all
  show ?case
    using handle_event_inv [OF inv(1) event.hyps(2,4)] handle_event_session [OF event.hyps(4) inv(2)]
      handle_event_registry [OF inv(1) event.hyps(2,3) inv(2-4) event.hyps(4)] by simp
next
  case (turn s w junk)
  then show ?case
    by (simp add: server_inv_log db_up_def registered_open_def registry_of_def)
qed

end

lemma mysql_insert_fd_log:
  "mysql_insert_fd db p fd t w = Ok r v \<Longrightarrow> \<exists>qs. w_log v = w_log w @ map Query qs"
proof -
  let ?ins = "insert_sql (ptr_text p) fd (agent_type_code t)"
    and ?upd = "update_sql fd (agent_type_code t) (ptr_text p)"
  assume "mysql_insert_fd db p fd t w = Ok r v"
  then have "w_log v = w_log w @ [Query ?ins] \<or> w_log v = w_log w @ [Query ?ins, Query ?upd]"
    by (auto simp: mysql_insert_fd_def ok_iffs do_query_def
        split: prod.splits if_splits)
  then have "w_log v = w_log w @ map Query [?ins] \<or> w_log v = w_log w @ map Query [?ins, ?upd]" by simp
  then show ?thesis by blast
qed

lemma mysql_select_fd_log:
  assumes "mysql_select_fd db p w = Ok r v" and "r \<ge> 0 \<or> r = -5"
  shows "w_log v = w_log w @ [Query (select_fd_sql (ptr_text p)), StoreResult]"
  using assms
  by (auto simp: mysql_select_fd_def ok_iffs select_first_int_def
      do_query_def Let_def split: prod.splits if_splits option.splits list.splits)

context mysql_table
begin

lemma ux_lookup:
  assumes "db_up up w" and "int32 (s_fd s)" and "readable (miner_mac s)"
    and "mac_ok (ptr_text (miner_mac s))"
  obtains w1 w2 qs where
    "mysql_insert_fd api (Lit ''UX_SESSION'') (s_fd s) REQ_UX w = Ok (s_fd s) w1"
    "mysql_select_fd api (miner_mac s) w1 =
       Ok (case ((registry_of tbl w)(''UX_SESSION'' \<mapsto> s_fd s)) (ptr_text (miner_mac s)) of
             None \<Rightarrow> -5 | Some fd \<Rightarrow> fd) w2"
    "w_log w1 = w_log w @ map Query qs"
proof -
  have ux: "ptr_text (Lit ''UX_SESSION'') = ''UX_SESSION''" "readable (Lit ''UX_SESSION'')" by simp_all
  obtain w1 where 1: "mysql_insert_fd api (Lit ''UX_SESSION'') (s_fd s) REQ_UX w = Ok (s_fd s) w1"
      "db_up up w1" "registry_of tbl w1 = (registry_of tbl w)(''UX_SESSION'' \<mapsto> s_fd s)"
    using registry.insert_law [OF assms(1) ux(2) _ assms(2), unfolded ux(1), OF ux_name] by blast
  obtain w2 where "mysql_select_fd api (miner_mac s) w1 =
      Ok (case ((registry_of tbl w)(''UX_SESSION'' \<mapsto> s_fd s)) (ptr_text (miner_mac s)) of
            None \<Rightarrow> -5 | Some fd \<Rightarrow> fd) w2"
    using registry.select_law [OF 1(2) assms(3,4)] unfolding 1(3) by blast
  moreover obtain qs where "w_log w1 = w_log w @ map Query qs"
    using mysql_insert_fd_log [OF 1(1)] by blast
  ultimately show ?thesis using that 1(1) by blast
qed

lemma ux_request_not_found:
  assumes "db_up up w" and "int32 (s_fd s)" and "readable (miner_mac s)"
    and "mac_ok (ptr_text (miner_mac s))" and "ptr_text (miner_mac s) \<noteq> ''UX_SESSION''"
    and "registry_of tbl w (ptr_text (miner_mac s)) = None"
  shows "\<exists>v qs. ux_request api js a s w = Ok UX_not_found v \<and>
    w_log v = w_log w @ map Query qs @ [StoreResult]"
proof -
  obtain w1 w2 qs where 1: "mysql_insert_fd api (Lit ''UX_SESSION'') (s_fd s) REQ_UX w = Ok (s_fd s) w1"
    and 2: "mysql_select_fd api (miner_mac s) w1 = Ok (-5) w2" and log: "w_log w1 = w_log w @ map Query qs"
    by (rule ux_lookup [OF assms(1-4)]) (simp add: assms(5,6))
  have "w_log w2 = w_log w @ map Query (qs @ [select_fd_sql (ptr_text (miner_mac s))]) @ [StoreResult]"
    using mysql_select_fd_log [OF 2] log by simp
  moreover have "ux_request api js a s w = Ok UX_not_found w2" using 1 2 by (simp add: ux_request_def)
  ultimately show ?thesis by blast
qed

lemma ux_request_found:
  assumes "json_lib js" and "db_up up w" and "int32 (s_fd s)" and "readable (miner_mac s)"
    and "mac_ok (ptr_text (miner_mac s))" and "ptr_text (miner_mac s) \<noteq> ''UX_SESSION''"
    and "registry_of tbl w (ptr_text (miner_mac s)) = Some agent" and "0 \<le> agent"
    and "sendable (a_fs a) s" and "a_fs a (ptr_text (path s)) = Some bytes"
    and "int32 (sequence s)"
    and "a_send a = Sent k \<and> 0 < k \<and> k \<le> INT_MAX \<or> k = -1 \<and> (\<exists>e. a_send a = SendErr e \<and> e \<noteq> EPIPE)"
  shows "\<exists>v qs msg. ux_request api js a s w = Ok UX_sent v \<and>
    w_log v = w_log w @ map Query qs @
      delivery_log (ptr_text (miner_mac s)) (ptr_text (path s)) bytes msg agent k \<and>
    json_tokener_parse js msg = JObject (command_entries ''file-download'' (ptr_text (path s))
      (sequence s) (c_str bytes) (ptr_text (path_install s)))"
proof -
  obtain w1 w2 qs where 1: "mysql_insert_fd api (Lit ''UX_SESSION'') (s_fd s) REQ_UX w = Ok (s_fd s) w1"
    and 2: "mysql_select_fd api (miner_mac s) w1 = Ok agent w2" and 3: "w_log w1 = w_log w @ map Query qs"
    by (rule ux_lookup [OF assms(2-5)]) (simp add: assms(6,7))
  note log2 = mysql_select_fd_log [OF 2, OF disjI1, OF assms(8)]
  let ?es = "command_entries ''file-download'' (ptr_text (path s)) (sequence s) (c_str bytes)
    (ptr_text (path_install s))"
  define msg where "msg = c_str (json_object_to_json_string js (JObject ?es))"
  obtain w3 where 4: "msg_client_info js (a_fs a) s w2 = Ok msg w3"
    and w3: "w_log w3 = w_log w2 @ [JsonNew, Fopen (ptr_text (path s)), Fopen (ptr_text (path s)), Malloc,
      OobWrite (Suc (length bytes)) (Suc (length bytes)), Malloc, Free, Fclose]"
    using assms(9,10)
    by (auto simp: msg_client_info_Ok sendable_def json_lib.add_chain [OF assms(1)] msg_def
        command_entries_def)
  have "0 < to_size_t k" using to_size_t_pos [of k] assms(12) by auto
  then have "ux_request api js a s w = Ok UX_sent (emit (Send agent (Lit msg) (length msg) k) w3)"
    using 1 2 4 assms(8,12) by (auto simp: ux_request_def c_send_def)
  moreover have "w_log (emit (Send agent (Lit msg) (length msg) k) w3) = w_log w @ map Query qs @
      delivery_log (ptr_text (miner_mac s)) (ptr_text (path s)) bytes msg agent k"
    by (simp add: w3 log2 3 delivery_log_def)
  moreover have "flat_entries ?es" using assms(11) by (simp add: flat_entries_def command_entries_def)
  then have "json_tokener_parse js msg = JObject ?es"
    unfolding msg_def by (rule json_lib.parse_print [OF assms(1)])
  ultimately show ?thesis by blast
qed

end

context mysql_table
begin

text \<open>Exactly when a request of the console comes back.\<close>

lemma ux_request_returns_iff:
  fixes w :: "('db, 'z) world_scheme"
  assumes "db_up up w" and "int32 (s_fd s)" and "readable (miner_mac s)"
    and "mac_ok (ptr_text (miner_mac s))"
  shows "(\<exists>r v. ux_request api js a s w = Ok r v) \<longleftrightarrow>
    (case ((registry_of tbl w)(''UX_SESSION'' \<mapsto> s_fd s)) (ptr_text (miner_mac s)) of
       None \<Rightarrow> True | Some fd \<Rightarrow> fd < 0 \<or> sendable (a_fs a) s \<and> a_send a \<noteq> SendErr EPIPE)"
proof -
  let ?reg = "(registry_of tbl w)(''UX_SESSION'' \<mapsto> s_fd s)"
  obtain w1 w2 qs where 1: "mysql_insert_fd api (Lit ''UX_SESSION'') (s_fd s) REQ_UX w = Ok (s_fd s) w1"
    and 2: "mysql_select_fd api (miner_mac s) w1 =
      Ok (case ?reg (ptr_text (miner_mac s)) of None \<Rightarrow> -5 | Some fd \<Rightarrow> fd) w2"
    and "w_log w1 = w_log w @ map Query qs"
    by (rule ux_lookup [OF assms])
  have send: "(\<exists>n v. c_send (a_send a) fd p len u = Ok n v) \<longleftrightarrow> a_send a \<noteq> SendErr EPIPE"
    for fd p len and u :: "('db, 'z) world_scheme"
    by (auto simp: c_send_def split: send_result.split)
  have msg: "(\<exists>b v. msg_client_info js (a_fs a) s w2 = Ok b v) \<longleftrightarrow> sendable (a_fs a) s"
    by (auto simp: msg_client_info_Ok sendable_def)
  show ?thesis
  proof (cases "\<exists>fd. ?reg (ptr_text (miner_mac s)) = Some fd \<and> 0 \<le> fd")
    case False
    then show ?thesis using 1 2 by (auto simp: ux_request_def split: option.splits)
  next
    case True
    then obtain fd where fd: "?reg (ptr_text (miner_mac s)) = Some fd" "0 \<le> fd" by blast
    have "ux_request api js a s w = obind (msg_client_info js (a_fs a) s w2) (\<lambda>b u.
        obind (c_send (a_send a) fd (Lit b) (length b) u) (\<lambda>n v.
          Ok (if to_size_t n > 0 then UX_sent else UX_send_failed) v))"
      using 1 2 fd by (simp add: ux_request_def Let_def if_distrib [of "\<lambda>r. Ok r v" for v])
    then have "(\<exists>r v. ux_request api js a s w = Ok r v) \<longleftrightarrow> (\<exists>b u. msg_client_info js (a_fs a) s w2 = Ok b u \<and>
        (\<exists>n v. c_send (a_send a) fd (Lit b) (length b) u = Ok n v))"
      by (simp add: ok_iffs) blast
    also have "\<dots> \<longleftrightarrow> sendable (a_fs a) s \<and> a_send a \<noteq> SendErr EPIPE"
      using msg by (simp add: send)
    finally show ?thesis using fd by simp
  qed
qed

end

subsection \<open>Complete messages\<close>

lemma arrives_read:
  assumes "arrives a cs m"
  shows "socket_read (a_slack a) (a_recv a) w =
    Ok (Some (m @ [NUL]), 0) (w\<lparr>w_log := w_log w @ Malloc # prefix_reads 0 cs\<rparr>)"
proof -
  have "pieces_read (a_slack a) 0 cs = cs" using assms by (simp add: arrives_def pieces_read_all)
  then show ?thesis
    using socket_read_loop_pieces [of cs m "[]" "a_slack a" "[]" "emit Malloc w"] assms
    by (simp add: socket_read_def arrives_def emit_def)
qed

lemma on_peer_ready_recv_arrives:
  assumes "arrives a cs m" and "fd < MAXFDS"
  shows "on_peer_ready_recv db js a fd s w =
    handle_message db js a fd (m @ [NUL]) s (w\<lparr>w_log := w_log w @ Malloc # prefix_reads 0 cs\<rparr>)"
  using assms by (simp add: on_peer_ready_recv_def arrives_read)

text \<open>A complete message of a peer makes the event loop run \<open>handle_message\<close> on it.\<close>

lemma handle_event_message:
  fixes w :: "('db, 'z) server_scheme"
  assumes "server_inv lfd w" and "peer_input w ev a cs m"
  shows "handle_message db js a (ev_fd ev) (m @ [NUL]) s
      (w\<lparr>w_log := w_log w @ Malloc # prefix_reads 0 cs\<rparr>) = Ok (st, s') v \<Longrightarrow>
    \<exists>u. handle_event db js lfd ev a s w = Ok s' u \<and> w_db u = w_db v \<and>
      w_log u = w_log v @ [EpollMod (ev_fd ev) EPOLLIN] \<and> epoll_set u = epoll_set w \<and>
      sockets u = sockets w \<and> global_state u = global_state w"
    and "handle_message db js a (ev_fd ev) (m @ [NUL]) s
      (w\<lparr>w_log := w_log w @ Malloc # prefix_reads 0 cs\<rparr>) = Stop z v \<Longrightarrow>
    handle_event db js lfd ev a s w = Stop z v"
proof -
  let ?w1 = "w\<lparr>w_log := w_log w @ Malloc # prefix_reads 0 cs\<rparr>"
  have fd: "ev_fd ev \<noteq> lfd" "ev_fd ev < MAXFDS" "epoll_set w (ev_fd ev) = Some EPOLLIN"
    using assms by (auto simp: server_inv_def peer_input_def)
  have recv: "on_peer_ready_recv db js a (ev_fd ev) s w = handle_message db js a (ev_fd ev) (m @ [NUL]) s ?w1"
    using assms(2) fd(2) by (simp add: on_peer_ready_recv_arrives peer_input_def)
  have ev: "handle_event db js lfd ev a s w = handle_readable db js a (ev_fd ev) s w"
    using assms(2) fd(1) by (simp add: handle_event_def peer_input_def)
  {
    assume hm: "handle_message db js a (ev_fd ev) (m @ [NUL]) s ?w1 = Ok (st, s') v"
    have "world.more v = world.more w" using handle_message_more [OF hm] by simp
    note frame = server_more_cong [OF this]
    have "epoll_set w = (epoll_set w)(ev_fd ev \<mapsto> EPOLLIN)" using fd(3) by auto
    with hm handle_message_status [OF hm] assms(2)
    show "\<exists>u. handle_event db js lfd ev a s w = Ok s' u \<and> w_db u = w_db v \<and>
        w_log u = w_log v @ [EpollMod (ev_fd ev) EPOLLIN] \<and> epoll_set u = epoll_set w \<and>
        sockets u = sockets w \<and> global_state u = global_state w"
      unfolding ev by (simp add: handle_readable_def recv epoll_mod_def peer_input_def frame)
  next
    assume "handle_message db js a (ev_fd ev) (m @ [NUL]) s ?w1 = Stop z v"
    then show "handle_event db js lfd ev a s w = Stop z v"
      unfolding ev by (simp add: handle_readable_def recv)
  }
qed

lemma handle_message_ux:
  assumes "parse_string_to_json js d = JObject es" and "get_agent_type_loop es = REQ_UX"
  shows "handle_message db js a fd d s w =
    (let session = cmd_session es (s\<lparr>s_fd := fd, agent_type := REQ_UX\<rparr>) in
     obind (ux_request db js a session
         (w\<lparr>w_log := w_log w @ JsonNew # replicate (empty_paths es) Malloc\<rparr>))
       (\<lambda>_ w. Ok (fd_status_R, json_object_put_session session) (emit JsonPut (emit Free w))))"
  using assms
  by (simp add: handle_message_def Let_def get_agent_type_def outcome_simps emit_def fd_status_R_def
      obind_assoc)

lemma handle_message_linux:
  assumes "parse_string_to_json js d = JObject es" and "get_agent_type_loop es = REQ_LINUX_CLAYMORE"
    and "last_string ''miner_mac'' es = Some mac"
  shows "handle_message db js a fd d s w =
    (let session = s\<lparr>s_fd := fd, agent_type := REQ_LINUX_CLAYMORE, miner_mac := Owned mac\<rparr> in
     obind (mysql_insert_fd db (Owned mac) fd REQ_LINUX_CLAYMORE (emit JsonNew w))
       (\<lambda>_ w. Ok (fd_status_R, json_object_put_session session) (emit JsonPut (emit Free w))))"
  using assms
  by (simp add: handle_message_def Let_def get_agent_type_def outcome_simps fd_status_R_def
      obind_assoc)

lemma parse_arrived:
  assumes "peer_input w ev a cs m"
  shows "parse_string_to_json js (m @ [NUL]) = json_tokener_parse js m"
  using assms by (simp add: peer_input_def arrives_def parse_string_to_json_def c_str_append_nul)

lemma download_session:
  assumes "download_request es mac file install seqno"
  shows "readable (miner_mac (cmd_session es s))" "ptr_text (miner_mac (cmd_session es s)) = mac"
    "readable (cmd_type (cmd_session es s))" "ptr_text (cmd_type (cmd_session es s)) = ''file-download''"
    "readable (path (cmd_session es s))" "ptr_text (path (cmd_session es s)) = file"
    "readable (path_install (cmd_session es s))" "ptr_text (path_install (cmd_session es s)) = install"
    "sequence (cmd_session es s) = seqno" "int32 (sequence (cmd_session es s))"
    "s_fd (cmd_session es s) = s_fd s"
  using assms
  by (auto simp: download_request_def cmd_session_def path_ptr_def install_ptr_def)

lemma ux_world_simps [simp]:
  "db_up up (ux_world w cs es) \<longleftrightarrow> db_up up w" "registry_of tbl (ux_world w cs es) = registry_of tbl w"
  "w_log (ux_world w cs es) =
     w_log w @ Malloc # prefix_reads 0 cs @ JsonNew # replicate (empty_paths es) Malloc"
  by (simp_all add: ux_world_def db_up_def registry_of_def)

lemma ux_session_fd [simp]: "s_fd (ux_session es fd s) = fd"
  by (simp add: ux_session_def cmd_session_def)

lemma ux_session_mac:
  "last_string ''miner_mac'' es = Some mac \<Longrightarrow> miner_mac (ux_session es fd s) = Owned mac"
  by (simp add: ux_session_def cmd_session_def)

lemma sendable_ux_session: "sendable fs (ux_session es fd s) \<longleftrightarrow> sendable fs (cmd_session es s)"
  by (simp add: ux_session_def sendable_def cmd_session_def cong: option.case_cong)

lemma ux_event:
  assumes "server_inv lfd w" and "peer_input w ev a cs m" and "json_tokener_parse js m = JObject es"
    and "get_agent_type_loop es = REQ_UX"
  shows "ux_request db js a (ux_session es (ev_fd ev) s) (ux_world w cs es) = Ok r w2 \<Longrightarrow>
    \<exists>s' v. handle_event db js lfd ev a s w = Ok s' v \<and> w_db v = w_db w2 \<and>
      w_log v = w_log w2 @ [Free, JsonPut, EpollMod (ev_fd ev) EPOLLIN] \<and>
      epoll_set v = epoll_set w \<and> sockets v = sockets w \<and> global_state v = global_state w"
    and "ux_request db js a (ux_session es (ev_fd ev) s) (ux_world w cs es) = Stop z v \<Longrightarrow>
      handle_event db js lfd ev a s w = Stop z v"
proof -
  let ?w0 = "w\<lparr>w_log := w_log w @ Malloc # prefix_reads 0 cs\<rparr>"
  have j: "parse_string_to_json js (m @ [NUL]) = JObject es"
    using parse_arrived [OF assms(2)] assms(3) by simp
  have hm: "handle_message db js a (ev_fd ev) (m @ [NUL]) s ?w0 =
      obind (ux_request db js a (ux_session es (ev_fd ev) s) (ux_world w cs es)) (\<lambda>_ w.
        Ok (fd_status_R, json_object_put_session (ux_session es (ev_fd ev) s)) (emit JsonPut (emit Free w)))"
    by (simp add: handle_message_ux [OF j assms(4)] ux_session_def ux_world_def Let_def)
  show "ux_request db js a (ux_session es (ev_fd ev) s) (ux_world w cs es) = Ok r w2 \<Longrightarrow>
    \<exists>s' v. handle_event db js lfd ev a s w = Ok s' v \<and> w_db v = w_db w2 \<and>
      w_log v = w_log w2 @ [Free, JsonPut, EpollMod (ev_fd ev) EPOLLIN] \<and>
      epoll_set v = epoll_set w \<and> sockets v = sockets w \<and> global_state v = global_state w"
    using handle_event_message(1) [OF assms(1,2)] hm by fastforce
  show "ux_request db js a (ux_session es (ev_fd ev) s) (ux_world w cs es) = Stop z v \<Longrightarrow>
      handle_event db js lfd ev a s w = Stop z v"
    using handle_event_message(2) [OF assms(1,2)] hm by simp
qed

lemma peer_fd: "server_inv lfd w \<Longrightarrow> peer_input w ev a cs m \<Longrightarrow> int32 (ev_fd ev)"
  by (auto simp: server_inv_def peer_input_def int32_def)

context mysql_table
begin

lemma registration_event:
  assumes "server_inv lfd w" and "db_up up w" and "peer_input w ev a cs m"
    and "json_tokener_parse js m = JObject es" and "get_agent_type_loop es = REQ_LINUX_CLAYMORE"
    and "last_string ''miner_mac'' es = Some mac" and "mac_ok (c_str mac)"
  shows "\<exists>s' v qs. handle_event api js lfd ev a s w = Ok s' v \<and> db_up up v \<and>
    registry_of tbl v = (registry_of tbl w)(c_str mac \<mapsto> ev_fd ev) \<and>
    w_log v = w_log w @ Malloc # prefix_reads 0 cs @ [JsonNew] @ map Query qs @
      [Free, JsonPut, EpollMod (ev_fd ev) EPOLLIN] \<and>
    epoll_set v = epoll_set w \<and> sockets v = sockets w \<and> global_state v = global_state w"
proof -
  let ?w0 = "w\<lparr>w_log := w_log w @ Malloc # prefix_reads 0 cs\<rparr>"
  note fd = peer_fd [OF assms(1,3)]
  have "db_up up (emit JsonNew ?w0)" using assms(2) by (simp add: db_up_def)
  moreover have "readable (Owned mac)" "mac_ok (ptr_text (Owned mac))" using assms(7) by simp_all
  ultimately obtain w1 where w1: "mysql_insert_fd api (Owned mac) (ev_fd ev) REQ_LINUX_CLAYMORE
      (emit JsonNew ?w0) = Ok (ev_fd ev) w1" "db_up up w1"
      "registry_of tbl w1 = (registry_of tbl (emit JsonNew ?w0))(ptr_text (Owned mac) \<mapsto> ev_fd ev)"
    using registry.insert_law fd by blast
  obtain qs where qs: "w_log w1 = w_log (emit JsonNew ?w0) @ map Query qs"
    using mysql_insert_fd_log [OF w1(1)] by blast
  have j: "parse_string_to_json js (m @ [NUL]) = JObject es"
    using parse_arrived [OF assms(3)] assms(4) by simp
  obtain s' v where v: "handle_event api js lfd ev a s w = Ok s' v" "w_db v = w_db w1"
      "w_log v = w_log w1 @ [Free, JsonPut, EpollMod (ev_fd ev) EPOLLIN]" "epoll_set v = epoll_set w"
      "sockets v = sockets w" "global_state v = global_state w"
    using handle_event_message(1) [OF assms(1,3)]
      handle_message_linux [OF j assms(5,6), of api a "ev_fd ev" s ?w0] w1(1) by (fastforce simp: Let_def)
  have "registry_of tbl v = (registry_of tbl w)(c_str mac \<mapsto> ev_fd ev)" "db_up up v"
    using w1(2,3) by (simp_all add: db_up_db [OF v(2)] registry_of_db [OF v(2)]) (simp add: registry_of_def)
  with v qs show ?thesis by (intro exI [of _ s'] exI [of _ v] exI [of _ qs]) simp
qed

text \<open>A download request for a registered agent, carried out.\<close>

lemma delivery_event:
  assumes "json_lib js" and "server_inv lfd w" and "db_up up w" and "peer_input w ev a cs m"
    and "json_tokener_parse js m = JObject es" and "download_request es mac file install seqno"
    and "mac_ok mac" and "mac \<noteq> ''UX_SESSION''" and "registry_of tbl w mac = Some agent" and "0 \<le> agent"
    and "a_fs a file = Some bytes" and "a_send a = Sent k" and "0 < k" and "k \<le> INT_MAX"
  shows "\<exists>s' v qs msg. handle_event api js lfd ev a s w = Ok s' v \<and>
    json_tokener_parse js msg =
      JObject (command_entries ''file-download'' file seqno (c_str bytes) install) \<and>
    w_log v = w_log w @ Malloc # prefix_reads 0 cs @ JsonNew # replicate (empty_paths es) Malloc @
      map Query qs @ delivery_log mac file bytes msg agent k @
      [Free, JsonPut, EpollMod (ev_fd ev) EPOLLIN] \<and>
    registry_of tbl v = (registry_of tbl w)(''UX_SESSION'' \<mapsto> ev_fd ev) \<and>
    epoll_set v = epoll_set w \<and> sockets v = sockets w \<and> global_state v = global_state w"
proof -
  let ?w1 = "ux_world w cs es" and ?s = "ux_session es (ev_fd ev) s"
  note s = download_session [OF assms(6), of "s\<lparr>s_fd := ev_fd ev, agent_type := REQ_UX\<rparr>", folded ux_session_def]
  have fd: "int32 (s_fd ?s)" using peer_fd [OF assms(2,4)] by simp
  have up: "db_up up ?w1" using assms(3) by simp
  have snd: "sendable (a_fs a) ?s" using s assms(11) by (simp add: sendable_def)
  obtain w2 qs msg where ux: "ux_request api js a ?s ?w1 = Ok UX_sent w2"
    and log: "w_log w2 = w_log ?w1 @ map Query qs @ delivery_log mac file bytes msg agent k"
    and msg: "json_tokener_parse js msg =
      JObject (command_entries ''file-download'' file seqno (c_str bytes) install)"
    using ux_request_found [OF assms(1) up fd s(1) _ _ _ assms(10) snd _ s(10), of bytes k]
      assms(7-9,11-14) s(2,6,8,9) by auto
  have t: "get_agent_type_loop es = REQ_UX" using assms(6) by (simp add: download_request_def)
  obtain s' v where v: "handle_event api js lfd ev a s w = Ok s' v" "w_db v = w_db w2"
      "w_log v = w_log w2 @ [Free, JsonPut, EpollMod (ev_fd ev) EPOLLIN]" "epoll_set v = epoll_set w"
      "sockets v = sockets w" "global_state v = global_state w"
    using ux_event(1) [OF assms(2,4,5) t ux] by blast
  have "registry_of tbl v = (registry_of tbl w)(''UX_SESSION'' \<mapsto> ev_fd ev)"
    using ux_request_registry(2) [OF up fd _ ux] assms(7) s(2) registry_of_db [OF v(2)] by simp
  then show ?thesis using v log msg by auto
qed

text \<open>A request for a name nobody registered.\<close>

lemma unknown_event:
  assumes "server_inv lfd w" and "db_up up w" and "peer_input w ev a cs m"
    and "json_tokener_parse js m = JObject es" and "get_agent_type_loop es = REQ_UX"
    and "last_string ''miner_mac'' es = Some mac" and "mac_ok (c_str mac)"
    and "c_str mac \<noteq> ''UX_SESSION''" and "registry_of tbl w (c_str mac) = None"
  shows "\<exists>s' v qs. handle_event api js lfd ev a s w = Ok s' v \<and>
    w_log v = w_log w @ Malloc # prefix_reads 0 cs @ JsonNew # replicate (empty_paths es) Malloc @
      map Query qs @ [StoreResult, Free, JsonPut, EpollMod (ev_fd ev) EPOLLIN] \<and>
    epoll_set v = epoll_set w \<and> sockets v = sockets w \<and> global_state v = global_state w"
proof -
  obtain w2 qs where ux: "ux_request api js a (ux_session es (ev_fd ev) s) (ux_world w cs es) = Ok UX_not_found w2"
    and log: "w_log w2 = w_log (ux_world w cs es) @ map Query qs @ [StoreResult]"
    using ux_request_not_found [of "ux_world w cs es" "ux_session es (ev_fd ev) s" js a] assms(2,7-9)
      peer_fd [OF assms(1,3)] by (auto simp: ux_session_mac [OF assms(6)])
  show ?thesis using ux_event(1) [OF assms(1,3-5) ux] log by auto
qed

text \<open>A request for a registered agent stops the loop where the building of its command stops.\<close>

lemma order_event_stops:
  fixes w :: "('db, 'z) server_scheme"
  assumes "server_inv lfd w" and "db_up up w" and "peer_input w ev a cs m"
    and "json_tokener_parse js m = JObject es" and "get_agent_type_loop es = REQ_UX"
    and "last_string ''miner_mac'' es = Some mac" and "mac_ok (c_str mac)"
    and "c_str mac \<noteq> ''UX_SESSION''" and "registry_of tbl w (c_str mac) = Some agent" and "0 \<le> agent"
    and "\<And>u :: ('db, 'z) server_scheme. \<exists>f v. P f \<and>
      msg_client_info js (a_fs a) (ux_session es (ev_fd ev) s) u = Stop (Crash f) v"
  shows "\<exists>f v. P f \<and> handle_event api js lfd ev a s w = Stop (Crash f) v"
proof -
  let ?w1 = "ux_world w cs es" and ?s = "ux_session es (ev_fd ev) s"
  note mac = ux_session_mac [OF assms(6), of "ev_fd ev" s]
  have ok: "db_up up ?w1" "int32 (s_fd ?s)" "readable (miner_mac ?s)" "mac_ok (ptr_text (miner_mac ?s))"
    using assms(2,7) peer_fd [OF assms(1,3)] by (simp_all add: mac)
  obtain w2 w3 qs where 1: "mysql_insert_fd api (Lit ''UX_SESSION'') (s_fd ?s) REQ_UX ?w1 = Ok (s_fd ?s) w2"
    and 2: "mysql_select_fd api (miner_mac ?s) w2 = Ok agent w3" and "w_log w2 = w_log ?w1 @ map Query qs"
    by (rule ux_lookup [OF ok]) (use assms(8,9) in \<open>auto simp: mac\<close>)
  obtain f u where 3: "P f" "msg_client_info js (a_fs a) ?s w3 = Stop (Crash f) u" using assms(11) by blast
  then have "ux_request api js a ?s ?w1 = Stop (Crash f) u"
    using 1 2 assms(10) by (simp add: ux_request_def)
  then show ?thesis using ux_event(2) [OF assms(1,3-5)] 3(1) by blast
qed

text \<open>A request a registered agent cannot be sent.\<close>

lemma unsendable_event:
  fixes w :: "('db, 'z) server_scheme"
  assumes "server_inv lfd w" and "db_up up w" and "peer_input w ev a cs m"
    and "json_tokener_parse js m = JObject es" and "get_agent_type_loop es = REQ_UX"
    and "last_string ''miner_mac'' es = Some mac" and "mac_ok (c_str mac)"
    and "c_str mac \<noteq> ''UX_SESSION''" and "registry_of tbl w (c_str mac) = Some agent" and "0 \<le> agent"
    and "\<not> sendable (a_fs a) (cmd_session es s)"
  shows "\<exists>f v. handle_event api js lfd ev a s w = Stop (Crash f) v"
proof -
  have "\<exists>f v. True \<and> msg_client_info js (a_fs a) (ux_session es (ev_fd ev) s) u = Stop (Crash f) v"
    for u :: "('db, 'z) server_scheme"
    using assms(11) msg_client_info_Ok [of js "a_fs a" "ux_session es (ev_fd ev) s" u]
      sendable_ux_session [of "a_fs a" es "ev_fd ev" s]
    by (cases "msg_client_info js (a_fs a) (ux_session es (ev_fd ev) s) u")
      (auto simp: sendable_def dest: msg_client_info_Stop)
  from order_event_stops [OF assms(1-10) this] show ?thesis by blast
qed

end

subsection \<open>The session block between messages\<close>

lemma malloc_session_stale [simp]: "stale (malloc_session junk)"
  by (simp add: stale_def malloc_session_def)

lemma stale_cmd: "stale s \<Longrightarrow> stale (json_object_put_session (cmd_session es s))"
  by (auto simp: stale_def cmd_session_def json_object_put_session_def path_ptr_def install_ptr_def
      split: option.splits if_splits)

lemma stale_put:
  "stale s \<Longrightarrow> stale (json_object_put_session s)" "stale s \<Longrightarrow> stale (json_object_put_session (s\<lparr>miner_mac := Owned m\<rparr>))"
  by (auto simp: stale_def json_object_put_session_def)

lemma stale_fd: "stale s \<Longrightarrow> stale (s\<lparr>s_fd := fd, agent_type := t\<rparr>)"
  by (simp add: stale_def)

lemma sendable_stale:
  assumes "stale s" and "fs [] = None"
  shows "sendable fs (cmd_session es (s\<lparr>s_fd := fd, agent_type := t\<rparr>)) \<longleftrightarrow> \<not> unsendable_order fs es"
  using assms
  by (auto simp: unsendable_order_def stale_def sendable_def cmd_session_def path_ptr_def install_ptr_def
      split: option.splits if_splits)

lemma handle_message_stale:
  assumes "handle_message db js a fd d s w = Ok (st, s') v" and "stale s"
  shows "stale s'"
proof -
  from assms(1) obtain es where j: "parse_string_to_json js d = JObject es"
    by (auto simp: handle_message_def ok_iffs Let_def)
  note j = assms(1) [unfolded handle_message_def j Let_def]
  from j assms(2) show ?thesis
    by (cases "get_agent_type_loop es")
      (auto simp: ok_iffs parse_json_cmd_eq parse_json_agent_eq stale_cmd stale_put stale_fd split: option.splits)
qed

lemma handle_event_stale: "handle_event db js lfd ev a s w = Ok s' v \<Longrightarrow> stale s \<Longrightarrow> stale s'"
  by (auto simp: handle_event_def handle_readable_def on_peer_ready_recv_def ok_iffs Let_def
      split: if_splits option.splits dest: handle_message_stale)

subsection \<open>Exactly which messages the server survives\<close>

lemma handle_event_returns_iff:
  assumes "server_inv lfd w" and "peer_input w ev a cs m"
  shows "(\<exists>s' v. handle_event db js lfd ev a s w = Ok s' v) \<longleftrightarrow>
    (\<exists>r v. handle_message db js a (ev_fd ev) (m @ [NUL]) s
      (w\<lparr>w_log := w_log w @ Malloc # prefix_reads 0 cs\<rparr>) = Ok r v)"
proof (cases "handle_message db js a (ev_fd ev) (m @ [NUL]) s (w\<lparr>w_log := w_log w @ Malloc # prefix_reads 0 cs\<rparr>)")
  case (Ok r v)
  obtain st s' where "r = (st, s')" by fastforce
  with Ok handle_event_message(1) [OF assms, of db js s st s' v] show ?thesis by blast
next
  case (Stop z v)
  then show ?thesis using handle_event_message(2) [OF assms Stop] by simp
qed

lemma mysql_insert_fd_returns_iff:
  "(\<exists>r v. mysql_insert_fd db p fd t w = Ok r v) \<longleftrightarrow>
     readable p \<and> length (ptr_text p) + length (fmt_d fd) \<le> 183"
  by (cases "readable p") (auto simp: mysql_insert_fd_def sprintf_buf_def length_sql ok_iffs split: prod.split)

lemma ux_request_unreadable: "\<not> readable (miner_mac s) \<Longrightarrow> ux_request db js a s w \<noteq> Ok r v"
  by (auto simp: ux_request_def mysql_select_fd_def ok_iffs)

lemma ux_request_long_name: "length (ptr_text (miner_mac s)) > 208 \<Longrightarrow> ux_request db js a s w \<noteq> Ok r v"
  by (auto simp: ux_request_def mysql_select_fd_def length_sql ok_iffs)

lemma get_agent_type_loop_not_window [simp]: "get_agent_type_loop es \<noteq> REQ_WINDOW_CLAYMORE"
  by (auto simp: get_agent_type_loop_eq classify_def split: list.splits)

context mysql_table
begin

lemma handle_message_returns_iff:
  assumes "db_up up w" and "int32 fd" and "stale s" and "a_fs a [] = None"
    and "0 \<le> fd" and "\<And>x. x \<in> ran (registry_of tbl w) \<Longrightarrow> 0 \<le> x"
    and "parse_string_to_json js d = JObject es"
    and "\<And>m. get_agent_type_loop es = REQ_UX \<Longrightarrow> last_string ''miner_mac'' es = Some m \<Longrightarrow>
      length (c_str m) \<le> 208 \<Longrightarrow> mac_ok (c_str m)"
  shows "(\<exists>r v. handle_message api js a fd d s w = Ok r v) \<longleftrightarrow> message_survives (registry_of tbl w) a fd es"
proof (cases "get_agent_type_loop es")
  case REQ_INVALID
  with assms(7) show ?thesis
    by (simp add: handle_message_def Let_def get_agent_type_def message_survives_def)
next
  case REQ_UX
  let ?w1 = "w\<lparr>w_log := w_log w @ JsonNew # replicate (empty_paths es) Malloc\<rparr>"
  let ?s = "cmd_session es (s\<lparr>s_fd := fd, agent_type := REQ_UX\<rparr>)"
  have w1: "db_up up ?w1" "registry_of tbl ?w1 = registry_of tbl w"
    using assms(1) by (simp_all add: db_up_def registry_of_def)
  have ux: "(\<exists>r v. handle_message api js a fd d s w = Ok r v) \<longleftrightarrow> (\<exists>r v. ux_request api js a ?s ?w1 = Ok r v)"
    by (auto simp: handle_message_ux [OF assms(7) REQ_UX] Let_def ok_iffs)
  show ?thesis
  proof (cases "last_string ''miner_mac'' es")
    case None
    then have "\<not> readable (miner_mac ?s)" using assms(3) by (simp add: cmd_session_def stale_def)
    with None REQ_UX ux show ?thesis by (simp add: message_survives_def ux_request_unreadable)
  next
    case (Some mac)
    then have mac: "readable (miner_mac ?s)" "ptr_text (miner_mac ?s) = c_str mac" "s_fd ?s = fd"
      by (simp_all add: cmd_session_def)
    show ?thesis
    proof (cases "length (c_str mac) \<le> 208")
      case True
      let ?reg = "(registry_of tbl w)(''UX_SESSION'' \<mapsto> fd)"
      have "mac_ok (ptr_text (miner_mac ?s))" using assms(8) [OF REQ_UX Some True] by (simp add: mac(2))
      note returns = ux_request_returns_iff [OF w1(1) _ mac(1) this, unfolded mac(2,3) w1(2), OF assms(2), of js a]
      have "0 \<le> x" if "?reg (c_str mac) = Some x" for x
        using that assms(5,6) by (auto simp: ran_def split: if_splits)
      then show ?thesis
        unfolding ux returns
        using sendable_stale [OF assms(3), of "a_fs a" es REQ_UX fd] assms(4)
        by (auto simp: message_survives_def REQ_UX Some True split: option.splits)
    next
      case False
      then show ?thesis
        unfolding ux using ux_request_long_name [of ?s api js a ?w1] by (simp add: message_survives_def REQ_UX Some mac(2))
    qed
  qed
next
  case REQ_LINUX_CLAYMORE
  show ?thesis
  proof (cases "last_string ''miner_mac'' es")
    case None
    then show ?thesis
      using REQ_LINUX_CLAYMORE assms(3,7) mysql_insert_fd_returns_iff [of api "miner_mac s" fd REQ_LINUX_CLAYMORE "emit JsonNew w"]
      by (auto simp: handle_message_def Let_def get_agent_type_def outcome_simps ok_iffs
          message_survives_def stale_def)
  next
    case (Some mac)
    show ?thesis
      using mysql_insert_fd_returns_iff [of api "Owned mac" fd REQ_LINUX_CLAYMORE "emit JsonNew w"]
      by (simp add: handle_message_linux [OF assms(7) REQ_LINUX_CLAYMORE Some] Let_def ok_iffs
          message_survives_def REQ_LINUX_CLAYMORE Some)
  qed
qed simp

lemma survives_iff:
  assumes "server_inv lfd w" and "db_up up w" and "registered_open tbl w" and "stale s"
    and "peer_input w ev a cs m" and "a_fs a [] = None"
    and "\<And>es mac. json_tokener_parse js m = JObject es \<Longrightarrow> get_agent_type_loop es = REQ_UX \<Longrightarrow>
      last_string ''miner_mac'' es = Some mac \<Longrightarrow> length (c_str mac) \<le> 208 \<Longrightarrow> mac_ok (c_str mac)"
  shows "(\<exists>s' v. handle_event api js lfd ev a s w = Ok s' v) \<longleftrightarrow>
    (\<exists>es. json_tokener_parse js m = JObject es \<and> message_survives (registry_of tbl w) a (ev_fd ev) es)"
proof -
  let ?w1 = "w\<lparr>w_log := w_log w @ Malloc # prefix_reads 0 cs\<rparr>"
  have fd: "int32 (ev_fd ev)" "0 \<le> ev_fd ev" "\<And>x. x \<in> sockets w \<Longrightarrow> 0 \<le> x"
    using assms(1,5) by (auto simp: server_inv_def peer_input_def int32_def)
  have w1: "db_up up ?w1" "registry_of tbl ?w1 = registry_of tbl w"
    using assms(2) by (simp_all add: db_up_def registry_of_def)
  have ran: "0 \<le> x" if "x \<in> ran (registry_of tbl w)" for x
    using that assms(3) fd(3) by (auto simp: registered_open_def)
  have j: "parse_string_to_json js (m @ [NUL]) = json_tokener_parse js m" by (rule parse_arrived [OF assms(5)])
  show ?thesis
  proof (cases "\<exists>es. json_tokener_parse js m = JObject es")
    case True
    then obtain es where es: "json_tokener_parse js m = JObject es" ..
    then show ?thesis
      using handle_message_returns_iff [OF w1(1) fd(1) assms(4,6) fd(2) _ _ assms(7) [OF es], of js "m @ [NUL]"] ran
      by (simp add: handle_event_returns_iff [OF assms(1,5)] j w1(2))
  next
    case False
    then have "handle_message api js a (ev_fd ev) (m @ [NUL]) s ?w1 \<noteq> Ok r v" for r v
      using j by (auto simp: handle_message_def Let_def ok_iffs)
    with False show ?thesis by (simp add: handle_event_returns_iff [OF assms(1,5)])
  qed
qed

end

lemma reachable_inv: "reachable db js mac_ok d lfd s w \<Longrightarrow> server_inv lfd w"
proof (induction rule: reachable.induct)
  case (start st argv w junk)
  then show ?case
    using main_start_Ok [OF start] by (auto simp: server_inv_log server_inv_def boot_def)
next
  case (event s w ev a s' w')
  then show ?case using handle_event_inv by blast
next
  case (turn s w junk)
  then show ?case by (simp add: server_inv_log)
qed

lemma reachable_stale: "reachable db js mac_ok d lfd s w \<Longrightarrow> stale s"
  by (induction rule: reachable.induct) (auto dest: handle_event_stale)

text \<open>Runs of the loop stay within the reachable states.\<close>

lemma handle_events_reachable:
  assumes "reachable db js mac_ok d lfd s w" and "events_ok db js mac_ok lfd evs s w"
    and "handle_events db js lfd evs s w = Ok s' v"
  shows "reachable db js mac_ok d lfd s' v"
  using assms
proof (induction evs arbitrary: s w)
  case (Cons e evs)
  obtain ev a where e: "e = (ev, a)" by fastforce
  from Cons.prems(3) obtain s1 w1 where step: "handle_event db js lfd ev a s w = Ok s1 w1"
    and rest: "handle_events db js lfd evs s1 w1 = Ok s' v"
    by (auto simp: e ok_iffs)
  have "reachable db js mac_ok d lfd s1 w1"
    using Cons.prems(1,2) step by (auto simp: e intro: reachable.event)
  then show ?case using Cons.IH [OF _ _ rest] Cons.prems(2) step by (simp add: e)
qed simp

lemma main_loop_reachable:
  assumes "\<And>junk. reachable db js mac_ok d lfd (malloc_session junk) (emit Malloc w)"
    and "turns_ok db js mac_ok lfd turns w" and "main_loop db js lfd turns w = Ok () v"
  shows "reachable db js mac_ok d lfd (malloc_session junk) (emit Malloc v)"
  using assms
proof (induction turns arbitrary: w)
  case (Cons t turns)
  obtain junk' evs where t: "t = (junk', evs)" by fastforce
  from Cons.prems(3) obtain s1 w1 where
    step: "handle_events db js lfd evs (malloc_session junk') (emit Malloc w) = Ok s1 w1" and
    rest: "main_loop db js lfd turns (mj_free (Some s1) w1) = Ok () v"
    by (auto simp: t loop_turn_def ok_iffs)
  have "reachable db js mac_ok d lfd s1 w1"
    using handle_events_reachable [OF Cons.prems(1) _ step] Cons.prems(2) by (simp add: t)
  then have "reachable db js mac_ok d lfd (malloc_session junk) (emit Malloc (mj_free (Some s1) w1))" for junk
    by (rule reachable.turn)
  then show ?case
    using Cons.IH [OF _ _ rest] Cons.prems(2) step by (simp add: t loop_turn_def)
qed simp

end
