(* ===== verification/Agent_Resources.thy ===== *)
theory Agent_Resources
  imports Agent_System
begin

text \<open>
  Accounting of what the server holds: open files, JSON objects, MySQL result sets and heap
  blocks, read off the log of effects; and what each operation adds to it when it returns.
\<close>

section \<open>Definitions\<close>

text \<open>How many of a kind of resource a log of effects leaves in use.\<close>

fun tally :: "(effect \<Rightarrow> int) \<Rightarrow> effect list \<Rightarrow> int" where
  "tally f [] = 0"
| "tally f (e # es) = f e + tally f es"

fun file_use :: "effect \<Rightarrow> int" where
  "file_use (Fopen _) = 1"
| "file_use Fclose = -1"
| "file_use _ = 0"

fun json_use :: "effect \<Rightarrow> int" where
  "json_use JsonNew = 1"
| "json_use JsonPut = -1"
| "json_use _ = 0"

fun block_use :: "effect \<Rightarrow> int" where
  "block_use Malloc = 1"
| "block_use Free = -1"
| "block_use _ = 0"

fun result_use :: "effect \<Rightarrow> int" where
  "result_use StoreResult = 1"
| "result_use _ = 0"

fun is_send :: "effect \<Rightarrow> bool" where
  "is_send (Send _ _ _ _) = True"
| "is_send _ = False"

text \<open>
  Going from \<open>w\<close> to \<open>v\<close> leaves at most \<open>n\<close> more files and result sets behind, one JSON object for each
  file and at least one block and one result set for each, and gives back no more of
  anything than was taken.
\<close>

definition modest :: "nat \<Rightarrow> ('db, 'z) world_scheme \<Rightarrow> ('db, 'z) world_scheme \<Rightarrow> bool" where
  "modest n w v \<longleftrightarrow>
     (let files = tally file_use (w_log v) - tally file_use (w_log w);
          jsons = tally json_use (w_log v) - tally json_use (w_log w);
          results = tally result_use (w_log v) - tally result_use (w_log w);
          blocks = tally block_use (w_log v) - tally block_use (w_log w)
      in 0 \<le> files \<and> files \<le> int n \<and> jsons = files \<and> files \<le> results \<and> results \<le> int n \<and> files \<le> blocks)"

definition oob_only :: "effect list \<Rightarrow> bool" where
  "oob_only es \<longleftrightarrow> (\<forall>e \<in> set es. \<exists>n i. e = OobRead n i)"

text \<open>What a request of the console leaves in the log after its queries.\<close>

definition ux_tail :: "effect list \<Rightarrow> bool" where
  "ux_tail x \<longleftrightarrow> x = [] \<or> x = [StoreResult] \<or>
     (\<exists>file n p agent len k. x = [StoreResult, JsonNew, Fopen file, Fopen file, Malloc, OobWrite n n, Malloc,
        Free, Fclose, Send agent p len k])"

section \<open>Lemmas\<close>

lemma tally_append [simp]: "tally f (xs @ ys) = tally f xs + tally f ys"
  by (induction xs) simp_all

lemma tally_replicate [simp]: "tally f (replicate n e) = int n * f e"
  by (induction n) (simp_all add: algebra_simps)

lemma tally_queries [simp]: "(\<And>q. f (Query q) = 0) \<Longrightarrow> tally f (map Query qs) = 0"
  by (induction qs) simp_all

lemma tally_oob: "oob_only es \<Longrightarrow> (\<And>n i. f (OobRead n i) = 0) \<Longrightarrow> tally f es = 0"
  by (induction es) (auto simp: oob_only_def)

lemma oob_only_prefix_reads: "oob_only (prefix_reads n cs)"
  by (induction n cs rule: prefix_reads.induct) (auto simp: oob_only_def)

lemma tally_prefix_reads [simp]: "(\<And>n i. f (OobRead n i) = 0) \<Longrightarrow> tally f (prefix_reads n cs) = 0"
  by (rule tally_oob [OF oob_only_prefix_reads])

lemma no_sends:
  "filter is_send (prefix_reads n cs) = []" "filter is_send (map Query qs) = []"
  "filter is_send (replicate i Malloc) = []"
  by (induction n cs rule: prefix_reads.induct) (simp_all add: filter_empty_conv)

lemma wire_sends: "wire fd (filter is_send es) = wire fd es"
  by (induction fd es rule: wire.induct) simp_all

subsection \<open>The logs of the operations\<close>

lemma socket_read_loop_log:
  "socket_read_loop slack rs data w = Ok (d, ret) v \<Longrightarrow>
     \<exists>es. oob_only es \<and> w_log v = w_log w @ es @ (if d = None then [Free] else [])"
proof (induction rs arbitrary: data w)
  case Nil
  then show ?case by (auto simp: oob_only_def)
next
  case (Cons r rs)
  show ?case
  proof (cases r)
    case (RecvErr e)
    with Cons.prems show ?thesis by (auto simp: oob_only_def split: if_splits)
  next
    case (Recv c)
    let ?n = "length data + length c"
    let ?e = "OobRead ?n ?n"
    show ?thesis
    proof (cases "c \<noteq> [] \<and> int ?n \<le> INT_MAX \<and> last c \<noteq> NUL \<and> slack ?n \<noteq> NUL")
      case True
      with Cons.prems Recv have "socket_read_loop slack rs (data @ c) (emit ?e w) = Ok (d, ret) v"
        by (simp add: socket_read_loop_step del: socket_read_loop.simps)
      from Cons.IH [OF this] obtain es where "oob_only es"
          "w_log v = w_log w @ (?e # es) @ (if d = None then [Free] else [])" by auto
      moreover from this(1) have "oob_only (?e # es)" by (simp add: oob_only_def)
      ultimately show ?thesis by blast
    next
      case False
      with Cons.prems Recv show ?thesis
        by (cases "c = []"; cases "int ?n \<le> INT_MAX")
          (auto simp: socket_read_loop_step oob_only_def Let_def simp del: socket_read_loop.simps(3)
            split: if_splits, auto simp: oob_only_def Let_def)
    qed
  qed
qed

lemma mysql_select_fd_log_any:
  assumes "mysql_select_fd db p w = Ok r v"
  shows "\<exists>q x. w_log v = w_log w @ Query q # x \<and> (x = [] \<and> r < 0 \<or> x = [StoreResult])"
  using assms
  by (auto simp: mysql_select_fd_def ok_iffs select_first_int_def
      do_query_def Let_def split: prod.splits if_splits option.splits list.splits)

lemma ux_request_log:
  assumes "ux_request db js a s w = Ok r v"
  shows "\<exists>qs x. w_log v = w_log w @ map Query qs @ x \<and> ux_tail x"
proof -
  from assms obtain i w1 ret w2 where 1: "mysql_insert_fd db (Lit ''UX_SESSION'') (s_fd s) REQ_UX w = Ok i w1"
    and 2: "mysql_select_fd db (miner_mac s) w1 = Ok ret w2"
    and 3: "ret < 0 \<and> v = w2 \<or> ret \<ge> 0 \<and> (\<exists>b u n. msg_client_info js (a_fs a) s w2 = Ok b u \<and>
      c_send (a_send a) ret (Lit b) (length b) u = Ok n v)"
    by (auto simp: ux_request_def ok_iffs Let_def split: if_splits)
  obtain qs where qs: "w_log w1 = w_log w @ map Query qs" using mysql_insert_fd_log [OF 1] by blast
  obtain q x where q: "w_log w2 = w_log w1 @ Query q # x" "x = [] \<and> ret < 0 \<or> x = [StoreResult]"
    using mysql_select_fd_log_any [OF 2] by blast
  have eq: "w_log w2 = w_log w @ map Query (qs @ [q]) @ x" using qs q(1) by simp
  show ?thesis
  proof (cases "ret < 0")
    case True
    with 3 q(2) have "v = w2" "ux_tail x" by (auto simp: ux_tail_def)
    with eq show ?thesis by blast
  next
    case False
    with 3 obtain b u n where b: "msg_client_info js (a_fs a) s w2 = Ok b u"
        "c_send (a_send a) ret (Lit b) (length b) u = Ok n v" by auto
    then obtain fl k where "w_log v = w_log w2 @ [JsonNew, Fopen fl, Fopen fl, Malloc, OobWrite k k, Malloc,
        Free, Fclose, Send ret (Lit b) (length b) n]"
      by (auto simp: msg_client_info_Ok c_send_Ok)
    moreover have "x = [StoreResult]" using q(2) False by simp
    ultimately have "w_log v = w_log w @ map Query (qs @ [q]) @ [StoreResult, JsonNew, Fopen fl, Fopen fl,
        Malloc, OobWrite k k, Malloc, Free, Fclose, Send ret (Lit b) (length b) n]"
      using eq by simp
    then show ?thesis unfolding ux_tail_def by blast
  qed
qed

lemma handle_message_log:
  assumes "handle_message db js a fd d s w = Ok r v"
  shows "\<exists>n qs x. w_log v = w_log w @ JsonNew # replicate n Malloc @ map Query qs @ x @ [Free, JsonPut] \<and> ux_tail x"
proof -
  from assms obtain es where j: "parse_string_to_json js d = JObject es"
    by (auto simp: handle_message_def ok_iffs Let_def)
  show ?thesis
  proof (cases "get_agent_type_loop es")
    case REQ_UX
    from assms obtain u w1 where ux: "ux_request db js a (cmd_session es (s\<lparr>s_fd := fd, agent_type := REQ_UX\<rparr>))
        (w\<lparr>w_log := w_log w @ JsonNew # replicate (empty_paths es) Malloc\<rparr>) = Ok u w1"
      and v: "w_log v = w_log w1 @ [Free, JsonPut]"
      unfolding handle_message_ux [OF j REQ_UX] by (auto simp: ok_iffs Let_def)
    obtain qs x where "w_log w1 = (w_log w @ JsonNew # replicate (empty_paths es) Malloc) @ map Query qs @ x" "ux_tail x"
      using ux_request_log [OF ux] by auto
    then show ?thesis
      using v by (intro exI [of _ "empty_paths es"] exI [of _ qs] exI [of _ x]) simp
  next
    case REQ_LINUX_CLAYMORE
    from assms j REQ_LINUX_CLAYMORE obtain p i w1 where
      1: "mysql_insert_fd db p fd REQ_LINUX_CLAYMORE (emit JsonNew w) = Ok i w1" and v: "w_log v = w_log w1 @ [Free, JsonPut]"
      by (auto simp: handle_message_def Let_def get_agent_type_def outcome_simps ok_iffs)
    obtain qs where "w_log w1 = (w_log w @ [JsonNew]) @ map Query qs" using mysql_insert_fd_log [OF 1] by auto
    then show ?thesis
      using v by (intro exI [of _ 0] exI [of _ qs] exI [of _ "[]"]) (simp add: ux_tail_def)
  next
    case REQ_INVALID
    with assms j show ?thesis
      by (intro exI [of _ 0] exI [of _ "[]"])
        (auto simp: handle_message_def Let_def get_agent_type_def ux_tail_def)
  qed simp
qed

subsection \<open>What a step adds\<close>

lemma modest_refl [simp]: "modest 0 w w"
  by (simp add: modest_def Let_def)

lemma modest_trans: "modest m u v \<Longrightarrow> modest n v w \<Longrightarrow> modest (m + n) u w"
  by (simp add: modest_def Let_def)

lemma modest_mono: "modest m u v \<Longrightarrow> m \<le> n \<Longrightarrow> modest n u v"
  by (simp add: modest_def Let_def)

lemma modest_log:
  assumes "w_log v = w_log w @ es"
  shows "modest n w v \<longleftrightarrow>
    0 \<le> tally file_use es \<and> tally file_use es \<le> int n \<and> tally json_use es = tally file_use es \<and>
    tally file_use es \<le> tally result_use es \<and> tally result_use es \<le> int n \<and>
    tally file_use es \<le> tally block_use es"
  by (auto simp: modest_def Let_def assms)

lemma ux_tail_tally:
  assumes "ux_tail x"
  shows "0 \<le> tally file_use x \<and> tally file_use x \<le> 1 \<and> tally json_use x = tally file_use x \<and>
    tally file_use x \<le> tally result_use x \<and> tally result_use x \<le> 1 \<and> tally file_use x = tally block_use x"
  using assms by (auto simp: ux_tail_def)

lemma on_peer_ready_recv_modest:
  assumes "on_peer_ready_recv db js a fd s w = Ok r v"
  shows "modest 1 w v"
proof -
  from assms obtain d ret w1 where rd: "socket_read (a_slack a) (a_recv a) w = Ok (d, ret) w1"
    and rest: "d = None \<and> v = w1 \<or> d \<noteq> None \<and>
      (v = w1 \<or> handle_message db js a fd (the d) s w1 = Ok r v)"
  proof -
    from assms obtain d ret w1 where 1: "socket_read (a_slack a) (a_recv a) w = Ok (d, ret) w1"
      and 2: "(case d of None \<Rightarrow> Ok (fd_status_NORW, s) (mj_free d w1)
        | Some data \<Rightarrow> if ret = -1 then Ok (fd_status_NORW, s) w1
          else if ret = -2 then Ok (fd_status_R, s) w1
          else if ret = -3 then perror_die ''recv'' w1
          else handle_message db js a fd data s w1) = Ok r v"
      by (auto simp: on_peer_ready_recv_def ok_iffs split: if_splits)
    from 2 have "d = None \<and> v = w1 \<or> d \<noteq> None \<and> (v = w1 \<or> handle_message db js a fd (the d) s w1 = Ok r v)"
      by (cases d) (auto split: if_splits)
    with 1 that show ?thesis by blast
  qed
  from rd obtain es where es: "oob_only es"
      "w_log w1 = w_log w @ Malloc # es @ (if d = None then [Free] else [])"
    using socket_read_loop_log unfolding socket_read_def by fastforce
  note zero = tally_oob [OF es(1)]
  from rest consider "d = None" "v = w1" | "d \<noteq> None" "v = w1"
    | "d \<noteq> None" "handle_message db js a fd (the d) s w1 = Ok r v" by blast
  then show ?thesis
  proof cases
    case 3
    obtain n qs x where x: "w_log v = w_log w1 @ JsonNew # replicate n Malloc @ map Query qs @ x @ [Free, JsonPut]"
        "ux_tail x"
      using handle_message_log [OF 3(2)] by blast
    have log: "w_log v = w_log w @ Malloc # es @ JsonNew # replicate n Malloc @ map Query qs @ x @ [Free, JsonPut]"
      using x(1) es(2) 3(1) by simp
    show ?thesis using ux_tail_tally [OF x(2)] by (simp add: modest_log [OF log] zero)
  qed (simp_all add: modest_log [OF es(2)] zero)
qed

lemma handle_writable_modest:
  assumes "handle_writable a fd w = Ok u v"
  shows "modest 0 w v"
proof -
  from assms obtain st w1 where 1: "on_peer_ready_send a fd w = Ok st w1"
    and rest: "(if events_of st = 0 then
         obind (epoll_del a fd (emit (Print (closing_text fd)) w1)) (\<lambda>_ w. Ok () (close_fd fd w))
       else epoll_mod a fd (events_of st) w1) = Ok u v"
    by (auto simp: handle_writable_def ok_iffs Let_def)
  obtain es where es: "w_log w1 = w_log w @ es" "es = [] \<or> (\<exists>p len n. es = [Send fd p len n])"
  proof (cases "sendptr (global_state w fd) \<ge> sendbuf_end (global_state w fd)")
    case True
    with 1 have "w1 = w" by (auto simp: on_peer_ready_send_def split: if_splits)
    with that [of "[]"] show ?thesis by simp
  next
    case False
    let ?p = "global_state w fd"
    from 1 False obtain n where
      "w_log w1 = w_log w @ [Send fd (send_data ?p) (nat (sendbuf_end ?p - sendptr ?p)) n]"
      by (simp add: on_peer_ready_send_def ok_iffs c_send_Ok Let_def split: if_splits) force+
    with that show ?thesis by blast
  qed
  from es(2) have "modest 0 w w1" by (auto simp: modest_log [OF es(1)])
  moreover from rest have "(\<exists>m. w_log v = w_log w1 @ [EpollMod fd m]) \<or>
      w_log v = w_log w1 @ [Print (closing_text fd), EpollDel fd, CloseFd fd]"
    by (auto simp: ok_iffs close_fd_def split: if_splits)
  then have "modest 0 w1 v" by (auto simp: modest_log)
  ultimately show ?thesis using modest_trans by fastforce
qed

lemma handle_event_modest:
  assumes "handle_event db js lfd ev a s w = Ok s' v"
  shows "modest 1 w v"
proof -
  consider "handle_accept a w = Ok () v" | "handle_readable db js a (ev_fd ev) s w = Ok s' v"
    | "handle_writable a (ev_fd ev) w = Ok () v" | "v = w"
    using assms by (auto simp: handle_event_def ok_iffs split: if_splits)
  then show ?thesis
  proof cases
    case 1
    then show ?thesis
      by (auto simp: handle_accept_def ok_iffs on_peer_connected_def
          report_peer_connected_def modest_def Let_def split: if_splits option.splits accept_result.splits)
  next
    case 2
    then obtain st w1 where 1: "on_peer_ready_recv db js a (ev_fd ev) s w = Ok (st, s') w1"
      and v: "(\<exists>q. w_log v = w_log w1 @ [Query q, EpollDel (ev_fd ev), Print (closing_text (ev_fd ev)), CloseFd (ev_fd ev)]) \<or>
        (\<exists>m. w_log v = w_log w1 @ [EpollMod (ev_fd ev) m])"
      by (auto simp: handle_readable_def ok_iffs Let_def mysql_delete_fd_def
          do_query_def close_fd_def split: if_splits prod.splits)
    from v have "modest 0 w1 v" by (auto simp: modest_log)
    with on_peer_ready_recv_modest [OF 1] show ?thesis using modest_trans by fastforce
  next
    case 3
    then show ?thesis using handle_writable_modest modest_mono by fastforce
  qed (simp add: modest_def)
qed

lemma handle_events_modest:
  "handle_events db js lfd evs s w = Ok s' v \<Longrightarrow> modest (length evs) w v"
proof (induction evs arbitrary: s w)
  case (Cons e evs)
  obtain ev a where e: "e = (ev, a)" by fastforce
  from Cons.prems obtain s1 w1 where 1: "handle_event db js lfd ev a s w = Ok s1 w1"
      "handle_events db js lfd evs s1 w1 = Ok s' v"
    by (auto simp: e ok_iffs)
  show ?case using modest_trans [OF handle_event_modest [OF 1(1)] Cons.IH [OF 1(2)]] by simp
qed simp

lemma loop_turn_modest:
  assumes "loop_turn db js lfd (junk, evs) w = Ok u v"
  shows "modest (length evs) w v"
proof -
  from assms obtain s w1 where "handle_events db js lfd evs (malloc_session junk) (emit Malloc w) = Ok s w1"
    and v: "v = emit Free w1"
    by (auto simp: loop_turn_def ok_iffs)
  from handle_events_modest [OF this(1)] show ?thesis by (simp add: v modest_def Let_def)
qed

lemma main_loop_modest:
  "main_loop db js lfd turns w = Ok () v \<Longrightarrow> modest (sum_list (map (\<lambda>(junk, evs). length evs) turns)) w v"
proof (induction turns arbitrary: w)
  case (Cons t turns)
  obtain junk evs where t: "t = (junk, evs)" by fastforce
  from Cons.prems obtain u w1 where 1: "loop_turn db js lfd (junk, evs) w = Ok u w1"
      "main_loop db js lfd turns w1 = Ok () v"
    by (auto simp: t ok_iffs)
  show ?case using modest_trans [OF loop_turn_modest [OF 1(1)] Cons.IH [OF 1(2)]] by (simp add: t)
qed simp

end
