(* ===== verification/Agent_Scenarios.thy ===== *)
theory Agent_Scenarios
  imports Agent_System Agent_Reference
begin

unbundle bit_operations_syntax

text \<open>
  Concrete situations: an agent on descriptor 5 and the operator's console on descriptor 6, the
  messages they send, the answers of a kernel where nothing goes wrong. They are the inputs at
  which the properties of the server are instantiated.
\<close>

section \<open>Definitions\<close>

definition quiet :: answers where
  "quiet = \<lparr>a_accept = AcceptErr EAGAIN, a_name = None, a_fcntl = \<lparr>f_getfl = 2, f_setfl = 0\<rparr>,
     a_epoll_ctl = 0, a_recv = [], a_slack = (\<lambda>_. CHR ''z''), a_send = Sent 20,
     a_fs = (\<lambda>f. if f = ''/srv/m'' then Some ''#!x'' else None)\<rparr>"

definition accepting :: "int \<Rightarrow> answers" where
  "accepting fd = quiet\<lparr>a_accept := Accepted fd, a_name := Some (''10.0.0.5'', ''4711'')\<rparr>"

definition receives :: "string \<Rightarrow> answers" where
  "receives m = quiet\<lparr>a_recv := [Recv (m @ [NUL])]\<rparr>"

definition input_event :: "int \<Rightarrow> event" where
  "input_event fd = \<lparr>ev_fd = fd, ev_events = EPOLLIN\<rparr>"

definition hello_entries :: "(string \<times> json) list" where
  "hello_entries = [(''agent_type'', JString AGENT_TYPE_LINUX_NVIDIA), (''miner_mac'', JString ''00:1b'')]"

definition order_entries :: "string \<Rightarrow> (string \<times> json) list" where
  "order_entries file =
     [(''agent_type'', JString AGENT_TYPE_UX), (''commend_type'', JString ''file-download''),
      (''sequence'', JString ''7''), (''miner_mac'', JString ''00:1b''), (''path'', JString file),
      (''path_install'', JString ''/opt/m'')]"

definition hello :: string where
  "hello = ref_print (JObject hello_entries)"

definition order :: "string \<Rightarrow> string" where
  "order file = ref_print (JObject (order_entries file))"

text \<open>A registration with a name of \<open>n\<close> characters.\<close>

definition long_entries :: "nat \<Rightarrow> (string \<times> json) list" where
  "long_entries n =
     [(''agent_type'', JString AGENT_TYPE_LINUX_NVIDIA), (''miner_mac'', JString (replicate n CHR ''a''))]"

definition long_hello :: "nat \<Rightarrow> string" where
  "long_hello n = ref_print (JObject (long_entries n))"

definition ready_peer :: peer_state_t where
  "ready_peer = \<lparr>pstate = INITIAL_ACK, send_data = Null, sendbuf_end = SYNACK_LEN, sendptr = 0\<rparr>"

definition two_peers :: "session_row list \<Rightarrow> ref_db server" where
  "two_peers rs = \<lparr>w_db = \<lparr>rows = rs, pending = None\<rparr>, w_log = [],
     global_state = (\<lambda>fd. if fd = 5 \<or> fd = 6 then ready_peer else zero_peer),
     epoll_set = [4 \<mapsto> EPOLLIN, 5 \<mapsto> EPOLLIN, 6 \<mapsto> EPOLLIN], sockets = {5, 6}\<rparr>"

definition blank :: session_t where
  "blank = malloc_session \<lparr>s_fd = 0, client_fd = 0, agent_type = REQ_INVALID, cmd_type = Wild,
     miner_mac = Wild, path = Wild, path_install = Wild, sequence = 0, seg_fin = False\<rparr>"

definition good_start :: start_answers where
  "good_start = \<lparr>st_connected = True,
     st_listen = \<lparr>l_socket = 4, l_setsockopt = 0, l_bind = 0, l_listen = 0\<rparr>,
     st_fcntl = \<lparr>f_getfl = 2, f_setfl = 0\<rparr>, st_epoll_create = 3, st_epoll_ctl = 0, st_calloc = True\<rparr>"

text \<open>A peer with eight bytes to send, as the disabled handshake would leave it.\<close>

definition syn_ack_pending :: "int \<Rightarrow> ref_db server" where
  "syn_ack_pending fd = (two_peers [])\<lparr>global_state := (\<lambda>_. zero_peer)(fd :=
     ready_peer\<lparr>send_data := Lit ''SYN_ACK!'', sendbuf_end := 8, sendptr := 0\<rparr>)\<rparr>"

definition started :: "ref_db \<Rightarrow> ref_db server" where
  "started d = (case main_start good_start [] (boot d) of Ok _ w \<Rightarrow> w | Stop _ w \<Rightarrow> w)"

section \<open>Lemmas\<close>

lemma two_peers_inv: "server_inv 4 (two_peers rs)"
  by (auto simp: server_inv_def two_peers_def ready_peer_def)

lemma two_peers_up: "ref_up \<lparr>rows = rs, pending = None\<rparr> \<Longrightarrow> db_up ref_up (two_peers rs)"
  by (simp add: db_up_def two_peers_def)

lemma blank_unreadable: "\<not> readable (miner_mac blank)"
  by (simp add: blank_def)

lemma peer_input_receives:
  assumes "fd = 5 \<or> fd = 6" and "nul_free m" and "length m < 256"
  shows "peer_input (two_peers rs) (input_event fd) (receives m) [m @ [NUL]] m"
  using assms by (auto simp: peer_input_def arrives_def input_event_def receives_def quiet_def two_peers_def)

lemma ref_parse_print:
  "flat_entries es \<Longrightarrow> json_tokener_parse ref_json (ref_print (JObject es)) = JObject es"
  using ref_json.parse_print [of es] nul_free_print_members [of es]
  by (simp add: ref_json_def flat_entries_def)

lemma hello_parses: "json_tokener_parse ref_json hello = JObject hello_entries"
  unfolding hello_def by (rule ref_parse_print) (simp add: flat_entries_def hello_entries_def)

lemma order_parses: "nul_free file \<Longrightarrow> json_tokener_parse ref_json (order file) = JObject (order_entries file)"
  unfolding order_def by (rule ref_parse_print) (simp add: flat_entries_def order_entries_def)

lemma hello_input: "peer_input (two_peers rs) (input_event 5) (receives hello) [hello @ [NUL]] hello"
  by (rule peer_input_receives) (simp_all add: hello_def hello_entries_def)

lemma order_input:
  "peer_input (two_peers rs) (input_event 6) (receives (order ''/srv/m'')) [order ''/srv/m'' @ [NUL]] (order ''/srv/m'')"
  by (rule peer_input_receives) (simp_all add: order_def order_entries_def)

lemma order_request:
  "nul_free file \<Longrightarrow> download_request (order_entries file) ''00:1b'' file ''/opt/m'' 7"
proof -
  assume "nul_free file"
  moreover have "atoi ''7'' = 7" by code_simp
  ultimately show ?thesis
    by (simp add: download_request_def order_entries_def last_string_string strcmp_eq_def)
qed

text \<open>The agent is registered: its row is in the table.\<close>

lemma registered_up: "db_up ref_up (two_peers [(''00:1b'', 5, 2)])"
  by (rule two_peers_up) (simp add: ref_up_def int32_def)

lemma registered_mac: "registry_of rows (two_peers [(''00:1b'', 5, 2)]) = [''00:1b'' \<mapsto> 5]"
  by (simp add: registry_of_def two_peers_def fun_eq_iff)

lemma fresh_up: "db_up ref_up (two_peers [])"
  by (rule two_peers_up) (simp add: ref_up_def)

lemma hello_type: "get_agent_type_loop hello_entries = REQ_LINUX_CLAYMORE"
  by (simp add: hello_entries_def strcmp_eq_def)

lemma hello_mac: "last_string ''miner_mac'' hello_entries = Some ''00:1b''"
  by (simp add: hello_entries_def last_string_string)

lemma ref_mac_ok_demo: "ref_mac_ok (c_str ''00:1b'')"
  by (simp add: ref_mac_ok_def sql_safe_def)

subsection \<open>From the start to a registered agent\<close>

lemma main_start_started: "main_start good_start [] (boot d) = Ok (Some 4) (started d)"
  and started_no_query: "Query q \<notin> set (w_log (started d))"
  by (simp_all add: started_def main_start_def good_start_def mysql_conn_def listen_inet_socket_def
      make_socket_non_blocking_def Let_def boot_def)

lemmas started_state = main_start_Ok [OF main_start_started, simplified]

lemma started_simps [simp]:
  "sockets (started d) = {}" "w_db (started d) = d" "epoll_set (started d) = [4 \<mapsto> EPOLLIN]"
  using started_state [of d] by (simp_all add: boot_def good_start_def)

lemma message_ok_receives:
  assumes "nul_free m" and "length m < 256" and "json_tokener_parse ref_json m = JObject es"
    and "\<And>x. last_string ''miner_mac'' es = Some x \<Longrightarrow> ref_mac_ok (c_str x)"
  shows "message_ok ref_mac_ok ref_json (receives m) w"
proof -
  have "arrives (receives m) [m @ [NUL]] m" using assms(1,2) by (simp add: arrives_def receives_def)
  note arrives_read [OF this, of w]
  with assms show ?thesis
    by (auto simp: message_ok_def parse_string_to_json_def c_str_append_nul)
qed

lemma hello_message_ok: "message_ok ref_mac_ok ref_json (receives hello) w"
proof (rule message_ok_receives [OF _ _ hello_parses])
  show "nul_free hello" "length hello < 256" by (simp_all add: hello_def hello_entries_def)
next
  fix x
  assume "last_string ''miner_mac'' hello_entries = Some x"
  then show "ref_mac_ok (c_str x)" using ref_mac_ok_demo hello_mac by simp
qed

lemma accepting_message_ok: "message_ok ref_mac_ok ref_json (accepting fd) w"
  by (auto simp: message_ok_def socket_read_def accepting_def quiet_def parse_string_to_json_def
      ref_json_def ref_parse_def)

lemma accepting_event:
  assumes "server_inv 4 w" and "0 \<le> fd" and "fd < MAXFDS" and "fd \<noteq> 4" and "fd \<notin> sockets w"
  shows "event_ok 4 w (input_event 4) (accepting fd)"
    and "\<exists>v. handle_event db js 4 (input_event 4) (accepting fd) s w = Ok s v \<and>
      sockets v = insert fd (sockets w) \<and> w_db v = w_db w \<and>
      (\<forall>q. Query q \<in> set (w_log v) \<longrightarrow> Query q \<in> set (w_log w))"
proof -
  show "event_ok 4 w (input_event 4) (accepting fd)"
    using assms by (simp add: event_ok_def input_event_def accepting_def server_inv_def)
  obtain v where v: "handle_accept (accepting fd) w = Ok () v"
      "\<forall>q. Query q \<in> set (w_log v) \<longrightarrow> Query q \<in> set (w_log w)"
    using assms(3)
    by (simp add: handle_accept_def accepting_def quiet_def make_socket_non_blocking_def
        on_peer_connected_def epoll_add_def Let_def report_peer_connected_def)
  have "a_accept (accepting fd) = Accepted fd" by (simp add: accepting_def)
  with v handle_accept_Accepted [OF v(1)]
  show "\<exists>v. handle_event db js 4 (input_event 4) (accepting fd) s w = Ok s v \<and>
      sockets v = insert fd (sockets w) \<and> w_db v = w_db w \<and>
      (\<forall>q. Query q \<in> set (w_log v) \<longrightarrow> Query q \<in> set (w_log w))"
    by (simp add: handle_event_def input_event_def)
qed

lemma peer_input_hello: "5 \<in> sockets w \<Longrightarrow> peer_input w (input_event 5) (receives hello) [hello @ [NUL]] hello"
  using hello_input [of "[]"] by (simp add: peer_input_def input_event_def)

text \<open>Start, accept the agent's connection, read its registration.\<close>

lemma agent_registered:
  "\<exists>s w. reachable ref_mysql ref_json ref_mac_ok empty_db 4 s w \<and> sockets w = {5} \<and>
     registry_of rows w = [''00:1b'' \<mapsto> 5]"
proof -
  let ?w0 = "emit Malloc (started empty_db)"
  have r0: "reachable ref_mysql ref_json ref_mac_ok empty_db 4 blank ?w0"
    unfolding blank_def by (rule reachable.start [OF main_start_started])
  note inv0 = reachable_inv [OF r0]
  obtain w1 where 1: "handle_event ref_mysql ref_json 4 (input_event 4) (accepting 5) blank ?w0 = Ok blank w1"
      "sockets w1 = {5}" "w_db w1 = empty_db"
    using accepting_event(2) [OF inv0, of 5 ref_mysql ref_json blank] by auto
  have r1: "reachable ref_mysql ref_json ref_mac_ok empty_db 4 blank w1"
    using reachable.event [OF r0 accepting_event(1) [OF inv0] accepting_message_ok 1(1)] by simp
  note inv1 = reachable_inv [OF r1]
  have in5: "peer_input w1 (input_event 5) (receives hello) [hello @ [NUL]] hello"
    by (rule peer_input_hello) (simp add: 1(2))
  have up1: "db_up ref_up w1" by (simp add: db_up_def 1(3) empty_db_def ref_up_def)
  have ev1: "event_ok 4 w1 (input_event 5) (receives hello)"
    using inv1 1(2) by (simp add: event_ok_def input_event_def receives_def quiet_def server_inv_def)
  obtain s2 w2 where 2: "handle_event ref_mysql ref_json 4 (input_event 5) (receives hello) blank w1 = Ok s2 w2"
      "registry_of rows w2 = (registry_of rows w1)(c_str ''00:1b'' \<mapsto> ev_fd (input_event 5))"
      "sockets w2 = sockets w1"
    using mysql_table.registration_event [OF ref_mysql.mysql_table_axioms inv1 up1 in5 hello_parses
        hello_type hello_mac ref_mac_ok_demo, of blank] by blast
  have "registry_of rows w1 = Map.empty" by (simp add: registry_of_def 1(3) empty_db_def)
  then have "registry_of rows w2 = [''00:1b'' \<mapsto> 5]" using 2(2) by (simp add: input_event_def)
  moreover have "reachable ref_mysql ref_json ref_mac_ok empty_db 4 s2 w2"
    by (rule reachable.event [OF r1 ev1 hello_message_ok 2(1)])
  ultimately show ?thesis using 1(2) 2(3) by auto
qed

lemma receives_simps [simp]:
  "a_send (receives m) = Sent 20" "a_fs (receives m) ''/srv/m'' = Some ''#!x''"
  "a_fs (receives m) ''/no'' = None"
  by (simp_all add: receives_def quiet_def)

lemma demo_facts:
  "ref_mac_ok ''00:1b''" "''00:1b'' \<noteq> ''UX_SESSION''" "(0::int) \<le> 5" "0 < (20::int)" "20 \<le> INT_MAX"
  "registry_of rows (two_peers [(''00:1b'', 5, 2)]) ''00:1b'' = Some 5" "nul_free ''/srv/m''"
  using ref_mac_ok_demo by (simp_all add: registered_mac)

lemma order_message_ok:
  assumes "nul_free file" and "length (order file) < 256"
  shows "message_ok ref_mac_ok ref_json (receives (order file)) w"
proof (rule message_ok_receives [OF _ assms(2) order_parses [OF assms(1)]])
  show "nul_free (order file)" using assms(1) by (simp add: order_def order_entries_def)
next
  fix x
  assume "last_string ''miner_mac'' (order_entries file) = Some x"
  then show "ref_mac_ok (c_str x)" using ref_mac_ok_demo by (simp add: order_entries_def last_string_string)
qed

lemma order_no_input:
  "peer_input (two_peers rs) (input_event 6) (receives (order ''/no'')) [order ''/no'' @ [NUL]] (order ''/no'')"
  by (rule peer_input_receives) (simp_all add: order_def order_entries_def)

lemma order_fields:
  "get_agent_type_loop (order_entries file) = REQ_UX"
  "last_string ''miner_mac'' (order_entries file) = Some ''00:1b''"
  by (simp_all add: order_entries_def strcmp_eq_def last_string_string)

lemma order_no_unsendable: "\<not> sendable (a_fs (receives (order ''/no''))) (cmd_session (order_entries ''/no'') blank)"
  using download_session(6) [OF order_request, of "''/no''" blank] by (simp add: sendable_def)

lemma replicate_text [simp]:
  "nul_free (replicate n CHR ''a'')" "esc (replicate n CHR ''a'') = replicate n CHR ''a''"
  by (induction n) (simp_all add: nul_free_def)

lemma long_hello_fields:
  "get_agent_type_loop (long_entries n) = REQ_LINUX_CLAYMORE"
  "last_string ''miner_mac'' (long_entries n) = Some (replicate n CHR ''a'')"
  "c_str (replicate n CHR ''a'') = replicate n CHR ''a''"
  by (simp_all add: long_entries_def strcmp_eq_def last_string_string)

lemma long_hello_text: "nul_free (long_hello n)" "length (long_hello n) = n + 53"
  by (simp_all add: long_hello_def long_entries_def)

lemma long_hello_parses: "json_tokener_parse ref_json (long_hello n) = JObject (long_entries n)"
  unfolding long_hello_def by (rule ref_parse_print) (simp add: flat_entries_def long_entries_def)

text \<open>One turn of the loop that accepts a connection.\<close>

lemma accept_turn:
  "\<exists>v. main_loop ref_mysql ref_json 4 [(blank, [(input_event 4, accepting 5)])] (started empty_db) = Ok () v \<and>
     sockets v = {5} \<and> turns_ok ref_mysql ref_json ref_mac_ok 4 [(blank, [(input_event 4, accepting 5)])] (started empty_db)"
proof -
  let ?w0 = "emit Malloc (started empty_db)"
  have r: "reachable ref_mysql ref_json ref_mac_ok empty_db 4 blank ?w0"
    unfolding blank_def by (rule reachable.start [OF main_start_started])
  have b: "malloc_session blank = blank" by (simp add: blank_def malloc_session_def)
  obtain w1 where 1: "handle_event ref_mysql ref_json 4 (input_event 4) (accepting 5) blank ?w0 = Ok blank w1"
      "sockets w1 = {5}"
    using accepting_event(2) [OF reachable_inv [OF r], of 5 ref_mysql ref_json blank] by auto
  then show ?thesis
    using accepting_event(1) [OF reachable_inv [OF r], of 5] accepting_message_ok
    by (simp add: loop_turn_def b)
qed

end
