(* ===== verification/Agent_Behaviour.thy ===== *)
theory Agent_Behaviour
  imports Agent_Scenarios
begin

unbundle bit_operations_syntax

text \<open>
  Properties of single steps of the server in \<^verbatim>\<open>main.c\<close>: start-up, accepting, the
  callbacks and the branches of the message handler, the ones that lose data or end the process
  included. Each property with hypotheses is followed by an instance at a concrete situation.
\<close>

text \<open>The calls of \<open>main\<close> before its loop all succeed.\<close>

definition set_up :: "start_answers \<Rightarrow> bool" where
  "set_up a \<longleftrightarrow>
     0 \<le> l_socket (st_listen a) \<and> 0 \<le> l_setsockopt (st_listen a) \<and> 0 \<le> l_bind (st_listen a) \<and>
     0 \<le> l_listen (st_listen a) \<and> f_getfl (st_fcntl a) \<noteq> -1 \<and> f_setfl (st_fcntl a) \<noteq> -1 \<and>
     0 \<le> st_epoll_create a \<and> 0 \<le> st_epoll_ctl a \<and> st_calloc a"

lemma on_peer_ready_send_frame:
  fixes w :: "('db, 'z) server_scheme"
  assumes "on_peer_ready_send a fd w = Ok st v"
  shows "epoll_set v = epoll_set w \<and> sockets v = sockets w \<and>
    (\<forall>fd'. fd' \<noteq> fd \<longrightarrow> global_state v fd' = global_state w fd')"
proof (cases "sendptr (global_state w fd) \<ge> sendbuf_end (global_state w fd)")
  case True
  with assms show ?thesis by (auto simp: on_peer_ready_send_def split: if_splits)
next
  case False
  let ?p = "global_state w fd"
  let ?w1 = "\<lambda>n. emit (Send fd (send_data ?p) (nat (sendbuf_end ?p - sendptr ?p)) n) w"
  from assms False have "\<exists>n. v = ?w1 n \<or> (\<exists>q. v = (?w1 n)\<lparr>global_state := (global_state w)(fd := q)\<rparr>)"
    by (simp add: on_peer_ready_send_def ok_iffs c_send_Ok Let_def split: if_splits) blast+
  then show ?thesis by auto
qed

lemma handle_writable_frame:
  fixes w :: "('db, 'z) server_scheme"
  assumes "handle_writable a fd w = Ok u v" and "fd' \<noteq> fd"
  shows "global_state v fd' = global_state w fd' \<and> epoll_set v fd' = epoll_set w fd' \<and>
    (fd' \<in> sockets v \<longleftrightarrow> fd' \<in> sockets w)"
proof -
  from assms(1) obtain st w1 where 1: "on_peer_ready_send a fd w = Ok st w1"
    and rest: "(if events_of st = 0 then
         obind (epoll_del a fd (emit (Print (closing_text fd)) w1)) (\<lambda>_ w. Ok () (close_fd fd w))
       else epoll_mod a fd (events_of st) w1) = Ok u v"
    by (auto simp: handle_writable_def ok_iffs Let_def)
  from rest have "global_state v fd' = global_state w1 fd' \<and> epoll_set v fd' = epoll_set w1 fd' \<and>
      (fd' \<in> sockets v \<longleftrightarrow> fd' \<in> sockets w1)"
    using assms(2) by (auto simp: ok_iffs close_fd_def split: if_splits)
  with on_peer_ready_send_frame [OF 1] assms(2) show ?thesis by simp
qed

section \<open>Properties\<close>

text \<open>
  The check of \<open>send\<close>'s result in the \<open>REQ_UX\<close> branch looks at it as a \<open>size_t\<close>: the
  failure branch is taken only when \<open>send\<close> returned 0, and an error (\<open>-1\<close>, any \<open>errno\<close> but
  EPIPE, which kills the process) counts as delivered.
\<close>

theorem ux_send_error_unnoticed:
  assumes "ux_request db js a s w = Ok r v" and "sent_ok (a_send a)" and "r \<noteq> UX_not_found"
  shows "r = UX_send_failed \<longleftrightarrow> a_send a = Sent 0"
proof -
  from assms(1,3) obtain n where n: "a_send a = Sent n \<or> n = -1 \<and> (\<exists>e. a_send a = SendErr e)"
    and r: "r = (if 0 < to_size_t n then UX_sent else UX_send_failed)"
    by (auto simp: ux_request_def ok_iffs c_send_Ok Let_def split: if_splits)
  have "0 < to_size_t n \<longleftrightarrow> n \<noteq> 0"
    using n assms(2) by (intro to_size_t_pos) auto
  with n r show ?thesis by auto
qed

theorem ux_send_error_unnoticed_witness:
  "\<exists>r v. ux_request ref_mysql ref_json (quiet\<lparr>a_send := SendErr (EOTHER 104)\<rparr>)
      (cmd_session (order_entries ''/srv/m'') (blank\<lparr>s_fd := 6\<rparr>)) (two_peers [(''00:1b'', 5, 2)]) = Ok r v \<and>
    r \<noteq> UX_send_failed"
proof -
  let ?a = "quiet\<lparr>a_send := SendErr (EOTHER 104)\<rparr>" and ?w = "two_peers [(''00:1b'', 5, 2)]"
  let ?s = "cmd_session (order_entries ''/srv/m'') (blank\<lparr>s_fd := 6\<rparr>)"
  note s = download_session [OF order_request, of "''/srv/m''" "blank\<lparr>s_fd := 6\<rparr>"]
  obtain v where ok: "ux_request ref_mysql ref_json ?a ?s ?w = Ok UX_sent v"
    using mysql_table.ux_request_found [OF ref_mysql.mysql_table_axioms ref_json.json_lib_axioms registered_up, of ?s 5 ?a "''#!x''" "-1"]
      s by (auto simp: registered_mac ref_mac_ok_def sql_safe_def quiet_def sendable_def int32_def)
  then have "UX_sent = UX_send_failed \<longleftrightarrow> a_send ?a = Sent 0"
    by (rule ux_send_error_unnoticed) simp_all
  with ok show ?thesis by (auto simp: quiet_def)
qed

text \<open>
  When the peer has closed its end, the readable event deletes the session rows of the
  descriptor with one query, takes the descriptor out of the epoll set and closes it, in this
  order, and releases the read buffer.
\<close>

theorem handle_readable_hangup:
  assumes "fd < MAXFDS" and "int32 fd" and "0 \<le> a_epoll_ctl a" and "a_recv a = Recv [] # rs"
  shows "\<exists>v. handle_readable db js a fd s w = Ok s v \<and>
    w_db v = snd (mysql_query db (w_db w) (delete_fd_sql fd)) \<and>
    w_log v = w_log w @ [Malloc, Free, Query (delete_fd_sql fd), EpollDel fd,
      Print (closing_text fd), CloseFd fd] \<and>
    epoll_set v = (epoll_set w)(fd := None) \<and> sockets v = sockets w - {fd}"
proof -
  have "length (delete_fd_sql fd) < QUERY_LEN"
    using length_fmt_d [OF assms(2)] by (simp add: length_sql)
  with assms show ?thesis
    by (auto simp: handle_readable_def on_peer_ready_recv_def socket_read_def mysql_delete_fd_def
        do_query_def epoll_del_def close_fd_def emit_def split: prod.split)
qed

theorem handle_readable_hangup_witness:
  "\<exists>v. handle_readable ref_mysql ref_json (quiet\<lparr>a_recv := [Recv []]\<rparr>) 5 blank (two_peers []) = Ok blank v \<and>
    w_db v = snd (mysql_query ref_mysql (w_db (two_peers [])) (delete_fd_sql 5)) \<and>
    w_log v = w_log (two_peers []) @ [Malloc, Free, Query (delete_fd_sql 5), EpollDel 5,
      Print (closing_text 5), CloseFd 5] \<and>
    epoll_set v = (epoll_set (two_peers []))(5 := None) \<and> sockets v = sockets (two_peers []) - {5}"
  by (rule handle_readable_hangup [where rs = "[]"]) (simp_all add: quiet_def int32_def)

text \<open>
  The beginning of a message whose end has not arrived yet is thrown away: the callback
  asks for more input but leaves the session and the database as they were, and the buffer with
  the bytes read so far is neither kept nor released.
\<close>

theorem partial_message_dropped:
  assumes "fd < MAXFDS" and "a_recv a = [Recv c]" and "c \<noteq> []" and "length c \<le> MAX_RECV_BUFF_SIZE"
    and "last c \<noteq> NUL" and "a_slack a (length c) \<noteq> NUL"
  shows "on_peer_ready_recv db js a fd s w =
    Ok (fd_status_R, s) (w\<lparr>w_log := w_log w @ [Malloc, OobRead (length c) (length c)]\<rparr>)"
  using assms
  by (simp add: on_peer_ready_recv_def socket_read_def socket_read_loop_step emit_def
      del: socket_read_loop.simps(3))

theorem partial_message_dropped_witness:
  "on_peer_ready_recv ref_mysql ref_json (quiet\<lparr>a_recv := [Recv ''{|agent'']\<rparr>) 5 blank (two_peers []) =
     Ok (fd_status_R, blank) ((two_peers [])\<lparr>w_log := w_log (two_peers []) @
       [Malloc, OobRead (length ''{|agent'') (length ''{|agent'')]\<rparr>)"
  by (rule partial_message_dropped) (simp_all add: quiet_def)

text \<open>
  A command or registration without a \<open>miner_mac\<close> never comes back from the handler: the
  session's pointer is either uninitialised or points into the message of an earlier event of
  the same batch, which has been released.
\<close>

theorem message_without_mac_stops:
  assumes "parse_string_to_json js d = JObject es" and "get_agent_type_loop es \<noteq> REQ_INVALID"
    and "last_string ''miner_mac'' es = None" and "\<not> readable (miner_mac s)"
  shows "\<exists>st v. handle_message db js a fd d s w = Stop st v"
proof (cases "handle_message db js a fd d s w")
  case (Ok r v)
  have "get_agent_type_loop es \<noteq> REQ_WINDOW_CLAYMORE"
    by (auto simp: get_agent_type_loop_eq classify_def split: list.splits)
  with Ok assms show ?thesis
    by (cases "get_agent_type_loop es")
      (auto simp: handle_message_def ok_iffs Let_def parse_json_cmd_eq
        parse_json_agent_eq ux_request_def mysql_select_fd_def mysql_insert_fd_def
        cmd_session_def split: if_splits)
qed simp

theorem message_without_mac_stops_witness:
  "\<exists>st v. handle_message ref_mysql ref_json quiet 6
      (ref_print (JObject [(''agent_type'', JString AGENT_TYPE_UX)]) @ [NUL]) blank (two_peers []) = Stop st v"
proof (rule message_without_mac_stops [OF _ _ _ blank_unreadable])
  show "parse_string_to_json ref_json (ref_print (JObject [(''agent_type'', JString AGENT_TYPE_UX)]) @ [NUL]) =
      JObject [(''agent_type'', JString AGENT_TYPE_UX)]"
    using ref_parse_print [of "[(''agent_type'', JString AGENT_TYPE_UX)]"]
    by (simp add: parse_string_to_json_def flat_entries_def)
qed (simp_all add: strcmp_eq_def last_string_string)

text \<open>
  After a partial \<open>send\<close> the next one starts at the beginning of the buffer again: \<open>k\<close> bytes
  followed by the remaining \<open>length b - k\<close> put the first \<open>length b - k\<close> bytes of the buffer on
  the wire a second time instead of its tail, and the peer state says everything was sent.
\<close>

theorem partial_send_restarts:
  assumes "fd < MAXFDS" and "send_data (global_state w fd) = Lit b"
    and "sendptr (global_state w fd) = 0" and "sendbuf_end (global_state w fd) = int (length b)"
    and "0 < k" and "k < length b" and "a_send a1 = Sent (int k)"
    and "a_send a2 = Sent (int (length b - k))"
  shows "\<exists>v. obind (on_peer_ready_send a1 fd w) (\<lambda>_ w. on_peer_ready_send a2 fd w) = Ok fd_status_R v \<and>
    wire fd (w_log v) = wire fd (w_log w) @ take k b @ take (length b - k) b \<and>
    sendptr (global_state v fd) = 0 \<and> sendbuf_end (global_state v fd) = 0"
proof -
  from assms(6) have "int (length b - k) = int (length b) - int k"
    and "nat (int (length b) - int k) = length b - k" by linarith+
  with assms show ?thesis
    by (auto simp: on_peer_ready_send_def c_send_def Let_def wire_append)
qed

theorem partial_send_restarts_witness:
  "\<exists>v. obind (on_peer_ready_send (quiet\<lparr>a_send := Sent (int 3)\<rparr>) 5 (syn_ack_pending 5))
      (\<lambda>_ w. on_peer_ready_send (quiet\<lparr>a_send := Sent (int (length ''SYN_ACK!'' - 3))\<rparr>) 5 w) = Ok fd_status_R v \<and>
    wire 5 (w_log v) = wire 5 (w_log (syn_ack_pending 5)) @ take 3 ''SYN_ACK!'' @
      take (length ''SYN_ACK!'' - 3) ''SYN_ACK!'' \<and>
    sendptr (global_state v 5) = 0 \<and> sendbuf_end (global_state v 5) = 0"
  by (rule partial_send_restarts) (simp_all add: quiet_def syn_ack_pending_def)

text \<open>
  \<open>main\<close> enters its loop exactly when the database can be reached and every call of the
  set-up succeeds: it then listens on port 88, or on the number given as first argument, with
  a non-blocking socket watched for input. It returns \<open>-1\<close>, having opened nothing, exactly
  when the database cannot be reached, and exits in every other case.
\<close>

theorem main_start_serves:
  "let port = (if length argv \<ge> 2 then atoi (argv ! 1) else 88); fd = l_socket (st_listen a) in
   case main_start a argv w of
     Ok None v \<Rightarrow> \<not> st_connected a \<and>
       w_log v = w_log w @ [Malloc, Connect ''127.0.0.1'' ''root'' '''' ''monitoring'' 3306]
   | Ok (Some lfd) v \<Rightarrow> st_connected a \<and> set_up a \<and> lfd = fd \<and> epoll_set v = (epoll_set w)(fd \<mapsto> EPOLLIN) \<and>
       w_log v = w_log w @ [Malloc, Connect ''127.0.0.1'' ''root'' '''' ''monitoring'' 3306,
         Print (''Serving on port '' @ fmt_d port), Socket fd, ReuseAddr fd, Bind fd (word_of_int port),
         Listen fd 64, SetFl fd (word_of_int (f_getfl (st_fcntl a)) OR O_NONBLOCK),
         EpollAdd fd EPOLLIN, Malloc]
   | Stop st v \<Rightarrow> st_connected a \<and> \<not> set_up a \<and> (\<exists>msg. st = Exit_failure msg)"
  by (simp add: main_start_def mysql_conn_def set_up_def listen_inet_socket_def
      make_socket_non_blocking_def Let_def emit_def)

text \<open>
  Accepting a connection succeeds exactly when its descriptor is below \<open>MAXFDS\<close> and the calls on it
  succeed; the descriptor is then non-blocking, has a fresh peer state, apart from the \<open>send_data\<close>
  pointer an earlier peer may have left, and is watched for input only.
\<close>

theorem accept_installs_peer:
  assumes "a_accept a = Accepted n"
  shows "case handle_accept a w of
      Ok _ v \<Rightarrow> n < MAXFDS \<and> 0 \<le> a_epoll_ctl a \<and> sockets v = insert n (sockets w) \<and>
        epoll_set v = (epoll_set w)(n \<mapsto> EPOLLIN) \<and>
        global_state v = (global_state w)(n := \<lparr>pstate = INITIAL_ACK,
          send_data = send_data (global_state w n), sendbuf_end = SYNACK_LEN, sendptr = 0\<rparr>) \<and>
        (\<exists>log. w_log v = w_log w @ SetFl n (word_of_int (f_getfl (a_fcntl a)) OR O_NONBLOCK) # log)
    | Stop st v \<Rightarrow> (\<exists>msg. st = Exit_failure msg) \<and>
        (n \<ge> MAXFDS \<or> a_epoll_ctl a < 0 \<or> f_getfl (a_fcntl a) = -1 \<or> f_setfl (a_fcntl a) = -1)"
proof (cases "handle_accept a w")
  case (Ok u v)
  have peer: "peer\<lparr>pstate := INITIAL_ACK, sendptr := 0, sendbuf_end := SYNACK_LEN\<rparr> =
      \<lparr>pstate = INITIAL_ACK, send_data = send_data peer, sendbuf_end = SYNACK_LEN, sendptr = 0\<rparr>" for peer
    by (cases peer) simp
  have "0 \<le> a_epoll_ctl a \<and>
      (\<exists>log. w_log v = w_log w @ SetFl n (word_of_int (f_getfl (a_fcntl a)) OR O_NONBLOCK) # log)"
    using Ok assms
    by (auto simp: handle_accept_def ok_iffs on_peer_connected_def report_peer_connected_def Let_def split: if_splits option.splits)
  then show ?thesis using handle_accept_Accepted [OF Ok assms] Ok by (simp add: peer)
next
  case (Stop st v)
  then show ?thesis
    using assms
    by (auto simp: handle_accept_def obind_eq_Stop make_socket_non_blocking_def on_peer_connected_def
        epoll_add_def Let_def split: if_splits)
qed

theorem accept_installs_peer_witness:
  "\<exists>v. handle_accept (accepting 7) (two_peers []) = Ok () v \<and> sockets v = {5, 6, 7} \<and>
     epoll_set v 7 = Some EPOLLIN"
proof -
  obtain v where v: "handle_accept (accepting 7) (two_peers []) = Ok () v"
    by (simp add: handle_accept_def accepting_def quiet_def make_socket_non_blocking_def
        on_peer_connected_def epoll_add_def Let_def)
  have "a_accept (accepting 7) = Accepted 7" by (simp add: accepting_def)
  from accept_installs_peer [OF this, of "two_peers []"] v show ?thesis
    by (auto simp: two_peers_def)
qed

text \<open>
  C17. Handling an event of one descriptor leaves the connections on all other descriptors alone:
  their peer state, whether they are open and what they are watched for.
\<close>

theorem event_touches_one_peer:
  assumes "handle_event db js lfd ev a s w = Ok s' v" and "fd \<noteq> ev_fd ev" and "a_accept a \<noteq> Accepted fd"
  shows "global_state v fd = global_state w fd \<and> epoll_set v fd = epoll_set w fd \<and>
    (fd \<in> sockets v \<longleftrightarrow> fd \<in> sockets w)"
proof -
  consider "handle_accept a w = Ok () v" | "handle_readable db js a (ev_fd ev) s w = Ok s' v"
    | "handle_writable a (ev_fd ev) w = Ok () v" | "v = w"
    using assms(1) by (auto simp: handle_event_def ok_iffs split: if_splits)
  then show ?thesis
  proof cases
    case 1
    show ?thesis
    proof (cases "a_accept a")
      case (Accepted n)
      with assms(3) handle_accept_Accepted [OF 1 Accepted] show ?thesis by simp
    next
      case (AcceptErr e)
      show ?thesis using server_more_cong [OF handle_accept_AcceptErr(1) [OF 1 AcceptErr]] by simp
    qed
  next
    case 2
    then show ?thesis by (cases rule: handle_readable_Ok) (use assms(2) in simp_all)
  next
    case 3
    with assms(2) show ?thesis by (intro handle_writable_frame)
  qed simp
qed

theorem event_touches_one_peer_witness:
  "\<exists>s v. handle_event ref_mysql ref_json 4 (input_event 5) (receives hello) blank (two_peers []) = Ok s v \<and>
     global_state v 6 = global_state (two_peers []) 6 \<and> epoll_set v 6 = epoll_set (two_peers []) 6 \<and>
     (6 \<in> sockets v \<longleftrightarrow> 6 \<in> sockets (two_peers []))"
proof -
  obtain s v where v: "handle_event ref_mysql ref_json 4 (input_event 5) (receives hello) blank (two_peers []) = Ok s v"
    using mysql_table.registration_event [OF ref_mysql.mysql_table_axioms two_peers_inv fresh_up hello_input
        hello_parses hello_type hello_mac ref_mac_ok_demo, of blank] by blast
  show ?thesis
    using event_touches_one_peer [OF v, of 6] v
    by (auto simp: input_event_def receives_def quiet_def)
qed

text \<open>
  A peer can crash the server with one complete message that is not a JSON object: the event
  loop does not come back from the event.
\<close>

theorem garbage_crashes_server:
  fixes w :: "('db, 'z) server_scheme"
  assumes "server_inv lfd w" and "peer_input w ev a cs m"
    and "json_object_get_type (json_tokener_parse js m) \<noteq> json_type_object"
  shows "\<exists>v. handle_event db js lfd ev a s w = Stop (Crash NullDeref) v"
proof -
  have "json_object_get_type (parse_string_to_json js (m @ [NUL])) \<noteq> json_type_object"
    using parse_arrived [OF assms(2)] assms(3) by simp
  then have "\<exists>v. handle_message db js a (ev_fd ev) (m @ [NUL]) s u = Stop (Crash NullDeref) v"
    for u :: "('db, 'z) server_scheme"
    by (simp add: handle_message_def Let_def get_agent_type_def foreach_not_object)
  then show ?thesis using handle_event_message(2) [OF assms(1,2)] by blast
qed

theorem garbage_crashes_server_witness:
  "\<exists>v. handle_event ref_mysql ref_json 4 (input_event 5) (receives ''hi'') blank (two_peers []) =
     Stop (Crash NullDeref) v"
proof (rule garbage_crashes_server [OF two_peers_inv])
  show "peer_input (two_peers []) (input_event 5) (receives ''hi'') [''hi'' @ [NUL]] ''hi''"
    by (rule peer_input_receives) simp_all
qed (simp add: ref_json_def ref_parse_def)

end
