(* ===== verification/Byte_Order.thy ===== *)
theory Byte_Order
  imports "HOL-Library.Word" "HOL-Library.Monad_Syntax"
begin

text \<open>
  The byte order layer of the client library's headers: reading and storing integers and
  floating point values in the machine-independent, low-byte-first format (\<open>my_byteorder.h\<close>),
  its two implementations (\<open>byte_order_generic.h\<close> by shifts, \<open>byte_order_generic_x86.h\<close> by
  casts), and reading and storing in machine format (\<open>little_endian.h\<close>, \<open>big_endian.h\<close>).

  Memory is a map from addresses to bytes; an address outside every object has no byte, and an
  access there is undefined behaviour, the value \<open>None\<close>. A C integer is the word of its width
  whatever its signedness: the conversions of the source are \<open>ucast\<close> and \<open>scast\<close>, an
  arithmetic shift is \<open>signed_drop_bit\<close>. A \<open>float\<close> or \<open>double\<close> is the word of its bits, and the
  bytes of its object depend on the machine. A left shift of a signed operand into its sign
  bit, which the generic \<open>sint4korr\<close> and \<open>shortget\<close> rely on, is the wrap-around shift of the
  compilers the library supports.
\<close>

unbundle bit_operations_syntax

named_theorems mem_simps \<open>loads and stores of bytes\<close>

type_synonym uchar = "8 word"
type_synonym memory = "nat \<rightharpoonup> uchar"

text \<open>
  What the preprocessor knows of the target: \<open>x86\<close> stands for \<open>__i386__\<close>, \<open>_WIN32\<close> or
  \<open>__x86_64__\<close>, \<open>words_bigendian\<close> for \<open>WORDS_BIGENDIAN\<close>, \<open>float_word_big\<close> for
  \<open>__FLOAT_WORD_ORDER == __BIG_ENDIAN\<close>. No x86 is big-endian, and none has swapped doubles.
\<close>

record machine =
  x86 :: bool
  words_bigendian :: bool
  float_word_big :: bool

definition machine_ok :: "machine \<Rightarrow> bool" where
  "machine_ok c \<longleftrightarrow> (x86 c \<longrightarrow> \<not> words_bigendian c \<and> \<not> float_word_big c)"

section \<open>Objects in memory\<close>

fun load_bytes :: "nat \<Rightarrow> nat \<Rightarrow> memory \<Rightarrow> uchar list option" where
  "load_bytes 0 p m = Some []"
| "load_bytes (Suc n) p m = do { b \<leftarrow> m p; bs \<leftarrow> load_bytes n (Suc p) m; Some (b # bs) }"

text \<open>\<open>*p = b\<close>: an assignment to a byte.\<close>

definition put_byte :: "nat \<Rightarrow> uchar \<Rightarrow> memory \<Rightarrow> memory option" where
  "put_byte p b m = (if m p = None then None else Some (m(p \<mapsto> b)))"

fun store_bytes :: "nat \<Rightarrow> uchar list \<Rightarrow> memory \<Rightarrow> memory option" where
  "store_bytes p [] m = Some m"
| "store_bytes p (b # bs) m = do { m1 \<leftarrow> put_byte p b m; store_bytes (Suc p) bs m1 }"

text \<open>The value of a block of bytes, low byte first, and the bytes of a value.\<close>

fun le_val :: "uchar list \<Rightarrow> int" where
  "le_val [] = 0"
| "le_val (b # bs) = uint b + 256 * le_val bs"

fun le_bytes :: "nat \<Rightarrow> int \<Rightarrow> uchar list" where
  "le_bytes 0 v = []"
| "le_bytes (Suc n) v = word_of_int v # le_bytes n (v div 256)"

text \<open>An integer object of \<open>n\<close> bytes on the machine: its bytes in memory order.\<close>

definition obj_bytes :: "machine \<Rightarrow> nat \<Rightarrow> int \<Rightarrow> uchar list" where
  "obj_bytes c n v = (if words_bigendian c then rev (le_bytes n v) else le_bytes n v)"

definition obj_val :: "machine \<Rightarrow> uchar list \<Rightarrow> int" where
  "obj_val c bs = (if words_bigendian c then le_val (rev bs) else le_val bs)"

text \<open>
  A \<open>double\<close> object: like an 8-byte integer, except on the hardware with little-endian words
  and the high word of a double first.
\<close>

definition double_bytes :: "machine \<Rightarrow> 64 word \<Rightarrow> uchar list" where
  "double_bytes c v =
     (if \<not> words_bigendian c \<and> float_word_big c
      then drop 4 (le_bytes 8 (uint v)) @ take 4 (le_bytes 8 (uint v))
      else obj_bytes c 8 (uint v))"

definition double_val :: "machine \<Rightarrow> uchar list \<Rightarrow> 64 word" where
  "double_val c bs =
     (if \<not> words_bigendian c \<and> float_word_big c
      then word_of_int (le_val (drop 4 bs @ take 4 bs))
      else word_of_int (obj_val c bs))"

section \<open>The generic implementation (\<open>byte_order_generic.h\<close>)\<close>

definition sint2korr_generic :: "nat \<Rightarrow> memory \<Rightarrow> 16 word option" where
  "sint2korr_generic A m = do {
     a0 \<leftarrow> m A; a1 \<leftarrow> m (A + 1);
     Some (ucast ((scast (ucast a0 :: 16 word) :: 32 word)
                  + push_bit 8 (scast (ucast a1 :: 16 word) :: 32 word))) }"

definition sint4korr_generic :: "nat \<Rightarrow> memory \<Rightarrow> 32 word option" where
  "sint4korr_generic A m = do {
     a0 \<leftarrow> m A; a1 \<leftarrow> m (A + 1); a2 \<leftarrow> m (A + 2); a3 \<leftarrow> m (A + 3);
     Some (ucast a0 + push_bit 8 (ucast a1) + push_bit 16 (ucast a2) + push_bit 24 (ucast a3)) }"

definition uint2korr_generic :: "nat \<Rightarrow> memory \<Rightarrow> 16 word option" where
  "uint2korr_generic A m = do {
     a0 \<leftarrow> m A; a1 \<leftarrow> m (A + 1);
     Some (ucast ((ucast (ucast a0 :: 16 word) :: 32 word)
                  + push_bit 8 (ucast (ucast a1 :: 16 word) :: 32 word))) }"

definition uint4korr_generic :: "nat \<Rightarrow> memory \<Rightarrow> 32 word option" where
  "uint4korr_generic A m = do {
     a0 \<leftarrow> m A; a1 \<leftarrow> m (A + 1); a2 \<leftarrow> m (A + 2); a3 \<leftarrow> m (A + 3);
     Some (ucast a0 + push_bit 8 (ucast a1) + push_bit 16 (ucast a2) + push_bit 24 (ucast a3)) }"

definition uint8korr_generic :: "nat \<Rightarrow> memory \<Rightarrow> 64 word option" where
  "uint8korr_generic A m = do {
     a0 \<leftarrow> m A; a1 \<leftarrow> m (A + 1); a2 \<leftarrow> m (A + 2); a3 \<leftarrow> m (A + 3);
     a4 \<leftarrow> m (A + 4); a5 \<leftarrow> m (A + 5); a6 \<leftarrow> m (A + 6); a7 \<leftarrow> m (A + 7);
     Some (ucast ((ucast a0 :: 32 word) + push_bit 8 (ucast a1)
                  + push_bit 16 (ucast a2) + push_bit 24 (ucast a3))
           + push_bit 32 (ucast ((ucast a4 :: 32 word) + push_bit 8 (ucast a5)
                  + push_bit 16 (ucast a6) + push_bit 24 (ucast a7)))) }"

definition sint8korr_generic :: "nat \<Rightarrow> memory \<Rightarrow> 64 word option" where
  "sint8korr_generic A m = uint8korr_generic A m"

definition int2store_generic :: "nat \<Rightarrow> 16 word \<Rightarrow> memory \<Rightarrow> memory option" where
  "int2store_generic T A m =
     (let def_temp = (ucast A :: 32 word) in do {
       m1 \<leftarrow> put_byte T (ucast def_temp) m;
       put_byte (T + 1) (ucast (drop_bit 8 def_temp)) m1 })"

definition int4store_generic :: "nat \<Rightarrow> 32 word \<Rightarrow> memory \<Rightarrow> memory option" where
  "int4store_generic T A m = do {
     m1 \<leftarrow> put_byte T (ucast A) m;
     m2 \<leftarrow> put_byte (T + 1) (ucast (drop_bit 8 A)) m1;
     m3 \<leftarrow> put_byte (T + 2) (ucast (drop_bit 16 A)) m2;
     put_byte (T + 3) (ucast (drop_bit 24 A)) m3 }"

definition int8store_generic :: "nat \<Rightarrow> 64 word \<Rightarrow> memory \<Rightarrow> memory option" where
  "int8store_generic T A m =
     (let def_temp = (ucast A :: 32 word);
          def_temp2 = (ucast (drop_bit 32 A) :: 32 word)
      in do { m1 \<leftarrow> int4store_generic T def_temp m; int4store_generic (T + 4) def_temp2 m1 })"

section \<open>The x86 implementation (\<open>byte_order_generic_x86.h\<close>)\<close>

text \<open>An access through a cast pointer reads or writes the object's bytes, low byte first on x86.\<close>

definition sint2korr_x86 :: "nat \<Rightarrow> memory \<Rightarrow> 16 word option" where
  "sint2korr_x86 A m = map_option (\<lambda>bs. word_of_int (le_val bs)) (load_bytes 2 A m)"

definition sint4korr_x86 :: "nat \<Rightarrow> memory \<Rightarrow> 32 word option" where
  "sint4korr_x86 A m = map_option (\<lambda>bs. word_of_int (le_val bs)) (load_bytes 4 A m)"

definition uint2korr_x86 :: "nat \<Rightarrow> memory \<Rightarrow> 16 word option" where
  "uint2korr_x86 A m = map_option (\<lambda>bs. word_of_int (le_val bs)) (load_bytes 2 A m)"

definition uint4korr_x86 :: "nat \<Rightarrow> memory \<Rightarrow> 32 word option" where
  "uint4korr_x86 A m = map_option (\<lambda>bs. word_of_int (le_val bs)) (load_bytes 4 A m)"

definition uint8korr_x86 :: "nat \<Rightarrow> memory \<Rightarrow> 64 word option" where
  "uint8korr_x86 A m = map_option (\<lambda>bs. word_of_int (le_val bs)) (load_bytes 8 A m)"

definition sint8korr_x86 :: "nat \<Rightarrow> memory \<Rightarrow> 64 word option" where
  "sint8korr_x86 A m = map_option (\<lambda>bs. word_of_int (le_val bs)) (load_bytes 8 A m)"

definition int2store_x86 :: "nat \<Rightarrow> 16 word \<Rightarrow> memory \<Rightarrow> memory option" where
  "int2store_x86 T A m = store_bytes T (le_bytes 2 (uint A)) m"

definition int4store_x86 :: "nat \<Rightarrow> 32 word \<Rightarrow> memory \<Rightarrow> memory option" where
  "int4store_x86 T A m = store_bytes T (le_bytes 4 (uint A)) m"

definition int8store_x86 :: "nat \<Rightarrow> 64 word \<Rightarrow> memory \<Rightarrow> memory option" where
  "int8store_x86 T A m = store_bytes T (le_bytes 8 (uint A)) m"

section \<open>The machine-independent format (\<open>my_byteorder.h\<close>)\<close>

definition sint2korr :: "machine \<Rightarrow> nat \<Rightarrow> memory \<Rightarrow> 16 word option" where
  "sint2korr c A m = (if x86 c then sint2korr_x86 A m else sint2korr_generic A m)"

definition sint4korr :: "machine \<Rightarrow> nat \<Rightarrow> memory \<Rightarrow> 32 word option" where
  "sint4korr c A m = (if x86 c then sint4korr_x86 A m else sint4korr_generic A m)"

definition uint2korr :: "machine \<Rightarrow> nat \<Rightarrow> memory \<Rightarrow> 16 word option" where
  "uint2korr c A m = (if x86 c then uint2korr_x86 A m else uint2korr_generic A m)"

definition uint4korr :: "machine \<Rightarrow> nat \<Rightarrow> memory \<Rightarrow> 32 word option" where
  "uint4korr c A m = (if x86 c then uint4korr_x86 A m else uint4korr_generic A m)"

definition uint8korr :: "machine \<Rightarrow> nat \<Rightarrow> memory \<Rightarrow> 64 word option" where
  "uint8korr c A m = (if x86 c then uint8korr_x86 A m else uint8korr_generic A m)"

definition sint8korr :: "machine \<Rightarrow> nat \<Rightarrow> memory \<Rightarrow> 64 word option" where
  "sint8korr c A m = (if x86 c then sint8korr_x86 A m else sint8korr_generic A m)"

definition int2store :: "machine \<Rightarrow> nat \<Rightarrow> 16 word \<Rightarrow> memory \<Rightarrow> memory option" where
  "int2store c T A m = (if x86 c then int2store_x86 T A m else int2store_generic T A m)"

definition int4store :: "machine \<Rightarrow> nat \<Rightarrow> 32 word \<Rightarrow> memory \<Rightarrow> memory option" where
  "int4store c T A m = (if x86 c then int4store_x86 T A m else int4store_generic T A m)"

definition int8store :: "machine \<Rightarrow> nat \<Rightarrow> 64 word \<Rightarrow> memory \<Rightarrow> memory option" where
  "int8store c T A m = (if x86 c then int8store_x86 T A m else int8store_generic T A m)"

definition sint3korr :: "nat \<Rightarrow> memory \<Rightarrow> 32 word option" where
  "sint3korr A m = do {
     a0 \<leftarrow> m A; a1 \<leftarrow> m (A + 1); a2 \<leftarrow> m (A + 2);
     Some (if a2 AND 128 \<noteq> 0
           then push_bit 24 255 OR push_bit 16 (ucast a2) OR push_bit 8 (ucast a1) OR ucast a0
           else push_bit 16 (ucast a2) OR push_bit 8 (ucast a1) OR ucast a0) }"

definition uint3korr :: "nat \<Rightarrow> memory \<Rightarrow> 32 word option" where
  "uint3korr A m = do {
     a0 \<leftarrow> m A; a1 \<leftarrow> m (A + 1); a2 \<leftarrow> m (A + 2);
     Some (ucast a0 + push_bit 8 (ucast a1) + push_bit 16 (ucast a2)) }"

definition uint5korr :: "nat \<Rightarrow> memory \<Rightarrow> 64 word option" where
  "uint5korr A m = do {
     a0 \<leftarrow> m A; a1 \<leftarrow> m (A + 1); a2 \<leftarrow> m (A + 2); a3 \<leftarrow> m (A + 3); a4 \<leftarrow> m (A + 4);
     Some (ucast ((ucast a0 :: 32 word) + push_bit 8 (ucast a1)
                  + push_bit 16 (ucast a2) + push_bit 24 (ucast a3))
           + push_bit 32 (ucast a4)) }"

definition uint6korr :: "nat \<Rightarrow> memory \<Rightarrow> 64 word option" where
  "uint6korr A m = do {
     a0 \<leftarrow> m A; a1 \<leftarrow> m (A + 1); a2 \<leftarrow> m (A + 2); a3 \<leftarrow> m (A + 3); a4 \<leftarrow> m (A + 4);
     a5 \<leftarrow> m (A + 5);
     Some (ucast ((ucast a0 :: 32 word) + push_bit 8 (ucast a1)
                  + push_bit 16 (ucast a2) + push_bit 24 (ucast a3))
           + push_bit 32 (ucast a4) + push_bit 40 (ucast a5)) }"

definition int3store :: "nat \<Rightarrow> 32 word \<Rightarrow> memory \<Rightarrow> memory option" where
  "int3store T A m = do {
     m1 \<leftarrow> put_byte T (ucast A) m;
     m2 \<leftarrow> put_byte (T + 1) (ucast (drop_bit 8 A)) m1;
     put_byte (T + 2) (ucast (drop_bit 16 A)) m2 }"

definition int5store :: "nat \<Rightarrow> 64 word \<Rightarrow> memory \<Rightarrow> memory option" where
  "int5store T A m = do {
     m1 \<leftarrow> put_byte T (ucast A) m;
     m2 \<leftarrow> put_byte (T + 1) (ucast (drop_bit 8 A)) m1;
     m3 \<leftarrow> put_byte (T + 2) (ucast (drop_bit 16 A)) m2;
     m4 \<leftarrow> put_byte (T + 3) (ucast (drop_bit 24 A)) m3;
     put_byte (T + 4) (ucast (drop_bit 32 A)) m4 }"

definition int6store :: "nat \<Rightarrow> 64 word \<Rightarrow> memory \<Rightarrow> memory option" where
  "int6store T A m = do {
     m1 \<leftarrow> put_byte T (ucast A) m;
     m2 \<leftarrow> put_byte (T + 1) (ucast (drop_bit 8 A)) m1;
     m3 \<leftarrow> put_byte (T + 2) (ucast (drop_bit 16 A)) m2;
     m4 \<leftarrow> put_byte (T + 3) (ucast (drop_bit 24 A)) m3;
     m5 \<leftarrow> put_byte (T + 4) (ucast (drop_bit 32 A)) m4;
     put_byte (T + 5) (ucast (drop_bit 40 A)) m5 }"

section \<open>Machine format on little-endian hardware (\<open>little_endian.h\<close>)\<close>

text \<open>A \<open>memcpy\<close> between a value and memory moves the bytes of the value's object.\<close>

definition float4get_le :: "machine \<Rightarrow> nat \<Rightarrow> memory \<Rightarrow> 32 word option" where
  "float4get_le c M m = map_option (\<lambda>bs. word_of_int (obj_val c bs)) (load_bytes 4 M m)"

definition float4store_le :: "machine \<Rightarrow> nat \<Rightarrow> 32 word \<Rightarrow> memory \<Rightarrow> memory option" where
  "float4store_le c V M m = store_bytes V (obj_bytes c 4 (uint M)) m"

definition float8get_le :: "machine \<Rightarrow> nat \<Rightarrow> memory \<Rightarrow> 64 word option" where
  "float8get_le c M m = map_option (double_val c) (load_bytes 8 M m)"

definition float8store_le :: "machine \<Rightarrow> nat \<Rightarrow> 64 word \<Rightarrow> memory \<Rightarrow> memory option" where
  "float8store_le c V M m = store_bytes V (double_bytes c M) m"

definition floatget_le :: "machine \<Rightarrow> nat \<Rightarrow> memory \<Rightarrow> 32 word option" where
  "floatget_le c M m = float4get_le c M m"

definition floatstore_le :: "machine \<Rightarrow> nat \<Rightarrow> 32 word \<Rightarrow> memory \<Rightarrow> memory option" where
  "floatstore_le c V M m = float4store_le c V M m"

definition doublestore_bi :: "machine \<Rightarrow> nat \<Rightarrow> 64 word \<Rightarrow> memory \<Rightarrow> memory option" where
  "doublestore_bi c T V m =
     (let b = double_bytes c V in do {
       m0 \<leftarrow> put_byte T (b ! 4) m;
       m1 \<leftarrow> put_byte (T + 1) (b ! 5) m0;
       m2 \<leftarrow> put_byte (T + 2) (b ! 6) m1;
       m3 \<leftarrow> put_byte (T + 3) (b ! 7) m2;
       m4 \<leftarrow> put_byte (T + 4) (b ! 0) m3;
       m5 \<leftarrow> put_byte (T + 5) (b ! 1) m4;
       m6 \<leftarrow> put_byte (T + 6) (b ! 2) m5;
       put_byte (T + 7) (b ! 3) m6 })"

definition doubleget_bi :: "machine \<Rightarrow> nat \<Rightarrow> memory \<Rightarrow> 64 word option" where
  "doubleget_bi c M m = do {
     b0 \<leftarrow> m (M + 4); b1 \<leftarrow> m (M + 5); b2 \<leftarrow> m (M + 6); b3 \<leftarrow> m (M + 7);
     b4 \<leftarrow> m M; b5 \<leftarrow> m (M + 1); b6 \<leftarrow> m (M + 2); b7 \<leftarrow> m (M + 3);
     Some (double_val c [b0, b1, b2, b3, b4, b5, b6, b7]) }"

definition doublestore_le :: "machine \<Rightarrow> nat \<Rightarrow> 64 word \<Rightarrow> memory \<Rightarrow> memory option" where
  "doublestore_le c T V m =
     (if float_word_big c then doublestore_bi c T V m else store_bytes T (double_bytes c V) m)"

definition doubleget_le :: "machine \<Rightarrow> nat \<Rightarrow> memory \<Rightarrow> 64 word option" where
  "doubleget_le c M m =
     (if float_word_big c then doubleget_bi c M m
      else map_option (double_val c) (load_bytes 8 M m))"

definition ushortget_le :: "machine \<Rightarrow> nat \<Rightarrow> memory \<Rightarrow> 16 word option" where
  "ushortget_le c pM m = uint2korr c pM m"

definition shortget_le :: "machine \<Rightarrow> nat \<Rightarrow> memory \<Rightarrow> 16 word option" where
  "shortget_le c pM m = sint2korr c pM m"

definition longget_le :: "machine \<Rightarrow> nat \<Rightarrow> memory \<Rightarrow> 32 word option" where
  "longget_le c pM m = sint4korr c pM m"

definition ulongget_le :: "machine \<Rightarrow> nat \<Rightarrow> memory \<Rightarrow> 32 word option" where
  "ulongget_le c pM m = uint4korr c pM m"

definition shortstore_le :: "machine \<Rightarrow> nat \<Rightarrow> 16 word \<Rightarrow> memory \<Rightarrow> memory option" where
  "shortstore_le c T V m = int2store c T V m"

definition longstore_le :: "machine \<Rightarrow> nat \<Rightarrow> 32 word \<Rightarrow> memory \<Rightarrow> memory option" where
  "longstore_le c T V m = int4store c T V m"

definition longlongget_le :: "machine \<Rightarrow> nat \<Rightarrow> memory \<Rightarrow> 64 word option" where
  "longlongget_le c M m = map_option (\<lambda>bs. word_of_int (obj_val c bs)) (load_bytes 8 M m)"

definition longlongstore_le :: "machine \<Rightarrow> nat \<Rightarrow> 64 word \<Rightarrow> memory \<Rightarrow> memory option" where
  "longlongstore_le c T V m = store_bytes T (obj_bytes c 8 (uint V)) m"

section \<open>Machine format on big-endian hardware (\<open>big_endian.h\<close>)\<close>

definition float4store_be :: "machine \<Rightarrow> nat \<Rightarrow> 32 word \<Rightarrow> memory \<Rightarrow> memory option" where
  "float4store_be c T A m =
     (let b = obj_bytes c 4 (uint A) in do {
       m0 \<leftarrow> put_byte T (b ! 3) m;
       m1 \<leftarrow> put_byte (T + 1) (b ! 2) m0;
       m2 \<leftarrow> put_byte (T + 2) (b ! 1) m1;
       put_byte (T + 3) (b ! 0) m2 })"

definition float4get_be :: "machine \<Rightarrow> nat \<Rightarrow> memory \<Rightarrow> 32 word option" where
  "float4get_be c M m = do {
     b0 \<leftarrow> m (M + 3); b1 \<leftarrow> m (M + 2); b2 \<leftarrow> m (M + 1); b3 \<leftarrow> m M;
     Some (word_of_int (obj_val c [b0, b1, b2, b3])) }"

definition float8store_be :: "machine \<Rightarrow> nat \<Rightarrow> 64 word \<Rightarrow> memory \<Rightarrow> memory option" where
  "float8store_be c T V m =
     (let b = double_bytes c V in do {
       m0 \<leftarrow> put_byte T (b ! 7) m;
       m1 \<leftarrow> put_byte (T + 1) (b ! 6) m0;
       m2 \<leftarrow> put_byte (T + 2) (b ! 5) m1;
       m3 \<leftarrow> put_byte (T + 3) (b ! 4) m2;
       m4 \<leftarrow> put_byte (T + 4) (b ! 3) m3;
       m5 \<leftarrow> put_byte (T + 5) (b ! 2) m4;
       m6 \<leftarrow> put_byte (T + 6) (b ! 1) m5;
       put_byte (T + 7) (b ! 0) m6 })"

definition float8get_be :: "machine \<Rightarrow> nat \<Rightarrow> memory \<Rightarrow> 64 word option" where
  "float8get_be c M m = do {
     b0 \<leftarrow> m (M + 7); b1 \<leftarrow> m (M + 6); b2 \<leftarrow> m (M + 5); b3 \<leftarrow> m (M + 4);
     b4 \<leftarrow> m (M + 3); b5 \<leftarrow> m (M + 2); b6 \<leftarrow> m (M + 1); b7 \<leftarrow> m M;
     Some (double_val c [b0, b1, b2, b3, b4, b5, b6, b7]) }"

definition ushortget_be :: "nat \<Rightarrow> memory \<Rightarrow> 16 word option" where
  "ushortget_be pM m = do {
     a1 \<leftarrow> m (pM + 1); a0 \<leftarrow> m pM;
     Some (ucast ((ucast (ucast a1 :: 16 word) :: 32 word)
                  + push_bit 8 (ucast (ucast a0 :: 16 word) :: 32 word))) }"

definition shortget_be :: "nat \<Rightarrow> memory \<Rightarrow> 16 word option" where
  "shortget_be pM m = do {
     a1 \<leftarrow> m (pM + 1); a0 \<leftarrow> m pM;
     Some (ucast ((scast (ucast a1 :: 16 word) :: 32 word)
                  + push_bit 8 (scast (ucast a0 :: 16 word) :: 32 word))) }"

definition longget_be :: "machine \<Rightarrow> nat \<Rightarrow> memory \<Rightarrow> 32 word option" where
  "longget_be c pM m = do {
     b0 \<leftarrow> m pM; b1 \<leftarrow> m (pM + 1); b2 \<leftarrow> m (pM + 2); b3 \<leftarrow> m (pM + 3);
     Some (word_of_int (obj_val c [b0, b1, b2, b3])) }"

definition ulongget_be :: "machine \<Rightarrow> nat \<Rightarrow> memory \<Rightarrow> 32 word option" where
  "ulongget_be c pM m = do {
     b0 \<leftarrow> m pM; b1 \<leftarrow> m (pM + 1); b2 \<leftarrow> m (pM + 2); b3 \<leftarrow> m (pM + 3);
     Some (word_of_int (obj_val c [b0, b1, b2, b3])) }"

definition shortstore_be :: "nat \<Rightarrow> 16 word \<Rightarrow> memory \<Rightarrow> memory option" where
  "shortstore_be T A m =
     (let def_temp = (scast A :: 32 word) in do {
       m1 \<leftarrow> put_byte (T + 1) (ucast def_temp) m;
       put_byte T (ucast (drop_bit 8 def_temp)) m1 })"

definition longstore_be :: "nat \<Rightarrow> 32 word \<Rightarrow> memory \<Rightarrow> memory option" where
  "longstore_be T A m = do {
     m1 \<leftarrow> put_byte (T + 3) (ucast A) m;
     m2 \<leftarrow> put_byte (T + 2) (ucast (signed_drop_bit 8 A)) m1;
     m3 \<leftarrow> put_byte (T + 1) (ucast (signed_drop_bit 16 A)) m2;
     put_byte T (ucast (signed_drop_bit 24 A)) m3 }"

definition floatget_be :: "machine \<Rightarrow> nat \<Rightarrow> memory \<Rightarrow> 32 word option" where
  "floatget_be c M m = map_option (\<lambda>bs. word_of_int (obj_val c bs)) (load_bytes 4 M m)"

definition floatstore_be :: "machine \<Rightarrow> nat \<Rightarrow> 32 word \<Rightarrow> memory \<Rightarrow> memory option" where
  "floatstore_be c T V m = store_bytes T (obj_bytes c 4 (uint V)) m"

definition doubleget_be :: "machine \<Rightarrow> nat \<Rightarrow> memory \<Rightarrow> 64 word option" where
  "doubleget_be c M m = map_option (double_val c) (load_bytes 8 M m)"

definition doublestore_be :: "machine \<Rightarrow> nat \<Rightarrow> 64 word \<Rightarrow> memory \<Rightarrow> memory option" where
  "doublestore_be c T V m = store_bytes T (double_bytes c V) m"

definition longlongget_be :: "machine \<Rightarrow> nat \<Rightarrow> memory \<Rightarrow> 64 word option" where
  "longlongget_be c M m = map_option (\<lambda>bs. word_of_int (obj_val c bs)) (load_bytes 8 M m)"

definition longlongstore_be :: "machine \<Rightarrow> nat \<Rightarrow> 64 word \<Rightarrow> memory \<Rightarrow> memory option" where
  "longlongstore_be c T V m = store_bytes T (obj_bytes c 8 (uint V)) m"

section \<open>The selected machine format (\<open>my_byteorder.h\<close>)\<close>

definition float4get :: "machine \<Rightarrow> nat \<Rightarrow> memory \<Rightarrow> 32 word option" where
  "float4get c M m = (if words_bigendian c then float4get_be c M m else float4get_le c M m)"

definition float4store :: "machine \<Rightarrow> nat \<Rightarrow> 32 word \<Rightarrow> memory \<Rightarrow> memory option" where
  "float4store c T V m = (if words_bigendian c then float4store_be c T V m else float4store_le c T V m)"

definition float8get :: "machine \<Rightarrow> nat \<Rightarrow> memory \<Rightarrow> 64 word option" where
  "float8get c M m = (if words_bigendian c then float8get_be c M m else float8get_le c M m)"

definition float8store :: "machine \<Rightarrow> nat \<Rightarrow> 64 word \<Rightarrow> memory \<Rightarrow> memory option" where
  "float8store c T V m = (if words_bigendian c then float8store_be c T V m else float8store_le c T V m)"

definition floatget :: "machine \<Rightarrow> nat \<Rightarrow> memory \<Rightarrow> 32 word option" where
  "floatget c M m = (if words_bigendian c then floatget_be c M m else floatget_le c M m)"

definition floatstore :: "machine \<Rightarrow> nat \<Rightarrow> 32 word \<Rightarrow> memory \<Rightarrow> memory option" where
  "floatstore c T V m = (if words_bigendian c then floatstore_be c T V m else floatstore_le c T V m)"

definition doubleget :: "machine \<Rightarrow> nat \<Rightarrow> memory \<Rightarrow> 64 word option" where
  "doubleget c M m = (if words_bigendian c then doubleget_be c M m else doubleget_le c M m)"

definition doublestore :: "machine \<Rightarrow> nat \<Rightarrow> 64 word \<Rightarrow> memory \<Rightarrow> memory option" where
  "doublestore c T V m = (if words_bigendian c then doublestore_be c T V m else doublestore_le c T V m)"

definition longlongget :: "machine \<Rightarrow> nat \<Rightarrow> memory \<Rightarrow> 64 word option" where
  "longlongget c M m = (if words_bigendian c then longlongget_be c M m else longlongget_le c M m)"

definition longlongstore :: "machine \<Rightarrow> nat \<Rightarrow> 64 word \<Rightarrow> memory \<Rightarrow> memory option" where
  "longlongstore c T V m = (if words_bigendian c then longlongstore_be c T V m else longlongstore_le c T V m)"

definition ushortget :: "machine \<Rightarrow> nat \<Rightarrow> memory \<Rightarrow> 16 word option" where
  "ushortget c M m = (if words_bigendian c then ushortget_be M m else ushortget_le c M m)"

definition shortget :: "machine \<Rightarrow> nat \<Rightarrow> memory \<Rightarrow> 16 word option" where
  "shortget c M m = (if words_bigendian c then shortget_be M m else shortget_le c M m)"

definition longget :: "machine \<Rightarrow> nat \<Rightarrow> memory \<Rightarrow> 32 word option" where
  "longget c M m = (if words_bigendian c then longget_be c M m else longget_le c M m)"

definition ulongget :: "machine \<Rightarrow> nat \<Rightarrow> memory \<Rightarrow> 32 word option" where
  "ulongget c M m = (if words_bigendian c then ulongget_be c M m else ulongget_le c M m)"

definition shortstore :: "machine \<Rightarrow> nat \<Rightarrow> 16 word \<Rightarrow> memory \<Rightarrow> memory option" where
  "shortstore c T V m = (if words_bigendian c then shortstore_be T V m else shortstore_le c T V m)"

definition longstore :: "machine \<Rightarrow> nat \<Rightarrow> 32 word \<Rightarrow> memory \<Rightarrow> memory option" where
  "longstore c T V m = (if words_bigendian c then longstore_be T V m else longstore_le c T V m)"

section \<open>The overloads for \<open>char\<close> pointers\<close>

text \<open>A pointer cast to \<open>uchar *\<close> has the same address.\<close>

definition sint2korr_char :: "machine \<Rightarrow> nat \<Rightarrow> memory \<Rightarrow> 16 word option" where
  "sint2korr_char c pT m = sint2korr c pT m"

definition uint2korr_char :: "machine \<Rightarrow> nat \<Rightarrow> memory \<Rightarrow> 16 word option" where
  "uint2korr_char c pT m = uint2korr c pT m"

definition uint3korr_char :: "nat \<Rightarrow> memory \<Rightarrow> 32 word option" where
  "uint3korr_char pT m = uint3korr pT m"

definition sint3korr_char :: "nat \<Rightarrow> memory \<Rightarrow> 32 word option" where
  "sint3korr_char pT m = sint3korr pT m"

definition uint4korr_char :: "machine \<Rightarrow> nat \<Rightarrow> memory \<Rightarrow> 32 word option" where
  "uint4korr_char c pT m = uint4korr c pT m"

definition sint4korr_char :: "machine \<Rightarrow> nat \<Rightarrow> memory \<Rightarrow> 32 word option" where
  "sint4korr_char c pT m = sint4korr c pT m"

definition uint6korr_char :: "nat \<Rightarrow> memory \<Rightarrow> 64 word option" where
  "uint6korr_char pT m = uint6korr pT m"

definition uint8korr_char :: "machine \<Rightarrow> nat \<Rightarrow> memory \<Rightarrow> 64 word option" where
  "uint8korr_char c pT m = uint8korr c pT m"

definition sint8korr_char :: "machine \<Rightarrow> nat \<Rightarrow> memory \<Rightarrow> 64 word option" where
  "sint8korr_char c pT m = sint8korr c pT m"

definition int2store_char :: "machine \<Rightarrow> nat \<Rightarrow> 16 word \<Rightarrow> memory \<Rightarrow> memory option" where
  "int2store_char c pT A m = int2store c pT A m"

definition int3store_char :: "nat \<Rightarrow> 32 word \<Rightarrow> memory \<Rightarrow> memory option" where
  "int3store_char pT A m = int3store pT A m"

definition int4store_char :: "machine \<Rightarrow> nat \<Rightarrow> 32 word \<Rightarrow> memory \<Rightarrow> memory option" where
  "int4store_char c pT A m = int4store c pT A m"

definition int5store_char :: "nat \<Rightarrow> 64 word \<Rightarrow> memory \<Rightarrow> memory option" where
  "int5store_char pT A m = int5store pT A m"

definition int6store_char :: "nat \<Rightarrow> 64 word \<Rightarrow> memory \<Rightarrow> memory option" where
  "int6store_char pT A m = int6store pT A m"

definition int8store_char :: "machine \<Rightarrow> nat \<Rightarrow> 64 word \<Rightarrow> memory \<Rightarrow> memory option" where
  "int8store_char c pT A m = int8store c pT A m"

definition float4store_char :: "machine \<Rightarrow> nat \<Rightarrow> 32 word \<Rightarrow> memory \<Rightarrow> memory option" where
  "float4store_char c pT A m = float4store c pT A m"

definition float8store_char :: "machine \<Rightarrow> nat \<Rightarrow> 64 word \<Rightarrow> memory \<Rightarrow> memory option" where
  "float8store_char c pT A m = float8store c pT A m"

definition float8get_char :: "machine \<Rightarrow> nat \<Rightarrow> memory \<Rightarrow> 64 word option" where
  "float8get_char c M m = float8get c M m"

text \<open>What a read of the low-byte-first format returns: the value of the block.\<close>

definition fetch_le :: "nat \<Rightarrow> nat \<Rightarrow> memory \<Rightarrow> 'a::len word option" where
  "fetch_le n A m = map_option (\<lambda>bs. word_of_int (le_val bs)) (load_bytes n A m)"

text \<open>The memory that holds just a block of bytes at an address.\<close>

definition block :: "nat \<Rightarrow> uchar list \<Rightarrow> memory" where
  "block p bs = (\<lambda>q. if p \<le> q \<and> q < p + length bs then Some (bs ! (q - p)) else None)"

text \<open>Two machines: the x86 of the package, and a big-endian one.\<close>

definition amd64 :: machine where
  "amd64 = \<lparr>x86 = True, words_bigendian = False, float_word_big = False\<rparr>"

definition sparc :: machine where
  "sparc = \<lparr>x86 = False, words_bigendian = True, float_word_big = True\<rparr>"

section \<open>Blocks of bytes\<close>

lemma length_le_bytes [simp]: "length (le_bytes n v) = n"
  by (induction n arbitrary: v) auto

lemma le_val_nonneg [simp]: "0 \<le> le_val bs"
  by (induction bs) auto

lemma le_val_less: "le_val bs < 256 ^ length bs"
proof (induction bs)
  case (Cons b bs)
  have "uint b < 256" using uint_lt2p [of b] by simp
  then show ?case using Cons by simp
qed simp

lemma le_val_append: "le_val (xs @ ys) = le_val xs + 256 ^ length xs * le_val ys"
  by (induction xs) (auto simp: algebra_simps)

lemma le_val_le_bytes: "le_val (le_bytes n v) = v mod 256 ^ n"
proof (induction n arbitrary: v)
  case (Suc n)
  have "v mod 256 ^ Suc n = v mod 256 + 256 * (v div 256 mod 256 ^ n)"
    using mod_mult2_eq' [of v 256 "256 ^ n"] zmod_zmult2_eq [of "256 ^ n" v 256] by simp
  then show ?case using Suc by (simp add: uint_word_of_int)
qed simp

lemma le_bytes_le_val: "le_bytes (length bs) (le_val bs) = bs"
proof (induction bs)
  case (Cons b bs)
  have b: "uint b < 256" "0 \<le> uint b" using uint_lt2p [of b] by simp_all
  have "(uint b + 256 * le_val bs) div 256 = le_val bs" using b by simp
  moreover have "(word_of_int (uint b + 256 * le_val bs) :: 8 word) = b"
    by (transfer fixing: bs) (simp add: take_bit_eq_mod)
  ultimately show ?case using Cons by simp
qed simp

lemma le_bytes_mod: "le_bytes n (v mod 256 ^ n) = le_bytes n v"
  by (metis le_bytes_le_val le_val_le_bytes length_le_bytes)

lemma word_of_le_val_le_bytes [simp]:
  fixes w :: "'a::len word"
  assumes "LENGTH('a) = 8 * n"
  shows "word_of_int (le_val (le_bytes n (uint w))) = w"
proof -
  have "(256::int) ^ n = 2 ^ LENGTH('a)" by (simp add: assms power_mult)
  then show ?thesis using uint_lt2p [of w] by (simp add: le_val_le_bytes)
qed

section \<open>Loads and stores\<close>

lemma load_bytes_2 [mem_simps]:
  "load_bytes 2 A m = do { a0 \<leftarrow> m A; a1 \<leftarrow> m (A + 1); Some [a0, a1] }"
  by (simp add: numeral_eq_Suc)

lemma load_bytes_4 [mem_simps]:
  "load_bytes 4 A m = do {
     a0 \<leftarrow> m A; a1 \<leftarrow> m (A + 1); a2 \<leftarrow> m (A + 2); a3 \<leftarrow> m (A + 3); Some [a0, a1, a2, a3] }"
  by (simp add: numeral_eq_Suc)

text \<open>The values the shifting code assembles, as the value of the block.\<close>

lemma ucast_of_le_val:
  fixes bs :: "uchar list"
  assumes "8 * length bs \<le> LENGTH('a)"
  shows "(ucast (word_of_int (le_val bs) :: 'a::len word) :: 'b::len word) = word_of_int (le_val bs)"
proof -
  have "le_val bs < 2 ^ (8 * length bs)"
    using le_val_less [of bs] by (simp add: power_mult)
  also have "\<dots> \<le> 2 ^ LENGTH('a)" using assms by (intro power_increasing) auto
  finally show ?thesis by (simp add: unsigned_of_int take_bit_int_eq_self)
qed

lemma assemble_2:
  "(ucast a0 :: 'a::len word) + push_bit 8 (ucast a1) = word_of_int (le_val [a0, a1])"
  by (simp add: push_bit_eq_mult algebra_simps)

lemma assemble_3:
  "(ucast a0 :: 'a::len word) + push_bit 8 (ucast a1) + push_bit 16 (ucast a2)
   = word_of_int (le_val [a0, a1, a2])"
  by (simp add: push_bit_eq_mult algebra_simps)

lemma assemble_4:
  "(ucast a0 :: 'a::len word) + push_bit 8 (ucast a1) + push_bit 16 (ucast a2)
     + push_bit 24 (ucast a3)
   = word_of_int (le_val [a0, a1, a2, a3])"
  by (simp add: push_bit_eq_mult algebra_simps)

lemma ucast_assemble_4:
  "(ucast ((ucast a0 :: 32 word) + push_bit 8 (ucast a1) + push_bit 16 (ucast a2)
     + push_bit 24 (ucast a3)) :: 'b::len word)
   = word_of_int (le_val [a0, a1, a2, a3])"
  unfolding assemble_4 by (rule ucast_of_le_val) simp

lemma byte_of_word:
  fixes w :: "'a::len word"
  shows "(ucast (drop_bit k w) :: uchar) = word_of_int (uint w div 2 ^ k)"
proof -
  have "uint w div 2 ^ k = uint (drop_bit k w)" using uint_lt2p [of w]
    by (simp add: unsigned_drop_bit_eq take_bit_int_eq_self flip: drop_bit_eq_div)
  then show ?thesis by simp
qed

section \<open>The two implementations agree\<close>

lemma load_bytes_8 [mem_simps]:
  "load_bytes 8 A m = do {
     a0 \<leftarrow> m A; a1 \<leftarrow> m (A + 1); a2 \<leftarrow> m (A + 2); a3 \<leftarrow> m (A + 3);
     a4 \<leftarrow> m (A + 4); a5 \<leftarrow> m (A + 5); a6 \<leftarrow> m (A + 6); a7 \<leftarrow> m (A + 7);
     Some [a0, a1, a2, a3, a4, a5, a6, a7] }"
  by (simp add: numeral_eq_Suc)

lemma scast_small: "(scast (ucast (b :: uchar) :: 16 word) :: 32 word) = ucast b"
  by (rule bit_word_eqI) (auto simp: bit_simps min_def split: if_splits dest: bit_imp_le_length)

lemma ucast_ucast_small: "(ucast (ucast (b :: uchar) :: 16 word) :: 32 word) = ucast b"
  by (rule bit_word_eqI) (auto simp: bit_simps dest: bit_imp_le_length)

lemma map_bind_option: "map_option f (x \<bind> g) = (x \<bind> (\<lambda>a. map_option f (g a)))"
  by (cases x) auto

lemma sint2korr_generic_x86: "sint2korr_generic A m = sint2korr_x86 A m"
  by (simp add: sint2korr_generic_def sint2korr_x86_def mem_simps map_bind_option scast_small
      assemble_2 ucast_of_le_val del: le_val.simps)

lemma uint2korr_generic_x86: "uint2korr_generic A m = uint2korr_x86 A m"
  by (simp add: uint2korr_generic_def uint2korr_x86_def mem_simps map_bind_option ucast_ucast_small
      assemble_2 ucast_of_le_val del: le_val.simps)

lemma sint4korr_generic_x86: "sint4korr_generic A m = sint4korr_x86 A m"
  by (simp add: sint4korr_generic_def sint4korr_x86_def mem_simps map_bind_option
      assemble_4 del: le_val.simps)

lemma uint4korr_generic_x86: "uint4korr_generic A m = uint4korr_x86 A m"
  by (simp add: uint4korr_generic_def uint4korr_x86_def mem_simps map_bind_option
      assemble_4 del: le_val.simps)

lemma assemble_8:
  "(word_of_int (le_val [a0, a1, a2, a3]) :: 64 word)
     + push_bit 32 (word_of_int (le_val [a4, a5, a6, a7]))
   = word_of_int (le_val [a0, a1, a2, a3, a4, a5, a6, a7])"
  by (simp add: push_bit_eq_mult algebra_simps)

lemma uint8korr_generic_x86: "uint8korr_generic A m = uint8korr_x86 A m"
  by (simp add: uint8korr_generic_def uint8korr_x86_def mem_simps map_bind_option
      ucast_assemble_4 assemble_8 del: le_val.simps)

lemma sint8korr_generic_x86: "sint8korr_generic A m = sint8korr_x86 A m"
  by (simp add: sint8korr_generic_def uint8korr_generic_x86 uint8korr_x86_def sint8korr_x86_def)

lemma le_bytes_2: "le_bytes 2 v = [word_of_int v, word_of_int (v div 256)]"
  by (simp add: numeral_eq_Suc)

lemma le_bytes_3: "le_bytes 3 v = [word_of_int v, word_of_int (v div 256), word_of_int (v div 65536)]"
  by (simp add: numeral_eq_Suc zdiv_zmult2_eq [symmetric])

lemma le_bytes_4:
  "le_bytes 4 v = [word_of_int v, word_of_int (v div 2 ^ 8), word_of_int (v div 2 ^ 16),
     word_of_int (v div 2 ^ 24)]"
  by (simp add: numeral_eq_Suc zdiv_zmult2_eq [symmetric])

lemma offsets:
  fixes T :: nat
  shows "T + 1 = Suc T" "T + 2 = Suc (Suc T)" "T + 3 = Suc (Suc (Suc T))"
    "T + 4 = Suc (Suc (Suc (Suc T)))" "T + 5 = Suc (Suc (Suc (Suc (Suc T))))"
  by simp_all

lemma store_bytes_fun [mem_simps]:
  "store_bytes p [] = Some"
  "store_bytes p (b # bs) = (\<lambda>m. put_byte p b m \<bind> store_bytes (Suc p) bs)"
  by (auto simp: fun_eq_iff)

lemma store_bytes_append:
  "store_bytes p (xs @ ys) m = store_bytes p xs m \<bind> store_bytes (p + length xs) ys"
proof (induction xs arbitrary: p m)
  case (Cons x xs)
  have "store_bytes (Suc p) (xs @ ys)
        = (\<lambda>m. store_bytes (Suc p) xs m \<bind> store_bytes (Suc p + length xs) ys)"
    using Cons.IH [of "Suc p"] by (auto simp: fun_eq_iff)
  then show ?case by (simp add: Option.bind_assoc)
qed simp

lemma uint_ucast_16_32: "uint (ucast (A :: 16 word) :: 32 word) = uint A"
  using uint_lt2p [of A] by (simp add: unsigned_ucast_eq take_bit_int_eq_self)

lemma int2store_generic_x86: "int2store_generic T A m = int2store_x86 T A m"
proof -
  have "(ucast (ucast A :: 32 word) :: uchar) = word_of_int (uint A)"
    "(ucast (drop_bit 8 (ucast A :: 32 word)) :: uchar) = word_of_int (uint A div 256)"
    using byte_of_word [of 0 "ucast A :: 32 word"] byte_of_word [of 8 "ucast A :: 32 word"]
    by (simp_all add: uint_ucast_16_32)
  then show ?thesis
    by (simp add: int2store_generic_def int2store_x86_def le_bytes_2 mem_simps)
qed

lemma int4store_generic_x86: "int4store_generic T A m = int4store_x86 T A m"
  by (simp add: int4store_generic_def int4store_x86_def le_bytes_4 byte_of_word
      byte_of_word [of 0, simplified] mem_simps offsets del: power_numeral)

lemma int8store_generic_x86: "int8store_generic T A m = int8store_x86 T A m"
proof -
  have split: "le_bytes (j + k) v = le_bytes j v @ le_bytes k (v div 256 ^ j)" for j k v
    by (induction j arbitrary: v) (auto simp: zdiv_zmult2_eq)
  have low: "le_bytes 4 (uint (ucast A :: 32 word)) = le_bytes 4 (uint A)"
    using le_bytes_mod [of 4 "uint A"] by (simp add: unsigned_ucast_eq take_bit_eq_mod)
  have "uint (ucast (drop_bit 32 A) :: 32 word) = (uint A div 256 ^ 4) mod 256 ^ 4"
    using uint_lt2p [of A]
    by (simp add: unsigned_ucast_eq unsigned_drop_bit_eq take_bit_int_eq_self)
      (simp add: take_bit_eq_mod drop_bit_eq_div)
  then have high: "le_bytes 4 (uint (ucast (drop_bit 32 A) :: 32 word)) = le_bytes 4 (uint A div 256 ^ 4)"
    by (simp only: le_bytes_mod)
  have "le_bytes 8 (uint A) = le_bytes 4 (uint A) @ le_bytes 4 (uint A div 256 ^ 4)"
    using split [of 4 4 "uint A"] by simp
  then show ?thesis
    by (simp add: int8store_generic_def int8store_x86_def int4store_generic_x86 int4store_x86_def
        store_bytes_append low high Let_def)
qed

lemma int3store_bytes: "int3store T A m = store_bytes T (le_bytes 3 (uint A)) m"
  by (simp add: int3store_def le_bytes_3 byte_of_word byte_of_word [of 0, simplified]
      mem_simps offsets)

lemma le_bytes_5:
  "le_bytes 5 v = [word_of_int v, word_of_int (v div 2 ^ 8), word_of_int (v div 2 ^ 16),
     word_of_int (v div 2 ^ 24), word_of_int (v div 2 ^ 32)]"
  by (simp add: numeral_eq_Suc zdiv_zmult2_eq [symmetric])

lemma le_bytes_6:
  "le_bytes 6 v = [word_of_int v, word_of_int (v div 2 ^ 8), word_of_int (v div 2 ^ 16),
     word_of_int (v div 2 ^ 24), word_of_int (v div 2 ^ 32), word_of_int (v div 2 ^ 40)]"
  by (simp add: numeral_eq_Suc zdiv_zmult2_eq [symmetric])

lemma int5store_bytes: "int5store T A m = store_bytes T (le_bytes 5 (uint A)) m"
  by (simp add: int5store_def le_bytes_5 byte_of_word byte_of_word [of 0, simplified]
      mem_simps offsets del: power_numeral)

lemma int6store_bytes: "int6store T A m = store_bytes T (le_bytes 6 (uint A)) m"
  by (simp add: int6store_def le_bytes_6 byte_of_word byte_of_word [of 0, simplified]
      mem_simps offsets del: power_numeral)

lemma load_bytes_3 [mem_simps]:
  "load_bytes 3 A m = do { a0 \<leftarrow> m A; a1 \<leftarrow> m (A + 1); a2 \<leftarrow> m (A + 2); Some [a0, a1, a2] }"
  by (simp add: numeral_eq_Suc)

lemma load_bytes_5 [mem_simps]:
  "load_bytes 5 A m = do {
     a0 \<leftarrow> m A; a1 \<leftarrow> m (A + 1); a2 \<leftarrow> m (A + 2); a3 \<leftarrow> m (A + 3); a4 \<leftarrow> m (A + 4);
     Some [a0, a1, a2, a3, a4] }"
  by (simp add: numeral_eq_Suc)

lemma load_bytes_6 [mem_simps]:
  "load_bytes 6 A m = do {
     a0 \<leftarrow> m A; a1 \<leftarrow> m (A + 1); a2 \<leftarrow> m (A + 2); a3 \<leftarrow> m (A + 3); a4 \<leftarrow> m (A + 4);
     a5 \<leftarrow> m (A + 5); Some [a0, a1, a2, a3, a4, a5] }"
  by (simp add: numeral_eq_Suc)

lemma uint3korr_fetch: "uint3korr A m = fetch_le 3 A m"
  by (simp add: uint3korr_def fetch_le_def mem_simps map_bind_option assemble_3 del: le_val.simps)

lemma uint5korr_fetch: "uint5korr A m = fetch_le 5 A m"
  by (simp add: uint5korr_def fetch_le_def mem_simps map_bind_option ucast_assemble_4
      del: le_val.simps)
    (simp add: push_bit_eq_mult algebra_simps)

lemma uint6korr_fetch: "uint6korr A m = fetch_le 6 A m"
  by (simp add: uint6korr_def fetch_le_def mem_simps map_bind_option ucast_assemble_4
      del: le_val.simps)
    (simp add: push_bit_eq_mult algebra_simps)

section \<open>A store succeeds exactly on an object, and changes only it\<close>

lemma dom_block [simp]: "dom (block p bs) = {p..<p + length bs}"
  by (auto simp: block_def dom_def)

lemma block_Cons: "m(p \<mapsto> b) ++ block (Suc p) bs = m ++ block p (b # bs)"
  by (rule ext) (auto simp: block_def map_add_def nth_Cons' split: option.splits)

lemma dom_Suc_range:
  "{p..<p + length (b # bs)} \<subseteq> dom m \<longleftrightarrow> m p \<noteq> None \<and> {Suc p..<Suc p + length bs} \<subseteq> dom m"
proof -
  have "{p..<p + length (b # bs)} = insert p {Suc p..<Suc p + length bs}" by auto
  then show ?thesis by (auto simp: domIff)
qed

lemma store_bytes_iff:
  "store_bytes p bs m
   = (if {p..<p + length bs} \<subseteq> dom m then Some (m ++ block p bs) else None)"
proof (induction bs arbitrary: p m)
  case Nil
  then show ?case by (auto simp: block_def map_add_def fun_eq_iff)
next
  case (Cons b bs)
  have "{Suc p..<Suc p + length bs} \<subseteq> dom (m(p \<mapsto> b))
        \<longleftrightarrow> {Suc p..<Suc p + length bs} \<subseteq> dom m" by auto
  then show ?case
    unfolding dom_Suc_range
    by (simp add: Cons.IH put_byte_def block_Cons del: fun_upd_apply dom_fun_upd)
qed

lemma load_bytes_iff:
  "load_bytes n p m = (if {p..<p + n} \<subseteq> dom m then Some (map (\<lambda>q. the (m q)) [p..<p + n]) else None)"
proof (induction n arbitrary: p)
  case (Suc n)
  have "{p..<p + Suc n} = insert p {Suc p..<Suc p + n}" by auto
  then have *: "{p..<p + Suc n} \<subseteq> dom m \<longleftrightarrow> m p \<noteq> None \<and> {Suc p..<Suc p + n} \<subseteq> dom m"
    by (auto simp: domIff)
  show ?case
    unfolding * by (cases "m p") (simp_all add: Suc.IH upt_conv_Cons del: upt_Suc)
qed simp

lemma map_the_block: "map (\<lambda>q. the ((m ++ block p bs) q)) [p..<p + length bs] = bs"
  by (rule nth_equalityI) (auto simp: block_def map_add_def)

lemma load_store_bytes:
  "store_bytes p bs m = Some m' \<Longrightarrow> load_bytes (length bs) p m' = Some bs"
  using map_the_block [of m p bs]
  by (simp add: store_bytes_iff load_bytes_iff split: if_splits) (metis dom_block dom_map_add sup_ge1)

lemma load_store_disjoint:
  assumes "store_bytes p bs m = Some m'" and "q + n \<le> p \<or> p + length bs \<le> q"
  shows "load_bytes n q m' = load_bytes n q m"
proof -
  have same: "m' x = m x" if "x \<in> {q..<q + n}" for x
    using assms that by (auto simp: store_bytes_iff block_def map_add_def split: if_splits)
  then have "{q..<q + n} \<subseteq> dom m' \<longleftrightarrow> {q..<q + n} \<subseteq> dom m" by (auto simp: domIff)
  then show ?thesis using same by (auto simp: load_bytes_iff)
qed

text \<open>The interface of a stored field, and what every client of it has.\<close>

locale codec =
  fixes n :: nat
    and enc :: "'v \<Rightarrow> uchar list"
    and dec :: "uchar list \<Rightarrow> 'v"
    and canon :: "'v \<Rightarrow> 'v"
    and store :: "nat \<Rightarrow> 'v \<Rightarrow> memory \<Rightarrow> memory option"
    and fetch :: "nat \<Rightarrow> memory \<Rightarrow> 'v option"
  assumes store_enc: "store T v m = store_bytes T (enc v) m"
    and fetch_dec: "fetch T m = map_option dec (load_bytes n T m)"
    and enc_length: "length (enc v) = n"
    and dec_enc: "dec (enc v) = canon v"
begin

lemma defined_iff: "(\<exists>m'. store T v m = Some m') \<longleftrightarrow> {T..<T + n} \<subseteq> dom m"
  by (simp add: store_enc store_bytes_iff enc_length)

lemma fetch_defined_iff: "(\<exists>v. fetch T m = Some v) \<longleftrightarrow> {T..<T + n} \<subseteq> dom m"
  by (auto simp: fetch_dec load_bytes_iff)

lemma keeps_dom: "store T v m = Some m' \<Longrightarrow> dom m' = dom m"
  by (simp add: store_enc store_bytes_iff enc_length split: if_splits)
    (metis dom_block dom_map_add enc_length sup.absorb2)

lemma keeps_others: "store T v m = Some m' \<Longrightarrow> p < T \<or> T + n \<le> p \<Longrightarrow> m' p = m p"
  by (auto simp: store_enc store_bytes_iff enc_length block_def map_add_def split: if_splits)

lemma fetch_store: "store T v m = Some m' \<Longrightarrow> fetch T m' = Some (canon v)"
  using load_store_bytes [of T "enc v" m m'] by (simp add: store_enc fetch_dec enc_length dec_enc)

lemma fetch_store_disjoint:
  "store T v m = Some m' \<Longrightarrow> A + n \<le> T \<or> T + n \<le> A \<Longrightarrow> fetch A m' = fetch A m"
  using load_store_disjoint [of T "enc v" m m' A n] by (simp add: store_enc fetch_dec enc_length)

lemma store_store:
  assumes "store T v m = Some m1"
  shows "store T u m1 = store T u m"
proof -
  have "m1 ++ block T (enc u) = m ++ block T (enc u)"
    using assms enc_length
    by (auto simp: store_enc store_bytes_iff block_def map_add_def split: if_splits)
  then show ?thesis
    using keeps_dom [OF assms] by (simp add: store_enc store_bytes_iff)
qed

end

text \<open>The low-byte-first format of \<open>n\<close> bytes, for words at least that wide.\<close>

locale le_format =
  fixes n :: nat
    and store :: "nat \<Rightarrow> 'a::len word \<Rightarrow> memory \<Rightarrow> memory option"
    and fetch :: "nat \<Rightarrow> memory \<Rightarrow> 'a::len word option"
  assumes store_le: "store T v m = store_bytes T (le_bytes n (uint v)) m"
    and fetch_is_le: "fetch T m = fetch_le n T m"
    and fits: "8 * n \<le> LENGTH('a)"
begin

lemma canon_le: "word_of_int (le_val (le_bytes n (uint v))) = (take_bit (8 * n) v :: 'a word)"
proof -
  have "uint v mod 256 ^ n = uint (take_bit (8 * n) v)"
    by (simp add: unsigned_take_bit_eq take_bit_eq_mod [where ?'a = int] power_mult)
  then show ?thesis by (simp add: le_val_le_bytes)
qed

end

sublocale le_format \<subseteq> codec n "\<lambda>v. le_bytes n (uint v)" "\<lambda>bs. word_of_int (le_val bs)"
  "take_bit (8 * n)" store fetch
  by unfold_locales (simp_all add: store_le fetch_is_le fetch_le_def canon_le)

lemmas korr_x86_defs = sint2korr_x86_def uint2korr_x86_def sint4korr_x86_def uint4korr_x86_def
  uint8korr_x86_def sint8korr_x86_def int2store_x86_def int4store_x86_def int8store_x86_def

lemmas korr_select = uint2korr_def sint2korr_def uint4korr_def sint4korr_def uint8korr_def
  sint8korr_def int2store_def int4store_def int8store_def

lemmas korr_generic_x86 = sint2korr_generic_x86 uint2korr_generic_x86 sint4korr_generic_x86
  uint4korr_generic_x86 uint8korr_generic_x86 sint8korr_generic_x86 int2store_generic_x86
  int4store_generic_x86 int8store_generic_x86

interpretation f2: le_format 2 "int2store c" "uint2korr c" for c
  by unfold_locales (simp_all add: korr_select korr_generic_x86 korr_x86_defs fetch_le_def)

interpretation f3: le_format 3 int3store uint3korr
  by unfold_locales (simp_all add: int3store_bytes uint3korr_fetch)

interpretation f4: le_format 4 "int4store c" "uint4korr c" for c
  by unfold_locales (simp_all add: korr_select korr_generic_x86 korr_x86_defs fetch_le_def)

interpretation f5: le_format 5 int5store uint5korr
  by unfold_locales (simp_all add: int5store_bytes uint5korr_fetch)

interpretation f6: le_format 6 int6store uint6korr
  by unfold_locales (simp_all add: int6store_bytes uint6korr_fetch)

interpretation f8: le_format 8 "int8store c" "uint8korr c" for c
  by unfold_locales (simp_all add: korr_select korr_generic_x86 korr_x86_defs fetch_le_def)

interpretation s2: le_format 2 "int2store c" "sint2korr c" for c
  by unfold_locales (simp_all add: korr_select korr_generic_x86 korr_x86_defs fetch_le_def)

interpretation s4: le_format 4 "int4store c" "sint4korr c" for c
  by unfold_locales (simp_all add: korr_select korr_generic_x86 korr_x86_defs fetch_le_def)

interpretation s8: le_format 8 "int8store c" "sint8korr c" for c
  by unfold_locales (simp_all add: korr_select korr_generic_x86 korr_x86_defs fetch_le_def)

section \<open>The sign of a three-byte integer\<close>

lemma assemble_3_or:
  "(ucast a0 :: 32 word) + push_bit 8 (ucast a1) + push_bit 16 (ucast a2)
   = push_bit 16 (ucast (a2 :: uchar)) OR push_bit 8 (ucast (a1 :: uchar)) OR ucast (a0 :: uchar)"
proof -
  have "(ucast a0 :: 32 word) + push_bit 8 (ucast a1) = ucast a0 OR push_bit 8 (ucast a1)"
    by (rule disjunctive_add) (auto simp: bit_simps dest: bit_imp_le_length)
  moreover have "(ucast a0 OR push_bit 8 (ucast a1) :: 32 word) + push_bit 16 (ucast a2)
      = (ucast a0 OR push_bit 8 (ucast a1)) OR push_bit 16 (ucast a2)"
    by (rule disjunctive_add) (auto simp: bit_simps dest: bit_imp_le_length)
  ultimately show ?thesis by (simp add: ac_simps)
qed

lemma and_128_iff: "(a :: uchar) AND 128 \<noteq> 0 \<longleftrightarrow> bit a 7"
proof -
  have "a AND 128 = a AND push_bit 7 1" by simp
  then show ?thesis by (simp add: bit_iff_and_push_bit_not_eq_0)
qed

lemma no_high_bit: "8 \<le> k \<Longrightarrow> \<not> bit (b :: uchar) k"
  using bit_imp_le_length [of b k] by auto

lemma bit_high_byte: "bit (4278190080 :: int) k \<longleftrightarrow> 24 \<le> k \<and> k < 32"
proof -
  have "(4278190080 :: int) = push_bit 24 (mask 8)" by (simp add: mask_numeral)
  then show ?thesis by (simp only: bit_simps) auto
qed

lemma sint3korr_sign_extends: "sint3korr A m = map_option (signed_take_bit 23) (uint3korr A m)"
proof -
  have "(if a2 AND 128 \<noteq> 0
           then push_bit 24 255 OR push_bit 16 (ucast a2) OR push_bit 8 (ucast a1) OR ucast a0
           else push_bit 16 (ucast a2) OR push_bit 8 (ucast a1) OR ucast a0)
        = (signed_take_bit 23 (push_bit 16 (ucast a2) OR push_bit 8 (ucast a1) OR ucast a0) :: 32 word)"
    for a0 a1 a2 :: uchar
    unfolding and_128_iff
  proof (rule bit_word_eqI)
    fix k :: nat
    consider "k < 23" | "k = 23" | "k > 23" by linarith
    then show "bit (if bit a2 7
           then push_bit 24 255 OR push_bit 16 (ucast a2) OR push_bit 8 (ucast a1) OR ucast a0
           else push_bit 16 (ucast a2) OR push_bit 8 (ucast a1) OR ucast a0 :: 32 word) k
        = bit (signed_take_bit 23 (push_bit 16 (ucast a2) OR push_bit 8 (ucast a1) OR ucast a0) :: 32 word) k"
      if "k < LENGTH(32)"
      using that by cases (auto simp: bit_simps min_def no_high_bit bit_high_byte)
  qed
  then show ?thesis
    by (simp add: sint3korr_def uint3korr_def map_bind_option assemble_3_or)
qed

section \<open>Objects and their bytes\<close>

lemma length_obj_bytes [simp]: "length (obj_bytes c n v) = n"
  by (simp add: obj_bytes_def)

lemma length_double_bytes [simp]: "length (double_bytes c v) = 8"
  by (simp add: double_bytes_def)

lemma obj_val_obj_bytes [simp]:
  fixes w :: "'a::len word"
  assumes "LENGTH('a) = 8 * n"
  shows "word_of_int (obj_val c (obj_bytes c n (uint w))) = w"
  using word_of_le_val_le_bytes [OF assms] by (simp add: obj_val_def obj_bytes_def)

lemma double_val_double_bytes [simp]: "double_val c (double_bytes c v) = v"
proof -
  have "word_of_int (le_val (le_bytes 8 (uint v))) = v" by simp
  then show ?thesis
    by (simp add: double_val_def double_bytes_def)
qed

lemma put_byte_commute:
  "p \<noteq> q \<Longrightarrow> put_byte p a m \<bind> put_byte q b = put_byte q b m \<bind> put_byte p a"
  by (auto simp: put_byte_def fun_upd_twist)

lemma list_8: "length xs = 8 \<Longrightarrow> xs = [xs ! 0, xs ! 1, xs ! 2, xs ! 3, xs ! 4, xs ! 5, xs ! 6, xs ! 7]"
  by (auto simp: numeral_eq_Suc length_Suc_conv)

lemma list_4: "length xs = 4 \<Longrightarrow> xs = [xs ! 0, xs ! 1, xs ! 2, xs ! 3]"
  by (auto simp: numeral_eq_Suc length_Suc_conv)

lemma more_offsets:
  fixes T :: nat
  shows "T + 6 = Suc (Suc (Suc (Suc (Suc (Suc T)))))"
    "T + 7 = Suc (Suc (Suc (Suc (Suc (Suc (Suc T))))))"
  by simp_all

lemma store_8:
  "store_bytes T [b0, b1, b2, b3, b4, b5, b6, b7] m = do {
     m0 \<leftarrow> put_byte T b0 m;
     m1 \<leftarrow> put_byte (T + 1) b1 m0;
     m2 \<leftarrow> put_byte (T + 2) b2 m1;
     m3 \<leftarrow> put_byte (T + 3) b3 m2;
     m4 \<leftarrow> put_byte (T + 4) b4 m3;
     m5 \<leftarrow> put_byte (T + 5) b5 m4;
     m6 \<leftarrow> put_byte (T + 6) b6 m5;
     put_byte (T + 7) b7 m6 }"
  by (simp add: mem_simps offsets more_offsets)

lemma store_4:
  "store_bytes T [b0, b1, b2, b3] m = do {
     m0 \<leftarrow> put_byte T b0 m;
     m1 \<leftarrow> put_byte (T + 1) b1 m0;
     m2 \<leftarrow> put_byte (T + 2) b2 m1;
     put_byte (T + 3) b3 m2 }"
  by (simp add: mem_simps offsets)

lemma store_4_down:
  "store_bytes T [b0, b1, b2, b3] m = do {
     m1 \<leftarrow> put_byte (T + 3) b3 m;
     m2 \<leftarrow> put_byte (T + 2) b2 m1;
     m3 \<leftarrow> put_byte (T + 1) b1 m2;
     put_byte T b0 m3 }"
  unfolding store_4 by (auto simp: put_byte_def fun_upd_twist split: bind_splits)

lemma le_bytes_8_nth:
  "le_bytes 8 v = [le_bytes 8 v ! 0, le_bytes 8 v ! 1, le_bytes 8 v ! 2, le_bytes 8 v ! 3,
     le_bytes 8 v ! 4, le_bytes 8 v ! 5, le_bytes 8 v ! 6, le_bytes 8 v ! 7]"
  by (rule list_8) simp

lemma swap_halves:
  "length xs = 8 \<Longrightarrow> drop 4 xs @ take 4 xs
     = [xs ! 4, xs ! 5, xs ! 6, xs ! 7, xs ! 0, xs ! 1, xs ! 2, xs ! 3]"
  by (subst (1 2) list_8) simp_all

section \<open>The floating point formats\<close>

lemma float4store_portable: "float4store c T A m = store_bytes T (le_bytes 4 (uint A)) m"
  by (simp add: float4store_def float4store_le_def float4store_be_def obj_bytes_def le_bytes_4
      mem_simps offsets)

lemma float4get_portable: "float4get c M m = fetch_le 4 M m"
proof (cases "words_bigendian c")
  case True
  then show ?thesis
    by (cases "m M"; cases "m (M + 1)"; cases "m (M + 2)"; cases "m (M + 3)")
      (simp_all add: float4get_def float4get_be_def fetch_le_def mem_simps obj_val_def)
qed (simp add: float4get_def float4get_le_def fetch_le_def obj_val_def)

lemma rev_8:
  "length xs = 8 \<Longrightarrow> rev xs = [xs ! 7, xs ! 6, xs ! 5, xs ! 4, xs ! 3, xs ! 2, xs ! 1, xs ! 0]"
  by (subst list_8) simp_all

lemma float8store_be_bytes: "float8store_be c T A m = store_bytes T (rev (double_bytes c A)) m"
  unfolding rev_8 [OF length_double_bytes] store_8 float8store_be_def Let_def ..

lemma float8store_portable:
  assumes "words_bigendian c \<or> \<not> float_word_big c"
  shows "float8store c T A m = store_bytes T (le_bytes 8 (uint A)) m"
proof (cases "words_bigendian c")
  case True
  then show ?thesis
    by (simp add: float8store_def float8store_be_bytes double_bytes_def obj_bytes_def)
next
  case False
  with assms show ?thesis
    by (simp add: float8store_def float8store_le_def double_bytes_def obj_bytes_def)
qed

lemma bind_reverse_8:
  fixes o0 o1 o2 o3 o4 o5 o6 o7 :: "'b option"
  shows "do { b0 \<leftarrow> o7; b1 \<leftarrow> o6; b2 \<leftarrow> o5; b3 \<leftarrow> o4; b4 \<leftarrow> o3; b5 \<leftarrow> o2; b6 \<leftarrow> o1; b7 \<leftarrow> o0;
              f b0 b1 b2 b3 b4 b5 b6 b7 }
       = do { a0 \<leftarrow> o0; a1 \<leftarrow> o1; a2 \<leftarrow> o2; a3 \<leftarrow> o3; a4 \<leftarrow> o4; a5 \<leftarrow> o5; a6 \<leftarrow> o6; a7 \<leftarrow> o7;
              f a7 a6 a5 a4 a3 a2 a1 a0 }"
  by (cases o0, simp, cases o1, simp, cases o2, simp, cases o3, simp,
      cases o4, simp, cases o5, simp, cases o6, simp, cases o7, simp_all)

lemma double_val_be:
  "words_bigendian c \<Longrightarrow> double_val c [b0, b1, b2, b3, b4, b5, b6, b7]
     = word_of_int (le_val [b7, b6, b5, b4, b3, b2, b1, b0])"
  by (simp add: double_val_def obj_val_def)

lemma double_val_plain:
  "\<not> words_bigendian c \<Longrightarrow> \<not> float_word_big c \<Longrightarrow> double_val c = (\<lambda>bs. word_of_int (le_val bs))"
  by (rule ext) (simp add: double_val_def obj_val_def)

lemma float8get_portable:
  assumes "words_bigendian c \<or> \<not> float_word_big c"
  shows "float8get c M m = fetch_le 8 M m"
proof (cases "words_bigendian c")
  case True
  have "float8get c M m
      = map_option (\<lambda>bs. word_of_int (le_val bs)) (load_bytes 8 M m)"
    unfolding float8get_def float8get_be_def load_bytes_8 if_P [OF True] map_bind_option
      double_val_be [OF True] option.map(2)
    by (rule bind_reverse_8)
  then show ?thesis by (simp add: fetch_le_def)
next
  case False
  with assms show ?thesis
    by (simp add: float8get_def float8get_le_def fetch_le_def double_val_plain)
qed

interpretation fl4: le_format 4 "float4store c" "float4get c" for c
  by unfold_locales (simp_all add: float4store_portable float4get_portable)

lemma doublestore_bi_bytes:
  "doublestore_bi c T V m = store_bytes T (drop 4 (double_bytes c V) @ take 4 (double_bytes c V)) m"
  unfolding swap_halves [OF length_double_bytes] store_8 doublestore_bi_def Let_def ..

lemma doublestore_bytes:
  "doublestore c T V m = store_bytes T (if words_bigendian c then double_bytes c V
      else le_bytes 8 (uint V)) m"
  by (simp add: doublestore_def doublestore_be_def doublestore_le_def doublestore_bi_bytes
      double_bytes_def obj_bytes_def)

lemma bind_swap_8:
  fixes o0 o1 o2 o3 o4 o5 o6 o7 :: "'b option"
  shows "do { b0 \<leftarrow> o4; b1 \<leftarrow> o5; b2 \<leftarrow> o6; b3 \<leftarrow> o7; b4 \<leftarrow> o0; b5 \<leftarrow> o1; b6 \<leftarrow> o2; b7 \<leftarrow> o3;
              f b0 b1 b2 b3 b4 b5 b6 b7 }
       = do { a0 \<leftarrow> o0; a1 \<leftarrow> o1; a2 \<leftarrow> o2; a3 \<leftarrow> o3; a4 \<leftarrow> o4; a5 \<leftarrow> o5; a6 \<leftarrow> o6; a7 \<leftarrow> o7;
              f a4 a5 a6 a7 a0 a1 a2 a3 }"
  by (cases o0, simp, cases o1, simp, cases o2, simp, cases o3, simp,
      cases o4, simp, cases o5, simp, cases o6, simp, cases o7, simp_all)

lemma doubleget_bi_fetch:
  assumes "\<not> words_bigendian c" "float_word_big c"
  shows "doubleget_bi c M m = fetch_le 8 M m"
proof -
  have v: "double_val c [b0, b1, b2, b3, b4, b5, b6, b7]
      = word_of_int (le_val [b4, b5, b6, b7, b0, b1, b2, b3])" for b0 b1 b2 b3 b4 b5 b6 b7
    using assms by (simp add: double_val_def)
  show ?thesis
    unfolding doubleget_bi_def fetch_le_def load_bytes_8 map_bind_option v option.map(2)
    by (rule bind_swap_8)
qed

lemma doubleget_bytes:
  "doubleget c M m = (if words_bigendian c then map_option (double_val c) (load_bytes 8 M m)
      else fetch_le 8 M m)"
  by (simp add: doubleget_def doubleget_be_def doubleget_le_def doubleget_bi_fetch fetch_le_def
      double_val_plain)

section \<open>The integers in machine format\<close>

lemma fetch_obj_bind:
  "map_option f (load_bytes 2 M m) = do { a0 \<leftarrow> m M; a1 \<leftarrow> m (M + 1); Some (f [a0, a1]) }"
  by (simp add: mem_simps map_bind_option)

lemma ushortget_obj:
  "ushortget c M m = map_option (\<lambda>bs. word_of_int (obj_val c bs)) (load_bytes 2 M m)"
proof (cases "words_bigendian c")
  case True
  then show ?thesis
    by (cases "m M"; cases "m (M + 1)")
      (simp_all add: ushortget_def ushortget_be_def ucast_ucast_small assemble_2 ucast_of_le_val
        mem_simps obj_val_def del: le_val.simps)
qed (simp add: ushortget_def ushortget_le_def korr_select korr_generic_x86 korr_x86_defs obj_val_def)

lemma shortget_obj:
  "shortget c M m = map_option (\<lambda>bs. word_of_int (obj_val c bs)) (load_bytes 2 M m)"
proof (cases "words_bigendian c")
  case True
  then show ?thesis
    by (cases "m M"; cases "m (M + 1)")
      (simp_all add: shortget_def shortget_be_def scast_small assemble_2 ucast_of_le_val
        mem_simps obj_val_def del: le_val.simps)
qed (simp add: shortget_def shortget_le_def korr_select korr_generic_x86 korr_x86_defs obj_val_def)

lemma longget_obj:
  "longget c M m = map_option (\<lambda>bs. word_of_int (obj_val c bs)) (load_bytes 4 M m)"
  by (simp add: longget_def longget_be_def longget_le_def korr_select korr_generic_x86 korr_x86_defs
      obj_val_def mem_simps map_bind_option del: le_val.simps)

lemma ulongget_obj:
  "ulongget c M m = map_option (\<lambda>bs. word_of_int (obj_val c bs)) (load_bytes 4 M m)"
  by (simp add: ulongget_def ulongget_be_def ulongget_le_def korr_select korr_generic_x86
      korr_x86_defs obj_val_def mem_simps map_bind_option del: le_val.simps)

lemma longlongget_obj:
  "longlongget c M m = map_option (\<lambda>bs. word_of_int (obj_val c bs)) (load_bytes 8 M m)"
  by (simp add: longlongget_def longlongget_be_def longlongget_le_def)

lemma longlongstore_obj: "longlongstore c T V m = store_bytes T (obj_bytes c 8 (uint V)) m"
  by (simp add: longlongstore_def longlongstore_be_def longlongstore_le_def)

lemma scast_byte: "(ucast (scast (A :: 16 word) :: 32 word) :: uchar) = ucast A"
  by (rule bit_word_eqI) (auto simp: bit_simps)

lemma scast_byte_8: "(ucast (drop_bit 8 (scast (A :: 16 word) :: 32 word)) :: uchar) = ucast (drop_bit 8 A)"
proof (rule bit_word_eqI)
  fix k :: nat
  assume "k < LENGTH(8)"
  then consider "k < 7" | "k = 7" by force
  then show "bit (ucast (drop_bit 8 (scast A :: 32 word)) :: uchar) k = bit (ucast (drop_bit 8 A) :: uchar) k"
    by cases (auto simp: bit_simps)
qed

lemma signed_drop_byte:
  "k \<le> 24 \<Longrightarrow> (ucast (signed_drop_bit k (A :: 32 word)) :: uchar) = ucast (drop_bit k A)"
  by (rule bit_word_eqI) (auto simp: bit_simps)

lemma shortstore_obj: "shortstore c T V m = store_bytes T (obj_bytes c 2 (uint V)) m"
proof (cases "words_bigendian c")
  case True
  have "put_byte (Suc T) a m \<bind> put_byte T b = put_byte T b m \<bind> put_byte (Suc T) a" for a b
    by (rule put_byte_commute) simp
  with True show ?thesis
    by (simp add: shortstore_def shortstore_be_def obj_bytes_def le_bytes_2 scast_byte scast_byte_8
        byte_of_word [of 8 V, simplified] mem_simps)
qed (simp add: shortstore_def shortstore_le_def korr_select korr_generic_x86 korr_x86_defs obj_bytes_def)

lemma longstore_obj: "longstore c T V m = store_bytes T (obj_bytes c 4 (uint V)) m"
proof (cases "words_bigendian c")
  case True
  then show ?thesis
    by (simp add: longstore_def longstore_be_def obj_bytes_def le_bytes_4 store_4_down
        signed_drop_byte byte_of_word del: store_bytes.simps)
qed (simp add: longstore_def longstore_le_def korr_select korr_generic_x86 korr_x86_defs obj_bytes_def)

text \<open>The objects of a type whose bytes are its value's on the machine.\<close>

locale object_format =
  fixes c :: machine
    and n :: nat
    and store :: "nat \<Rightarrow> 'a::len word \<Rightarrow> memory \<Rightarrow> memory option"
    and fetch :: "nat \<Rightarrow> memory \<Rightarrow> 'a::len word option"
  assumes store_obj: "store T v m = store_bytes T (obj_bytes c n (uint v)) m"
    and fetch_obj: "fetch T m = map_option (\<lambda>bs. word_of_int (obj_val c bs)) (load_bytes n T m)"
    and exact: "LENGTH('a) = 8 * n"

sublocale object_format \<subseteq> codec n "\<lambda>v. obj_bytes c n (uint v)" "\<lambda>bs. word_of_int (obj_val c bs)"
  id store fetch
  by unfold_locales (simp_all add: store_obj fetch_obj exact)

interpretation us: object_format c 2 "shortstore c" "ushortget c" for c
  by unfold_locales (simp_all add: shortstore_obj ushortget_obj)

interpretation sh: object_format c 2 "shortstore c" "shortget c" for c
  by unfold_locales (simp_all add: shortstore_obj shortget_obj)

interpretation ul: object_format c 4 "longstore c" "ulongget c" for c
  by unfold_locales (simp_all add: longstore_obj ulongget_obj)

interpretation lg: object_format c 4 "longstore c" "longget c" for c
  by unfold_locales (simp_all add: longstore_obj longget_obj)

interpretation ll: object_format c 8 "longlongstore c" "longlongget c" for c
  by unfold_locales (simp_all add: longlongstore_obj longlongget_obj)

interpretation db: codec 8 "\<lambda>V. if words_bigendian c then double_bytes c V else le_bytes 8 (uint V)"
  "\<lambda>bs. if words_bigendian c then double_val c bs else word_of_int (le_val bs)" id
  "doublestore c" "doubleget c" for c
  by unfold_locales (simp_all add: doublestore_bytes doubleget_bytes fetch_le_def)

interpretation fl: object_format c 4 "floatstore c" "floatget c" for c
  by unfold_locales (simp_all add: floatstore_def floatstore_be_def floatstore_le_def
      float4store_le_def floatget_def floatget_be_def floatget_le_def float4get_le_def)

section \<open>Properties\<close>

text \<open>C27. The optimised x86 routines, which read and write through a cast pointer, compute the
  same results and leave the same memory as the generic routines, which assemble and take apart
  the value by shifts: for every address and every memory, including those where an access is
  undefined.\<close>

theorem x86_korr_is_generic:
  "sint2korr_x86 A m = sint2korr_generic A m \<and> uint2korr_x86 A m = uint2korr_generic A m
   \<and> sint4korr_x86 A m = sint4korr_generic A m \<and> uint4korr_x86 A m = uint4korr_generic A m
   \<and> sint8korr_x86 A m = sint8korr_generic A m \<and> uint8korr_x86 A m = uint8korr_generic A m
   \<and> int2store_x86 A w2 m = int2store_generic A w2 m
   \<and> int4store_x86 A w4 m = int4store_generic A w4 m
   \<and> int8store_x86 A w8 m = int8store_generic A w8 m"
  by (simp add: korr_generic_x86)

text \<open>C26. A value stored on one machine in the machine-independent format is read back on any
  other: a 2, 4 or 8 byte integer unchanged, a 3, 5 or 6 byte integer as its low bytes, and a
  3 byte integer read as signed with the sign of its bit 23.\<close>

theorem stored_integers_read_back:
  "(int2store c T av m = Some am \<longrightarrow> uint2korr c' T am = Some av \<and> sint2korr c' T am = Some av)
   \<and> (int3store T bv m = Some bm \<longrightarrow> uint3korr T bm = Some (take_bit 24 bv)
        \<and> sint3korr T bm = Some (signed_take_bit 23 bv))
   \<and> (int4store c T dv m = Some dm \<longrightarrow> uint4korr c' T dm = Some dv \<and> sint4korr c' T dm = Some dv)
   \<and> (int5store T ev m = Some em \<longrightarrow> uint5korr T em = Some (take_bit 40 ev))
   \<and> (int6store T fv m = Some fm \<longrightarrow> uint6korr T fm = Some (take_bit 48 fv))
   \<and> (int8store c T gv m = Some gm \<longrightarrow> uint8korr c' T gm = Some gv \<and> sint8korr c' T gm = Some gv)"
proof -
  have same: "int2store c = int2store c'" "int4store c = int4store c'" "int8store c = int8store c'"
    by (auto simp: fun_eq_iff korr_select korr_generic_x86)
  have t: "take_bit 16 av = av" "take_bit 32 dv = dv" "take_bit 64 gv = gv"
    by (simp_all add: take_bit_word_eq_self)
  show ?thesis
    using f2.fetch_store [of c' T av m am] s2.fetch_store [of c' T av m am]
      f4.fetch_store [of c' T dv m dm] s4.fetch_store [of c' T dv m dm]
      f8.fetch_store [of c' T gv m gm] s8.fetch_store [of c' T gv m gm]
      f3.fetch_store [of T bv m bm] f5.fetch_store [of T ev m em] f6.fetch_store [of T fv m fm]
    by (simp add: same t sint3korr_sign_extends signed_take_bit_take_bit)
qed

theorem stored_integers_read_back_witness:
  "\<exists>m2 m3 m4 m5 m6 m8. let m = block 0 (replicate 8 7) in
     int2store amd64 0 0xFFFE m = Some m2 \<and> sint2korr sparc 0 m2 = Some 0xFFFE
   \<and> int3store 0 0xFF80FFFE m = Some m3 \<and> uint3korr 0 m3 = Some 0x80FFFE
   \<and> sint3korr 0 m3 = Some 0xFF80FFFE
   \<and> int4store amd64 0 0xDEADBEEF m = Some m4 \<and> uint4korr sparc 0 m4 = Some 0xDEADBEEF
   \<and> int5store 0 0xFF0102030405 m = Some m5 \<and> uint5korr 0 m5 = Some 0x0102030405
   \<and> int6store 0 0xFF010203040506 m = Some m6 \<and> uint6korr 0 m6 = Some 0x010203040506
   \<and> int8store amd64 0 0xFF01020304050607 m = Some m8 \<and> uint8korr sparc 0 m8 = Some 0xFF01020304050607"
proof -
  let ?m = "block 0 (replicate 8 7)"
  obtain m2 m3 m4 m5 m6 m8 where
    "int2store amd64 0 0xFFFE ?m = Some m2" "int3store 0 0xFF80FFFE ?m = Some m3"
    "int4store amd64 0 0xDEADBEEF ?m = Some m4" "int5store 0 0xFF0102030405 ?m = Some m5"
    "int6store 0 0xFF010203040506 ?m = Some m6" "int8store amd64 0 0xFF01020304050607 ?m = Some m8"
    using f2.defined_iff [of amd64 0 "0xFFFE" ?m] f3.defined_iff [of 0 "0xFF80FFFE" ?m]
      f4.defined_iff [of amd64 0 "0xDEADBEEF" ?m] f5.defined_iff [of 0 "0xFF0102030405" ?m]
      f6.defined_iff [of 0 "0xFF010203040506" ?m] f8.defined_iff [of amd64 0 "0xFF01020304050607" ?m]
    by auto
  then show ?thesis
    using stored_integers_read_back [where c = amd64 and c' = sparc and T = 0 and m = ?m
        and av = "0xFFFE" and bv = "0xFF80FFFE" and dv = "0xDEADBEEF" and ev = "0xFF0102030405"
        and fv = "0xFF010203040506" and gv = "0xFF01020304050607"
        and am = m2 and bm = m3 and dm = m4 and em = m5 and fm = m6 and gm = m8]
    by (auto simp: Let_def intro!: exI)
qed

lemma signed_24:
  assumes "0 \<le> v" "v < 2 ^ 24"
  shows "signed_take_bit 23 v = (if v < 2 ^ 23 then v else v - 2 ^ 24 :: int)"
proof (cases "v < 2 ^ 23")
  case False
  have "(v + 2 ^ 23) mod 2 ^ 24 = (v - 2 ^ 23) mod 2 ^ 24"
    using mod_add_self2 [of "v - 2 ^ 23" "2 ^ 24"] by (simp add: add.commute)
  with False assms show ?thesis by (simp add: signed_take_bit_eq_take_bit_shift take_bit_eq_mod)
qed (use assms in \<open>simp add: signed_take_bit_eq_take_bit_shift take_bit_eq_mod\<close>)

text \<open>\<open>sint3korr\<close> returns on every mapped block of three bytes, and its value is the block's
  value as a 24-bit two's complement integer: between \<open>-2^23\<close> and \<open>2^23 - 1\<close>, with no wrap at the
  32-bit width.\<close>

theorem sint3korr_twos_complement:
  assumes "load_bytes 3 A m = Some bs"
  shows "\<exists>w. sint3korr A m = Some w
     \<and> sint w = (if le_val bs < 2 ^ 23 then le_val bs else le_val bs - 2 ^ 24)
     \<and> - (2 ^ 23) \<le> sint w \<and> sint w < 2 ^ 23"
proof -
  have "length bs = 3" using assms by (auto simp: load_bytes_iff split: if_splits)
  then have v: "0 \<le> le_val bs" "le_val bs < 2 ^ 24" using le_val_less [of bs] by auto
  let ?w = "signed_take_bit 23 (word_of_int (le_val bs)) :: 32 word"
  have w: "sint3korr A m = Some ?w"
    using assms by (simp add: sint3korr_sign_extends uint3korr_fetch fetch_le_def)
  have "sint ?w = signed_take_bit 23 (le_val bs)"
    by (transfer fixing: bs) (simp add: signed_take_bit_take_bit signed_take_bit_signed_take_bit)
  moreover have neg: "- 8388608 \<le> le_val bs" by (rule order_trans [OF _ v(1)]) simp
  ultimately show ?thesis using w v by (simp add: signed_24) (use neg in blast)
qed

theorem sint3korr_twos_complement_witness:
  "\<exists>w. sint3korr 16 (block 16 [0xFE, 0xFF, 0x80]) = Some w
     \<and> sint w = (if le_val [0xFE, 0xFF, 0x80] < 2 ^ 23 then le_val [0xFE, 0xFF, 0x80]
                 else le_val [0xFE, 0xFF, 0x80] - 2 ^ 24)
     \<and> - (2 ^ 23) \<le> sint w \<and> sint w < 2 ^ 23"
  by (rule sint3korr_twos_complement) (simp add: mem_simps block_def)

text \<open>Floating point values have one stored format. A \<open>float\<close> is stored and read in the same
  bytes, low byte first, on every machine, and so is a \<open>double\<close>, except where words are
  little-endian and the words of a double are not: there \<open>float8store\<close> copies the object, so the
  two halves are exchanged and another machine reads the double with its words swapped, while
  \<open>doublestore\<close>, documented as the machine format, writes the portable bytes.\<close>

theorem stored_floats_portable:
  "float4store c T a m = store_bytes T (le_bytes 4 (uint a)) m
   \<and> float4get c T m = fetch_le 4 T m
   \<and> (words_bigendian c \<or> \<not> float_word_big c \<longrightarrow>
        float8store c T d m = store_bytes T (le_bytes 8 (uint d)) m \<and> float8get c T m = fetch_le 8 T m)
   \<and> (\<not> words_bigendian c \<and> float_word_big c \<longrightarrow>
        float8store c T d m
        = store_bytes T (drop 4 (le_bytes 8 (uint d)) @ take 4 (le_bytes 8 (uint d))) m
      \<and> doublestore c T d m = store_bytes T (le_bytes 8 (uint d)) m)"
  using float8store_portable [of c T d m] float8get_portable [of c T m]
  by (simp add: float4store_portable float4get_portable doublestore_bytes float8store_def
      float8store_le_def double_bytes_def)

text \<open>The ARM of the old floating point accelerator: little-endian, the high word of a double first.\<close>

theorem stored_floats_portable_witness:
  "\<not> words_bigendian (amd64\<lparr>x86 := False, float_word_big := True\<rparr>)
   \<and> float8store (amd64\<lparr>x86 := False, float_word_big := True\<rparr>) 0 1 (block 0 (replicate 8 0))
     = store_bytes 0 [0, 0, 0, 0, 1, 0, 0, 0] (block 0 (replicate 8 0))
   \<and> float8store sparc 0 1 (block 0 (replicate 8 0))
     = store_bytes 0 [1, 0, 0, 0, 0, 0, 0, 0] (block 0 (replicate 8 0))"
proof -
  have "le_bytes 8 (uint (1 :: 64 word)) = [1, 0, 0, 0, 0, 0, 0, 0]"
    by (simp add: numeral_eq_Suc)
  then show ?thesis
    using stored_floats_portable [of sparc 0 0 "block 0 (replicate 8 0)" 1]
      stored_floats_portable
        [of "amd64\<lparr>x86 := False, float_word_big := True\<rparr>" 0 0 "block 0 (replicate 8 0)" 1]
    by (simp add: amd64_def sparc_def numeral_eq_Suc del: store_bytes.simps)
qed

text \<open>In machine format an integer is its object: on every machine the \<open>get\<close> functions return
  what reading the object at that address returns, and the \<open>store\<close> functions leave the bytes that
  assigning to the object leaves.\<close>

theorem machine_format_is_object:
  "ushortget c p m = map_option (\<lambda>bs. word_of_int (obj_val c bs)) (load_bytes 2 p m)
   \<and> shortget c p m = map_option (\<lambda>bs. word_of_int (obj_val c bs)) (load_bytes 2 p m)
   \<and> ulongget c p m = map_option (\<lambda>bs. word_of_int (obj_val c bs)) (load_bytes 4 p m)
   \<and> longget c p m = map_option (\<lambda>bs. word_of_int (obj_val c bs)) (load_bytes 4 p m)
   \<and> longlongget c p m = map_option (\<lambda>bs. word_of_int (obj_val c bs)) (load_bytes 8 p m)
   \<and> shortstore c p v2 m = store_bytes p (obj_bytes c 2 (uint v2)) m
   \<and> longstore c p v4 m = store_bytes p (obj_bytes c 4 (uint v4)) m
   \<and> longlongstore c p v8 m = store_bytes p (obj_bytes c 8 (uint v8)) m"
  by (simp add: ushortget_obj shortget_obj ulongget_obj longget_obj longlongget_obj shortstore_obj
      longstore_obj longlongstore_obj)

end
