(* ===== verification/Psi_Prelude.thy ===== *)
theory Psi_Prelude
  imports Agent_Prelude "HOL-Library.State_Monad"
begin

text \<open>
  The instrumentation interface of the client library's headers (\<open>psi.h\<close>): which instruments a
  build has, the operations an instrumented call reports, the calls made through \<open>PSI_server\<close>,
  and the state the instrumented wrappers run in.

  The service behind \<open>PSI_server\<close> (the performance schema) and the system calls are not part of
  the sources. A wrapper is a computation in the state monad over a \<open>psi_world\<close>: the state \<open>os_state\<close> of
  the system (of any type; the calls are parameters of the wrappers) and the log of the calls
  made to the service with its replies. The service is a parameter \<open>svc\<close>: its reply, a pointer or
  \<open>NULL\<close>, may depend on the whole history of calls. It does not act on the system's state, which
  is what its interface promises of an observer. The address of a wrapper's local
  \<open>locker_state\<close>, handed to the service as scratch memory, is not part of the model.
\<close>

named_theorems psi_simps \<open>running instrumented computations\<close>

type_synonym ptr = "nat option"
type_synonym src = "string \<times> nat"
type_synonym size_t = "64 word"

section \<open>Which instruments a build has\<close>

datatype instrument =
  INSTR_THREAD | INSTR_MUTEX | INSTR_RWLOCK | INSTR_COND | INSTR_FILE | INSTR_TABLE | INSTR_SOCKET
| INSTR_STAGE | INSTR_STATEMENT | INSTR_SP | INSTR_IDLE | INSTR_STATEMENT_DIGEST
| INSTR_METADATA | INSTR_MEMORY | INSTR_TRANSACTION | INSTR_PS

text \<open>
  The preprocessor symbols a build defines: \<open>disable_psi i\<close> stands for \<open>DISABLE_PSI_MUTEX\<close> and its
  siblings.
\<close>

record build =
  have_psi_interface :: bool
  embedded_library :: bool
  disable_all_psi :: bool
  disable_psi :: "instrument \<Rightarrow> bool"
  safe_mutex :: bool
  win32 :: bool

text \<open>\<open>EMBEDDED_LIBRARY\<close> implies \<open>DISABLE_ALL_PSI\<close>, which implies every \<open>DISABLE_PSI_\<close> symbol.\<close>

definition all_disabled :: "build \<Rightarrow> bool" where
  "all_disabled b \<longleftrightarrow> disable_all_psi b \<or> embedded_library b"

definition psi_disabled :: "build \<Rightarrow> instrument \<Rightarrow> bool" where
  "psi_disabled b i \<longleftrightarrow> disable_psi b i \<or> all_disabled b"

text \<open>\<open>HAVE_PSI_MUTEX_INTERFACE\<close> and its siblings; two of them also need the statement instrument.\<close>

definition have_psi :: "build \<Rightarrow> instrument \<Rightarrow> bool" where
  "have_psi b i \<longleftrightarrow> have_psi_interface b \<and>
     (case i of
        INSTR_PS \<Rightarrow> \<not> psi_disabled b INSTR_STATEMENT \<and> \<not> psi_disabled b INSTR_PS
      | INSTR_STATEMENT_DIGEST \<Rightarrow>
          \<not> psi_disabled b INSTR_STATEMENT \<and> \<not> psi_disabled b INSTR_STATEMENT_DIGEST
      | _ \<Rightarrow> \<not> psi_disabled b i)"

section \<open>The operations that are reported\<close>

datatype PSI_mutex_operation = PSI_MUTEX_LOCK | PSI_MUTEX_TRYLOCK

datatype PSI_rwlock_operation =
  PSI_RWLOCK_READLOCK | PSI_RWLOCK_WRITELOCK | PSI_RWLOCK_TRYREADLOCK | PSI_RWLOCK_TRYWRITELOCK
| PSI_RWLOCK_SHAREDLOCK | PSI_RWLOCK_SHAREDEXCLUSIVELOCK | PSI_RWLOCK_EXCLUSIVELOCK
| PSI_RWLOCK_TRYSHAREDLOCK | PSI_RWLOCK_TRYSHAREDEXCLUSIVELOCK | PSI_RWLOCK_TRYEXCLUSIVELOCK

datatype PSI_cond_operation = PSI_COND_WAIT | PSI_COND_TIMEDWAIT

datatype PSI_file_operation =
  PSI_FILE_CREATE | PSI_FILE_CREATE_TMP | PSI_FILE_OPEN | PSI_FILE_STREAM_OPEN | PSI_FILE_CLOSE
| PSI_FILE_STREAM_CLOSE | PSI_FILE_READ | PSI_FILE_WRITE | PSI_FILE_SEEK | PSI_FILE_TELL
| PSI_FILE_FLUSH | PSI_FILE_STAT | PSI_FILE_FSTAT | PSI_FILE_CHSIZE | PSI_FILE_DELETE
| PSI_FILE_RENAME | PSI_FILE_SYNC

datatype PSI_socket_state = PSI_SOCKET_STATE_IDLE | PSI_SOCKET_STATE_ACTIVE

datatype PSI_socket_operation =
  PSI_SOCKET_CREATE | PSI_SOCKET_CONNECT | PSI_SOCKET_BIND | PSI_SOCKET_CLOSE | PSI_SOCKET_SEND
| PSI_SOCKET_RECV | PSI_SOCKET_SENDTO | PSI_SOCKET_RECVFROM | PSI_SOCKET_SENDMSG
| PSI_SOCKET_RECVMSG | PSI_SOCKET_SEEK | PSI_SOCKET_OPT | PSI_SOCKET_STAT | PSI_SOCKET_SHUTDOWN
| PSI_SOCKET_SELECT

section \<open>The calls of the service\<close>

text \<open>The members of \<open>struct PSI_v1\<close> the wrappers call, with their arguments, by instrument.\<close>

datatype mutex_call =
  register_mutex string ptr int
| init_mutex nat nat
| destroy_mutex ptr
| unlock_mutex ptr
| start_mutex_wait ptr PSI_mutex_operation src
| end_mutex_wait ptr int

datatype rwlock_call =
  register_rwlock string ptr int
| init_rwlock nat nat
| destroy_rwlock ptr
| unlock_rwlock ptr
| start_rwlock_rdwait ptr PSI_rwlock_operation src
| end_rwlock_rdwait ptr int
| start_rwlock_wrwait ptr PSI_rwlock_operation src
| end_rwlock_wrwait ptr int

datatype cond_call =
  register_cond string ptr int
| init_cond nat nat
| destroy_cond ptr
| signal_cond ptr
| broadcast_cond ptr
| start_cond_wait ptr ptr PSI_cond_operation src
| end_cond_wait ptr int

datatype thread_call =
  register_thread string ptr int
| spawn_thread nat nat ptr nat ptr
| set_thread_id ptr nat
| set_thread_THD ptr ptr
| get_thread

datatype file_call =
  register_file string ptr int
| get_thread_file_name_locker nat PSI_file_operation "string option"
| get_thread_file_stream_locker ptr PSI_file_operation
| get_thread_file_descriptor_locker int PSI_file_operation
| start_file_open_wait ptr src
| end_file_open_wait ptr ptr
| end_file_open_wait_and_bind_to_descriptor ptr int
| end_temp_file_open_wait_and_bind_to_descriptor ptr int string
| start_file_wait ptr size_t src
| end_file_wait ptr size_t
| start_file_close_wait ptr src
| end_file_close_wait ptr int
| end_file_rename_wait ptr string string int

datatype socket_call =
  register_socket string ptr int
| init_socket nat int ptr nat
| destroy_socket ptr
| start_socket_wait ptr PSI_socket_operation size_t src
| end_socket_wait ptr size_t
| set_socket_state ptr PSI_socket_state
| set_socket_info ptr ptr ptr nat
| set_socket_thread_owner ptr

text \<open>The calls for what the server executes: stages, statements and their digests, transactions,
  prepared statements, stored programs, tables, idle time, metadata locks, memory.\<close>

datatype stage_call = register_stage string ptr int | start_stage nat src | end_stage

datatype statement_call =
  register_statement string ptr int
| get_thread_statement_locker nat ptr ptr
| refine_statement ptr nat
| start_statement ptr ptr nat src
| set_statement_text ptr ptr nat
| set_statement_lock_time ptr "64 word"
| set_statement_rows_sent ptr "64 word"
| set_statement_rows_examined ptr "64 word"
| end_statement ptr ptr

datatype digest_call = digest_start ptr | digest_end ptr ptr

datatype transaction_call =
  get_thread_transaction_locker ptr ptr int bool bool
| start_transaction ptr src
| set_transaction_xid ptr ptr int
| set_transaction_xa_state ptr int
| set_transaction_gtid ptr ptr ptr
| set_transaction_trxid ptr ptr
| inc_transaction_savepoints ptr nat
| inc_transaction_rollback_to_savepoint ptr nat
| inc_transaction_release_savepoint ptr nat
| end_transaction ptr bool

datatype ps_call =
  create_prepared_stmt ptr nat ptr ptr nat ptr nat
| destroy_prepared_stmt ptr
| reprepare_prepared_stmt ptr
| execute_prepared_stmt ptr ptr
| set_prepared_stmt_text ptr ptr nat

datatype sp_call =
  start_sp ptr
| end_sp ptr
| drop_sp nat ptr nat ptr nat
| get_sp_share nat ptr nat ptr nat

datatype table_call =
  start_table_lock_wait ptr nat nat src
| end_table_lock_wait ptr
| unlock_table ptr

datatype idle_call = start_idle_wait src | end_idle_wait ptr

datatype metadata_call =
  create_metadata_lock ptr ptr nat nat nat src
| set_metadata_lock_status ptr nat
| destroy_metadata_lock ptr

datatype memory_call = register_memory string ptr int

datatype psi_call =
  PSI_MUTEX_CALL mutex_call
| PSI_RWLOCK_CALL rwlock_call
| PSI_COND_CALL cond_call
| PSI_THREAD_CALL thread_call
| PSI_FILE_CALL file_call
| PSI_SOCKET_CALL socket_call
| PSI_STAGE_CALL stage_call
| PSI_STATEMENT_CALL statement_call
| PSI_DIGEST_CALL digest_call
| PSI_TRANSACTION_CALL transaction_call
| PSI_PS_CALL ps_call
| PSI_SP_CALL sp_call
| PSI_TABLE_CALL table_call
| PSI_IDLE_CALL idle_call
| PSI_METADATA_CALL metadata_call
| PSI_MEMORY_CALL memory_call

type_synonym psi_log = "(psi_call \<times> ptr) list"
type_synonym psi_service = "psi_log \<Rightarrow> psi_call \<Rightarrow> ptr"

text \<open>\<open>disconnect_ex\<close> is the function-local static of the socket shutdown on Windows.\<close>

record 'o psi_world =
  os_state :: 'o
  psi_log :: psi_log
  disconnect_ex :: ptr

text \<open>A call that returns a pointer, a call that returns nothing, and a call of the system.\<close>

definition psi_ask :: "psi_service \<Rightarrow> psi_call \<Rightarrow> ('o psi_world, ptr) state" where
  "psi_ask svc e = State (\<lambda>w. let r = svc (psi_log w) e in (r, w\<lparr>psi_log := psi_log w @ [(e, r)]\<rparr>))"

definition psi_tell :: "psi_call \<Rightarrow> ('o psi_world, unit) state" where
  "psi_tell e = State (\<lambda>w. ((), w\<lparr>psi_log := psi_log w @ [(e, None)]\<rparr>))"

definition os_call :: "('o \<Rightarrow> 'r \<times> 'o) \<Rightarrow> ('o psi_world, 'r) state" where
  "os_call f = State (\<lambda>w. case f (os_state w) of (r, s) \<Rightarrow> (r, w\<lparr>os_state := s\<rparr>))"

text \<open>\<open>if (c) { ... }\<close>\<close>

definition if_then :: "bool \<Rightarrow> ('s, unit) state \<Rightarrow> ('s, unit) state" where
  "if_then c m = (if c then m else State_Monad.return ())"

text \<open>
  Waits are bracketed: a start opens the locker the service returned (for files, the locker it
  is given), an end closes the one it is given. \<open>bracket\<close> follows a log with the stack of open
  lockers and fails on an end that does not close the last one opened.
\<close>

fun opens :: "psi_call \<Rightarrow> ptr \<Rightarrow> ptr" where
  "opens (PSI_MUTEX_CALL c) r = (case c of start_mutex_wait _ _ _ \<Rightarrow> r | _ \<Rightarrow> None)"
| "opens (PSI_RWLOCK_CALL c) r =
     (case c of start_rwlock_rdwait _ _ _ \<Rightarrow> r | start_rwlock_wrwait _ _ _ \<Rightarrow> r | _ \<Rightarrow> None)"
| "opens (PSI_COND_CALL c) r = (case c of start_cond_wait _ _ _ _ \<Rightarrow> r | _ \<Rightarrow> None)"
| "opens (PSI_THREAD_CALL c) r = None"
| "opens (PSI_FILE_CALL c) r =
     (case c of start_file_open_wait l _ \<Rightarrow> l | start_file_wait l _ _ \<Rightarrow> l
      | start_file_close_wait l _ \<Rightarrow> l | _ \<Rightarrow> None)"
| "opens (PSI_SOCKET_CALL c) r = (case c of start_socket_wait _ _ _ _ \<Rightarrow> r | _ \<Rightarrow> None)"
| "opens (PSI_STAGE_CALL c) r = None"
| "opens (PSI_STATEMENT_CALL c) r = None"
| "opens (PSI_DIGEST_CALL c) r = None"
| "opens (PSI_TRANSACTION_CALL c) r = None"
| "opens (PSI_PS_CALL c) r = None"
| "opens (PSI_SP_CALL c) r = None"
| "opens (PSI_METADATA_CALL c) r = None"
| "opens (PSI_MEMORY_CALL c) r = None"
| "opens (PSI_TABLE_CALL c) r = (case c of start_table_lock_wait _ _ _ _ \<Rightarrow> r | _ \<Rightarrow> None)"
| "opens (PSI_IDLE_CALL c) r = (case c of start_idle_wait _ \<Rightarrow> r | _ \<Rightarrow> None)"

fun closes :: "psi_call \<Rightarrow> ptr" where
  "closes (PSI_MUTEX_CALL c) = (case c of end_mutex_wait l _ \<Rightarrow> l | _ \<Rightarrow> None)"
| "closes (PSI_RWLOCK_CALL c) =
     (case c of end_rwlock_rdwait l _ \<Rightarrow> l | end_rwlock_wrwait l _ \<Rightarrow> l | _ \<Rightarrow> None)"
| "closes (PSI_COND_CALL c) = (case c of end_cond_wait l _ \<Rightarrow> l | _ \<Rightarrow> None)"
| "closes (PSI_THREAD_CALL c) = None"
| "closes (PSI_FILE_CALL c) =
     (case c of end_file_open_wait l _ \<Rightarrow> l
      | end_file_open_wait_and_bind_to_descriptor l _ \<Rightarrow> l
      | end_temp_file_open_wait_and_bind_to_descriptor l _ _ \<Rightarrow> l
      | end_file_wait l _ \<Rightarrow> l | end_file_close_wait l _ \<Rightarrow> l
      | end_file_rename_wait l _ _ _ \<Rightarrow> l | _ \<Rightarrow> None)"
| "closes (PSI_SOCKET_CALL c) = (case c of end_socket_wait l _ \<Rightarrow> l | _ \<Rightarrow> None)"
| "closes (PSI_STAGE_CALL c) = None"
| "closes (PSI_STATEMENT_CALL c) = None"
| "closes (PSI_DIGEST_CALL c) = None"
| "closes (PSI_TRANSACTION_CALL c) = None"
| "closes (PSI_PS_CALL c) = None"
| "closes (PSI_SP_CALL c) = None"
| "closes (PSI_METADATA_CALL c) = None"
| "closes (PSI_MEMORY_CALL c) = None"
| "closes (PSI_TABLE_CALL c) = (case c of end_table_lock_wait l \<Rightarrow> l | _ \<Rightarrow> None)"
| "closes (PSI_IDLE_CALL c) = (case c of end_idle_wait l \<Rightarrow> l | _ \<Rightarrow> None)"

definition bracket_step :: "psi_call \<times> ptr \<Rightarrow> nat list \<Rightarrow> nat list option" where
  "bracket_step er st =
     (case opens (fst er) (snd er) of
        Some l \<Rightarrow> Some (l # st)
      | None \<Rightarrow>
          (case closes (fst er) of
             None \<Rightarrow> Some st
           | Some l \<Rightarrow> (case st of [] \<Rightarrow> None | h # t \<Rightarrow> if h = l then Some t else None)))"

fun bracket :: "nat list \<Rightarrow> psi_log \<Rightarrow> nat list option" where
  "bracket st [] = Some st"
| "bracket st (er # es) = (case bracket_step er st of None \<Rightarrow> None | Some st1 \<Rightarrow> bracket st1 es)"

text \<open>An instrumented computation does to the system what a plain one does.\<close>

definition transparent :: "('o psi_world, 'r) state \<Rightarrow> ('o \<Rightarrow> 'r \<times> 'o) \<Rightarrow> bool" where
  "transparent m raw \<longleftrightarrow>
     (\<forall>w. fst (run_state m w) = fst (raw (os_state w)) \<and> os_state (snd (run_state m w)) = snd (raw (os_state w)))"

text \<open>
  Two computations look the same from outside the instrumentation: the same result, up to what
  \<open>f\<close> ignores of it, and the same state of the system and of the statics.
\<close>

definition same_system :: "('r \<Rightarrow> 'x) \<Rightarrow> ('o psi_world, 'r) state \<Rightarrow> ('o psi_world, 'r) state \<Rightarrow> bool" where
  "same_system f m m' \<longleftrightarrow>
     (\<forall>w w'. os_state w = os_state w' \<and> disconnect_ex w = disconnect_ex w' \<longrightarrow>
        f (fst (run_state m w)) = f (fst (run_state m' w'))
      \<and> os_state (snd (run_state m w)) = os_state (snd (run_state m' w'))
      \<and> disconnect_ex (snd (run_state m w)) = disconnect_ex (snd (run_state m' w')))"

text \<open>The same build without the instrumentation.\<close>

definition without_psi :: "build \<Rightarrow> build" where
  "without_psi b = b\<lparr>have_psi_interface := False\<rparr>"

text \<open>It leaves every wait that was open before it open, and no other.\<close>

definition keeps_waits :: "('o psi_world, 'r) state \<Rightarrow> bool" where
  "keeps_waits m \<longleftrightarrow> (\<forall>w st. bracket [] (psi_log w) = Some st \<longrightarrow>
     bracket [] (psi_log (snd (run_state m w))) = Some st)"

text \<open>
  The calls of one wait around a system call: a start, whose reply is the locker, the calls
  \<open>mid\<close>, an end when there is a locker, the calls \<open>post\<close>.
\<close>

definition wait_log ::
  "bool \<Rightarrow> psi_service \<Rightarrow> psi_log \<Rightarrow> psi_call \<Rightarrow> psi_call list \<Rightarrow> (ptr \<Rightarrow> psi_call) \<Rightarrow> psi_call list \<Rightarrow> psi_log"
where
  "wait_log active svc log start mid fin post =
     (if active
      then (let l = svc log start in
              (start, l) # map (\<lambda>e. (e, None)) mid
              @ (if l \<noteq> None then [(fin l, None)] else []) @ map (\<lambda>e. (e, None)) post)
      else [])"

definition neutral :: "psi_call \<Rightarrow> bool" where
  "neutral e \<longleftrightarrow> opens e None = None \<and> closes e = None"

text \<open>A build with every instrument, a service that always returns a fresh pointer, and an empty log.\<close>

definition full_build :: build where
  "full_build = \<lparr>have_psi_interface = True, embedded_library = False, disable_all_psi = False,
     disable_psi = (\<lambda>i. False), safe_mutex = False, win32 = False\<rparr>"

definition counting_service :: psi_service where
  "counting_service log e = Some (length log)"

definition start_world :: "'o \<Rightarrow> 'o psi_world" where
  "start_world s = \<lparr>os_state = s, psi_log = [], disconnect_ex = None\<rparr>"

section \<open>Running computations\<close>

lemma run_bind [psi_simps]:
  "run_state (State_Monad.bind m k) w = (case run_state m w of (r, w1) \<Rightarrow> run_state (k r) w1)"
  by (simp add: State_Monad.bind_def)

lemma run_return [psi_simps]: "run_state (State_Monad.return x) w = (x, w)"
  by (simp add: State_Monad.return_def)

lemma run_psi_ask [psi_simps]:
  "run_state (psi_ask svc e) w
   = (svc (psi_log w) e, w\<lparr>psi_log := psi_log w @ [(e, svc (psi_log w) e)]\<rparr>)"
  by (simp add: psi_ask_def Let_def)

lemma run_psi_tell [psi_simps]:
  "run_state (psi_tell e) w = ((), w\<lparr>psi_log := psi_log w @ [(e, None)]\<rparr>)"
  by (simp add: psi_tell_def)

lemma run_os_call [psi_simps]:
  "run_state (os_call f) w = (fst (f (os_state w)), w\<lparr>os_state := snd (f (os_state w))\<rparr>)"
  by (simp add: os_call_def split: prod.split)

lemma run_if_then [psi_simps]:
  "run_state (if_then c m) w = (if c then run_state m w else ((), w))"
  by (simp add: if_then_def run_return)

lemma bracket_append:
  "bracket st (xs @ ys) = (case bracket st xs of None \<Rightarrow> None | Some st1 \<Rightarrow> bracket st1 ys)"
  by (induction xs arbitrary: st) (auto split: option.split)

lemma bracket_neutral: "list_all neutral es \<Longrightarrow> bracket st (map (\<lambda>e. (e, None)) es) = Some st"
  by (induction es) (auto simp: neutral_def bracket_step_def)

lemma bracket_wait_log:
  assumes "\<And>l. opens start l = l" "closes start = None"
    and "\<And>l. opens (fin l) None = None" "\<And>l. closes (fin l) = l"
    and "list_all neutral mid" "list_all neutral post"
  shows "bracket st (wait_log active svc log start mid fin post) = Some st"
  using assms
  by (auto simp: wait_log_def Let_def bracket_append bracket_neutral bracket_step_def
      split: option.split)

lemma transparent_bind:
  assumes "transparent m f" and "\<And>r. transparent (k r) (g r)"
  shows "transparent (State_Monad.bind m k) (\<lambda>s. case f s of (r, s1) \<Rightarrow> g r s1)"
  using assms by (simp add: transparent_def run_bind case_prod_beta)

lemma transparent_return [simp, intro]: "transparent (State_Monad.return x) (\<lambda>s. (x, s))"
  by (simp add: transparent_def run_return)

lemma transparent_os_call [simp, intro]: "transparent (os_call f) f"
  by (simp add: transparent_def run_os_call)

lemma keeps_waits_bind:
  "keeps_waits m \<Longrightarrow> (\<And>r. keeps_waits (k r)) \<Longrightarrow> keeps_waits (State_Monad.bind m k)"
  by (simp add: keeps_waits_def run_bind case_prod_beta)

lemma keeps_waits_return [simp, intro]: "keeps_waits (State_Monad.return x)"
  by (simp add: keeps_waits_def run_return)

lemma keeps_waits_os_call [simp, intro]: "keeps_waits (os_call f)"
  by (simp add: keeps_waits_def run_os_call)

lemma have_psi_full [simp]: "have_psi full_build i"
  by (simp add: have_psi_def psi_disabled_def all_disabled_def full_build_def split: instrument.split)

lemma have_psi_without [simp]: "\<not> have_psi (without_psi b) i"
  by (simp add: have_psi_def without_psi_def)

lemma win32_without [simp]: "win32 (without_psi b) = win32 b"
  by (simp add: without_psi_def)

lemma safe_mutex_without [simp]: "safe_mutex (without_psi b) = safe_mutex b"
  by (simp add: without_psi_def)

section \<open>The contract of an instrumented call\<close>

text \<open>
  A wrapper around the call \<open>raw\<close>: it returns what \<open>raw\<close> returns, leaves the system as \<open>raw\<close>
  leaves it, and adds to the log the calls \<open>events\<close>, in which every wait that starts ends.
\<close>

locale instrumented_call =
  fixes wrapper :: "('o psi_world, 'r) state"
    and raw :: "'o \<Rightarrow> 'r \<times> 'o"
    and events :: "psi_log \<Rightarrow> 'r \<Rightarrow> psi_log"
  assumes run: "run_state wrapper w =
      (fst (raw (os_state w)), w\<lparr>os_state := snd (raw (os_state w)),
                          psi_log := psi_log w @ events (psi_log w) (fst (raw (os_state w)))\<rparr>)"
    and bracketed: "bracket st (events log r) = Some st"
begin

lemma is_transparent: "transparent wrapper raw"
  by (simp add: transparent_def run)

lemma waits_kept: "keeps_waits wrapper"
  by (simp add: keeps_waits_def run bracket_append bracketed)

lemma log_grows: "psi_log (snd (run_state wrapper w)) = psi_log w @ events (psi_log w) (fst (run_state wrapper w))"
  by (simp add: run)

lemma statics_kept: "disconnect_ex (snd (run_state wrapper w)) = disconnect_ex w"
  by (simp add: run)

lemma same_as:
  assumes "instrumented_call other raw ev"
  shows "same_system f wrapper other"
  using run instrumented_call.run [OF assms] by (simp add: same_system_def)

end

end
