(* ===== verification/Mysql_Socket.thy ===== *)
theory Mysql_Socket
  imports Psi_Prelude
begin

text \<open>
  The instrumented sockets of \<open>mysql_socket.h\<close>: one definition per inline function, in the order
  of the header. \<open>b\<close> is the build (which of the two branches of \<open>HAVE_PSI_SOCKET_INTERFACE\<close> and
  \<open>_WIN32\<close> was compiled), \<open>svc\<close> the instrumentation service, \<open>sys\<close> the system calls, \<open>src\<close> the file
  and line of the caller. An address or a buffer is the pointer the caller passes; what a system
  call does with it is part of the system's state.
\<close>

unbundle bit_operations_syntax

section \<open>System calls\<close>

text \<open>
  \<open>sys_accept\<close> is given the value behind its length pointer and returns the new one.
  \<open>sys_wsaioctl\<close> stands for the query of the \<open>DisconnectEx\<close> entry point on Windows.
\<close>

record 'o socket_sys =
  sys_socket :: "int \<Rightarrow> int \<Rightarrow> int \<Rightarrow> 'o \<Rightarrow> int \<times> 'o"
  sys_bind :: "int \<Rightarrow> ptr \<Rightarrow> nat \<Rightarrow> 'o \<Rightarrow> int \<times> 'o"
  sys_getsockname :: "int \<Rightarrow> ptr \<Rightarrow> ptr \<Rightarrow> 'o \<Rightarrow> int \<times> 'o"
  sys_connect :: "int \<Rightarrow> ptr \<Rightarrow> nat \<Rightarrow> 'o \<Rightarrow> int \<times> 'o"
  sys_getpeername :: "int \<Rightarrow> ptr \<Rightarrow> ptr \<Rightarrow> 'o \<Rightarrow> int \<times> 'o"
  sys_send :: "int \<Rightarrow> ptr \<Rightarrow> int \<Rightarrow> int \<Rightarrow> 'o \<Rightarrow> int \<times> 'o"
  sys_recv :: "int \<Rightarrow> ptr \<Rightarrow> int \<Rightarrow> int \<Rightarrow> 'o \<Rightarrow> int \<times> 'o"
  sys_sendto :: "int \<Rightarrow> ptr \<Rightarrow> int \<Rightarrow> int \<Rightarrow> ptr \<Rightarrow> nat \<Rightarrow> 'o \<Rightarrow> int \<times> 'o"
  sys_recvfrom :: "int \<Rightarrow> ptr \<Rightarrow> int \<Rightarrow> int \<Rightarrow> ptr \<Rightarrow> ptr \<Rightarrow> 'o \<Rightarrow> int \<times> 'o"
  sys_getsockopt :: "int \<Rightarrow> int \<Rightarrow> int \<Rightarrow> ptr \<Rightarrow> ptr \<Rightarrow> 'o \<Rightarrow> int \<times> 'o"
  sys_setsockopt :: "int \<Rightarrow> int \<Rightarrow> int \<Rightarrow> ptr \<Rightarrow> nat \<Rightarrow> 'o \<Rightarrow> int \<times> 'o"
  sys_ioctlsocket :: "int \<Rightarrow> int \<Rightarrow> 'o \<Rightarrow> int \<times> 'o"
  sys_fcntl :: "int \<Rightarrow> int \<Rightarrow> int \<Rightarrow> 'o \<Rightarrow> int \<times> 'o"
  sys_errno :: "'o \<Rightarrow> int"
  sys_listen :: "int \<Rightarrow> int \<Rightarrow> 'o \<Rightarrow> int \<times> 'o"
  sys_accept :: "int \<Rightarrow> ptr \<Rightarrow> nat \<Rightarrow> 'o \<Rightarrow> (int \<times> nat) \<times> 'o"
  sys_closesocket :: "int \<Rightarrow> 'o \<Rightarrow> int \<times> 'o"
  sys_shutdown :: "int \<Rightarrow> int \<Rightarrow> 'o \<Rightarrow> int \<times> 'o"
  sys_wsaioctl :: "int \<Rightarrow> 'o \<Rightarrow> ptr \<times> 'o"
  sys_DisconnectEx :: "nat \<Rightarrow> int \<Rightarrow> 'o \<Rightarrow> bool \<times> 'o"

section \<open>The instrumented socket\<close>

record MYSQL_SOCKET =
  sock_fd :: int
  m_psi :: ptr

abbreviation INVALID_SOCKET :: int where
  "INVALID_SOCKET \<equiv> - 1"

definition mysql_socket_invalid :: MYSQL_SOCKET where
  "mysql_socket_invalid = \<lparr>sock_fd = INVALID_SOCKET, m_psi = None\<rparr>"

definition mysql_socket_set_address ::
  "build \<Rightarrow> MYSQL_SOCKET \<Rightarrow> ptr \<Rightarrow> nat \<Rightarrow> ('o psi_world, unit) state" where
  "mysql_socket_set_address b sock addr addr_len =
     if_then (have_psi b INSTR_SOCKET \<and> m_psi sock \<noteq> None)
       (psi_tell (PSI_SOCKET_CALL (set_socket_info (m_psi sock) None addr addr_len)))"

definition mysql_socket_set_thread_owner :: "build \<Rightarrow> MYSQL_SOCKET \<Rightarrow> ('o psi_world, unit) state" where
  "mysql_socket_set_thread_owner b sock =
     if_then (have_psi b INSTR_SOCKET \<and> m_psi sock \<noteq> None)
       (psi_tell (PSI_SOCKET_CALL (set_socket_thread_owner (m_psi sock))))"

definition mysql_socket_getfd :: "MYSQL_SOCKET \<Rightarrow> int" where
  "mysql_socket_getfd mysql_socket = sock_fd mysql_socket"

text \<open>A \<open>NULL\<close> pointer is ignored.\<close>

definition mysql_socket_setfd :: "MYSQL_SOCKET option \<Rightarrow> int \<Rightarrow> MYSQL_SOCKET option" where
  "mysql_socket_setfd mysql_socket d = map_option (\<lambda>s. s\<lparr>sock_fd := d\<rparr>) mysql_socket"

definition inline_mysql_start_socket_wait ::
  "psi_service \<Rightarrow> MYSQL_SOCKET \<Rightarrow> PSI_socket_operation \<Rightarrow> size_t \<Rightarrow> src \<Rightarrow> ('o psi_world, ptr) state" where
  "inline_mysql_start_socket_wait svc mysql_socket op byte_count src =
     (if m_psi mysql_socket \<noteq> None
      then psi_ask svc (PSI_SOCKET_CALL (start_socket_wait (m_psi mysql_socket) op byte_count src))
      else State_Monad.return None)"

definition inline_mysql_end_socket_wait :: "ptr \<Rightarrow> size_t \<Rightarrow> ('o psi_world, unit) state" where
  "inline_mysql_end_socket_wait locker byte_count =
     if_then (locker \<noteq> None) (psi_tell (PSI_SOCKET_CALL (end_socket_wait locker byte_count)))"

definition inline_mysql_socket_set_state ::
  "MYSQL_SOCKET \<Rightarrow> PSI_socket_state \<Rightarrow> ('o psi_world, unit) state" where
  "inline_mysql_socket_set_state sock st =
     if_then (m_psi sock \<noteq> None) (psi_tell (PSI_SOCKET_CALL (set_socket_state (m_psi sock) st)))"

text \<open>The macros \<open>MYSQL_START_SOCKET_WAIT\<close>, \<open>MYSQL_END_SOCKET_WAIT\<close> and \<open>MYSQL_SOCKET_SET_STATE\<close>
  vanish in a build without the interface; \<open>MYSQL_SOCKET_WAIT_VARIABLES\<close> declares the locker.\<close>

definition MYSQL_START_SOCKET_WAIT ::
  "build \<Rightarrow> psi_service \<Rightarrow> ptr \<Rightarrow> MYSQL_SOCKET \<Rightarrow> PSI_socket_operation \<Rightarrow> size_t \<Rightarrow> src \<Rightarrow>
   ('o psi_world, ptr) state" where
  "MYSQL_START_SOCKET_WAIT b svc locker mysql_socket op count src =
     (if have_psi b INSTR_SOCKET
      then inline_mysql_start_socket_wait svc mysql_socket op count src
      else State_Monad.return locker)"

definition MYSQL_END_SOCKET_WAIT :: "build \<Rightarrow> ptr \<Rightarrow> size_t \<Rightarrow> ('o psi_world, unit) state" where
  "MYSQL_END_SOCKET_WAIT b locker count =
     if_then (have_psi b INSTR_SOCKET) (inline_mysql_end_socket_wait locker count)"

definition MYSQL_SOCKET_SET_STATE ::
  "build \<Rightarrow> MYSQL_SOCKET \<Rightarrow> PSI_socket_state \<Rightarrow> ('o psi_world, unit) state" where
  "MYSQL_SOCKET_SET_STATE b sock st =
     if_then (have_psi b INSTR_SOCKET) (inline_mysql_socket_set_state sock st)"

definition inline_mysql_socket_register :: "string \<Rightarrow> ptr \<Rightarrow> int \<Rightarrow> ('o psi_world, unit) state" where
  "inline_mysql_socket_register category info count =
     psi_tell (PSI_SOCKET_CALL (register_socket category info count))"

definition mysql_socket_register :: "build \<Rightarrow> string \<Rightarrow> ptr \<Rightarrow> int \<Rightarrow> ('o psi_world, unit) state" where
  "mysql_socket_register b category info count =
     if_then (have_psi b INSTR_SOCKET) (inline_mysql_socket_register category info count)"

section \<open>Creating a socket\<close>

definition inline_mysql_socket_socket ::
  "build \<Rightarrow> psi_service \<Rightarrow> 'o socket_sys \<Rightarrow> nat \<Rightarrow> int \<Rightarrow> int \<Rightarrow> int \<Rightarrow> ('o psi_world, MYSQL_SOCKET) state" where
  "inline_mysql_socket_socket b svc sys key domain type protocol =
     do {
       let mysql_socket = mysql_socket_invalid;
       d \<leftarrow> os_call (sys_socket sys domain type protocol);
       let mysql_socket = mysql_socket\<lparr>sock_fd := d\<rparr>;
       if have_psi b INSTR_SOCKET \<and> sock_fd mysql_socket \<noteq> INVALID_SOCKET
       then do {
         p \<leftarrow> psi_ask svc (PSI_SOCKET_CALL (init_socket key (sock_fd mysql_socket) None 0));
         State_Monad.return (mysql_socket\<lparr>m_psi := p\<rparr>) }
       else State_Monad.return mysql_socket
     }"

section \<open>Instrumented calls\<close>

text \<open>The count handed to the system: the \<open>size_t\<close> itself, or cast to \<open>int\<close> on Windows.\<close>

definition io_count :: "build \<Rightarrow> size_t \<Rightarrow> int" where
  "io_count b n = (if win32 b then sint (ucast n :: 32 word) else uint n)"

text \<open>The bytes reported at the end of a transfer: none when it failed.\<close>

definition io_bytes :: "int \<Rightarrow> size_t" where
  "io_bytes result = (if result > -1 then word_of_int result else 0)"

definition inline_mysql_socket_bind ::
  "build \<Rightarrow> psi_service \<Rightarrow> 'o socket_sys \<Rightarrow> src \<Rightarrow> MYSQL_SOCKET \<Rightarrow> ptr \<Rightarrow> nat \<Rightarrow> ('o psi_world, int) state" where
  "inline_mysql_socket_bind b svc sys src mysql_socket addr len =
     (if have_psi b INSTR_SOCKET \<and> m_psi mysql_socket \<noteq> None then do {
        locker \<leftarrow> psi_ask svc (PSI_SOCKET_CALL
                    (start_socket_wait (m_psi mysql_socket) PSI_SOCKET_BIND 0 src));
        result \<leftarrow> os_call (sys_bind sys (sock_fd mysql_socket) addr len);
        if_then (result = 0)
          (psi_tell (PSI_SOCKET_CALL (set_socket_info (m_psi mysql_socket) None addr len)));
        if_then (locker \<noteq> None) (psi_tell (PSI_SOCKET_CALL (end_socket_wait locker 0)));
        State_Monad.return result }
      else os_call (sys_bind sys (sock_fd mysql_socket) addr len))"

definition inline_mysql_socket_getsockname ::
  "build \<Rightarrow> psi_service \<Rightarrow> 'o socket_sys \<Rightarrow> src \<Rightarrow> MYSQL_SOCKET \<Rightarrow> ptr \<Rightarrow> ptr \<Rightarrow> ('o psi_world, int) state" where
  "inline_mysql_socket_getsockname b svc sys src mysql_socket addr len =
     (if have_psi b INSTR_SOCKET \<and> m_psi mysql_socket \<noteq> None then do {
        locker \<leftarrow> psi_ask svc (PSI_SOCKET_CALL
                    (start_socket_wait (m_psi mysql_socket) PSI_SOCKET_BIND 0 src));
        result \<leftarrow> os_call (sys_getsockname sys (sock_fd mysql_socket) addr len);
        if_then (locker \<noteq> None) (psi_tell (PSI_SOCKET_CALL (end_socket_wait locker 0)));
        State_Monad.return result }
      else os_call (sys_getsockname sys (sock_fd mysql_socket) addr len))"

definition inline_mysql_socket_connect ::
  "build \<Rightarrow> psi_service \<Rightarrow> 'o socket_sys \<Rightarrow> src \<Rightarrow> MYSQL_SOCKET \<Rightarrow> ptr \<Rightarrow> nat \<Rightarrow> ('o psi_world, int) state" where
  "inline_mysql_socket_connect b svc sys src mysql_socket addr len =
     (if have_psi b INSTR_SOCKET \<and> m_psi mysql_socket \<noteq> None then do {
        locker \<leftarrow> psi_ask svc (PSI_SOCKET_CALL
                    (start_socket_wait (m_psi mysql_socket) PSI_SOCKET_CONNECT 0 src));
        result \<leftarrow> os_call (sys_connect sys (sock_fd mysql_socket) addr len);
        if_then (locker \<noteq> None) (psi_tell (PSI_SOCKET_CALL (end_socket_wait locker 0)));
        State_Monad.return result }
      else os_call (sys_connect sys (sock_fd mysql_socket) addr len))"

definition inline_mysql_socket_getpeername ::
  "build \<Rightarrow> psi_service \<Rightarrow> 'o socket_sys \<Rightarrow> src \<Rightarrow> MYSQL_SOCKET \<Rightarrow> ptr \<Rightarrow> ptr \<Rightarrow> ('o psi_world, int) state" where
  "inline_mysql_socket_getpeername b svc sys src mysql_socket addr len =
     (if have_psi b INSTR_SOCKET \<and> m_psi mysql_socket \<noteq> None then do {
        locker \<leftarrow> psi_ask svc (PSI_SOCKET_CALL
                    (start_socket_wait (m_psi mysql_socket) PSI_SOCKET_BIND 0 src));
        result \<leftarrow> os_call (sys_getpeername sys (sock_fd mysql_socket) addr len);
        if_then (locker \<noteq> None) (psi_tell (PSI_SOCKET_CALL (end_socket_wait locker 0)));
        State_Monad.return result }
      else os_call (sys_getpeername sys (sock_fd mysql_socket) addr len))"

definition inline_mysql_socket_send ::
  "build \<Rightarrow> psi_service \<Rightarrow> 'o socket_sys \<Rightarrow> src \<Rightarrow> MYSQL_SOCKET \<Rightarrow> ptr \<Rightarrow> size_t \<Rightarrow> int \<Rightarrow> ('o psi_world, int) state" where
  "inline_mysql_socket_send b svc sys src mysql_socket buf n flags =
     (if have_psi b INSTR_SOCKET \<and> m_psi mysql_socket \<noteq> None then do {
        locker \<leftarrow> psi_ask svc (PSI_SOCKET_CALL
                    (start_socket_wait (m_psi mysql_socket) PSI_SOCKET_SEND n src));
        result \<leftarrow> os_call (sys_send sys (sock_fd mysql_socket) buf (io_count b n) flags);
        if_then (locker \<noteq> None) (psi_tell (PSI_SOCKET_CALL (end_socket_wait locker (io_bytes result))));
        State_Monad.return result }
      else os_call (sys_send sys (sock_fd mysql_socket) buf (io_count b n) flags))"

definition inline_mysql_socket_recv ::
  "build \<Rightarrow> psi_service \<Rightarrow> 'o socket_sys \<Rightarrow> src \<Rightarrow> MYSQL_SOCKET \<Rightarrow> ptr \<Rightarrow> size_t \<Rightarrow> int \<Rightarrow> ('o psi_world, int) state" where
  "inline_mysql_socket_recv b svc sys src mysql_socket buf n flags =
     (if have_psi b INSTR_SOCKET \<and> m_psi mysql_socket \<noteq> None then do {
        locker \<leftarrow> psi_ask svc (PSI_SOCKET_CALL
                    (start_socket_wait (m_psi mysql_socket) PSI_SOCKET_RECV 0 src));
        result \<leftarrow> os_call (sys_recv sys (sock_fd mysql_socket) buf (io_count b n) flags);
        if_then (locker \<noteq> None) (psi_tell (PSI_SOCKET_CALL (end_socket_wait locker (io_bytes result))));
        State_Monad.return result }
      else os_call (sys_recv sys (sock_fd mysql_socket) buf (io_count b n) flags))"

definition inline_mysql_socket_sendto ::
  "build \<Rightarrow> psi_service \<Rightarrow> 'o socket_sys \<Rightarrow> src \<Rightarrow> MYSQL_SOCKET \<Rightarrow> ptr \<Rightarrow> size_t \<Rightarrow> int \<Rightarrow> ptr \<Rightarrow> nat \<Rightarrow> ('o psi_world, int) state" where
  "inline_mysql_socket_sendto b svc sys src mysql_socket buf n flags addr addr_len =
     (if have_psi b INSTR_SOCKET \<and> m_psi mysql_socket \<noteq> None then do {
        locker \<leftarrow> psi_ask svc (PSI_SOCKET_CALL
                    (start_socket_wait (m_psi mysql_socket) PSI_SOCKET_SEND n src));
        result \<leftarrow> os_call (sys_sendto sys (sock_fd mysql_socket) buf (io_count b n) flags addr addr_len);
        if_then (locker \<noteq> None) (psi_tell (PSI_SOCKET_CALL (end_socket_wait locker (io_bytes result))));
        State_Monad.return result }
      else os_call (sys_sendto sys (sock_fd mysql_socket) buf (io_count b n) flags addr addr_len))"

definition inline_mysql_socket_recvfrom ::
  "build \<Rightarrow> psi_service \<Rightarrow> 'o socket_sys \<Rightarrow> src \<Rightarrow> MYSQL_SOCKET \<Rightarrow> ptr \<Rightarrow> size_t \<Rightarrow> int \<Rightarrow> ptr \<Rightarrow> ptr \<Rightarrow> ('o psi_world, int) state" where
  "inline_mysql_socket_recvfrom b svc sys src mysql_socket buf n flags addr addr_len =
     (if have_psi b INSTR_SOCKET \<and> m_psi mysql_socket \<noteq> None then do {
        locker \<leftarrow> psi_ask svc (PSI_SOCKET_CALL
                    (start_socket_wait (m_psi mysql_socket) PSI_SOCKET_RECV 0 src));
        result \<leftarrow> os_call (sys_recvfrom sys (sock_fd mysql_socket) buf (io_count b n) flags addr addr_len);
        if_then (locker \<noteq> None) (psi_tell (PSI_SOCKET_CALL (end_socket_wait locker (io_bytes result))));
        State_Monad.return result }
      else os_call (sys_recvfrom sys (sock_fd mysql_socket) buf (io_count b n) flags addr addr_len))"

definition inline_mysql_socket_getsockopt ::
  "build \<Rightarrow> psi_service \<Rightarrow> 'o socket_sys \<Rightarrow> src \<Rightarrow> MYSQL_SOCKET \<Rightarrow> int \<Rightarrow> int \<Rightarrow> ptr \<Rightarrow> ptr \<Rightarrow> ('o psi_world, int) state" where
  "inline_mysql_socket_getsockopt b svc sys src mysql_socket level optname optval optlen =
     (if have_psi b INSTR_SOCKET \<and> m_psi mysql_socket \<noteq> None then do {
        locker \<leftarrow> psi_ask svc (PSI_SOCKET_CALL
                    (start_socket_wait (m_psi mysql_socket) PSI_SOCKET_OPT 0 src));
        result \<leftarrow> os_call (sys_getsockopt sys (sock_fd mysql_socket) level optname optval optlen);
        if_then (locker \<noteq> None) (psi_tell (PSI_SOCKET_CALL (end_socket_wait locker 0)));
        State_Monad.return result }
      else os_call (sys_getsockopt sys (sock_fd mysql_socket) level optname optval optlen))"

definition inline_mysql_socket_setsockopt ::
  "build \<Rightarrow> psi_service \<Rightarrow> 'o socket_sys \<Rightarrow> src \<Rightarrow> MYSQL_SOCKET \<Rightarrow> int \<Rightarrow> int \<Rightarrow> ptr \<Rightarrow> nat \<Rightarrow> ('o psi_world, int) state" where
  "inline_mysql_socket_setsockopt b svc sys src mysql_socket level optname optval optlen =
     (if have_psi b INSTR_SOCKET \<and> m_psi mysql_socket \<noteq> None then do {
        locker \<leftarrow> psi_ask svc (PSI_SOCKET_CALL
                    (start_socket_wait (m_psi mysql_socket) PSI_SOCKET_OPT 0 src));
        result \<leftarrow> os_call (sys_setsockopt sys (sock_fd mysql_socket) level optname optval optlen);
        if_then (locker \<noteq> None) (psi_tell (PSI_SOCKET_CALL (end_socket_wait locker 0)));
        State_Monad.return result }
      else os_call (sys_setsockopt sys (sock_fd mysql_socket) level optname optval optlen))"

text \<open>\<open>F_GETFL\<close>, \<open>F_SETFL\<close> and \<open>O_NONBLOCK\<close> have their Linux values.\<close>

definition set_socket_nonblock :: "build \<Rightarrow> 'o socket_sys \<Rightarrow> int \<Rightarrow> 'o \<Rightarrow> int \<times> 'o" where
  "set_socket_nonblock b sys d s =
     (if win32 b then sys_ioctlsocket sys d 1 s
      else (case sys_fcntl sys d 3 0 s of (fd_flags, s1) \<Rightarrow>
             if fd_flags < 0 then (sys_errno sys s1, s1)
             else (case sys_fcntl sys d 4 (fd_flags OR 2048) s1 of (r, s2) \<Rightarrow>
                    if r = -1 then (sys_errno sys s2, s2) else (0, s2))))"

definition inline_mysql_sock_set_nonblocking ::
  "build \<Rightarrow> psi_service \<Rightarrow> 'o socket_sys \<Rightarrow> src \<Rightarrow> MYSQL_SOCKET \<Rightarrow> ('o psi_world, int) state" where
  "inline_mysql_sock_set_nonblocking b svc sys src mysql_socket =
     (if have_psi b INSTR_SOCKET \<and> m_psi mysql_socket \<noteq> None then do {
        locker \<leftarrow> psi_ask svc (PSI_SOCKET_CALL
                    (start_socket_wait (m_psi mysql_socket) PSI_SOCKET_OPT 0 src));
        result \<leftarrow> os_call (set_socket_nonblock b sys (sock_fd mysql_socket));
        if_then (locker \<noteq> None) (psi_tell (PSI_SOCKET_CALL (end_socket_wait locker 0)));
        State_Monad.return result }
      else os_call (set_socket_nonblock b sys (sock_fd mysql_socket)))"

definition inline_mysql_socket_listen ::
  "build \<Rightarrow> psi_service \<Rightarrow> 'o socket_sys \<Rightarrow> src \<Rightarrow> MYSQL_SOCKET \<Rightarrow> int \<Rightarrow> ('o psi_world, int) state" where
  "inline_mysql_socket_listen b svc sys src mysql_socket backlog =
     (if have_psi b INSTR_SOCKET \<and> m_psi mysql_socket \<noteq> None then do {
        locker \<leftarrow> psi_ask svc (PSI_SOCKET_CALL
                    (start_socket_wait (m_psi mysql_socket) PSI_SOCKET_CONNECT 0 src));
        result \<leftarrow> os_call (sys_listen sys (sock_fd mysql_socket) backlog);
        if_then (locker \<noteq> None) (psi_tell (PSI_SOCKET_CALL (end_socket_wait locker 0)));
        State_Monad.return result }
      else os_call (sys_listen sys (sock_fd mysql_socket) backlog))"

text \<open>\<open>addr_len\<close> is the value behind the caller's pointer, \<open>None\<close> when the pointer is \<open>NULL\<close>. The
  length the system reports is left in the local \<open>addr_length\<close>.\<close>

definition inline_mysql_socket_accept ::
  "build \<Rightarrow> psi_service \<Rightarrow> 'o socket_sys \<Rightarrow> src \<Rightarrow> nat \<Rightarrow> MYSQL_SOCKET \<Rightarrow> ptr \<Rightarrow> nat option \<Rightarrow>
   ('o psi_world, MYSQL_SOCKET) state" where
  "inline_mysql_socket_accept b svc sys src key socket_listen addr addr_len =
     do {
       let socket_accept = mysql_socket_invalid;
       let addr_length = (case addr_len of Some l \<Rightarrow> l | None \<Rightarrow> 0);
       (d, addr_length) \<leftarrow>
         (if have_psi b INSTR_SOCKET \<and> m_psi socket_listen \<noteq> None then do {
            locker \<leftarrow> psi_ask svc (PSI_SOCKET_CALL
                        (start_socket_wait (m_psi socket_listen) PSI_SOCKET_CONNECT 0 src));
            r \<leftarrow> os_call (sys_accept sys (sock_fd socket_listen) addr addr_length);
            if_then (locker \<noteq> None) (psi_tell (PSI_SOCKET_CALL (end_socket_wait locker 0)));
            State_Monad.return r }
          else os_call (sys_accept sys (sock_fd socket_listen) addr addr_length));
       let socket_accept = socket_accept\<lparr>sock_fd := d\<rparr>;
       if have_psi b INSTR_SOCKET \<and> sock_fd socket_accept \<noteq> INVALID_SOCKET
       then do {
         p \<leftarrow> psi_ask svc (PSI_SOCKET_CALL (init_socket key (sock_fd socket_accept) addr addr_length));
         State_Monad.return (socket_accept\<lparr>m_psi := p\<rparr>) }
       else State_Monad.return socket_accept
     }"

definition inline_mysql_socket_close ::
  "build \<Rightarrow> psi_service \<Rightarrow> 'o socket_sys \<Rightarrow> src \<Rightarrow> MYSQL_SOCKET \<Rightarrow> ('o psi_world, int) state" where
  "inline_mysql_socket_close b svc sys src mysql_socket =
     (if have_psi b INSTR_SOCKET \<and> m_psi mysql_socket \<noteq> None then do {
        locker \<leftarrow> psi_ask svc (PSI_SOCKET_CALL
                    (start_socket_wait (m_psi mysql_socket) PSI_SOCKET_CLOSE 0 src));
        result \<leftarrow> os_call (sys_closesocket sys (sock_fd mysql_socket));
        if_then (locker \<noteq> None) (psi_tell (PSI_SOCKET_CALL (end_socket_wait locker 0)));
        if_then (m_psi mysql_socket \<noteq> None)
          (psi_tell (PSI_SOCKET_CALL (destroy_socket (m_psi mysql_socket))));
        State_Monad.return result }
      else os_call (sys_closesocket sys (sock_fd mysql_socket)))"

text \<open>On Windows the first shutdown looks up \<open>DisconnectEx\<close> and keeps it in a static.\<close>

definition find_disconnect_ex :: "build \<Rightarrow> 'o socket_sys \<Rightarrow> MYSQL_SOCKET \<Rightarrow> ('o psi_world, ptr) state" where
  "find_disconnect_ex b sys mysql_socket = do {
     w \<leftarrow> State_Monad.get;
     if win32 b \<and> disconnect_ex w = None
     then do {
       p \<leftarrow> os_call (sys_wsaioctl sys (sock_fd mysql_socket));
       State_Monad.update (\<lambda>w. w\<lparr>disconnect_ex := p\<rparr>);
       State_Monad.return p }
     else State_Monad.return (if win32 b then disconnect_ex w else None) }"

definition do_shutdown :: "'o socket_sys \<Rightarrow> ptr \<Rightarrow> int \<Rightarrow> int \<Rightarrow> 'o \<Rightarrow> int \<times> 'o" where
  "do_shutdown sys DisconnectEx d how s =
     (case DisconnectEx of
        Some f \<Rightarrow> (case sys_DisconnectEx sys f d s of (ok, s1) \<Rightarrow> (if ok then 0 else -1, s1))
      | None \<Rightarrow> sys_shutdown sys d how s)"

definition inline_mysql_socket_shutdown ::
  "build \<Rightarrow> psi_service \<Rightarrow> 'o socket_sys \<Rightarrow> src \<Rightarrow> MYSQL_SOCKET \<Rightarrow> int \<Rightarrow> ('o psi_world, int) state" where
  "inline_mysql_socket_shutdown b svc sys src mysql_socket how = do {
     DisconnectEx \<leftarrow> find_disconnect_ex b sys mysql_socket;
     if have_psi b INSTR_SOCKET \<and> m_psi mysql_socket \<noteq> None then do {
       locker \<leftarrow> psi_ask svc (PSI_SOCKET_CALL
                   (start_socket_wait (m_psi mysql_socket) PSI_SOCKET_SHUTDOWN 0 src));
       result \<leftarrow> os_call (do_shutdown sys DisconnectEx (sock_fd mysql_socket) how);
       if_then (locker \<noteq> None) (psi_tell (PSI_SOCKET_CALL (end_socket_wait locker 0)));
       State_Monad.return result }
     else os_call (do_shutdown sys DisconnectEx (sock_fd mysql_socket) how) }"

section \<open>The macros the callers use\<close>

text \<open>Each expands to its inline function, with the caller's file and line where they are recorded.\<close>

definition mysql_socket_socket ::
  "build \<Rightarrow> psi_service \<Rightarrow> 'o socket_sys \<Rightarrow> src \<Rightarrow> nat \<Rightarrow> int \<Rightarrow> int \<Rightarrow> int \<Rightarrow> ('o psi_world, MYSQL_SOCKET) state" where
  "mysql_socket_socket b svc sys src K D T P = inline_mysql_socket_socket b svc sys K D T P"

definition mysql_socket_bind ::
  "build \<Rightarrow> psi_service \<Rightarrow> 'o socket_sys \<Rightarrow> src \<Rightarrow> MYSQL_SOCKET \<Rightarrow> ptr \<Rightarrow> nat \<Rightarrow> ('o psi_world, int) state" where
  "mysql_socket_bind b svc sys src FD AP L = inline_mysql_socket_bind b svc sys src FD AP L"

definition mysql_socket_getsockname ::
  "build \<Rightarrow> psi_service \<Rightarrow> 'o socket_sys \<Rightarrow> src \<Rightarrow> MYSQL_SOCKET \<Rightarrow> ptr \<Rightarrow> ptr \<Rightarrow> ('o psi_world, int) state" where
  "mysql_socket_getsockname b svc sys src FD AP LP = inline_mysql_socket_getsockname b svc sys src FD AP LP"

definition mysql_socket_connect ::
  "build \<Rightarrow> psi_service \<Rightarrow> 'o socket_sys \<Rightarrow> src \<Rightarrow> MYSQL_SOCKET \<Rightarrow> ptr \<Rightarrow> nat \<Rightarrow> ('o psi_world, int) state" where
  "mysql_socket_connect b svc sys src FD AP L = inline_mysql_socket_connect b svc sys src FD AP L"

definition mysql_socket_getpeername ::
  "build \<Rightarrow> psi_service \<Rightarrow> 'o socket_sys \<Rightarrow> src \<Rightarrow> MYSQL_SOCKET \<Rightarrow> ptr \<Rightarrow> ptr \<Rightarrow> ('o psi_world, int) state" where
  "mysql_socket_getpeername b svc sys src FD AP LP = inline_mysql_socket_getpeername b svc sys src FD AP LP"

definition mysql_socket_send ::
  "build \<Rightarrow> psi_service \<Rightarrow> 'o socket_sys \<Rightarrow> src \<Rightarrow> MYSQL_SOCKET \<Rightarrow> ptr \<Rightarrow> size_t \<Rightarrow> int \<Rightarrow> ('o psi_world, int) state" where
  "mysql_socket_send b svc sys src FD B N FL = inline_mysql_socket_send b svc sys src FD B N FL"

definition mysql_socket_recv ::
  "build \<Rightarrow> psi_service \<Rightarrow> 'o socket_sys \<Rightarrow> src \<Rightarrow> MYSQL_SOCKET \<Rightarrow> ptr \<Rightarrow> size_t \<Rightarrow> int \<Rightarrow> ('o psi_world, int) state" where
  "mysql_socket_recv b svc sys src FD B N FL = inline_mysql_socket_recv b svc sys src FD B N FL"

definition mysql_socket_sendto ::
  "build \<Rightarrow> psi_service \<Rightarrow> 'o socket_sys \<Rightarrow> src \<Rightarrow> MYSQL_SOCKET \<Rightarrow> ptr \<Rightarrow> size_t \<Rightarrow> int \<Rightarrow> ptr \<Rightarrow> nat \<Rightarrow> ('o psi_world, int) state" where
  "mysql_socket_sendto b svc sys src FD B N FL AP L = inline_mysql_socket_sendto b svc sys src FD B N FL AP L"

definition mysql_socket_recvfrom ::
  "build \<Rightarrow> psi_service \<Rightarrow> 'o socket_sys \<Rightarrow> src \<Rightarrow> MYSQL_SOCKET \<Rightarrow> ptr \<Rightarrow> size_t \<Rightarrow> int \<Rightarrow> ptr \<Rightarrow> ptr \<Rightarrow> ('o psi_world, int) state" where
  "mysql_socket_recvfrom b svc sys src FD B N FL AP LP = inline_mysql_socket_recvfrom b svc sys src FD B N FL AP LP"

definition mysql_socket_getsockopt ::
  "build \<Rightarrow> psi_service \<Rightarrow> 'o socket_sys \<Rightarrow> src \<Rightarrow> MYSQL_SOCKET \<Rightarrow> int \<Rightarrow> int \<Rightarrow> ptr \<Rightarrow> ptr \<Rightarrow> ('o psi_world, int) state" where
  "mysql_socket_getsockopt b svc sys src FD LV ON OP OL = inline_mysql_socket_getsockopt b svc sys src FD LV ON OP OL"

definition mysql_socket_setsockopt ::
  "build \<Rightarrow> psi_service \<Rightarrow> 'o socket_sys \<Rightarrow> src \<Rightarrow> MYSQL_SOCKET \<Rightarrow> int \<Rightarrow> int \<Rightarrow> ptr \<Rightarrow> nat \<Rightarrow> ('o psi_world, int) state" where
  "mysql_socket_setsockopt b svc sys src FD LV ON OP OL = inline_mysql_socket_setsockopt b svc sys src FD LV ON OP OL"

definition mysql_sock_set_nonblocking ::
  "build \<Rightarrow> psi_service \<Rightarrow> 'o socket_sys \<Rightarrow> src \<Rightarrow> MYSQL_SOCKET \<Rightarrow> ('o psi_world, int) state" where
  "mysql_sock_set_nonblocking b svc sys src FD = inline_mysql_sock_set_nonblocking b svc sys src FD"

definition mysql_socket_listen ::
  "build \<Rightarrow> psi_service \<Rightarrow> 'o socket_sys \<Rightarrow> src \<Rightarrow> MYSQL_SOCKET \<Rightarrow> int \<Rightarrow> ('o psi_world, int) state" where
  "mysql_socket_listen b svc sys src FD N = inline_mysql_socket_listen b svc sys src FD N"

definition mysql_socket_accept ::
  "build \<Rightarrow> psi_service \<Rightarrow> 'o socket_sys \<Rightarrow> src \<Rightarrow> nat \<Rightarrow> MYSQL_SOCKET \<Rightarrow> ptr \<Rightarrow> nat option \<Rightarrow> ('o psi_world, MYSQL_SOCKET) state" where
  "mysql_socket_accept b svc sys src K FD AP LP = inline_mysql_socket_accept b svc sys src K FD AP LP"

definition mysql_socket_close ::
  "build \<Rightarrow> psi_service \<Rightarrow> 'o socket_sys \<Rightarrow> src \<Rightarrow> MYSQL_SOCKET \<Rightarrow> ('o psi_world, int) state" where
  "mysql_socket_close b svc sys src FD = inline_mysql_socket_close b svc sys src FD"

definition mysql_socket_shutdown ::
  "build \<Rightarrow> psi_service \<Rightarrow> 'o socket_sys \<Rightarrow> src \<Rightarrow> MYSQL_SOCKET \<Rightarrow> int \<Rightarrow> ('o psi_world, int) state" where
  "mysql_socket_shutdown b svc sys src FD H = inline_mysql_socket_shutdown b svc sys src FD H"

section \<open>Every wrapper is an instrumented call\<close>

abbreviation socket_active :: "build \<Rightarrow> MYSQL_SOCKET \<Rightarrow> bool" where
  "socket_active b s \<equiv> have_psi b INSTR_SOCKET \<and> m_psi s \<noteq> None"

definition socket_wait ::
  "build \<Rightarrow> psi_service \<Rightarrow> psi_log \<Rightarrow> MYSQL_SOCKET \<Rightarrow> PSI_socket_operation \<Rightarrow> size_t \<Rightarrow> src \<Rightarrow>
   socket_call list \<Rightarrow> size_t \<Rightarrow> socket_call list \<Rightarrow> psi_log" where
  "socket_wait b svc log s op count src mid bytes post =
     wait_log (socket_active b s) svc log
       (PSI_SOCKET_CALL (start_socket_wait (m_psi s) op count src))
       (map PSI_SOCKET_CALL mid)
       (\<lambda>l. PSI_SOCKET_CALL (end_socket_wait l bytes))
       (map PSI_SOCKET_CALL post)"

fun socket_neutral :: "socket_call \<Rightarrow> bool" where
  "socket_neutral (start_socket_wait _ _ _ _) = False"
| "socket_neutral (end_socket_wait _ _) = False"
| "socket_neutral _ = True"

definition accept_log ::
  "build \<Rightarrow> psi_service \<Rightarrow> psi_log \<Rightarrow> MYSQL_SOCKET \<Rightarrow> src \<Rightarrow> psi_log" where
  "accept_log b svc log s src = log @ socket_wait b svc log s PSI_SOCKET_CONNECT 0 src [] 0 []"

text \<open>The waits around an acceptance, and around a shutdown whichever way it is done.\<close>

definition accept_wait ::
  "build \<Rightarrow> psi_service \<Rightarrow> 'o socket_sys \<Rightarrow> src \<Rightarrow> MYSQL_SOCKET \<Rightarrow> ptr \<Rightarrow> nat \<Rightarrow>
   ('o psi_world, int \<times> nat) state" where
  "accept_wait b svc sys src s addr n =
     (if socket_active b s then do {
        locker \<leftarrow> psi_ask svc (PSI_SOCKET_CALL (start_socket_wait (m_psi s) PSI_SOCKET_CONNECT 0 src));
        r \<leftarrow> os_call (sys_accept sys (sock_fd s) addr n);
        if_then (locker \<noteq> None) (psi_tell (PSI_SOCKET_CALL (end_socket_wait locker 0)));
        State_Monad.return r }
      else os_call (sys_accept sys (sock_fd s) addr n))"

definition shutdown_wait ::
  "build \<Rightarrow> psi_service \<Rightarrow> 'o socket_sys \<Rightarrow> src \<Rightarrow> MYSQL_SOCKET \<Rightarrow> int \<Rightarrow> ptr \<Rightarrow> ('o psi_world, int) state" where
  "shutdown_wait b svc sys src s how f =
     (if socket_active b s then do {
        locker \<leftarrow> psi_ask svc (PSI_SOCKET_CALL (start_socket_wait (m_psi s) PSI_SOCKET_SHUTDOWN 0 src));
        result \<leftarrow> os_call (do_shutdown sys f (sock_fd s) how);
        if_then (locker \<noteq> None) (psi_tell (PSI_SOCKET_CALL (end_socket_wait locker 0)));
        State_Monad.return result }
      else os_call (do_shutdown sys f (sock_fd s) how))"

text \<open>
  What a \<open>MYSQL_SOCKET\<close> is: its hook is \<open>NULL\<close> in a build without the interface and on an
  invalid descriptor, and otherwise one the service returned for that descriptor.
\<close>

definition socket_ok :: "build \<Rightarrow> psi_log \<Rightarrow> MYSQL_SOCKET \<Rightarrow> bool" where
  "socket_ok b log s \<longleftrightarrow>
     (\<not> have_psi b INSTR_SOCKET \<or> sock_fd s = INVALID_SOCKET \<longrightarrow> m_psi s = None)
   \<and> (\<forall>p. m_psi s = Some p \<longrightarrow>
        (\<exists>key addr n. (PSI_SOCKET_CALL (init_socket key (sock_fd s) addr n), Some p) \<in> set log))"

text \<open>A system in which every call succeeds, a transfer moves everything and connections arrive
  on descriptor 4; its state counts the calls.\<close>

definition demo_sys :: "nat socket_sys" where
  "demo_sys = \<lparr>
     sys_socket = (\<lambda>d t p s. (3, Suc s)),
     sys_bind = (\<lambda>d a n s. (0, Suc s)),
     sys_getsockname = (\<lambda>d a n s. (0, Suc s)),
     sys_connect = (\<lambda>d a n s. (0, Suc s)),
     sys_getpeername = (\<lambda>d a n s. (0, Suc s)),
     sys_send = (\<lambda>d buf n fl s. (n, Suc s)),
     sys_recv = (\<lambda>d buf n fl s. (n, Suc s)),
     sys_sendto = (\<lambda>d buf n fl a an s. (n, Suc s)),
     sys_recvfrom = (\<lambda>d buf n fl a ap s. (n, Suc s)),
     sys_getsockopt = (\<lambda>d lv ot ov np s. (0, Suc s)),
     sys_setsockopt = (\<lambda>d lv ot ov n s. (0, Suc s)),
     sys_ioctlsocket = (\<lambda>d v s. (0, Suc s)),
     sys_fcntl = (\<lambda>d c v s. (0, Suc s)),
     sys_errno = (\<lambda>s. 0),
     sys_listen = (\<lambda>d n s. (0, Suc s)),
     sys_accept = (\<lambda>d a n s. ((4, n), Suc s)),
     sys_closesocket = (\<lambda>d s. (0, Suc s)),
     sys_shutdown = (\<lambda>d h s. (0, Suc s)),
     sys_wsaioctl = (\<lambda>d s. (None, Suc s)),
     sys_DisconnectEx = (\<lambda>f d s. (True, Suc s))\<rparr>"

lemma neutral_socket: "list_all socket_neutral es \<Longrightarrow> list_all neutral (map PSI_SOCKET_CALL es)"
  by (induction es) (auto simp: neutral_def split: socket_call.split)

lemma bracket_socket_wait [simp]:
  "list_all socket_neutral mid \<Longrightarrow> list_all socket_neutral post \<Longrightarrow>
   bracket st (socket_wait b svc log s op count src mid bytes post) = Some st"
  unfolding socket_wait_def by (rule bracket_wait_log) (simp_all add: neutral_socket)

lemmas socket_call_simps = psi_simps socket_wait_def wait_log_def Let_def

interpretation sk_bind: instrumented_call
  "inline_mysql_socket_bind b svc sys src s addr len"
  "sys_bind sys (sock_fd s) addr len"
  "\<lambda>log r. socket_wait b svc log s PSI_SOCKET_BIND 0 src (if r = 0 then [set_socket_info (m_psi s) None addr len] else []) 0 []"
  for b svc sys src s addr len
  by (unfold_locales, simp add: inline_mysql_socket_bind_def socket_call_simps, simp)

interpretation sk_getsockname: instrumented_call
  "inline_mysql_socket_getsockname b svc sys src s addr len"
  "sys_getsockname sys (sock_fd s) addr len"
  "\<lambda>log r. socket_wait b svc log s PSI_SOCKET_BIND 0 src [] 0 []"
  for b svc sys src s addr len
  by (unfold_locales, simp add: inline_mysql_socket_getsockname_def socket_call_simps, simp)

interpretation sk_connect: instrumented_call
  "inline_mysql_socket_connect b svc sys src s addr len"
  "sys_connect sys (sock_fd s) addr len"
  "\<lambda>log r. socket_wait b svc log s PSI_SOCKET_CONNECT 0 src [] 0 []"
  for b svc sys src s addr len
  by (unfold_locales, simp add: inline_mysql_socket_connect_def socket_call_simps, simp)

interpretation sk_getpeername: instrumented_call
  "inline_mysql_socket_getpeername b svc sys src s addr len"
  "sys_getpeername sys (sock_fd s) addr len"
  "\<lambda>log r. socket_wait b svc log s PSI_SOCKET_BIND 0 src [] 0 []"
  for b svc sys src s addr len
  by (unfold_locales, simp add: inline_mysql_socket_getpeername_def socket_call_simps, simp)

interpretation sk_send: instrumented_call
  "inline_mysql_socket_send b svc sys src s buf n flags"
  "sys_send sys (sock_fd s) buf (io_count b n) flags"
  "\<lambda>log r. socket_wait b svc log s PSI_SOCKET_SEND n src [] (io_bytes r) []"
  for b svc sys src s buf n flags
  by (unfold_locales, simp add: inline_mysql_socket_send_def socket_call_simps, simp)

interpretation sk_recv: instrumented_call
  "inline_mysql_socket_recv b svc sys src s buf n flags"
  "sys_recv sys (sock_fd s) buf (io_count b n) flags"
  "\<lambda>log r. socket_wait b svc log s PSI_SOCKET_RECV 0 src [] (io_bytes r) []"
  for b svc sys src s buf n flags
  by (unfold_locales, simp add: inline_mysql_socket_recv_def socket_call_simps, simp)

interpretation sk_sendto: instrumented_call
  "inline_mysql_socket_sendto b svc sys src s buf n flags addr addr_len"
  "sys_sendto sys (sock_fd s) buf (io_count b n) flags addr addr_len"
  "\<lambda>log r. socket_wait b svc log s PSI_SOCKET_SEND n src [] (io_bytes r) []"
  for b svc sys src s buf n flags addr addr_len
  by (unfold_locales, simp add: inline_mysql_socket_sendto_def socket_call_simps, simp)

interpretation sk_recvfrom: instrumented_call
  "inline_mysql_socket_recvfrom b svc sys src s buf n flags addr addr_len"
  "sys_recvfrom sys (sock_fd s) buf (io_count b n) flags addr addr_len"
  "\<lambda>log r. socket_wait b svc log s PSI_SOCKET_RECV 0 src [] (io_bytes r) []"
  for b svc sys src s buf n flags addr addr_len
  by (unfold_locales, simp add: inline_mysql_socket_recvfrom_def socket_call_simps, simp)

interpretation sk_getsockopt: instrumented_call
  "inline_mysql_socket_getsockopt b svc sys src s level optname optval optlen"
  "sys_getsockopt sys (sock_fd s) level optname optval optlen"
  "\<lambda>log r. socket_wait b svc log s PSI_SOCKET_OPT 0 src [] 0 []"
  for b svc sys src s level optname optval optlen
  by (unfold_locales, simp add: inline_mysql_socket_getsockopt_def socket_call_simps, simp)

interpretation sk_setsockopt: instrumented_call
  "inline_mysql_socket_setsockopt b svc sys src s level optname optval optlen"
  "sys_setsockopt sys (sock_fd s) level optname optval optlen"
  "\<lambda>log r. socket_wait b svc log s PSI_SOCKET_OPT 0 src [] 0 []"
  for b svc sys src s level optname optval optlen
  by (unfold_locales, simp add: inline_mysql_socket_setsockopt_def socket_call_simps, simp)

interpretation sk_listen: instrumented_call
  "inline_mysql_socket_listen b svc sys src s backlog"
  "sys_listen sys (sock_fd s) backlog"
  "\<lambda>log r. socket_wait b svc log s PSI_SOCKET_CONNECT 0 src [] 0 []"
  for b svc sys src s backlog
  by (unfold_locales, simp add: inline_mysql_socket_listen_def socket_call_simps, simp)

interpretation sk_nonblocking: instrumented_call
  "inline_mysql_sock_set_nonblocking b svc sys src s"
  "set_socket_nonblock b sys (sock_fd s)"
  "\<lambda>log r. socket_wait b svc log s PSI_SOCKET_OPT 0 src [] 0 []"
  for b svc sys src s
  by (unfold_locales, simp add: inline_mysql_sock_set_nonblocking_def socket_call_simps, simp)

interpretation sk_close: instrumented_call
  "inline_mysql_socket_close b svc sys src s"
  "sys_closesocket sys (sock_fd s)"
  "\<lambda>log r. socket_wait b svc log s PSI_SOCKET_CLOSE 0 src [] 0 [destroy_socket (m_psi s)]"
  for b svc sys src s
  by (unfold_locales, simp add: inline_mysql_socket_close_def socket_call_simps, simp)

section \<open>Creation, acceptance and shutdown\<close>

lemma run_socket:
  "run_state (inline_mysql_socket_socket b svc sys key domain type protocol) w =
   (let (d, s) = sys_socket sys domain type protocol (os_state w);
        call = PSI_SOCKET_CALL (init_socket key d None 0);
        init = have_psi b INSTR_SOCKET \<and> d \<noteq> INVALID_SOCKET
    in (\<lparr>sock_fd = d, m_psi = if init then svc (psi_log w) call else None\<rparr>,
        w\<lparr>os_state := s,
          psi_log := psi_log w @ (if init then [(call, svc (psi_log w) call)] else [])\<rparr>))"
  by (simp add: inline_mysql_socket_socket_def mysql_socket_invalid_def psi_simps Let_def
      split: prod.split)

interpretation sk_accept: instrumented_call
  "accept_wait b svc sys src s addr n"
  "sys_accept sys (sock_fd s) addr n"
  "\<lambda>log r. socket_wait b svc log s PSI_SOCKET_CONNECT 0 src [] 0 []"
  for b svc sys src s addr n
  by (unfold_locales, simp add: accept_wait_def socket_call_simps, simp)

lemma run_accept:
  "run_state (inline_mysql_socket_accept b svc sys src key s addr addr_len) w =
   (let ((d, n), st) = sys_accept sys (sock_fd s) addr (case addr_len of Some l \<Rightarrow> l | None \<Rightarrow> 0) (os_state w);
        log = accept_log b svc (psi_log w) s src;
        call = PSI_SOCKET_CALL (init_socket key d addr n);
        init = have_psi b INSTR_SOCKET \<and> d \<noteq> INVALID_SOCKET
    in (\<lparr>sock_fd = d, m_psi = if init then svc log call else None\<rparr>,
        w\<lparr>os_state := st, psi_log := log @ (if init then [(call, svc log call)] else [])\<rparr>))"
  unfolding inline_mysql_socket_accept_def Let_def accept_wait_def [symmetric] run_bind sk_accept.run
  by (auto simp: mysql_socket_invalid_def accept_log_def psi_simps split: prod.split)

lemma keeps_waits_socket: "keeps_waits (inline_mysql_socket_socket b svc sys key domain type protocol)"
  by (simp add: keeps_waits_def run_socket Let_def bracket_append bracket_step_def split: prod.split)

lemma keeps_waits_accept: "keeps_waits (inline_mysql_socket_accept b svc sys src key s addr addr_len)"
  by (simp add: keeps_waits_def run_accept accept_log_def Let_def bracket_append bracket_step_def
      split: prod.split)

lemma shutdown_split:
  "inline_mysql_socket_shutdown b svc sys src s how =
   State_Monad.bind (find_disconnect_ex b sys s) (shutdown_wait b svc sys src s how)"
  unfolding inline_mysql_socket_shutdown_def
  by (rule arg_cong [where f = "State_Monad.bind _"]) (simp add: shutdown_wait_def fun_eq_iff)

interpretation sk_shutdown: instrumented_call
  "shutdown_wait b svc sys src s how f"
  "do_shutdown sys f (sock_fd s) how"
  "\<lambda>log r. socket_wait b svc log s PSI_SOCKET_SHUTDOWN 0 src [] 0 []"
  for b svc sys src s how f
  by (unfold_locales, simp add: shutdown_wait_def socket_call_simps, simp)

lemma run_get [psi_simps]: "run_state State_Monad.get w = (w, w)"
  by (simp add: State_Monad.get_def)

lemma run_update [psi_simps]: "run_state (State_Monad.update f) w = ((), f w)"
  by (simp add: State_Monad.update_def State_Monad.set_def psi_simps)

lemma keeps_waits_find: "keeps_waits (find_disconnect_ex b sys s)"
  by (simp add: keeps_waits_def find_disconnect_ex_def psi_simps)

lemma keeps_waits_shutdown: "keeps_waits (inline_mysql_socket_shutdown b svc sys src s how)"
  unfolding shutdown_split by (rule keeps_waits_bind [OF keeps_waits_find sk_shutdown.waits_kept])

lemma transparent_shutdown:
  fixes sys :: "'o socket_sys"
  assumes "\<not> win32 b"
  shows "transparent (inline_mysql_socket_shutdown b svc sys src s how) (sys_shutdown sys (sock_fd s) how)"
proof -
  have "find_disconnect_ex b sys s = (State_Monad.return None :: ('o psi_world, ptr) state)"
    using assms by (auto simp: find_disconnect_ex_def State_Monad.bind_def State_Monad.get_def
        State_Monad.return_def)
  then have "transparent (inline_mysql_socket_shutdown b svc sys src s how)
      (do_shutdown sys None (sock_fd s) how)"
    using sk_shutdown.is_transparent [of b svc sys src s how None]
    by (simp add: shutdown_split transparent_def psi_simps)
  moreover have "do_shutdown sys None (sock_fd s) how = sys_shutdown sys (sock_fd s) how"
    by (simp add: do_shutdown_def fun_eq_iff)
  ultimately show ?thesis by simp
qed

section \<open>Properties\<close>

lemmas socket_macros = mysql_socket_socket_def mysql_socket_bind_def mysql_socket_getsockname_def
  mysql_socket_connect_def mysql_socket_getpeername_def mysql_socket_send_def mysql_socket_recv_def
  mysql_socket_sendto_def mysql_socket_recvfrom_def mysql_socket_getsockopt_def
  mysql_socket_setsockopt_def mysql_sock_set_nonblocking_def mysql_socket_listen_def
  mysql_socket_accept_def mysql_socket_close_def mysql_socket_shutdown_def

lemma io_count_without [simp]: "io_count (without_psi b) n = io_count b n"
  by (simp add: io_count_def)

lemma set_socket_nonblock_without [simp]: "set_socket_nonblock (without_psi b) = set_socket_nonblock b"
  by (simp add: set_socket_nonblock_def fun_eq_iff)

lemmas socket_runs = sk_bind.run sk_getsockname.run sk_connect.run sk_getpeername.run sk_send.run
  sk_recv.run sk_sendto.run sk_recvfrom.run sk_getsockopt.run sk_setsockopt.run sk_nonblocking.run
  sk_listen.run sk_close.run

lemmas socket_waits = sk_bind.waits_kept sk_getsockname.waits_kept sk_connect.waits_kept
  sk_getpeername.waits_kept sk_send.waits_kept sk_recv.waits_kept sk_sendto.waits_kept
  sk_recvfrom.waits_kept sk_getsockopt.waits_kept sk_setsockopt.waits_kept sk_nonblocking.waits_kept
  sk_listen.waits_kept sk_close.waits_kept keeps_waits_socket keeps_waits_accept
  keeps_waits_shutdown

lemma same_socket:
  "same_system sock_fd (inline_mysql_socket_socket b svc sys key domain type protocol)
     (inline_mysql_socket_socket (without_psi b) svc' sys key domain type protocol)"
  by (simp add: same_system_def run_socket Let_def split: prod.split)

lemma same_accept:
  "same_system sock_fd (inline_mysql_socket_accept b svc sys src key s addr n)
     (inline_mysql_socket_accept (without_psi b) svc' sys src key s addr n)"
  by (simp add: same_system_def run_accept Let_def split: prod.split)

lemma same_shutdown:
  fixes sys :: "'o socket_sys"
  shows "same_system id (inline_mysql_socket_shutdown b svc sys src s how)
     (inline_mysql_socket_shutdown (without_psi b) svc' sys src s how)"
proof -
  have "find_disconnect_ex (without_psi b) sys s = find_disconnect_ex b sys s"
    unfolding find_disconnect_ex_def win32_without ..
  then show ?thesis
    by (simp add: shutdown_split same_system_def run_bind sk_shutdown.run case_prod_beta)
      (simp add: find_disconnect_ex_def psi_simps)
qed

text \<open>C23. A build with socket instrumentation and the same build without it treat the system alike.
  From states of the system that agree, whatever the service answers and whatever it was told
  before, each socket call of the API returns the same value (for \<open>mysql_socket_socket\<close> and
  \<open>mysql_socket_accept\<close>, a socket with the same descriptor) and leaves the system in the same
  state.\<close>

theorem socket_builds_agree:
  fixes b :: build and svc svc' :: psi_service and sys :: "'o socket_sys"
  defines "b' \<equiv> without_psi b"
  shows
    "same_system sock_fd (mysql_socket_socket b svc sys src k d t p) (mysql_socket_socket b' svc' sys src k d t p)
   \<and> same_system id (mysql_socket_bind b svc sys src s a n) (mysql_socket_bind b' svc' sys src s a n)
   \<and> same_system id (mysql_socket_getsockname b svc sys src s a np) (mysql_socket_getsockname b' svc' sys src s a np)
   \<and> same_system id (mysql_socket_connect b svc sys src s a n) (mysql_socket_connect b' svc' sys src s a n)
   \<and> same_system id (mysql_socket_getpeername b svc sys src s a np) (mysql_socket_getpeername b' svc' sys src s a np)
   \<and> same_system id (mysql_socket_send b svc sys src s buf len fl) (mysql_socket_send b' svc' sys src s buf len fl)
   \<and> same_system id (mysql_socket_recv b svc sys src s buf len fl) (mysql_socket_recv b' svc' sys src s buf len fl)
   \<and> same_system id (mysql_socket_sendto b svc sys src s buf len fl a n) (mysql_socket_sendto b' svc' sys src s buf len fl a n)
   \<and> same_system id (mysql_socket_recvfrom b svc sys src s buf len fl a np) (mysql_socket_recvfrom b' svc' sys src s buf len fl a np)
   \<and> same_system id (mysql_socket_getsockopt b svc sys src s lv ot ov np) (mysql_socket_getsockopt b' svc' sys src s lv ot ov np)
   \<and> same_system id (mysql_socket_setsockopt b svc sys src s lv ot ov n) (mysql_socket_setsockopt b' svc' sys src s lv ot ov n)
   \<and> same_system id (mysql_sock_set_nonblocking b svc sys src s) (mysql_sock_set_nonblocking b' svc' sys src s)
   \<and> same_system id (mysql_socket_listen b svc sys src s backlog) (mysql_socket_listen b' svc' sys src s backlog)
   \<and> same_system sock_fd (mysql_socket_accept b svc sys src k s a lp) (mysql_socket_accept b' svc' sys src k s a lp)
   \<and> same_system id (mysql_socket_close b svc sys src s) (mysql_socket_close b' svc' sys src s)
   \<and> same_system id (mysql_socket_shutdown b svc sys src s how) (mysql_socket_shutdown b' svc' sys src s how)"
  unfolding socket_macros b'_def
  by (intro conjI same_socket same_accept same_shutdown)
    (simp_all add: same_system_def socket_runs)

text \<open>C30. Every wait that a socket call reports is closed before the call returns, by an end that
  names the locker its start returned: a log in which the open waits nest has the same open waits
  after any call of the API.\<close>

theorem socket_waits_nest:
  "keeps_waits (mysql_socket_socket b svc sys src k d t p)
   \<and> keeps_waits (mysql_socket_bind b svc sys src s a n)
   \<and> keeps_waits (mysql_socket_getsockname b svc sys src s a np)
   \<and> keeps_waits (mysql_socket_connect b svc sys src s a n)
   \<and> keeps_waits (mysql_socket_getpeername b svc sys src s a np)
   \<and> keeps_waits (mysql_socket_send b svc sys src s buf len fl)
   \<and> keeps_waits (mysql_socket_recv b svc sys src s buf len fl)
   \<and> keeps_waits (mysql_socket_sendto b svc sys src s buf len fl a n)
   \<and> keeps_waits (mysql_socket_recvfrom b svc sys src s buf len fl a np)
   \<and> keeps_waits (mysql_socket_getsockopt b svc sys src s lv ot ov np)
   \<and> keeps_waits (mysql_socket_setsockopt b svc sys src s lv ot ov n)
   \<and> keeps_waits (mysql_sock_set_nonblocking b svc sys src s)
   \<and> keeps_waits (mysql_socket_listen b svc sys src s backlog)
   \<and> keeps_waits (mysql_socket_accept b svc sys src k s a lp)
   \<and> keeps_waits (mysql_socket_close b svc sys src s)
   \<and> keeps_waits (mysql_socket_shutdown b svc sys src s how)"
  unfolding socket_macros by (intro conjI socket_waits)

text \<open>What a transfer reports: on an instrumented socket one start with the operation and, for a
  send, the bytes asked for, and, when the service returned a locker, one end with the bytes the
  system moved, zero when it failed. A receive announces no bytes, and \<open>sendto\<close> and \<open>recvfrom\<close> are
  reported as plain sends and receives. A socket without a hook reports nothing.\<close>

theorem transfers_reported:
  fixes sys :: "'o socket_sys"
  assumes m: "m = mysql_socket_send b svc sys src s buf n fl \<and> op = PSI_SOCKET_SEND \<and> asked = n
     \<or> m = mysql_socket_sendto b svc sys src s buf n fl a an \<and> op = PSI_SOCKET_SEND \<and> asked = n
     \<or> m = mysql_socket_recv b svc sys src s buf n fl \<and> op = PSI_SOCKET_RECV \<and> asked = 0
     \<or> m = mysql_socket_recvfrom b svc sys src s buf n fl a ap \<and> op = PSI_SOCKET_RECV \<and> asked = 0"
    and r: "run_state m w = (r, w')"
  shows "psi_log w' = psi_log w @
     (if have_psi b INSTR_SOCKET \<and> m_psi s \<noteq> None
      then (let start = PSI_SOCKET_CALL (start_socket_wait (m_psi s) op asked src);
                locker = svc (psi_log w) start
            in (start, locker)
               # (if locker = None then []
                  else [(PSI_SOCKET_CALL (end_socket_wait locker (if 0 \<le> r then word_of_int r else 0)), None)]))
      else [])"
  using m r unfolding socket_macros
  by (elim disjE conjE)
    (auto simp: sk_send.run sk_sendto.run sk_recv.run sk_recvfrom.run socket_wait_def wait_log_def
      io_bytes_def Let_def)

theorem transfers_reported_witness:
  "\<exists>w'. run_state (mysql_socket_sendto full_build counting_service demo_sys (''vio.c'', 1)
         \<lparr>sock_fd = 3, m_psi = Some 9\<rparr> (Some 64) 10 0 None 0) (start_world 0) = (10, w')
     \<and> psi_log w' = [(PSI_SOCKET_CALL (start_socket_wait (Some 9) PSI_SOCKET_SEND 10 (''vio.c'', 1)), Some 0),
                     (PSI_SOCKET_CALL (end_socket_wait (Some 0) 10), None)]"
proof -
  obtain r w' where run: "run_state (mysql_socket_sendto full_build counting_service demo_sys
      (''vio.c'', 1) \<lparr>sock_fd = 3, m_psi = Some 9\<rparr> (Some 64) 10 0 None 0) (start_world 0) = (r, w')"
    by fastforce
  then have "r = 10"
    by (auto simp: socket_macros sk_sendto.run demo_sys_def io_count_def full_build_def)
  then show ?thesis
    using run transfers_reported [where m = "mysql_socket_sendto full_build counting_service demo_sys
        (''vio.c'', 1) \<lparr>sock_fd = 3, m_psi = Some 9\<rparr> (Some 64) 10 0 None 0" and b = full_build
        and svc = counting_service and sys = demo_sys and src = "(''vio.c'', 1)"
        and s = "\<lparr>sock_fd = 3, m_psi = Some 9\<rparr>" and buf = "Some 64" and n = 10 and fl = 0
        and a = None and an = 0 and op = PSI_SOCKET_SEND and asked = 10 and w = "start_world 0"
        and r = r and w' = w']
    by (simp add: Let_def start_world_def counting_service_def)
qed

lemma socket_ok_new:
  fixes b d key addr n r
  defines "init \<equiv> have_psi b INSTR_SOCKET \<and> d \<noteq> INVALID_SOCKET"
  shows "socket_ok b (log @ (if init then [(PSI_SOCKET_CALL (init_socket key d addr n), r)] else []))
    \<lparr>sock_fd = d, m_psi = if init then r else None\<rparr>"
proof (cases init)
  case True
  have "\<exists>k a m. (PSI_SOCKET_CALL (init_socket k d a m), r)
      \<in> set (log @ [(PSI_SOCKET_CALL (init_socket key d addr n), r)])"
    by (intro exI [of _ key] exI [of _ addr] exI [of _ n]) simp
  with True show ?thesis unfolding init_def socket_ok_def by (auto simp del: set_append)
next
  case False
  then show ?thesis by (auto simp: socket_ok_def init_def)
qed

lemma socket_ok_socket:
  assumes "run_state (inline_mysql_socket_socket b svc sys k d t p) w = (s, w')"
  shows "socket_ok b (psi_log w') s"
  using assms socket_ok_new [of b "psi_log w"] by (auto simp: run_socket Let_def split: prod.splits)

lemma socket_ok_accept:
  assumes "run_state (inline_mysql_socket_accept b svc sys src k l a lp) w = (s, w')"
  shows "socket_ok b (psi_log w') s"
  using assms socket_ok_new [of b "accept_log b svc (psi_log w) l src"]
  by (auto simp: run_accept Let_def split: prod.splits)

lemma socket_ok_mono: "socket_ok b log s \<Longrightarrow> socket_ok b (log @ log') s"
  by (auto simp: socket_ok_def)

lemma socket_ok_invalid: "socket_ok b log mysql_socket_invalid"
  by (simp add: socket_ok_def mysql_socket_invalid_def)

text \<open>C33. The sockets the API hands out are well formed, and stay so: the socket that
  \<open>mysql_socket_socket\<close> or \<open>mysql_socket_accept\<close> returns has a hook only in an instrumented build
  and on a valid descriptor, and that hook is one the service returned for this very descriptor;
  this is kept as the log of the service grows.\<close>

theorem sockets_well_formed:
  "(run_state (mysql_socket_socket b svc sys src k d t p) w = (s, w') \<longrightarrow> socket_ok b (psi_log w') s)
   \<and> (run_state (mysql_socket_accept b svc sys src k l a lp) w = (s, w') \<longrightarrow> socket_ok b (psi_log w') s)
   \<and> (socket_ok b log s \<longrightarrow> socket_ok b (log @ log') s)
   \<and> socket_ok b log mysql_socket_invalid"
  unfolding socket_macros
  by (intro conjI impI socket_ok_invalid socket_ok_mono) (auto intro: socket_ok_socket socket_ok_accept)

theorem sockets_well_formed_witness:
  "\<exists>s w'. run_state (mysql_socket_accept full_build counting_service demo_sys (''vio.c'', 1) 7
         \<lparr>sock_fd = 3, m_psi = Some 9\<rparr> None None) (start_world 0) = (s, w')
     \<and> s = \<lparr>sock_fd = 4, m_psi = Some 2\<rparr> \<and> socket_ok full_build (psi_log w') s"
proof -
  obtain s w' where run: "run_state (mysql_socket_accept full_build counting_service demo_sys
      (''vio.c'', 1) 7 \<lparr>sock_fd = 3, m_psi = Some 9\<rparr> None None) (start_world 0) = (s, w')"
    by fastforce
  then have "s = \<lparr>sock_fd = 4, m_psi = Some 2\<rparr>"
    by (auto simp: socket_macros run_accept accept_log_def socket_wait_def wait_log_def
        counting_service_def demo_sys_def start_world_def Let_def)
  then show ?thesis using run sockets_well_formed by blast
qed

end
