(* ===== verification/Mysql_File.thy ===== *)
theory Mysql_File
  imports Psi_Prelude
begin

text \<open>
  The instrumented files of \<open>mysql_file.h\<close>: one definition per inline function, in the order of the
  header. \<open>b\<close> is the build, \<open>svc\<close> the instrumentation service, \<open>lib\<close> the \<open>stdio\<close> and \<open>mysys\<close>
  functions the wrappers call (the \<open>mysys\<close> library is not part of the sources), \<open>src\<close> the file and
  line of the caller, \<open>key\<close> the key of the instrument. A \<open>FILE *\<close> is a pointer; \<open>lib_fgets\<close> returns
  what the buffer then holds, \<open>lib_create_temp_file\<close> also the name it generated.
\<close>

unbundle bit_operations_syntax

section \<open>Library calls\<close>

record 'o file_lib =
  lib_fgets :: "ptr \<Rightarrow> int \<Rightarrow> ptr \<Rightarrow> 'o \<Rightarrow> string option \<times> 'o"
  lib_fgetc :: "ptr \<Rightarrow> 'o \<Rightarrow> int \<times> 'o"
  lib_fputs :: "string option \<Rightarrow> ptr \<Rightarrow> 'o \<Rightarrow> int \<times> 'o"
  lib_fputc :: "char \<Rightarrow> ptr \<Rightarrow> 'o \<Rightarrow> int \<times> 'o"
  lib_vfprintf :: "ptr \<Rightarrow> string \<Rightarrow> ptr \<Rightarrow> 'o \<Rightarrow> int \<times> 'o"
  lib_fflush :: "ptr \<Rightarrow> 'o \<Rightarrow> int \<times> 'o"
  lib_my_fstat :: "int \<Rightarrow> ptr \<Rightarrow> int \<Rightarrow> 'o \<Rightarrow> int \<times> 'o"
  lib_my_stat :: "string \<Rightarrow> ptr \<Rightarrow> int \<Rightarrow> 'o \<Rightarrow> ptr \<times> 'o"
  lib_my_chsize :: "int \<Rightarrow> size_t \<Rightarrow> int \<Rightarrow> int \<Rightarrow> 'o \<Rightarrow> int \<times> 'o"
  lib_my_fread :: "ptr \<Rightarrow> ptr \<Rightarrow> size_t \<Rightarrow> int \<Rightarrow> 'o \<Rightarrow> size_t \<times> 'o"
  lib_my_fwrite :: "ptr \<Rightarrow> ptr \<Rightarrow> size_t \<Rightarrow> int \<Rightarrow> 'o \<Rightarrow> size_t \<times> 'o"
  lib_my_fseek :: "ptr \<Rightarrow> size_t \<Rightarrow> int \<Rightarrow> int \<Rightarrow> 'o \<Rightarrow> size_t \<times> 'o"
  lib_my_ftell :: "ptr \<Rightarrow> int \<Rightarrow> 'o \<Rightarrow> size_t \<times> 'o"
  lib_my_create :: "string \<Rightarrow> int \<Rightarrow> int \<Rightarrow> int \<Rightarrow> 'o \<Rightarrow> int \<times> 'o"
  lib_create_temp_file :: "string option \<Rightarrow> string \<Rightarrow> int \<Rightarrow> int \<Rightarrow> 'o \<Rightarrow> (int \<times> string) \<times> 'o"
  lib_my_open :: "string \<Rightarrow> int \<Rightarrow> int \<Rightarrow> 'o \<Rightarrow> int \<times> 'o"
  lib_my_close :: "int \<Rightarrow> int \<Rightarrow> 'o \<Rightarrow> int \<times> 'o"
  lib_my_read :: "int \<Rightarrow> ptr \<Rightarrow> size_t \<Rightarrow> int \<Rightarrow> 'o \<Rightarrow> size_t \<times> 'o"
  lib_my_write :: "int \<Rightarrow> ptr \<Rightarrow> size_t \<Rightarrow> int \<Rightarrow> 'o \<Rightarrow> size_t \<times> 'o"
  lib_my_pread :: "int \<Rightarrow> ptr \<Rightarrow> size_t \<Rightarrow> size_t \<Rightarrow> int \<Rightarrow> 'o \<Rightarrow> size_t \<times> 'o"
  lib_my_pwrite :: "int \<Rightarrow> ptr \<Rightarrow> size_t \<Rightarrow> size_t \<Rightarrow> int \<Rightarrow> 'o \<Rightarrow> size_t \<times> 'o"
  lib_my_seek :: "int \<Rightarrow> size_t \<Rightarrow> int \<Rightarrow> int \<Rightarrow> 'o \<Rightarrow> size_t \<times> 'o"
  lib_my_tell :: "int \<Rightarrow> int \<Rightarrow> 'o \<Rightarrow> size_t \<times> 'o"
  lib_my_delete :: "string \<Rightarrow> int \<Rightarrow> 'o \<Rightarrow> int \<times> 'o"
  lib_my_rename :: "string \<Rightarrow> string \<Rightarrow> int \<Rightarrow> 'o \<Rightarrow> int \<times> 'o"
  lib_my_create_with_symlink :: "string \<Rightarrow> string \<Rightarrow> int \<Rightarrow> int \<Rightarrow> int \<Rightarrow> 'o \<Rightarrow> int \<times> 'o"
  lib_my_delete_with_symlink :: "string \<Rightarrow> int \<Rightarrow> 'o \<Rightarrow> int \<times> 'o"
  lib_my_rename_with_symlink :: "string \<Rightarrow> string \<Rightarrow> int \<Rightarrow> 'o \<Rightarrow> int \<times> 'o"
  lib_my_sync :: "int \<Rightarrow> int \<Rightarrow> 'o \<Rightarrow> int \<times> 'o"
  lib_feof :: "ptr \<Rightarrow> 'o \<Rightarrow> int \<times> 'o"
  lib_my_fopen :: "string \<Rightarrow> int \<Rightarrow> int \<Rightarrow> 'o \<Rightarrow> ptr \<times> 'o"
  lib_my_fclose :: "ptr \<Rightarrow> int \<Rightarrow> 'o \<Rightarrow> int \<times> 'o"
  lib_my_malloc :: "int \<Rightarrow> 'o \<Rightarrow> ptr \<times> 'o"
  lib_my_free :: "nat \<Rightarrow> 'o \<Rightarrow> unit \<times> 'o"

section \<open>The instrumented stream\<close>

text \<open>\<open>mf_addr\<close> is the address of the structure, which the stream functions hold a pointer to.\<close>

record MYSQL_FILE =
  mf_addr :: nat
  m_file :: ptr
  mf_psi :: ptr

abbreviation (input) MY_FNABP :: int where "MY_FNABP \<equiv> 2"
abbreviation (input) MY_NABP :: int where "MY_NABP \<equiv> 4"
abbreviation (input) MY_WME :: int where "MY_WME \<equiv> 16"
abbreviation (input) MY_FILE_ERROR :: size_t where "MY_FILE_ERROR \<equiv> - 1"

text \<open>\<open>str ? strlen(str) : 0\<close>\<close>

definition str_bytes :: "string option \<Rightarrow> size_t" where
  "str_bytes str = (case str of Some s \<Rightarrow> of_nat (length (c_str s)) | None \<Rightarrow> 0)"

text \<open>
  The bytes a read or write moved: with \<open>MY_NABP\<close> or \<open>MY_FNABP\<close> the \<open>mysys\<close> functions return zero
  for success, otherwise the count or \<open>MY_FILE_ERROR\<close>.
\<close>

definition transfer_bytes :: "int \<Rightarrow> size_t \<Rightarrow> size_t \<Rightarrow> size_t" where
  "transfer_bytes flags count result =
     (if flags AND (MY_NABP OR MY_FNABP) \<noteq> 0
      then (if result = 0 then count else 0)
      else (if result \<noteq> MY_FILE_ERROR then result else 0))"

section \<open>The wrappers\<close>

definition inline_mysql_file_register :: "build \<Rightarrow> string \<Rightarrow> ptr \<Rightarrow> int \<Rightarrow> ('o psi_world, unit) state" where
  "inline_mysql_file_register b category info count =
     if_then (have_psi b INSTR_FILE) (psi_tell (PSI_FILE_CALL (register_file category info count)))"

definition inline_mysql_file_fgets ::
  "build \<Rightarrow> psi_service \<Rightarrow> 'o file_lib \<Rightarrow> src \<Rightarrow> ptr \<Rightarrow> int \<Rightarrow> MYSQL_FILE \<Rightarrow> ('o psi_world, string option) state" where
  "inline_mysql_file_fgets b svc lib src str sz f =
     (if have_psi b INSTR_FILE then do {
        locker \<leftarrow> psi_ask svc (PSI_FILE_CALL (get_thread_file_stream_locker (mf_psi f) PSI_FILE_READ));
        if locker \<noteq> None then do {
          psi_tell (PSI_FILE_CALL (start_file_wait locker (word_of_int sz) src));
          result \<leftarrow> os_call (lib_fgets lib str sz (m_file f));
          psi_tell (PSI_FILE_CALL (end_file_wait locker (case result of Some s \<Rightarrow> of_nat (length (c_str s)) | None \<Rightarrow> 0)));
          State_Monad.return result }
        else os_call (lib_fgets lib str sz (m_file f)) }
      else os_call (lib_fgets lib str sz (m_file f)))"

definition inline_mysql_file_fgetc ::
  "build \<Rightarrow> psi_service \<Rightarrow> 'o file_lib \<Rightarrow> src \<Rightarrow> MYSQL_FILE \<Rightarrow> ('o psi_world, int) state" where
  "inline_mysql_file_fgetc b svc lib src f =
     (if have_psi b INSTR_FILE then do {
        locker \<leftarrow> psi_ask svc (PSI_FILE_CALL (get_thread_file_stream_locker (mf_psi f) PSI_FILE_READ));
        if locker \<noteq> None then do {
          psi_tell (PSI_FILE_CALL (start_file_wait locker 1 src));
          result \<leftarrow> os_call (lib_fgetc lib (m_file f));
          psi_tell (PSI_FILE_CALL (end_file_wait locker 1));
          State_Monad.return result }
        else os_call (lib_fgetc lib (m_file f)) }
      else os_call (lib_fgetc lib (m_file f)))"

definition inline_mysql_file_fputs ::
  "build \<Rightarrow> psi_service \<Rightarrow> 'o file_lib \<Rightarrow> src \<Rightarrow> string option \<Rightarrow> MYSQL_FILE \<Rightarrow> ('o psi_world, int) state" where
  "inline_mysql_file_fputs b svc lib src str f =
     (if have_psi b INSTR_FILE then do {
        locker \<leftarrow> psi_ask svc (PSI_FILE_CALL (get_thread_file_stream_locker (mf_psi f) PSI_FILE_WRITE));
        if locker \<noteq> None then do {
          psi_tell (PSI_FILE_CALL (start_file_wait locker (str_bytes str) src));
          result \<leftarrow> os_call (lib_fputs lib str (m_file f));
          psi_tell (PSI_FILE_CALL (end_file_wait locker (str_bytes str)));
          State_Monad.return result }
        else os_call (lib_fputs lib str (m_file f)) }
      else os_call (lib_fputs lib str (m_file f)))"

definition inline_mysql_file_fputc ::
  "build \<Rightarrow> psi_service \<Rightarrow> 'o file_lib \<Rightarrow> src \<Rightarrow> char \<Rightarrow> MYSQL_FILE \<Rightarrow> ('o psi_world, int) state" where
  "inline_mysql_file_fputc b svc lib src c f =
     (if have_psi b INSTR_FILE then do {
        locker \<leftarrow> psi_ask svc (PSI_FILE_CALL (get_thread_file_stream_locker (mf_psi f) PSI_FILE_WRITE));
        if locker \<noteq> None then do {
          psi_tell (PSI_FILE_CALL (start_file_wait locker 1 src));
          result \<leftarrow> os_call (lib_fputc lib c (m_file f));
          psi_tell (PSI_FILE_CALL (end_file_wait locker 1));
          State_Monad.return result }
        else os_call (lib_fputc lib c (m_file f)) }
      else os_call (lib_fputc lib c (m_file f)))"

text \<open>The recorded position is that of the call in the header itself.\<close>

definition inline_mysql_file_fprintf ::
  "build \<Rightarrow> psi_service \<Rightarrow> 'o file_lib \<Rightarrow> string \<Rightarrow> MYSQL_FILE \<Rightarrow> string \<Rightarrow> ptr \<Rightarrow> ('o psi_world, int) state" where
  "inline_mysql_file_fprintf b svc lib this_file f format args =
     (if have_psi b INSTR_FILE then do {
        locker \<leftarrow> psi_ask svc (PSI_FILE_CALL (get_thread_file_stream_locker (mf_psi f) PSI_FILE_WRITE));
        if locker \<noteq> None then do {
          psi_tell (PSI_FILE_CALL (start_file_wait locker 0 (this_file, 650)));
          result \<leftarrow> os_call (lib_vfprintf lib (m_file f) format args);
          psi_tell (PSI_FILE_CALL (end_file_wait locker (word_of_int result)));
          State_Monad.return result }
        else os_call (lib_vfprintf lib (m_file f) format args) }
      else os_call (lib_vfprintf lib (m_file f) format args))"

definition inline_mysql_file_vfprintf ::
  "build \<Rightarrow> psi_service \<Rightarrow> 'o file_lib \<Rightarrow> src \<Rightarrow> MYSQL_FILE \<Rightarrow> string \<Rightarrow> ptr \<Rightarrow> ('o psi_world, int) state" where
  "inline_mysql_file_vfprintf b svc lib src f format args =
     (if have_psi b INSTR_FILE then do {
        locker \<leftarrow> psi_ask svc (PSI_FILE_CALL (get_thread_file_stream_locker (mf_psi f) PSI_FILE_WRITE));
        if locker \<noteq> None then do {
          psi_tell (PSI_FILE_CALL (start_file_wait locker 0 src));
          result \<leftarrow> os_call (lib_vfprintf lib (m_file f) format args);
          psi_tell (PSI_FILE_CALL (end_file_wait locker (word_of_int result)));
          State_Monad.return result }
        else os_call (lib_vfprintf lib (m_file f) format args) }
      else os_call (lib_vfprintf lib (m_file f) format args))"

definition inline_mysql_file_fflush ::
  "build \<Rightarrow> psi_service \<Rightarrow> 'o file_lib \<Rightarrow> src \<Rightarrow> MYSQL_FILE \<Rightarrow> ('o psi_world, int) state" where
  "inline_mysql_file_fflush b svc lib src f =
     (if have_psi b INSTR_FILE then do {
        locker \<leftarrow> psi_ask svc (PSI_FILE_CALL (get_thread_file_stream_locker (mf_psi f) PSI_FILE_FLUSH));
        if locker \<noteq> None then do {
          psi_tell (PSI_FILE_CALL (start_file_wait locker 0 src));
          result \<leftarrow> os_call (lib_fflush lib (m_file f));
          psi_tell (PSI_FILE_CALL (end_file_wait locker 0));
          State_Monad.return result }
        else os_call (lib_fflush lib (m_file f)) }
      else os_call (lib_fflush lib (m_file f)))"

definition inline_mysql_file_feof :: "'o file_lib \<Rightarrow> MYSQL_FILE \<Rightarrow> ('o psi_world, int) state" where
  "inline_mysql_file_feof lib f = os_call (lib_feof lib (m_file f))"

definition inline_mysql_file_fstat ::
  "build \<Rightarrow> psi_service \<Rightarrow> 'o file_lib \<Rightarrow> src \<Rightarrow> int \<Rightarrow> ptr \<Rightarrow> int \<Rightarrow> ('o psi_world, int) state" where
  "inline_mysql_file_fstat b svc lib src filenr stat_area flags =
     (if have_psi b INSTR_FILE then do {
        locker \<leftarrow> psi_ask svc (PSI_FILE_CALL (get_thread_file_descriptor_locker filenr PSI_FILE_FSTAT));
        if locker \<noteq> None then do {
          psi_tell (PSI_FILE_CALL (start_file_wait locker 0 src));
          result \<leftarrow> os_call (lib_my_fstat lib filenr stat_area flags);
          psi_tell (PSI_FILE_CALL (end_file_wait locker 0));
          State_Monad.return result }
        else os_call (lib_my_fstat lib filenr stat_area flags) }
      else os_call (lib_my_fstat lib filenr stat_area flags))"

definition inline_mysql_file_stat ::
  "build \<Rightarrow> psi_service \<Rightarrow> 'o file_lib \<Rightarrow> nat \<Rightarrow> src \<Rightarrow> string \<Rightarrow> ptr \<Rightarrow> int \<Rightarrow> ('o psi_world, ptr) state" where
  "inline_mysql_file_stat b svc lib key src path stat_area flags =
     (if have_psi b INSTR_FILE then do {
        locker \<leftarrow> psi_ask svc (PSI_FILE_CALL (get_thread_file_name_locker key PSI_FILE_STAT (Some path)));
        if locker \<noteq> None then do {
          psi_tell (PSI_FILE_CALL (start_file_open_wait locker src));
          result \<leftarrow> os_call (lib_my_stat lib path stat_area flags);
          psi_ask svc (PSI_FILE_CALL (end_file_open_wait locker result));
          State_Monad.return result }
        else os_call (lib_my_stat lib path stat_area flags) }
      else os_call (lib_my_stat lib path stat_area flags))"

definition inline_mysql_file_chsize ::
  "build \<Rightarrow> psi_service \<Rightarrow> 'o file_lib \<Rightarrow> src \<Rightarrow> int \<Rightarrow> size_t \<Rightarrow> int \<Rightarrow> int \<Rightarrow> ('o psi_world, int) state" where
  "inline_mysql_file_chsize b svc lib src f newlength filler flags =
     (if have_psi b INSTR_FILE then do {
        locker \<leftarrow> psi_ask svc (PSI_FILE_CALL (get_thread_file_descriptor_locker f PSI_FILE_CHSIZE));
        if locker \<noteq> None then do {
          psi_tell (PSI_FILE_CALL (start_file_wait locker newlength src));
          result \<leftarrow> os_call (lib_my_chsize lib f newlength filler flags);
          psi_tell (PSI_FILE_CALL (end_file_wait locker newlength));
          State_Monad.return result }
        else os_call (lib_my_chsize lib f newlength filler flags) }
      else os_call (lib_my_chsize lib f newlength filler flags))"

definition inline_mysql_file_fopen ::
  "build \<Rightarrow> psi_service \<Rightarrow> 'o file_lib \<Rightarrow> nat \<Rightarrow> src \<Rightarrow> string \<Rightarrow> int \<Rightarrow> int \<Rightarrow>
   ('o psi_world, MYSQL_FILE option) state" where
  "inline_mysql_file_fopen b svc lib key src filename flags myFlags = do {
     that \<leftarrow> os_call (lib_my_malloc lib MY_WME);
     case that of
       None \<Rightarrow> State_Monad.return None
     | Some p \<Rightarrow> do {
         locker \<leftarrow> (if have_psi b INSTR_FILE
                   then psi_ask svc (PSI_FILE_CALL
                          (get_thread_file_name_locker key PSI_FILE_STREAM_OPEN (Some filename)))
                   else State_Monad.return None);
         if locker \<noteq> None then do {
           psi_tell (PSI_FILE_CALL (start_file_open_wait locker src));
           stream \<leftarrow> os_call (lib_my_fopen lib filename flags myFlags);
           psi \<leftarrow> psi_ask svc (PSI_FILE_CALL (end_file_open_wait locker stream));
           if stream = None then do {
             os_call (lib_my_free lib p);
             State_Monad.return None }
           else State_Monad.return (Some \<lparr>mf_addr = p, m_file = stream, mf_psi = psi\<rparr>) }
         else do {
           stream \<leftarrow> os_call (lib_my_fopen lib filename flags myFlags);
           if stream = None then do {
             os_call (lib_my_free lib p);
             State_Monad.return None }
           else State_Monad.return (Some \<lparr>mf_addr = p, m_file = stream, mf_psi = None\<rparr>) } } }"

text \<open>A \<open>NULL\<close> stream is closed without effect.\<close>

definition inline_mysql_file_fclose ::
  "build \<Rightarrow> psi_service \<Rightarrow> 'o file_lib \<Rightarrow> src \<Rightarrow> MYSQL_FILE option \<Rightarrow> int \<Rightarrow> ('o psi_world, int) state" where
  "inline_mysql_file_fclose b svc lib src f_opt flags =
     (case f_opt of
        None \<Rightarrow> State_Monad.return 0
      | Some f \<Rightarrow> do {
          locker \<leftarrow> (if have_psi b INSTR_FILE
                    then psi_ask svc (PSI_FILE_CALL
                           (get_thread_file_stream_locker (mf_psi f) PSI_FILE_STREAM_CLOSE))
                    else State_Monad.return None);
          if locker \<noteq> None then do {
            psi_tell (PSI_FILE_CALL (start_file_close_wait locker src));
            result \<leftarrow> os_call (lib_my_fclose lib (m_file f) flags);
            psi_tell (PSI_FILE_CALL (end_file_close_wait locker result));
            os_call (lib_my_free lib (mf_addr f));
            State_Monad.return result }
          else do {
            result \<leftarrow> os_call (lib_my_fclose lib (m_file f) flags);
            os_call (lib_my_free lib (mf_addr f));
            State_Monad.return result } })"

definition inline_mysql_file_fread ::
  "build \<Rightarrow> psi_service \<Rightarrow> 'o file_lib \<Rightarrow> src \<Rightarrow> MYSQL_FILE \<Rightarrow> ptr \<Rightarrow> size_t \<Rightarrow> int \<Rightarrow> ('o psi_world, size_t) state" where
  "inline_mysql_file_fread b svc lib src f buffer count flags =
     (if have_psi b INSTR_FILE then do {
        locker \<leftarrow> psi_ask svc (PSI_FILE_CALL (get_thread_file_stream_locker (mf_psi f) PSI_FILE_READ));
        if locker \<noteq> None then do {
          psi_tell (PSI_FILE_CALL (start_file_wait locker count src));
          result \<leftarrow> os_call (lib_my_fread lib (m_file f) buffer count flags);
          psi_tell (PSI_FILE_CALL (end_file_wait locker (transfer_bytes flags count result)));
          State_Monad.return result }
        else os_call (lib_my_fread lib (m_file f) buffer count flags) }
      else os_call (lib_my_fread lib (m_file f) buffer count flags))"

definition inline_mysql_file_fwrite ::
  "build \<Rightarrow> psi_service \<Rightarrow> 'o file_lib \<Rightarrow> src \<Rightarrow> MYSQL_FILE \<Rightarrow> ptr \<Rightarrow> size_t \<Rightarrow> int \<Rightarrow> ('o psi_world, size_t) state" where
  "inline_mysql_file_fwrite b svc lib src f buffer count flags =
     (if have_psi b INSTR_FILE then do {
        locker \<leftarrow> psi_ask svc (PSI_FILE_CALL (get_thread_file_stream_locker (mf_psi f) PSI_FILE_WRITE));
        if locker \<noteq> None then do {
          psi_tell (PSI_FILE_CALL (start_file_wait locker count src));
          result \<leftarrow> os_call (lib_my_fwrite lib (m_file f) buffer count flags);
          psi_tell (PSI_FILE_CALL (end_file_wait locker (transfer_bytes flags count result)));
          State_Monad.return result }
        else os_call (lib_my_fwrite lib (m_file f) buffer count flags) }
      else os_call (lib_my_fwrite lib (m_file f) buffer count flags))"

definition inline_mysql_file_fseek ::
  "build \<Rightarrow> psi_service \<Rightarrow> 'o file_lib \<Rightarrow> src \<Rightarrow> MYSQL_FILE \<Rightarrow> size_t \<Rightarrow> int \<Rightarrow> int \<Rightarrow> ('o psi_world, size_t) state" where
  "inline_mysql_file_fseek b svc lib src f pos whence flags =
     (if have_psi b INSTR_FILE then do {
        locker \<leftarrow> psi_ask svc (PSI_FILE_CALL (get_thread_file_stream_locker (mf_psi f) PSI_FILE_SEEK));
        if locker \<noteq> None then do {
          psi_tell (PSI_FILE_CALL (start_file_wait locker 0 src));
          result \<leftarrow> os_call (lib_my_fseek lib (m_file f) pos whence flags);
          psi_tell (PSI_FILE_CALL (end_file_wait locker 0));
          State_Monad.return result }
        else os_call (lib_my_fseek lib (m_file f) pos whence flags) }
      else os_call (lib_my_fseek lib (m_file f) pos whence flags))"

definition inline_mysql_file_ftell ::
  "build \<Rightarrow> psi_service \<Rightarrow> 'o file_lib \<Rightarrow> src \<Rightarrow> MYSQL_FILE \<Rightarrow> int \<Rightarrow> ('o psi_world, size_t) state" where
  "inline_mysql_file_ftell b svc lib src f flags =
     (if have_psi b INSTR_FILE then do {
        locker \<leftarrow> psi_ask svc (PSI_FILE_CALL (get_thread_file_stream_locker (mf_psi f) PSI_FILE_TELL));
        if locker \<noteq> None then do {
          psi_tell (PSI_FILE_CALL (start_file_wait locker 0 src));
          result \<leftarrow> os_call (lib_my_ftell lib (m_file f) flags);
          psi_tell (PSI_FILE_CALL (end_file_wait locker 0));
          State_Monad.return result }
        else os_call (lib_my_ftell lib (m_file f) flags) }
      else os_call (lib_my_ftell lib (m_file f) flags))"

definition inline_mysql_file_create ::
  "build \<Rightarrow> psi_service \<Rightarrow> 'o file_lib \<Rightarrow> nat \<Rightarrow> src \<Rightarrow> string \<Rightarrow> int \<Rightarrow> int \<Rightarrow> int \<Rightarrow> ('o psi_world, int) state" where
  "inline_mysql_file_create b svc lib key src filename create_flags access_flags myFlags =
     (if have_psi b INSTR_FILE then do {
        locker \<leftarrow> psi_ask svc (PSI_FILE_CALL (get_thread_file_name_locker key PSI_FILE_CREATE (Some filename)));
        if locker \<noteq> None then do {
          psi_tell (PSI_FILE_CALL (start_file_open_wait locker src));
          result \<leftarrow> os_call (lib_my_create lib filename create_flags access_flags myFlags);
          psi_tell (PSI_FILE_CALL (end_file_open_wait_and_bind_to_descriptor locker result));
          State_Monad.return result }
        else os_call (lib_my_create lib filename create_flags access_flags myFlags) }
      else os_call (lib_my_create lib filename create_flags access_flags myFlags))"

definition inline_mysql_file_create_temp ::
  "build \<Rightarrow> psi_service \<Rightarrow> 'o file_lib \<Rightarrow> nat \<Rightarrow> src \<Rightarrow> string option \<Rightarrow> string \<Rightarrow> int \<Rightarrow> int \<Rightarrow> ('o psi_world, int \<times> string) state" where
  "inline_mysql_file_create_temp b svc lib key src dir pfx md myFlags =
     (if have_psi b INSTR_FILE then do {
        locker \<leftarrow> psi_ask svc (PSI_FILE_CALL (get_thread_file_name_locker key PSI_FILE_CREATE None));
        if locker \<noteq> None then do {
          psi_tell (PSI_FILE_CALL (start_file_open_wait locker src));
          result \<leftarrow> os_call (lib_create_temp_file lib dir pfx md myFlags);
          psi_tell (PSI_FILE_CALL (end_temp_file_open_wait_and_bind_to_descriptor locker (fst result) (snd result)));
          State_Monad.return result }
        else os_call (lib_create_temp_file lib dir pfx md myFlags) }
      else os_call (lib_create_temp_file lib dir pfx md myFlags))"

definition inline_mysql_file_open ::
  "build \<Rightarrow> psi_service \<Rightarrow> 'o file_lib \<Rightarrow> nat \<Rightarrow> src \<Rightarrow> string \<Rightarrow> int \<Rightarrow> int \<Rightarrow> ('o psi_world, int) state" where
  "inline_mysql_file_open b svc lib key src filename flags myFlags =
     (if have_psi b INSTR_FILE then do {
        locker \<leftarrow> psi_ask svc (PSI_FILE_CALL (get_thread_file_name_locker key PSI_FILE_OPEN (Some filename)));
        if locker \<noteq> None then do {
          psi_tell (PSI_FILE_CALL (start_file_open_wait locker src));
          result \<leftarrow> os_call (lib_my_open lib filename flags myFlags);
          psi_tell (PSI_FILE_CALL (end_file_open_wait_and_bind_to_descriptor locker result));
          State_Monad.return result }
        else os_call (lib_my_open lib filename flags myFlags) }
      else os_call (lib_my_open lib filename flags myFlags))"

definition inline_mysql_file_close ::
  "build \<Rightarrow> psi_service \<Rightarrow> 'o file_lib \<Rightarrow> src \<Rightarrow> int \<Rightarrow> int \<Rightarrow> ('o psi_world, int) state" where
  "inline_mysql_file_close b svc lib src f flags =
     (if have_psi b INSTR_FILE then do {
        locker \<leftarrow> psi_ask svc (PSI_FILE_CALL (get_thread_file_descriptor_locker f PSI_FILE_CLOSE));
        if locker \<noteq> None then do {
          psi_tell (PSI_FILE_CALL (start_file_close_wait locker src));
          result \<leftarrow> os_call (lib_my_close lib f flags);
          psi_tell (PSI_FILE_CALL (end_file_close_wait locker result));
          State_Monad.return result }
        else os_call (lib_my_close lib f flags) }
      else os_call (lib_my_close lib f flags))"

definition inline_mysql_file_read ::
  "build \<Rightarrow> psi_service \<Rightarrow> 'o file_lib \<Rightarrow> src \<Rightarrow> int \<Rightarrow> ptr \<Rightarrow> size_t \<Rightarrow> int \<Rightarrow> ('o psi_world, size_t) state" where
  "inline_mysql_file_read b svc lib src f buffer count flags =
     (if have_psi b INSTR_FILE then do {
        locker \<leftarrow> psi_ask svc (PSI_FILE_CALL (get_thread_file_descriptor_locker f PSI_FILE_READ));
        if locker \<noteq> None then do {
          psi_tell (PSI_FILE_CALL (start_file_wait locker count src));
          result \<leftarrow> os_call (lib_my_read lib f buffer count flags);
          psi_tell (PSI_FILE_CALL (end_file_wait locker (transfer_bytes flags count result)));
          State_Monad.return result }
        else os_call (lib_my_read lib f buffer count flags) }
      else os_call (lib_my_read lib f buffer count flags))"

definition inline_mysql_file_write ::
  "build \<Rightarrow> psi_service \<Rightarrow> 'o file_lib \<Rightarrow> src \<Rightarrow> int \<Rightarrow> ptr \<Rightarrow> size_t \<Rightarrow> int \<Rightarrow> ('o psi_world, size_t) state" where
  "inline_mysql_file_write b svc lib src f buffer count flags =
     (if have_psi b INSTR_FILE then do {
        locker \<leftarrow> psi_ask svc (PSI_FILE_CALL (get_thread_file_descriptor_locker f PSI_FILE_WRITE));
        if locker \<noteq> None then do {
          psi_tell (PSI_FILE_CALL (start_file_wait locker count src));
          result \<leftarrow> os_call (lib_my_write lib f buffer count flags);
          psi_tell (PSI_FILE_CALL (end_file_wait locker (transfer_bytes flags count result)));
          State_Monad.return result }
        else os_call (lib_my_write lib f buffer count flags) }
      else os_call (lib_my_write lib f buffer count flags))"

definition inline_mysql_file_pread ::
  "build \<Rightarrow> psi_service \<Rightarrow> 'o file_lib \<Rightarrow> src \<Rightarrow> int \<Rightarrow> ptr \<Rightarrow> size_t \<Rightarrow> size_t \<Rightarrow> int \<Rightarrow> ('o psi_world, size_t) state" where
  "inline_mysql_file_pread b svc lib src f buffer count offset flags =
     (if have_psi b INSTR_FILE then do {
        locker \<leftarrow> psi_ask svc (PSI_FILE_CALL (get_thread_file_descriptor_locker f PSI_FILE_READ));
        if locker \<noteq> None then do {
          psi_tell (PSI_FILE_CALL (start_file_wait locker count src));
          result \<leftarrow> os_call (lib_my_pread lib f buffer count offset flags);
          psi_tell (PSI_FILE_CALL (end_file_wait locker (transfer_bytes flags count result)));
          State_Monad.return result }
        else os_call (lib_my_pread lib f buffer count offset flags) }
      else os_call (lib_my_pread lib f buffer count offset flags))"

definition inline_mysql_file_pwrite ::
  "build \<Rightarrow> psi_service \<Rightarrow> 'o file_lib \<Rightarrow> src \<Rightarrow> int \<Rightarrow> ptr \<Rightarrow> size_t \<Rightarrow> size_t \<Rightarrow> int \<Rightarrow> ('o psi_world, size_t) state" where
  "inline_mysql_file_pwrite b svc lib src f buffer count offset flags =
     (if have_psi b INSTR_FILE then do {
        locker \<leftarrow> psi_ask svc (PSI_FILE_CALL (get_thread_file_descriptor_locker f PSI_FILE_WRITE));
        if locker \<noteq> None then do {
          psi_tell (PSI_FILE_CALL (start_file_wait locker count src));
          result \<leftarrow> os_call (lib_my_pwrite lib f buffer count offset flags);
          psi_tell (PSI_FILE_CALL (end_file_wait locker (transfer_bytes flags count result)));
          State_Monad.return result }
        else os_call (lib_my_pwrite lib f buffer count offset flags) }
      else os_call (lib_my_pwrite lib f buffer count offset flags))"

definition inline_mysql_file_seek ::
  "build \<Rightarrow> psi_service \<Rightarrow> 'o file_lib \<Rightarrow> src \<Rightarrow> int \<Rightarrow> size_t \<Rightarrow> int \<Rightarrow> int \<Rightarrow> ('o psi_world, size_t) state" where
  "inline_mysql_file_seek b svc lib src f pos whence flags =
     (if have_psi b INSTR_FILE then do {
        locker \<leftarrow> psi_ask svc (PSI_FILE_CALL (get_thread_file_descriptor_locker f PSI_FILE_SEEK));
        if locker \<noteq> None then do {
          psi_tell (PSI_FILE_CALL (start_file_wait locker 0 src));
          result \<leftarrow> os_call (lib_my_seek lib f pos whence flags);
          psi_tell (PSI_FILE_CALL (end_file_wait locker 0));
          State_Monad.return result }
        else os_call (lib_my_seek lib f pos whence flags) }
      else os_call (lib_my_seek lib f pos whence flags))"

definition inline_mysql_file_tell ::
  "build \<Rightarrow> psi_service \<Rightarrow> 'o file_lib \<Rightarrow> src \<Rightarrow> int \<Rightarrow> int \<Rightarrow> ('o psi_world, size_t) state" where
  "inline_mysql_file_tell b svc lib src f flags =
     (if have_psi b INSTR_FILE then do {
        locker \<leftarrow> psi_ask svc (PSI_FILE_CALL (get_thread_file_descriptor_locker f PSI_FILE_TELL));
        if locker \<noteq> None then do {
          psi_tell (PSI_FILE_CALL (start_file_wait locker 0 src));
          result \<leftarrow> os_call (lib_my_tell lib f flags);
          psi_tell (PSI_FILE_CALL (end_file_wait locker 0));
          State_Monad.return result }
        else os_call (lib_my_tell lib f flags) }
      else os_call (lib_my_tell lib f flags))"

definition inline_mysql_file_delete ::
  "build \<Rightarrow> psi_service \<Rightarrow> 'o file_lib \<Rightarrow> nat \<Rightarrow> src \<Rightarrow> string \<Rightarrow> int \<Rightarrow> ('o psi_world, int) state" where
  "inline_mysql_file_delete b svc lib key src name flags =
     (if have_psi b INSTR_FILE then do {
        locker \<leftarrow> psi_ask svc (PSI_FILE_CALL (get_thread_file_name_locker key PSI_FILE_DELETE (Some name)));
        if locker \<noteq> None then do {
          psi_tell (PSI_FILE_CALL (start_file_close_wait locker src));
          result \<leftarrow> os_call (lib_my_delete lib name flags);
          psi_tell (PSI_FILE_CALL (end_file_close_wait locker result));
          State_Monad.return result }
        else os_call (lib_my_delete lib name flags) }
      else os_call (lib_my_delete lib name flags))"

definition inline_mysql_file_rename ::
  "build \<Rightarrow> psi_service \<Rightarrow> 'o file_lib \<Rightarrow> nat \<Rightarrow> src \<Rightarrow> string \<Rightarrow> string \<Rightarrow> int \<Rightarrow> ('o psi_world, int) state" where
  "inline_mysql_file_rename b svc lib key src old new flags =
     (if have_psi b INSTR_FILE then do {
        locker \<leftarrow> psi_ask svc (PSI_FILE_CALL (get_thread_file_name_locker key PSI_FILE_RENAME (Some old)));
        if locker \<noteq> None then do {
          psi_tell (PSI_FILE_CALL (start_file_wait locker 0 src));
          result \<leftarrow> os_call (lib_my_rename lib old new flags);
          psi_tell (PSI_FILE_CALL (end_file_rename_wait locker old new result));
          State_Monad.return result }
        else os_call (lib_my_rename lib old new flags) }
      else os_call (lib_my_rename lib old new flags))"

definition inline_mysql_file_create_with_symlink ::
  "build \<Rightarrow> psi_service \<Rightarrow> 'o file_lib \<Rightarrow> nat \<Rightarrow> src \<Rightarrow> string \<Rightarrow> string \<Rightarrow> int \<Rightarrow> int \<Rightarrow> int \<Rightarrow> ('o psi_world, int) state" where
  "inline_mysql_file_create_with_symlink b svc lib key src linkname filename create_flags access_flags flags =
     (if have_psi b INSTR_FILE then do {
        locker \<leftarrow> psi_ask svc (PSI_FILE_CALL (get_thread_file_name_locker key PSI_FILE_CREATE (Some filename)));
        if locker \<noteq> None then do {
          psi_tell (PSI_FILE_CALL (start_file_open_wait locker src));
          result \<leftarrow> os_call (lib_my_create_with_symlink lib linkname filename create_flags access_flags flags);
          psi_tell (PSI_FILE_CALL (end_file_open_wait_and_bind_to_descriptor locker result));
          State_Monad.return result }
        else os_call (lib_my_create_with_symlink lib linkname filename create_flags access_flags flags) }
      else os_call (lib_my_create_with_symlink lib linkname filename create_flags access_flags flags))"

definition inline_mysql_file_delete_with_symlink ::
  "build \<Rightarrow> psi_service \<Rightarrow> 'o file_lib \<Rightarrow> nat \<Rightarrow> src \<Rightarrow> string \<Rightarrow> int \<Rightarrow> ('o psi_world, int) state" where
  "inline_mysql_file_delete_with_symlink b svc lib key src name flags =
     (if have_psi b INSTR_FILE then do {
        locker \<leftarrow> psi_ask svc (PSI_FILE_CALL (get_thread_file_name_locker key PSI_FILE_DELETE (Some name)));
        if locker \<noteq> None then do {
          psi_tell (PSI_FILE_CALL (start_file_close_wait locker src));
          result \<leftarrow> os_call (lib_my_delete_with_symlink lib name flags);
          psi_tell (PSI_FILE_CALL (end_file_close_wait locker result));
          State_Monad.return result }
        else os_call (lib_my_delete_with_symlink lib name flags) }
      else os_call (lib_my_delete_with_symlink lib name flags))"

definition inline_mysql_file_rename_with_symlink ::
  "build \<Rightarrow> psi_service \<Rightarrow> 'o file_lib \<Rightarrow> nat \<Rightarrow> src \<Rightarrow> string \<Rightarrow> string \<Rightarrow> int \<Rightarrow> ('o psi_world, int) state" where
  "inline_mysql_file_rename_with_symlink b svc lib key src old new flags =
     (if have_psi b INSTR_FILE then do {
        locker \<leftarrow> psi_ask svc (PSI_FILE_CALL (get_thread_file_name_locker key PSI_FILE_RENAME (Some old)));
        if locker \<noteq> None then do {
          psi_tell (PSI_FILE_CALL (start_file_wait locker 0 src));
          result \<leftarrow> os_call (lib_my_rename_with_symlink lib old new flags);
          psi_tell (PSI_FILE_CALL (end_file_rename_wait locker old new result));
          State_Monad.return result }
        else os_call (lib_my_rename_with_symlink lib old new flags) }
      else os_call (lib_my_rename_with_symlink lib old new flags))"

definition inline_mysql_file_sync ::
  "build \<Rightarrow> psi_service \<Rightarrow> 'o file_lib \<Rightarrow> src \<Rightarrow> int \<Rightarrow> int \<Rightarrow> ('o psi_world, int) state" where
  "inline_mysql_file_sync b svc lib src f flags =
     (if have_psi b INSTR_FILE then do {
        locker \<leftarrow> psi_ask svc (PSI_FILE_CALL (get_thread_file_descriptor_locker f PSI_FILE_SYNC));
        if locker \<noteq> None then do {
          psi_tell (PSI_FILE_CALL (start_file_wait locker 0 src));
          result \<leftarrow> os_call (lib_my_sync lib f flags);
          psi_tell (PSI_FILE_CALL (end_file_wait locker 0));
          State_Monad.return result }
        else os_call (lib_my_sync lib f flags) }
      else os_call (lib_my_sync lib f flags))"

section \<open>The macros the callers use\<close>

text \<open>Each expands to its inline function, with the caller's file and line where they are recorded.\<close>

definition mysql_file_register :: "build \<Rightarrow> string \<Rightarrow> ptr \<Rightarrow> int \<Rightarrow> ('o psi_world, unit) state" where
  "mysql_file_register b P1 P2 P3 = inline_mysql_file_register b P1 P2 P3"

definition mysql_file_fgets :: "build \<Rightarrow> psi_service \<Rightarrow> 'o file_lib \<Rightarrow> src \<Rightarrow> ptr \<Rightarrow> int \<Rightarrow> MYSQL_FILE \<Rightarrow> ('o psi_world, string option) state" where
  "mysql_file_fgets b svc lib src str sz f = inline_mysql_file_fgets b svc lib src str sz f"

definition mysql_file_fgetc :: "build \<Rightarrow> psi_service \<Rightarrow> 'o file_lib \<Rightarrow> src \<Rightarrow> MYSQL_FILE \<Rightarrow> ('o psi_world, int) state" where
  "mysql_file_fgetc b svc lib src f = inline_mysql_file_fgetc b svc lib src f"

definition mysql_file_fputs :: "build \<Rightarrow> psi_service \<Rightarrow> 'o file_lib \<Rightarrow> src \<Rightarrow> string option \<Rightarrow> MYSQL_FILE \<Rightarrow> ('o psi_world, int) state" where
  "mysql_file_fputs b svc lib src str f = inline_mysql_file_fputs b svc lib src str f"

definition mysql_file_fputc :: "build \<Rightarrow> psi_service \<Rightarrow> 'o file_lib \<Rightarrow> src \<Rightarrow> char \<Rightarrow> MYSQL_FILE \<Rightarrow> ('o psi_world, int) state" where
  "mysql_file_fputc b svc lib src c f = inline_mysql_file_fputc b svc lib src c f"

definition mysql_file_fprintf :: "build \<Rightarrow> psi_service \<Rightarrow> 'o file_lib \<Rightarrow> string \<Rightarrow> MYSQL_FILE \<Rightarrow> string \<Rightarrow> ptr \<Rightarrow> ('o psi_world, int) state" where
  "mysql_file_fprintf b svc lib this_file f format args = inline_mysql_file_fprintf b svc lib this_file f format args"

definition mysql_file_vfprintf :: "build \<Rightarrow> psi_service \<Rightarrow> 'o file_lib \<Rightarrow> src \<Rightarrow> MYSQL_FILE \<Rightarrow> string \<Rightarrow> ptr \<Rightarrow> ('o psi_world, int) state" where
  "mysql_file_vfprintf b svc lib src f format args = inline_mysql_file_vfprintf b svc lib src f format args"

definition mysql_file_fflush :: "build \<Rightarrow> psi_service \<Rightarrow> 'o file_lib \<Rightarrow> src \<Rightarrow> MYSQL_FILE \<Rightarrow> ('o psi_world, int) state" where
  "mysql_file_fflush b svc lib src f = inline_mysql_file_fflush b svc lib src f"

definition mysql_file_feof :: "'o file_lib \<Rightarrow> MYSQL_FILE \<Rightarrow> ('o psi_world, int) state" where
  "mysql_file_feof lib F = inline_mysql_file_feof lib F"

definition mysql_file_fstat :: "build \<Rightarrow> psi_service \<Rightarrow> 'o file_lib \<Rightarrow> src \<Rightarrow> int \<Rightarrow> ptr \<Rightarrow> int \<Rightarrow> ('o psi_world, int) state" where
  "mysql_file_fstat b svc lib src filenr stat_area flags = inline_mysql_file_fstat b svc lib src filenr stat_area flags"

definition mysql_file_stat :: "build \<Rightarrow> psi_service \<Rightarrow> 'o file_lib \<Rightarrow> nat \<Rightarrow> src \<Rightarrow> string \<Rightarrow> ptr \<Rightarrow> int \<Rightarrow> ('o psi_world, ptr) state" where
  "mysql_file_stat b svc lib key src path stat_area flags = inline_mysql_file_stat b svc lib key src path stat_area flags"

definition mysql_file_chsize :: "build \<Rightarrow> psi_service \<Rightarrow> 'o file_lib \<Rightarrow> src \<Rightarrow> int \<Rightarrow> size_t \<Rightarrow> int \<Rightarrow> int \<Rightarrow> ('o psi_world, int) state" where
  "mysql_file_chsize b svc lib src f newlength filler flags = inline_mysql_file_chsize b svc lib src f newlength filler flags"

definition mysql_file_fopen :: "build \<Rightarrow> psi_service \<Rightarrow> 'o file_lib \<Rightarrow> nat \<Rightarrow> src \<Rightarrow> string \<Rightarrow> int \<Rightarrow> int \<Rightarrow> ('o psi_world, MYSQL_FILE option) state" where
  "mysql_file_fopen b svc lib K src N P1 P2 = inline_mysql_file_fopen b svc lib K src N P1 P2"

definition mysql_file_fclose :: "build \<Rightarrow> psi_service \<Rightarrow> 'o file_lib \<Rightarrow> src \<Rightarrow> MYSQL_FILE option \<Rightarrow> int \<Rightarrow> ('o psi_world, int) state" where
  "mysql_file_fclose b svc lib src F FL = inline_mysql_file_fclose b svc lib src F FL"

definition mysql_file_fread :: "build \<Rightarrow> psi_service \<Rightarrow> 'o file_lib \<Rightarrow> src \<Rightarrow> MYSQL_FILE \<Rightarrow> ptr \<Rightarrow> size_t \<Rightarrow> int \<Rightarrow> ('o psi_world, size_t) state" where
  "mysql_file_fread b svc lib src f buffer count flags = inline_mysql_file_fread b svc lib src f buffer count flags"

definition mysql_file_fwrite :: "build \<Rightarrow> psi_service \<Rightarrow> 'o file_lib \<Rightarrow> src \<Rightarrow> MYSQL_FILE \<Rightarrow> ptr \<Rightarrow> size_t \<Rightarrow> int \<Rightarrow> ('o psi_world, size_t) state" where
  "mysql_file_fwrite b svc lib src f buffer count flags = inline_mysql_file_fwrite b svc lib src f buffer count flags"

definition mysql_file_fseek :: "build \<Rightarrow> psi_service \<Rightarrow> 'o file_lib \<Rightarrow> src \<Rightarrow> MYSQL_FILE \<Rightarrow> size_t \<Rightarrow> int \<Rightarrow> int \<Rightarrow> ('o psi_world, size_t) state" where
  "mysql_file_fseek b svc lib src f pos whence flags = inline_mysql_file_fseek b svc lib src f pos whence flags"

definition mysql_file_ftell :: "build \<Rightarrow> psi_service \<Rightarrow> 'o file_lib \<Rightarrow> src \<Rightarrow> MYSQL_FILE \<Rightarrow> int \<Rightarrow> ('o psi_world, size_t) state" where
  "mysql_file_ftell b svc lib src f flags = inline_mysql_file_ftell b svc lib src f flags"

definition mysql_file_create :: "build \<Rightarrow> psi_service \<Rightarrow> 'o file_lib \<Rightarrow> nat \<Rightarrow> src \<Rightarrow> string \<Rightarrow> int \<Rightarrow> int \<Rightarrow> int \<Rightarrow> ('o psi_world, int) state" where
  "mysql_file_create b svc lib key src filename create_flags access_flags myFlags = inline_mysql_file_create b svc lib key src filename create_flags access_flags myFlags"

definition mysql_file_create_temp :: "build \<Rightarrow> psi_service \<Rightarrow> 'o file_lib \<Rightarrow> nat \<Rightarrow> src \<Rightarrow> string option \<Rightarrow> string \<Rightarrow> int \<Rightarrow> int \<Rightarrow> ('o psi_world, int \<times> string) state" where
  "mysql_file_create_temp b svc lib key src dir pfx md myFlags = inline_mysql_file_create_temp b svc lib key src dir pfx md myFlags"

definition mysql_file_open :: "build \<Rightarrow> psi_service \<Rightarrow> 'o file_lib \<Rightarrow> nat \<Rightarrow> src \<Rightarrow> string \<Rightarrow> int \<Rightarrow> int \<Rightarrow> ('o psi_world, int) state" where
  "mysql_file_open b svc lib key src filename flags myFlags = inline_mysql_file_open b svc lib key src filename flags myFlags"

definition mysql_file_close :: "build \<Rightarrow> psi_service \<Rightarrow> 'o file_lib \<Rightarrow> src \<Rightarrow> int \<Rightarrow> int \<Rightarrow> ('o psi_world, int) state" where
  "mysql_file_close b svc lib src f flags = inline_mysql_file_close b svc lib src f flags"

definition mysql_file_read :: "build \<Rightarrow> psi_service \<Rightarrow> 'o file_lib \<Rightarrow> src \<Rightarrow> int \<Rightarrow> ptr \<Rightarrow> size_t \<Rightarrow> int \<Rightarrow> ('o psi_world, size_t) state" where
  "mysql_file_read b svc lib src f buffer count flags = inline_mysql_file_read b svc lib src f buffer count flags"

definition mysql_file_write :: "build \<Rightarrow> psi_service \<Rightarrow> 'o file_lib \<Rightarrow> src \<Rightarrow> int \<Rightarrow> ptr \<Rightarrow> size_t \<Rightarrow> int \<Rightarrow> ('o psi_world, size_t) state" where
  "mysql_file_write b svc lib src f buffer count flags = inline_mysql_file_write b svc lib src f buffer count flags"

definition mysql_file_pread :: "build \<Rightarrow> psi_service \<Rightarrow> 'o file_lib \<Rightarrow> src \<Rightarrow> int \<Rightarrow> ptr \<Rightarrow> size_t \<Rightarrow> size_t \<Rightarrow> int \<Rightarrow> ('o psi_world, size_t) state" where
  "mysql_file_pread b svc lib src f buffer count offset flags = inline_mysql_file_pread b svc lib src f buffer count offset flags"

definition mysql_file_pwrite :: "build \<Rightarrow> psi_service \<Rightarrow> 'o file_lib \<Rightarrow> src \<Rightarrow> int \<Rightarrow> ptr \<Rightarrow> size_t \<Rightarrow> size_t \<Rightarrow> int \<Rightarrow> ('o psi_world, size_t) state" where
  "mysql_file_pwrite b svc lib src f buffer count offset flags = inline_mysql_file_pwrite b svc lib src f buffer count offset flags"

definition mysql_file_seek :: "build \<Rightarrow> psi_service \<Rightarrow> 'o file_lib \<Rightarrow> src \<Rightarrow> int \<Rightarrow> size_t \<Rightarrow> int \<Rightarrow> int \<Rightarrow> ('o psi_world, size_t) state" where
  "mysql_file_seek b svc lib src f pos whence flags = inline_mysql_file_seek b svc lib src f pos whence flags"

definition mysql_file_tell :: "build \<Rightarrow> psi_service \<Rightarrow> 'o file_lib \<Rightarrow> src \<Rightarrow> int \<Rightarrow> int \<Rightarrow> ('o psi_world, size_t) state" where
  "mysql_file_tell b svc lib src f flags = inline_mysql_file_tell b svc lib src f flags"

definition mysql_file_delete :: "build \<Rightarrow> psi_service \<Rightarrow> 'o file_lib \<Rightarrow> nat \<Rightarrow> src \<Rightarrow> string \<Rightarrow> int \<Rightarrow> ('o psi_world, int) state" where
  "mysql_file_delete b svc lib key src name flags = inline_mysql_file_delete b svc lib key src name flags"

definition mysql_file_rename :: "build \<Rightarrow> psi_service \<Rightarrow> 'o file_lib \<Rightarrow> nat \<Rightarrow> src \<Rightarrow> string \<Rightarrow> string \<Rightarrow> int \<Rightarrow> ('o psi_world, int) state" where
  "mysql_file_rename b svc lib key src old new flags = inline_mysql_file_rename b svc lib key src old new flags"

definition mysql_file_create_with_symlink :: "build \<Rightarrow> psi_service \<Rightarrow> 'o file_lib \<Rightarrow> nat \<Rightarrow> src \<Rightarrow> string \<Rightarrow> string \<Rightarrow> int \<Rightarrow> int \<Rightarrow> int \<Rightarrow> ('o psi_world, int) state" where
  "mysql_file_create_with_symlink b svc lib key src linkname filename create_flags access_flags flags = inline_mysql_file_create_with_symlink b svc lib key src linkname filename create_flags access_flags flags"

definition mysql_file_delete_with_symlink :: "build \<Rightarrow> psi_service \<Rightarrow> 'o file_lib \<Rightarrow> nat \<Rightarrow> src \<Rightarrow> string \<Rightarrow> int \<Rightarrow> ('o psi_world, int) state" where
  "mysql_file_delete_with_symlink b svc lib key src name flags = inline_mysql_file_delete_with_symlink b svc lib key src name flags"

definition mysql_file_rename_with_symlink :: "build \<Rightarrow> psi_service \<Rightarrow> 'o file_lib \<Rightarrow> nat \<Rightarrow> src \<Rightarrow> string \<Rightarrow> string \<Rightarrow> int \<Rightarrow> ('o psi_world, int) state" where
  "mysql_file_rename_with_symlink b svc lib key src old new flags = inline_mysql_file_rename_with_symlink b svc lib key src old new flags"

definition mysql_file_sync :: "build \<Rightarrow> psi_service \<Rightarrow> 'o file_lib \<Rightarrow> src \<Rightarrow> int \<Rightarrow> int \<Rightarrow> ('o psi_world, int) state" where
  "mysql_file_sync b svc lib src f flags = inline_mysql_file_sync b svc lib src f flags"

section \<open>Every wrapper is an instrumented call\<close>

text \<open>
  The calls of a file wait: the locker is asked for first, and only with one is the wait started
  and ended. \<open>asks\<close> tells whether the service answers the end with a pointer.
\<close>

definition file_wait ::
  "build \<Rightarrow> psi_service \<Rightarrow> psi_log \<Rightarrow> file_call \<Rightarrow> (ptr \<Rightarrow> file_call) \<Rightarrow> (ptr \<Rightarrow> file_call) \<Rightarrow> bool \<Rightarrow> psi_log" where
  "file_wait b svc log get start fin asks =
     (if have_psi b INSTR_FILE
      then (let l = svc log (PSI_FILE_CALL get);
                log1 = [(PSI_FILE_CALL get, l)]
            in if l = None then log1
               else let log2 = log1 @ [(PSI_FILE_CALL (start l), None)]
                    in log2 @ [(PSI_FILE_CALL (fin l),
                                if asks then svc (log @ log2) (PSI_FILE_CALL (fin l)) else None)])
      else [])"

text \<open>Closing a stream: the library's close, then the release of the structure.\<close>

definition close_stream :: "'o file_lib \<Rightarrow> MYSQL_FILE \<Rightarrow> int \<Rightarrow> 'o \<Rightarrow> int \<times> 'o" where
  "close_stream lib f flags s =
     (case lib_my_fclose lib (m_file f) flags s of (r, s1) \<Rightarrow> (r, snd (lib_my_free lib (mf_addr f) s1)))"

text \<open>Opening a stream: the structure is allocated first, and released when the open fails.\<close>

definition open_stream :: "'o file_lib \<Rightarrow> string \<Rightarrow> int \<Rightarrow> int \<Rightarrow> 'o \<Rightarrow> (nat \<times> nat) option \<times> 'o" where
  "open_stream lib filename flags myFlags s =
     (case lib_my_malloc lib MY_WME s of
        (None, s1) \<Rightarrow> (None, s1)
      | (Some p, s1) \<Rightarrow>
          (case lib_my_fopen lib filename flags myFlags s1 of
             (None, s2) \<Rightarrow> (None, snd (lib_my_free lib p s2))
           | (Some st, s2) \<Rightarrow> (Some (p, st), s2)))"

text \<open>A library in which every call succeeds; its state is the list of the calls made.\<close>

definition demo_lib :: "string list file_lib" where
  "demo_lib = \<lparr>
     lib_fgets = (\<lambda>_ _ _ s. (Some ''line'', s @ [''fgets''])),
     lib_fgetc = (\<lambda>_ s. (0, s @ [''fgetc''])),
     lib_fputs = (\<lambda>_ _ s. (0, s @ [''fputs''])),
     lib_fputc = (\<lambda>_ _ s. (0, s @ [''fputc''])),
     lib_vfprintf = (\<lambda>_ _ _ s. (0, s @ [''vfprintf''])),
     lib_fflush = (\<lambda>_ s. (0, s @ [''fflush''])),
     lib_my_fstat = (\<lambda>_ _ _ s. (0, s @ [''fstat''])),
     lib_my_stat = (\<lambda>_ _ _ s. (Some 5, s @ [''stat''])),
     lib_my_chsize = (\<lambda>_ _ _ _ s. (0, s @ [''chsize''])),
     lib_my_fread = (\<lambda>_ _ _ _ s. (0, s @ [''fread''])),
     lib_my_fwrite = (\<lambda>_ _ _ _ s. (0, s @ [''fwrite''])),
     lib_my_fseek = (\<lambda>_ _ _ _ s. (0, s @ [''fseek''])),
     lib_my_ftell = (\<lambda>_ _ s. (0, s @ [''ftell''])),
     lib_my_create = (\<lambda>_ _ _ _ s. (0, s @ [''create''])),
     lib_create_temp_file = (\<lambda>_ _ _ _ s. ((3, ''tmp''), s @ [''create_temp_file''])),
     lib_my_open = (\<lambda>_ _ _ s. (0, s @ [''open''])),
     lib_my_close = (\<lambda>_ _ s. (0, s @ [''close''])),
     lib_my_read = (\<lambda>_ _ _ _ s. (0, s @ [''read''])),
     lib_my_write = (\<lambda>_ _ _ _ s. (0, s @ [''write''])),
     lib_my_pread = (\<lambda>_ _ _ _ _ s. (0, s @ [''pread''])),
     lib_my_pwrite = (\<lambda>_ _ _ _ _ s. (0, s @ [''pwrite''])),
     lib_my_seek = (\<lambda>_ _ _ _ s. (0, s @ [''seek''])),
     lib_my_tell = (\<lambda>_ _ s. (0, s @ [''tell''])),
     lib_my_delete = (\<lambda>_ _ s. (0, s @ [''delete''])),
     lib_my_rename = (\<lambda>_ _ _ s. (0, s @ [''rename''])),
     lib_my_create_with_symlink = (\<lambda>_ _ _ _ _ s. (0, s @ [''create_with_symlink''])),
     lib_my_delete_with_symlink = (\<lambda>_ _ s. (0, s @ [''delete_with_symlink''])),
     lib_my_rename_with_symlink = (\<lambda>_ _ _ s. (0, s @ [''rename_with_symlink''])),
     lib_my_sync = (\<lambda>_ _ s. (0, s @ [''sync''])),
     lib_feof = (\<lambda>_ s. (0, s @ [''feof''])),
     lib_my_fopen = (\<lambda>_ _ _ s. (Some 5, s @ [''fopen''])),
     lib_my_fclose = (\<lambda>_ _ s. (0, s @ [''fclose''])),
     lib_my_malloc = (\<lambda>_ s. (Some 5, s @ [''malloc''])),
     lib_my_free = (\<lambda>_ s. ((), s @ [''free'']))\<rparr>"

text \<open>The same library when no file can be opened.\<close>

definition closed_lib :: "string list file_lib \<Rightarrow> string list file_lib" where
  "closed_lib lib = lib\<lparr>lib_my_fopen := (\<lambda>name fl my s. (None, s @ [''fopen'']))\<rparr>"

lemma bracket_file_wait:
  assumes "opens (PSI_FILE_CALL get) = (\<lambda>r. None)" "closes (PSI_FILE_CALL get) = None"
    and "\<And>l. opens (PSI_FILE_CALL (start l)) None = l"
    and "\<And>l r. opens (PSI_FILE_CALL (fin l)) r = None" "\<And>l. closes (PSI_FILE_CALL (fin l)) = l"
  shows "bracket st (file_wait b svc log get start fin asks) = Some st"
  using assms
  by (cases "svc log (PSI_FILE_CALL get)")
    (simp_all add: file_wait_def Let_def bracket_step_def del: opens.simps closes.simps)

lemmas file_call_simps = psi_simps file_wait_def Let_def

interpretation fw_fgets: instrumented_call
  "inline_mysql_file_fgets b svc lib src str sz f"
  "lib_fgets lib str sz (m_file f)"
  "\<lambda>log r. file_wait b svc log (get_thread_file_stream_locker (mf_psi f) PSI_FILE_READ) (\<lambda>l. start_file_wait l (word_of_int sz) src) (\<lambda>l. end_file_wait l (case r of Some s \<Rightarrow> of_nat (length (c_str s)) | None \<Rightarrow> 0)) False"
  for b svc lib src str sz f
  by (unfold_locales, simp add: inline_mysql_file_fgets_def file_call_simps, rule bracket_file_wait, simp_all add: fun_eq_iff)

interpretation fw_fgetc: instrumented_call
  "inline_mysql_file_fgetc b svc lib src f"
  "lib_fgetc lib (m_file f)"
  "\<lambda>log r. file_wait b svc log (get_thread_file_stream_locker (mf_psi f) PSI_FILE_READ) (\<lambda>l. start_file_wait l 1 src) (\<lambda>l. end_file_wait l 1) False"
  for b svc lib src f
  by (unfold_locales, simp add: inline_mysql_file_fgetc_def file_call_simps, rule bracket_file_wait, simp_all add: fun_eq_iff)

interpretation fw_fputs: instrumented_call
  "inline_mysql_file_fputs b svc lib src str f"
  "lib_fputs lib str (m_file f)"
  "\<lambda>log r. file_wait b svc log (get_thread_file_stream_locker (mf_psi f) PSI_FILE_WRITE) (\<lambda>l. start_file_wait l (str_bytes str) src) (\<lambda>l. end_file_wait l (str_bytes str)) False"
  for b svc lib src str f
  by (unfold_locales, simp add: inline_mysql_file_fputs_def file_call_simps, rule bracket_file_wait, simp_all add: fun_eq_iff)

interpretation fw_fputc: instrumented_call
  "inline_mysql_file_fputc b svc lib src c f"
  "lib_fputc lib c (m_file f)"
  "\<lambda>log r. file_wait b svc log (get_thread_file_stream_locker (mf_psi f) PSI_FILE_WRITE) (\<lambda>l. start_file_wait l 1 src) (\<lambda>l. end_file_wait l 1) False"
  for b svc lib src c f
  by (unfold_locales, simp add: inline_mysql_file_fputc_def file_call_simps, rule bracket_file_wait, simp_all add: fun_eq_iff)

interpretation fw_fprintf: instrumented_call
  "inline_mysql_file_fprintf b svc lib this_file f format args"
  "lib_vfprintf lib (m_file f) format args"
  "\<lambda>log r. file_wait b svc log (get_thread_file_stream_locker (mf_psi f) PSI_FILE_WRITE) (\<lambda>l. start_file_wait l 0 (this_file, 650)) (\<lambda>l. end_file_wait l (word_of_int r)) False"
  for b svc lib this_file f format args
  by (unfold_locales, simp add: inline_mysql_file_fprintf_def file_call_simps, rule bracket_file_wait, simp_all add: fun_eq_iff)

interpretation fw_vfprintf: instrumented_call
  "inline_mysql_file_vfprintf b svc lib src f format args"
  "lib_vfprintf lib (m_file f) format args"
  "\<lambda>log r. file_wait b svc log (get_thread_file_stream_locker (mf_psi f) PSI_FILE_WRITE) (\<lambda>l. start_file_wait l 0 src) (\<lambda>l. end_file_wait l (word_of_int r)) False"
  for b svc lib src f format args
  by (unfold_locales, simp add: inline_mysql_file_vfprintf_def file_call_simps, rule bracket_file_wait, simp_all add: fun_eq_iff)

interpretation fw_fflush: instrumented_call
  "inline_mysql_file_fflush b svc lib src f"
  "lib_fflush lib (m_file f)"
  "\<lambda>log r. file_wait b svc log (get_thread_file_stream_locker (mf_psi f) PSI_FILE_FLUSH) (\<lambda>l. start_file_wait l 0 src) (\<lambda>l. end_file_wait l 0) False"
  for b svc lib src f
  by (unfold_locales, simp add: inline_mysql_file_fflush_def file_call_simps, rule bracket_file_wait, simp_all add: fun_eq_iff)

interpretation fw_fstat: instrumented_call
  "inline_mysql_file_fstat b svc lib src filenr stat_area flags"
  "lib_my_fstat lib filenr stat_area flags"
  "\<lambda>log r. file_wait b svc log (get_thread_file_descriptor_locker filenr PSI_FILE_FSTAT) (\<lambda>l. start_file_wait l 0 src) (\<lambda>l. end_file_wait l 0) False"
  for b svc lib src filenr stat_area flags
  by (unfold_locales, simp add: inline_mysql_file_fstat_def file_call_simps, rule bracket_file_wait, simp_all add: fun_eq_iff)

interpretation fw_stat: instrumented_call
  "inline_mysql_file_stat b svc lib key src path stat_area flags"
  "lib_my_stat lib path stat_area flags"
  "\<lambda>log r. file_wait b svc log (get_thread_file_name_locker key PSI_FILE_STAT (Some path)) (\<lambda>l. start_file_open_wait l src) (\<lambda>l. end_file_open_wait l r) True"
  for b svc lib key src path stat_area flags
  by (unfold_locales, simp add: inline_mysql_file_stat_def file_call_simps, rule bracket_file_wait, simp_all add: fun_eq_iff)

interpretation fw_chsize: instrumented_call
  "inline_mysql_file_chsize b svc lib src f newlength filler flags"
  "lib_my_chsize lib f newlength filler flags"
  "\<lambda>log r. file_wait b svc log (get_thread_file_descriptor_locker f PSI_FILE_CHSIZE) (\<lambda>l. start_file_wait l newlength src) (\<lambda>l. end_file_wait l newlength) False"
  for b svc lib src f newlength filler flags
  by (unfold_locales, simp add: inline_mysql_file_chsize_def file_call_simps, rule bracket_file_wait, simp_all add: fun_eq_iff)

interpretation fw_fread: instrumented_call
  "inline_mysql_file_fread b svc lib src f buffer count flags"
  "lib_my_fread lib (m_file f) buffer count flags"
  "\<lambda>log r. file_wait b svc log (get_thread_file_stream_locker (mf_psi f) PSI_FILE_READ) (\<lambda>l. start_file_wait l count src) (\<lambda>l. end_file_wait l (transfer_bytes flags count r)) False"
  for b svc lib src f buffer count flags
  by (unfold_locales, simp add: inline_mysql_file_fread_def file_call_simps, rule bracket_file_wait, simp_all add: fun_eq_iff)

interpretation fw_fwrite: instrumented_call
  "inline_mysql_file_fwrite b svc lib src f buffer count flags"
  "lib_my_fwrite lib (m_file f) buffer count flags"
  "\<lambda>log r. file_wait b svc log (get_thread_file_stream_locker (mf_psi f) PSI_FILE_WRITE) (\<lambda>l. start_file_wait l count src) (\<lambda>l. end_file_wait l (transfer_bytes flags count r)) False"
  for b svc lib src f buffer count flags
  by (unfold_locales, simp add: inline_mysql_file_fwrite_def file_call_simps, rule bracket_file_wait, simp_all add: fun_eq_iff)

interpretation fw_fseek: instrumented_call
  "inline_mysql_file_fseek b svc lib src f pos whence flags"
  "lib_my_fseek lib (m_file f) pos whence flags"
  "\<lambda>log r. file_wait b svc log (get_thread_file_stream_locker (mf_psi f) PSI_FILE_SEEK) (\<lambda>l. start_file_wait l 0 src) (\<lambda>l. end_file_wait l 0) False"
  for b svc lib src f pos whence flags
  by (unfold_locales, simp add: inline_mysql_file_fseek_def file_call_simps, rule bracket_file_wait, simp_all add: fun_eq_iff)

interpretation fw_ftell: instrumented_call
  "inline_mysql_file_ftell b svc lib src f flags"
  "lib_my_ftell lib (m_file f) flags"
  "\<lambda>log r. file_wait b svc log (get_thread_file_stream_locker (mf_psi f) PSI_FILE_TELL) (\<lambda>l. start_file_wait l 0 src) (\<lambda>l. end_file_wait l 0) False"
  for b svc lib src f flags
  by (unfold_locales, simp add: inline_mysql_file_ftell_def file_call_simps, rule bracket_file_wait, simp_all add: fun_eq_iff)

interpretation fw_create: instrumented_call
  "inline_mysql_file_create b svc lib key src filename create_flags access_flags myFlags"
  "lib_my_create lib filename create_flags access_flags myFlags"
  "\<lambda>log r. file_wait b svc log (get_thread_file_name_locker key PSI_FILE_CREATE (Some filename)) (\<lambda>l. start_file_open_wait l src) (\<lambda>l. end_file_open_wait_and_bind_to_descriptor l r) False"
  for b svc lib key src filename create_flags access_flags myFlags
  by (unfold_locales, simp add: inline_mysql_file_create_def file_call_simps, rule bracket_file_wait, simp_all add: fun_eq_iff)

interpretation fw_create_temp: instrumented_call
  "inline_mysql_file_create_temp b svc lib key src dir pfx md myFlags"
  "lib_create_temp_file lib dir pfx md myFlags"
  "\<lambda>log r. file_wait b svc log (get_thread_file_name_locker key PSI_FILE_CREATE None) (\<lambda>l. start_file_open_wait l src) (\<lambda>l. end_temp_file_open_wait_and_bind_to_descriptor l (fst r) (snd r)) False"
  for b svc lib key src dir pfx md myFlags
  by (unfold_locales, simp add: inline_mysql_file_create_temp_def file_call_simps, rule bracket_file_wait, simp_all add: fun_eq_iff)

interpretation fw_open: instrumented_call
  "inline_mysql_file_open b svc lib key src filename flags myFlags"
  "lib_my_open lib filename flags myFlags"
  "\<lambda>log r. file_wait b svc log (get_thread_file_name_locker key PSI_FILE_OPEN (Some filename)) (\<lambda>l. start_file_open_wait l src) (\<lambda>l. end_file_open_wait_and_bind_to_descriptor l r) False"
  for b svc lib key src filename flags myFlags
  by (unfold_locales, simp add: inline_mysql_file_open_def file_call_simps, rule bracket_file_wait, simp_all add: fun_eq_iff)

interpretation fw_close: instrumented_call
  "inline_mysql_file_close b svc lib src f flags"
  "lib_my_close lib f flags"
  "\<lambda>log r. file_wait b svc log (get_thread_file_descriptor_locker f PSI_FILE_CLOSE) (\<lambda>l. start_file_close_wait l src) (\<lambda>l. end_file_close_wait l r) False"
  for b svc lib src f flags
  by (unfold_locales, simp add: inline_mysql_file_close_def file_call_simps, rule bracket_file_wait, simp_all add: fun_eq_iff)

interpretation fw_read: instrumented_call
  "inline_mysql_file_read b svc lib src f buffer count flags"
  "lib_my_read lib f buffer count flags"
  "\<lambda>log r. file_wait b svc log (get_thread_file_descriptor_locker f PSI_FILE_READ) (\<lambda>l. start_file_wait l count src) (\<lambda>l. end_file_wait l (transfer_bytes flags count r)) False"
  for b svc lib src f buffer count flags
  by (unfold_locales, simp add: inline_mysql_file_read_def file_call_simps, rule bracket_file_wait, simp_all add: fun_eq_iff)

interpretation fw_write: instrumented_call
  "inline_mysql_file_write b svc lib src f buffer count flags"
  "lib_my_write lib f buffer count flags"
  "\<lambda>log r. file_wait b svc log (get_thread_file_descriptor_locker f PSI_FILE_WRITE) (\<lambda>l. start_file_wait l count src) (\<lambda>l. end_file_wait l (transfer_bytes flags count r)) False"
  for b svc lib src f buffer count flags
  by (unfold_locales, simp add: inline_mysql_file_write_def file_call_simps, rule bracket_file_wait, simp_all add: fun_eq_iff)

interpretation fw_pread: instrumented_call
  "inline_mysql_file_pread b svc lib src f buffer count offset flags"
  "lib_my_pread lib f buffer count offset flags"
  "\<lambda>log r. file_wait b svc log (get_thread_file_descriptor_locker f PSI_FILE_READ) (\<lambda>l. start_file_wait l count src) (\<lambda>l. end_file_wait l (transfer_bytes flags count r)) False"
  for b svc lib src f buffer count offset flags
  by (unfold_locales, simp add: inline_mysql_file_pread_def file_call_simps, rule bracket_file_wait, simp_all add: fun_eq_iff)

interpretation fw_pwrite: instrumented_call
  "inline_mysql_file_pwrite b svc lib src f buffer count offset flags"
  "lib_my_pwrite lib f buffer count offset flags"
  "\<lambda>log r. file_wait b svc log (get_thread_file_descriptor_locker f PSI_FILE_WRITE) (\<lambda>l. start_file_wait l count src) (\<lambda>l. end_file_wait l (transfer_bytes flags count r)) False"
  for b svc lib src f buffer count offset flags
  by (unfold_locales, simp add: inline_mysql_file_pwrite_def file_call_simps, rule bracket_file_wait, simp_all add: fun_eq_iff)

interpretation fw_seek: instrumented_call
  "inline_mysql_file_seek b svc lib src f pos whence flags"
  "lib_my_seek lib f pos whence flags"
  "\<lambda>log r. file_wait b svc log (get_thread_file_descriptor_locker f PSI_FILE_SEEK) (\<lambda>l. start_file_wait l 0 src) (\<lambda>l. end_file_wait l 0) False"
  for b svc lib src f pos whence flags
  by (unfold_locales, simp add: inline_mysql_file_seek_def file_call_simps, rule bracket_file_wait, simp_all add: fun_eq_iff)

interpretation fw_tell: instrumented_call
  "inline_mysql_file_tell b svc lib src f flags"
  "lib_my_tell lib f flags"
  "\<lambda>log r. file_wait b svc log (get_thread_file_descriptor_locker f PSI_FILE_TELL) (\<lambda>l. start_file_wait l 0 src) (\<lambda>l. end_file_wait l 0) False"
  for b svc lib src f flags
  by (unfold_locales, simp add: inline_mysql_file_tell_def file_call_simps, rule bracket_file_wait, simp_all add: fun_eq_iff)

interpretation fw_delete: instrumented_call
  "inline_mysql_file_delete b svc lib key src name flags"
  "lib_my_delete lib name flags"
  "\<lambda>log r. file_wait b svc log (get_thread_file_name_locker key PSI_FILE_DELETE (Some name)) (\<lambda>l. start_file_close_wait l src) (\<lambda>l. end_file_close_wait l r) False"
  for b svc lib key src name flags
  by (unfold_locales, simp add: inline_mysql_file_delete_def file_call_simps, rule bracket_file_wait, simp_all add: fun_eq_iff)

interpretation fw_rename: instrumented_call
  "inline_mysql_file_rename b svc lib key src old new flags"
  "lib_my_rename lib old new flags"
  "\<lambda>log r. file_wait b svc log (get_thread_file_name_locker key PSI_FILE_RENAME (Some old)) (\<lambda>l. start_file_wait l 0 src) (\<lambda>l. end_file_rename_wait l old new r) False"
  for b svc lib key src old new flags
  by (unfold_locales, simp add: inline_mysql_file_rename_def file_call_simps, rule bracket_file_wait, simp_all add: fun_eq_iff)

interpretation fw_create_with_symlink: instrumented_call
  "inline_mysql_file_create_with_symlink b svc lib key src linkname filename create_flags access_flags flags"
  "lib_my_create_with_symlink lib linkname filename create_flags access_flags flags"
  "\<lambda>log r. file_wait b svc log (get_thread_file_name_locker key PSI_FILE_CREATE (Some filename)) (\<lambda>l. start_file_open_wait l src) (\<lambda>l. end_file_open_wait_and_bind_to_descriptor l r) False"
  for b svc lib key src linkname filename create_flags access_flags flags
  by (unfold_locales, simp add: inline_mysql_file_create_with_symlink_def file_call_simps, rule bracket_file_wait, simp_all add: fun_eq_iff)

interpretation fw_delete_with_symlink: instrumented_call
  "inline_mysql_file_delete_with_symlink b svc lib key src name flags"
  "lib_my_delete_with_symlink lib name flags"
  "\<lambda>log r. file_wait b svc log (get_thread_file_name_locker key PSI_FILE_DELETE (Some name)) (\<lambda>l. start_file_close_wait l src) (\<lambda>l. end_file_close_wait l r) False"
  for b svc lib key src name flags
  by (unfold_locales, simp add: inline_mysql_file_delete_with_symlink_def file_call_simps, rule bracket_file_wait, simp_all add: fun_eq_iff)

interpretation fw_rename_with_symlink: instrumented_call
  "inline_mysql_file_rename_with_symlink b svc lib key src old new flags"
  "lib_my_rename_with_symlink lib old new flags"
  "\<lambda>log r. file_wait b svc log (get_thread_file_name_locker key PSI_FILE_RENAME (Some old)) (\<lambda>l. start_file_wait l 0 src) (\<lambda>l. end_file_rename_wait l old new r) False"
  for b svc lib key src old new flags
  by (unfold_locales, simp add: inline_mysql_file_rename_with_symlink_def file_call_simps, rule bracket_file_wait, simp_all add: fun_eq_iff)

interpretation fw_sync: instrumented_call
  "inline_mysql_file_sync b svc lib src f flags"
  "lib_my_sync lib f flags"
  "\<lambda>log r. file_wait b svc log (get_thread_file_descriptor_locker f PSI_FILE_SYNC) (\<lambda>l. start_file_wait l 0 src) (\<lambda>l. end_file_wait l 0) False"
  for b svc lib src f flags
  by (unfold_locales, simp add: inline_mysql_file_sync_def file_call_simps, rule bracket_file_wait, simp_all add: fun_eq_iff)

interpretation fw_fclose: instrumented_call
  "inline_mysql_file_fclose b svc lib src (Some f) flags"
  "close_stream lib f flags"
  "\<lambda>log r. file_wait b svc log (get_thread_file_stream_locker (mf_psi f) PSI_FILE_STREAM_CLOSE)
     (\<lambda>l. start_file_close_wait l src) (\<lambda>l. end_file_close_wait l r) False"
  for b svc lib src f flags
  by (unfold_locales, simp add: inline_mysql_file_fclose_def close_stream_def file_call_simps split: prod.split, rule bracket_file_wait, simp_all add: fun_eq_iff)

section \<open>Opening a stream\<close>

lemma fopen_refines:
  assumes "run_state (inline_mysql_file_fopen b svc lib key src name flags my) w = (r, w')"
  shows "(map_option (\<lambda>f. (mf_addr f, the (m_file f))) r, os_state w') = open_stream lib name flags my (os_state w)"
    and "disconnect_ex w' = disconnect_ex w"
    and "\<And>f. r = Some f \<Longrightarrow> m_file f \<noteq> None"
  using assms
  by (auto simp: inline_mysql_file_fopen_def open_stream_def psi_simps split: prod.splits option.splits if_splits)

lemma fopen_log:
  "psi_log (snd (run_state (inline_mysql_file_fopen b svc lib key src name flags my) w)) = psi_log w @
     (case lib_my_malloc lib MY_WME (os_state w) of
        (None, s) \<Rightarrow> []
      | (Some p, s) \<Rightarrow>
          file_wait b svc (psi_log w) (get_thread_file_name_locker key PSI_FILE_STREAM_OPEN (Some name))
            (\<lambda>l. start_file_open_wait l src)
            (\<lambda>l. end_file_open_wait l (fst (lib_my_fopen lib name flags my s))) True)"
  by (auto simp: inline_mysql_file_fopen_def file_call_simps split: prod.splits option.splits)

lemma keeps_waits_fopen: "keeps_waits (inline_mysql_file_fopen b svc lib key src name flags my)"
  unfolding keeps_waits_def fopen_log bracket_append
  by (auto split: prod.splits option.splits intro!: bracket_file_wait)

lemma same_fopen:
  "same_system (map_option (\<lambda>f. (mf_addr f, the (m_file f))))
     (inline_mysql_file_fopen b svc lib key src name flags my)
     (inline_mysql_file_fopen (without_psi b) svc' lib key src name flags my)"
  unfolding same_system_def
  by (metis (no_types, lifting) fopen_refines(1,2) prod.collapse prod.inject)

lemma same_fclose:
  "same_system id (inline_mysql_file_fclose b svc lib src f flags)
     (inline_mysql_file_fclose (without_psi b) svc' lib src f flags)"
proof (cases f)
  case None
  then show ?thesis by (simp add: same_system_def inline_mysql_file_fclose_def psi_simps)
next
  case (Some g)
  then show ?thesis by (simp add: same_system_def fw_fclose.run)
qed

lemma keeps_waits_fclose: "keeps_waits (inline_mysql_file_fclose b svc lib src f flags)"
proof (cases f)
  case None
  then show ?thesis by (simp add: inline_mysql_file_fclose_def)
qed (simp add: fw_fclose.waits_kept)

lemmas file_runs = fw_fgets.run fw_fgetc.run fw_fputs.run fw_fputc.run fw_fprintf.run fw_vfprintf.run
  fw_fflush.run fw_fstat.run fw_stat.run fw_chsize.run fw_fread.run fw_fwrite.run fw_fseek.run
  fw_ftell.run fw_create.run fw_create_temp.run fw_open.run fw_close.run fw_read.run
  fw_write.run fw_pread.run fw_pwrite.run fw_seek.run fw_tell.run fw_delete.run fw_rename.run
  fw_create_with_symlink.run fw_delete_with_symlink.run fw_rename_with_symlink.run fw_sync.run
  fw_fclose.run

lemmas file_waits = fw_fgets.waits_kept fw_fgetc.waits_kept fw_fputs.waits_kept fw_fputc.waits_kept
  fw_fprintf.waits_kept fw_vfprintf.waits_kept fw_fflush.waits_kept fw_fstat.waits_kept
  fw_stat.waits_kept fw_chsize.waits_kept fw_fread.waits_kept fw_fwrite.waits_kept
  fw_fseek.waits_kept fw_ftell.waits_kept fw_create.waits_kept fw_create_temp.waits_kept
  fw_open.waits_kept fw_close.waits_kept fw_read.waits_kept fw_write.waits_kept
  fw_pread.waits_kept fw_pwrite.waits_kept fw_seek.waits_kept fw_tell.waits_kept
  fw_delete.waits_kept fw_rename.waits_kept fw_create_with_symlink.waits_kept
  fw_delete_with_symlink.waits_kept fw_rename_with_symlink.waits_kept fw_sync.waits_kept
  fw_fclose.waits_kept keeps_waits_fopen

lemmas file_macros = mysql_file_register_def mysql_file_fgets_def mysql_file_fgetc_def mysql_file_fputs_def
  mysql_file_fputc_def mysql_file_fprintf_def mysql_file_vfprintf_def mysql_file_fflush_def
  mysql_file_feof_def mysql_file_fstat_def mysql_file_stat_def mysql_file_chsize_def
  mysql_file_fopen_def mysql_file_fclose_def mysql_file_fread_def mysql_file_fwrite_def
  mysql_file_fseek_def mysql_file_ftell_def mysql_file_create_def mysql_file_create_temp_def
  mysql_file_open_def mysql_file_close_def mysql_file_read_def mysql_file_write_def
  mysql_file_pread_def mysql_file_pwrite_def mysql_file_seek_def mysql_file_tell_def
  mysql_file_delete_def mysql_file_rename_def mysql_file_create_with_symlink_def
  mysql_file_delete_with_symlink_def mysql_file_rename_with_symlink_def mysql_file_sync_def

section \<open>Properties\<close>

text \<open>C24. A build with file instrumentation and the same build without it treat the system alike:
  from states of the system that agree, whatever the service answers, each call of the file API
  returns the same value (for \<open>mysql_file_fopen\<close>, a stream on the same structure and the same
  \<open>FILE\<close>) and leaves the system in the same state.\<close>

theorem file_builds_agree:
  fixes b :: build and svc svc' :: psi_service and lib :: "'o file_lib"
  defines "b' \<equiv> without_psi b"
  shows
    "same_system id (mysql_file_fgets b svc lib src pa i f) (mysql_file_fgets b' svc' lib src pa i f)
   \<and> same_system id (mysql_file_fgetc b svc lib src f) (mysql_file_fgetc b' svc' lib src f)
   \<and> same_system id (mysql_file_fputs b svc lib src so f) (mysql_file_fputs b' svc' lib src so f)
   \<and> same_system id (mysql_file_fputc b svc lib src ch f) (mysql_file_fputc b' svc' lib src ch f)
   \<and> same_system id (mysql_file_fprintf b svc lib this_file f s1 pa) (mysql_file_fprintf b' svc' lib this_file f s1 pa)
   \<and> same_system id (mysql_file_vfprintf b svc lib src f s1 pa) (mysql_file_vfprintf b' svc' lib src f s1 pa)
   \<and> same_system id (mysql_file_fflush b svc lib src f) (mysql_file_fflush b' svc' lib src f)
   \<and> same_system id (mysql_file_fstat b svc lib src i pa j) (mysql_file_fstat b' svc' lib src i pa j)
   \<and> same_system id (mysql_file_stat b svc lib key src s1 pa i) (mysql_file_stat b' svc' lib key src s1 pa i)
   \<and> same_system id (mysql_file_chsize b svc lib src i n j k) (mysql_file_chsize b' svc' lib src i n j k)
   \<and> same_system (map_option (\<lambda>f. (mf_addr f, the (m_file f)))) (mysql_file_fopen b svc lib key src s1 i j) (mysql_file_fopen b' svc' lib key src s1 i j)
   \<and> same_system id (mysql_file_fclose b svc lib src fo i) (mysql_file_fclose b' svc' lib src fo i)
   \<and> same_system id (mysql_file_fread b svc lib src f pa n i) (mysql_file_fread b' svc' lib src f pa n i)
   \<and> same_system id (mysql_file_fwrite b svc lib src f pa n i) (mysql_file_fwrite b' svc' lib src f pa n i)
   \<and> same_system id (mysql_file_fseek b svc lib src f n i j) (mysql_file_fseek b' svc' lib src f n i j)
   \<and> same_system id (mysql_file_ftell b svc lib src f i) (mysql_file_ftell b' svc' lib src f i)
   \<and> same_system id (mysql_file_create b svc lib key src s1 i j k) (mysql_file_create b' svc' lib key src s1 i j k)
   \<and> same_system id (mysql_file_create_temp b svc lib key src so s1 i j) (mysql_file_create_temp b' svc' lib key src so s1 i j)
   \<and> same_system id (mysql_file_open b svc lib key src s1 i j) (mysql_file_open b' svc' lib key src s1 i j)
   \<and> same_system id (mysql_file_close b svc lib src i j) (mysql_file_close b' svc' lib src i j)
   \<and> same_system id (mysql_file_read b svc lib src i pa n j) (mysql_file_read b' svc' lib src i pa n j)
   \<and> same_system id (mysql_file_write b svc lib src i pa n j) (mysql_file_write b' svc' lib src i pa n j)
   \<and> same_system id (mysql_file_pread b svc lib src i pa n off j) (mysql_file_pread b' svc' lib src i pa n off j)
   \<and> same_system id (mysql_file_pwrite b svc lib src i pa n off j) (mysql_file_pwrite b' svc' lib src i pa n off j)
   \<and> same_system id (mysql_file_seek b svc lib src i n j k) (mysql_file_seek b' svc' lib src i n j k)
   \<and> same_system id (mysql_file_tell b svc lib src i j) (mysql_file_tell b' svc' lib src i j)
   \<and> same_system id (mysql_file_delete b svc lib key src s1 i) (mysql_file_delete b' svc' lib key src s1 i)
   \<and> same_system id (mysql_file_rename b svc lib key src s1 s2 i) (mysql_file_rename b' svc' lib key src s1 s2 i)
   \<and> same_system id (mysql_file_create_with_symlink b svc lib key src s1 s2 i j k) (mysql_file_create_with_symlink b' svc' lib key src s1 s2 i j k)
   \<and> same_system id (mysql_file_delete_with_symlink b svc lib key src s1 i) (mysql_file_delete_with_symlink b' svc' lib key src s1 i)
   \<and> same_system id (mysql_file_rename_with_symlink b svc lib key src s1 s2 i) (mysql_file_rename_with_symlink b' svc' lib key src s1 s2 i)
   \<and> same_system id (mysql_file_sync b svc lib src i j) (mysql_file_sync b' svc' lib src i j)"
  unfolding file_macros b'_def
  by (intro conjI same_fopen same_fclose) (simp_all add: same_system_def file_runs)

text \<open>Every wait that a file call reports is closed before the call returns, by an end that
  names the locker of its start, whatever the operation does.\<close>

theorem file_waits_nest:
  "keeps_waits (mysql_file_fgets b svc lib src pa i f)
   \<and> keeps_waits (mysql_file_fgetc b svc lib src f)
   \<and> keeps_waits (mysql_file_fputs b svc lib src so f)
   \<and> keeps_waits (mysql_file_fputc b svc lib src ch f)
   \<and> keeps_waits (mysql_file_fprintf b svc lib this_file f s1 pa)
   \<and> keeps_waits (mysql_file_vfprintf b svc lib src f s1 pa)
   \<and> keeps_waits (mysql_file_fflush b svc lib src f)
   \<and> keeps_waits (mysql_file_feof lib f)
   \<and> keeps_waits (mysql_file_fstat b svc lib src i pa j)
   \<and> keeps_waits (mysql_file_stat b svc lib key src s1 pa i)
   \<and> keeps_waits (mysql_file_chsize b svc lib src i n j k)
   \<and> keeps_waits (mysql_file_fopen b svc lib key src s1 i j)
   \<and> keeps_waits (mysql_file_fclose b svc lib src fo i)
   \<and> keeps_waits (mysql_file_fread b svc lib src f pa n i)
   \<and> keeps_waits (mysql_file_fwrite b svc lib src f pa n i)
   \<and> keeps_waits (mysql_file_fseek b svc lib src f n i j)
   \<and> keeps_waits (mysql_file_ftell b svc lib src f i)
   \<and> keeps_waits (mysql_file_create b svc lib key src s1 i j k)
   \<and> keeps_waits (mysql_file_create_temp b svc lib key src so s1 i j)
   \<and> keeps_waits (mysql_file_open b svc lib key src s1 i j)
   \<and> keeps_waits (mysql_file_close b svc lib src i j)
   \<and> keeps_waits (mysql_file_read b svc lib src i pa n j)
   \<and> keeps_waits (mysql_file_write b svc lib src i pa n j)
   \<and> keeps_waits (mysql_file_pread b svc lib src i pa n off j)
   \<and> keeps_waits (mysql_file_pwrite b svc lib src i pa n off j)
   \<and> keeps_waits (mysql_file_seek b svc lib src i n j k)
   \<and> keeps_waits (mysql_file_tell b svc lib src i j)
   \<and> keeps_waits (mysql_file_delete b svc lib key src s1 i)
   \<and> keeps_waits (mysql_file_rename b svc lib key src s1 s2 i)
   \<and> keeps_waits (mysql_file_create_with_symlink b svc lib key src s1 s2 i j k)
   \<and> keeps_waits (mysql_file_delete_with_symlink b svc lib key src s1 i)
   \<and> keeps_waits (mysql_file_rename_with_symlink b svc lib key src s1 s2 i)
   \<and> keeps_waits (mysql_file_sync b svc lib src i j)"
  unfolding file_macros by (intro conjI keeps_waits_fclose file_waits) (simp_all add: inline_mysql_file_feof_def)

text \<open>\<open>mysql_file_fopen\<close> allocates the stream's structure, opens the file and hands the structure
  out only when the open succeeded; when the file cannot be opened the structure is released
  again, with instrumentation and without. \<open>mysql_file_fclose\<close> on the stream closes the \<open>FILE\<close> and
  releases the structure, and does nothing on \<open>NULL\<close>.\<close>

theorem stream_open_close:
  assumes "run_state (mysql_file_fopen b svc lib key src name flags my) w = (r, w')"
  shows "(map_option (\<lambda>f. (mf_addr f, the (m_file f))) r, os_state w') = open_stream lib name flags my (os_state w)
   \<and> (\<forall>f. r = Some f \<longrightarrow> m_file f \<noteq> None)
   \<and> (\<forall>f w1. (fst (run_state (mysql_file_fclose b svc lib src (Some f) my) w1),
               os_state (snd (run_state (mysql_file_fclose b svc lib src (Some f) my) w1)))
             = close_stream lib f my (os_state w1))
   \<and> (\<forall>w1. run_state (mysql_file_fclose b svc lib src None my) w1 = (0, w1))"
proof -
  have "run_state (inline_mysql_file_fclose b svc lib src None my) w1 = (0, w1)" for w1
    by (simp add: inline_mysql_file_fclose_def psi_simps)
  then show ?thesis
    using fopen_refines [OF assms [unfolded mysql_file_fopen_def]]
    by (simp add: mysql_file_fclose_def fw_fclose.run)
qed

text \<open>With a library whose files never open, the structure at address 5 is allocated and released.\<close>

theorem stream_open_close_witness:
  "\<exists>w'. run_state (mysql_file_fopen full_build counting_service (closed_lib demo_lib) 1 (''a.c'', 1) ''x'' 0 0)
       (start_world []) = (None, w')
     \<and> os_state w' = [''malloc'', ''fopen'', ''free'']"
proof -
  obtain r w' where run: "run_state (mysql_file_fopen full_build counting_service (closed_lib demo_lib)
      1 (''a.c'', 1) ''x'' 0 0) (start_world []) = (r, w')" by fastforce
  show ?thesis
    using run stream_open_close [OF run]
    by (simp add: open_stream_def closed_lib_def demo_lib_def start_world_def)
qed

text \<open>The bytes a read or write reports, in each of the six transfer calls: the whole request when
  the caller asked for all or nothing and got it, the count the library returned otherwise, and
  zero on an error; a partial transfer under \<open>MY_NABP\<close> or \<open>MY_FNABP\<close> counts as zero.\<close>

theorem file_transfers_reported:
  fixes lib :: "'o file_lib"
  assumes m: "m = mysql_file_read b svc lib src d buf n fl \<and> get = get_thread_file_descriptor_locker d PSI_FILE_READ
     \<or> m = mysql_file_write b svc lib src d buf n fl \<and> get = get_thread_file_descriptor_locker d PSI_FILE_WRITE
     \<or> m = mysql_file_pread b svc lib src d buf n off fl \<and> get = get_thread_file_descriptor_locker d PSI_FILE_READ
     \<or> m = mysql_file_pwrite b svc lib src d buf n off fl \<and> get = get_thread_file_descriptor_locker d PSI_FILE_WRITE
     \<or> m = mysql_file_fread b svc lib src f buf n fl \<and> get = get_thread_file_stream_locker (mf_psi f) PSI_FILE_READ
     \<or> m = mysql_file_fwrite b svc lib src f buf n fl \<and> get = get_thread_file_stream_locker (mf_psi f) PSI_FILE_WRITE"
    and r: "run_state m w = (r, w')"
    and l: "have_psi b INSTR_FILE" "svc (psi_log w) (PSI_FILE_CALL get) = Some l"
    and moved: "moved = (if fl AND 6 \<noteq> 0 then (if r = 0 then n else 0) else (if r = - 1 then 0 else r))"
  shows "psi_log w' = psi_log w @
     [(PSI_FILE_CALL get, Some l), (PSI_FILE_CALL (start_file_wait (Some l) n src), None),
      (PSI_FILE_CALL (end_file_wait (Some l) moved), None)]"
  using m r l moved unfolding file_macros
  by (elim disjE conjE)
    (auto simp: fw_read.run fw_write.run fw_pread.run fw_pwrite.run fw_fread.run fw_fwrite.run
      file_wait_def transfer_bytes_def Let_def)

theorem file_transfers_reported_witness:
  "\<exists>w'. run_state (mysql_file_read full_build counting_service demo_lib (''a.c'', 1) 3 (Some 64) 10 4)
         (start_world []) = (0, w')
     \<and> psi_log w' = [(PSI_FILE_CALL (get_thread_file_descriptor_locker 3 PSI_FILE_READ), Some 0),
                     (PSI_FILE_CALL (start_file_wait (Some 0) 10 (''a.c'', 1)), None),
                     (PSI_FILE_CALL (end_file_wait (Some 0) 10), None)]"
proof -
  let ?m = "mysql_file_read full_build counting_service demo_lib (''a.c'', 1) 3 (Some 64) 10 4"
  obtain r w' where run: "run_state ?m (start_world []) = (r, w')" by fastforce
  then have "r = 0" by (auto simp: mysql_file_read_def fw_read.run demo_lib_def)
  then show ?thesis
    using run file_transfers_reported [where m = ?m and b = full_build and svc = counting_service
        and lib = demo_lib and src = "(''a.c'', 1)" and d = 3 and buf = "Some 64" and n = 10 and fl = 4
        and get = "get_thread_file_descriptor_locker 3 PSI_FILE_READ" and w = "start_world []"
        and r = r and w' = w' and l = 0 and moved = 10]
    by (simp add: counting_service_def start_world_def)
qed

end
