(* ===== verification/Thr_Locks.thy ===== *)
theory Thr_Locks
  imports Psi_Prelude
begin

text \<open>
  The platform layer of the client library's headers: mutexes (\<open>thr_mutex.h\<close>), reader-writer locks
  (\<open>thr_rwlock.h\<close>), condition variables (\<open>thr_cond.h\<close>) and absolute times (\<open>my_global.h\<close>). Each
  function has a Windows and a pthread branch, chosen by the build, and the mutexes a debug
  branch (\<open>SAFE_MUTEX\<close>). The primitives of the platform and the \<open>safe_\<close> functions of \<open>mysys\<close> are
  parameters: a lock is known by its address, and what holding it means is part of the system's
  state. The one field of a lock the headers themselves keep, \<open>have_exclusive_srwlock\<close>, is part
  of the state here.
\<close>

section \<open>The primitives\<close>

record 'o mutex_sys =
  pthread_mutex_init :: "nat \<Rightarrow> ptr \<Rightarrow> 'o \<Rightarrow> int \<times> 'o"
  pthread_mutex_lock :: "nat \<Rightarrow> 'o \<Rightarrow> int \<times> 'o"
  pthread_mutex_trylock :: "nat \<Rightarrow> 'o \<Rightarrow> int \<times> 'o"
  pthread_mutex_unlock :: "nat \<Rightarrow> 'o \<Rightarrow> int \<times> 'o"
  pthread_mutex_destroy :: "nat \<Rightarrow> 'o \<Rightarrow> int \<times> 'o"
  InitializeCriticalSection :: "nat \<Rightarrow> 'o \<Rightarrow> 'o"
  EnterCriticalSection :: "nat \<Rightarrow> 'o \<Rightarrow> 'o"
  TryEnterCriticalSection :: "nat \<Rightarrow> 'o \<Rightarrow> bool \<times> 'o"
  RecursionCount :: "nat \<Rightarrow> 'o \<Rightarrow> int"
  LeaveCriticalSection :: "nat \<Rightarrow> 'o \<Rightarrow> 'o"
  DeleteCriticalSection :: "nat \<Rightarrow> 'o \<Rightarrow> 'o"
  safe_mutex_init :: "nat \<Rightarrow> ptr \<Rightarrow> src \<Rightarrow> 'o \<Rightarrow> int \<times> 'o"
  safe_mutex_lock :: "nat \<Rightarrow> bool \<Rightarrow> src \<Rightarrow> 'o \<Rightarrow> int \<times> 'o"
  safe_mutex_unlock :: "nat \<Rightarrow> src \<Rightarrow> 'o \<Rightarrow> int \<times> 'o"
  safe_mutex_destroy :: "nat \<Rightarrow> src \<Rightarrow> 'o \<Rightarrow> int \<times> 'o"

record 'o rwlock_sys =
  pthread_rwlock_init :: "nat \<Rightarrow> 'o \<Rightarrow> int \<times> 'o"
  pthread_rwlock_destroy :: "nat \<Rightarrow> 'o \<Rightarrow> int \<times> 'o"
  pthread_rwlock_rdlock :: "nat \<Rightarrow> 'o \<Rightarrow> int \<times> 'o"
  pthread_rwlock_tryrdlock :: "nat \<Rightarrow> 'o \<Rightarrow> int \<times> 'o"
  pthread_rwlock_wrlock :: "nat \<Rightarrow> 'o \<Rightarrow> int \<times> 'o"
  pthread_rwlock_trywrlock :: "nat \<Rightarrow> 'o \<Rightarrow> int \<times> 'o"
  pthread_rwlock_unlock :: "nat \<Rightarrow> 'o \<Rightarrow> int \<times> 'o"
  InitializeSRWLock :: "nat \<Rightarrow> 'o \<Rightarrow> 'o"
  AcquireSRWLockShared :: "nat \<Rightarrow> 'o \<Rightarrow> 'o"
  TryAcquireSRWLockShared :: "nat \<Rightarrow> 'o \<Rightarrow> bool \<times> 'o"
  AcquireSRWLockExclusive :: "nat \<Rightarrow> 'o \<Rightarrow> 'o"
  TryAcquireSRWLockExclusive :: "nat \<Rightarrow> 'o \<Rightarrow> bool \<times> 'o"
  ReleaseSRWLockExclusive :: "nat \<Rightarrow> 'o \<Rightarrow> 'o"
  ReleaseSRWLockShared :: "nat \<Rightarrow> 'o \<Rightarrow> 'o"
  sys_rw_pr_init :: "nat \<Rightarrow> 'o \<Rightarrow> int \<times> 'o"
  sys_rw_pr_destroy :: "nat \<Rightarrow> 'o \<Rightarrow> int \<times> 'o"
  sys_rw_pr_rdlock :: "nat \<Rightarrow> 'o \<Rightarrow> int \<times> 'o"
  sys_rw_pr_wrlock :: "nat \<Rightarrow> 'o \<Rightarrow> int \<times> 'o"
  sys_rw_pr_unlock :: "nat \<Rightarrow> 'o \<Rightarrow> int \<times> 'o"

text \<open>
  A \<open>struct timespec\<close>, in both of its forms: seconds and nanoseconds where the platform has one
  (\<open>have_struct_timespec\<close>), otherwise a file time in units of 100 ns and the original timeout.
\<close>

record timespec =
  tv_sec :: "64 word"
  tv_nsec :: "64 word"
  tv_i64 :: "64 word"
  max_timeout_msec :: "64 word"

text \<open>What the build knows of times: the form of \<open>timespec\<close> and the sizes of two types.\<close>

record time_build =
  have_struct_timespec :: bool
  sizeof_time_t :: nat
  sizeof_long :: nat

record 'o cond_sys =
  pthread_cond_init :: "nat \<Rightarrow> 'o \<Rightarrow> int \<times> 'o"
  pthread_cond_destroy :: "nat \<Rightarrow> 'o \<Rightarrow> int \<times> 'o"
  pthread_cond_timedwait :: "nat \<Rightarrow> nat \<Rightarrow> timespec option \<Rightarrow> 'o \<Rightarrow> int \<times> 'o"
  pthread_cond_wait :: "nat \<Rightarrow> nat \<Rightarrow> 'o \<Rightarrow> int \<times> 'o"
  pthread_cond_signal :: "nat \<Rightarrow> 'o \<Rightarrow> int \<times> 'o"
  pthread_cond_broadcast :: "nat \<Rightarrow> 'o \<Rightarrow> int \<times> 'o"
  InitializeConditionVariable :: "nat \<Rightarrow> 'o \<Rightarrow> 'o"
  SleepConditionVariableCS :: "nat \<Rightarrow> nat \<Rightarrow> 32 word \<Rightarrow> 'o \<Rightarrow> bool \<times> 'o"
  WakeConditionVariable :: "nat \<Rightarrow> 'o \<Rightarrow> 'o"
  WakeAllConditionVariable :: "nat \<Rightarrow> 'o \<Rightarrow> 'o"
  safe_cond_wait :: "nat \<Rightarrow> nat \<Rightarrow> src \<Rightarrow> 'o \<Rightarrow> int \<times> 'o"
  safe_cond_timedwait :: "nat \<Rightarrow> nat \<Rightarrow> timespec option \<Rightarrow> src \<Rightarrow> 'o \<Rightarrow> int \<times> 'o"
  now_filetime :: "'o \<Rightarrow> 64 word"
  my_getsystime :: "'o \<Rightarrow> 64 word"

abbreviation (input) EBUSY :: int where "EBUSY \<equiv> 16"
abbreviation (input) ETIMEDOUT :: int where "ETIMEDOUT \<equiv> 145"
abbreviation INFINITE :: "32 word" where "INFINITE \<equiv> 0xFFFFFFFF"

text \<open>A primitive that returns nothing, followed by \<open>return 0\<close>.\<close>

definition then_0 :: "('o \<Rightarrow> 'o) \<Rightarrow> 'o \<Rightarrow> int \<times> 'o" where
  "then_0 f s = (0, f s)"

section \<open>Mutexes (\<open>thr_mutex.h\<close>)\<close>

definition native_mutex_init :: "build \<Rightarrow> 'o mutex_sys \<Rightarrow> nat \<Rightarrow> ptr \<Rightarrow> 'o \<Rightarrow> int \<times> 'o" where
  "native_mutex_init b sys mutex attr =
     (if win32 b then then_0 (InitializeCriticalSection sys mutex)
      else pthread_mutex_init sys mutex attr)"

definition native_mutex_lock :: "build \<Rightarrow> 'o mutex_sys \<Rightarrow> nat \<Rightarrow> 'o \<Rightarrow> int \<times> 'o" where
  "native_mutex_lock b sys mutex =
     (if win32 b then then_0 (EnterCriticalSection sys mutex) else pthread_mutex_lock sys mutex)"

definition native_mutex_trylock :: "build \<Rightarrow> 'o mutex_sys \<Rightarrow> nat \<Rightarrow> 'o \<Rightarrow> int \<times> 'o" where
  "native_mutex_trylock b sys mutex s =
     (if win32 b then
        (case TryEnterCriticalSection sys mutex s of
           (True, s1) \<Rightarrow>
             if RecursionCount sys mutex s1 > 1
             then (EBUSY, LeaveCriticalSection sys mutex s1)
             else (0, s1)
         | (False, s1) \<Rightarrow> (EBUSY, s1))
      else pthread_mutex_trylock sys mutex s)"

definition native_mutex_unlock :: "build \<Rightarrow> 'o mutex_sys \<Rightarrow> nat \<Rightarrow> 'o \<Rightarrow> int \<times> 'o" where
  "native_mutex_unlock b sys mutex =
     (if win32 b then then_0 (LeaveCriticalSection sys mutex) else pthread_mutex_unlock sys mutex)"

definition native_mutex_destroy :: "build \<Rightarrow> 'o mutex_sys \<Rightarrow> nat \<Rightarrow> 'o \<Rightarrow> int \<times> 'o" where
  "native_mutex_destroy b sys mutex =
     (if win32 b then then_0 (DeleteCriticalSection sys mutex) else pthread_mutex_destroy sys mutex)"

record safe_mutex_t =
  sm_file :: string
  sm_line :: nat
  sm_count :: nat
  sm_thread :: nat

text \<open>The conditions the two assertions check, for the calling thread \<open>self\<close>.\<close>

definition safe_mutex_assert_owner :: "nat \<Rightarrow> safe_mutex_t \<Rightarrow> bool" where
  "safe_mutex_assert_owner self mp \<longleftrightarrow> sm_count mp > 0 \<and> self = sm_thread mp"

definition safe_mutex_assert_not_owner :: "nat \<Rightarrow> safe_mutex_t \<Rightarrow> bool" where
  "safe_mutex_assert_not_owner self mp \<longleftrightarrow> \<not> sm_count mp \<noteq> 0 \<or> \<not> self = sm_thread mp"

definition my_mutex_init :: "build \<Rightarrow> 'o mutex_sys \<Rightarrow> nat \<Rightarrow> ptr \<Rightarrow> src \<Rightarrow> 'o \<Rightarrow> int \<times> 'o" where
  "my_mutex_init b sys mp attr src =
     (if safe_mutex b then safe_mutex_init sys mp attr src else native_mutex_init b sys mp attr)"

definition my_mutex_lock :: "build \<Rightarrow> 'o mutex_sys \<Rightarrow> nat \<Rightarrow> src \<Rightarrow> 'o \<Rightarrow> int \<times> 'o" where
  "my_mutex_lock b sys mp src =
     (if safe_mutex b then safe_mutex_lock sys mp False src else native_mutex_lock b sys mp)"

definition my_mutex_trylock :: "build \<Rightarrow> 'o mutex_sys \<Rightarrow> nat \<Rightarrow> src \<Rightarrow> 'o \<Rightarrow> int \<times> 'o" where
  "my_mutex_trylock b sys mp src =
     (if safe_mutex b then safe_mutex_lock sys mp True src else native_mutex_trylock b sys mp)"

definition my_mutex_unlock :: "build \<Rightarrow> 'o mutex_sys \<Rightarrow> nat \<Rightarrow> src \<Rightarrow> 'o \<Rightarrow> int \<times> 'o" where
  "my_mutex_unlock b sys mp src =
     (if safe_mutex b then safe_mutex_unlock sys mp src else native_mutex_unlock b sys mp)"

definition my_mutex_destroy :: "build \<Rightarrow> 'o mutex_sys \<Rightarrow> nat \<Rightarrow> src \<Rightarrow> 'o \<Rightarrow> int \<times> 'o" where
  "my_mutex_destroy b sys mp src =
     (if safe_mutex b then safe_mutex_destroy sys mp src else native_mutex_destroy b sys mp)"

section \<open>Reader-writer locks (\<open>thr_rwlock.h\<close>)\<close>

text \<open>The system's state and the \<open>have_exclusive_srwlock\<close> fields of the locks, by address.\<close>

record 'o rw_state =
  rw_os :: 'o
  have_exclusive :: "nat \<Rightarrow> bool"

definition rw_os_call :: "('o \<Rightarrow> 'r \<times> 'o) \<Rightarrow> 'o rw_state \<Rightarrow> 'r \<times> 'o rw_state" where
  "rw_os_call f s = (case f (rw_os s) of (r, s1) \<Rightarrow> (r, s\<lparr>rw_os := s1\<rparr>))"

definition set_exclusive :: "nat \<Rightarrow> bool \<Rightarrow> 'o rw_state \<Rightarrow> 'o rw_state" where
  "set_exclusive rwp v s = s\<lparr>have_exclusive := (have_exclusive s)(rwp := v)\<rparr>"

definition native_rw_init :: "build \<Rightarrow> 'o rwlock_sys \<Rightarrow> nat \<Rightarrow> 'o rw_state \<Rightarrow> int \<times> 'o rw_state" where
  "native_rw_init b sys rwp s =
     (if win32 b
      then (0, set_exclusive rwp False (s\<lparr>rw_os := InitializeSRWLock sys rwp (rw_os s)\<rparr>))
      else rw_os_call (pthread_rwlock_init sys rwp) s)"

definition native_rw_destroy :: "build \<Rightarrow> 'o rwlock_sys \<Rightarrow> nat \<Rightarrow> 'o rw_state \<Rightarrow> int \<times> 'o rw_state" where
  "native_rw_destroy b sys rwp s =
     (if win32 b then (0, s) else rw_os_call (pthread_rwlock_destroy sys rwp) s)"

definition native_rw_rdlock :: "build \<Rightarrow> 'o rwlock_sys \<Rightarrow> nat \<Rightarrow> 'o rw_state \<Rightarrow> int \<times> 'o rw_state" where
  "native_rw_rdlock b sys rwp s =
     (if win32 b then (0, s\<lparr>rw_os := AcquireSRWLockShared sys rwp (rw_os s)\<rparr>)
      else rw_os_call (pthread_rwlock_rdlock sys rwp) s)"

definition native_rw_tryrdlock :: "build \<Rightarrow> 'o rwlock_sys \<Rightarrow> nat \<Rightarrow> 'o rw_state \<Rightarrow> int \<times> 'o rw_state" where
  "native_rw_tryrdlock b sys rwp s =
     (if win32 b then
        (case rw_os_call (TryAcquireSRWLockShared sys rwp) s of
           (ok, s1) \<Rightarrow> if \<not> ok then (EBUSY, s1) else (0, s1))
      else rw_os_call (pthread_rwlock_tryrdlock sys rwp) s)"

definition native_rw_wrlock :: "build \<Rightarrow> 'o rwlock_sys \<Rightarrow> nat \<Rightarrow> 'o rw_state \<Rightarrow> int \<times> 'o rw_state" where
  "native_rw_wrlock b sys rwp s =
     (if win32 b
      then (0, set_exclusive rwp True (s\<lparr>rw_os := AcquireSRWLockExclusive sys rwp (rw_os s)\<rparr>))
      else rw_os_call (pthread_rwlock_wrlock sys rwp) s)"

definition native_rw_trywrlock :: "build \<Rightarrow> 'o rwlock_sys \<Rightarrow> nat \<Rightarrow> 'o rw_state \<Rightarrow> int \<times> 'o rw_state" where
  "native_rw_trywrlock b sys rwp s =
     (if win32 b then
        (case rw_os_call (TryAcquireSRWLockExclusive sys rwp) s of
           (ok, s1) \<Rightarrow> if \<not> ok then (EBUSY, s1) else (0, set_exclusive rwp True s1))
      else rw_os_call (pthread_rwlock_trywrlock sys rwp) s)"

definition native_rw_unlock :: "build \<Rightarrow> 'o rwlock_sys \<Rightarrow> nat \<Rightarrow> 'o rw_state \<Rightarrow> int \<times> 'o rw_state" where
  "native_rw_unlock b sys rwp s =
     (if win32 b then
        (if have_exclusive s rwp
         then (let s1 = set_exclusive rwp False s
               in (0, s1\<lparr>rw_os := ReleaseSRWLockExclusive sys rwp (rw_os s1)\<rparr>))
         else (0, s\<lparr>rw_os := ReleaseSRWLockShared sys rwp (rw_os s)\<rparr>))
      else rw_os_call (pthread_rwlock_unlock sys rwp) s)"

record rw_pr_lock_t =
  active_readers :: "32 word"
  writers_waiting_readers :: "32 word"
  active_writer :: bool
  writer_thread :: nat

definition rw_pr_lock_assert_write_owner :: "build \<Rightarrow> nat \<Rightarrow> rw_pr_lock_t \<Rightarrow> bool" where
  "rw_pr_lock_assert_write_owner b self rwlock \<longleftrightarrow>
     (safe_mutex b \<longrightarrow> active_writer rwlock \<and> self = writer_thread rwlock)"

definition rw_pr_lock_assert_not_write_owner :: "build \<Rightarrow> nat \<Rightarrow> rw_pr_lock_t \<Rightarrow> bool" where
  "rw_pr_lock_assert_not_write_owner b self rwlock \<longleftrightarrow>
     (safe_mutex b \<longrightarrow> \<not> active_writer rwlock \<or> \<not> self = writer_thread rwlock)"

section \<open>Absolute times (\<open>my_global.h\<close>)\<close>

text \<open>C's signed division, towards zero.\<close>

definition cdiv :: "int \<Rightarrow> int \<Rightarrow> int" where
  "cdiv a d = (if a < 0 then - ((- a) div d) else a div d)"

abbreviation INT_MAX32 :: "64 word" where "INT_MAX32 \<equiv> 0x7FFFFFFF"

definition set_timespec_nsec ::
  "time_build \<Rightarrow> 'o cond_sys \<Rightarrow> 'o \<Rightarrow> timespec \<Rightarrow> 64 word \<Rightarrow> timespec" where
  "set_timespec_nsec t sys s abstime nsec =
     (if have_struct_timespec t then
        (let now = my_getsystime sys s + nsec div 100;
             sec = now div 10000000;
             sec = (if sizeof_time_t t < 8 then min sec INT_MAX32 else sec)
         in abstime\<lparr>tv_sec := sec, tv_nsec := now mod 10000000 * 100 + nsec mod 100\<rparr>)
      else
        (let msec = nsec div 1000000;
             msec' = (if sizeof_long t < 8 then min msec INT_MAX32 else msec)
         in abstime\<lparr>tv_i64 := now_filetime sys s + nsec div 100, max_timeout_msec := msec'\<rparr>))"

definition set_timespec ::
  "time_build \<Rightarrow> 'o cond_sys \<Rightarrow> 'o \<Rightarrow> timespec \<Rightarrow> 64 word \<Rightarrow> timespec" where
  "set_timespec t sys s abstime sec = set_timespec_nsec t sys s abstime (sec * 1000000000)"

definition cmp_timespec :: "time_build \<Rightarrow> timespec \<Rightarrow> timespec \<Rightarrow> int" where
  "cmp_timespec t ts1 ts2 =
     (if have_struct_timespec t then
        (if sint (tv_sec ts1) > sint (tv_sec ts2)
            \<or> tv_sec ts1 = tv_sec ts2 \<and> sint (tv_nsec ts1) > sint (tv_nsec ts2) then 1
         else if sint (tv_sec ts1) < sint (tv_sec ts2)
            \<or> tv_sec ts1 = tv_sec ts2 \<and> sint (tv_nsec ts1) < sint (tv_nsec ts2) then -1
         else 0)
      else
        (if sint (tv_i64 ts1) > sint (tv_i64 ts2) then 1
         else if sint (tv_i64 ts1) < sint (tv_i64 ts2) then -1
         else 0))"

definition diff_timespec :: "time_build \<Rightarrow> timespec \<Rightarrow> timespec \<Rightarrow> 64 word" where
  "diff_timespec t ts1 ts2 =
     (if have_struct_timespec t
      then (tv_sec ts1 - tv_sec ts2) * 1000000000 + tv_nsec ts1 - tv_nsec ts2
      else (tv_i64 ts1 - tv_i64 ts2) * 100)"

section \<open>Condition variables (\<open>thr_cond.h\<close>)\<close>

text \<open>
  The branch with a platform \<open>timespec\<close> reads through the pointer without a check: \<open>None\<close> is the
  undefined behaviour of a \<open>NULL\<close> there.
\<close>

definition get_milliseconds ::
  "time_build \<Rightarrow> 'o cond_sys \<Rightarrow> timespec option \<Rightarrow> 'o \<Rightarrow> 32 word option" where
  "get_milliseconds t sys abstime s =
     (if \<not> have_struct_timespec t then
        (case abstime of
           None \<Rightarrow> Some INFINITE
         | Some a \<Rightarrow>
             let millis = cdiv (sint (tv_i64 a - now_filetime sys s)) 10000 in
             if millis < 0 then Some 0
             else let millis = (if millis > sint (max_timeout_msec a) then sint (max_timeout_msec a) else millis);
                      millis = (if millis > 0xFFFFFFFF then 0xFFFFFFFF else millis)
                  in Some (word_of_int millis))
      else
        (case abstime of
           None \<Rightarrow> None
         | Some a \<Rightarrow>
             let future = tv_sec a * 1000 + word_of_int (cdiv (sint (tv_nsec a)) 1000000);
                 now = my_getsystime sys s div 10000
             in if future < now then Some 0 else Some (ucast (future - now))))"

definition native_cond_init :: "build \<Rightarrow> 'o cond_sys \<Rightarrow> nat \<Rightarrow> 'o \<Rightarrow> int \<times> 'o" where
  "native_cond_init b sys cond =
     (if win32 b then then_0 (InitializeConditionVariable sys cond) else pthread_cond_init sys cond)"

definition native_cond_destroy :: "build \<Rightarrow> 'o cond_sys \<Rightarrow> nat \<Rightarrow> 'o \<Rightarrow> int \<times> 'o" where
  "native_cond_destroy b sys cond = (if win32 b then Pair 0 else pthread_cond_destroy sys cond)"

text \<open>The timeout handed to \<open>SleepConditionVariableCS\<close> is \<open>get_milliseconds\<close> of a pointer that is
  not \<open>NULL\<close> where that matters.\<close>

definition native_cond_timedwait ::
  "build \<Rightarrow> time_build \<Rightarrow> 'o cond_sys \<Rightarrow> nat \<Rightarrow> nat \<Rightarrow> timespec option \<Rightarrow> 'o \<Rightarrow> (int \<times> 'o) option" where
  "native_cond_timedwait b t sys cond mutex abstime s =
     (if win32 b then
        (case get_milliseconds t sys abstime s of
           None \<Rightarrow> None
         | Some timeout \<Rightarrow>
             (case SleepConditionVariableCS sys cond mutex timeout s of
                (ok, s1) \<Rightarrow> Some (if \<not> ok then (ETIMEDOUT, s1) else (0, s1))))
      else Some (pthread_cond_timedwait sys cond mutex abstime s))"

definition native_cond_wait :: "build \<Rightarrow> 'o cond_sys \<Rightarrow> nat \<Rightarrow> nat \<Rightarrow> 'o \<Rightarrow> int \<times> 'o" where
  "native_cond_wait b sys cond mutex s =
     (if win32 b then
        (case SleepConditionVariableCS sys cond mutex INFINITE s of
           (ok, s1) \<Rightarrow> if \<not> ok then (ETIMEDOUT, s1) else (0, s1))
      else pthread_cond_wait sys cond mutex s)"

definition native_cond_signal :: "build \<Rightarrow> 'o cond_sys \<Rightarrow> nat \<Rightarrow> 'o \<Rightarrow> int \<times> 'o" where
  "native_cond_signal b sys cond =
     (if win32 b then then_0 (WakeConditionVariable sys cond) else pthread_cond_signal sys cond)"

definition native_cond_broadcast :: "build \<Rightarrow> 'o cond_sys \<Rightarrow> nat \<Rightarrow> 'o \<Rightarrow> int \<times> 'o" where
  "native_cond_broadcast b sys cond =
     (if win32 b then then_0 (WakeAllConditionVariable sys cond) else pthread_cond_broadcast sys cond)"

definition my_cond_timedwait ::
  "build \<Rightarrow> time_build \<Rightarrow> 'o cond_sys \<Rightarrow> nat \<Rightarrow> nat \<Rightarrow> timespec option \<Rightarrow> src \<Rightarrow> 'o \<Rightarrow> (int \<times> 'o) option" where
  "my_cond_timedwait b t sys cond mp abstime src s =
     (if safe_mutex b then Some (safe_cond_timedwait sys cond mp abstime src s)
      else native_cond_timedwait b t sys cond mp abstime s)"

definition my_cond_wait :: "build \<Rightarrow> 'o cond_sys \<Rightarrow> nat \<Rightarrow> nat \<Rightarrow> src \<Rightarrow> 'o \<Rightarrow> int \<times> 'o" where
  "my_cond_wait b sys cond mp src =
     (if safe_mutex b then safe_cond_wait sys cond mp src else native_cond_wait b sys cond mp)"

section \<open>Properties of times\<close>

text \<open>Two machines of interest: one with a platform \<open>timespec\<close>, one with file times and a 32-bit
  \<open>long\<close>.\<close>

definition posix_time :: time_build where
  "posix_time = \<lparr>have_struct_timespec = True, sizeof_time_t = 8, sizeof_long = 8\<rparr>"

definition old_windows_time :: time_build where
  "old_windows_time = \<lparr>have_struct_timespec = False, sizeof_time_t = 8, sizeof_long = 4\<rparr>"

text \<open>A system whose clocks stand still.\<close>

definition clock_sys :: "64 word \<Rightarrow> 64 word \<Rightarrow> unit cond_sys" where
  "clock_sys ticks filetime = \<lparr>
     pthread_cond_init = (\<lambda>_ s. (0, s)), pthread_cond_destroy = (\<lambda>_ s. (0, s)),
     pthread_cond_timedwait = (\<lambda>_ _ _ s. (0, s)), pthread_cond_wait = (\<lambda>_ _ s. (0, s)),
     pthread_cond_signal = (\<lambda>_ s. (0, s)), pthread_cond_broadcast = (\<lambda>_ s. (0, s)),
     InitializeConditionVariable = (\<lambda>_ s. s), SleepConditionVariableCS = (\<lambda>_ _ _ s. (True, s)),
     WakeConditionVariable = (\<lambda>_ s. s), WakeAllConditionVariable = (\<lambda>_ s. s),
     safe_cond_wait = (\<lambda>_ _ _ s. (0, s)), safe_cond_timedwait = (\<lambda>_ _ _ _ s. (0, s)),
     now_filetime = (\<lambda>_. filetime), my_getsystime = (\<lambda>_. ticks)\<rparr>"

lemma uint_add_lt: "uint a + uint b < 2 ^ 64 \<Longrightarrow> uint (a + b :: 64 word) = uint a + uint b"
  using uint_lt2p [of "a + b"] by (simp add: uint_word_ariths)

lemma word_div_mod_64:
  "uint (a div 100 :: 64 word) = uint a div 100" "uint (a mod 100 :: 64 word) = uint a mod 100"
  "uint (a div 10000000 :: 64 word) = uint a div 10000000"
  "uint (a mod 10000000 :: 64 word) = uint a mod 10000000"
  by (simp_all add: uint_div_distrib uint_mod_distrib)

text \<open>\<open>set_timespec_nsec\<close> is exact where the platform has a \<open>timespec\<close> with 64-bit seconds: unless
  the clock runs over 64 bits, the seconds and nanoseconds it stores are those of the current
  time, which \<open>my_getsystime\<close> gives in units of 100 ns, plus the given nanoseconds, and the
  nanoseconds field is below one second.\<close>

theorem set_timespec_nsec_exact:
  assumes "have_struct_timespec t" "8 \<le> sizeof_time_t t"
    and "uint (my_getsystime sys s) + uint nsec div 100 < 2 ^ 64"
    and "ts = set_timespec_nsec t sys s ts0 nsec"
  shows "uint (tv_sec ts) * 1000000000 + uint (tv_nsec ts)
           = uint (my_getsystime sys s) * 100 + uint nsec
       \<and> uint (tv_nsec ts) < 1000000000"
proof -
  let ?now = "my_getsystime sys s + nsec div 100"
  have now: "uint ?now = uint (my_getsystime sys s) + uint nsec div 100"
    using assms(3) by (simp add: uint_add_lt word_div_mod_64)
  have m: "uint (?now mod 10000000 * 100 :: 64 word) = uint ?now mod 10000000 * 100"
    using pos_mod_bound [of 10000000 "uint ?now"] by (simp add: uint_word_ariths word_div_mod_64)
  have "0 \<le> uint ?now mod 10000000" "uint ?now mod 10000000 < 10000000" "uint nsec mod 100 < 100"
    by simp_all
  then have n: "uint (?now mod 10000000 * 100 + nsec mod 100 :: 64 word)
      = uint ?now mod 10000000 * 100 + uint nsec mod 100"
    by (subst uint_add_lt) (simp_all add: m word_div_mod_64)
  have ts: "tv_sec ts = ?now div 10000000" "tv_nsec ts = ?now mod 10000000 * 100 + nsec mod 100"
    using assms by (simp_all add: set_timespec_nsec_def Let_def)
  have "uint ?now div 10000000 * 1000000000 + (uint ?now mod 10000000 * 100 + uint nsec mod 100)
      = uint ?now * 100 + uint nsec mod 100"
    using div_mult_mod_eq [of "uint ?now" 10000000] by linarith
  also have "\<dots> = uint (my_getsystime sys s) * 100 + uint nsec" by (simp add: now)
  finally show ?thesis
    using ts n \<open>uint ?now mod 10000000 < 10000000\<close> \<open>uint nsec mod 100 < 100\<close>
    by (simp add: word_div_mod_64)
qed

theorem set_timespec_nsec_exact_witness:
  "let ts = set_timespec_nsec posix_time (clock_sys 17 0) () \<lparr>tv_sec = 0, tv_nsec = 0, tv_i64 = 0, max_timeout_msec = 0\<rparr> 2500000050
   in uint (tv_sec ts) * 1000000000 + uint (tv_nsec ts) = 2500001750 \<and> uint (tv_nsec ts) < 1000000000"
  using set_timespec_nsec_exact [of posix_time "clock_sys 17 0" "()" 2500000050, OF _ _ _ refl]
  by (simp add: posix_time_def clock_sys_def Let_def)

text \<open>The timeout of a wait on Windows without a platform \<open>timespec\<close>: for a time that
  \<open>set_timespec_nsec\<close> made, \<open>get_milliseconds\<close> returns a number of milliseconds that is at most the
  timeout asked for, however the clock has moved since, and never \<open>INFINITE\<close>; only the absence of
  a time waits for ever.\<close>

theorem get_milliseconds_bounded:
  assumes "\<not> have_struct_timespec t" "sizeof_long t < 8"
    and "ts = set_timespec_nsec t sys s0 ts0 nsec"
  shows "\<exists>ms. get_milliseconds t sys (Some ts) s = Some ms
           \<and> uint ms \<le> uint nsec div 1000000 \<and> ms \<noteq> INFINITE
           \<and> get_milliseconds t sys None s = Some INFINITE"
proof -
  let ?max = "min (nsec div 1000000) INT_MAX32"
  have max: "max_timeout_msec ts = ?max" using assms by (simp add: set_timespec_nsec_def Let_def)
  have u: "uint ?max \<le> uint nsec div 1000000" "uint ?max \<le> 0x7FFFFFFF" "0 \<le> uint ?max"
    by (auto simp: min_def word_le_def uint_div_distrib)
  have "signed_take_bit 63 (uint ?max) = uint ?max"
  proof (rule signed_take_bit_int_eq_self)
    show "- (2 ^ 63) \<le> uint ?max" by (rule order_trans [OF _ u(3)]) simp
    show "uint ?max < 2 ^ 63" by (rule order_le_less_trans [OF u(2)]) simp
  qed
  then have sm: "sint ?max = uint ?max" by (simp add: sint_uint)
  let ?d = "cdiv (sint (tv_i64 ts - now_filetime sys s)) 10000"
  let ?m = "if ?d > uint ?max then uint ?max else ?d"
  show ?thesis
  proof (cases "?d < 0")
    case True
    then show ?thesis
      using assms(1) by (simp add: get_milliseconds_def Let_def pos_imp_zdiv_nonneg_iff)
  next
    case False
    then have b: "0 \<le> ?m" "?m \<le> uint ?max" using u by auto
    have "\<not> 4294967295 < uint ?max" using u(2) by linarith
    then have g: "get_milliseconds t sys (Some ts) s = Some (word_of_int ?m)"
      using assms(1) False max sm by (simp add: get_milliseconds_def Let_def)
    have w: "uint (word_of_int ?m :: 32 word) = ?m"
      using b u by (simp add: uint_word_of_int)
    then have "(word_of_int ?m :: 32 word) \<noteq> INFINITE" using b u by (auto simp: word_eq_iff_unsigned)
    then show ?thesis using g w b u assms(1) by (intro exI [of _ "word_of_int ?m"]) (simp add: get_milliseconds_def)
  qed
qed

theorem get_milliseconds_bounded_witness:
  "let ts = set_timespec_nsec old_windows_time (clock_sys 0 500) () \<lparr>tv_sec = 0, tv_nsec = 0, tv_i64 = 0, max_timeout_msec = 0\<rparr> 3000000
   in \<exists>ms. get_milliseconds old_windows_time (clock_sys 0 500) (Some ts) () = Some ms
        \<and> uint ms \<le> 3 \<and> ms \<noteq> INFINITE
        \<and> get_milliseconds old_windows_time (clock_sys 0 500) None () = Some INFINITE"
  using get_milliseconds_bounded [of old_windows_time, OF _ _ refl, of "clock_sys 0 500" "()" _ 3000000 "()"]
  by (simp add: old_windows_time_def Let_def)

text \<open>With a platform \<open>timespec\<close> nothing caps the difference before it is cut to 32 bits: a deadline
  4294968 seconds away becomes a wait of 704 milliseconds.\<close>

lemma get_milliseconds_wraps:
  "get_milliseconds posix_time (clock_sys 0 0)
     (Some \<lparr>tv_sec = 4294968, tv_nsec = 0, tv_i64 = 0, max_timeout_msec = 0\<rparr>) () = Some 704"
  by (simp add: get_milliseconds_def posix_time_def clock_sys_def cdiv_def Let_def)

end
