(* ===== verification/Thr_Rwlock.thy ===== *)
theory Thr_Rwlock
  imports Thr_Locks
begin

text \<open>
  The Windows branch of the reader-writer lock under interleaving. \<open>native_rw_unlock\<close> is called by
  readers and writers alike and decides from the shared field \<open>have_exclusive_srwlock\<close> which
  release to perform; the field is written outside the \<open>SRWLOCK\<close>. Here each access to the lock
  and each access to the field is a step of its own, any number of threads take steps in any
  order, and the \<open>SRWLOCK\<close> behaves as documented: shared by any number of holders or held
  exclusively by one.
\<close>

section \<open>The native lock\<close>

datatype srw = Srw_free | Srw_shared nat | Srw_exclusive

text \<open>\<open>Srw_shared n\<close> has \<open>n + 1\<close> holders. \<open>None\<close>: the call blocks.\<close>

fun srw_acquire_shared :: "srw \<Rightarrow> srw option" where
  "srw_acquire_shared Srw_free = Some (Srw_shared 0)"
| "srw_acquire_shared (Srw_shared n) = Some (Srw_shared (Suc n))"
| "srw_acquire_shared Srw_exclusive = None"

fun srw_acquire_exclusive :: "srw \<Rightarrow> srw option" where
  "srw_acquire_exclusive Srw_free = Some Srw_exclusive"
| "srw_acquire_exclusive _ = None"

text \<open>Releasing a lock that is not held that way is an error, the value \<open>None\<close>.\<close>

fun srw_release_shared :: "srw \<Rightarrow> srw option" where
  "srw_release_shared (Srw_shared 0) = Some Srw_free"
| "srw_release_shared (Srw_shared (Suc n)) = Some (Srw_shared n)"
| "srw_release_shared _ = None"

fun srw_release_exclusive :: "srw \<Rightarrow> srw option" where
  "srw_release_exclusive Srw_exclusive = Some Srw_free"
| "srw_release_exclusive _ = None"

section \<open>Threads\<close>

text \<open>
  Where a thread is: outside, holding the lock for reading, having acquired it for writing before
  the field is set (lines 97, 108), holding it for writing, in \<open>native_rw_unlock\<close> after the test of
  line 120 with the value read, and after line 122.
\<close>

datatype rw_pc = RW_idle | RW_read | RW_acquired | RW_write | RW_tested bool | RW_cleared

datatype rw_mode = Held_none | Held_shared | Held_exclusive

record rw_conf =
  srw_lock :: srw
  flag_excl :: bool
  pc :: "nat \<Rightarrow> rw_pc"
  held :: "nat \<Rightarrow> rw_mode"

definition rw_init_conf :: rw_conf where
  "rw_init_conf = \<lparr>srw_lock = Srw_free, flag_excl = False, pc = (\<lambda>_. RW_idle), held = (\<lambda>_. Held_none)\<rparr>"

definition goto :: "nat \<Rightarrow> rw_pc \<Rightarrow> rw_conf \<Rightarrow> rw_conf" where
  "goto t p c = c\<lparr>pc := (pc c)(t := p)\<rparr>"

definition hold :: "nat \<Rightarrow> rw_mode \<Rightarrow> rw_conf \<Rightarrow> rw_conf" where
  "hold t m c = c\<lparr>held := (held c)(t := m)\<rparr>"

text \<open>
  One access of one thread to the shared data. A failed \<open>Try\<close> leaves everything as it was, so it
  needs no step. A release that the lock does not allow has no step either: that none is ever
  needed is what is to be shown.
\<close>

inductive rw_step :: "rw_conf \<Rightarrow> rw_conf \<Rightarrow> bool" where
  AcquireShared: "pc c t = RW_idle \<Longrightarrow> srw_acquire_shared (srw_lock c) = Some l \<Longrightarrow>
    rw_step c (goto t RW_read (hold t Held_shared (c\<lparr>srw_lock := l\<rparr>)))"
| AcquireExclusive: "pc c t = RW_idle \<Longrightarrow> srw_acquire_exclusive (srw_lock c) = Some l \<Longrightarrow>
    rw_step c (goto t RW_acquired (hold t Held_exclusive (c\<lparr>srw_lock := l\<rparr>)))"
| SetFlag: "pc c t = RW_acquired \<Longrightarrow> rw_step c (goto t RW_write (c\<lparr>flag_excl := True\<rparr>))"
| TestFlag: "pc c t = RW_read \<or> pc c t = RW_write \<Longrightarrow> rw_step c (goto t (RW_tested (flag_excl c)) c)"
| ClearFlag: "pc c t = RW_tested True \<Longrightarrow> rw_step c (goto t RW_cleared (c\<lparr>flag_excl := False\<rparr>))"
| ReleaseExclusive: "pc c t = RW_cleared \<Longrightarrow> srw_release_exclusive (srw_lock c) = Some l \<Longrightarrow>
    rw_step c (goto t RW_idle (hold t Held_none (c\<lparr>srw_lock := l\<rparr>)))"
| ReleaseShared: "pc c t = RW_tested False \<Longrightarrow> srw_release_shared (srw_lock c) = Some l \<Longrightarrow>
    rw_step c (goto t RW_idle (hold t Held_none (c\<lparr>srw_lock := l\<rparr>)))"

inductive rw_reachable :: "rw_conf \<Rightarrow> bool" where
  Init: "rw_reachable rw_init_conf"
| Step: "rw_reachable c \<Longrightarrow> rw_step c c' \<Longrightarrow> rw_reachable c'"

text \<open>
  The same lock as the system of the sequential model: the calls of \<open>thr_rwlock.h\<close> on one lock
  whose state is the \<open>srw\<close>. A call that would block or fail leaves the lock as it is; the
  \<open>pthread\<close> and \<open>rw_pr\<close> primitives do not occur on Windows.
\<close>

definition srw_sys :: "srw rwlock_sys" where
  "srw_sys = (let or_same = (\<lambda>f l. case f l of Some l' \<Rightarrow> l' | None \<Rightarrow> l);
                  try = (\<lambda>f l. case f l of Some l' \<Rightarrow> (True, l') | None \<Rightarrow> (False, l));
                  nop = (\<lambda>_ l. (0, l)) in \<lparr>
     pthread_rwlock_init = nop, pthread_rwlock_destroy = nop, pthread_rwlock_rdlock = nop,
     pthread_rwlock_tryrdlock = nop, pthread_rwlock_wrlock = nop, pthread_rwlock_trywrlock = nop,
     pthread_rwlock_unlock = nop,
     InitializeSRWLock = (\<lambda>_ _. Srw_free),
     AcquireSRWLockShared = (\<lambda>_. or_same srw_acquire_shared),
     TryAcquireSRWLockShared = (\<lambda>_. try srw_acquire_shared),
     AcquireSRWLockExclusive = (\<lambda>_. or_same srw_acquire_exclusive),
     TryAcquireSRWLockExclusive = (\<lambda>_. try srw_acquire_exclusive),
     ReleaseSRWLockExclusive = (\<lambda>_. or_same srw_release_exclusive),
     ReleaseSRWLockShared = (\<lambda>_. or_same srw_release_shared),
     sys_rw_pr_init = nop, sys_rw_pr_destroy = nop, sys_rw_pr_rdlock = nop,
     sys_rw_pr_wrlock = nop, sys_rw_pr_unlock = nop\<rparr>)"

text \<open>The state of the sequential model that a configuration stands for.\<close>

definition seq_state :: "rw_conf \<Rightarrow> srw rw_state" where
  "seq_state c = \<lparr>rw_os = srw_lock c, have_exclusive = (\<lambda>_. flag_excl c)\<rparr>"

text \<open>
  The steps of one thread while the others stand still: every step moves the place of the thread that
  takes it.
\<close>

definition alone :: "nat \<Rightarrow> rw_conf \<Rightarrow> rw_conf \<Rightarrow> bool" where
  "alone t c c' \<longleftrightarrow> rw_step c c' \<and> (\<forall>u. u \<noteq> t \<longrightarrow> pc c' u = pc c u)"

text \<open>The configuration after a call of the sequential model by a thread, which is then at a place and holds the lock in a mode.\<close>

definition conf_after :: "nat \<Rightarrow> rw_pc \<Rightarrow> rw_mode \<Rightarrow> nat \<Rightarrow> srw rw_state \<Rightarrow> rw_conf \<Rightarrow> rw_conf" where
  "conf_after t p m rwp s c = goto t p (hold t m (c\<lparr>srw_lock := rw_os s, flag_excl := have_exclusive s rwp\<rparr>))"

section \<open>The invariant\<close>

fun pc_mode :: "rw_pc \<Rightarrow> rw_mode" where
  "pc_mode RW_idle = Held_none"
| "pc_mode RW_read = Held_shared"
| "pc_mode RW_acquired = Held_exclusive"
| "pc_mode RW_write = Held_exclusive"
| "pc_mode (RW_tested e) = (if e then Held_exclusive else Held_shared)"
| "pc_mode RW_cleared = Held_exclusive"

definition readers :: "rw_conf \<Rightarrow> nat set" where
  "readers c = {t. held c t = Held_shared}"

definition writers :: "rw_conf \<Rightarrow> nat set" where
  "writers c = {t. held c t = Held_exclusive}"

definition rw_inv :: "rw_conf \<Rightarrow> bool" where
  "rw_inv c \<longleftrightarrow>
     (\<forall>t. held c t = pc_mode (pc c t))
   \<and> finite (readers c)
   \<and> (case srw_lock c of
        Srw_free \<Rightarrow> readers c = {} \<and> writers c = {}
      | Srw_shared n \<Rightarrow> card (readers c) = Suc n \<and> writers c = {}
      | Srw_exclusive \<Rightarrow> readers c = {} \<and> (\<exists>t. writers c = {t}))
   \<and> (flag_excl c \<longleftrightarrow> (\<exists>t. pc c t = RW_write \<or> pc c t = RW_tested True))"

inductive_cases rw_stepE: "rw_step c c'"

lemmas conf_defs = goto_def hold_def readers_def writers_def

lemma rw_inv_init: "rw_inv rw_init_conf"
  by (simp add: rw_inv_def rw_init_conf_def readers_def writers_def)

text \<open>Only a writer's place counts for the field, and there is at most one writer.\<close>

lemma one_writer:
  assumes "rw_inv c" "pc_mode (pc c t) = Held_exclusive" "pc_mode (pc c u) = Held_exclusive"
  shows "t = u"
proof -
  have "t \<in> writers c" "u \<in> writers c" using assms by (auto simp: rw_inv_def writers_def)
  then show ?thesis using assms by (auto simp: rw_inv_def split: srw.splits)
qed

lemma writer_lock:
  assumes "rw_inv c" "pc_mode (pc c t) = Held_exclusive"
  shows "srw_lock c = Srw_exclusive" "writers c = {t}" "readers c = {}"
proof -
  have "t \<in> writers c" using assms by (auto simp: rw_inv_def writers_def)
  then show "srw_lock c = Srw_exclusive" "writers c = {t}" "readers c = {}"
    using assms by (auto simp: rw_inv_def split: srw.splits)
qed

lemma reader_lock:
  assumes "rw_inv c" "pc_mode (pc c t) = Held_shared"
  shows "\<exists>n. srw_lock c = Srw_shared n" "t \<in> readers c" "\<not> flag_excl c"
proof -
  show "t \<in> readers c" using assms by (auto simp: rw_inv_def readers_def)
  then show "\<exists>n. srw_lock c = Srw_shared n" using assms by (auto simp: rw_inv_def split: srw.splits)
  then have "writers c = {}" using assms by (auto simp: rw_inv_def)
  then have "pc_mode (pc c u) \<noteq> Held_exclusive" for u using assms by (auto simp: rw_inv_def writers_def)
  from this show "\<not> flag_excl c" using assms by (auto simp: rw_inv_def) (metis pc_mode.simps(4,5))+
qed

text \<open>A step that moves one thread \<open>t\<close> and leaves the field as it is.\<close>

lemma held_goto [simp]: "held (goto t p c) = held c" "srw_lock (goto t p c) = srw_lock c"
    "flag_excl (goto t p c) = flag_excl c" "pc (goto t p c) = (pc c)(t := p)"
  by (simp_all add: goto_def)

lemma hold_fields [simp]: "held (hold t m c) = (held c)(t := m)" "srw_lock (hold t m c) = srw_lock c"
    "flag_excl (hold t m c) = flag_excl c" "pc (hold t m c) = pc c"
  by (simp_all add: hold_def)

lemma inv_acquire_shared:
  assumes "rw_inv c" "pc c t = RW_idle" "srw_acquire_shared (srw_lock c) = Some l"
  shows "rw_inv (goto t RW_read (hold t Held_shared (c\<lparr>srw_lock := l\<rparr>)))" (is "rw_inv ?c'")
proof -
  have t: "held c t = Held_none" using assms by (simp add: rw_inv_def)
  have r: "readers ?c' = insert t (readers c)" "writers ?c' = writers c" "t \<notin> readers c"
    using t by (auto simp: readers_def writers_def)
  have f: "(\<exists>u. pc ?c' u = RW_write \<or> pc ?c' u = RW_tested True) \<longleftrightarrow>
      (\<exists>u. pc c u = RW_write \<or> pc c u = RW_tested True)"
    using assms(2) by auto (metis rw_pc.distinct)+
  show ?thesis
    using assms r f unfolding rw_inv_def
    by (cases "srw_lock c") (auto simp: card_insert_if)
qed

lemma inv_acquire_exclusive:
  assumes "rw_inv c" "pc c t = RW_idle" "srw_acquire_exclusive (srw_lock c) = Some l"
  shows "rw_inv (goto t RW_acquired (hold t Held_exclusive (c\<lparr>srw_lock := l\<rparr>)))" (is "rw_inv ?c'")
proof -
  have l: "srw_lock c = Srw_free" "l = Srw_exclusive" using assms(3) by (cases "srw_lock c"; simp)+
  then have n: "readers c = {}" "writers c = {}" using assms(1) by (auto simp: rw_inv_def)
  then have r: "readers ?c' = {}" "writers ?c' = {t}" by (auto simp: readers_def writers_def)
  have "pc_mode (pc c u) \<noteq> Held_exclusive" for u
    using n(2) assms(1) by (auto simp: rw_inv_def writers_def)
  then have f: "\<not> flag_excl c" "pc c u \<noteq> RW_write" "pc c u \<noteq> RW_tested True" for u
    using assms(1) by (auto simp: rw_inv_def) (metis pc_mode.simps(4,5))+
  show ?thesis using assms(1) l r f unfolding rw_inv_def by auto
qed

lemma inv_set_flag:
  assumes "rw_inv c" "pc c t = RW_acquired"
  shows "rw_inv (goto t RW_write (c\<lparr>flag_excl := True\<rparr>))" (is "rw_inv ?c'")
proof -
  have "readers ?c' = readers c" "writers ?c' = writers c" by (simp_all add: readers_def writers_def)
  moreover have "held c t = Held_exclusive" using assms by (simp add: rw_inv_def)
  ultimately show ?thesis using assms unfolding rw_inv_def by (auto split: srw.splits)
qed

lemma inv_test_flag:
  assumes "rw_inv c" "pc c t = RW_read \<or> pc c t = RW_write"
  shows "rw_inv (goto t (RW_tested (flag_excl c)) c)" (is "rw_inv ?c'")
proof -
  have r: "readers ?c' = readers c" "writers ?c' = writers c" by (simp_all add: readers_def writers_def)
  have m: "pc_mode (RW_tested (flag_excl c)) = pc_mode (pc c t)"
    using assms reader_lock(3) [OF assms(1), of t] by (auto simp: rw_inv_def)
  have f: "flag_excl c \<longleftrightarrow> (\<exists>u. pc ?c' u = RW_write \<or> pc ?c' u = RW_tested True)"
  proof (cases "flag_excl c")
    case True
    then show ?thesis by auto
  next
    case False
    then have "pc c u \<noteq> RW_write \<and> pc c u \<noteq> RW_tested True" for u
      using assms(1) by (auto simp: rw_inv_def)
    with False show ?thesis by auto
  qed
  show ?thesis
    unfolding rw_inv_def r
  proof (intro conjI)
    show "\<forall>u. held ?c' u = pc_mode (pc ?c' u)" using assms(1) m by (simp add: rw_inv_def)
    show "flag_excl ?c' \<longleftrightarrow> (\<exists>u. pc ?c' u = RW_write \<or> pc ?c' u = RW_tested True)"
      using f by (simp only: held_goto)
  qed (use assms(1) in \<open>simp_all add: rw_inv_def\<close>)
qed

lemma inv_clear_flag:
  assumes "rw_inv c" "pc c t = RW_tested True"
  shows "rw_inv (goto t RW_cleared (c\<lparr>flag_excl := False\<rparr>))" (is "rw_inv ?c'")
proof -
  have r: "readers ?c' = readers c" "writers ?c' = writers c" by (simp_all add: readers_def writers_def)
  have o: "u = t" if "pc c u = RW_write \<or> pc c u = RW_tested True" for u
    using one_writer [OF assms(1), of t u] assms(2) that by auto
  have "held c t = Held_exclusive" using assms by (simp add: rw_inv_def)
  then show ?thesis using assms r o unfolding rw_inv_def by (auto split: srw.splits)
qed

lemma inv_release_exclusive:
  assumes "rw_inv c" "pc c t = RW_cleared"
  shows "rw_inv (goto t RW_idle (hold t Held_none (c\<lparr>srw_lock := Srw_free\<rparr>)))" (is "rw_inv ?c'")
proof -
  have w: "writers c = {t}" "readers c = {}" using writer_lock [OF assms(1), of t] assms(2) by auto
  then have r: "readers ?c' = {}" "writers ?c' = {}" by (auto simp: readers_def writers_def)
  have f: "(\<exists>u. pc ?c' u = RW_write \<or> pc ?c' u = RW_tested True) \<longleftrightarrow>
      (\<exists>u. pc c u = RW_write \<or> pc c u = RW_tested True)"
    using assms(2) by auto (metis rw_pc.distinct)+
  show ?thesis using assms r f unfolding rw_inv_def by auto
qed

lemma inv_release_shared:
  assumes "rw_inv c" "pc c t = RW_tested False" "srw_release_shared (srw_lock c) = Some l"
  shows "rw_inv (goto t RW_idle (hold t Held_none (c\<lparr>srw_lock := l\<rparr>)))" (is "rw_inv ?c'")
proof -
  have t: "t \<in> readers c" using reader_lock(2) [OF assms(1), of t] assms(2) by simp
  have r: "readers ?c' = readers c - {t}" "writers ?c' = writers c"
    using assms(2) by (auto simp: readers_def writers_def)
      (use assms(1,2) in \<open>auto simp: rw_inv_def split: if_splits\<close>)
  have f: "(\<exists>u. pc ?c' u = RW_write \<or> pc ?c' u = RW_tested True) \<longleftrightarrow>
      (\<exists>u. pc c u = RW_write \<or> pc c u = RW_tested True)"
    using assms(2) by auto (metis rw_pc.distinct rw_pc.inject)+
  obtain n where n: "srw_lock c = Srw_shared n" using reader_lock(1) [OF assms(1), of t] assms(2) by auto
  have "card (readers c - {t}) = n" "finite (readers c)" "writers c = {}"
    using assms(1) n t by (auto simp: rw_inv_def)
  then show ?thesis
    using assms r f n unfolding rw_inv_def by (cases n) auto
qed

lemma rw_inv_step: "rw_step c c' \<Longrightarrow> rw_inv c \<Longrightarrow> rw_inv c'"
proof (induction rule: rw_step.induct)
  case (ReleaseExclusive c t l)
  then show ?case using inv_release_exclusive [of c t] by (cases "srw_lock c") auto
qed (auto intro: inv_acquire_shared inv_acquire_exclusive inv_set_flag inv_test_flag inv_clear_flag
    inv_release_shared)

lemma rw_inv_reachable: "rw_reachable c \<Longrightarrow> rw_inv c"
  by (induction rule: rw_reachable.induct) (auto intro: rw_inv_init rw_inv_step)

section \<open>Properties\<close>

text \<open>C28. Whatever the interleaving, \<open>native_rw_unlock\<close> on Windows releases the lock the way its caller
  holds it. A thread about to perform the exclusive release holds the lock exclusively and no
  other thread holds it; one about to perform the shared release holds it shared and the lock is
  in shared mode; so the release always succeeds, and readers never overlap a writer.\<close>

theorem rw_unlock_releases_own_mode:
  assumes "rw_reachable c"
  shows "(pc c t = RW_cleared \<longrightarrow> held c t = Held_exclusive \<and> srw_release_exclusive (srw_lock c) = Some Srw_free
            \<and> (\<forall>u. u \<noteq> t \<longrightarrow> held c u = Held_none))
       \<and> (pc c t = RW_tested False \<longrightarrow> held c t = Held_shared \<and> (\<exists>l. srw_release_shared (srw_lock c) = Some l))
       \<and> (held c t = Held_exclusive \<longrightarrow> (\<forall>u. u \<noteq> t \<longrightarrow> held c u = Held_none))"
proof -
  have inv: "rw_inv c" using assms by (rule rw_inv_reachable)
  have own: "held c t = pc_mode (pc c t)" using inv by (simp add: rw_inv_def)
  have alone: "held c u = Held_none" if "held c t = Held_exclusive" "u \<noteq> t" for u
    using writer_lock [OF inv, of t] own that by (cases "held c u") (auto simp: readers_def writers_def)
  show ?thesis
  proof (intro conjI impI)
    assume "pc c t = RW_tested False"
    then obtain n where "srw_lock c = Srw_shared n" using reader_lock(1) [OF inv, of t] by auto
    then show "\<exists>l. srw_release_shared (srw_lock c) = Some l" by (cases n) auto
  qed (use own alone writer_lock [OF inv, of t] in auto)
qed

lemma writer_clearing_reachable:
  "\<exists>c. rw_reachable c \<and> pc c 1 = RW_cleared"
proof -
  let ?c1 = "goto 1 RW_acquired (hold 1 Held_exclusive (rw_init_conf\<lparr>srw_lock := Srw_exclusive\<rparr>))"
  let ?c2 = "goto 1 RW_write (?c1\<lparr>flag_excl := True\<rparr>)"
  let ?c3 = "goto 1 (RW_tested (flag_excl ?c2)) ?c2"
  let ?c4 = "goto 1 RW_cleared (?c3\<lparr>flag_excl := False\<rparr>)"
  have "rw_step rw_init_conf ?c1" by (intro AcquireExclusive) (simp_all add: rw_init_conf_def)
  moreover have "rw_step ?c1 ?c2" by (intro SetFlag) simp
  moreover have "rw_step ?c2 ?c3" by (intro TestFlag) simp
  moreover have "rw_step ?c3 ?c4" by (intro ClearFlag) simp
  ultimately have "rw_reachable ?c4" by (meson rw_reachable.intros)
  then show ?thesis by (intro exI [of _ ?c4]) simp
qed

theorem rw_unlock_releases_own_mode_witness:
  "\<exists>c. rw_reachable c \<and> pc c 1 = RW_cleared \<and> held c 1 = Held_exclusive
     \<and> srw_release_exclusive (srw_lock c) = Some Srw_free \<and> held c 2 = Held_none"
proof -
  obtain c where "rw_reachable c" "pc c 1 = RW_cleared" using writer_clearing_reachable by blast
  then show ?thesis using rw_unlock_releases_own_mode [of c 1] by (intro exI [of _ c]) simp
qed

lemma alone_goto: "rw_step c (goto t p c') \<Longrightarrow> pc c' = pc c \<Longrightarrow> alone t c (goto t p c')"
  by (simp add: alone_def)

lemma alone_reach:
  "alone t c c1 \<Longrightarrow> (alone t)\<^sup>*\<^sup>* c c1"
  "alone t c c1 \<Longrightarrow> alone t c1 c2 \<Longrightarrow> (alone t)\<^sup>*\<^sup>* c c2"
  "alone t c c1 \<Longrightarrow> alone t c1 c2 \<Longrightarrow> alone t c2 c3 \<Longrightarrow> (alone t)\<^sup>*\<^sup>* c c3"
  by (meson r_into_rtranclp rtranclp.rtrancl_into_rtrancl)+

lemma unlock_writer_steps:
  assumes "rw_inv c" "pc c t = RW_write" "win32 b"
  shows "\<exists>s. native_rw_unlock b srw_sys rwp (seq_state c) = (0, s) \<and>
    (alone t)\<^sup>*\<^sup>* c (conf_after t RW_idle Held_none rwp s c)"
proof -
  have l: "srw_lock c = Srw_exclusive" using writer_lock(1) [OF assms(1), of t] assms(2) by simp
  have f: "flag_excl c" using assms by (auto simp: rw_inv_def)
  let ?s = "\<lparr>rw_os = Srw_free, have_exclusive = (\<lambda>_. flag_excl c)(rwp := False)\<rparr>"
  let ?c1 = "goto t (RW_tested (flag_excl c)) c"
  let ?c2 = "goto t RW_cleared (?c1\<lparr>flag_excl := False\<rparr>)"
  let ?c3 = "goto t RW_idle (hold t Held_none (?c2\<lparr>srw_lock := Srw_free\<rparr>))"
  have "alone t c ?c1" using assms(2) by (intro alone_goto TestFlag) simp_all
  moreover have "alone t ?c1 ?c2" using f by (intro alone_goto ClearFlag) simp_all
  moreover have "alone t ?c2 ?c3" using l by (intro alone_goto ReleaseExclusive) simp_all
  ultimately have "(alone t)\<^sup>*\<^sup>* c ?c3" by (rule alone_reach)
  moreover have "?c3 = conf_after t RW_idle Held_none rwp ?s c" by (simp add: conf_after_def goto_def hold_def)
  moreover have "native_rw_unlock b srw_sys rwp (seq_state c) = (0, ?s)"
    using assms(3) f l by (simp add: native_rw_unlock_def srw_sys_def seq_state_def set_exclusive_def Let_def)
  ultimately show ?thesis by metis
qed

lemma unlock_reader_steps:
  assumes "rw_inv c" "pc c t = RW_read" "win32 b"
  shows "\<exists>s. native_rw_unlock b srw_sys rwp (seq_state c) = (0, s) \<and>
    (alone t)\<^sup>*\<^sup>* c (conf_after t RW_idle Held_none rwp s c)"
proof -
  obtain n where n: "srw_lock c = Srw_shared n" using reader_lock(1) [OF assms(1), of t] assms(2) by auto
  obtain l where l: "srw_release_shared (srw_lock c) = Some l" using n by (cases n) auto
  have f: "\<not> flag_excl c" using reader_lock(3) [OF assms(1), of t] assms(2) by simp
  let ?c1 = "goto t (RW_tested (flag_excl c)) c"
  let ?c2 = "goto t RW_idle (hold t Held_none (?c1\<lparr>srw_lock := l\<rparr>))"
  have "alone t c ?c1" using assms(2) by (intro alone_goto TestFlag) simp_all
  moreover have "alone t ?c1 ?c2" using f l by (intro alone_goto ReleaseShared) simp_all
  ultimately have "(alone t)\<^sup>*\<^sup>* c ?c2" by (rule alone_reach)
  moreover have "?c2 = conf_after t RW_idle Held_none rwp ((seq_state c)\<lparr>rw_os := l\<rparr>) c"
    by (simp add: conf_after_def goto_def hold_def seq_state_def)
  moreover have "native_rw_unlock b srw_sys rwp (seq_state c) = (0, (seq_state c)\<lparr>rw_os := l\<rparr>)"
    using assms(3) f l by (simp add: native_rw_unlock_def srw_sys_def seq_state_def Let_def)
  ultimately show ?thesis by metis
qed

lemma wrlock_steps:
  assumes "pc c t = RW_idle" "srw_lock c = Srw_free" "win32 b"
  shows "\<exists>s. native_rw_wrlock b srw_sys rwp (seq_state c) = (0, s) \<and>
    (alone t)\<^sup>*\<^sup>* c (conf_after t RW_write Held_exclusive rwp s c)"
proof -
  let ?s = "\<lparr>rw_os = Srw_exclusive, have_exclusive = (\<lambda>_. flag_excl c)(rwp := True)\<rparr>"
  let ?c1 = "goto t RW_acquired (hold t Held_exclusive (c\<lparr>srw_lock := Srw_exclusive\<rparr>))"
  let ?c2 = "goto t RW_write (?c1\<lparr>flag_excl := True\<rparr>)"
  have "alone t c ?c1" using assms by (intro alone_goto AcquireExclusive) simp_all
  moreover have "alone t ?c1 ?c2" by (intro alone_goto SetFlag) simp_all
  ultimately have "(alone t)\<^sup>*\<^sup>* c ?c2" by (rule alone_reach)
  moreover have "?c2 = conf_after t RW_write Held_exclusive rwp ?s c" by (simp add: conf_after_def goto_def hold_def)
  moreover have "native_rw_wrlock b srw_sys rwp (seq_state c) = (0, ?s)"
    using assms by (simp add: native_rw_wrlock_def srw_sys_def seq_state_def set_exclusive_def Let_def)
  ultimately show ?thesis by metis
qed

lemma rdlock_steps:
  assumes "pc c t = RW_idle" "srw_lock c \<noteq> Srw_exclusive" "win32 b"
  shows "\<exists>s. native_rw_rdlock b srw_sys rwp (seq_state c) = (0, s) \<and>
    (alone t)\<^sup>*\<^sup>* c (conf_after t RW_read Held_shared rwp s c)"
proof -
  obtain l where l: "srw_acquire_shared (srw_lock c) = Some l" using assms(2) by (cases "srw_lock c") auto
  let ?c1 = "goto t RW_read (hold t Held_shared (c\<lparr>srw_lock := l\<rparr>))"
  have "alone t c ?c1" using assms l by (intro alone_goto AcquireShared) simp_all
  then have "(alone t)\<^sup>*\<^sup>* c ?c1" by (rule alone_reach)
  moreover have "?c1 = conf_after t RW_read Held_shared rwp ((seq_state c)\<lparr>rw_os := l\<rparr>) c"
    by (simp add: conf_after_def goto_def hold_def seq_state_def)
  moreover have "native_rw_rdlock b srw_sys rwp (seq_state c) = (0, (seq_state c)\<lparr>rw_os := l\<rparr>)"
    using assms l by (simp add: native_rw_rdlock_def srw_sys_def seq_state_def Let_def)
  ultimately show ?thesis by metis
qed

text \<open>C29. The interleaved model refines the functions of the header: in a reachable state, the steps of one
  thread alone, while all others stand still, lead to exactly the configuration whose lock and field
  are those that \<open>native_rw_rdlock\<close> (of a lock that is not held exclusively), \<open>native_rw_wrlock\<close> (of a free lock) and
  \<open>native_rw_unlock\<close> (by a reader or a writer) compute, with the thread at the place and in the mode the
  call leads to and nothing else changed.\<close>

theorem rw_calls_are_steps:
  assumes "rw_reachable c" "win32 b"
  shows "(pc c t = RW_idle \<and> srw_lock c \<noteq> Srw_exclusive \<longrightarrow>
          (\<exists>s. native_rw_rdlock b srw_sys rwp (seq_state c) = (0, s) \<and>
             (alone t)\<^sup>*\<^sup>* c (conf_after t RW_read Held_shared rwp s c)))
       \<and> (pc c t = RW_idle \<and> srw_lock c = Srw_free \<longrightarrow>
          (\<exists>s. native_rw_wrlock b srw_sys rwp (seq_state c) = (0, s) \<and>
             (alone t)\<^sup>*\<^sup>* c (conf_after t RW_write Held_exclusive rwp s c)))
       \<and> (pc c t = RW_read \<or> pc c t = RW_write \<longrightarrow>
          (\<exists>s. native_rw_unlock b srw_sys rwp (seq_state c) = (0, s) \<and>
             (alone t)\<^sup>*\<^sup>* c (conf_after t RW_idle Held_none rwp s c)))"
  using assms rdlock_steps [of c t b rwp] wrlock_steps [of c t b rwp]
    unlock_writer_steps [OF rw_inv_reachable, of c t b rwp] unlock_reader_steps [OF rw_inv_reachable, of c t b rwp]
  by blast

theorem rw_calls_are_steps_witness:
  "\<exists>c s s'. rw_reachable c \<and> pc c 1 = RW_write \<and>
     native_rw_wrlock (full_build\<lparr>win32 := True\<rparr>) srw_sys 8 (seq_state rw_init_conf) = (0, s) \<and>
     (alone 1)\<^sup>*\<^sup>* rw_init_conf (conf_after 1 RW_write Held_exclusive 8 s rw_init_conf) \<and>
     native_rw_unlock (full_build\<lparr>win32 := True\<rparr>) srw_sys 8 (seq_state c) = (0, s') \<and>
     (alone 1)\<^sup>*\<^sup>* c (conf_after 1 RW_idle Held_none 8 s' c)"
proof -
  let ?b = "full_build\<lparr>win32 := True\<rparr>"
  let ?c1 = "goto 1 RW_acquired (hold 1 Held_exclusive (rw_init_conf\<lparr>srw_lock := Srw_exclusive\<rparr>))"
  let ?c2 = "goto 1 RW_write (?c1\<lparr>flag_excl := True\<rparr>)"
  have "rw_step rw_init_conf ?c1" by (intro AcquireExclusive) (simp_all add: rw_init_conf_def)
  moreover have "rw_step ?c1 ?c2" by (intro SetFlag) simp
  ultimately have c2: "rw_reachable ?c2" by (meson rw_reachable.intros)
  obtain s where "native_rw_wrlock ?b srw_sys 8 (seq_state rw_init_conf) = (0, s)"
      "(alone 1)\<^sup>*\<^sup>* rw_init_conf (conf_after 1 RW_write Held_exclusive 8 s rw_init_conf)"
    using rw_calls_are_steps [OF rw_reachable.Init, of ?b 1 8] by (auto simp: rw_init_conf_def)
  moreover obtain s' where "native_rw_unlock ?b srw_sys 8 (seq_state ?c2) = (0, s')"
      "(alone 1)\<^sup>*\<^sup>* ?c2 (conf_after 1 RW_idle Held_none 8 s' ?c2)"
    using rw_calls_are_steps [OF c2, of ?b 1 8] by auto
  ultimately show ?thesis using c2 by (intro exI [of _ ?c2]) auto
qed

end
