(* ===== verification/Mysql_Thread.thy ===== *)
theory Mysql_Thread
  imports Thr_Locks
begin

text \<open>
  The instrumented mutexes, reader-writer locks, condition variables and threads of
  \<open>mysql_thread.h\<close>: one definition per inline function, in the order of the header, over the
  platform layer. A lock object is a record with the address of the native lock and the
  instrumentation hook; a function that changes the object through its pointer returns the new
  record. \<open>b\<close> is the build, \<open>svc\<close> the instrumentation service, \<open>src\<close> the caller's file and line.
\<close>

section \<open>The instrumented objects\<close>

record mysql_mutex_t =
  m_mutex :: nat
  mutex_psi :: ptr

record mysql_rwlock_t =
  m_rwlock :: nat
  rwlock_psi :: ptr

record mysql_prlock_t =
  m_prlock :: nat
  prlock_psi :: ptr

record mysql_cond_t =
  m_cond :: nat
  cond_psi :: ptr

text \<open>The calls that create a thread: through the service, or directly.\<close>

record 'o thread_sys =
  psi_spawn_thread :: "nat \<Rightarrow> nat \<Rightarrow> ptr \<Rightarrow> nat \<Rightarrow> ptr \<Rightarrow> 'o \<Rightarrow> int \<times> 'o"
  my_thread_create :: "nat \<Rightarrow> ptr \<Rightarrow> nat \<Rightarrow> ptr \<Rightarrow> 'o \<Rightarrow> int \<times> 'o"

section \<open>Assertions\<close>

definition mysql_mutex_assert_owner :: "build \<Rightarrow> nat \<Rightarrow> safe_mutex_t \<Rightarrow> bool" where
  "mysql_mutex_assert_owner b self mp \<longleftrightarrow> (safe_mutex b \<longrightarrow> safe_mutex_assert_owner self mp)"

definition mysql_mutex_assert_not_owner :: "build \<Rightarrow> nat \<Rightarrow> safe_mutex_t \<Rightarrow> bool" where
  "mysql_mutex_assert_not_owner b self mp \<longleftrightarrow> (safe_mutex b \<longrightarrow> safe_mutex_assert_not_owner self mp)"

definition mysql_prlock_assert_write_owner :: "build \<Rightarrow> nat \<Rightarrow> rw_pr_lock_t \<Rightarrow> bool" where
  "mysql_prlock_assert_write_owner b self l = rw_pr_lock_assert_write_owner b self l"

definition mysql_prlock_assert_not_write_owner :: "build \<Rightarrow> nat \<Rightarrow> rw_pr_lock_t \<Rightarrow> bool" where
  "mysql_prlock_assert_not_write_owner b self l = rw_pr_lock_assert_not_write_owner b self l"

section \<open>Mutexes\<close>

definition inline_mysql_mutex_register :: "build \<Rightarrow> string \<Rightarrow> ptr \<Rightarrow> int \<Rightarrow> ('o psi_world, unit) state" where
  "inline_mysql_mutex_register b category info count =
     if_then (have_psi b INSTR_MUTEX) (psi_tell (PSI_MUTEX_CALL (register_mutex category info count)))"

definition inline_mysql_mutex_init ::
  "build \<Rightarrow> psi_service \<Rightarrow> 'o mutex_sys \<Rightarrow> nat \<Rightarrow> mysql_mutex_t \<Rightarrow> ptr \<Rightarrow> src \<Rightarrow> ('o psi_world, int \<times> mysql_mutex_t) state" where
  "inline_mysql_mutex_init b svc sys key that attr src = do {
     psi \<leftarrow> (if have_psi b INSTR_MUTEX
            then psi_ask svc (PSI_MUTEX_CALL (init_mutex key (m_mutex that)))
            else State_Monad.return None);
     result \<leftarrow> os_call (my_mutex_init b sys (m_mutex that) attr src);
     State_Monad.return (result, that\<lparr>mutex_psi := psi\<rparr>) }"

definition inline_mysql_mutex_destroy ::
  "build \<Rightarrow> 'o mutex_sys \<Rightarrow> mysql_mutex_t \<Rightarrow> src \<Rightarrow> ('o psi_world, int \<times> mysql_mutex_t) state" where
  "inline_mysql_mutex_destroy b sys that src =
     (if have_psi b INSTR_MUTEX \<and> mutex_psi that \<noteq> None then do {
        psi_tell (PSI_MUTEX_CALL (destroy_mutex (mutex_psi that)));
        result \<leftarrow> os_call (my_mutex_destroy b sys (m_mutex that) src);
        State_Monad.return (result, that\<lparr>mutex_psi := None\<rparr>) }
      else do {
        result \<leftarrow> os_call (my_mutex_destroy b sys (m_mutex that) src);
        State_Monad.return (result, that) })"

definition inline_mysql_mutex_lock ::
  "build \<Rightarrow> psi_service \<Rightarrow> 'o mutex_sys \<Rightarrow> mysql_mutex_t \<Rightarrow> src \<Rightarrow> ('o psi_world, int) state" where
  "inline_mysql_mutex_lock b svc sys that src =
     (if have_psi b INSTR_MUTEX \<and> mutex_psi that \<noteq> None then do {
        locker \<leftarrow> psi_ask svc (PSI_MUTEX_CALL (start_mutex_wait (mutex_psi that) PSI_MUTEX_LOCK src));
        result \<leftarrow> os_call (my_mutex_lock b sys (m_mutex that) src);
        if_then (locker \<noteq> None) (psi_tell (PSI_MUTEX_CALL (end_mutex_wait locker result)));
        State_Monad.return result }
      else os_call (my_mutex_lock b sys (m_mutex that) src))"

definition inline_mysql_mutex_trylock ::
  "build \<Rightarrow> psi_service \<Rightarrow> 'o mutex_sys \<Rightarrow> mysql_mutex_t \<Rightarrow> src \<Rightarrow> ('o psi_world, int) state" where
  "inline_mysql_mutex_trylock b svc sys that src =
     (if have_psi b INSTR_MUTEX \<and> mutex_psi that \<noteq> None then do {
        locker \<leftarrow> psi_ask svc (PSI_MUTEX_CALL (start_mutex_wait (mutex_psi that) PSI_MUTEX_TRYLOCK src));
        result \<leftarrow> os_call (my_mutex_trylock b sys (m_mutex that) src);
        if_then (locker \<noteq> None) (psi_tell (PSI_MUTEX_CALL (end_mutex_wait locker result)));
        State_Monad.return result }
      else os_call (my_mutex_trylock b sys (m_mutex that) src))"

definition inline_mysql_mutex_unlock ::
  "build \<Rightarrow> 'o mutex_sys \<Rightarrow> mysql_mutex_t \<Rightarrow> src \<Rightarrow> ('o psi_world, int) state" where
  "inline_mysql_mutex_unlock b sys that src = do {
     if_then (have_psi b INSTR_MUTEX \<and> mutex_psi that \<noteq> None) (psi_tell (PSI_MUTEX_CALL (unlock_mutex (mutex_psi that))));
     os_call (my_mutex_unlock b sys (m_mutex that) src) }"

section \<open>Reader-writer locks\<close>

definition inline_mysql_rwlock_register :: "build \<Rightarrow> string \<Rightarrow> ptr \<Rightarrow> int \<Rightarrow> ('o psi_world, unit) state" where
  "inline_mysql_rwlock_register b category info count =
     if_then (have_psi b INSTR_RWLOCK) (psi_tell (PSI_RWLOCK_CALL (register_rwlock category info count)))"

definition inline_mysql_rwlock_init ::
  "build \<Rightarrow> psi_service \<Rightarrow> 'o rwlock_sys \<Rightarrow> nat \<Rightarrow> mysql_rwlock_t \<Rightarrow> ('o rw_state psi_world, int \<times> mysql_rwlock_t) state" where
  "inline_mysql_rwlock_init b svc sys key that = do {
     psi \<leftarrow> (if have_psi b INSTR_RWLOCK
            then psi_ask svc (PSI_RWLOCK_CALL (init_rwlock key (m_rwlock that)))
            else State_Monad.return None);
     result \<leftarrow> os_call (native_rw_init b sys (m_rwlock that));
     State_Monad.return (result, that\<lparr>rwlock_psi := psi\<rparr>) }"

definition inline_mysql_prlock_init ::
  "build \<Rightarrow> psi_service \<Rightarrow> 'o rwlock_sys \<Rightarrow> nat \<Rightarrow> mysql_prlock_t \<Rightarrow> ('o psi_world, int \<times> mysql_prlock_t) state" where
  "inline_mysql_prlock_init b svc sys key that = do {
     psi \<leftarrow> (if have_psi b INSTR_RWLOCK
            then psi_ask svc (PSI_RWLOCK_CALL (init_rwlock key (m_prlock that)))
            else State_Monad.return None);
     result \<leftarrow> os_call (sys_rw_pr_init sys (m_prlock that));
     State_Monad.return (result, that\<lparr>prlock_psi := psi\<rparr>) }"

definition inline_mysql_rwlock_destroy ::
  "build \<Rightarrow> 'o rwlock_sys \<Rightarrow> mysql_rwlock_t \<Rightarrow> ('o rw_state psi_world, int \<times> mysql_rwlock_t) state" where
  "inline_mysql_rwlock_destroy b sys that =
     (if have_psi b INSTR_RWLOCK \<and> rwlock_psi that \<noteq> None then do {
        psi_tell (PSI_RWLOCK_CALL (destroy_rwlock (rwlock_psi that)));
        result \<leftarrow> os_call (native_rw_destroy b sys (m_rwlock that));
        State_Monad.return (result, that\<lparr>rwlock_psi := None\<rparr>) }
      else do {
        result \<leftarrow> os_call (native_rw_destroy b sys (m_rwlock that));
        State_Monad.return (result, that) })"

definition inline_mysql_prlock_destroy ::
  "build \<Rightarrow> 'o rwlock_sys \<Rightarrow> mysql_prlock_t \<Rightarrow> ('o psi_world, int \<times> mysql_prlock_t) state" where
  "inline_mysql_prlock_destroy b sys that =
     (if have_psi b INSTR_RWLOCK \<and> prlock_psi that \<noteq> None then do {
        psi_tell (PSI_RWLOCK_CALL (destroy_rwlock (prlock_psi that)));
        result \<leftarrow> os_call (sys_rw_pr_destroy sys (m_prlock that));
        State_Monad.return (result, that\<lparr>prlock_psi := None\<rparr>) }
      else do {
        result \<leftarrow> os_call (sys_rw_pr_destroy sys (m_prlock that));
        State_Monad.return (result, that) })"

definition inline_mysql_rwlock_rdlock ::
  "build \<Rightarrow> psi_service \<Rightarrow> 'o rwlock_sys \<Rightarrow> mysql_rwlock_t \<Rightarrow> src \<Rightarrow> ('o rw_state psi_world, int) state" where
  "inline_mysql_rwlock_rdlock b svc sys that src =
     (if have_psi b INSTR_RWLOCK \<and> rwlock_psi that \<noteq> None then do {
        locker \<leftarrow> psi_ask svc (PSI_RWLOCK_CALL (start_rwlock_rdwait (rwlock_psi that) PSI_RWLOCK_READLOCK src));
        result \<leftarrow> os_call (native_rw_rdlock b sys (m_rwlock that));
        if_then (locker \<noteq> None) (psi_tell (PSI_RWLOCK_CALL (end_rwlock_rdwait locker result)));
        State_Monad.return result }
      else os_call (native_rw_rdlock b sys (m_rwlock that)))"

definition inline_mysql_prlock_rdlock ::
  "build \<Rightarrow> psi_service \<Rightarrow> 'o rwlock_sys \<Rightarrow> mysql_prlock_t \<Rightarrow> src \<Rightarrow> ('o psi_world, int) state" where
  "inline_mysql_prlock_rdlock b svc sys that src =
     (if have_psi b INSTR_RWLOCK \<and> prlock_psi that \<noteq> None then do {
        locker \<leftarrow> psi_ask svc (PSI_RWLOCK_CALL (start_rwlock_rdwait (prlock_psi that) PSI_RWLOCK_READLOCK src));
        result \<leftarrow> os_call (sys_rw_pr_rdlock sys (m_prlock that));
        if_then (locker \<noteq> None) (psi_tell (PSI_RWLOCK_CALL (end_rwlock_rdwait locker result)));
        State_Monad.return result }
      else os_call (sys_rw_pr_rdlock sys (m_prlock that)))"

definition inline_mysql_rwlock_wrlock ::
  "build \<Rightarrow> psi_service \<Rightarrow> 'o rwlock_sys \<Rightarrow> mysql_rwlock_t \<Rightarrow> src \<Rightarrow> ('o rw_state psi_world, int) state" where
  "inline_mysql_rwlock_wrlock b svc sys that src =
     (if have_psi b INSTR_RWLOCK \<and> rwlock_psi that \<noteq> None then do {
        locker \<leftarrow> psi_ask svc (PSI_RWLOCK_CALL (start_rwlock_wrwait (rwlock_psi that) PSI_RWLOCK_WRITELOCK src));
        result \<leftarrow> os_call (native_rw_wrlock b sys (m_rwlock that));
        if_then (locker \<noteq> None) (psi_tell (PSI_RWLOCK_CALL (end_rwlock_wrwait locker result)));
        State_Monad.return result }
      else os_call (native_rw_wrlock b sys (m_rwlock that)))"

definition inline_mysql_prlock_wrlock ::
  "build \<Rightarrow> psi_service \<Rightarrow> 'o rwlock_sys \<Rightarrow> mysql_prlock_t \<Rightarrow> src \<Rightarrow> ('o psi_world, int) state" where
  "inline_mysql_prlock_wrlock b svc sys that src =
     (if have_psi b INSTR_RWLOCK \<and> prlock_psi that \<noteq> None then do {
        locker \<leftarrow> psi_ask svc (PSI_RWLOCK_CALL (start_rwlock_wrwait (prlock_psi that) PSI_RWLOCK_WRITELOCK src));
        result \<leftarrow> os_call (sys_rw_pr_wrlock sys (m_prlock that));
        if_then (locker \<noteq> None) (psi_tell (PSI_RWLOCK_CALL (end_rwlock_wrwait locker result)));
        State_Monad.return result }
      else os_call (sys_rw_pr_wrlock sys (m_prlock that)))"

definition inline_mysql_rwlock_tryrdlock ::
  "build \<Rightarrow> psi_service \<Rightarrow> 'o rwlock_sys \<Rightarrow> mysql_rwlock_t \<Rightarrow> src \<Rightarrow> ('o rw_state psi_world, int) state" where
  "inline_mysql_rwlock_tryrdlock b svc sys that src =
     (if have_psi b INSTR_RWLOCK \<and> rwlock_psi that \<noteq> None then do {
        locker \<leftarrow> psi_ask svc (PSI_RWLOCK_CALL (start_rwlock_rdwait (rwlock_psi that) PSI_RWLOCK_TRYREADLOCK src));
        result \<leftarrow> os_call (native_rw_tryrdlock b sys (m_rwlock that));
        if_then (locker \<noteq> None) (psi_tell (PSI_RWLOCK_CALL (end_rwlock_rdwait locker result)));
        State_Monad.return result }
      else os_call (native_rw_tryrdlock b sys (m_rwlock that)))"

definition inline_mysql_rwlock_trywrlock ::
  "build \<Rightarrow> psi_service \<Rightarrow> 'o rwlock_sys \<Rightarrow> mysql_rwlock_t \<Rightarrow> src \<Rightarrow> ('o rw_state psi_world, int) state" where
  "inline_mysql_rwlock_trywrlock b svc sys that src =
     (if have_psi b INSTR_RWLOCK \<and> rwlock_psi that \<noteq> None then do {
        locker \<leftarrow> psi_ask svc (PSI_RWLOCK_CALL (start_rwlock_wrwait (rwlock_psi that) PSI_RWLOCK_TRYWRITELOCK src));
        result \<leftarrow> os_call (native_rw_trywrlock b sys (m_rwlock that));
        if_then (locker \<noteq> None) (psi_tell (PSI_RWLOCK_CALL (end_rwlock_wrwait locker result)));
        State_Monad.return result }
      else os_call (native_rw_trywrlock b sys (m_rwlock that)))"

definition inline_mysql_rwlock_unlock ::
  "build \<Rightarrow> 'o rwlock_sys \<Rightarrow> mysql_rwlock_t \<Rightarrow> ('o rw_state psi_world, int) state" where
  "inline_mysql_rwlock_unlock b sys that = do {
     if_then (have_psi b INSTR_RWLOCK \<and> rwlock_psi that \<noteq> None) (psi_tell (PSI_RWLOCK_CALL (unlock_rwlock (rwlock_psi that))));
     os_call (native_rw_unlock b sys (m_rwlock that)) }"

definition inline_mysql_prlock_unlock ::
  "build \<Rightarrow> 'o rwlock_sys \<Rightarrow> mysql_prlock_t \<Rightarrow> ('o psi_world, int) state" where
  "inline_mysql_prlock_unlock b sys that = do {
     if_then (have_psi b INSTR_RWLOCK \<and> prlock_psi that \<noteq> None) (psi_tell (PSI_RWLOCK_CALL (unlock_rwlock (prlock_psi that))));
     os_call (sys_rw_pr_unlock sys (m_prlock that)) }"

section \<open>Condition variables\<close>

definition inline_mysql_cond_register :: "build \<Rightarrow> string \<Rightarrow> ptr \<Rightarrow> int \<Rightarrow> ('o psi_world, unit) state" where
  "inline_mysql_cond_register b category info count =
     if_then (have_psi b INSTR_COND) (psi_tell (PSI_COND_CALL (register_cond category info count)))"

definition inline_mysql_cond_init ::
  "build \<Rightarrow> psi_service \<Rightarrow> 'o cond_sys \<Rightarrow> nat \<Rightarrow> mysql_cond_t \<Rightarrow> ('o psi_world, int \<times> mysql_cond_t) state" where
  "inline_mysql_cond_init b svc sys key that = do {
     psi \<leftarrow> (if have_psi b INSTR_COND
            then psi_ask svc (PSI_COND_CALL (init_cond key (m_cond that)))
            else State_Monad.return None);
     result \<leftarrow> os_call (native_cond_init b sys (m_cond that));
     State_Monad.return (result, that\<lparr>cond_psi := psi\<rparr>) }"

definition inline_mysql_cond_destroy ::
  "build \<Rightarrow> 'o cond_sys \<Rightarrow> mysql_cond_t \<Rightarrow> ('o psi_world, int \<times> mysql_cond_t) state" where
  "inline_mysql_cond_destroy b sys that =
     (if have_psi b INSTR_COND \<and> cond_psi that \<noteq> None then do {
        psi_tell (PSI_COND_CALL (destroy_cond (cond_psi that)));
        result \<leftarrow> os_call (native_cond_destroy b sys (m_cond that));
        State_Monad.return (result, that\<lparr>cond_psi := None\<rparr>) }
      else do {
        result \<leftarrow> os_call (native_cond_destroy b sys (m_cond that));
        State_Monad.return (result, that) })"

definition inline_mysql_cond_wait ::
  "build \<Rightarrow> psi_service \<Rightarrow> 'o cond_sys \<Rightarrow> mysql_cond_t \<Rightarrow> mysql_mutex_t \<Rightarrow> src \<Rightarrow> ('o psi_world, int) state" where
  "inline_mysql_cond_wait b svc sys that mutex src =
     (if have_psi b INSTR_COND \<and> cond_psi that \<noteq> None then do {
        locker \<leftarrow> psi_ask svc (PSI_COND_CALL (start_cond_wait (cond_psi that) (mutex_psi mutex) PSI_COND_WAIT src));
        result \<leftarrow> os_call (my_cond_wait b sys (m_cond that) (m_mutex mutex) src);
        if_then (locker \<noteq> None) (psi_tell (PSI_COND_CALL (end_cond_wait locker result)));
        State_Monad.return result }
      else os_call (my_cond_wait b sys (m_cond that) (m_mutex mutex) src))"

text \<open>A timed wait whose deadline is read through a \<open>NULL\<close> pointer is undefined: its result is \<open>None\<close>,
  and the end of the wait, which would report the result, is not reached in that case.\<close>

definition timed_wait ::
  "build \<Rightarrow> time_build \<Rightarrow> 'o cond_sys \<Rightarrow> nat \<Rightarrow> nat \<Rightarrow> timespec option \<Rightarrow> src \<Rightarrow> 'o \<Rightarrow> int option \<times> 'o" where
  "timed_wait b t sys cond mp abstime src s =
     (case my_cond_timedwait b t sys cond mp abstime src s of
        None \<Rightarrow> (None, s)
      | Some (r, s1) \<Rightarrow> (Some r, s1))"

definition inline_mysql_cond_timedwait ::
  "build \<Rightarrow> psi_service \<Rightarrow> time_build \<Rightarrow> 'o cond_sys \<Rightarrow> mysql_cond_t \<Rightarrow> mysql_mutex_t \<Rightarrow> timespec option \<Rightarrow> src \<Rightarrow>
   ('o psi_world, int option) state" where
  "inline_mysql_cond_timedwait b svc t sys that mutex abstime src =
     (if have_psi b INSTR_COND \<and> cond_psi that \<noteq> None then do {
        locker \<leftarrow> psi_ask svc (PSI_COND_CALL
                    (start_cond_wait (cond_psi that) (mutex_psi mutex) PSI_COND_TIMEDWAIT src));
        result \<leftarrow> os_call (timed_wait b t sys (m_cond that) (m_mutex mutex) abstime src);
        case result of
          None \<Rightarrow> State_Monad.return None
        | Some r \<Rightarrow> do {
            if_then (locker \<noteq> None) (psi_tell (PSI_COND_CALL (end_cond_wait locker r)));
            State_Monad.return result } }
      else os_call (timed_wait b t sys (m_cond that) (m_mutex mutex) abstime src))"

definition inline_mysql_cond_signal ::
  "build \<Rightarrow> 'o cond_sys \<Rightarrow> mysql_cond_t \<Rightarrow> ('o psi_world, int) state" where
  "inline_mysql_cond_signal b sys that = do {
     if_then (have_psi b INSTR_COND \<and> cond_psi that \<noteq> None) (psi_tell (PSI_COND_CALL (signal_cond (cond_psi that))));
     os_call (native_cond_signal b sys (m_cond that)) }"

definition inline_mysql_cond_broadcast ::
  "build \<Rightarrow> 'o cond_sys \<Rightarrow> mysql_cond_t \<Rightarrow> ('o psi_world, int) state" where
  "inline_mysql_cond_broadcast b sys that = do {
     if_then (have_psi b INSTR_COND \<and> cond_psi that \<noteq> None) (psi_tell (PSI_COND_CALL (broadcast_cond (cond_psi that))));
     os_call (native_cond_broadcast b sys (m_cond that)) }"

section \<open>Threads\<close>

definition inline_mysql_thread_register :: "build \<Rightarrow> string \<Rightarrow> ptr \<Rightarrow> int \<Rightarrow> ('o psi_world, unit) state" where
  "inline_mysql_thread_register b category info count =
     if_then (have_psi b INSTR_THREAD) (psi_tell (PSI_THREAD_CALL (register_thread category info count)))"

definition inline_mysql_thread_create ::
  "'o thread_sys \<Rightarrow> nat \<Rightarrow> nat \<Rightarrow> ptr \<Rightarrow> nat \<Rightarrow> ptr \<Rightarrow> ('o psi_world, int) state" where
  "inline_mysql_thread_create sys key thread attr start_routine arg = do {
     psi_tell (PSI_THREAD_CALL (spawn_thread key thread attr start_routine arg));
     os_call (psi_spawn_thread sys key thread attr start_routine arg) }"

definition inline_mysql_thread_set_psi_id :: "psi_service \<Rightarrow> nat \<Rightarrow> ('o psi_world, unit) state" where
  "inline_mysql_thread_set_psi_id svc tid = do {
     psi \<leftarrow> psi_ask svc (PSI_THREAD_CALL get_thread);
     psi_tell (PSI_THREAD_CALL (set_thread_id psi tid)) }"

definition inline_mysql_thread_set_psi_THD :: "psi_service \<Rightarrow> ptr \<Rightarrow> ('o psi_world, unit) state" where
  "inline_mysql_thread_set_psi_THD svc thd = do {
     psi \<leftarrow> psi_ask svc (PSI_THREAD_CALL get_thread);
     psi_tell (PSI_THREAD_CALL (set_thread_THD psi thd)) }"

section \<open>The macros the callers use\<close>

text \<open>Each expands to its inline function, with the caller's file and line where they are recorded.\<close>

definition mysql_mutex_register ::
  "build \<Rightarrow> string \<Rightarrow> ptr \<Rightarrow> int \<Rightarrow> ('o psi_world, unit) state" where
  "mysql_mutex_register b category info count = inline_mysql_mutex_register b category info count"

definition mysql_mutex_init ::
  "build \<Rightarrow> psi_service \<Rightarrow> 'o mutex_sys \<Rightarrow> nat \<Rightarrow> mysql_mutex_t \<Rightarrow> ptr \<Rightarrow> src \<Rightarrow> ('o psi_world, int \<times> mysql_mutex_t) state" where
  "mysql_mutex_init b svc sys key that attr src = inline_mysql_mutex_init b svc sys key that attr src"

definition mysql_mutex_destroy ::
  "build \<Rightarrow> 'o mutex_sys \<Rightarrow> mysql_mutex_t \<Rightarrow> src \<Rightarrow> ('o psi_world, int \<times> mysql_mutex_t) state" where
  "mysql_mutex_destroy b sys that src = inline_mysql_mutex_destroy b sys that src"

definition mysql_mutex_lock ::
  "build \<Rightarrow> psi_service \<Rightarrow> 'o mutex_sys \<Rightarrow> mysql_mutex_t \<Rightarrow> src \<Rightarrow> ('o psi_world, int) state" where
  "mysql_mutex_lock b svc sys that src = inline_mysql_mutex_lock b svc sys that src"

definition mysql_mutex_trylock ::
  "build \<Rightarrow> psi_service \<Rightarrow> 'o mutex_sys \<Rightarrow> mysql_mutex_t \<Rightarrow> src \<Rightarrow> ('o psi_world, int) state" where
  "mysql_mutex_trylock b svc sys that src = inline_mysql_mutex_trylock b svc sys that src"

definition mysql_mutex_unlock ::
  "build \<Rightarrow> 'o mutex_sys \<Rightarrow> mysql_mutex_t \<Rightarrow> src \<Rightarrow> ('o psi_world, int) state" where
  "mysql_mutex_unlock b sys that src = inline_mysql_mutex_unlock b sys that src"

definition mysql_rwlock_register ::
  "build \<Rightarrow> string \<Rightarrow> ptr \<Rightarrow> int \<Rightarrow> ('o psi_world, unit) state" where
  "mysql_rwlock_register b category info count = inline_mysql_rwlock_register b category info count"

definition mysql_rwlock_init ::
  "build \<Rightarrow> psi_service \<Rightarrow> 'o rwlock_sys \<Rightarrow> nat \<Rightarrow> mysql_rwlock_t \<Rightarrow> ('o rw_state psi_world, int \<times> mysql_rwlock_t) state" where
  "mysql_rwlock_init b svc sys key that = inline_mysql_rwlock_init b svc sys key that"

definition mysql_prlock_init ::
  "build \<Rightarrow> psi_service \<Rightarrow> 'o rwlock_sys \<Rightarrow> nat \<Rightarrow> mysql_prlock_t \<Rightarrow> ('o psi_world, int \<times> mysql_prlock_t) state" where
  "mysql_prlock_init b svc sys key that = inline_mysql_prlock_init b svc sys key that"

definition mysql_rwlock_destroy ::
  "build \<Rightarrow> 'o rwlock_sys \<Rightarrow> mysql_rwlock_t \<Rightarrow> ('o rw_state psi_world, int \<times> mysql_rwlock_t) state" where
  "mysql_rwlock_destroy b sys that = inline_mysql_rwlock_destroy b sys that"

definition mysql_prlock_destroy ::
  "build \<Rightarrow> 'o rwlock_sys \<Rightarrow> mysql_prlock_t \<Rightarrow> ('o psi_world, int \<times> mysql_prlock_t) state" where
  "mysql_prlock_destroy b sys that = inline_mysql_prlock_destroy b sys that"

definition mysql_rwlock_rdlock ::
  "build \<Rightarrow> psi_service \<Rightarrow> 'o rwlock_sys \<Rightarrow> mysql_rwlock_t \<Rightarrow> src \<Rightarrow> ('o rw_state psi_world, int) state" where
  "mysql_rwlock_rdlock b svc sys that src = inline_mysql_rwlock_rdlock b svc sys that src"

definition mysql_prlock_rdlock ::
  "build \<Rightarrow> psi_service \<Rightarrow> 'o rwlock_sys \<Rightarrow> mysql_prlock_t \<Rightarrow> src \<Rightarrow> ('o psi_world, int) state" where
  "mysql_prlock_rdlock b svc sys that src = inline_mysql_prlock_rdlock b svc sys that src"

definition mysql_rwlock_wrlock ::
  "build \<Rightarrow> psi_service \<Rightarrow> 'o rwlock_sys \<Rightarrow> mysql_rwlock_t \<Rightarrow> src \<Rightarrow> ('o rw_state psi_world, int) state" where
  "mysql_rwlock_wrlock b svc sys that src = inline_mysql_rwlock_wrlock b svc sys that src"

definition mysql_prlock_wrlock ::
  "build \<Rightarrow> psi_service \<Rightarrow> 'o rwlock_sys \<Rightarrow> mysql_prlock_t \<Rightarrow> src \<Rightarrow> ('o psi_world, int) state" where
  "mysql_prlock_wrlock b svc sys that src = inline_mysql_prlock_wrlock b svc sys that src"

definition mysql_rwlock_tryrdlock ::
  "build \<Rightarrow> psi_service \<Rightarrow> 'o rwlock_sys \<Rightarrow> mysql_rwlock_t \<Rightarrow> src \<Rightarrow> ('o rw_state psi_world, int) state" where
  "mysql_rwlock_tryrdlock b svc sys that src = inline_mysql_rwlock_tryrdlock b svc sys that src"

definition mysql_rwlock_trywrlock ::
  "build \<Rightarrow> psi_service \<Rightarrow> 'o rwlock_sys \<Rightarrow> mysql_rwlock_t \<Rightarrow> src \<Rightarrow> ('o rw_state psi_world, int) state" where
  "mysql_rwlock_trywrlock b svc sys that src = inline_mysql_rwlock_trywrlock b svc sys that src"

definition mysql_rwlock_unlock ::
  "build \<Rightarrow> 'o rwlock_sys \<Rightarrow> mysql_rwlock_t \<Rightarrow> ('o rw_state psi_world, int) state" where
  "mysql_rwlock_unlock b sys that = inline_mysql_rwlock_unlock b sys that"

definition mysql_prlock_unlock ::
  "build \<Rightarrow> 'o rwlock_sys \<Rightarrow> mysql_prlock_t \<Rightarrow> ('o psi_world, int) state" where
  "mysql_prlock_unlock b sys that = inline_mysql_prlock_unlock b sys that"

definition mysql_cond_register ::
  "build \<Rightarrow> string \<Rightarrow> ptr \<Rightarrow> int \<Rightarrow> ('o psi_world, unit) state" where
  "mysql_cond_register b category info count = inline_mysql_cond_register b category info count"

definition mysql_cond_init ::
  "build \<Rightarrow> psi_service \<Rightarrow> 'o cond_sys \<Rightarrow> nat \<Rightarrow> mysql_cond_t \<Rightarrow> ('o psi_world, int \<times> mysql_cond_t) state" where
  "mysql_cond_init b svc sys key that = inline_mysql_cond_init b svc sys key that"

definition mysql_cond_destroy ::
  "build \<Rightarrow> 'o cond_sys \<Rightarrow> mysql_cond_t \<Rightarrow> ('o psi_world, int \<times> mysql_cond_t) state" where
  "mysql_cond_destroy b sys that = inline_mysql_cond_destroy b sys that"

definition mysql_cond_wait ::
  "build \<Rightarrow> psi_service \<Rightarrow> 'o cond_sys \<Rightarrow> mysql_cond_t \<Rightarrow> mysql_mutex_t \<Rightarrow> src \<Rightarrow> ('o psi_world, int) state" where
  "mysql_cond_wait b svc sys that mutex src = inline_mysql_cond_wait b svc sys that mutex src"

definition mysql_cond_timedwait ::
  "build \<Rightarrow> psi_service \<Rightarrow> time_build \<Rightarrow> 'o cond_sys \<Rightarrow> mysql_cond_t \<Rightarrow> mysql_mutex_t \<Rightarrow> timespec option \<Rightarrow> src \<Rightarrow> ('o psi_world, int option) state" where
  "mysql_cond_timedwait b svc t sys that mutex abstime src = inline_mysql_cond_timedwait b svc t sys that mutex abstime src"

definition mysql_cond_signal ::
  "build \<Rightarrow> 'o cond_sys \<Rightarrow> mysql_cond_t \<Rightarrow> ('o psi_world, int) state" where
  "mysql_cond_signal b sys that = inline_mysql_cond_signal b sys that"

definition mysql_cond_broadcast ::
  "build \<Rightarrow> 'o cond_sys \<Rightarrow> mysql_cond_t \<Rightarrow> ('o psi_world, int) state" where
  "mysql_cond_broadcast b sys that = inline_mysql_cond_broadcast b sys that"

definition mysql_thread_register ::
  "build \<Rightarrow> string \<Rightarrow> ptr \<Rightarrow> int \<Rightarrow> ('o psi_world, unit) state" where
  "mysql_thread_register b category info count = inline_mysql_thread_register b category info count"

definition mysql_thread_create ::
  "build \<Rightarrow> 'o thread_sys \<Rightarrow> nat \<Rightarrow> nat \<Rightarrow> ptr \<Rightarrow> nat \<Rightarrow> ptr \<Rightarrow> ('o psi_world, int) state" where
  "mysql_thread_create b sys K P1 P2 P3 P4 =
     (if have_psi b INSTR_THREAD then inline_mysql_thread_create sys K P1 P2 P3 P4
      else os_call (my_thread_create sys P1 P2 P3 P4))"

definition mysql_thread_set_psi_id :: "build \<Rightarrow> psi_service \<Rightarrow> nat \<Rightarrow> ('o psi_world, unit) state" where
  "mysql_thread_set_psi_id b svc I = if_then (have_psi b INSTR_THREAD) (inline_mysql_thread_set_psi_id svc I)"

definition mysql_thread_set_psi_THD :: "build \<Rightarrow> psi_service \<Rightarrow> ptr \<Rightarrow> ('o psi_world, unit) state" where
  "mysql_thread_set_psi_THD b svc T = if_then (have_psi b INSTR_THREAD) (inline_mysql_thread_set_psi_THD svc T)"

section \<open>Histories of a lock object\<close>

text \<open>The operations on one object, in any order, each on the object the previous one left.\<close>

datatype mutex_op = Mutex_init nat ptr | Mutex_lock | Mutex_trylock | Mutex_unlock | Mutex_destroy

datatype rwlock_op =
  Rwlock_init nat | Rwlock_rdlock | Rwlock_wrlock | Rwlock_tryrdlock | Rwlock_trywrlock
| Rwlock_unlock | Rwlock_destroy

datatype prlock_op = Prlock_init nat | Prlock_rdlock | Prlock_wrlock | Prlock_unlock | Prlock_destroy

datatype cond_op =
  Cond_init nat | Cond_wait mysql_mutex_t | Cond_timedwait mysql_mutex_t "timespec option"
| Cond_signal | Cond_broadcast | Cond_destroy

definition keeping :: "'t \<Rightarrow> ('s, int) state \<Rightarrow> ('s, int option \<times> 't) state" where
  "keeping that m = do { r \<leftarrow> m; State_Monad.return (Some r, that) }"

definition changing :: "('s, int \<times> 't) state \<Rightarrow> ('s, int option \<times> 't) state" where
  "changing m = do { x \<leftarrow> m; State_Monad.return (Some (fst x), snd x) }"

primrec mutex_exec ::
  "build \<Rightarrow> psi_service \<Rightarrow> 'o mutex_sys \<Rightarrow> src \<Rightarrow> mutex_op \<Rightarrow> mysql_mutex_t \<Rightarrow>
   ('o psi_world, int option \<times> mysql_mutex_t) state" where
  "mutex_exec b svc sys src (Mutex_init key attr) that = changing (mysql_mutex_init b svc sys key that attr src)"
| "mutex_exec b svc sys src Mutex_lock that = keeping that (mysql_mutex_lock b svc sys that src)"
| "mutex_exec b svc sys src Mutex_trylock that = keeping that (mysql_mutex_trylock b svc sys that src)"
| "mutex_exec b svc sys src Mutex_unlock that = keeping that (mysql_mutex_unlock b sys that src)"
| "mutex_exec b svc sys src Mutex_destroy that = changing (mysql_mutex_destroy b sys that src)"

primrec rwlock_exec ::
  "build \<Rightarrow> psi_service \<Rightarrow> 'o rwlock_sys \<Rightarrow> src \<Rightarrow> rwlock_op \<Rightarrow> mysql_rwlock_t \<Rightarrow>
   ('o rw_state psi_world, int option \<times> mysql_rwlock_t) state" where
  "rwlock_exec b svc sys src (Rwlock_init key) that = changing (mysql_rwlock_init b svc sys key that)"
| "rwlock_exec b svc sys src Rwlock_rdlock that = keeping that (mysql_rwlock_rdlock b svc sys that src)"
| "rwlock_exec b svc sys src Rwlock_wrlock that = keeping that (mysql_rwlock_wrlock b svc sys that src)"
| "rwlock_exec b svc sys src Rwlock_tryrdlock that = keeping that (mysql_rwlock_tryrdlock b svc sys that src)"
| "rwlock_exec b svc sys src Rwlock_trywrlock that = keeping that (mysql_rwlock_trywrlock b svc sys that src)"
| "rwlock_exec b svc sys src Rwlock_unlock that = keeping that (mysql_rwlock_unlock b sys that)"
| "rwlock_exec b svc sys src Rwlock_destroy that = changing (mysql_rwlock_destroy b sys that)"

primrec prlock_exec ::
  "build \<Rightarrow> psi_service \<Rightarrow> 'o rwlock_sys \<Rightarrow> src \<Rightarrow> prlock_op \<Rightarrow> mysql_prlock_t \<Rightarrow>
   ('o psi_world, int option \<times> mysql_prlock_t) state" where
  "prlock_exec b svc sys src (Prlock_init key) that = changing (mysql_prlock_init b svc sys key that)"
| "prlock_exec b svc sys src Prlock_rdlock that = keeping that (mysql_prlock_rdlock b svc sys that src)"
| "prlock_exec b svc sys src Prlock_wrlock that = keeping that (mysql_prlock_wrlock b svc sys that src)"
| "prlock_exec b svc sys src Prlock_unlock that = keeping that (mysql_prlock_unlock b sys that)"
| "prlock_exec b svc sys src Prlock_destroy that = changing (mysql_prlock_destroy b sys that)"

primrec cond_exec ::
  "build \<Rightarrow> psi_service \<Rightarrow> time_build \<Rightarrow> 'o cond_sys \<Rightarrow> src \<Rightarrow> cond_op \<Rightarrow> mysql_cond_t \<Rightarrow>
   ('o psi_world, int option \<times> mysql_cond_t) state" where
  "cond_exec b svc t sys src (Cond_init key) that = changing (mysql_cond_init b svc sys key that)"
| "cond_exec b svc t sys src (Cond_wait mutex) that = keeping that (mysql_cond_wait b svc sys that mutex src)"
| "cond_exec b svc t sys src (Cond_timedwait mutex abstime) that = do {
     r \<leftarrow> mysql_cond_timedwait b svc t sys that mutex abstime src;
     State_Monad.return (r, that) }"
| "cond_exec b svc t sys src Cond_signal that = keeping that (mysql_cond_signal b sys that)"
| "cond_exec b svc t sys src Cond_broadcast that = keeping that (mysql_cond_broadcast b sys that)"
| "cond_exec b svc t sys src Cond_destroy that = changing (mysql_cond_destroy b sys that)"

text \<open>A condition and the mutex its waiters hold, on one system.\<close>

datatype monitor_op = On_mutex mutex_op | On_cond cond_op

fun with_mutex :: "mysql_mutex_t \<Rightarrow> cond_op \<Rightarrow> cond_op" where
  "with_mutex mu (Cond_wait _) = Cond_wait mu"
| "with_mutex mu (Cond_timedwait _ abstime) = Cond_timedwait mu abstime"
| "with_mutex mu op = op"

primrec monitor_exec ::
  "build \<Rightarrow> psi_service \<Rightarrow> time_build \<Rightarrow> 'o mutex_sys \<Rightarrow> 'o cond_sys \<Rightarrow> src \<Rightarrow> monitor_op \<Rightarrow>
   mysql_cond_t \<times> mysql_mutex_t \<Rightarrow> ('o psi_world, int option \<times> mysql_cond_t \<times> mysql_mutex_t) state" where
  "monitor_exec b svc t msys csys src (On_mutex op) that = do {
     x \<leftarrow> mutex_exec b svc msys src op (snd that);
     State_Monad.return (fst x, fst that, snd x) }"
| "monitor_exec b svc t msys csys src (On_cond op) that = do {
     x \<leftarrow> cond_exec b svc t csys src (with_mutex (snd that) op) (fst that);
     State_Monad.return (fst x, snd x, snd that) }"

primrec run_ops ::
  "('op \<Rightarrow> 't \<Rightarrow> ('s, int option \<times> 't) state) \<Rightarrow> 'op list \<Rightarrow> 't \<Rightarrow> ('s, int option list \<times> 't) state" where
  "run_ops exec [] that = State_Monad.return ([], that)"
| "run_ops exec (op # ops) that = do {
     x \<leftarrow> exec op that;
     y \<leftarrow> run_ops exec ops (snd x);
     State_Monad.return (fst x # fst y, snd y) }"

text \<open>
  What a call of the service does with the hooks of lock objects, of which there is at most one of each
  kind: it returns a new one, it is told that one is gone, it is told of an operation on one, it is
  told of a wait on a condition with a mutex, or none of these.
\<close>

datatype hook_kind = Mutex_hook | Rwlock_hook | Cond_hook

datatype hook_use = Hook_new hook_kind | Hook_gone hook_kind ptr | Hook_used hook_kind ptr | Hook_waits ptr ptr | Hook_none

primrec hook_of :: "psi_call \<Rightarrow> hook_use" where
  "hook_of (PSI_MUTEX_CALL c) =
     (case c of init_mutex _ _ \<Rightarrow> Hook_new Mutex_hook | destroy_mutex p \<Rightarrow> Hook_gone Mutex_hook p
      | unlock_mutex p \<Rightarrow> Hook_used Mutex_hook p | start_mutex_wait p _ _ \<Rightarrow> Hook_used Mutex_hook p | _ \<Rightarrow> Hook_none)"
| "hook_of (PSI_RWLOCK_CALL c) =
     (case c of init_rwlock _ _ \<Rightarrow> Hook_new Rwlock_hook | destroy_rwlock p \<Rightarrow> Hook_gone Rwlock_hook p
      | unlock_rwlock p \<Rightarrow> Hook_used Rwlock_hook p | start_rwlock_rdwait p _ _ \<Rightarrow> Hook_used Rwlock_hook p
      | start_rwlock_wrwait p _ _ \<Rightarrow> Hook_used Rwlock_hook p | _ \<Rightarrow> Hook_none)"
| "hook_of (PSI_COND_CALL c) =
     (case c of init_cond _ _ \<Rightarrow> Hook_new Cond_hook | destroy_cond p \<Rightarrow> Hook_gone Cond_hook p
      | signal_cond p \<Rightarrow> Hook_used Cond_hook p | broadcast_cond p \<Rightarrow> Hook_used Cond_hook p
      | start_cond_wait p q _ _ \<Rightarrow> Hook_waits p q | _ \<Rightarrow> Hook_none)"
| "hook_of (PSI_THREAD_CALL c) = Hook_none"
| "hook_of (PSI_FILE_CALL c) = Hook_none"
| "hook_of (PSI_SOCKET_CALL c) = Hook_none"
| "hook_of (PSI_STAGE_CALL c) = Hook_none"
| "hook_of (PSI_STATEMENT_CALL c) = Hook_none"
| "hook_of (PSI_DIGEST_CALL c) = Hook_none"
| "hook_of (PSI_TRANSACTION_CALL c) = Hook_none"
| "hook_of (PSI_PS_CALL c) = Hook_none"
| "hook_of (PSI_SP_CALL c) = Hook_none"
| "hook_of (PSI_METADATA_CALL c) = Hook_none"
| "hook_of (PSI_MEMORY_CALL c) = Hook_none"
| "hook_of (PSI_TABLE_CALL c) = Hook_none"
| "hook_of (PSI_IDLE_CALL c) = Hook_none"

text \<open>
  \<open>hook_run\<close> follows a log with the hooks that are alive, \<open>NULL\<close> where there is none. It fails when a call names
  another hook, one that was destroyed, or \<open>NULL\<close>; only the mutex of a wait may be \<open>NULL\<close>, and only while
  the mutex has no hook.
\<close>

primrec hook_run :: "(hook_kind \<Rightarrow> ptr) \<Rightarrow> psi_log \<Rightarrow> (hook_kind \<Rightarrow> ptr) option" where
  "hook_run h [] = Some h"
| "hook_run h (er # es) =
     (case hook_of (fst er) of
        Hook_new k \<Rightarrow> hook_run (h(k := snd er)) es
      | Hook_gone k p \<Rightarrow> if p = h k \<and> p \<noteq> None then hook_run (h(k := None)) es else None
      | Hook_used k p \<Rightarrow> if p = h k \<and> p \<noteq> None then hook_run h es else None
      | Hook_waits p q \<Rightarrow> if p = h Cond_hook \<and> p \<noteq> None \<and> q = h Mutex_hook then hook_run h es else None
      | Hook_none \<Rightarrow> hook_run h es)"

definition no_hooks :: "hook_kind \<Rightarrow> ptr" where
  "no_hooks = (\<lambda>_. None)"

definition hooked :: "(hook_kind \<Rightarrow> ptr) \<Rightarrow> ('o psi_world, 'r) state \<Rightarrow> ('r \<Rightarrow> hook_kind \<Rightarrow> ptr) \<Rightarrow> bool" where
  "hooked h m g \<longleftrightarrow> (\<forall>w. \<exists>es. psi_log (snd (run_state m w)) = psi_log w @ es
     \<and> hook_run h es = Some (g (fst (run_state m w))))"

text \<open>The hook of an object, which is \<open>NULL\<close> in a build without the instrument once the object is initialised.\<close>

definition hook_ok :: "build \<Rightarrow> instrument \<Rightarrow> ptr \<Rightarrow> bool" where
  "hook_ok b i p \<longleftrightarrow> have_psi b i \<or> p = None"

definition monitor_hooks :: "mysql_cond_t \<times> mysql_mutex_t \<Rightarrow> hook_kind \<Rightarrow> ptr" where
  "monitor_hooks that = no_hooks(Cond_hook := cond_psi (fst that), Mutex_hook := mutex_psi (snd that))"

text \<open>An operation that keeps \<open>I\<close>, after which the hooks alive are those of \<open>f\<close>; and a history of them.\<close>

definition follows ::
  "('t \<Rightarrow> bool) \<Rightarrow> ('t \<Rightarrow> hook_kind \<Rightarrow> ptr) \<Rightarrow> (hook_kind \<Rightarrow> ptr) \<Rightarrow> ('o psi_world, int option \<times> 't) state \<Rightarrow> bool" where
  "follows I f h m \<longleftrightarrow> hooked h m (\<lambda>x. f (snd x)) \<and> (\<forall>w. I (snd (fst (run_state m w))))"

definition monitor_ok :: "build \<Rightarrow> mysql_cond_t \<times> mysql_mutex_t \<Rightarrow> bool" where
  "monitor_ok b that \<longleftrightarrow> hook_ok b INSTR_COND (cond_psi (fst that)) \<and> hook_ok b INSTR_MUTEX (mutex_psi (snd that))"

section \<open>Every wait is an instrumented call\<close>

lemmas lock_wait_simps = psi_simps wait_log_def Let_def

lemma bracket_note: "neutral e \<Longrightarrow> bracket st (if a then [(e, None)] else []) = Some st"
  by (simp add: neutral_def bracket_step_def)

interpretation lw_mutex_lock: instrumented_call
  "inline_mysql_mutex_lock b svc sys that src"
  "my_mutex_lock b sys (m_mutex that) src"
  "\<lambda>log r. wait_log (have_psi b INSTR_MUTEX \<and> mutex_psi that \<noteq> None) svc log
     (PSI_MUTEX_CALL (start_mutex_wait (mutex_psi that) PSI_MUTEX_LOCK src)) [] (\<lambda>l. PSI_MUTEX_CALL (end_mutex_wait l r)) []"
  for b svc sys that src
  by (unfold_locales, simp add: inline_mysql_mutex_lock_def lock_wait_simps, rule bracket_wait_log, simp_all)

interpretation lw_mutex_trylock: instrumented_call
  "inline_mysql_mutex_trylock b svc sys that src"
  "my_mutex_trylock b sys (m_mutex that) src"
  "\<lambda>log r. wait_log (have_psi b INSTR_MUTEX \<and> mutex_psi that \<noteq> None) svc log
     (PSI_MUTEX_CALL (start_mutex_wait (mutex_psi that) PSI_MUTEX_TRYLOCK src)) [] (\<lambda>l. PSI_MUTEX_CALL (end_mutex_wait l r)) []"
  for b svc sys that src
  by (unfold_locales, simp add: inline_mysql_mutex_trylock_def lock_wait_simps, rule bracket_wait_log, simp_all)

interpretation lw_rwlock_rdlock: instrumented_call
  "inline_mysql_rwlock_rdlock b svc sys that src"
  "native_rw_rdlock b sys (m_rwlock that)"
  "\<lambda>log r. wait_log (have_psi b INSTR_RWLOCK \<and> rwlock_psi that \<noteq> None) svc log
     (PSI_RWLOCK_CALL (start_rwlock_rdwait (rwlock_psi that) PSI_RWLOCK_READLOCK src)) [] (\<lambda>l. PSI_RWLOCK_CALL (end_rwlock_rdwait l r)) []"
  for b svc sys that src
  by (unfold_locales, simp add: inline_mysql_rwlock_rdlock_def lock_wait_simps, rule bracket_wait_log, simp_all)

interpretation lw_prlock_rdlock: instrumented_call
  "inline_mysql_prlock_rdlock b svc sys that src"
  "sys_rw_pr_rdlock sys (m_prlock that)"
  "\<lambda>log r. wait_log (have_psi b INSTR_RWLOCK \<and> prlock_psi that \<noteq> None) svc log
     (PSI_RWLOCK_CALL (start_rwlock_rdwait (prlock_psi that) PSI_RWLOCK_READLOCK src)) [] (\<lambda>l. PSI_RWLOCK_CALL (end_rwlock_rdwait l r)) []"
  for b svc sys that src
  by (unfold_locales, simp add: inline_mysql_prlock_rdlock_def lock_wait_simps, rule bracket_wait_log, simp_all)

interpretation lw_rwlock_wrlock: instrumented_call
  "inline_mysql_rwlock_wrlock b svc sys that src"
  "native_rw_wrlock b sys (m_rwlock that)"
  "\<lambda>log r. wait_log (have_psi b INSTR_RWLOCK \<and> rwlock_psi that \<noteq> None) svc log
     (PSI_RWLOCK_CALL (start_rwlock_wrwait (rwlock_psi that) PSI_RWLOCK_WRITELOCK src)) [] (\<lambda>l. PSI_RWLOCK_CALL (end_rwlock_wrwait l r)) []"
  for b svc sys that src
  by (unfold_locales, simp add: inline_mysql_rwlock_wrlock_def lock_wait_simps, rule bracket_wait_log, simp_all)

interpretation lw_prlock_wrlock: instrumented_call
  "inline_mysql_prlock_wrlock b svc sys that src"
  "sys_rw_pr_wrlock sys (m_prlock that)"
  "\<lambda>log r. wait_log (have_psi b INSTR_RWLOCK \<and> prlock_psi that \<noteq> None) svc log
     (PSI_RWLOCK_CALL (start_rwlock_wrwait (prlock_psi that) PSI_RWLOCK_WRITELOCK src)) [] (\<lambda>l. PSI_RWLOCK_CALL (end_rwlock_wrwait l r)) []"
  for b svc sys that src
  by (unfold_locales, simp add: inline_mysql_prlock_wrlock_def lock_wait_simps, rule bracket_wait_log, simp_all)

interpretation lw_rwlock_tryrdlock: instrumented_call
  "inline_mysql_rwlock_tryrdlock b svc sys that src"
  "native_rw_tryrdlock b sys (m_rwlock that)"
  "\<lambda>log r. wait_log (have_psi b INSTR_RWLOCK \<and> rwlock_psi that \<noteq> None) svc log
     (PSI_RWLOCK_CALL (start_rwlock_rdwait (rwlock_psi that) PSI_RWLOCK_TRYREADLOCK src)) [] (\<lambda>l. PSI_RWLOCK_CALL (end_rwlock_rdwait l r)) []"
  for b svc sys that src
  by (unfold_locales, simp add: inline_mysql_rwlock_tryrdlock_def lock_wait_simps, rule bracket_wait_log, simp_all)

interpretation lw_rwlock_trywrlock: instrumented_call
  "inline_mysql_rwlock_trywrlock b svc sys that src"
  "native_rw_trywrlock b sys (m_rwlock that)"
  "\<lambda>log r. wait_log (have_psi b INSTR_RWLOCK \<and> rwlock_psi that \<noteq> None) svc log
     (PSI_RWLOCK_CALL (start_rwlock_wrwait (rwlock_psi that) PSI_RWLOCK_TRYWRITELOCK src)) [] (\<lambda>l. PSI_RWLOCK_CALL (end_rwlock_wrwait l r)) []"
  for b svc sys that src
  by (unfold_locales, simp add: inline_mysql_rwlock_trywrlock_def lock_wait_simps, rule bracket_wait_log, simp_all)

interpretation lw_cond_wait: instrumented_call
  "inline_mysql_cond_wait b svc sys that mutex src"
  "my_cond_wait b sys (m_cond that) (m_mutex mutex) src"
  "\<lambda>log r. wait_log (have_psi b INSTR_COND \<and> cond_psi that \<noteq> None) svc log
     (PSI_COND_CALL (start_cond_wait (cond_psi that) (mutex_psi mutex) PSI_COND_WAIT src)) [] (\<lambda>l. PSI_COND_CALL (end_cond_wait l r)) []"
  for b svc sys that mutex src
  by (unfold_locales, simp add: inline_mysql_cond_wait_def lock_wait_simps, rule bracket_wait_log, simp_all)

interpretation ln_mutex_unlock: instrumented_call
  "inline_mysql_mutex_unlock b sys that src"
  "my_mutex_unlock b sys (m_mutex that) src"
  "\<lambda>log r. if have_psi b INSTR_MUTEX \<and> mutex_psi that \<noteq> None
     then [(PSI_MUTEX_CALL (unlock_mutex (mutex_psi that)), None)] else []"
  for b sys that src
  by (unfold_locales, simp add: inline_mysql_mutex_unlock_def psi_simps, rule bracket_note, simp add: neutral_def)

interpretation ln_rwlock_unlock: instrumented_call
  "inline_mysql_rwlock_unlock b sys that"
  "native_rw_unlock b sys (m_rwlock that)"
  "\<lambda>log r. if have_psi b INSTR_RWLOCK \<and> rwlock_psi that \<noteq> None
     then [(PSI_RWLOCK_CALL (unlock_rwlock (rwlock_psi that)), None)] else []"
  for b sys that
  by (unfold_locales, simp add: inline_mysql_rwlock_unlock_def psi_simps, rule bracket_note, simp add: neutral_def)

interpretation ln_prlock_unlock: instrumented_call
  "inline_mysql_prlock_unlock b sys that"
  "sys_rw_pr_unlock sys (m_prlock that)"
  "\<lambda>log r. if have_psi b INSTR_RWLOCK \<and> prlock_psi that \<noteq> None
     then [(PSI_RWLOCK_CALL (unlock_rwlock (prlock_psi that)), None)] else []"
  for b sys that
  by (unfold_locales, simp add: inline_mysql_prlock_unlock_def psi_simps, rule bracket_note, simp add: neutral_def)

interpretation ln_cond_signal: instrumented_call
  "inline_mysql_cond_signal b sys that"
  "native_cond_signal b sys (m_cond that)"
  "\<lambda>log r. if have_psi b INSTR_COND \<and> cond_psi that \<noteq> None
     then [(PSI_COND_CALL (signal_cond (cond_psi that)), None)] else []"
  for b sys that
  by (unfold_locales, simp add: inline_mysql_cond_signal_def psi_simps, rule bracket_note, simp add: neutral_def)

interpretation ln_cond_broadcast: instrumented_call
  "inline_mysql_cond_broadcast b sys that"
  "native_cond_broadcast b sys (m_cond that)"
  "\<lambda>log r. if have_psi b INSTR_COND \<and> cond_psi that \<noteq> None
     then [(PSI_COND_CALL (broadcast_cond (cond_psi that)), None)] else []"
  for b sys that
  by (unfold_locales, simp add: inline_mysql_cond_broadcast_def psi_simps, rule bracket_note, simp add: neutral_def)

section \<open>Creation, destruction and timed waits\<close>

lemmas lock_changes =
  inline_mysql_mutex_init_def inline_mysql_mutex_destroy_def inline_mysql_rwlock_init_def
  inline_mysql_rwlock_destroy_def inline_mysql_prlock_init_def inline_mysql_prlock_destroy_def
  inline_mysql_cond_init_def inline_mysql_cond_destroy_def

lemmas lock_macros =
  mysql_mutex_init_def mysql_mutex_destroy_def mysql_mutex_lock_def mysql_mutex_trylock_def
  mysql_mutex_unlock_def mysql_rwlock_init_def mysql_prlock_init_def mysql_rwlock_destroy_def
  mysql_prlock_destroy_def mysql_rwlock_rdlock_def mysql_prlock_rdlock_def
  mysql_rwlock_wrlock_def mysql_prlock_wrlock_def mysql_rwlock_tryrdlock_def
  mysql_rwlock_trywrlock_def mysql_rwlock_unlock_def mysql_prlock_unlock_def mysql_cond_init_def
  mysql_cond_destroy_def mysql_cond_wait_def mysql_cond_timedwait_def mysql_cond_signal_def
  mysql_cond_broadcast_def

lemmas lock_runs =
  lw_mutex_lock.run lw_mutex_trylock.run lw_rwlock_rdlock.run lw_prlock_rdlock.run
  lw_rwlock_wrlock.run lw_prlock_wrlock.run lw_rwlock_tryrdlock.run lw_rwlock_trywrlock.run
  lw_cond_wait.run ln_mutex_unlock.run ln_rwlock_unlock.run ln_prlock_unlock.run
  ln_cond_signal.run ln_cond_broadcast.run

lemmas lock_waits_kept =
  lw_mutex_lock.waits_kept lw_mutex_trylock.waits_kept lw_rwlock_rdlock.waits_kept
  lw_prlock_rdlock.waits_kept lw_rwlock_wrlock.waits_kept lw_prlock_wrlock.waits_kept
  lw_rwlock_tryrdlock.waits_kept lw_rwlock_trywrlock.waits_kept lw_cond_wait.waits_kept
  ln_mutex_unlock.waits_kept ln_rwlock_unlock.waits_kept ln_prlock_unlock.waits_kept
  ln_cond_signal.waits_kept ln_cond_broadcast.waits_kept

lemma run_cond_timedwait:
  "run_state (inline_mysql_cond_timedwait b svc t sys that mutex abstime src) w =
   (let (r, s) = timed_wait b t sys (m_cond that) (m_mutex mutex) abstime src (os_state w);
        start = PSI_COND_CALL (start_cond_wait (cond_psi that) (mutex_psi mutex) PSI_COND_TIMEDWAIT src);
        l = svc (psi_log w) start
    in (r, w\<lparr>os_state := s,
             psi_log := psi_log w @
               (if have_psi b INSTR_COND \<and> cond_psi that \<noteq> None
                then (start, l) # (if l \<noteq> None \<and> r \<noteq> None
                                   then [(PSI_COND_CALL (end_cond_wait l (the r)), None)] else [])
                else [])\<rparr>))"
  by (auto simp: inline_mysql_cond_timedwait_def psi_simps Let_def split: prod.split option.split)

section \<open>Builds with and without instrumentation\<close>

lemma platform_without [simp]:
  "my_mutex_init (without_psi b) = my_mutex_init b"
  "my_mutex_lock (without_psi b) = my_mutex_lock b"
  "my_mutex_trylock (without_psi b) = my_mutex_trylock b"
  "my_mutex_unlock (without_psi b) = my_mutex_unlock b"
  "my_mutex_destroy (without_psi b) = my_mutex_destroy b"
  "native_rw_init (without_psi b) = native_rw_init b"
  "native_rw_destroy (without_psi b) = native_rw_destroy b"
  "native_rw_rdlock (without_psi b) = native_rw_rdlock b"
  "native_rw_tryrdlock (without_psi b) = native_rw_tryrdlock b"
  "native_rw_wrlock (without_psi b) = native_rw_wrlock b"
  "native_rw_trywrlock (without_psi b) = native_rw_trywrlock b"
  "native_rw_unlock (without_psi b) = native_rw_unlock b"
  "native_cond_init (without_psi b) = native_cond_init b"
  "native_cond_destroy (without_psi b) = native_cond_destroy b"
  "native_cond_signal (without_psi b) = native_cond_signal b"
  "native_cond_broadcast (without_psi b) = native_cond_broadcast b"
  "my_cond_wait (without_psi b) = my_cond_wait b"
  by (simp_all add: fun_eq_iff my_mutex_init_def native_mutex_init_def my_mutex_lock_def
      native_mutex_lock_def my_mutex_trylock_def native_mutex_trylock_def my_mutex_unlock_def
      native_mutex_unlock_def my_mutex_destroy_def native_mutex_destroy_def native_rw_init_def
      native_rw_destroy_def native_rw_rdlock_def native_rw_tryrdlock_def native_rw_wrlock_def
      native_rw_trywrlock_def native_rw_unlock_def native_cond_init_def native_cond_destroy_def
      native_cond_signal_def native_cond_broadcast_def my_cond_wait_def native_cond_wait_def)

lemma timed_wait_without [simp]: "timed_wait (without_psi b) = timed_wait b"
  by (simp add: fun_eq_iff timed_wait_def my_cond_timedwait_def native_cond_timedwait_def)

lemma same_timedwait:
  "same_system id (inline_mysql_cond_timedwait b svc t sys that mutex abstime src)
     (inline_mysql_cond_timedwait (without_psi b) svc' t sys that mutex abstime src)"
  by (simp add: same_system_def run_cond_timedwait Let_def split: prod.split)

lemma same_changes:
  "same_system fst (inline_mysql_mutex_init b svc msys k mu at src)
     (inline_mysql_mutex_init (without_psi b) svc' msys k mu at src)"
  "same_system fst (inline_mysql_mutex_destroy b msys mu src)
     (inline_mysql_mutex_destroy (without_psi b) msys mu src)"
  "same_system fst (inline_mysql_rwlock_init b svc rsys k rw)
     (inline_mysql_rwlock_init (without_psi b) svc' rsys k rw)"
  "same_system fst (inline_mysql_rwlock_destroy b rsys rw)
     (inline_mysql_rwlock_destroy (without_psi b) rsys rw)"
  "same_system fst (inline_mysql_prlock_init b svc psys k pr)
     (inline_mysql_prlock_init (without_psi b) svc' psys k pr)"
  "same_system fst (inline_mysql_prlock_destroy b psys pr)
     (inline_mysql_prlock_destroy (without_psi b) psys pr)"
  "same_system fst (inline_mysql_cond_init b svc csys k co)
     (inline_mysql_cond_init (without_psi b) svc' csys k co)"
  "same_system fst (inline_mysql_cond_destroy b csys co)
     (inline_mysql_cond_destroy (without_psi b) csys co)"
  by (simp_all add: same_system_def lock_changes psi_simps)

lemma keeps_waits_changes:
  "keeps_waits (inline_mysql_mutex_init b svc msys k mu at src)"
  "keeps_waits (inline_mysql_mutex_destroy b msys mu src)"
  "keeps_waits (inline_mysql_rwlock_init b svc rsys k rw)"
  "keeps_waits (inline_mysql_rwlock_destroy b rsys rw)"
  "keeps_waits (inline_mysql_prlock_init b svc psys k pr)"
  "keeps_waits (inline_mysql_prlock_destroy b psys pr)"
  "keeps_waits (inline_mysql_cond_init b svc csys k co)"
  "keeps_waits (inline_mysql_cond_destroy b csys co)"
  by (simp_all add: keeps_waits_def lock_changes psi_simps bracket_append bracket_step_def)

section \<open>Following the hook of a lock\<close>

lemma hook_run_append:
  "hook_run h (xs @ ys) = (case hook_run h xs of None \<Rightarrow> None | Some h1 \<Rightarrow> hook_run h1 ys)"
  by (induction xs arbitrary: h) (auto split: hook_use.split)

lemma hooked_return: "hooked (g x) (State_Monad.return x) g"
  by (simp add: hooked_def psi_simps)

lemma hooked_bind:
  assumes "hooked h m f" and "\<And>w. hooked (f (fst (run_state m w))) (k (fst (run_state m w))) g"
  shows "hooked h (State_Monad.bind m k) g"
  unfolding hooked_def
proof
  fix w
  obtain es where es: "psi_log (snd (run_state m w)) = psi_log w @ es"
      "hook_run h es = Some (f (fst (run_state m w)))"
    using assms(1) by (auto simp: hooked_def)
  let ?r = "fst (run_state m w)" and ?w = "snd (run_state m w)"
  obtain es' where es': "psi_log (snd (run_state (k ?r) ?w)) = psi_log ?w @ es'"
      "hook_run (f ?r) es' = Some (g (fst (run_state (k ?r) ?w)))"
    using assms(2) [of w] by (auto simp: hooked_def)
  show "\<exists>es. psi_log (snd (run_state (State_Monad.bind m k) w)) = psi_log w @ es
      \<and> hook_run h es = Some (g (fst (run_state (State_Monad.bind m k) w)))"
    by (rule exI [of _ "es @ es'"]) (simp add: run_bind case_prod_beta es es' hook_run_append)
qed

lemma follows_then:
  assumes "follows I f h m" and "\<And>t. I t \<Longrightarrow> hooked (f t) (n t) (\<lambda>x. g (snd x))"
  shows "hooked h (do { x \<leftarrow> m; y \<leftarrow> n (snd x); State_Monad.return (fst x # fst y, snd y) }) (\<lambda>x. g (snd x))"
proof (rule hooked_bind)
  show "hooked h m (\<lambda>x. f (snd x))" using assms(1) by (simp add: follows_def)
  fix w
  have "I (snd (fst (run_state m w)))" using assms(1) by (simp add: follows_def)
  then show "hooked (f (snd (fst (run_state m w)))) (do { y \<leftarrow> n (snd (fst (run_state m w)));
      State_Monad.return (fst (fst (run_state m w)) # fst y, snd y) }) (\<lambda>x. g (snd x))"
    by (rule hooked_bind [OF assms(2)]) (simp add: hooked_def psi_simps)
qed

lemma hooked_run_ops:
  assumes "\<And>op that. I that \<Longrightarrow> follows I f (f that) (exec op that)"
  shows "I that \<Longrightarrow> hooked (f that) (run_ops exec ops that) (\<lambda>x. f (snd x))"
proof (induction ops arbitrary: that)
  case Nil
  then show ?case by (simp add: hooked_def psi_simps)
next
  case (Cons op ops)
  show ?case unfolding run_ops.simps by (rule follows_then [OF assms [OF Cons.prems] Cons.IH])
qed

lemma hooked_history:
  assumes "follows I f h (exec op that)" and "\<And>op that. I that \<Longrightarrow> follows I f (f that) (exec op that)"
  shows "hooked h (run_ops exec (op # ops) that) (\<lambda>x. f (snd x))"
  unfolding run_ops.simps by (rule follows_then [OF assms(1) hooked_run_ops [OF assms(2)]])

lemmas hook_simps = lock_macros lock_runs wait_log_def lock_changes run_cond_timedwait
  keeping_def changing_def case_prod_beta hooked_def follows_def hook_ok_def no_hooks_def fun_upd_def fun_eq_iff Let_def psi_simps

lemma mutex_init_hooked:
  "follows (\<lambda>mu. hook_ok b INSTR_MUTEX (mutex_psi mu)) (\<lambda>mu. no_hooks(Mutex_hook := mutex_psi mu)) no_hooks
     (mutex_exec b svc msys src (Mutex_init key at) mu)"
  by (auto simp: hook_simps)

lemma mutex_exec_hooked:
  assumes "hook_ok b INSTR_MUTEX (mutex_psi mu)"
  shows "follows (\<lambda>mu. hook_ok b INSTR_MUTEX (mutex_psi mu)) (\<lambda>mu. no_hooks(Mutex_hook := mutex_psi mu))
     (no_hooks(Mutex_hook := mutex_psi mu)) (mutex_exec b svc msys src op mu)"
  using assms by (cases op) (auto simp: hook_simps)

lemma rwlock_init_hooked:
  "follows (\<lambda>rw. hook_ok b INSTR_RWLOCK (rwlock_psi rw)) (\<lambda>rw. no_hooks(Rwlock_hook := rwlock_psi rw)) no_hooks
     (rwlock_exec b svc rsys src (Rwlock_init key) rw)"
  by (auto simp: hook_simps)

lemma rwlock_exec_hooked:
  assumes "hook_ok b INSTR_RWLOCK (rwlock_psi rw)"
  shows "follows (\<lambda>rw. hook_ok b INSTR_RWLOCK (rwlock_psi rw)) (\<lambda>rw. no_hooks(Rwlock_hook := rwlock_psi rw))
     (no_hooks(Rwlock_hook := rwlock_psi rw)) (rwlock_exec b svc rsys src op rw)"
  using assms by (cases op) (auto simp: hook_simps)

lemma prlock_init_hooked:
  "follows (\<lambda>pr. hook_ok b INSTR_RWLOCK (prlock_psi pr)) (\<lambda>pr. no_hooks(Rwlock_hook := prlock_psi pr)) no_hooks
     (prlock_exec b svc psys src (Prlock_init key) pr)"
  by (auto simp: hook_simps)

lemma prlock_exec_hooked:
  assumes "hook_ok b INSTR_RWLOCK (prlock_psi pr)"
  shows "follows (\<lambda>pr. hook_ok b INSTR_RWLOCK (prlock_psi pr)) (\<lambda>pr. no_hooks(Rwlock_hook := prlock_psi pr))
     (no_hooks(Rwlock_hook := prlock_psi pr)) (prlock_exec b svc psys src op pr)"
  using assms by (cases op) (auto simp: hook_simps)

lemma mutex_hooked:
  "hooked no_hooks (run_ops (mutex_exec b svc msys src) (Mutex_init key at # ops) mu) (\<lambda>x. no_hooks(Mutex_hook := mutex_psi (snd x)))"
  by (rule hooked_history [where I = "\<lambda>mu. hook_ok b INSTR_MUTEX (mutex_psi mu)" and
        f = "\<lambda>mu. no_hooks(Mutex_hook := mutex_psi mu)"], rule mutex_init_hooked, erule mutex_exec_hooked)

lemma rwlock_hooked:
  "hooked no_hooks (run_ops (rwlock_exec b svc rsys src) (Rwlock_init key # ops) rw) (\<lambda>x. no_hooks(Rwlock_hook := rwlock_psi (snd x)))"
  by (rule hooked_history [where I = "\<lambda>rw. hook_ok b INSTR_RWLOCK (rwlock_psi rw)" and
        f = "\<lambda>rw. no_hooks(Rwlock_hook := rwlock_psi rw)"], rule rwlock_init_hooked, erule rwlock_exec_hooked)

lemma prlock_hooked:
  "hooked no_hooks (run_ops (prlock_exec b svc psys src) (Prlock_init key # ops) pr) (\<lambda>x. no_hooks(Rwlock_hook := prlock_psi (snd x)))"
  by (rule hooked_history [where I = "\<lambda>pr. hook_ok b INSTR_RWLOCK (prlock_psi pr)" and
        f = "\<lambda>pr. no_hooks(Rwlock_hook := prlock_psi pr)"], rule prlock_init_hooked, erule prlock_exec_hooked)

text \<open>A condition with its mutex: first the mutex is initialised, then the condition.\<close>

lemma monitor_exec_hooked:
  assumes "monitor_ok b that"
  shows "follows (monitor_ok b) monitor_hooks (monitor_hooks that) (monitor_exec b svc t msys csys src op that)"
proof (cases op)
  case (On_mutex mop)
  with assms show ?thesis by (cases mop) (auto simp: monitor_hooks_def monitor_ok_def hook_simps)
next
  case (On_cond cop)
  with assms show ?thesis by (cases cop) (auto simp: monitor_hooks_def monitor_ok_def hook_simps)
qed

lemma monitor_init_hooked:
  "follows (\<lambda>that. hook_ok b INSTR_MUTEX (mutex_psi (snd that))) (\<lambda>that. no_hooks(Mutex_hook := mutex_psi (snd that)))
     no_hooks (monitor_exec b svc t msys csys src (On_mutex (Mutex_init key at)) that)"
  by (auto simp: hook_simps)

lemma monitor_init_cond_hooked:
  assumes "hook_ok b INSTR_MUTEX (mutex_psi (snd that))"
  shows "follows (monitor_ok b) monitor_hooks (no_hooks(Mutex_hook := mutex_psi (snd that)))
     (monitor_exec b svc t msys csys src (On_cond (Cond_init key)) that)"
  using assms by (auto simp: monitor_hooks_def monitor_ok_def hook_simps)

lemma monitor_hooked:
  "hooked no_hooks (run_ops (monitor_exec b svc t msys csys src)
     (On_mutex (Mutex_init key at) # On_cond (Cond_init key') # ops) that) (\<lambda>x. monitor_hooks (snd x))"
  unfolding run_ops.simps(2) [of _ "On_mutex (Mutex_init key at)"]
  by (rule follows_then [OF monitor_init_hooked])
    (rule hooked_history [where I = "monitor_ok b"], erule monitor_init_cond_hooked, erule monitor_exec_hooked)

section \<open>Properties\<close>

text \<open>C25. A build with mutex, reader-writer lock and condition instrumentation and the same build
  without it treat the system alike. From states of the system that agree, whatever the service
  answers and whatever it was told before, each lock, condition and timed wait call returns the same
  value (creation and destruction: the same status) and leaves the system in the same state.\<close>

theorem lock_builds_agree:
  fixes b :: build and svc svc' :: psi_service
    and msys :: "'m mutex_sys" and rsys :: "'r rwlock_sys" and psys :: "'p rwlock_sys" and csys :: "'c cond_sys"
  defines "b' \<equiv> without_psi b"
  shows
    "same_system fst (mysql_mutex_init b svc msys k mu at src) (mysql_mutex_init b' svc' msys k mu at src)
   \<and> same_system fst (mysql_mutex_destroy b msys mu src) (mysql_mutex_destroy b' msys mu src)
   \<and> same_system id (mysql_mutex_lock b svc msys mu src) (mysql_mutex_lock b' svc' msys mu src)
   \<and> same_system id (mysql_mutex_trylock b svc msys mu src) (mysql_mutex_trylock b' svc' msys mu src)
   \<and> same_system id (mysql_mutex_unlock b msys mu src) (mysql_mutex_unlock b' msys mu src)
   \<and> same_system fst (mysql_rwlock_init b svc rsys k rw) (mysql_rwlock_init b' svc' rsys k rw)
   \<and> same_system fst (mysql_prlock_init b svc psys k pr) (mysql_prlock_init b' svc' psys k pr)
   \<and> same_system fst (mysql_rwlock_destroy b rsys rw) (mysql_rwlock_destroy b' rsys rw)
   \<and> same_system fst (mysql_prlock_destroy b psys pr) (mysql_prlock_destroy b' psys pr)
   \<and> same_system id (mysql_rwlock_rdlock b svc rsys rw src) (mysql_rwlock_rdlock b' svc' rsys rw src)
   \<and> same_system id (mysql_prlock_rdlock b svc psys pr src) (mysql_prlock_rdlock b' svc' psys pr src)
   \<and> same_system id (mysql_rwlock_wrlock b svc rsys rw src) (mysql_rwlock_wrlock b' svc' rsys rw src)
   \<and> same_system id (mysql_prlock_wrlock b svc psys pr src) (mysql_prlock_wrlock b' svc' psys pr src)
   \<and> same_system id (mysql_rwlock_tryrdlock b svc rsys rw src) (mysql_rwlock_tryrdlock b' svc' rsys rw src)
   \<and> same_system id (mysql_rwlock_trywrlock b svc rsys rw src) (mysql_rwlock_trywrlock b' svc' rsys rw src)
   \<and> same_system id (mysql_rwlock_unlock b rsys rw) (mysql_rwlock_unlock b' rsys rw)
   \<and> same_system id (mysql_prlock_unlock b psys pr) (mysql_prlock_unlock b' psys pr)
   \<and> same_system fst (mysql_cond_init b svc csys k co) (mysql_cond_init b' svc' csys k co)
   \<and> same_system fst (mysql_cond_destroy b csys co) (mysql_cond_destroy b' csys co)
   \<and> same_system id (mysql_cond_wait b svc csys co mu src) (mysql_cond_wait b' svc' csys co mu src)
   \<and> same_system id (mysql_cond_timedwait b svc tb csys co mu ab src) (mysql_cond_timedwait b' svc' tb csys co mu ab src)
   \<and> same_system id (mysql_cond_signal b csys co) (mysql_cond_signal b' csys co)
   \<and> same_system id (mysql_cond_broadcast b csys co) (mysql_cond_broadcast b' csys co)"
  unfolding b'_def lock_macros
  by (intro conjI same_changes same_timedwait; simp add: same_system_def lock_runs)

text \<open>Every wait on a lock or condition that is reported as started is reported as ended by the
  call that started it: no lock call leaves a wait open or ends one it did not start, in any build
  and whatever the service answers. A timed wait does so unless it reads its deadline through a
  \<open>NULL\<close> pointer, where it does not return.\<close>

theorem lock_waits_nest:
  "keeps_waits (mysql_mutex_init b svc msys k mu at src)
   \<and> keeps_waits (mysql_mutex_destroy b msys mu src)
   \<and> keeps_waits (mysql_mutex_lock b svc msys mu src)
   \<and> keeps_waits (mysql_mutex_trylock b svc msys mu src)
   \<and> keeps_waits (mysql_mutex_unlock b msys mu src)
   \<and> keeps_waits (mysql_rwlock_init b svc rsys k rw)
   \<and> keeps_waits (mysql_prlock_init b svc psys k pr)
   \<and> keeps_waits (mysql_rwlock_destroy b rsys rw)
   \<and> keeps_waits (mysql_prlock_destroy b psys pr)
   \<and> keeps_waits (mysql_rwlock_rdlock b svc rsys rw src)
   \<and> keeps_waits (mysql_prlock_rdlock b svc psys pr src)
   \<and> keeps_waits (mysql_rwlock_wrlock b svc rsys rw src)
   \<and> keeps_waits (mysql_prlock_wrlock b svc psys pr src)
   \<and> keeps_waits (mysql_rwlock_tryrdlock b svc rsys rw src)
   \<and> keeps_waits (mysql_rwlock_trywrlock b svc rsys rw src)
   \<and> keeps_waits (mysql_rwlock_unlock b rsys rw)
   \<and> keeps_waits (mysql_prlock_unlock b psys pr)
   \<and> keeps_waits (mysql_cond_init b svc csys k co)
   \<and> keeps_waits (mysql_cond_destroy b csys co)
   \<and> keeps_waits (mysql_cond_wait b svc csys co mu src)
   \<and> keeps_waits (mysql_cond_signal b csys co)
   \<and> keeps_waits (mysql_cond_broadcast b csys co)
   \<and> (fst (run_state (mysql_cond_timedwait b svc tb csys co mu ab src) w) \<noteq> None \<longrightarrow>
      bracket [] (psi_log w) = Some st \<longrightarrow>
      bracket [] (psi_log (snd (run_state (mysql_cond_timedwait b svc tb csys co mu ab src) w))) = Some st)"
  unfolding lock_macros
  by (intro conjI lock_waits_kept keeps_waits_changes)
    (auto simp: run_cond_timedwait Let_def bracket_append bracket_step_def split: prod.split option.split)

theorem lock_waits_nest_witness:
  "bracket [] (psi_log (snd (run_state (mysql_cond_timedwait full_build counting_service posix_time
      (clock_sys 0 0) \<lparr>m_cond = 0, cond_psi = Some 7\<rparr> \<lparr>m_mutex = 1, mutex_psi = Some 8\<rparr> None (''f.c'', 1))
      (start_world ())))) = Some []"
proof -
  have "fst (run_state (mysql_cond_timedwait full_build counting_service posix_time (clock_sys 0 0)
      \<lparr>m_cond = 0, cond_psi = Some 7\<rparr> \<lparr>m_mutex = 1, mutex_psi = Some 8\<rparr> None (''f.c'', 1))
      (start_world ())) \<noteq> None"
    by (simp add: mysql_cond_timedwait_def run_cond_timedwait Let_def timed_wait_def my_cond_timedwait_def
        native_cond_timedwait_def clock_sys_def full_build_def start_world_def)
  moreover have "bracket [] (psi_log (start_world ())) = Some []"
    by (simp add: start_world_def)
  ultimately show ?thesis
    using lock_waits_nest [where b = full_build and svc = counting_service and tb = posix_time
        and csys = "clock_sys 0 0" and co = "\<lparr>m_cond = 0, cond_psi = Some 7\<rparr>"
        and mu = "\<lparr>m_mutex = 1, mutex_psi = Some 8\<rparr>" and ab = None and src = "(''f.c'', 1)"
        and w = "start_world ()" and st = "[]"]
    by blast
qed

text \<open>C22. The service is only told of lock objects it knows. From the initialisation of a mutex, a reader-writer
  lock, a priority lock, or a condition and the mutex its waiters hold, in memory of any content, through any
  sequence of further operations, initialisations and destructions among them, in any order, every call
  that names a hook names the one the service returned when the object was last initialised,
  never one that was destroyed and never \<open>NULL\<close>; and the object holds that hook at the end. There is one
  exception: the mutex of a condition wait is passed on as it is, so that it is \<open>NULL\<close> when the mutex has no
  hook.\<close>

theorem lock_hooks_alive:
  "hooked no_hooks (run_ops (mutex_exec b svc msys src) (Mutex_init key at # mops) mu)
     (\<lambda>x. no_hooks(Mutex_hook := mutex_psi (snd x)))
   \<and> hooked no_hooks (run_ops (rwlock_exec b svc rsys src) (Rwlock_init key # rops) rw)
     (\<lambda>x. no_hooks(Rwlock_hook := rwlock_psi (snd x)))
   \<and> hooked no_hooks (run_ops (prlock_exec b svc psys src) (Prlock_init key # pops) pr)
     (\<lambda>x. no_hooks(Rwlock_hook := prlock_psi (snd x)))
   \<and> hooked no_hooks (run_ops (monitor_exec b svc tb msys' csys src)
       (On_mutex (Mutex_init key at) # On_cond (Cond_init key') # cops) (co, mu)) (\<lambda>x. monitor_hooks (snd x))"
  by (intro conjI mutex_hooked rwlock_hooked prlock_hooked monitor_hooked)

text \<open>That exception occurs: a service that knows conditions and no mutexes is told of a wait with a mutex that is \<open>NULL\<close>.\<close>

theorem wait_names_null_mutex:
  assumes "have_psi b INSTR_COND" and "cond_psi co \<noteq> None" and "mutex_psi mu = None"
  shows "PSI_COND_CALL (start_cond_wait (cond_psi co) None PSI_COND_WAIT src) \<in>
    fst ` set (psi_log (snd (run_state (mysql_cond_wait b svc csys co mu src) w)))"
  using assms by (auto simp: mysql_cond_wait_def lock_runs wait_log_def Let_def psi_simps split: prod.split)

theorem wait_names_null_mutex_witness:
  "PSI_COND_CALL (start_cond_wait (cond_psi \<lparr>m_cond = 0, cond_psi = Some 7\<rparr>) None PSI_COND_WAIT (''f.c'', 1)) \<in>
    fst ` set (psi_log (snd (run_state (mysql_cond_wait full_build counting_service (clock_sys 0 0)
      \<lparr>m_cond = 0, cond_psi = Some 7\<rparr> \<lparr>m_mutex = 1, mutex_psi = None\<rparr> (''f.c'', 1)) (start_world ()))))"
  by (rule wait_names_null_mutex) simp_all

end
