(* ===== verification/Mysql_String.thy ===== *)
theory Mysql_String
  imports Byte_Order
begin

text \<open>
  The string routines of \<open>m_string.h\<close> on the byte memory of \<open>Byte_Order\<close>: the two implementations of
  \<open>skip_trailing_space\<close> and the setters of the pairs of a string and its length. An access
  outside every object and a misaligned access to an integer are undefined, the value \<open>None\<close>.
\<close>

section \<open>Skipping trailing spaces\<close>

text \<open>The loop both implementations end with: \<open>while (end > ptr && end[-1] == 0x20) end--\<close>.\<close>

fun skip_bytes :: "nat \<Rightarrow> nat \<Rightarrow> memory \<Rightarrow> nat option" where
  "skip_bytes ptr 0 m = Some 0"
| "skip_bytes ptr (Suc e) m =
     (if Suc e > ptr
      then (case m e of
              None \<Rightarrow> None
            | Some b \<Rightarrow> if b = 0x20 then skip_bytes ptr e m else Some (Suc e))
      else Some (Suc e))"

text \<open>Eight bytes at a time, ignoring alignment.\<close>

function skip_words :: "machine \<Rightarrow> nat \<Rightarrow> nat \<Rightarrow> memory \<Rightarrow> nat option" where
  "skip_words c ptr e m =
     (if e - ptr \<ge> 8
      then (case uint8korr c (e - 8) m of
              None \<Rightarrow> None
            | Some v \<Rightarrow> if v \<noteq> 0x2020202020202020 then Some e else skip_words c ptr (e - 8) m)
      else Some e)"
  by pat_completeness auto
termination by (relation "measure (\<lambda>(c, ptr, e, m). e)") auto

definition skip_trailing_space :: "machine \<Rightarrow> nat \<Rightarrow> nat \<Rightarrow> memory \<Rightarrow> nat option" where
  "skip_trailing_space c ptr len m = do {
     e \<leftarrow> skip_words c ptr (ptr + len) m;
     skip_bytes ptr e m }"

text \<open>
  The implementation for SPARC: a run of bytes, a run of aligned integers of \<open>n\<close> bytes
  (\<open>SIZEOF_INT\<close>, 4 or 8), a run of bytes. \<open>skip_until\<close> is the first loop, \<open>skip_ints\<close> the second.
\<close>

fun skip_until :: "nat \<Rightarrow> nat \<Rightarrow> memory \<Rightarrow> nat option" where
  "skip_until stop 0 m = Some 0"
| "skip_until stop (Suc e) m =
     (if Suc e > stop
      then (case m e of
              None \<Rightarrow> None
            | Some b \<Rightarrow> if b = 0x20 then skip_until stop e m else Some (Suc e))
      else Some (Suc e))"

definition space_int :: "nat \<Rightarrow> int" where
  "space_int n = (if n = 4 then 0x20202020 else 0x2020202020202020)"

definition load_unsigned :: "machine \<Rightarrow> nat \<Rightarrow> nat \<Rightarrow> memory \<Rightarrow> int option" where
  "load_unsigned c n p m =
     (if p mod n \<noteq> 0 then None else map_option (obj_val c) (load_bytes n p m))"

function skip_ints :: "machine \<Rightarrow> nat \<Rightarrow> nat \<Rightarrow> nat \<Rightarrow> memory \<Rightarrow> nat option" where
  "skip_ints c n start e m =
     (if e > start \<and> 0 < n
      then (case load_unsigned c n (e - n) m of
              None \<Rightarrow> None
            | Some v \<Rightarrow> if v = space_int n then skip_ints c n start (e - n) m else Some e)
      else Some e)"
  by pat_completeness auto
termination by (relation "measure (\<lambda>(c, n, start, e, m). e)") auto

definition skip_trailing_space_sparc ::
  "machine \<Rightarrow> nat \<Rightarrow> nat \<Rightarrow> nat \<Rightarrow> memory \<Rightarrow> nat option" where
  "skip_trailing_space_sparc c n ptr len m =
     (let e = ptr + len in do {
        e1 \<leftarrow> (if len > 20 then
                 (let end_words = e div n * n;
                      start_words = (ptr + n - 1) div n * n
                  in if \<not> end_words > ptr then None
                     else do {
                       e' \<leftarrow> skip_until end_words e m;
                       b \<leftarrow> m (e' - 1);
                       if b = 0x20 \<and> start_words < end_words
                       then skip_ints c n start_words e' m
                       else Some e' })
               else Some e);
        skip_bytes ptr e1 m })"

section \<open>Strings with their length\<close>

record LEX_STRING =
  lex_str :: nat
  lex_length :: "64 word"

partial_function (option) strlen_at :: "nat \<Rightarrow> memory \<Rightarrow> nat option" where
  "strlen_at p m =
     (case m p of
        None \<Rightarrow> None
      | Some b \<Rightarrow> if b = 0 then Some 0 else Option.bind (strlen_at (Suc p) m) (\<lambda>n. Some (Suc n)))"

definition lex_string_set :: "LEX_STRING \<Rightarrow> nat \<Rightarrow> memory \<Rightarrow> LEX_STRING option" where
  "lex_string_set s c_str m =
     map_option (\<lambda>n. s\<lparr>lex_str := c_str, lex_length := of_nat n\<rparr>) (strlen_at c_str m)"

definition lex_cstring_set :: "LEX_STRING \<Rightarrow> nat \<Rightarrow> memory \<Rightarrow> LEX_STRING option" where
  "lex_cstring_set s c_str m =
     map_option (\<lambda>n. s\<lparr>lex_str := c_str, lex_length := of_nat n\<rparr>) (strlen_at c_str m)"

text \<open>What skipping is to compute: the bytes without the spaces at their end.\<close>

definition rtrim :: "uchar list \<Rightarrow> uchar list" where
  "rtrim bs = rev (dropWhile (\<lambda>b. b = 0x20) (rev bs))"

definition spaces_between :: "nat \<Rightarrow> nat \<Rightarrow> memory \<Rightarrow> bool" where
  "spaces_between a e m \<longleftrightarrow> list_all (\<lambda>q. m q = Some 0x20) [a..<e]"

declare skip_words.simps [simp del] skip_ints.simps [simp del]

section \<open>The byte loops\<close>

lemma skip_until_is_bytes: "skip_until stop e m = skip_bytes stop e m"
  by (induction stop e m rule: skip_until.induct) (auto split: option.split)

lemma spaces_between_iff: "spaces_between a e m \<longleftrightarrow> (\<forall>q. a \<le> q \<and> q < e \<longrightarrow> m q = Some 0x20)"
  by (auto simp: spaces_between_def list_all_iff)

lemma skip_bytes_over:
  "ptr \<le> a \<Longrightarrow> a \<le> e \<Longrightarrow> spaces_between a e m \<Longrightarrow> skip_bytes ptr e m = skip_bytes ptr a m"
proof (induction e)
  case (Suc e)
  show ?case
  proof (cases "a = Suc e")
    case False
    with Suc show ?thesis by (auto simp: spaces_between_iff)
  qed simp
qed simp

lemma skip_bytes_result:
  assumes "{ptr..<e} \<subseteq> dom m" and "ptr \<le> e"
  shows "\<exists>a. skip_bytes ptr e m = Some a \<and> ptr \<le> a \<and> a \<le> e \<and> spaces_between a e m
    \<and> (a = ptr \<or> m (a - 1) \<noteq> Some 0x20)"
  using assms
proof (induction e)
  case (Suc e)
  consider "ptr = Suc e" | b where "ptr \<le> e" "m e = Some b" "b \<noteq> 0x20"
    | "ptr \<le> e" "m e = Some 0x20"
    using Suc.prems by (cases "m e") (auto simp: subset_iff le_Suc_eq)
  then show ?case
  proof cases
    case 3
    moreover have "{ptr..<e} \<subseteq> dom m" using Suc.prems(1) by (auto simp: subset_iff)
    ultimately show ?thesis
      using Suc.IH by (auto simp: spaces_between_iff less_Suc_eq)
  qed (use Suc.prems in \<open>auto simp: spaces_between_iff\<close>)
qed (auto simp: spaces_between_iff)

lemma skip_bytes_rtrim:
  "load_bytes n ptr m = Some bs \<Longrightarrow> skip_bytes ptr (ptr + n) m = Some (ptr + length (rtrim bs))"
proof (induction n arbitrary: bs)
  case 0
  then show ?case by (cases ptr) (auto simp: rtrim_def)
next
  case (Suc n)
  then have d: "{ptr..<ptr + Suc n} \<subseteq> dom m" and bs: "bs = map (\<lambda>q. the (m q)) [ptr..<ptr + Suc n]"
    by (auto simp: load_bytes_iff simp del: load_bytes.simps upt_Suc split: if_splits)
  let ?cs = "map (\<lambda>q. the (m q)) [ptr..<ptr + n]"
  obtain b where b: "m (ptr + n) = Some b" using subsetD [OF d, of "ptr + n"] by auto
  have "load_bytes n ptr m = Some ?cs" using d by (simp add: load_bytes_iff atLeastLessThanSuc)
  then have IH: "skip_bytes ptr (ptr + n) m = Some (ptr + length (rtrim ?cs))" by (rule Suc.IH)
  have "bs = ?cs @ [b]" using bs b by simp
  then show ?case using IH b by (auto simp: rtrim_def)
qed

section \<open>The loops over words\<close>

lemma le_val_replicate: "le_val (replicate 4 0x20) = space_int 4" "le_val (replicate 8 0x20) = space_int 8"
  by code_simp+

lemma le_val_spaces:
  assumes "length bs = n" "n = 4 \<or> n = 8" "le_val bs = space_int n"
  shows "bs = replicate n 0x20"
proof -
  have "le_val bs = le_val (replicate n 0x20)" using assms(2,3) le_val_replicate by auto
  then show ?thesis
    using le_bytes_le_val [of bs] le_bytes_le_val [of "replicate n 0x20"] assms(1) by simp
qed

lemma load_spaces:
  assumes "load_bytes n a m = Some (replicate n 0x20)"
  shows "spaces_between a (a + n) m"
proof -
  have *: "{a..<a + n} \<subseteq> dom m" "map (\<lambda>q. the (m q)) [a..<a + n] = replicate n 0x20"
    using assms by (auto simp: load_bytes_iff split: if_splits)
  have "m q = Some 0x20" if q: "a \<le> q" "q < a + n" for q
  proof -
    have "the (m q) \<in> set (replicate n 0x20)"
      unfolding *(2) [symmetric] using q by (simp add: image_iff) (metis atLeastLessThan_iff)
    moreover obtain b where "m q = Some b" using domD [OF subsetD [OF *(1)], of q] q by auto
    ultimately show ?thesis by (simp split: if_splits)
  qed
  then show ?thesis by (simp add: spaces_between_iff)
qed

lemma uint8korr_spaces:
  assumes "uint8korr c a m = Some 0x2020202020202020"
  shows "spaces_between a (a + 8) m"
proof -
  obtain bs where bs: "load_bytes 8 a m = Some bs" "word_of_int (le_val bs) = (0x2020202020202020 :: 64 word)"
    using assms by (auto simp: f8.fetch_dec)
  have n: "length bs = 8" using bs(1) by (auto simp: load_bytes_iff split: if_splits)
  have "le_val bs mod 2 ^ 64 = 0x2020202020202020"
    using arg_cong [OF bs(2), of uint] by (simp add: unsigned_of_int take_bit_eq_mod)
  moreover have "le_val bs < 2 ^ 64" using le_val_less [of bs] n by simp
  ultimately have "le_val bs = space_int 8" by (simp add: space_int_def)
  with le_val_spaces [OF n] bs(1) show ?thesis by (auto intro: load_spaces)
qed

lemma load_unsigned_spaces:
  assumes "load_unsigned c n a m = Some (space_int n)" and "n = 4 \<or> n = 8"
  shows "spaces_between a (a + n) m"
proof -
  obtain bs where bs: "load_bytes n a m = Some bs" "obj_val c bs = space_int n"
    using assms(1) by (auto simp: load_unsigned_def split: if_splits)
  have "length bs = n" using bs(1) by (auto simp: load_bytes_iff split: if_splits)
  then have "rev bs = replicate n 0x20 \<or> bs = replicate n 0x20"
    using le_val_spaces [of "rev bs" n] le_val_spaces [of bs n] bs(2) assms(2)
    by (auto simp: obj_val_def split: if_splits)
  then have "bs = replicate n 0x20" by (metis rev_replicate rev_rev_ident)
  with bs(1) show ?thesis by (simp add: load_spaces)
qed

lemma spaces_between_trans:
  "spaces_between a b m \<Longrightarrow> spaces_between b e m \<Longrightarrow> spaces_between a e m"
  unfolding spaces_between_iff by (meson not_le)

lemma skip_words_result:
  assumes "{ptr..<e} \<subseteq> dom m" and "ptr \<le> e"
  shows "\<exists>a. skip_words c ptr e m = Some a \<and> ptr \<le> a \<and> a \<le> e \<and> spaces_between a e m"
  using assms
proof (induction e rule: less_induct)
  case (less e)
  show ?case
  proof (cases "e - ptr \<ge> 8")
    case True
    have "{e - 8..<e - 8 + 8} \<subseteq> dom m"
      by (rule subset_trans [OF _ less.prems(1)]) (use True in auto)
    then obtain v where v: "uint8korr c (e - 8) m = Some v"
      using f8.fetch_defined_iff [of c "e - 8" m] by auto
    show ?thesis
    proof (cases "v = 0x2020202020202020")
      case True
      have "spaces_between (e - 8) e m"
        using uint8korr_spaces [of c "e - 8" m] v True \<open>e - ptr \<ge> 8\<close> by simp
      moreover have "{ptr..<e - 8} \<subseteq> dom m" using less.prems by (auto simp: subset_iff)
      moreover have "skip_words c ptr e m = skip_words c ptr (e - 8) m"
        using v True \<open>e - ptr \<ge> 8\<close> by (subst skip_words.simps) simp
      moreover have "ptr \<le> e - 8" "e - 8 < e" using \<open>e - ptr \<ge> 8\<close> by auto
      ultimately obtain a where "skip_words c ptr e m = Some a" "ptr \<le> a" "a \<le> e - 8"
          "spaces_between a (e - 8) m"
        using less.IH by metis
      with \<open>spaces_between (e - 8) e m\<close> show ?thesis by (auto intro: spaces_between_trans)
    qed (subst skip_words.simps, use v less.prems in \<open>auto simp: spaces_between_iff\<close>)
  qed (subst skip_words.simps, use less.prems in \<open>auto simp: spaces_between_iff\<close>)
qed

lemma skip_ints_result:
  assumes "{start..<e} \<subseteq> dom m" and "start \<le> e" and "n = 4 \<or> n = 8"
    and "start mod n = 0" and "e mod n = 0"
  shows "\<exists>a. skip_ints c n start e m = Some a \<and> start \<le> a \<and> a \<le> e \<and> spaces_between a e m"
  using assms
proof (induction e rule: less_induct)
  case (less e)
  show ?case
  proof (cases "e > start")
    case True
    have "n dvd e - start" using less.prems by (simp add: dvd_eq_mod_eq_0 [symmetric])
    then have step: "start + n \<le> e" using True by (auto dest: dvd_imp_le)
    have n: "0 < n" using less.prems(3) by auto
    have al: "(e - n) mod n = 0" using less.prems(5) by (simp add: dvd_eq_mod_eq_0 [symmetric])
    have "{e - n..<e - n + n} \<subseteq> dom m"
      by (rule subset_trans [OF _ less.prems(1)]) (use step in auto)
    then obtain v where v: "load_unsigned c n (e - n) m = Some v"
      using al by (auto simp: load_unsigned_def load_bytes_iff)
    show ?thesis
    proof (cases "v = space_int n")
      case True
      have "spaces_between (e - n) e m"
        using load_unsigned_spaces [of c n "e - n" m] v True less.prems(3) step by simp
      moreover have "{start..<e - n} \<subseteq> dom m" using less.prems(1) by (auto simp: subset_iff)
      moreover have "skip_ints c n start e m = skip_ints c n start (e - n) m"
        using v True n \<open>e > start\<close> by (subst skip_ints.simps) simp
      moreover have "start \<le> e - n" "e - n < e" using step n by auto
      ultimately obtain a where "skip_ints c n start e m = Some a" "start \<le> a" "a \<le> e - n"
          "spaces_between a (e - n) m"
        using less.IH [of "e - n"] al less.prems(3,4) by metis
      with \<open>spaces_between (e - n) e m\<close> show ?thesis by (auto intro: spaces_between_trans)
    qed (subst skip_ints.simps, use v less.prems in \<open>auto simp: spaces_between_iff\<close>)
  qed (subst skip_ints.simps, use less.prems in \<open>auto simp: spaces_between_iff\<close>)
qed

section \<open>The whole routines\<close>

lemma load_dom: "load_bytes n p m = Some bs \<Longrightarrow> {p..<p + n} \<subseteq> dom m"
  by (simp add: load_bytes_iff split: if_splits)

lemma load_block: "load_bytes (length bs) p (block p bs) = Some bs"
  using map_the_block [of Map.empty p bs] by (simp add: load_bytes_iff dom_block)

lemma skip_trailing_space_bytes:
  assumes "{ptr..<ptr + len} \<subseteq> dom m"
  shows "skip_trailing_space c ptr len m = skip_bytes ptr (ptr + len) m"
proof -
  obtain a where "skip_words c ptr (ptr + len) m = Some a" "ptr \<le> a" "a \<le> ptr + len"
      "spaces_between a (ptr + len) m"
    using skip_words_result [OF assms] by auto
  then show ?thesis by (simp add: skip_trailing_space_def skip_bytes_over [of ptr a])
qed

lemma word_bounds:
  fixes n :: nat
  assumes "0 < n"
  shows "x div n * n \<le> x" "x < x div n * n + n" "x \<le> (x + n - 1) div n * n"
proof -
  have *: "y = y div n * n + y mod n" "y mod n < n" for y using assms by simp_all
  show "x div n * n \<le> x" using *(1) [of x] by linarith
  show "x < x div n * n + n" using * [of x] by linarith
  show "x \<le> (x + n - 1) div n * n" using * [of "x + n - 1"] assms by linarith
qed

lemma sparc_long_prefix:
  assumes d: "{ptr..<e} \<subseteq> dom m" and n: "n = 4 \<or> n = 8" and w: "ptr < e div n * n"
  shows "\<exists>a. do { e' \<leftarrow> skip_until (e div n * n) e m;
                b \<leftarrow> m (e' - 1);
                if b = 0x20 \<and> (ptr + n - 1) div n * n < e div n * n
                then skip_ints c n ((ptr + n - 1) div n * n) e' m else Some e' } = Some a
    \<and> ptr \<le> a \<and> a \<le> e \<and> spaces_between a e m"
proof -
  let ?w = "e div n * n" and ?s = "(ptr + n - 1) div n * n"
  have n0: "0 < n" using n by auto
  note b = word_bounds [OF n0]
  have "{?w..<e} \<subseteq> dom m" by (rule subset_trans [OF _ d]) (use w in auto)
  then obtain e' where e': "skip_until ?w e m = Some e'" "?w \<le> e'" "e' \<le> e" "spaces_between e' e m"
      "e' = ?w \<or> m (e' - 1) \<noteq> Some 0x20"
    using skip_bytes_result [of ?w e m] b(1) [of e] by (auto simp: skip_until_is_bytes)
  have "e' - 1 \<in> {ptr..<e}" using w e'(2,3) by auto
  then obtain v where v: "m (e' - 1) = Some v" using d by blast
  show ?thesis
  proof (cases "v = 0x20 \<and> ?s < ?w")
    case True
    then have "e' = ?w" using e'(5) v by auto
    moreover have "{?s..<?w} \<subseteq> dom m"
      by (rule subset_trans [OF _ d]) (use b(1) [of e] b(3) [of ptr] in auto)
    ultimately obtain a where "skip_ints c n ?s e' m = Some a" "?s \<le> a" "a \<le> e'" "spaces_between a e' m"
      using skip_ints_result [of ?s ?w m n c] True n by auto
    moreover from this have "ptr \<le> a" "a \<le> e" using b(3) [of ptr] e'(3) by linarith+
    ultimately show ?thesis using True e' v by (auto intro: spaces_between_trans order_trans)
  qed (use e' v w in auto)
qed

lemma skip_trailing_space_sparc_bytes:
  assumes d: "{ptr..<ptr + len} \<subseteq> dom m" and n: "n = 4 \<or> n = 8"
  shows "skip_trailing_space_sparc c n ptr len m = skip_bytes ptr (ptr + len) m"
proof (cases "len > 20")
  case True
  have w: "ptr < (ptr + len) div n * n"
    using word_bounds(2) [of n "ptr + len"] n True by auto
  let ?prefix = "do { e' \<leftarrow> skip_until ((ptr + len) div n * n) (ptr + len) m;
                b \<leftarrow> m (e' - 1);
                if b = 0x20 \<and> (ptr + n - 1) div n * n < (ptr + len) div n * n
                then skip_ints c n ((ptr + n - 1) div n * n) e' m else Some e' }"
  obtain a where "?prefix = Some a" "ptr \<le> a" "a \<le> ptr + len" "spaces_between a (ptr + len) m"
    using sparc_long_prefix [OF d n w] by blast
  moreover have "skip_trailing_space_sparc c n ptr len m = Option.bind ?prefix (\<lambda>e. skip_bytes ptr e m)"
    unfolding skip_trailing_space_sparc_def Let_def
    using True w by (simp only: simp_thms if_True if_False)
  ultimately show ?thesis by (simp only: bind.bind_lunit skip_bytes_over [of ptr a])
qed (simp add: skip_trailing_space_sparc_def)

lemma strlen_at_terminated:
  "load_bytes n p m = Some bs \<Longrightarrow> 0 \<notin> set bs \<Longrightarrow> m (p + n) = Some 0 \<Longrightarrow> strlen_at p m = Some n"
proof (induction n arbitrary: p bs)
  case 0
  then show ?case by (subst strlen_at.simps) simp
next
  case (Suc n)
  then obtain b bs' where "m p = Some b" "load_bytes n (Suc p) m = Some bs'" "bs = b # bs'"
    by (auto simp: bind_eq_Some_conv)
  then show ?case using Suc.IH [of "Suc p" bs'] Suc.prems by (subst strlen_at.simps) auto
qed

section \<open>Properties\<close>

text \<open>C31. Both implementations of \<open>skip_trailing_space\<close>, the one that reads eight bytes at a time
  through \<open>uint8korr\<close> and the one for SPARC that reads aligned integers of four or eight bytes, compute the
  same: for every readable string they return, after reading only inside the string and only
  aligned integers, the address behind its last byte that is not a space.\<close>

theorem trailing_space_skipped:
  assumes "load_bytes len ptr m = Some bs" and "n = 4 \<or> n = 8"
  shows "skip_trailing_space c ptr len m = Some (ptr + length (rtrim bs))
   \<and> skip_trailing_space_sparc c' n ptr len m = Some (ptr + length (rtrim bs))"
  using skip_trailing_space_bytes [OF load_dom [OF assms(1)]]
    skip_trailing_space_sparc_bytes [OF load_dom [OF assms(1)] assms(2)] skip_bytes_rtrim [OF assms(1)]
  by simp

theorem trailing_space_skipped_witness:
  "skip_trailing_space amd64 6 23 (block 6 ([0x41, 0x20, 0x42] @ replicate 20 0x20)) = Some 9
   \<and> skip_trailing_space_sparc sparc 4 6 23 (block 6 ([0x41, 0x20, 0x42] @ replicate 20 0x20)) = Some 9"
proof -
  let ?bs = "[0x41, 0x20, 0x42] @ replicate 20 0x20 :: uchar list"
  have "load_bytes 23 6 (block 6 ?bs) = Some ?bs"
    using load_block [of ?bs 6] by simp
  moreover have "length (rtrim ?bs) = 3" by (simp add: rtrim_def dropWhile_append)
  ultimately show ?thesis
    using trailing_space_skipped [of 23 6 "block 6 ?bs" ?bs 4 amd64 sparc] by simp
qed

text \<open>The setters measure their string: on a string with a terminator and of a length that fits a
  \<open>size_t\<close> both return, with the address of the string and the number of its bytes.\<close>

theorem lex_string_measures:
  assumes "load_bytes n p m = Some bs" and "0 \<notin> set bs" and "m (p + n) = Some 0" and "n < 2 ^ 64"
  shows "\<exists>s'. lex_string_set s p m = Some s' \<and> lex_cstring_set s p m = Some s'
    \<and> lex_str s' = p \<and> load_bytes (unat (lex_length s')) p m = Some bs"
  using strlen_at_terminated [OF assms(1-3)] assms(1,4)
  by (simp add: lex_string_set_def lex_cstring_set_def unat_of_nat)

end
