(* ===== verification/Psi_Events.thy ===== *)
theory Psi_Events
  imports Psi_Prelude
begin

text \<open>
  The instrumentation helpers for what the server executes: \<open>mysql_stage.h\<close>, \<open>mysql_statement.h\<close>,
  \<open>mysql_transaction.h\<close>, \<open>mysql_ps.h\<close>, \<open>mysql_sp.h\<close>, \<open>mysql_table.h\<close>, \<open>mysql_idle.h\<close>, \<open>mysql_mdl.h\<close> and
  \<open>mysql_memory.h\<close>. Each inline function is a computation over the calls of the service; each
  macro picks it, or nothing, by the build. A macro that assigns to its first argument takes the
  old value and returns the new one. A macro that has a value in one build and expands to an empty
  statement in the other returns an option: \<open>None\<close> is the build in which it has no value.
\<close>

section \<open>Stages (\<open>mysql_stage.h\<close>)\<close>

definition inline_mysql_stage_register ::
  "string \<Rightarrow> ptr \<Rightarrow> int \<Rightarrow> ('o psi_world, unit) state" where
  "inline_mysql_stage_register category info count =
     psi_tell (PSI_STAGE_CALL (register_stage category info count))"

definition inline_mysql_set_stage ::
  "psi_service \<Rightarrow> nat \<Rightarrow> src \<Rightarrow> ('o psi_world, ptr) state" where
  "inline_mysql_set_stage svc key src =
     psi_ask svc (PSI_STAGE_CALL (start_stage key src))"

definition inline_mysql_end_stage ::
  "('o psi_world, unit) state" where
  "inline_mysql_end_stage =
     psi_tell (PSI_STAGE_CALL end_stage)"

definition mysql_stage_register ::
  "build \<Rightarrow> string \<Rightarrow> ptr \<Rightarrow> int \<Rightarrow> ('o psi_world, unit) state" where
  "mysql_stage_register b category info count =
     if_then (have_psi b INSTR_STAGE) (inline_mysql_stage_register category info count)"

definition MYSQL_SET_STAGE ::
  "build \<Rightarrow> psi_service \<Rightarrow> nat \<Rightarrow> src \<Rightarrow> ('o psi_world, ptr) state" where
  "MYSQL_SET_STAGE b svc key src =
     (if have_psi b INSTR_STAGE then inline_mysql_set_stage svc key src else State_Monad.return None)"

definition mysql_set_stage ::
  "build \<Rightarrow> psi_service \<Rightarrow> nat \<Rightarrow> src \<Rightarrow> ('o psi_world, ptr) state" where
  "mysql_set_stage b svc key src =
     (if have_psi b INSTR_STAGE then inline_mysql_set_stage svc key src else State_Monad.return None)"

definition mysql_end_stage ::
  "build \<Rightarrow> ('o psi_world, unit) state" where
  "mysql_end_stage b =
     if_then (have_psi b INSTR_STAGE) (inline_mysql_end_stage)"

text \<open>
  The progress of a stage, which the service hands out by address. The getters do not check their
  pointer: reading through \<open>NULL\<close>, or any access to an address that holds no progress, is undefined.
\<close>

record PSI_stage_progress =
  m_work_completed :: "64 word"
  m_work_estimated :: "64 word"

type_synonym progress_mem = "nat \<rightharpoonup> PSI_stage_progress"

definition change_progress ::
  "ptr \<Rightarrow> (PSI_stage_progress \<Rightarrow> PSI_stage_progress) \<Rightarrow> progress_mem \<Rightarrow> progress_mem option" where
  "change_progress progress f pm =
     (case progress of
        None \<Rightarrow> Some pm
      | Some p \<Rightarrow> map_option (\<lambda>x. pm(p \<mapsto> f x)) (pm p))"

definition inline_mysql_stage_set_work_completed ::
  "ptr \<Rightarrow> 64 word \<Rightarrow> progress_mem \<Rightarrow> progress_mem option" where
  "inline_mysql_stage_set_work_completed progress val = change_progress progress (m_work_completed_update (\<lambda>_. val))"

definition inline_mysql_stage_get_work_completed :: "ptr \<Rightarrow> progress_mem \<Rightarrow> 64 word option" where
  "inline_mysql_stage_get_work_completed progress pm =
     (case progress of None \<Rightarrow> None | Some p \<Rightarrow> map_option m_work_completed (pm p))"

definition inline_mysql_stage_inc_work_completed ::
  "ptr \<Rightarrow> 64 word \<Rightarrow> progress_mem \<Rightarrow> progress_mem option" where
  "inline_mysql_stage_inc_work_completed progress val = change_progress progress (m_work_completed_update (\<lambda>c. c + val))"

definition inline_mysql_stage_set_work_estimated ::
  "ptr \<Rightarrow> 64 word \<Rightarrow> progress_mem \<Rightarrow> progress_mem option" where
  "inline_mysql_stage_set_work_estimated progress val = change_progress progress (m_work_estimated_update (\<lambda>_. val))"

definition inline_mysql_stage_get_work_estimated :: "ptr \<Rightarrow> progress_mem \<Rightarrow> 64 word option" where
  "inline_mysql_stage_get_work_estimated progress pm =
     (case progress of None \<Rightarrow> None | Some p \<Rightarrow> map_option m_work_estimated (pm p))"

definition mysql_stage_set_work_completed ::
  "build \<Rightarrow> ptr \<Rightarrow> 64 word \<Rightarrow> progress_mem \<Rightarrow> progress_mem option" where
  "mysql_stage_set_work_completed b progress val pm =
     (if have_psi b INSTR_STAGE then inline_mysql_stage_set_work_completed progress val pm else Some pm)"

definition mysql_stage_inc_work_completed ::
  "build \<Rightarrow> ptr \<Rightarrow> 64 word \<Rightarrow> progress_mem \<Rightarrow> progress_mem option" where
  "mysql_stage_inc_work_completed b progress val pm =
     (if have_psi b INSTR_STAGE then inline_mysql_stage_inc_work_completed progress val pm else Some pm)"

definition mysql_stage_set_work_estimated ::
  "build \<Rightarrow> ptr \<Rightarrow> 64 word \<Rightarrow> progress_mem \<Rightarrow> progress_mem option" where
  "mysql_stage_set_work_estimated b progress val pm =
     (if have_psi b INSTR_STAGE then inline_mysql_stage_set_work_estimated progress val pm else Some pm)"

definition mysql_stage_get_work_completed ::
  "build \<Rightarrow> ptr \<Rightarrow> progress_mem \<Rightarrow> 64 word option option" where
  "mysql_stage_get_work_completed b progress pm =
     (if have_psi b INSTR_STAGE then Some (inline_mysql_stage_get_work_completed progress pm) else None)"

definition mysql_stage_get_work_estimated ::
  "build \<Rightarrow> ptr \<Rightarrow> progress_mem \<Rightarrow> 64 word option option" where
  "mysql_stage_get_work_estimated b progress pm =
     (if have_psi b INSTR_STAGE then Some (inline_mysql_stage_get_work_estimated progress pm) else None)"

section \<open>Statements (\<open>mysql_statement.h\<close>)\<close>

definition inline_mysql_statement_register ::
  "string \<Rightarrow> ptr \<Rightarrow> int \<Rightarrow> ('o psi_world, unit) state" where
  "inline_mysql_statement_register category info count =
     psi_tell (PSI_STATEMENT_CALL (register_statement category info count))"

definition inline_mysql_digest_start ::
  "psi_service \<Rightarrow> ptr \<Rightarrow> ('o psi_world, ptr) state" where
  "inline_mysql_digest_start svc locker =
     (if locker \<noteq> None then psi_ask svc (PSI_DIGEST_CALL (digest_start locker)) else State_Monad.return None)"

definition inline_mysql_digest_end ::
  "ptr \<Rightarrow> ptr \<Rightarrow> ('o psi_world, unit) state" where
  "inline_mysql_digest_end locker digest =
     if_then (locker \<noteq> None) (psi_tell (PSI_DIGEST_CALL (digest_end locker digest)))"

definition inline_mysql_start_statement ::
  "psi_service \<Rightarrow> nat \<Rightarrow> ptr \<Rightarrow> nat \<Rightarrow> ptr \<Rightarrow> ptr \<Rightarrow> src \<Rightarrow> ('o psi_world, ptr) state" where
  "inline_mysql_start_statement svc key db db_len charset sp_share src =
     do {
       locker \<leftarrow> psi_ask svc (PSI_STATEMENT_CALL (get_thread_statement_locker key charset sp_share));
       if_then (locker \<noteq> None) (psi_tell (PSI_STATEMENT_CALL (start_statement locker db db_len src)));
       State_Monad.return locker }"

definition inline_mysql_refine_statement ::
  "psi_service \<Rightarrow> ptr \<Rightarrow> nat \<Rightarrow> ('o psi_world, ptr) state" where
  "inline_mysql_refine_statement svc locker key =
     (if locker \<noteq> None then psi_ask svc (PSI_STATEMENT_CALL (refine_statement locker key)) else State_Monad.return locker)"

definition inline_mysql_set_statement_text ::
  "ptr \<Rightarrow> ptr \<Rightarrow> nat \<Rightarrow> ('o psi_world, unit) state" where
  "inline_mysql_set_statement_text locker txt text_len =
     if_then (locker \<noteq> None) (psi_tell (PSI_STATEMENT_CALL (set_statement_text locker txt text_len)))"

definition inline_mysql_set_statement_lock_time ::
  "ptr \<Rightarrow> 64 word \<Rightarrow> ('o psi_world, unit) state" where
  "inline_mysql_set_statement_lock_time locker count =
     if_then (locker \<noteq> None) (psi_tell (PSI_STATEMENT_CALL (set_statement_lock_time locker count)))"

definition inline_mysql_set_statement_rows_sent ::
  "ptr \<Rightarrow> 64 word \<Rightarrow> ('o psi_world, unit) state" where
  "inline_mysql_set_statement_rows_sent locker count =
     if_then (locker \<noteq> None) (psi_tell (PSI_STATEMENT_CALL (set_statement_rows_sent locker count)))"

definition inline_mysql_set_statement_rows_examined ::
  "ptr \<Rightarrow> 64 word \<Rightarrow> ('o psi_world, unit) state" where
  "inline_mysql_set_statement_rows_examined locker count =
     if_then (locker \<noteq> None) (psi_tell (PSI_STATEMENT_CALL (set_statement_rows_examined locker count)))"

definition inline_mysql_end_statement ::
  "ptr \<Rightarrow> ptr \<Rightarrow> ('o psi_world, unit) state" where
  "inline_mysql_end_statement locker stmt_da = do {
     psi_tell (PSI_STAGE_CALL end_stage);
     if_then (locker \<noteq> None) (psi_tell (PSI_STATEMENT_CALL (end_statement locker stmt_da))) }"

definition mysql_statement_register ::
  "build \<Rightarrow> string \<Rightarrow> ptr \<Rightarrow> int \<Rightarrow> ('o psi_world, unit) state" where
  "mysql_statement_register b category info count =
     if_then (have_psi b INSTR_STATEMENT) (inline_mysql_statement_register category info count)"

definition MYSQL_DIGEST_START ::
  "build \<Rightarrow> psi_service \<Rightarrow> ptr \<Rightarrow> ('o psi_world, ptr) state" where
  "MYSQL_DIGEST_START b svc locker =
     (if have_psi b INSTR_STATEMENT_DIGEST then inline_mysql_digest_start svc locker else State_Monad.return None)"

definition MYSQL_DIGEST_END ::
  "build \<Rightarrow> ptr \<Rightarrow> ptr \<Rightarrow> ('o psi_world, unit) state" where
  "MYSQL_DIGEST_END b locker digest =
     if_then (have_psi b INSTR_STATEMENT_DIGEST) (inline_mysql_digest_end locker digest)"

definition MYSQL_START_STATEMENT ::
  "build \<Rightarrow> psi_service \<Rightarrow> nat \<Rightarrow> ptr \<Rightarrow> nat \<Rightarrow> ptr \<Rightarrow> ptr \<Rightarrow> src \<Rightarrow> ('o psi_world, ptr) state" where
  "MYSQL_START_STATEMENT b svc key db db_len charset sp_share src =
     (if have_psi b INSTR_STATEMENT then inline_mysql_start_statement svc key db db_len charset sp_share src else State_Monad.return None)"

definition MYSQL_REFINE_STATEMENT ::
  "build \<Rightarrow> psi_service \<Rightarrow> ptr \<Rightarrow> nat \<Rightarrow> ('o psi_world, ptr) state" where
  "MYSQL_REFINE_STATEMENT b svc locker key =
     (if have_psi b INSTR_STATEMENT then inline_mysql_refine_statement svc locker key else State_Monad.return None)"

definition MYSQL_SET_STATEMENT_TEXT ::
  "build \<Rightarrow> ptr \<Rightarrow> ptr \<Rightarrow> nat \<Rightarrow> ('o psi_world, unit) state" where
  "MYSQL_SET_STATEMENT_TEXT b locker txt text_len =
     if_then (have_psi b INSTR_STATEMENT) (inline_mysql_set_statement_text locker txt text_len)"

definition MYSQL_SET_STATEMENT_LOCK_TIME ::
  "build \<Rightarrow> ptr \<Rightarrow> 64 word \<Rightarrow> ('o psi_world, unit) state" where
  "MYSQL_SET_STATEMENT_LOCK_TIME b locker count =
     if_then (have_psi b INSTR_STATEMENT) (inline_mysql_set_statement_lock_time locker count)"

definition MYSQL_SET_STATEMENT_ROWS_SENT ::
  "build \<Rightarrow> ptr \<Rightarrow> 64 word \<Rightarrow> ('o psi_world, unit) state" where
  "MYSQL_SET_STATEMENT_ROWS_SENT b locker count =
     if_then (have_psi b INSTR_STATEMENT) (inline_mysql_set_statement_rows_sent locker count)"

definition MYSQL_SET_STATEMENT_ROWS_EXAMINED ::
  "build \<Rightarrow> ptr \<Rightarrow> 64 word \<Rightarrow> ('o psi_world, unit) state" where
  "MYSQL_SET_STATEMENT_ROWS_EXAMINED b locker count =
     if_then (have_psi b INSTR_STATEMENT) (inline_mysql_set_statement_rows_examined locker count)"

definition MYSQL_END_STATEMENT ::
  "build \<Rightarrow> ptr \<Rightarrow> ptr \<Rightarrow> ('o psi_world, unit) state" where
  "MYSQL_END_STATEMENT b locker stmt_da =
     if_then (have_psi b INSTR_STATEMENT) (inline_mysql_end_statement locker stmt_da)"

section \<open>Transactions (\<open>mysql_transaction.h\<close>)\<close>

definition inline_mysql_start_transaction ::
  "psi_service \<Rightarrow> ptr \<Rightarrow> ptr \<Rightarrow> int \<Rightarrow> bool \<Rightarrow> bool \<Rightarrow> src \<Rightarrow> ('o psi_world, ptr) state" where
  "inline_mysql_start_transaction svc xid trxid isolation_level read_only autocommit src =
     do {
       locker \<leftarrow> psi_ask svc (PSI_TRANSACTION_CALL
                   (get_thread_transaction_locker xid trxid isolation_level read_only autocommit));
       if_then (locker \<noteq> None) (psi_tell (PSI_TRANSACTION_CALL (start_transaction locker src)));
       State_Monad.return locker }"

definition inline_mysql_set_transaction_gtid ::
  "ptr \<Rightarrow> ptr \<Rightarrow> ptr \<Rightarrow> ('o psi_world, unit) state" where
  "inline_mysql_set_transaction_gtid locker sid gtid_spec =
     if_then (locker \<noteq> None) (psi_tell (PSI_TRANSACTION_CALL (set_transaction_gtid locker sid gtid_spec)))"

definition inline_mysql_set_transaction_xid ::
  "ptr \<Rightarrow> ptr \<Rightarrow> int \<Rightarrow> ('o psi_world, unit) state" where
  "inline_mysql_set_transaction_xid locker xid xa_state =
     if_then (locker \<noteq> None) (psi_tell (PSI_TRANSACTION_CALL (set_transaction_xid locker xid xa_state)))"

definition inline_mysql_set_transaction_xa_state ::
  "ptr \<Rightarrow> int \<Rightarrow> ('o psi_world, unit) state" where
  "inline_mysql_set_transaction_xa_state locker xa_state =
     if_then (locker \<noteq> None) (psi_tell (PSI_TRANSACTION_CALL (set_transaction_xa_state locker xa_state)))"

definition inline_mysql_set_transaction_trxid ::
  "ptr \<Rightarrow> ptr \<Rightarrow> ('o psi_world, unit) state" where
  "inline_mysql_set_transaction_trxid locker trxid =
     if_then (locker \<noteq> None) (psi_tell (PSI_TRANSACTION_CALL (set_transaction_trxid locker trxid)))"

definition inline_mysql_inc_transaction_savepoints ::
  "ptr \<Rightarrow> nat \<Rightarrow> ('o psi_world, unit) state" where
  "inline_mysql_inc_transaction_savepoints locker count =
     if_then (locker \<noteq> None) (psi_tell (PSI_TRANSACTION_CALL (inc_transaction_savepoints locker count)))"

definition inline_mysql_inc_transaction_rollback_to_savepoint ::
  "ptr \<Rightarrow> nat \<Rightarrow> ('o psi_world, unit) state" where
  "inline_mysql_inc_transaction_rollback_to_savepoint locker count =
     if_then (locker \<noteq> None) (psi_tell (PSI_TRANSACTION_CALL (inc_transaction_rollback_to_savepoint locker count)))"

definition inline_mysql_inc_transaction_release_savepoint ::
  "ptr \<Rightarrow> nat \<Rightarrow> ('o psi_world, unit) state" where
  "inline_mysql_inc_transaction_release_savepoint locker count =
     if_then (locker \<noteq> None) (psi_tell (PSI_TRANSACTION_CALL (inc_transaction_release_savepoint locker count)))"

definition inline_mysql_rollback_transaction ::
  "ptr \<Rightarrow> ('o psi_world, unit) state" where
  "inline_mysql_rollback_transaction locker =
     if_then (locker \<noteq> None) (psi_tell (PSI_TRANSACTION_CALL (end_transaction locker False)))"

definition inline_mysql_commit_transaction ::
  "ptr \<Rightarrow> ('o psi_world, unit) state" where
  "inline_mysql_commit_transaction locker =
     if_then (locker \<noteq> None) (psi_tell (PSI_TRANSACTION_CALL (end_transaction locker True)))"

definition MYSQL_START_TRANSACTION ::
  "build \<Rightarrow> psi_service \<Rightarrow> ptr \<Rightarrow> ptr \<Rightarrow> int \<Rightarrow> bool \<Rightarrow> bool \<Rightarrow> src \<Rightarrow> ('o psi_world, ptr option) state" where
  "MYSQL_START_TRANSACTION b svc xid trxid isolation_level read_only autocommit src =
     (if have_psi b INSTR_TRANSACTION then do { l \<leftarrow> inline_mysql_start_transaction svc xid trxid isolation_level read_only autocommit src; State_Monad.return (Some l) }
      else State_Monad.return None)"

definition MYSQL_SET_TRANSACTION_GTID ::
  "build \<Rightarrow> ptr \<Rightarrow> ptr \<Rightarrow> ptr \<Rightarrow> ('o psi_world, unit) state" where
  "MYSQL_SET_TRANSACTION_GTID b locker sid gtid_spec =
     if_then (have_psi b INSTR_TRANSACTION) (inline_mysql_set_transaction_gtid locker sid gtid_spec)"

definition MYSQL_SET_TRANSACTION_XID ::
  "build \<Rightarrow> ptr \<Rightarrow> ptr \<Rightarrow> int \<Rightarrow> ('o psi_world, unit) state" where
  "MYSQL_SET_TRANSACTION_XID b locker xid xa_state =
     if_then (have_psi b INSTR_TRANSACTION) (inline_mysql_set_transaction_xid locker xid xa_state)"

definition MYSQL_SET_TRANSACTION_XA_STATE ::
  "build \<Rightarrow> ptr \<Rightarrow> int \<Rightarrow> ('o psi_world, unit) state" where
  "MYSQL_SET_TRANSACTION_XA_STATE b locker xa_state =
     if_then (have_psi b INSTR_TRANSACTION) (inline_mysql_set_transaction_xa_state locker xa_state)"

definition MYSQL_SET_TRANSACTION_TRXID ::
  "build \<Rightarrow> ptr \<Rightarrow> ptr \<Rightarrow> ('o psi_world, unit) state" where
  "MYSQL_SET_TRANSACTION_TRXID b locker trxid =
     if_then (have_psi b INSTR_TRANSACTION) (inline_mysql_set_transaction_trxid locker trxid)"

definition MYSQL_INC_TRANSACTION_SAVEPOINTS ::
  "build \<Rightarrow> ptr \<Rightarrow> nat \<Rightarrow> ('o psi_world, unit) state" where
  "MYSQL_INC_TRANSACTION_SAVEPOINTS b locker count =
     if_then (have_psi b INSTR_TRANSACTION) (inline_mysql_inc_transaction_savepoints locker count)"

definition MYSQL_INC_TRANSACTION_ROLLBACK_TO_SAVEPOINT ::
  "build \<Rightarrow> ptr \<Rightarrow> nat \<Rightarrow> ('o psi_world, unit) state" where
  "MYSQL_INC_TRANSACTION_ROLLBACK_TO_SAVEPOINT b locker count =
     if_then (have_psi b INSTR_TRANSACTION) (inline_mysql_inc_transaction_rollback_to_savepoint locker count)"

definition MYSQL_INC_TRANSACTION_RELEASE_SAVEPOINT ::
  "build \<Rightarrow> ptr \<Rightarrow> nat \<Rightarrow> ('o psi_world, unit) state" where
  "MYSQL_INC_TRANSACTION_RELEASE_SAVEPOINT b locker count =
     if_then (have_psi b INSTR_TRANSACTION) (inline_mysql_inc_transaction_release_savepoint locker count)"

definition MYSQL_ROLLBACK_TRANSACTION ::
  "build \<Rightarrow> ptr \<Rightarrow> ('o psi_world, unit) state" where
  "MYSQL_ROLLBACK_TRANSACTION b locker =
     if_then (have_psi b INSTR_TRANSACTION) (inline_mysql_rollback_transaction locker)"

definition MYSQL_COMMIT_TRANSACTION ::
  "build \<Rightarrow> ptr \<Rightarrow> ('o psi_world, unit) state" where
  "MYSQL_COMMIT_TRANSACTION b locker =
     if_then (have_psi b INSTR_TRANSACTION) (inline_mysql_commit_transaction locker)"

section \<open>Prepared statements (\<open>mysql_ps.h\<close>)\<close>

definition inline_mysql_create_prepared_stmt ::
  "psi_service \<Rightarrow> ptr \<Rightarrow> nat \<Rightarrow> ptr \<Rightarrow> ptr \<Rightarrow> nat \<Rightarrow> ptr \<Rightarrow> nat \<Rightarrow> ('o psi_world, ptr) state" where
  "inline_mysql_create_prepared_stmt svc identity stmt_id locker stmt_name stmt_name_length sqltext sqltext_length =
     (if locker \<noteq> None then psi_ask svc (PSI_PS_CALL (create_prepared_stmt identity stmt_id locker stmt_name stmt_name_length sqltext sqltext_length)) else State_Monad.return None)"

definition inline_mysql_execute_prepared_stmt ::
  "ptr \<Rightarrow> ptr \<Rightarrow> ('o psi_world, unit) state" where
  "inline_mysql_execute_prepared_stmt locker prepared_stmt =
     if_then (prepared_stmt \<noteq> None \<and> locker \<noteq> None) (psi_tell (PSI_PS_CALL (execute_prepared_stmt locker prepared_stmt)))"

definition inline_mysql_destroy_prepared_stmt ::
  "ptr \<Rightarrow> ('o psi_world, unit) state" where
  "inline_mysql_destroy_prepared_stmt prepared_stmt =
     if_then (prepared_stmt \<noteq> None) (psi_tell (PSI_PS_CALL (destroy_prepared_stmt prepared_stmt)))"

definition inline_mysql_reprepare_prepared_stmt ::
  "ptr \<Rightarrow> ('o psi_world, unit) state" where
  "inline_mysql_reprepare_prepared_stmt prepared_stmt =
     if_then (prepared_stmt \<noteq> None) (psi_tell (PSI_PS_CALL (reprepare_prepared_stmt prepared_stmt)))"

definition inline_mysql_set_prepared_stmt_text ::
  "ptr \<Rightarrow> ptr \<Rightarrow> nat \<Rightarrow> ('o psi_world, unit) state" where
  "inline_mysql_set_prepared_stmt_text prepared_stmt txt text_len =
     if_then (prepared_stmt \<noteq> None) (psi_tell (PSI_PS_CALL (set_prepared_stmt_text prepared_stmt txt text_len)))"

definition MYSQL_CREATE_PS ::
  "build \<Rightarrow> psi_service \<Rightarrow> ptr \<Rightarrow> nat \<Rightarrow> ptr \<Rightarrow> ptr \<Rightarrow> nat \<Rightarrow> ptr \<Rightarrow> nat \<Rightarrow> ('o psi_world, ptr) state" where
  "MYSQL_CREATE_PS b svc identity stmt_id locker stmt_name stmt_name_length sqltext sqltext_length =
     (if have_psi b INSTR_PS then inline_mysql_create_prepared_stmt svc identity stmt_id locker stmt_name stmt_name_length sqltext sqltext_length else State_Monad.return None)"

definition MYSQL_EXECUTE_PS ::
  "build \<Rightarrow> ptr \<Rightarrow> ptr \<Rightarrow> ('o psi_world, unit) state" where
  "MYSQL_EXECUTE_PS b locker prepared_stmt =
     if_then (have_psi b INSTR_PS) (inline_mysql_execute_prepared_stmt locker prepared_stmt)"

definition MYSQL_DESTROY_PS ::
  "build \<Rightarrow> ptr \<Rightarrow> ('o psi_world, unit) state" where
  "MYSQL_DESTROY_PS b prepared_stmt =
     if_then (have_psi b INSTR_PS) (inline_mysql_destroy_prepared_stmt prepared_stmt)"

definition MYSQL_REPREPARE_PS ::
  "build \<Rightarrow> ptr \<Rightarrow> ('o psi_world, unit) state" where
  "MYSQL_REPREPARE_PS b prepared_stmt =
     if_then (have_psi b INSTR_PS) (inline_mysql_reprepare_prepared_stmt prepared_stmt)"

definition MYSQL_SET_PS_TEXT ::
  "build \<Rightarrow> ptr \<Rightarrow> ptr \<Rightarrow> nat \<Rightarrow> ('o psi_world, unit) state" where
  "MYSQL_SET_PS_TEXT b prepared_stmt txt text_len =
     if_then (have_psi b INSTR_PS) (inline_mysql_set_prepared_stmt_text prepared_stmt txt text_len)"

section \<open>Stored programs (\<open>mysql_sp.h\<close>)\<close>

definition inline_mysql_start_sp ::
  "psi_service \<Rightarrow> ptr \<Rightarrow> ('o psi_world, ptr) state" where
  "inline_mysql_start_sp svc sp_share =
     psi_ask svc (PSI_SP_CALL (start_sp sp_share))"

definition inline_mysql_end_sp ::
  "ptr \<Rightarrow> ('o psi_world, unit) state" where
  "inline_mysql_end_sp locker =
     if_then (locker \<noteq> None) (psi_tell (PSI_SP_CALL (end_sp locker)))"

definition inline_mysql_drop_sp ::
  "nat \<Rightarrow> ptr \<Rightarrow> nat \<Rightarrow> ptr \<Rightarrow> nat \<Rightarrow> ('o psi_world, unit) state" where
  "inline_mysql_drop_sp sp_type schema_name schema_name_length object_name object_name_length =
     psi_tell (PSI_SP_CALL (drop_sp sp_type schema_name schema_name_length object_name object_name_length))"

definition inline_mysql_get_sp_share ::
  "psi_service \<Rightarrow> nat \<Rightarrow> ptr \<Rightarrow> nat \<Rightarrow> ptr \<Rightarrow> nat \<Rightarrow> ('o psi_world, ptr) state" where
  "inline_mysql_get_sp_share svc sp_type schema_name schema_name_length object_name object_name_length =
     psi_ask svc (PSI_SP_CALL (get_sp_share sp_type schema_name schema_name_length object_name object_name_length))"

definition MYSQL_START_SP ::
  "build \<Rightarrow> psi_service \<Rightarrow> ptr \<Rightarrow> ('o psi_world, ptr) state" where
  "MYSQL_START_SP b svc sp_share =
     (if have_psi b INSTR_SP then inline_mysql_start_sp svc sp_share else State_Monad.return None)"

definition MYSQL_END_SP ::
  "build \<Rightarrow> ptr \<Rightarrow> ('o psi_world, unit) state" where
  "MYSQL_END_SP b locker =
     if_then (have_psi b INSTR_SP) (inline_mysql_end_sp locker)"

definition MYSQL_DROP_SP ::
  "build \<Rightarrow> nat \<Rightarrow> ptr \<Rightarrow> nat \<Rightarrow> ptr \<Rightarrow> nat \<Rightarrow> ('o psi_world, unit) state" where
  "MYSQL_DROP_SP b sp_type schema_name schema_name_length object_name object_name_length =
     if_then (have_psi b INSTR_SP) (inline_mysql_drop_sp sp_type schema_name schema_name_length object_name object_name_length)"

definition MYSQL_GET_SP_SHARE ::
  "build \<Rightarrow> psi_service \<Rightarrow> nat \<Rightarrow> ptr \<Rightarrow> nat \<Rightarrow> ptr \<Rightarrow> nat \<Rightarrow> ('o psi_world, ptr) state" where
  "MYSQL_GET_SP_SHARE b svc sp_type schema_name schema_name_length object_name object_name_length =
     (if have_psi b INSTR_SP then inline_mysql_get_sp_share svc sp_type schema_name schema_name_length object_name object_name_length else State_Monad.return None)"

section \<open>Tables, idle time, metadata locks and memory\<close>

definition inline_mysql_start_table_lock_wait ::
  "psi_service \<Rightarrow> ptr \<Rightarrow> nat \<Rightarrow> nat \<Rightarrow> src \<Rightarrow> ('o psi_world, ptr) state" where
  "inline_mysql_start_table_lock_wait svc psi op flags src =
     (if psi \<noteq> None then psi_ask svc (PSI_TABLE_CALL (start_table_lock_wait psi op flags src)) else State_Monad.return None)"

definition inline_mysql_end_table_lock_wait ::
  "ptr \<Rightarrow> ('o psi_world, unit) state" where
  "inline_mysql_end_table_lock_wait locker =
     if_then (locker \<noteq> None) (psi_tell (PSI_TABLE_CALL (end_table_lock_wait locker)))"

definition inline_mysql_unlock_table ::
  "ptr \<Rightarrow> ('o psi_world, unit) state" where
  "inline_mysql_unlock_table table =
     if_then (table \<noteq> None) (psi_tell (PSI_TABLE_CALL (unlock_table table)))"

definition MYSQL_START_TABLE_LOCK_WAIT ::
  "build \<Rightarrow> psi_service \<Rightarrow> ptr \<Rightarrow> ptr \<Rightarrow> nat \<Rightarrow> nat \<Rightarrow> src \<Rightarrow> ('o psi_world, ptr) state" where
  "MYSQL_START_TABLE_LOCK_WAIT b svc LOCKER psi op flags src =
     (if have_psi b INSTR_TABLE then inline_mysql_start_table_lock_wait svc psi op flags src else State_Monad.return LOCKER)"

definition MYSQL_END_TABLE_LOCK_WAIT ::
  "build \<Rightarrow> ptr \<Rightarrow> ('o psi_world, unit) state" where
  "MYSQL_END_TABLE_LOCK_WAIT b locker =
     if_then (have_psi b INSTR_TABLE) (inline_mysql_end_table_lock_wait locker)"

definition MYSQL_UNLOCK_TABLE ::
  "build \<Rightarrow> ptr \<Rightarrow> ('o psi_world, unit) state" where
  "MYSQL_UNLOCK_TABLE b table =
     if_then (have_psi b INSTR_TABLE) (inline_mysql_unlock_table table)"

definition inline_mysql_start_idle_wait ::
  "psi_service \<Rightarrow> src \<Rightarrow> ('o psi_world, ptr) state" where
  "inline_mysql_start_idle_wait svc src =
     psi_ask svc (PSI_IDLE_CALL (start_idle_wait src))"

definition inline_mysql_end_idle_wait ::
  "ptr \<Rightarrow> ('o psi_world, unit) state" where
  "inline_mysql_end_idle_wait locker =
     if_then (locker \<noteq> None) (psi_tell (PSI_IDLE_CALL (end_idle_wait locker)))"

definition MYSQL_START_IDLE_WAIT ::
  "build \<Rightarrow> psi_service \<Rightarrow> ptr \<Rightarrow> src \<Rightarrow> ('o psi_world, ptr) state" where
  "MYSQL_START_IDLE_WAIT b svc LOCKER src =
     (if have_psi b INSTR_IDLE then inline_mysql_start_idle_wait svc src else State_Monad.return LOCKER)"

definition MYSQL_END_IDLE_WAIT ::
  "build \<Rightarrow> ptr \<Rightarrow> ('o psi_world, unit) state" where
  "MYSQL_END_IDLE_WAIT b locker =
     if_then (have_psi b INSTR_IDLE) (inline_mysql_end_idle_wait locker)"

definition inline_mysql_mdl_create ::
  "psi_service \<Rightarrow> ptr \<Rightarrow> ptr \<Rightarrow> nat \<Rightarrow> nat \<Rightarrow> nat \<Rightarrow> src \<Rightarrow> ('o psi_world, ptr) state" where
  "inline_mysql_mdl_create svc identity mdl_key mdl_type mdl_duration mdl_status src =
     psi_ask svc (PSI_METADATA_CALL (create_metadata_lock identity mdl_key mdl_type mdl_duration mdl_status src))"

definition inline_mysql_mdl_set_status ::
  "ptr \<Rightarrow> nat \<Rightarrow> ('o psi_world, unit) state" where
  "inline_mysql_mdl_set_status psi mdl_status =
     if_then (psi \<noteq> None) (psi_tell (PSI_METADATA_CALL (set_metadata_lock_status psi mdl_status)))"

definition inline_mysql_mdl_destroy ::
  "ptr \<Rightarrow> src \<Rightarrow> ('o psi_world, unit) state" where
  "inline_mysql_mdl_destroy psi src =
     if_then (psi \<noteq> None) (psi_tell (PSI_METADATA_CALL (destroy_metadata_lock psi)))"

definition mysql_mdl_create ::
  "build \<Rightarrow> psi_service \<Rightarrow> ptr \<Rightarrow> ptr \<Rightarrow> nat \<Rightarrow> nat \<Rightarrow> nat \<Rightarrow> src \<Rightarrow> ('o psi_world, ptr) state" where
  "mysql_mdl_create b svc identity mdl_key mdl_type mdl_duration mdl_status src =
     (if have_psi b INSTR_METADATA then inline_mysql_mdl_create svc identity mdl_key mdl_type mdl_duration mdl_status src else State_Monad.return None)"

definition mysql_mdl_set_status ::
  "build \<Rightarrow> ptr \<Rightarrow> nat \<Rightarrow> ('o psi_world, unit) state" where
  "mysql_mdl_set_status b psi mdl_status =
     if_then (have_psi b INSTR_METADATA) (inline_mysql_mdl_set_status psi mdl_status)"

definition mysql_mdl_destroy ::
  "build \<Rightarrow> ptr \<Rightarrow> src \<Rightarrow> ('o psi_world, unit) state" where
  "mysql_mdl_destroy b psi src =
     if_then (have_psi b INSTR_METADATA) (inline_mysql_mdl_destroy psi src)"

definition inline_mysql_memory_register ::
  "build \<Rightarrow> string \<Rightarrow> ptr \<Rightarrow> int \<Rightarrow> ('o psi_world, unit) state" where
  "inline_mysql_memory_register b category info count =
     if_then (have_psi b INSTR_MEMORY) (psi_tell (PSI_MEMORY_CALL (register_memory category info count)))"

definition mysql_memory_register ::
  "build \<Rightarrow> string \<Rightarrow> ptr \<Rightarrow> int \<Rightarrow> ('o psi_world, unit) state" where
  "mysql_memory_register b category info count = inline_mysql_memory_register b category info count"

section \<open>Statements and transactions from start to end\<close>

text \<open>What happens between the start and the end of a statement, in any order: each step is given
  the locker of the statement and returns it, changed only by a refinement.\<close>

datatype statement_op =
  Refine nat | Set_text ptr nat | Set_lock_time "64 word" | Set_rows_sent "64 word"
| Set_rows_examined "64 word" | Digest ptr | Execute_ps ptr

primrec statement_step ::
  "build \<Rightarrow> psi_service \<Rightarrow> statement_op \<Rightarrow> ptr \<Rightarrow> ('o psi_world, ptr) state" where
  "statement_step b svc (Refine key) l = MYSQL_REFINE_STATEMENT b svc l key"
| "statement_step b svc (Set_text txt n) l =
     do { MYSQL_SET_STATEMENT_TEXT b l txt n; State_Monad.return l }"
| "statement_step b svc (Set_lock_time v) l =
     do { MYSQL_SET_STATEMENT_LOCK_TIME b l v; State_Monad.return l }"
| "statement_step b svc (Set_rows_sent v) l =
     do { MYSQL_SET_STATEMENT_ROWS_SENT b l v; State_Monad.return l }"
| "statement_step b svc (Set_rows_examined v) l =
     do { MYSQL_SET_STATEMENT_ROWS_EXAMINED b l v; State_Monad.return l }"
| "statement_step b svc (Digest storage) l =
     do { d \<leftarrow> MYSQL_DIGEST_START b svc l; MYSQL_DIGEST_END b d storage; State_Monad.return l }"
| "statement_step b svc (Execute_ps stmt) l =
     do { MYSQL_EXECUTE_PS b l stmt; State_Monad.return l }"

datatype transaction_op =
  Set_gtid ptr ptr | Set_xid ptr int | Set_xa_state int | Set_trxid ptr
| Inc_savepoints nat | Inc_rollback_to nat | Inc_release nat

primrec transaction_step :: "build \<Rightarrow> transaction_op \<Rightarrow> ptr \<Rightarrow> ('o psi_world, ptr) state" where
  "transaction_step b (Set_gtid sid spec) l =
     do { MYSQL_SET_TRANSACTION_GTID b l sid spec; State_Monad.return l }"
| "transaction_step b (Set_xid xid st) l =
     do { MYSQL_SET_TRANSACTION_XID b l xid st; State_Monad.return l }"
| "transaction_step b (Set_xa_state st) l =
     do { MYSQL_SET_TRANSACTION_XA_STATE b l st; State_Monad.return l }"
| "transaction_step b (Set_trxid t) l =
     do { MYSQL_SET_TRANSACTION_TRXID b l t; State_Monad.return l }"
| "transaction_step b (Inc_savepoints n) l =
     do { MYSQL_INC_TRANSACTION_SAVEPOINTS b l n; State_Monad.return l }"
| "transaction_step b (Inc_rollback_to n) l =
     do { MYSQL_INC_TRANSACTION_ROLLBACK_TO_SAVEPOINT b l n; State_Monad.return l }"
| "transaction_step b (Inc_release n) l =
     do { MYSQL_INC_TRANSACTION_RELEASE_SAVEPOINT b l n; State_Monad.return l }"

primrec run_steps :: "('op \<Rightarrow> ptr \<Rightarrow> ('s, ptr) state) \<Rightarrow> 'op list \<Rightarrow> ptr \<Rightarrow> ('s, ptr) state" where
  "run_steps step [] l = State_Monad.return l"
| "run_steps step (op # ops) l = do { l1 \<leftarrow> step op l; run_steps step ops l1 }"

definition statement_run ::
  "build \<Rightarrow> psi_service \<Rightarrow> nat \<Rightarrow> ptr \<Rightarrow> nat \<Rightarrow> ptr \<Rightarrow> ptr \<Rightarrow> src \<Rightarrow> statement_op list \<Rightarrow> ptr \<Rightarrow>
   ('o psi_world, unit) state" where
  "statement_run b svc key db db_len cs sps src ops da = do {
     l \<leftarrow> MYSQL_START_STATEMENT b svc key db db_len cs sps src;
     l1 \<leftarrow> run_steps (statement_step b svc) ops l;
     MYSQL_END_STATEMENT b l1 da }"

text \<open>Where starting a transaction has no value, the locker keeps its initial \<open>NULL\<close>.\<close>

definition transaction_run ::
  "build \<Rightarrow> psi_service \<Rightarrow> ptr \<Rightarrow> ptr \<Rightarrow> int \<Rightarrow> bool \<Rightarrow> bool \<Rightarrow> src \<Rightarrow> transaction_op list \<Rightarrow> bool \<Rightarrow>
   ('o psi_world, unit) state" where
  "transaction_run b svc xid trxid level ro ac src ops commit = do {
     v \<leftarrow> MYSQL_START_TRANSACTION b svc xid trxid level ro ac src;
     l \<leftarrow> run_steps (transaction_step b) ops (case v of None \<Rightarrow> None | Some l \<Rightarrow> l);
     if commit then MYSQL_COMMIT_TRANSACTION b l else MYSQL_ROLLBACK_TRANSACTION b l }"

text \<open>What a call does with the locker of the statement, or of the transaction: the service
  returns one, replaces the one named, is told of one, is told of the end of one.\<close>

datatype locker_use =
  Locker_new | Locker_swapped ptr | Locker_used ptr | Locker_gone ptr | Locker_none

definition statement_use :: "psi_call \<Rightarrow> locker_use" where
  "statement_use e =
     (case e of
        PSI_STATEMENT_CALL c \<Rightarrow>
          (case c of
             register_statement _ _ _ \<Rightarrow> Locker_none
           | get_thread_statement_locker _ _ _ \<Rightarrow> Locker_new
           | refine_statement l _ \<Rightarrow> Locker_swapped l
           | start_statement l _ _ _ \<Rightarrow> Locker_used l
           | set_statement_text l _ _ \<Rightarrow> Locker_used l
           | set_statement_lock_time l _ \<Rightarrow> Locker_used l
           | set_statement_rows_sent l _ \<Rightarrow> Locker_used l
           | set_statement_rows_examined l _ \<Rightarrow> Locker_used l
           | end_statement l _ \<Rightarrow> Locker_gone l)
      | PSI_DIGEST_CALL c \<Rightarrow> (case c of digest_start l \<Rightarrow> Locker_used l | _ \<Rightarrow> Locker_none)
      | PSI_PS_CALL c \<Rightarrow> (case c of execute_prepared_stmt l _ \<Rightarrow> Locker_used l | _ \<Rightarrow> Locker_none)
      | _ \<Rightarrow> Locker_none)"

definition transaction_use :: "psi_call \<Rightarrow> locker_use" where
  "transaction_use e =
     (case e of
        PSI_TRANSACTION_CALL c \<Rightarrow>
          (case c of
             get_thread_transaction_locker _ _ _ _ _ \<Rightarrow> Locker_new
           | start_transaction l _ \<Rightarrow> Locker_used l
           | set_transaction_xid l _ _ \<Rightarrow> Locker_used l
           | set_transaction_xa_state l _ \<Rightarrow> Locker_used l
           | set_transaction_gtid l _ _ \<Rightarrow> Locker_used l
           | set_transaction_trxid l _ \<Rightarrow> Locker_used l
           | inc_transaction_savepoints l _ \<Rightarrow> Locker_used l
           | inc_transaction_rollback_to_savepoint l _ \<Rightarrow> Locker_used l
           | inc_transaction_release_savepoint l _ \<Rightarrow> Locker_used l
           | end_transaction l _ \<Rightarrow> Locker_gone l)
      | _ \<Rightarrow> Locker_none)"

text \<open>\<open>locker_run\<close> follows a log with the open locker. It fails when a call names another one, one
  that has ended, or \<open>NULL\<close>, and when a new one is returned while one is open.\<close>

primrec locker_run :: "(psi_call \<Rightarrow> locker_use) \<Rightarrow> ptr \<Rightarrow> psi_log \<Rightarrow> ptr option" where
  "locker_run u h [] = Some h"
| "locker_run u h (er # es) =
     (case u (fst er) of
        Locker_new \<Rightarrow> if h = None then locker_run u (snd er) es else None
      | Locker_swapped l \<Rightarrow> if l = h \<and> h \<noteq> None then locker_run u (snd er) es else None
      | Locker_used l \<Rightarrow> if l = h \<and> h \<noteq> None then locker_run u h es else None
      | Locker_gone l \<Rightarrow> if l = h \<and> h \<noteq> None then locker_run u None es else None
      | Locker_none \<Rightarrow> locker_run u h es)"

definition follows ::
  "(psi_call \<Rightarrow> locker_use) \<Rightarrow> ptr \<Rightarrow> ('o psi_world, 'r) state \<Rightarrow> ('r \<Rightarrow> ptr) \<Rightarrow> bool" where
  "follows u h m g \<longleftrightarrow> (\<forall>w. \<exists>es. psi_log (snd (run_state m w)) = psi_log w @ es
     \<and> locker_run u h es = Some (g (fst (run_state m w))))"

definition live_locker :: "build \<Rightarrow> instrument \<Rightarrow> ptr \<Rightarrow> ptr" where
  "live_locker b i l = (if have_psi b i then l else None)"

text \<open>A piece of the program that reports idle time, or a wait for a table lock, around its work.\<close>

definition idle_scope ::
  "build \<Rightarrow> psi_service \<Rightarrow> ptr \<Rightarrow> src \<Rightarrow> ('o psi_world, 'r) state \<Rightarrow> ('o psi_world, 'r) state" where
  "idle_scope b svc l0 src body = do {
     l \<leftarrow> MYSQL_START_IDLE_WAIT b svc l0 src;
     r \<leftarrow> body;
     MYSQL_END_IDLE_WAIT b l;
     State_Monad.return r }"

definition table_lock_scope ::
  "build \<Rightarrow> psi_service \<Rightarrow> ptr \<Rightarrow> ptr \<Rightarrow> nat \<Rightarrow> nat \<Rightarrow> src \<Rightarrow> ('o psi_world, 'r) state \<Rightarrow> ('o psi_world, 'r) state" where
  "table_lock_scope b svc l0 psi op flags src body = do {
     l \<leftarrow> MYSQL_START_TABLE_LOCK_WAIT b svc l0 psi op flags src;
     r \<leftarrow> body;
     MYSQL_END_TABLE_LOCK_WAIT b l;
     State_Monad.return r }"

section \<open>Following a locker\<close>

lemma locker_run_append:
  "locker_run u h (xs @ ys) = (case locker_run u h xs of None \<Rightarrow> None | Some h1 \<Rightarrow> locker_run u h1 ys)"
  by (induction xs arbitrary: h) (auto split: locker_use.split)

lemma follows_bind:
  assumes "follows u h m f" and "\<And>r. follows u (f r) (k r) g"
  shows "follows u h (State_Monad.bind m k) g"
  unfolding follows_def
proof
  fix w
  let ?r = "fst (run_state m w)" and ?w = "snd (run_state m w)"
  obtain es where es: "psi_log ?w = psi_log w @ es" "locker_run u h es = Some (f ?r)"
    using assms(1) by (auto simp: follows_def)
  obtain es' where es': "psi_log (snd (run_state (k ?r) ?w)) = psi_log ?w @ es'"
      "locker_run u (f ?r) es' = Some (g (fst (run_state (k ?r) ?w)))"
    using assms(2) [of ?r] by (auto simp: follows_def)
  show "\<exists>es. psi_log (snd (run_state (State_Monad.bind m k) w)) = psi_log w @ es
      \<and> locker_run u h es = Some (g (fst (run_state (State_Monad.bind m k) w)))"
    by (rule exI [of _ "es @ es'"]) (simp add: run_bind case_prod_beta es es' locker_run_append)
qed

lemma follows_run_steps:
  "(\<And>op l. follows u (f l) (step op l) f) \<Longrightarrow> follows u (f l) (run_steps step ops l) f"
proof (induction ops arbitrary: l)
  case Nil
  then show ?case by (simp add: follows_def psi_simps)
next
  case (Cons op ops)
  show ?case
    by simp (rule follows_bind [OF Cons.prems], rule Cons.IH [OF Cons.prems])
qed

lemmas event_defs = follows_def statement_use_def transaction_use_def psi_simps case_prod_beta
  mysql_statement_register_def MYSQL_DIGEST_START_def MYSQL_DIGEST_END_def
  MYSQL_START_STATEMENT_def MYSQL_REFINE_STATEMENT_def MYSQL_SET_STATEMENT_TEXT_def
  MYSQL_SET_STATEMENT_LOCK_TIME_def MYSQL_SET_STATEMENT_ROWS_SENT_def
  MYSQL_SET_STATEMENT_ROWS_EXAMINED_def MYSQL_END_STATEMENT_def MYSQL_START_TRANSACTION_def
  MYSQL_SET_TRANSACTION_GTID_def MYSQL_SET_TRANSACTION_XID_def
  MYSQL_SET_TRANSACTION_XA_STATE_def MYSQL_SET_TRANSACTION_TRXID_def
  MYSQL_INC_TRANSACTION_SAVEPOINTS_def MYSQL_INC_TRANSACTION_ROLLBACK_TO_SAVEPOINT_def
  MYSQL_INC_TRANSACTION_RELEASE_SAVEPOINT_def MYSQL_ROLLBACK_TRANSACTION_def
  MYSQL_COMMIT_TRANSACTION_def MYSQL_CREATE_PS_def MYSQL_EXECUTE_PS_def MYSQL_DESTROY_PS_def
  MYSQL_REPREPARE_PS_def MYSQL_SET_PS_TEXT_def inline_mysql_start_statement_def
  inline_mysql_refine_statement_def inline_mysql_set_statement_text_def
  inline_mysql_set_statement_lock_time_def inline_mysql_set_statement_rows_sent_def
  inline_mysql_set_statement_rows_examined_def inline_mysql_end_statement_def
  inline_mysql_digest_start_def inline_mysql_digest_end_def inline_mysql_start_transaction_def
  inline_mysql_set_transaction_gtid_def inline_mysql_set_transaction_xid_def
  inline_mysql_set_transaction_xa_state_def inline_mysql_set_transaction_trxid_def
  inline_mysql_inc_transaction_savepoints_def
  inline_mysql_inc_transaction_rollback_to_savepoint_def
  inline_mysql_inc_transaction_release_savepoint_def inline_mysql_rollback_transaction_def
  inline_mysql_commit_transaction_def inline_mysql_execute_prepared_stmt_def

lemma statement_step_follows:
  "follows statement_use (live_locker b INSTR_STATEMENT l) (statement_step b svc op l)
     (live_locker b INSTR_STATEMENT)"
  by (cases op) (auto simp: event_defs live_locker_def have_psi_def)

lemma transaction_step_follows:
  "follows transaction_use (live_locker b INSTR_TRANSACTION l) (transaction_step b op l)
     (live_locker b INSTR_TRANSACTION)"
  by (cases op) (auto simp: event_defs live_locker_def)

lemma statement_steps_follow:
  "follows statement_use (live_locker b INSTR_STATEMENT l) (run_steps (statement_step b svc) ops l)
     (live_locker b INSTR_STATEMENT)"
  by (rule follows_run_steps) (rule statement_step_follows)

lemma transaction_steps_follow:
  "follows transaction_use (live_locker b INSTR_TRANSACTION l) (run_steps (transaction_step b) ops l)
     (live_locker b INSTR_TRANSACTION)"
  by (rule follows_run_steps) (rule transaction_step_follows)

lemma inc_work_completed:
  "pm p = Some y \<Longrightarrow> inline_mysql_stage_inc_work_completed (Some p) n pm
     = Some (pm(p \<mapsto> y\<lparr>m_work_completed := m_work_completed y + n\<rparr>))"
  by (cases y) (simp add: inline_mysql_stage_inc_work_completed_def change_progress_def)

section \<open>Properties\<close>

text \<open>C32. The service can follow every statement and every transaction. From a start through any
  sequence of the calls in between to the end, each call names the locker that the service
  returned at the start (for a statement, at its last refinement), never \<open>NULL\<close> and never after the
  end; and when the end is reached no locker is left open. This holds in every build and whatever
  the service answers.\<close>

theorem event_lockers_followed:
  "follows statement_use None (statement_run b svc key db db_len cs sps src sops da) (\<lambda>_. None)
   \<and> follows transaction_use None (transaction_run b svc xid trxid level ro ac src tops commit) (\<lambda>_. None)"
proof
  have start: "follows statement_use None (MYSQL_START_STATEMENT b svc key db db_len cs sps src)
      (live_locker b INSTR_STATEMENT)"
    by (auto simp: event_defs live_locker_def)
  have fin: "follows statement_use (live_locker b INSTR_STATEMENT l) (MYSQL_END_STATEMENT b l da) (\<lambda>_. None)" for l
    by (auto simp: event_defs live_locker_def)
  show "follows statement_use None (statement_run b svc key db db_len cs sps src sops da) (\<lambda>_. None)"
    unfolding statement_run_def by (rule follows_bind [OF start follows_bind [OF statement_steps_follow fin]])
next
  let ?val = "\<lambda>v. case v of None \<Rightarrow> None | Some l \<Rightarrow> l"
  have start: "follows transaction_use None (MYSQL_START_TRANSACTION b svc xid trxid level ro ac src)
      (\<lambda>v. live_locker b INSTR_TRANSACTION (?val v))"
    by (auto simp: event_defs live_locker_def)
  have fin: "follows transaction_use (live_locker b INSTR_TRANSACTION l)
      (if commit then MYSQL_COMMIT_TRANSACTION b l else MYSQL_ROLLBACK_TRANSACTION b l) (\<lambda>_. None)" for l
    by (auto simp: event_defs live_locker_def)
  show "follows transaction_use None
      (transaction_run b svc xid trxid level ro ac src tops commit) (\<lambda>_. None)"
    unfolding transaction_run_def by (rule follows_bind [OF start follows_bind [OF transaction_steps_follow fin]])
qed

text \<open>Idle time and table lock waits may be reported around any work that keeps the waits it
  finds open, and nest with the waits of that work.\<close>

lemmas scope_defs = MYSQL_START_IDLE_WAIT_def MYSQL_END_IDLE_WAIT_def MYSQL_START_TABLE_LOCK_WAIT_def
  MYSQL_END_TABLE_LOCK_WAIT_def inline_mysql_start_idle_wait_def inline_mysql_end_idle_wait_def
  inline_mysql_start_table_lock_wait_def inline_mysql_end_table_lock_wait_def

lemma keeps_waits_scope:
  assumes body: "keeps_waits body" and w: "bracket [] (psi_log w) = Some st"
    and e: "\<And>l. opens e l = l" "closes e = None" "\<And>l. opens (f l) None = None" "\<And>l. closes (f l) = l"
  shows "bracket [] (psi_log (snd (run_state body (w\<lparr>psi_log := psi_log w @ [(e, l)]\<rparr>)))
      @ (if l = None then [] else [(f l, None)])) = Some st"
proof -
  let ?st = "case l of None \<Rightarrow> st | Some x \<Rightarrow> x # st"
  have "bracket [] (psi_log (w\<lparr>psi_log := psi_log w @ [(e, l)]\<rparr>)) = Some ?st"
    using w e by (simp add: bracket_append bracket_step_def split: option.split)
  then have "bracket [] (psi_log (snd (run_state body (w\<lparr>psi_log := psi_log w @ [(e, l)]\<rparr>)))) = Some ?st"
    using body unfolding keeps_waits_def by blast
  then show ?thesis using e by (auto simp: bracket_append bracket_step_def split: option.split)
qed

theorem scopes_nest:
  fixes body :: "('o psi_world, 'r) state"
  assumes "keeps_waits body"
  shows "keeps_waits (idle_scope b svc l0 src body)
   \<and> keeps_waits (table_lock_scope b svc l0 psi op flags src body)"
proof (intro conjI)
  have body: "bracket [] (psi_log (snd (run_state body w))) = Some st"
    if "bracket [] (psi_log w) = Some st" for w st
    using assms that by (simp add: keeps_waits_def)
  show "keeps_waits (idle_scope b svc l0 src body)"
    unfolding keeps_waits_def
  proof (intro allI impI)
    fix w :: "'o psi_world" and st assume w: "bracket [] (psi_log w) = Some st"
    show "bracket [] (psi_log (snd (run_state (idle_scope b svc l0 src body) w))) = Some st"
      using keeps_waits_scope [OF assms w, of "PSI_IDLE_CALL (start_idle_wait src)"
          "\<lambda>l. PSI_IDLE_CALL (end_idle_wait l)" "svc (psi_log w) (PSI_IDLE_CALL (start_idle_wait src))"]
        body [OF w]
      by (auto simp: idle_scope_def scope_defs psi_simps case_prod_beta split: if_splits)
  qed
  show "keeps_waits (table_lock_scope b svc l0 psi op flags src body)"
    unfolding keeps_waits_def
  proof (intro allI impI)
    fix w :: "'o psi_world" and st assume w: "bracket [] (psi_log w) = Some st"
    show "bracket [] (psi_log (snd (run_state (table_lock_scope b svc l0 psi op flags src body) w))) = Some st"
      using keeps_waits_scope [OF assms w, of "PSI_TABLE_CALL (start_table_lock_wait psi op flags src)"
          "\<lambda>l. PSI_TABLE_CALL (end_table_lock_wait l)"
          "svc (psi_log w) (PSI_TABLE_CALL (start_table_lock_wait psi op flags src))"]
        body [OF w]
      by (auto simp: table_lock_scope_def scope_defs psi_simps case_prod_beta split: if_splits)
  qed
qed

text \<open>The progress of a stage: the count is the last value set plus what was added since, modulo
  the width of the counter; without a progress the setters do nothing.\<close>

lemma inc_all_work_completed:
  "pm p = Some y \<Longrightarrow>
   \<exists>pm'. foldl (\<lambda>acc n. Option.bind acc (inline_mysql_stage_inc_work_completed (Some p) n)) (Some pm) ns
      = Some pm' \<and> pm' p = Some (y\<lparr>m_work_completed := m_work_completed y + sum_list ns\<rparr>)
      \<and> (\<forall>q. q \<noteq> p \<longrightarrow> pm' q = pm q)"
proof (induction ns arbitrary: pm y)
  case (Cons n ns)
  let ?y = "y\<lparr>m_work_completed := m_work_completed y + n\<rparr>"
  obtain pm' where
    "foldl (\<lambda>acc n. Option.bind acc (inline_mysql_stage_inc_work_completed (Some p) n)) (Some (pm(p \<mapsto> ?y))) ns
      = Some pm'" "pm' p = Some (?y\<lparr>m_work_completed := m_work_completed ?y + sum_list ns\<rparr>)"
    "\<forall>q. q \<noteq> p \<longrightarrow> pm' q = (pm(p \<mapsto> ?y)) q"
    using Cons.IH [of "pm(p \<mapsto> ?y)" ?y, OF fun_upd_same] by blast
  then show ?case
    by (intro exI [of _ pm']) (simp add: inc_work_completed [of pm p y, OF Cons.prems] add.assoc)
qed simp

theorem stage_progress_counts:
  assumes "pm p = Some x"
  shows "\<exists>pm'. Option.bind (inline_mysql_stage_set_work_completed (Some p) v pm)
        (\<lambda>pm. foldl (\<lambda>acc n. Option.bind acc (inline_mysql_stage_inc_work_completed (Some p) n)) (Some pm) ns)
      = Some pm' \<and> inline_mysql_stage_get_work_completed (Some p) pm' = Some (v + sum_list ns)
      \<and> (\<forall>q. q \<noteq> p \<longrightarrow> pm' q = pm q)"
proof -
  obtain pm' where
    "foldl (\<lambda>acc n. Option.bind acc (inline_mysql_stage_inc_work_completed (Some p) n))
        (Some (pm(p \<mapsto> x\<lparr>m_work_completed := v\<rparr>))) ns = Some pm'"
    "pm' p = Some (x\<lparr>m_work_completed := v + sum_list ns\<rparr>)" "\<forall>q. q \<noteq> p \<longrightarrow> pm' q = pm q"
    using inc_all_work_completed [of "pm(p \<mapsto> x\<lparr>m_work_completed := v\<rparr>)" p "x\<lparr>m_work_completed := v\<rparr>" ns,
        OF fun_upd_same] by (simp del: fun_upd_apply) (metis fun_upd_other)
  then show ?thesis
    using assms by (intro exI [of _ pm'])
      (simp add: inline_mysql_stage_set_work_completed_def inline_mysql_stage_get_work_completed_def
        change_progress_def)
qed

end
