(* ===== verification/Agent_Router.thy ===== *)
theory Agent_Router
  imports Agent_Behaviour Agent_Resources
begin

unbundle bit_operations_syntax

text \<open>
  The server as a router. The abstract machine knows three things: which connections are open,
  which connection each name is bound to, and which commands went out. Its actions are what a
  peer can do: connect, register a name, order a command for a name, say something that has no
  effect, hang up. The event loop of \<^verbatim>\<open>main.c\<close>, with its sockets, buffers, SQL statements and epoll
  bookkeeping, is shown to implement it.
\<close>

section \<open>The abstract router\<close>

text \<open>A command in the outbox: the connection it went to, what it says, the bytes \<open>send\<close> took.\<close>

record router =
  conns :: "int set"
  book :: "string \<Rightarrow> int option"
  outbox :: "(int \<times> json \<times> int) list"

datatype action =
    Joins int
  | Registers int string
  | Orders int string json int
  | Ignored int
  | Hangs_up int

fun router_step :: "action \<Rightarrow> router \<Rightarrow> router" where
  "router_step (Joins fd) r = r\<lparr>conns := insert fd (conns r)\<rparr>"
| "router_step (Registers fd mac) r = r\<lparr>book := (book r)(mac \<mapsto> fd)\<rparr>"
| "router_step (Orders fd mac cmd k) r =
     r\<lparr>book := (book r)(''UX_SESSION'' \<mapsto> fd),
       outbox := outbox r @ (case book r mac of None \<Rightarrow> [] | Some agent \<Rightarrow> [(agent, cmd, k)])\<rparr>"
| "router_step (Ignored fd) r = r"
| "router_step (Hangs_up fd) r =
     r\<lparr>conns := conns r - {fd}, book := (\<lambda>m. if book r m = Some fd then None else book r m)\<rparr>"

definition empty_router :: router where
  "empty_router = \<lparr>conns = {}, book = Map.empty, outbox = []\<rparr>"

text \<open>Every name is bound to an open connection.\<close>

definition bound_open :: "router \<Rightarrow> bool" where
  "bound_open r \<longleftrightarrow> ran (book r) \<subseteq> conns r"

section \<open>What the server's state stands for\<close>

fun command_of :: "json_api \<Rightarrow> effect \<Rightarrow> int \<times> json \<times> int" where
  "command_of js (Send fd p len k) =
     (fd, json_tokener_parse js (case p of Lit s \<Rightarrow> s | Owned s \<Rightarrow> s | _ \<Rightarrow> []), k)"
| "command_of js _ = (-1, JNull, 0)"

definition router_of :: "json_api \<Rightarrow> ('db \<Rightarrow> session_row list) \<Rightarrow> ('db, 'z) server_scheme \<Rightarrow> router" where
  "router_of js tbl w = \<lparr>conns = sockets w, book = registry_of tbl w,
     outbox = map (command_of js) (filter is_send (w_log w))\<rparr>"

section \<open>Which event carries which action\<close>

text \<open>Input on one of the connections \<open>C\<close>, and a complete message there.\<close>

definition readable_on :: "int set \<Rightarrow> event \<Rightarrow> answers \<Rightarrow> bool" where
  "readable_on C ev a \<longleftrightarrow> ev_fd ev \<in> C \<and> ev_events ev AND EPOLLERR = 0 \<and>
     ev_events ev AND EPOLLIN \<noteq> 0 \<and> 0 \<le> a_epoll_ctl a"

text \<open>\<open>send\<close> takes something, or fails without the signal; \<open>k\<close> is what it returns.\<close>

definition send_gives :: "send_result \<Rightarrow> int \<Rightarrow> bool" where
  "send_gives r k \<longleftrightarrow>
     r = Sent k \<and> 0 < k \<and> k \<le> INT_MAX \<or> k = -1 \<and> (\<exists>e. r = SendErr e \<and> e \<noteq> EPIPE)"

inductive carries ::
  "json_api \<Rightarrow> (string \<Rightarrow> bool) \<Rightarrow> int \<Rightarrow> int set \<Rightarrow> event \<Rightarrow> answers \<Rightarrow> action \<Rightarrow> bool"
  for js :: json_api and mac_ok :: "string \<Rightarrow> bool" and lfd :: int and C :: "int set" and ev :: event
    and a :: answers
where
  joins: "ev_fd ev = lfd \<Longrightarrow> ev_events ev AND EPOLLERR = 0 \<Longrightarrow> a_accept a = Accepted fd \<Longrightarrow>
    0 \<le> fd \<Longrightarrow> fd < MAXFDS \<Longrightarrow> fd \<noteq> lfd \<Longrightarrow> fd \<notin> C \<Longrightarrow> f_getfl (a_fcntl a) \<noteq> -1 \<Longrightarrow>
    f_setfl (a_fcntl a) \<noteq> -1 \<Longrightarrow> 0 \<le> a_epoll_ctl a \<Longrightarrow> carries js mac_ok lfd C ev a (Joins fd)"
| registers: "readable_on C ev a \<Longrightarrow> arrives a cs m \<Longrightarrow> json_tokener_parse js m = JObject es \<Longrightarrow>
    get_agent_type_loop es = REQ_LINUX_CLAYMORE \<Longrightarrow> last_string ''miner_mac'' es = Some mac \<Longrightarrow>
    mac_ok (c_str mac) \<Longrightarrow> carries js mac_ok lfd C ev a (Registers (ev_fd ev) (c_str mac))"
| orders: "readable_on C ev a \<Longrightarrow> arrives a cs m \<Longrightarrow> json_tokener_parse js m = JObject es \<Longrightarrow>
    download_request es mac file install seqno \<Longrightarrow> mac_ok mac \<Longrightarrow> mac \<noteq> ''UX_SESSION'' \<Longrightarrow>
    a_fs a file = Some bytes \<Longrightarrow> send_gives (a_send a) k \<Longrightarrow>
    carries js mac_ok lfd C ev a (Orders (ev_fd ev) mac
      (JObject (command_entries ''file-download'' file seqno (c_str bytes) install)) k)"
| no_type: "readable_on C ev a \<Longrightarrow> arrives a cs m \<Longrightarrow> json_tokener_parse js m = JObject es \<Longrightarrow>
    get_agent_type_loop es = REQ_INVALID \<Longrightarrow> carries js mac_ok lfd C ev a (Ignored (ev_fd ev))"
| fragment: "readable_on C ev a \<Longrightarrow> a_recv a = [Recv c] \<Longrightarrow> c \<noteq> [] \<Longrightarrow> length c \<le> MAX_RECV_BUFF_SIZE \<Longrightarrow>
    last c \<noteq> NUL \<Longrightarrow> a_slack a (length c) \<noteq> NUL \<Longrightarrow> carries js mac_ok lfd C ev a (Ignored (ev_fd ev))"
| hangs_up: "readable_on C ev a \<Longrightarrow> a_recv a = Recv [] # rs \<Longrightarrow>
    carries js mac_ok lfd C ev a (Hangs_up (ev_fd ev))"

text \<open>The events of a batch carry these actions one after another, and so do the turns of a run.\<close>

fun all_carry ::
  "json_api \<Rightarrow> (string \<Rightarrow> bool) \<Rightarrow> int \<Rightarrow> router \<Rightarrow> (event \<times> answers) list \<Rightarrow> action list \<Rightarrow> bool" where
  "all_carry js mac_ok lfd r [] acts \<longleftrightarrow> acts = []"
| "all_carry js mac_ok lfd r ((ev, a) # evs) [] \<longleftrightarrow> False"
| "all_carry js mac_ok lfd r ((ev, a) # evs) (act # acts) \<longleftrightarrow>
     carries js mac_ok lfd (conns r) ev a act \<and> all_carry js mac_ok lfd (router_step act r) evs acts"

fun turns_carry ::
  "json_api \<Rightarrow> (string \<Rightarrow> bool) \<Rightarrow> int \<Rightarrow> router \<Rightarrow> (session_t \<times> (event \<times> answers) list) list \<Rightarrow>
     action list list \<Rightarrow> bool" where
  "turns_carry js mac_ok lfd r [] actss \<longleftrightarrow> actss = []"
| "turns_carry js mac_ok lfd r ((junk, evs) # turns) [] \<longleftrightarrow> False"
| "turns_carry js mac_ok lfd r ((junk, evs) # turns) (acts # actss) \<longleftrightarrow>
     all_carry js mac_ok lfd r evs acts \<and> turns_carry js mac_ok lfd (fold router_step acts r) turns actss"

text \<open>The invariants the simulation needs and keeps.\<close>

definition routes :: "('db \<Rightarrow> session_row list) \<Rightarrow> ('db \<Rightarrow> bool) \<Rightarrow> int \<Rightarrow> ('db, 'z) server_scheme \<Rightarrow> bool" where
  "routes tbl up lfd w \<longleftrightarrow> server_inv lfd w \<and> db_up up w \<and> registered_open tbl w"

text \<open>
  A run of three turns: an agent connects on descriptor 5; it registers, and the console connects on
  descriptor 6; the console orders a download.
\<close>

definition demo_turns :: "(session_t \<times> (event \<times> answers) list) list" where
  "demo_turns =
     [(blank, [(input_event 4, accepting 5)]),
      (blank, [(input_event 5, receives hello), (input_event 4, accepting 6)]),
      (blank, [(input_event 6, receives (order ''/srv/m''))])]"

definition demo_command :: json where
  "demo_command = JObject (command_entries ''file-download'' ''/srv/m'' 7 (c_str ''#!x'') ''/opt/m'')"

definition demo_actions :: "action list list" where
  "demo_actions = [[Joins 5], [Registers 5 ''00:1b'', Joins 6], [Orders 6 ''00:1b'' demo_command 20]]"

section \<open>Lemmas\<close>

lemma router_of_simps [simp]:
  "conns (router_of js tbl w) = sockets w" "book (router_of js tbl w) = registry_of tbl w"
  "outbox (router_of js tbl w) = map (command_of js) (filter is_send (w_log w))"
  by (simp_all add: router_of_def)

lemma registered_open_router: "registered_open tbl w \<longleftrightarrow> bound_open (router_of js tbl w)"
  by (simp add: registered_open_def bound_open_def)

lemma router_of_frame:
  fixes w v :: "('db, 'z) server_scheme"
  assumes "w_db v = w_db w" and "sockets v = sockets w"
    and "filter is_send (w_log v) = filter is_send (w_log w)"
  shows "router_of js tbl v = router_of js tbl w"
  using assms by (simp add: router_of_def registry_of_def)

lemma readable_on_input:
  "readable_on (sockets w) ev a \<Longrightarrow> arrives a cs m \<Longrightarrow> peer_input w ev a cs m"
  by (simp add: readable_on_def peer_input_def)

lemma router_step_open: 
  assumes "bound_open r" and "carries js mac_ok lfd (conns r) ev a act"
  shows "bound_open (router_step act r)"
  using assms(2,1)
  by (induction rule: carries.induct)
    (auto simp: bound_open_def readable_on_def ran_def split: if_splits)

lemma routes_log [simp]:
  "routes tbl up lfd (emit e w) \<longleftrightarrow> routes tbl up lfd w" "routes tbl up lfd (mj_free p w) \<longleftrightarrow> routes tbl up lfd w"
  "\<not> is_send e \<Longrightarrow> router_of js tbl (emit e w) = router_of js tbl w"
  "router_of js tbl (mj_free p w) = router_of js tbl w"
  by (cases p; simp add: routes_def server_inv_log db_up_def registered_open_def router_of_def registry_of_def)+

lemma server_inv_frame:
  fixes w v :: "('db, 'z) server_scheme"
  assumes "server_inv lfd w" and "epoll_set v = epoll_set w" and "sockets v = sockets w"
    and "global_state v = global_state w"
  shows "server_inv lfd v"
  using assms by (simp add: server_inv_def)

lemma report_peer_connected_sends:
  "filter is_send (w_log (report_peer_connected n w)) = filter is_send (w_log w)"
  by (simp add: report_peer_connected_def split: option.split)

text \<open>A connection is accepted.\<close>

lemma joins_event:
  fixes w :: "('db, 'z) server_scheme"
  assumes "server_inv lfd w" and "ev_fd ev = lfd" and "ev_events ev AND EPOLLERR = 0"
    and "a_accept a = Accepted fd" and "0 \<le> fd" and "fd < MAXFDS" and "fd \<noteq> lfd" and "fd \<notin> sockets w"
    and "f_getfl (a_fcntl a) \<noteq> -1" and "f_setfl (a_fcntl a) \<noteq> -1" and "0 \<le> a_epoll_ctl a"
  shows "\<exists>v. handle_event db js lfd ev a s w = Ok s v \<and> server_inv lfd v \<and> w_db v = w_db w \<and>
    router_of js' tbl v = router_step (Joins fd) (router_of js' tbl w)"
proof -
  obtain v where v: "handle_accept a w = Ok () v" "filter is_send (w_log v) = filter is_send (w_log w)"
    using assms(4,6,9-11)
    by (auto simp: handle_accept_def make_socket_non_blocking_def on_peer_connected_def epoll_add_def
        Let_def report_peer_connected_sends)
  note new = handle_accept_Accepted [OF v(1) assms(4)]
  have "server_inv lfd v" by (rule handle_accept_inv [OF assms(1) v(1)]) (use assms(4-8) in simp)
  moreover have "handle_event db js lfd ev a s w = Ok s v" using assms(2,3) v(1) by (simp add: handle_event_def)
  moreover have "router_of js' tbl v = router_step (Joins fd) (router_of js' tbl w)"
    using new(2,5) v(2) by (simp add: router_of_def registry_of_def)
  ultimately show ?thesis using new(5) by blast
qed

text \<open>Input without a complete message of a known type changes nothing.\<close>

lemma no_type_event:
  fixes w :: "('db, 'z) server_scheme"
  assumes "server_inv lfd w" and "peer_input w ev a cs m" and "json_tokener_parse js m = JObject es"
    and "get_agent_type_loop es = REQ_INVALID"
  shows "\<exists>s' v. handle_event db js lfd ev a s w = Ok s' v \<and> server_inv lfd v \<and> w_db v = w_db w \<and>
    router_of js' tbl v = router_of js' tbl w"
proof -
  let ?w0 = "w\<lparr>w_log := w_log w @ Malloc # prefix_reads 0 cs\<rparr>"
  have j: "parse_string_to_json js (m @ [NUL]) = JObject es"
    using parse_arrived [OF assms(2)] assms(3) by simp
  obtain s1 u where u: "handle_message db js a (ev_fd ev) (m @ [NUL]) s ?w0 = Ok (fd_status_R, s1) u"
      "w_db u = w_db w" "filter is_send (w_log u) = filter is_send (w_log w)"
    using assms(4) j
    by (simp add: handle_message_def Let_def get_agent_type_def fd_status_R_def no_sends)
  obtain v where v: "handle_event db js lfd ev a s w = Ok s1 v" "w_db v = w_db u"
      "w_log v = w_log u @ [EpollMod (ev_fd ev) EPOLLIN]" "epoll_set v = epoll_set w"
      "sockets v = sockets w" "global_state v = global_state w"
    using handle_event_message(1) [OF assms(1,2) u(1)] by blast
  have "router_of js' tbl v = router_of js' tbl w" by (rule router_of_frame) (simp_all add: u v)
  then show ?thesis using v(1,2) u(2) server_inv_frame [OF assms(1) v(4-6)] by auto
qed

lemma fragment_event:
  fixes w :: "('db, 'z) server_scheme"
  assumes "server_inv lfd w" and "readable_on (sockets w) ev a" and "a_recv a = [Recv c]" and "c \<noteq> []"
    and "length c \<le> MAX_RECV_BUFF_SIZE" and "last c \<noteq> NUL" and "a_slack a (length c) \<noteq> NUL"
  shows "\<exists>v. handle_event db js lfd ev a s w = Ok s v \<and> server_inv lfd v \<and> w_db v = w_db w \<and>
    router_of js' tbl v = router_of js' tbl w"
proof -
  have fd: "ev_fd ev \<noteq> lfd" "ev_fd ev < MAXFDS" "ev_fd ev \<in> sockets w"
    using assms(1,2) by (auto simp: server_inv_def readable_on_def)
  let ?w1 = "w\<lparr>w_log := w_log w @ [Malloc, OobRead (length c) (length c)]\<rparr>"
  let ?v = "emit (EpollMod (ev_fd ev) EPOLLIN) (?w1\<lparr>epoll_set := (epoll_set w)(ev_fd ev \<mapsto> EPOLLIN)\<rparr>)"
  have v: "handle_readable db js a (ev_fd ev) s w = Ok s ?v"
    using partial_message_dropped [OF fd(2) assms(3-7), of db js s w] assms(2)
    by (simp add: handle_readable_def epoll_mod_def readable_on_def)
  moreover have "handle_event db js lfd ev a s w = handle_readable db js a (ev_fd ev) s w"
    using assms(2) fd(1) by (simp add: handle_event_def readable_on_def)
  moreover have "router_of js' tbl ?v = router_of js' tbl w" by (rule router_of_frame) simp_all
  ultimately show ?thesis using handle_readable_inv [OF assms(1) fd(3) v] by auto
qed

context mysql_table
begin

text \<open>The peer has closed its end.\<close>

lemma hangs_up_event:
  fixes w :: "('db, 'z) server_scheme"
  assumes "server_inv lfd w" and "db_up up w" and "readable_on (sockets w) ev a" and "a_recv a = Recv [] # rs"
  shows "\<exists>v. handle_event api js lfd ev a s w = Ok s v \<and> server_inv lfd v \<and> db_up up v \<and>
    router_of js' tbl v = router_step (Hangs_up (ev_fd ev)) (router_of js' tbl w)"
proof -
  have fd: "ev_fd ev \<noteq> lfd" "ev_fd ev < MAXFDS" "int32 (ev_fd ev)" "ev_fd ev \<in> sockets w" "0 \<le> a_epoll_ctl a"
    using assms(1,3) by (auto simp: server_inv_def readable_on_def int32_def)
  obtain v where v: "handle_readable api js a (ev_fd ev) s w = Ok s v"
      "w_db v = snd (mysql_query api (w_db w) (delete_fd_sql (ev_fd ev)))"
      "w_log v = w_log w @ [Malloc, Free, Query (delete_fd_sql (ev_fd ev)), EpollDel (ev_fd ev),
        Print (closing_text (ev_fd ev)), CloseFd (ev_fd ev)]" "sockets v = sockets w - {ev_fd ev}"
    using handle_readable_hangup [OF fd(2,3,5) assms(4), of api js s w] by blast
  obtain u where u: "mysql_delete_fd api (ev_fd ev) w = Ok 0 u" "db_up up u"
      "registry_of tbl u = (\<lambda>m. if registry_of tbl w m = Some (ev_fd ev) then None else registry_of tbl w m)"
    using registry.delete_law [OF assms(2) fd(3)] by blast
  have db: "w_db v = w_db u"
    using u(1) v(2) by (auto simp: mysql_delete_fd_def do_query_def ok_iffs split: prod.splits if_splits)
  have "router_of js' tbl v = router_step (Hangs_up (ev_fd ev)) (router_of js' tbl w)"
    using v(3,4) u(3) registry_of_db [OF db] by (simp add: router_of_def cong: if_cong)
  moreover have "handle_event api js lfd ev a s w = Ok s v"
    using assms(3) fd(1) v(1) by (simp add: handle_event_def readable_on_def)
  ultimately show ?thesis
    using handle_readable_inv [OF assms(1) fd(4) v(1)] u(2) db_up_db [OF db] by blast
qed

text \<open>An agent says its name.\<close>

lemma registers_event:
  fixes w :: "('db, 'z) server_scheme"
  assumes "server_inv lfd w" and "db_up up w" and "peer_input w ev a cs m"
    and "json_tokener_parse js m = JObject es" and "get_agent_type_loop es = REQ_LINUX_CLAYMORE"
    and "last_string ''miner_mac'' es = Some mac" and "mac_ok (c_str mac)"
  shows "\<exists>s' v. handle_event api js lfd ev a s w = Ok s' v \<and> server_inv lfd v \<and> db_up up v \<and>
    router_of js' tbl v = router_step (Registers (ev_fd ev) (c_str mac)) (router_of js' tbl w)"
proof -
  obtain s' v qs where v: "handle_event api js lfd ev a s w = Ok s' v" "db_up up v"
      "registry_of tbl v = (registry_of tbl w)(c_str mac \<mapsto> ev_fd ev)"
      "epoll_set v = epoll_set w" "sockets v = sockets w" "global_state v = global_state w"
    and log: "w_log v = w_log w @ Malloc # prefix_reads 0 cs @ [JsonNew] @ map Query qs @
      [Free, JsonPut, EpollMod (ev_fd ev) EPOLLIN]"
    using registration_event [OF assms, of s] by blast
  have "router_of js' tbl v = router_step (Registers (ev_fd ev) (c_str mac)) (router_of js' tbl w)"
    using v(3,5) by (simp add: router_of_def log no_sends)
  then show ?thesis using v(1,2) server_inv_frame [OF assms(1) v(4-6)] by blast
qed

text \<open>The console orders a command.\<close>

lemma orders_event:
  fixes w :: "('db, 'z) server_scheme"
  assumes "json_lib js" and "server_inv lfd w" and "db_up up w" and "registered_open tbl w"
    and "peer_input w ev a cs m" and "json_tokener_parse js m = JObject es"
    and "download_request es mac file install seqno" and "mac_ok mac" and "mac \<noteq> ''UX_SESSION''"
    and "a_fs a file = Some bytes" and "send_gives (a_send a) k"
  shows "\<exists>s' v. handle_event api js lfd ev a s w = Ok s' v \<and> server_inv lfd v \<and> db_up up v \<and>
    router_of js tbl v = router_step (Orders (ev_fd ev) mac
      (JObject (command_entries ''file-download'' file seqno (c_str bytes) install)) k) (router_of js tbl w)"
proof -
  let ?w1 = "ux_world w cs es" and ?s = "ux_session es (ev_fd ev) s"
  let ?cmd = "JObject (command_entries ''file-download'' file seqno (c_str bytes) install)"
  note s = download_session [OF assms(7), of "s\<lparr>s_fd := ev_fd ev, agent_type := REQ_UX\<rparr>", folded ux_session_def]
  have fd: "int32 (s_fd ?s)" using peer_fd [OF assms(2,5)] by simp
  have up: "db_up up ?w1" and t: "get_agent_type_loop es = REQ_UX"
    using assms(3,7) by (simp_all add: download_request_def)
  have "\<exists>r w2. ux_request api js a ?s ?w1 = Ok r w2 \<and>
      map (command_of js) (filter is_send (w_log w2)) = map (command_of js) (filter is_send (w_log w)) @
        (case registry_of tbl w mac of None \<Rightarrow> [] | Some agent \<Rightarrow> [(agent, ?cmd, k)])"
  proof (cases "registry_of tbl w mac")
    case None
    then show ?thesis
      using ux_request_not_found [OF up fd s(1), of js a] assms(8,9) s(2) by (auto simp: no_sends)
  next
    case (Some agent)
    then have agent: "0 \<le> agent"
      using assms(2,4) by (auto simp: server_inv_def registered_open_def ran_def)
    have snd: "sendable (a_fs a) ?s" using s assms(10) by (simp add: sendable_def)
    obtain w2 qs msg where "ux_request api js a ?s ?w1 = Ok UX_sent w2"
      "w_log w2 = w_log ?w1 @ map Query qs @ delivery_log mac file bytes msg agent k"
      "json_tokener_parse js msg = ?cmd"
      using ux_request_found [OF assms(1) up fd s(1) _ _ _ agent snd _ s(10), of bytes k]
        assms(8-11) Some s(2,6,8,9) by (auto simp: send_gives_def)
    then show ?thesis using Some by (auto simp: delivery_log_def no_sends)
  qed
  then obtain r w2 where ux: "ux_request api js a ?s ?w1 = Ok r w2"
    and sent: "map (command_of js) (filter is_send (w_log w2)) = map (command_of js) (filter is_send (w_log w)) @
        (case registry_of tbl w mac of None \<Rightarrow> [] | Some agent \<Rightarrow> [(agent, ?cmd, k)])" by blast
  obtain s' v where v: "handle_event api js lfd ev a s w = Ok s' v" "w_db v = w_db w2"
      "w_log v = w_log w2 @ [Free, JsonPut, EpollMod (ev_fd ev) EPOLLIN]" "epoll_set v = epoll_set w"
      "sockets v = sockets w" "global_state v = global_state w"
    using ux_event(1) [OF assms(2,5,6) t ux] by blast
  have "db_up up v" "registry_of tbl v = (registry_of tbl w)(''UX_SESSION'' \<mapsto> ev_fd ev)"
    using ux_request_registry [OF up fd _ ux] assms(8) s(2) registry_of_db [OF v(2)] db_up_db [OF v(2)] by simp_all
  then show ?thesis
    using v server_inv_frame [OF assms(2) v(4-6)] sent by (simp add: router_of_def)
qed

text \<open>One event, whatever it carries, is one step of the router.\<close>

lemma carries_event:
  fixes w :: "('db, 'z) server_scheme"
  assumes "json_lib js" and "routes tbl up lfd w" and "carries js mac_ok lfd (sockets w) ev a act"
  shows "\<exists>s' v. handle_event api js lfd ev a s w = Ok s' v \<and> routes tbl up lfd v \<and>
    router_of js tbl v = router_step act (router_of js tbl w)"
proof -
  have inv: "server_inv lfd w" "db_up up w" "registered_open tbl w" using assms(2) by (simp_all add: routes_def)
  from assms(3) have "\<exists>s' v. handle_event api js lfd ev a s w = Ok s' v \<and> server_inv lfd v \<and> db_up up v \<and>
    router_of js tbl v = router_step act (router_of js tbl w)"
  proof cases
    case (joins fd)
    then show ?thesis
      using joins_event [OF inv(1) joins(2-11), of api js s js tbl] inv(2) db_up_db by blast
  next
    case (registers cs m es mac)
    then show ?thesis
      using registers_event [OF inv(1,2) readable_on_input [OF registers(2,3)] registers(4-7)] by blast
  next
    case (orders cs m es mac f install seqno bytes k)
    then show ?thesis
      using orders_event [OF assms(1) inv readable_on_input [OF orders(2,3)] orders(4-9)] by blast
  next
    case (no_type cs m es)
    then show ?thesis
      using no_type_event [OF inv(1) readable_on_input [OF no_type(2,3)] no_type(4,5), of api s js tbl]
        inv(2) by (auto simp: db_up_def)
  next
    case (fragment c)
    then show ?thesis
      using fragment_event [OF inv(1) fragment(2-7), of api js s js tbl] inv(2) by (auto simp: db_up_def)
  next
    case (hangs_up rs)
    then show ?thesis using hangs_up_event [OF inv(1,2) hangs_up(2,3)] by blast
  qed
  then obtain s' v where v: "handle_event api js lfd ev a s w = Ok s' v" "server_inv lfd v" "db_up up v"
      "router_of js tbl v = router_step act (router_of js tbl w)" by blast
  have "registered_open tbl v"
    using router_step_open [of "router_of js tbl w" js mac_ok lfd ev a act] inv(3) assms(3) v(4)
    by (simp add: registered_open_router [of tbl _ js])
  with v show ?thesis by (auto simp: routes_def)
qed

lemma handle_events_routes:
  fixes w :: "('db, 'z) server_scheme"
  assumes "json_lib js" and "routes tbl up lfd w" and "all_carry js mac_ok lfd (router_of js tbl w) evs acts"
  shows "\<exists>s' v. handle_events api js lfd evs s w = Ok s' v \<and> routes tbl up lfd v \<and>
    router_of js tbl v = fold router_step acts (router_of js tbl w)"
  using assms(2,3)
proof (induction evs arbitrary: acts s w)
  case (Cons e evs)
  obtain ev a where e: "e = (ev, a)" by fastforce
  obtain act acts' where acts: "acts = act # acts'" "carries js mac_ok lfd (sockets w) ev a act"
      "all_carry js mac_ok lfd (router_step act (router_of js tbl w)) evs acts'"
    using Cons.prems(2) by (cases acts) (auto simp: e)
  obtain s1 w1 where 1: "handle_event api js lfd ev a s w = Ok s1 w1" "routes tbl up lfd w1"
      "router_of js tbl w1 = router_step act (router_of js tbl w)"
    using carries_event [OF assms(1) Cons.prems(1) acts(2)] by blast
  show ?case using Cons.IH [OF 1(2), of acts' s1] acts(1,3) 1 by (simp add: e)
qed simp

lemma main_loop_routes:
  fixes w :: "('db, 'z) server_scheme"
  assumes "json_lib js" and "routes tbl up lfd w" and "turns_carry js mac_ok lfd (router_of js tbl w) turns actss"
  shows "\<exists>v. main_loop api js lfd turns w = Ok () v \<and> routes tbl up lfd v \<and>
    router_of js tbl v = fold router_step (concat actss) (router_of js tbl w)"
  using assms(2,3)
proof (induction turns arbitrary: actss w)
  case (Cons t turns)
  obtain junk evs where t: "t = (junk, evs)" by fastforce
  obtain acts actss' where acts: "actss = acts # actss'" "all_carry js mac_ok lfd (router_of js tbl w) evs acts"
      "turns_carry js mac_ok lfd (fold router_step acts (router_of js tbl w)) turns actss'"
    using Cons.prems(2) by (cases actss) (auto simp: t)
  obtain s1 w1 where 1: "handle_events api js lfd evs (malloc_session junk) (emit Malloc w) = Ok s1 w1"
      "routes tbl up lfd w1" "router_of js tbl w1 = fold router_step acts (router_of js tbl w)"
    using handle_events_routes [OF assms(1), of lfd "emit Malloc w" evs acts "malloc_session junk"]
      Cons.prems(1) acts(2) by auto
  obtain v where "main_loop api js lfd turns (mj_free (Some s1) w1) = Ok () v" "routes tbl up lfd v"
      "router_of js tbl v = fold router_step (concat actss') (router_of js tbl w1)"
    using Cons.IH [of "mj_free (Some s1) w1" actss'] 1(2,3) acts(3) by auto
  then show ?case using 1(1,3) acts(1) by (intro exI [of _ v]) (simp add: t loop_turn_def)
qed simp

end

lemma boot_routes:
  assumes "up d" and "tbl d = []" and "main_start st argv (boot d) = Ok (Some lfd) w"
  shows "routes tbl up lfd w" "router_of js tbl w = empty_router"
proof -
  note start = main_start_Ok [OF assms(3)]
  show "routes tbl up lfd w"
    using start assms(1,2)
    by (auto simp: routes_def server_inv_def boot_def db_up_def registered_open_def registry_of_def ran_def)
  have "filter is_send (w_log w) = []"
    using assms(3)
    by (auto simp: main_start_def mysql_conn_def listen_inet_socket_def make_socket_non_blocking_def
        Let_def boot_def ok_iffs split: if_splits)
  then show "router_of js tbl w = empty_router"
    using start assms(2) by (auto simp: router_of_def registry_of_def boot_def empty_router_def)
qed

lemma main_routes:
  assumes "mysql_table db tbl up mac_ok" and "json_lib js" and "up d" and "tbl d = []"
    and "main_start st argv (boot d) = Ok (Some lfd) w"
    and "turns_carry js mac_ok lfd empty_router turns actss"
  shows "\<exists>v. main_loop db js lfd turns w = Ok () v \<and> routes tbl up lfd v \<and>
    router_of js tbl v = fold router_step (concat actss) empty_router"
proof -
  have "routes tbl up lfd w" and empty: "router_of js tbl w = empty_router"
    using boot_routes(1) [of up d tbl st argv lfd w] boot_routes(2) [of up d tbl st argv lfd w js] assms(3-5)
    by simp_all
  then show ?thesis
    using mysql_table.main_loop_routes [OF assms(1,2), of lfd w turns actss] assms(6) by simp
qed

subsection \<open>Whom an order reaches\<close>

text \<open>
  The actions that take a name away from the connection it is bound to: another connection
  registers it, or the connection hangs up.
\<close>

lemma book_kept:
  assumes "book r mac = Some fd" and "mac \<noteq> ''UX_SESSION''" and "Hangs_up fd \<notin> set acts"
    and "\<And>fd'. Registers fd' mac \<notin> set acts"
  shows "book (fold router_step acts r) mac = Some fd"
  using assms(1,3,4)
proof (induction acts arbitrary: r)
  case (Cons act acts)
  have "book (router_step act r) mac = Some fd"
    using Cons.prems assms(2) by (cases act) auto
  with Cons show ?case by simp
qed simp

lemma book_lost:
  assumes "book r mac = None" and "mac \<noteq> ''UX_SESSION''" and "\<And>fd'. Registers fd' mac \<notin> set acts"
  shows "book (fold router_step acts r) mac = None"
  using assms(1,3)
proof (induction acts arbitrary: r)
  case (Cons act acts)
  have "book (router_step act r) mac = None"
    using Cons.prems assms(2) by (cases act) auto
  with Cons show ?case by simp
qed simp

lemma outbox_grows: "\<exists>more. outbox (fold router_step acts r) = outbox r @ more"
proof (induction acts arbitrary: r)
  case (Cons act acts)
  have "\<exists>more. outbox (router_step act r) = outbox r @ more" by (cases act) auto
  with Cons [of "router_step act r"] show ?case by auto
qed simp

text \<open>
  The router itself: an order reaches the connection that registered the name last, as long as that
  connection has not hung up since.
\<close>

lemma order_follows_registration:
  assumes "acts = before @ Registers fd mac # between @ Orders c mac cmd k # after"
    and "mac \<noteq> ''UX_SESSION''" and "Hangs_up fd \<notin> set between" and "\<And>fd'. Registers fd' mac \<notin> set between"
  shows "\<exists>later. outbox (fold router_step acts r) =
    outbox (fold router_step (before @ Registers fd mac # between) r) @ (fd, cmd, k) # later"
proof -
  let ?r = "fold router_step (before @ Registers fd mac # between) r"
  have "book ?r mac = Some fd"
    using book_kept [of "router_step (Registers fd mac) (fold router_step before r)", OF _ assms(2-4)] by simp
  then have "outbox (router_step (Orders c mac cmd k) ?r) = outbox ?r @ [(fd, cmd, k)]" by simp
  then show ?thesis using outbox_grows [of after "router_step (Orders c mac cmd k) ?r"] assms(1) by auto
qed

subsection \<open>The example run\<close>

lemma receives_arrives: "nul_free m \<Longrightarrow> length m < 256 \<Longrightarrow> arrives (receives m) [m @ [NUL]] m"
  using peer_input_receives [of 5 m "[]"] by (simp add: peer_input_def)

lemma accepting_carries:
  "0 \<le> fd \<Longrightarrow> fd < MAXFDS \<Longrightarrow> fd \<noteq> 4 \<Longrightarrow> fd \<notin> C \<Longrightarrow>
     carries js mac_ok 4 C (input_event 4) (accepting fd) (Joins fd)"
  by (rule carries.joins) (simp_all add: input_event_def accepting_def quiet_def)

lemma hello_carries:
  assumes "5 \<in> C"
  shows "carries ref_json ref_mac_ok 4 C (input_event 5) (receives hello) (Registers 5 ''00:1b'')"
proof -
  have on: "readable_on C (input_event 5) (receives hello)"
    using assms by (simp add: readable_on_def input_event_def receives_def quiet_def)
  have "arrives (receives hello) [hello @ [NUL]] hello" using hello_input [of "[]"] by (simp add: peer_input_def)
  from carries.registers [where mac_ok = ref_mac_ok, OF on this hello_parses hello_type hello_mac ref_mac_ok_demo, of 4]
  show ?thesis by (simp add: input_event_def)
qed

lemma order_carries:
  assumes "6 \<in> C"
  shows "carries ref_json ref_mac_ok 4 C (input_event 6) (receives (order ''/srv/m''))
    (Orders 6 ''00:1b'' demo_command 20)"
proof -
  have on: "readable_on C (input_event 6) (receives (order ''/srv/m''))"
    using assms by (simp add: readable_on_def input_event_def receives_def quiet_def)
  have "arrives (receives (order ''/srv/m'')) [order ''/srv/m'' @ [NUL]] (order ''/srv/m'')"
    using order_input [of "[]"] by (simp add: peer_input_def)
  from carries.orders [where mac_ok = ref_mac_ok, OF on this order_parses [OF demo_facts(7)] order_request [OF demo_facts(7)]
      demo_facts(1,2) receives_simps(2), of 20 4]
  show ?thesis by (simp add: input_event_def send_gives_def demo_command_def)
qed

lemma demo_carries: "turns_carry ref_json ref_mac_ok 4 empty_router demo_turns demo_actions"
  by (simp add: demo_turns_def demo_actions_def empty_router_def accepting_carries hello_carries order_carries)

section \<open>Properties\<close>

text \<open>
  C1. The server is a router. Started on an empty session table, and run for any number of turns whose
  events carry connections, registrations, orders, unintelligible input and hang-ups in any
  order, the event loop comes back, and its open connections, its session table and the
  commands it has sent are those of the abstract router after the same actions.
\<close>

theorem server_is_router:
  assumes "mysql_table db tbl up mac_ok" and "json_lib js" and "up d" and "tbl d = []"
    and "main_start st argv (boot d) = Ok (Some lfd) w"
    and "turns_carry js mac_ok lfd empty_router turns actss"
  shows "\<exists>v. main_loop db js lfd turns w = Ok () v \<and>
    router_of js tbl v = fold router_step (concat actss) empty_router \<and> server_inv lfd v"
  using main_routes [OF assms] by (auto simp: routes_def)

theorem server_is_router_witness:
  "\<exists>v. main_loop ref_mysql ref_json 4 demo_turns (started empty_db) = Ok () v \<and>
     router_of ref_json rows v = fold router_step (concat demo_actions) empty_router \<and> server_inv 4 v"
  by (rule server_is_router [OF ref_mysql.mysql_table_axioms ref_json.json_lib_axioms _ _ main_start_started
        demo_carries]) (simp_all add: empty_db_def ref_up_def)

text \<open>
  C2. An order reaches the right agent: in a run of the server, whatever else happens before, between
  and after, a command ordered for a name goes out on the connection that registered
  the name last, as long as that connection has not hung up since; and it goes out after
  exactly the commands that were ordered before it.
\<close>

theorem order_reaches_registrant:
  assumes "mysql_table db tbl up mac_ok" and "json_lib js" and "up d" and "tbl d = []"
    and "main_start st argv (boot d) = Ok (Some lfd) w"
    and "turns_carry js mac_ok lfd empty_router turns actss"
    and "concat actss = before @ Registers fd mac # between @ Orders c mac cmd k # after"
    and "mac \<noteq> ''UX_SESSION''" and "Hangs_up fd \<notin> set between" and "\<And>fd'. Registers fd' mac \<notin> set between"
  shows "\<exists>v later. main_loop db js lfd turns w = Ok () v \<and>
    map (command_of js) (filter is_send (w_log v)) =
      outbox (fold router_step (before @ Registers fd mac # between) empty_router) @ (fd, cmd, k) # later"
proof -
  obtain v where v: "main_loop db js lfd turns w = Ok () v"
      "router_of js tbl v = fold router_step (concat actss) empty_router"
    using main_routes [OF assms(1-6)] by blast
  obtain later where "outbox (fold router_step (concat actss) empty_router) =
      outbox (fold router_step (before @ Registers fd mac # between) empty_router) @ (fd, cmd, k) # later"
    using order_follows_registration [OF assms(7-10)] by blast
  moreover have "map (command_of js) (filter is_send (w_log v)) = outbox (fold router_step (concat actss) empty_router)"
    using v(2) router_of_simps(3) by metis
  ultimately show ?thesis using v(1) by (intro exI [of _ v] exI [of _ later]) (simp only: simp_thms)
qed

theorem order_reaches_registrant_witness:
  "\<exists>v later. main_loop ref_mysql ref_json 4 demo_turns (started empty_db) = Ok () v \<and>
    map (command_of ref_json) (filter is_send (w_log v)) =
      outbox (fold router_step ([Joins 5] @ Registers 5 ''00:1b'' # [Joins 6]) empty_router) @
        (5, demo_command, 20) # later"
  by (rule order_reaches_registrant [OF ref_mysql.mysql_table_axioms ref_json.json_lib_axioms _ _ main_start_started
        demo_carries, where after = "[]" and c = 6]) (simp_all add: empty_db_def ref_up_def demo_actions_def)

end
