(* ===== verification/Agent_Outage.thy ===== *)
theory Agent_Outage
  imports Agent_Router
begin

unbundle bit_operations_syntax

text \<open>
  The server when the database connection is gone. \<^verbatim>\<open>main.c\<close> connects once, before the loop, and \<^verbatim>\<open>log.c\<close>
  never reconnects, so from then on every \<open>mysql_query\<close> fails. The loop goes on serving
  connections, but no name is stored or found and no command goes out.
\<close>

section \<open>Definitions\<close>

text \<open>A connection that was lost: every statement fails, and names still fit the statements.\<close>

locale lost_connection =
  fixes api :: "'db mysql_api"
    and mac_ok :: "string \<Rightarrow> bool"
  assumes query_fails: "fst (mysql_query api d q) \<noteq> 0"
    and mac_ok_text: "mac_ok m \<Longrightarrow> length m \<le> 172"

text \<open>The stand-in of \<open>Agent_Reference\<close> after the connection broke.\<close>

definition lost_mysql :: "ref_db mysql_api" where
  "lost_mysql = ref_mysql\<lparr>mysql_query := (\<lambda>d q. (1, d))\<rparr>"

section \<open>Lemmas\<close>

interpretation lost: lost_connection lost_mysql ref_mac_ok
  by unfold_locales (simp_all add: lost_mysql_def ref_mysql.mac_ok_text)

context lost_connection
begin

lemma insert_fails:
  assumes "readable p" and "length (ptr_text p) \<le> 172" and "int32 fd"
  shows "\<exists>v. mysql_insert_fd api p fd t w = Ok (-2) v"
proof -
  have "length (insert_sql (ptr_text p) fd (agent_type_code t)) < QUERY_LEN"
    "length (update_sql fd (agent_type_code t) (ptr_text p)) < QUERY_LEN"
    using assms(2) length_fmt_d [OF assms(3)] by (simp_all add: length_sql)
  then show ?thesis
    using assms(1) query_fails
    by (auto simp: mysql_insert_fd_def do_query_def split: prod.split) (metis fst_conv)+
qed

lemma select_fails:
  assumes "readable p" and "mac_ok (ptr_text p)"
  shows "\<exists>v. mysql_select_fd api p w = Ok (-3) v \<and> w_log v = w_log w @ [Query (select_fd_sql (ptr_text p))]"
proof -
  have "length (select_fd_sql (ptr_text p)) < QUERY_LEN"
    using mac_ok_text [OF assms(2)] by (simp add: length_sql)
  then show ?thesis
    using assms(1) query_fails
    by (auto simp: mysql_select_fd_def select_first_int_def do_query_def split: prod.split) (metis fst_conv)+
qed

lemma ux_request_lost:
  fixes w :: "('db, 'z) world_scheme"
  assumes "readable (miner_mac s)" and "mac_ok (ptr_text (miner_mac s))" and "int32 (s_fd s)"
  shows "\<exists>v qs. ux_request api js a s w = Ok UX_not_found v \<and> w_log v = w_log w @ map Query qs"
proof -
  obtain w1 where 1: "mysql_insert_fd api (Lit ''UX_SESSION'') (s_fd s) REQ_UX w = Ok (-2) w1"
    using insert_fails [of "Lit ''UX_SESSION''" "s_fd s" REQ_UX w] assms(3) by auto
  obtain w2 where 2: "mysql_select_fd api (miner_mac s) w1 = Ok (-3) w2"
      "w_log w2 = w_log w1 @ [Query (select_fd_sql (ptr_text (miner_mac s)))]"
    using select_fails [OF assms(1,2)] by blast
  obtain qs where "w_log w1 = w_log w @ map Query qs" using mysql_insert_fd_log [OF 1] by blast
  then have "w_log w2 = w_log w @ map Query (qs @ [select_fd_sql (ptr_text (miner_mac s))])" using 2(2) by simp
  moreover have "ux_request api js a s w = Ok UX_not_found w2" using 1 2(1) by (simp add: ux_request_def)
  ultimately show ?thesis by blast
qed

lemma registers_lost:
  fixes w :: "('db, 'z) server_scheme"
  assumes "server_inv lfd w" and "peer_input w ev a cs m" and "json_tokener_parse js m = JObject es"
    and "get_agent_type_loop es = REQ_LINUX_CLAYMORE" and "last_string ''miner_mac'' es = Some mac"
    and "mac_ok (c_str mac)"
  shows "\<exists>s' v. handle_event api js lfd ev a s w = Ok s' v \<and> server_inv lfd v \<and> sockets v = sockets w \<and>
    filter is_send (w_log v) = filter is_send (w_log w)"
proof -
  let ?w0 = "w\<lparr>w_log := w_log w @ Malloc # prefix_reads 0 cs\<rparr>"
  have j: "parse_string_to_json js (m @ [NUL]) = JObject es"
    using parse_arrived [OF assms(2)] assms(3) by simp
  obtain w1 where 1: "mysql_insert_fd api (Owned mac) (ev_fd ev) REQ_LINUX_CLAYMORE (emit JsonNew ?w0) = Ok (-2) w1"
    using insert_fails [of "Owned mac" "ev_fd ev"] mac_ok_text [OF assms(6)] peer_fd [OF assms(1,2)] by auto
  obtain qs where qs: "w_log w1 = w_log (emit JsonNew ?w0) @ map Query qs" using mysql_insert_fd_log [OF 1] by blast
  obtain s' v where v: "handle_event api js lfd ev a s w = Ok s' v"
      "w_log v = w_log w1 @ [Free, JsonPut, EpollMod (ev_fd ev) EPOLLIN]" "epoll_set v = epoll_set w"
      "sockets v = sockets w" "global_state v = global_state w"
    using handle_event_message(1) [OF assms(1,2)]
      handle_message_linux [OF j assms(4,5), of api a "ev_fd ev" s ?w0] 1 by (fastforce simp: Let_def)
  then show ?thesis
    using server_inv_frame [OF assms(1) v(3-5)]
    by (intro exI [of _ s'] exI [of _ v]) (simp add: qs no_sends)
qed

lemma orders_lost:
  fixes w :: "('db, 'z) server_scheme"
  assumes "server_inv lfd w" and "peer_input w ev a cs m" and "json_tokener_parse js m = JObject es"
    and "download_request es mac file install seqno" and "mac_ok mac"
  shows "\<exists>s' v. handle_event api js lfd ev a s w = Ok s' v \<and> server_inv lfd v \<and> sockets v = sockets w \<and>
    filter is_send (w_log v) = filter is_send (w_log w)"
proof -
  note s = download_session [OF assms(4), of "s\<lparr>s_fd := ev_fd ev, agent_type := REQ_UX\<rparr>", folded ux_session_def]
  have t: "get_agent_type_loop es = REQ_UX" using assms(4) by (simp add: download_request_def)
  obtain w2 qs where ux: "ux_request api js a (ux_session es (ev_fd ev) s) (ux_world w cs es) = Ok UX_not_found w2"
    and log: "w_log w2 = w_log (ux_world w cs es) @ map Query qs"
    using ux_request_lost [of "ux_session es (ev_fd ev) s" js a "ux_world w cs es"] s(1,2) assms(5)
      peer_fd [OF assms(1,2)] by auto
  obtain s' v where v: "handle_event api js lfd ev a s w = Ok s' v"
      "w_log v = w_log w2 @ [Free, JsonPut, EpollMod (ev_fd ev) EPOLLIN]" "epoll_set v = epoll_set w"
      "sockets v = sockets w" "global_state v = global_state w"
    using ux_event(1) [OF assms(1-3) t ux] by blast
  then show ?thesis
    using server_inv_frame [OF assms(1) v(3-5)]
    by (intro exI [of _ s'] exI [of _ v]) (simp add: log no_sends)
qed

lemma hangs_up_lost:
  fixes w :: "('db, 'z) server_scheme"
  assumes "server_inv lfd w" and "readable_on (sockets w) ev a" and "a_recv a = Recv [] # rs"
  shows "\<exists>v. handle_event api js lfd ev a s w = Ok s v \<and> server_inv lfd v \<and>
    sockets v = sockets w - {ev_fd ev} \<and> filter is_send (w_log v) = filter is_send (w_log w)"
proof -
  have fd: "ev_fd ev \<noteq> lfd" "ev_fd ev < MAXFDS" "int32 (ev_fd ev)" "ev_fd ev \<in> sockets w" "0 \<le> a_epoll_ctl a"
    using assms(1,2) by (auto simp: server_inv_def readable_on_def int32_def)
  obtain v where v: "handle_readable api js a (ev_fd ev) s w = Ok s v" "sockets v = sockets w - {ev_fd ev}"
      "filter is_send (w_log v) = filter is_send (w_log w)"
    using handle_readable_hangup [OF fd(2,3,5) assms(3), of api js s w] by auto
  moreover have "handle_event api js lfd ev a s w = Ok s v"
    using assms(2) fd(1) v(1) by (simp add: handle_event_def readable_on_def)
  ultimately show ?thesis using handle_readable_inv [OF assms(1) fd(4) v(1)] by blast
qed

text \<open>One event: the connections are the router's, and nothing is sent.\<close>

lemma carries_lost:
  fixes w :: "('db, 'z) server_scheme"
  assumes "server_inv lfd w" and "conns r = sockets w" and "carries js mac_ok lfd (sockets w) ev a act"
  shows "\<exists>s' v. handle_event api js lfd ev a s w = Ok s' v \<and> server_inv lfd v \<and>
    sockets v = conns (router_step act r) \<and>
    map (command_of js) (filter is_send (w_log v)) = map (command_of js) (filter is_send (w_log w))"
  using assms(3)
proof cases
  case (joins fd)
  obtain v where "handle_event api js lfd ev a s w = Ok s v" "server_inv lfd v"
    "router_of js (\<lambda>_. []) v = router_step (Joins fd) (router_of js (\<lambda>_. []) w)"
    using joins_event [OF assms(1) joins(2-11), of api js s js "\<lambda>_. []"] by blast
  then show ?thesis using joins(1) assms(2) by (intro exI [of _ s] exI [of _ v]) (simp add: router_of_def)
next
  case (registers cs m es mac)
  then show ?thesis
    using registers_lost [OF assms(1) readable_on_input [OF registers(2,3)] registers(4-7), of s] assms(2) by auto
next
  case (orders cs m es mac f install seqno bytes k)
  then show ?thesis
    using orders_lost [OF assms(1) readable_on_input [OF orders(2,3)] orders(4-6), of s] assms(2) by auto
next
  case (no_type cs m es)
  obtain s' v where "handle_event api js lfd ev a s w = Ok s' v" "server_inv lfd v"
    "router_of js (\<lambda>_. []) v = router_of js (\<lambda>_. []) w"
    using no_type_event [OF assms(1) readable_on_input [OF no_type(2,3)] no_type(4,5), of api s js "\<lambda>_. []"] by blast
  then show ?thesis using no_type(1) assms(2) by (intro exI [of _ s'] exI [of _ v]) (simp add: router_of_def)
next
  case (fragment c)
  obtain v where "handle_event api js lfd ev a s w = Ok s v" "server_inv lfd v"
    "router_of js (\<lambda>_. []) v = router_of js (\<lambda>_. []) w"
    using fragment_event [OF assms(1) fragment(2-7), of api js s js "\<lambda>_. []"] by blast
  then show ?thesis using fragment(1) assms(2) by (intro exI [of _ s] exI [of _ v]) (simp add: router_of_def)
next
  case (hangs_up rs)
  then show ?thesis using hangs_up_lost [OF assms(1) hangs_up(2,3), of js s] assms(2) by auto
qed

lemma handle_events_lost:
  fixes w :: "('db, 'z) server_scheme"
  assumes "server_inv lfd w" and "conns r = sockets w" and "all_carry js mac_ok lfd r evs acts"
  shows "\<exists>s' v. handle_events api js lfd evs s w = Ok s' v \<and> server_inv lfd v \<and>
    sockets v = conns (fold router_step acts r) \<and>
    map (command_of js) (filter is_send (w_log v)) = map (command_of js) (filter is_send (w_log w))"
  using assms
proof (induction evs arbitrary: acts r s w)
  case (Cons e evs)
  obtain ev a where e: "e = (ev, a)" by fastforce
  obtain act acts' where acts: "acts = act # acts'" "carries js mac_ok lfd (sockets w) ev a act"
      "all_carry js mac_ok lfd (router_step act r) evs acts'"
    using Cons.prems(2,3) by (cases acts) (auto simp: e)
  obtain s1 w1 where 1: "handle_event api js lfd ev a s w = Ok s1 w1" "server_inv lfd w1"
      "conns (router_step act r) = sockets w1"
      "map (command_of js) (filter is_send (w_log w1)) = map (command_of js) (filter is_send (w_log w))"
    using carries_lost [OF Cons.prems(1,2) acts(2), of s] by auto
  show ?case using Cons.IH [OF 1(2,3) acts(3), of s1] acts(1) 1(1,4) by (simp add: e)
qed simp

lemma main_loop_lost:
  fixes w :: "('db, 'z) server_scheme"
  assumes "server_inv lfd w" and "conns r = sockets w" and "turns_carry js mac_ok lfd r turns actss"
  shows "\<exists>v. main_loop api js lfd turns w = Ok () v \<and> server_inv lfd v \<and>
    sockets v = conns (fold router_step (concat actss) r) \<and>
    map (command_of js) (filter is_send (w_log v)) = map (command_of js) (filter is_send (w_log w))"
  using assms
proof (induction turns arbitrary: actss r w)
  case (Cons t turns)
  obtain junk evs where t: "t = (junk, evs)" by fastforce
  obtain acts actss' where acts: "actss = acts # actss'" "all_carry js mac_ok lfd r evs acts"
      "turns_carry js mac_ok lfd (fold router_step acts r) turns actss'"
    using Cons.prems(3) by (cases actss) (auto simp: t)
  obtain s1 w1 where 1: "handle_events api js lfd evs (malloc_session junk) (emit Malloc w) = Ok s1 w1"
      "server_inv lfd (mj_free (Some s1) w1)" "conns (fold router_step acts r) = sockets (mj_free (Some s1) w1)"
      "map (command_of js) (filter is_send (w_log w1)) = map (command_of js) (filter is_send (w_log w))"
    using handle_events_lost [of lfd "emit Malloc w" r js evs acts "malloc_session junk"]
      Cons.prems(1,2) acts(2) by (auto simp: server_inv_log)
  show ?case using Cons.IH [OF 1(2,3) acts(3)] acts(1) 1(1,4) by (simp add: t loop_turn_def)
qed simp

end

section \<open>Properties\<close>

text \<open>
  C14. A server whose database connection is lost keeps running and keeps silent: whatever the peers do, the
  event loop comes back, connections come and go as in the router, no command is sent, and
  no peer is told.
\<close>

theorem outage_silences:
  fixes w :: "('db, 'z) server_scheme"
  assumes "lost_connection db mac_ok" and "server_inv lfd w" and "conns r = sockets w"
    and "turns_carry js mac_ok lfd r turns actss"
  shows "\<exists>v. main_loop db js lfd turns w = Ok () v \<and> server_inv lfd v \<and>
    sockets v = conns (fold router_step (concat actss) r) \<and>
    map (command_of js) (filter is_send (w_log v)) = map (command_of js) (filter is_send (w_log w))"
  by (rule lost_connection.main_loop_lost [OF assms])

theorem outage_silences_witness:
  "\<exists>v. main_loop lost_mysql ref_json 4 demo_turns (started empty_db) = Ok () v \<and> server_inv 4 v \<and>
    sockets v = conns (fold router_step (concat demo_actions) empty_router) \<and>
    map (command_of ref_json) (filter is_send (w_log v)) =
      map (command_of ref_json) (filter is_send (w_log (started empty_db)))"
proof (rule outage_silences [OF lost.lost_connection_axioms _ _ demo_carries])
  show "server_inv 4 (started empty_db)"
    using main_start_Ok [OF main_start_started, of empty_db] by (auto simp: server_inv_def boot_def)
qed (simp add: empty_router_def)

end
