(* ===== verification/Json_C.thy ===== *)
theory Json_C
  imports Agent_Parse
begin

text \<open>
  The code in the headers of json-c (\<^verbatim>\<open>src/lib/json/include/json-c\<close>) that is compiled into the program:
  the loops over the linked entries of an object, among them the one the parser of \<^verbatim>\<open>parse.c\<close> is
  written with, the print buffers, and the small helpers. Entries live in a heap, where a loop body may
  delete them; \<open>None\<close> is a read of memory that was released, or a loop that never ends.
\<close>

section \<open>Linked hash tables (linkhash.h)\<close>

type_synonym entry_ptr = "nat option"

record 'v lh_entry =
  e_k :: string
  k_is_constant :: int
  e_v :: 'v
  e_next :: entry_ptr
  e_prev :: entry_ptr

type_synonym 'v entries_heap = "nat \<Rightarrow> 'v lh_entry option"

text \<open>The table's array of slots is \<open>t_table\<close>, the addresses of the entries; \<open>free_fn\<close>, which only the library calls, is left out.\<close>

record 'v lh_table =
  t_size :: int
  t_count :: int
  t_head :: entry_ptr
  t_tail :: entry_ptr
  t_table :: "nat list"
  hash_fn :: "string \<Rightarrow> 64 word"
  equal_fn :: "string \<Rightarrow> string \<Rightarrow> bool"

definition lh_get_hash :: "('v, 'z) lh_table_scheme \<Rightarrow> string \<Rightarrow> 64 word" where
  "lh_get_hash t k = hash_fn t k"

definition lh_entry_k :: "('v, 'z) lh_entry_scheme \<Rightarrow> string" where
  "lh_entry_k entry = e_k entry"

definition lh_entry_v :: "('v, 'z) lh_entry_scheme \<Rightarrow> 'v" where
  "lh_entry_v entry = e_v entry"

text \<open>How a loop body ends: on to the next turn, or out of the function.\<close>

datatype ('s, 'r) flow = Next 's | Return 'r

text \<open>
  \<open>lh_foreach\<close> reads \<open>entry->next\<close> after the body, \<open>lh_foreach_safe\<close> before it.
\<close>

partial_function (option) lh_foreach_from ::
  "(nat \<Rightarrow> 'v entries_heap \<times> 's \<Rightarrow> ('v entries_heap \<times> 's, 'r) flow option) \<Rightarrow> entry_ptr \<Rightarrow>
     'v entries_heap \<times> 's \<Rightarrow> ('v entries_heap \<times> 's, 'r) flow option" where
  "lh_foreach_from body entry hs = (case entry of
       None \<Rightarrow> Some (Next hs)
     | Some e \<Rightarrow> (case body e hs of
           None \<Rightarrow> None
         | Some (Return r) \<Rightarrow> Some (Return r)
         | Some (Next hs') \<Rightarrow> (case fst hs' e of
               None \<Rightarrow> None
             | Some en \<Rightarrow> lh_foreach_from body (e_next en) hs')))"

definition lh_foreach ::
  "('v, 'z) lh_table_scheme \<Rightarrow> (nat \<Rightarrow> 'v entries_heap \<times> 's \<Rightarrow> ('v entries_heap \<times> 's, 'r) flow option) \<Rightarrow>
     'v entries_heap \<times> 's \<Rightarrow> ('v entries_heap \<times> 's, 'r) flow option" where
  "lh_foreach table body hs = lh_foreach_from body (t_head table) hs"

partial_function (option) lh_foreach_safe_from ::
  "(nat \<Rightarrow> 'v entries_heap \<times> 's \<Rightarrow> ('v entries_heap \<times> 's, 'r) flow option) \<Rightarrow> entry_ptr \<Rightarrow>
     'v entries_heap \<times> 's \<Rightarrow> ('v entries_heap \<times> 's, 'r) flow option" where
  "lh_foreach_safe_from body entry hs = (case entry of
       None \<Rightarrow> Some (Next hs)
     | Some e \<Rightarrow> (case fst hs e of
           None \<Rightarrow> None
         | Some en \<Rightarrow> (case body e hs of
               None \<Rightarrow> None
             | Some (Return r) \<Rightarrow> Some (Return r)
             | Some (Next hs') \<Rightarrow> lh_foreach_safe_from body (e_next en) hs')))"

definition lh_foreach_safe ::
  "('v, 'z) lh_table_scheme \<Rightarrow> (nat \<Rightarrow> 'v entries_heap \<times> 's \<Rightarrow> ('v entries_heap \<times> 's, 'r) flow option) \<Rightarrow>
     'v entries_heap \<times> 's \<Rightarrow> ('v entries_heap \<times> 's, 'r) flow option" where
  "lh_foreach_safe table body hs = lh_foreach_safe_from body (t_head table) hs"

section \<open>Iterating over an object (json_object.h)\<close>

text \<open>A local variable of pointer type: not initialised, \<open>NULL\<close>, or pointing to something.\<close>

datatype 'a cvar = Uninit | NullVar | Val 'a

type_synonym ('v, 's) turn = "string cvar \<times> 'v cvar \<times> 'v entries_heap \<times> 's"

text \<open>
  The loop both versions of \<open>json_object_object_foreach\<close> run: key, value and successor are read in the
  condition, before the body. Key and value stay visible behind the loop.
\<close>

partial_function (option) foreach_from ::
  "(string \<Rightarrow> 'v \<Rightarrow> 'v entries_heap \<times> 's \<Rightarrow> ('v entries_heap \<times> 's, 'r) flow option) \<Rightarrow> entry_ptr \<Rightarrow>
     ('v, 's) turn \<Rightarrow> (('v, 's) turn, 'r) flow option" where
  "foreach_from body entry turn = (case turn of (key, val, hs) \<Rightarrow> (case entry of
       None \<Rightarrow> Some (Next (key, val, hs))
     | Some e \<Rightarrow> (case fst hs e of
           None \<Rightarrow> None
         | Some en \<Rightarrow> (case body (lh_entry_k en) (lh_entry_v en) hs of
               None \<Rightarrow> None
             | Some (Return r) \<Rightarrow> Some (Return r)
             | Some (Next hs') \<Rightarrow>
                 foreach_from body (e_next en) (Val (lh_entry_k en), Val (lh_entry_v en), hs')))))"

text \<open>The version for GNU C initialises the two variables, the one for ANSI C does not.\<close>

definition foreach_gnu ::
  "('v, 'z) lh_table_scheme \<Rightarrow>
     (string \<Rightarrow> 'v \<Rightarrow> 'v entries_heap \<times> 's \<Rightarrow> ('v entries_heap \<times> 's, 'r) flow option) \<Rightarrow>
     'v entries_heap \<times> 's \<Rightarrow> (('v, 's) turn, 'r) flow option" where
  "foreach_gnu table body hs = foreach_from body (t_head table) (NullVar, NullVar, hs)"

definition foreach_ansi ::
  "('v, 'z) lh_table_scheme \<Rightarrow>
     (string \<Rightarrow> 'v \<Rightarrow> 'v entries_heap \<times> 's \<Rightarrow> ('v entries_heap \<times> 's, 'r) flow option) \<Rightarrow>
     'v entries_heap \<times> 's \<Rightarrow> (('v, 's) turn, 'r) flow option" where
  "foreach_ansi table body hs = foreach_from body (t_head table) (Uninit, Uninit, hs)"

record 'v json_object_iter =
  i_key :: "string cvar"
  i_val :: "'v cvar"
  i_entry :: entry_ptr

text \<open>\<open>json_object_object_foreachC\<close> reads the successor behind the body, through the iterator.\<close>

partial_function (option) json_object_object_foreachC_from ::
  "('v json_object_iter \<Rightarrow> 'v entries_heap \<times> 's \<Rightarrow> ('v entries_heap \<times> 's, 'r) flow option) \<Rightarrow>
     'v json_object_iter \<times> 'v entries_heap \<times> 's \<Rightarrow>
     ('v json_object_iter \<times> 'v entries_heap \<times> 's, 'r) flow option" where
  "json_object_object_foreachC_from body ihs = (case ihs of (iter, hs) \<Rightarrow> (case i_entry iter of
       None \<Rightarrow> Some (Next (iter, hs))
     | Some e \<Rightarrow> (case fst hs e of
           None \<Rightarrow> None
         | Some en \<Rightarrow>
             (case body (iter\<lparr>i_key := Val (lh_entry_k en), i_val := Val (lh_entry_v en)\<rparr>) hs of
               None \<Rightarrow> None
             | Some (Return r) \<Rightarrow> Some (Return r)
             | Some (Next hs') \<Rightarrow> (case fst hs' e of
                   None \<Rightarrow> None
                 | Some en' \<Rightarrow> json_object_object_foreachC_from body
                     (iter\<lparr>i_key := Val (lh_entry_k en), i_val := Val (lh_entry_v en), i_entry := e_next en'\<rparr>,
                      hs'))))))"

definition json_object_object_foreachC ::
  "('v, 'z) lh_table_scheme \<Rightarrow>
     ('v json_object_iter \<Rightarrow> 'v entries_heap \<times> 's \<Rightarrow> ('v entries_heap \<times> 's, 'r) flow option) \<Rightarrow>
     'v json_object_iter \<times> 'v entries_heap \<times> 's \<Rightarrow>
     ('v json_object_iter \<times> 'v entries_heap \<times> 's, 'r) flow option" where
  "json_object_object_foreachC table body ihs =
     (case ihs of (iter, hs) \<Rightarrow> json_object_object_foreachC_from body (iter\<lparr>i_entry := t_head table\<rparr>, hs))"

section \<open>The parser's loops, on the heap\<close>

text \<open>
  The functions of \<^verbatim>\<open>parse.c\<close> again, with the macro expanded: \<open>foreach\<close> is one of its two versions. Behind
  the loop \<open>get_agent_type\<close> compares \<open>key\<close> with \<open>NULL\<close>.
\<close>

definition get_agent_type_body ::
  "string \<Rightarrow> json \<Rightarrow> json entries_heap \<times> unit \<Rightarrow> (json entries_heap \<times> unit, agent_type_t) flow option" where
  "get_agent_type_body key val hs = (case val of
       JString value \<Rightarrow>
         if strcmp_eq value AGENT_TYPE_LINUX_NVIDIA then Some (Return REQ_LINUX_CLAYMORE)
         else if strcmp_eq value AGENT_TYPE_UX then Some (Return REQ_UX)
         else Some (Return REQ_INVALID)
     | _ \<Rightarrow> Some (Next hs))"

definition get_agent_type_heap :: "bool \<Rightarrow> json lh_table \<Rightarrow> json entries_heap \<Rightarrow> agent_type_t option" where
  "get_agent_type_heap gnu table h =
     (case (if gnu then foreach_gnu else foreach_ansi) table get_agent_type_body (h, ()) of
        None \<Rightarrow> None
      | Some (Return r) \<Rightarrow> Some r
      | Some (Next (key, val, hs)) \<Rightarrow> if key = Uninit then None else Some REQ_INVALID)"

definition parse_json_cmd_body ::
  "string \<Rightarrow> json \<Rightarrow> json entries_heap \<times> session_t \<times> ('db, 'z) world_scheme \<Rightarrow>
     (json entries_heap \<times> session_t \<times> ('db, 'z) world_scheme, unit) flow option" where
  "parse_json_cmd_body key val hs = (case val of
       JString v \<Rightarrow> (case hs of (h, session, w) \<Rightarrow> Some (Next (h, parse_json_cmd_entry key v session w)))
     | _ \<Rightarrow> Some (Next hs))"

definition parse_json_agent_body ::
  "string \<Rightarrow> json \<Rightarrow> json entries_heap \<times> session_t \<Rightarrow> (json entries_heap \<times> session_t, unit) flow option" where
  "parse_json_agent_body key val hs = (case val of
       JString v \<Rightarrow> (case hs of (h, session) \<Rightarrow>
         Some (Next (h, if strcmp_eq key ''miner_mac'' then session\<lparr>miner_mac := Owned v\<rparr> else session)))
     | _ \<Rightarrow> Some (Next hs))"

text \<open>What the loop leaves of the state, when it comes to its end.\<close>

fun state_after :: "(('v, 's) turn, 'r) flow option \<Rightarrow> 's option" where
  "state_after (Some (Next (key, val, h, s))) = Some s"
| "state_after _ = None"

definition parse_json_cmd_heap ::
  "bool \<Rightarrow> json lh_table \<Rightarrow> json entries_heap \<Rightarrow> session_t \<Rightarrow> ('db, 'z) world_scheme \<Rightarrow>
     (session_t \<times> ('db, 'z) world_scheme) option" where
  "parse_json_cmd_heap gnu table h session w =
     state_after ((if gnu then foreach_gnu else foreach_ansi) table parse_json_cmd_body (h, session, w))"

definition parse_json_agent_heap ::
  "bool \<Rightarrow> json lh_table \<Rightarrow> json entries_heap \<Rightarrow> session_t \<Rightarrow> session_t option" where
  "parse_json_agent_heap gnu table h session =
     state_after ((if gnu then foreach_gnu else foreach_ansi) table parse_json_agent_body (h, session))"

section \<open>What the loops are meant to do\<close>

text \<open>
  The entries linked from an address: at these addresses, with these keys and values. An object is the
  list of them, which is what the parser's model works on.
\<close>

fun linked :: "'v entries_heap \<Rightarrow> entry_ptr \<Rightarrow> nat list \<Rightarrow> (string \<times> 'v) list \<Rightarrow> bool" where
  "linked h p [] es \<longleftrightarrow> p = None \<and> es = []"
| "linked h p (a # as) es \<longleftrightarrow> p = Some a \<and> (case h a of
       None \<Rightarrow> False
     | Some en \<Rightarrow> (case es of
           [] \<Rightarrow> False
         | kv # es' \<Rightarrow> kv = (e_k en, e_v en) \<and> linked h (e_next en) as es'))"

text \<open>A body run on the entries of a list, one after another.\<close>

fun run_body ::
  "(string \<Rightarrow> 'v \<Rightarrow> 's \<Rightarrow> ('s, 'r) flow option) \<Rightarrow> (string \<times> 'v) list \<Rightarrow> 's \<Rightarrow> ('s, 'r) flow option" where
  "run_body body [] s = Some (Next s)"
| "run_body body ((k, v) # es) s = (case body k v s of
       None \<Rightarrow> None
     | Some (Return r) \<Rightarrow> Some (Return r)
     | Some (Next s') \<Rightarrow> run_body body es s')"

fun run_at :: "(nat \<Rightarrow> 's \<Rightarrow> ('s, 'r) flow option) \<Rightarrow> nat list \<Rightarrow> 's \<Rightarrow> ('s, 'r) flow option" where
  "run_at body [] s = Some (Next s)"
| "run_at body (a # as) s = (case body a s of
       None \<Rightarrow> None
     | Some (Return r) \<Rightarrow> Some (Return r)
     | Some (Next s') \<Rightarrow> run_at body as s')"

text \<open>
  What the next turns read of an entry; and that a body leaves it as it was in every entry not
  visited yet, whatever else it does to the heap.
\<close>

definition ahead :: "'v entries_heap \<Rightarrow> nat \<Rightarrow> (string \<times> 'v \<times> entry_ptr) option" where
  "ahead h a = map_option (\<lambda>en. (e_k en, e_v en, e_next en)) (h a)"

fun spares ::
  "(nat \<Rightarrow> string \<Rightarrow> 'v \<Rightarrow> 'v entries_heap \<times> 's \<Rightarrow> ('v entries_heap \<times> 's, 'r) flow option) \<Rightarrow> 'v entries_heap \<Rightarrow>
     nat list \<Rightarrow> (string \<times> 'v) list \<Rightarrow> 'v entries_heap \<times> 's \<Rightarrow> bool" where
  "spares body h (a # as) ((k, v) # es) hs \<longleftrightarrow> (case body a k v hs of
       Some (Next hs') \<Rightarrow> (\<forall>b \<in> set as. ahead (fst hs') b = ahead h b) \<and> spares body h as es hs'
     | _ \<Rightarrow> True)"
| "spares body h _ _ hs \<longleftrightarrow> True"

text \<open>Key and value behind the loop.\<close>

definition vars_after :: "string cvar \<times> 'v cvar \<Rightarrow> (string \<times> 'v) list \<Rightarrow> string cvar \<times> 'v cvar" where
  "vars_after kv es = (if es = [] then kv else (Val (fst (last es)), Val (snd (last es))))"

fun with_vars :: "string cvar \<times> 'v cvar \<Rightarrow> ('s, 'r) flow \<Rightarrow> (string cvar \<times> 'v cvar \<times> 's, 'r) flow" where
  "with_vars (key, val) (Next s) = Next (key, val, s)"
| "with_vars kv (Return r) = Return r"

text \<open>A body that takes key and value from the iterator; the loop's result without the iterator.\<close>

definition on_iter :: "(string \<Rightarrow> 'v \<Rightarrow> 's \<Rightarrow> ('s, 'r) flow option) \<Rightarrow> 'v json_object_iter \<Rightarrow> 's \<Rightarrow> ('s, 'r) flow option" where
  "on_iter body i s = (case (i_key i, i_val i) of (Val k, Val v) \<Rightarrow> body k v s | _ \<Rightarrow> None)"

fun drop_iter :: "('i \<times> 's, 'r) flow \<Rightarrow> ('s, 'r) flow" where
  "drop_iter (Next (i, s)) = Next s"
| "drop_iter (Return r) = Return r"

definition reads_only ::
  "(string \<Rightarrow> 'v \<Rightarrow> 'v entries_heap \<times> 's \<Rightarrow> ('v entries_heap \<times> 's, 'r) flow option) \<Rightarrow> bool" where
  "reads_only body \<longleftrightarrow> (\<forall>k v h s h' s'. body k v (h, s) = Some (Next (h', s')) \<longrightarrow> h' = h)"

text \<open>A message of an agent in the heap, and a body that releases the entry it is given.\<close>

definition demo_heap :: "json entries_heap" where
  "demo_heap = [1 \<mapsto> \<lparr>e_k = ''agent_type'', k_is_constant = 0, e_v = JString AGENT_TYPE_LINUX_NVIDIA,
       e_next = Some 2, e_prev = None\<rparr>,
     2 \<mapsto> \<lparr>e_k = ''miner_mac'', k_is_constant = 0, e_v = JString ''00:1b'', e_next = None, e_prev = Some 1\<rparr>]"

definition demo_table :: "json lh_table" where
  "demo_table = \<lparr>t_size = 16, t_count = 2, t_head = Some 1, t_tail = Some 2, t_table = [1, 2],
     hash_fn = (\<lambda>k. of_nat (length k)), equal_fn = (=)\<rparr>"

definition release_entry ::
  "nat \<Rightarrow> json entries_heap \<times> nat list \<Rightarrow> (json entries_heap \<times> nat list, unit) flow option" where
  "release_entry a hs = (case hs of (h, seen) \<Rightarrow> Some (Next (h(a := None), seen @ [a])))"

section \<open>Lemmas\<close>

lemma foreach_from_run:
  assumes "linked h p as es" and "\<forall>b \<in> set as. ahead (fst hs) b = ahead h b"
    and "spares (\<lambda>_. body) h as es hs"
  shows "foreach_from body p (key, val, hs) =
    map_option (with_vars (vars_after (key, val) es)) (run_body body es hs)"
  using assms
proof (induction as arbitrary: p es key val hs)
  case Nil
  then show ?case by (simp add: foreach_from.simps vars_after_def)
next
  case (Cons a as)
  from Cons.prems(1) obtain en es' where a: "p = Some a" "h a = Some en" "es = (e_k en, e_v en) # es'"
      "linked h (e_next en) as es'"
    by (auto split: option.splits list.splits)
  from Cons.prems(2) a(2) obtain en1 where en1: "fst hs a = Some en1" "e_k en1 = e_k en" "e_v en1 = e_v en"
      "e_next en1 = e_next en"
    by (auto simp: ahead_def)
  show ?case
  proof (cases "body (e_k en) (e_v en) hs")
    case None
    then show ?thesis
      by (subst foreach_from.simps) (simp add: a en1 lh_entry_k_def lh_entry_v_def)
  next
    case (Some fl)
    show ?thesis
    proof (cases fl)
      case (Return r)
      with Some show ?thesis
        by (subst foreach_from.simps) (simp add: a en1 lh_entry_k_def lh_entry_v_def)
    next
      case (Next hs')
      have "vars_after (Val (e_k en), Val (e_v en)) es' = vars_after (key, val) es"
        by (simp add: vars_after_def a(3))
      with Some Next Cons.IH [OF a(4), of hs' "Val (e_k en)" "Val (e_v en)"] Cons.prems(3) show ?thesis
        by (subst foreach_from.simps) (simp add: a en1 lh_entry_k_def lh_entry_v_def)
    qed
  qed
qed

lemma spares_reading:
  assumes "\<And>a k v h s. case body a k v (h, s) of Some (Next (h', s')) \<Rightarrow> h' = h | _ \<Rightarrow> True"
  shows "spares body h as es (h, s)"
proof (induction as arbitrary: es s)
  case (Cons a as)
  show ?case
  proof (cases es)
    case (Cons e es')
    then show ?thesis
      using Cons.IH assms [where a = a and k = "fst e" and v = "snd e" and h = h and s = s]
      by (cases e) (auto split: option.splits flow.splits)
  qed simp
qed simp

lemma state_after_vars: "state_after (Some (with_vars kv fl)) = (case fl of Next (h, s) \<Rightarrow> Some s | Return r \<Rightarrow> None)"
  by (cases kv) (simp split: flow.split prod.split)

text \<open>The bodies of the parser only read the heap, so each loop is a run over the list of entries.\<close>

lemma parser_bodies_spare:
  "spares (\<lambda>_. get_agent_type_body) h as es (h, u)"
  "spares (\<lambda>_. parse_json_cmd_body) h as es (h, sw)"
  "spares (\<lambda>_. parse_json_agent_body) h as es (h, session)"
  by (rule spares_reading; simp add: get_agent_type_body_def parse_json_cmd_body_def parse_json_agent_body_def
      split: json.split prod.split)+

lemma foreach_run:
  assumes "linked h (t_head t) as es" and "spares (\<lambda>_. body) h as es (h, s)"
  shows "(if gnu then foreach_gnu else foreach_ansi) t body (h, s) =
    map_option (with_vars (vars_after (if gnu then (NullVar, NullVar) else (Uninit, Uninit)) es))
      (run_body body es (h, s))"
  using foreach_from_run [OF assms(1) _ assms(2)] by (simp add: foreach_gnu_def foreach_ansi_def)

lemma run_get_agent_type:
  "run_body get_agent_type_body es (h, ()) = Some (Next (h, ())) \<and> get_agent_type_loop es = REQ_INVALID \<or>
   es \<noteq> [] \<and> run_body get_agent_type_body es (h, ()) = Some (Return (get_agent_type_loop es))"
  by (induction es rule: get_agent_type_loop.induct)
    (auto simp: get_agent_type_body_def split: json.split)

lemma run_parse_json_cmd:
  "run_body parse_json_cmd_body es (h, session, w) = Some (Next (h, parse_json_cmd_loop es session w))"
proof (induction es arbitrary: session w)
  case (Cons e es)
  obtain key val where e: "e = (key, val)" by fastforce
  have "parse_json_cmd_body key val (h, session, w) = Some (Next (h, case val of
      JString v \<Rightarrow> parse_json_cmd_entry key v session w | _ \<Rightarrow> (session, w)))"
    by (simp add: parse_json_cmd_body_def split: json.split)
  with Cons show ?case by (cases val) (simp_all add: e split: prod.split)
qed simp

lemma run_parse_json_agent:
  "run_body parse_json_agent_body es (h, session) = Some (Next (h, parse_json_agent_loop es session))"
  by (induction es session rule: parse_json_agent_loop.induct)
    (auto simp: parse_json_agent_body_def split: json.split)

lemma lh_foreach_safe_from_run:
  assumes "linked h p as es" and "\<forall>b \<in> set as. ahead (fst hs) b = ahead h b"
    and "spares (\<lambda>a k v. body a) h as es hs"
  shows "lh_foreach_safe_from body p hs = run_at body as hs"
  using assms
proof (induction as arbitrary: p es hs)
  case Nil
  then show ?case by (simp add: lh_foreach_safe_from.simps)
next
  case (Cons a as)
  from Cons.prems(1) obtain en es' where a: "p = Some a" "h a = Some en" "es = (e_k en, e_v en) # es'"
      "linked h (e_next en) as es'"
    by (auto split: option.splits list.splits)
  from Cons.prems(2) a(2) obtain en1 where en1: "fst hs a = Some en1" "e_next en1 = e_next en"
    by (auto simp: ahead_def)
  show ?case
    using Cons.IH [OF a(4)] Cons.prems(3)
    by (subst lh_foreach_safe_from.simps) (auto simp: a en1 split: option.splits flow.splits)
qed

lemma on_iter_at: "i_key i = Val k \<Longrightarrow> i_val i = Val v \<Longrightarrow> on_iter body i s = body k v s"
  by (simp add: on_iter_def)

lemma foreachC_from_run:
  assumes "linked h p as es" and "reads_only body"
  shows "map_option drop_iter (json_object_object_foreachC_from (on_iter body) (iter\<lparr>i_entry := p\<rparr>, h, s)) =
    run_body body es (h, s)"
  using assms(1)
proof (induction as arbitrary: p es iter s)
  case Nil
  then show ?case by (simp add: json_object_object_foreachC_from.simps)
next
  case (Cons a as)
  from Cons.prems(1) obtain en es' where a: "p = Some a" "h a = Some en" "es = (e_k en, e_v en) # es'"
      "linked h (e_next en) as es'"
    by (auto split: option.splits list.splits)
  let ?i = "iter\<lparr>i_entry := Some a, i_key := Val (e_k en), i_val := Val (e_v en)\<rparr>"
  show ?case
  proof (cases "body (e_k en) (e_v en) (h, s)")
    case None
    then show ?thesis
      by (subst json_object_object_foreachC_from.simps) (simp add: a lh_entry_k_def lh_entry_v_def on_iter_at)
  next
    case (Some fl)
    show ?thesis
    proof (cases fl)
      case (Return r)
      with Some show ?thesis
        by (subst json_object_object_foreachC_from.simps) (simp add: a lh_entry_k_def lh_entry_v_def on_iter_at)
    next
      case (Next hs')
      obtain h' s' where hs': "hs' = (h', s')" by fastforce
      with Some Next assms(2) have "h' = h" unfolding reads_only_def by blast
      with Some Next hs' Cons.IH [OF a(4), of "?i" s'] show ?thesis
        by (subst json_object_object_foreachC_from.simps) (simp add: a lh_entry_k_def lh_entry_v_def on_iter_at)
    qed
  qed
qed

lemma demo_linked:
  "linked demo_heap (t_head demo_table) [1, 2]
     [(''agent_type'', JString AGENT_TYPE_LINUX_NVIDIA), (''miner_mac'', JString ''00:1b'')]"
  by (simp add: demo_heap_def demo_table_def)

section \<open>Properties\<close>

text \<open>
  C15. The parser on the heap: on a table whose entries are the list \<open>es\<close>, the three loops of \<^verbatim>\<open>parse.c\<close> written
  with the macro of json-c come to an end without reading released memory, and compute what the
  recursive functions on \<open>es\<close> compute, with either version of the macro; except that with the ANSI
  version \<open>get_agent_type\<close> reads an uninitialised variable when the object is empty.
\<close>

theorem parser_loops_on_heap:
  assumes "linked h (t_head t) as es"
  shows "get_agent_type_heap gnu t h = (if es = [] \<and> \<not> gnu then None else Some (get_agent_type_loop es)) \<and>
    parse_json_cmd_heap gnu t h session w = Some (parse_json_cmd_loop es session w) \<and>
    parse_json_agent_heap gnu t h session = Some (parse_json_agent_loop es session)"
proof (intro conjI)
  show "get_agent_type_heap gnu t h = (if es = [] \<and> \<not> gnu then None else Some (get_agent_type_loop es))"
    using run_get_agent_type [of es h]
    by (auto simp: get_agent_type_heap_def foreach_run [OF assms parser_bodies_spare(1)] vars_after_def)
qed (simp_all add: parse_json_cmd_heap_def parse_json_agent_heap_def state_after_vars run_parse_json_cmd
    run_parse_json_agent foreach_run [OF assms parser_bodies_spare(2)] foreach_run [OF assms parser_bodies_spare(3)])

theorem parser_loops_on_heap_witness:
  "get_agent_type_heap True demo_table demo_heap = Some REQ_LINUX_CLAYMORE \<and>
   (\<forall>s. parse_json_agent_heap False demo_table demo_heap s = Some (s\<lparr>miner_mac := Owned ''00:1b''\<rparr>))"
proof
  note heap = parser_loops_on_heap [OF demo_linked]
  show "get_agent_type_heap True demo_table demo_heap = Some REQ_LINUX_CLAYMORE"
    using conjunct1 [OF heap, of True] by (simp add: strcmp_eq_def)
  show "\<forall>s. parse_json_agent_heap False demo_table demo_heap s = Some (s\<lparr>miner_mac := Owned ''00:1b''\<rparr>)"
    using conjunct2 [OF conjunct2 [OF heap], of False] by (simp add: strcmp_eq_def)
qed

text \<open>
  C37. Deleting while iterating: \<open>lh_foreach_safe\<close> visits every entry once, in order, when the body
  releases the entry it is given and leaves the later ones alone; \<open>lh_foreach\<close> with the same body reads
  the released entry.
\<close>

theorem deleting_needs_safe_loop:
  assumes "linked h (t_head t) (a # as) es" and "spares (\<lambda>a k v. body a) h (a # as) es (h, s)"
    and "body a (h, s) = Some (Next hs')" and "fst hs' a = None"
  shows "lh_foreach_safe t body (h, s) = run_at body (a # as) (h, s) \<and> lh_foreach t body (h, s) = None"
proof
  show "lh_foreach_safe t body (h, s) = run_at body (a # as) (h, s)"
    using lh_foreach_safe_from_run [OF assms(1) _ assms(2)] by (simp add: lh_foreach_safe_def)
  have "t_head t = Some a" using assms(1) by simp
  then show "lh_foreach t body (h, s) = None"
    unfolding lh_foreach_def by (subst lh_foreach_from.simps) (simp add: assms(3,4))
qed

theorem deleting_needs_safe_loop_witness:
  "lh_foreach_safe demo_table release_entry (demo_heap, []) = Some (Next (Map.empty, [1, 2])) \<and>
   lh_foreach demo_table release_entry (demo_heap, []) = None"
proof -
  have "lh_foreach_safe demo_table release_entry (demo_heap, []) = run_at release_entry [1, 2] (demo_heap, []) \<and>
    lh_foreach demo_table release_entry (demo_heap, []) = None"
    by (rule deleting_needs_safe_loop [OF demo_linked, where hs' = "(demo_heap(1 := None), [1])"])
      (simp_all add: release_entry_def ahead_def)
  then show ?thesis by (simp add: release_entry_def demo_heap_def fun_upd_twist)
qed

text \<open>
  The three ways to iterate over an object run a body that leaves the heap alone on the same entries in
  the same order.
\<close>

theorem object_loops_agree:
  assumes "linked h (t_head t) as es" and "reads_only body"
  shows "foreach_gnu t body (h, s) =
      map_option (with_vars (vars_after (NullVar, NullVar) es)) (run_body body es (h, s)) \<and>
    foreach_ansi t body (h, s) =
      map_option (with_vars (vars_after (Uninit, Uninit) es)) (run_body body es (h, s)) \<and>
    map_option drop_iter (json_object_object_foreachC t (on_iter body) (iter, h, s)) = run_body body es (h, s)"
proof -
  have "spares (\<lambda>_. body) h as es (h, s)"
    using assms(2) by (intro spares_reading) (auto simp: reads_only_def split: option.splits flow.splits)
  with foreachC_from_run [OF assms] foreach_run [OF assms(1), of body s True] foreach_run [OF assms(1), of body s False]
  show ?thesis by (simp add: json_object_object_foreachC_def)
qed

theorem object_loops_agree_witness:
  "\<forall>iter s. map_option drop_iter
       (json_object_object_foreachC demo_table (on_iter parse_json_agent_body) (iter, demo_heap, s)) =
     Some (Next (demo_heap, s\<lparr>miner_mac := Owned ''00:1b''\<rparr>))"
proof -
  have "reads_only parse_json_agent_body"
    by (auto simp: reads_only_def parse_json_agent_body_def split: json.splits)
  note loops = object_loops_agree [OF demo_linked this, unfolded run_parse_json_agent]
  show ?thesis using conjunct2 [OF conjunct2 [OF loops]] by (simp add: strcmp_eq_def)
qed

text \<open>
  The comment on \<open>json_object_object_foreach\<close> allows deleting an existing key; that is true of the
  current key only: a body that releases the entry behind it makes the loop read released
  memory.
\<close>

theorem deleting_next_key_breaks_foreach:
  assumes "linked h (t_head t) (a # b # as) ((k, v) # es)" and "body k v (h, s) = Some (Next hs')"
    and "fst hs' b = None"
  shows "(if gnu then foreach_gnu else foreach_ansi) t body (h, s) = None"
proof -
  obtain en where en: "h a = Some en" "k = e_k en" "v = e_v en" "e_next en = Some b" "t_head t = Some a"
    using assms(1) by (auto split: option.splits)
  have "foreach_from body (Some b) (key, val, hs') = None" for key val
    by (subst foreach_from.simps) (simp add: assms(3))
  then have "foreach_from body (t_head t) (key, val, h, s) = None" for key val
    using assms(2) en by (subst foreach_from.simps) (simp add: lh_entry_k_def lh_entry_v_def)
  then show ?thesis by (simp add: foreach_gnu_def foreach_ansi_def)
qed

theorem deleting_next_key_breaks_foreach_witness:
  "foreach_gnu demo_table (\<lambda>k v (h, u). Some (Next (h(2 := None), u)) :: (_, unit) flow option) (demo_heap, ()) = None"
  using deleting_next_key_breaks_foreach [OF demo_linked, where gnu = True and s = "()" and
      body = "\<lambda>k v (h, u). Some (Next (h(2 := None), u)) :: (_, unit) flow option"] by simp

end
