(* ===== verification/Json_Print.thy ===== *)
theory Json_Print
  imports Agent_Prelude
begin

unbundle bit_operations_syntax

text \<open>
  The print buffers of json-c (\<^verbatim>\<open>printbuf.h\<close>), its replacement for \<open>vasprintf\<close> (\<^verbatim>\<open>vasprintf_compat.h\<close>) and
  the helpers of \<^verbatim>\<open>bits.h\<close>, \<^verbatim>\<open>json_util.h\<close> and \<^verbatim>\<open>json_c_version.h\<close>. \<open>None\<close> is a write or read outside a block.
\<close>

section \<open>Print buffers\<close>

text \<open>\<open>pb_buf\<close> is the block \<open>buf\<close> points to, as long as it was allocated.\<close>

record printbuf =
  pb_buf :: string
  bpos :: int
  pb_size :: int

text \<open>\<open>memcpy\<close> into a block at an offset, of the first \<open>n\<close> bytes of another.\<close>

definition c_memcpy :: "string \<Rightarrow> nat \<Rightarrow> string \<Rightarrow> nat \<Rightarrow> string option" where
  "c_memcpy dst off src n =
     (if off + n \<le> length dst \<and> n \<le> length src then Some (take off dst @ take n src @ drop (off + n) dst)
      else None)"

text \<open>
  \<open>printbuf_memappend\<close> is a function of the library: its result and the buffer afterwards. The macro
  drops the result. A negative size passes the test and becomes a huge \<open>size_t\<close> in \<open>memcpy\<close>.
\<close>

type_synonym memappend = "printbuf \<Rightarrow> string \<Rightarrow> int \<Rightarrow> int \<times> printbuf"

definition printbuf_memappend_fast :: "memappend \<Rightarrow> printbuf \<Rightarrow> string \<Rightarrow> int \<Rightarrow> printbuf option" where
  "printbuf_memappend_fast printbuf_memappend p bufptr bufsize =
     (if pb_size p - bpos p > bufsize then
        (if bufsize < 0 \<or> bpos p < 0 then None
         else (case c_memcpy (pb_buf p) (nat (bpos p)) bufptr (nat bufsize) of
             None \<Rightarrow> None
           | Some b \<Rightarrow>
               let p = p\<lparr>pb_buf := b, bpos := bpos p + bufsize\<rparr> in
               if bpos p < int (length b) then Some (p\<lparr>pb_buf := b[nat (bpos p) := NUL]\<rparr>) else None))
      else Some (snd (printbuf_memappend p bufptr bufsize)))"

definition printbuf_length :: "printbuf \<Rightarrow> int" where
  "printbuf_length p = bpos p"

text \<open>\<open>sizeof\<close> of a string literal counts its terminator.\<close>

definition printbuf_strappend :: "memappend \<Rightarrow> printbuf \<Rightarrow> string \<Rightarrow> int \<times> printbuf" where
  "printbuf_strappend printbuf_memappend pb str =
     printbuf_memappend pb str (int (length (str @ [NUL])) - 1)"

text \<open>A sequence of appends through the macro.\<close>

fun append_all :: "memappend \<Rightarrow> printbuf \<Rightarrow> string list \<Rightarrow> printbuf option" where
  "append_all f p [] = Some p"
| "append_all f p (s # ss) = (case printbuf_memappend_fast f p s (int (length s)) of
       None \<Rightarrow> None | Some p' \<Rightarrow> append_all f p' ss)"

text \<open>Along such a sequence the library's function would not fail.\<close>

fun append_ok :: "memappend \<Rightarrow> printbuf \<Rightarrow> string list \<Rightarrow> bool" where
  "append_ok f p [] \<longleftrightarrow> True"
| "append_ok f p (s # ss) \<longleftrightarrow> fst (f p s (int (length s))) \<noteq> -1 \<and>
     (case printbuf_memappend_fast f p s (int (length s)) of None \<Rightarrow> True | Some p' \<Rightarrow> append_ok f p' ss)"

text \<open>A well-formed buffer: its text is terminated inside the block.\<close>

definition pb_ok :: "printbuf \<Rightarrow> bool" where
  "pb_ok p \<longleftrightarrow> 0 \<le> bpos p \<and> bpos p < pb_size p \<and> pb_size p \<le> INT_MAX \<and> int (length (pb_buf p)) = pb_size p \<and>
     pb_buf p ! nat (bpos p) = NUL"

definition pb_text :: "printbuf \<Rightarrow> string" where
  "pb_text p = take (nat (bpos p)) (pb_buf p)"

text \<open>
  What the library documents of \<open>printbuf_memappend\<close>: it appends, or says that it could not and leaves
  the buffer alone.
\<close>

locale printbuf_lib =
  fixes memappend :: memappend
  assumes memappend_law: "pb_ok p \<Longrightarrow> 0 \<le> n \<Longrightarrow> n \<le> int (length s) \<Longrightarrow>
    (case memappend p s n of (r, p') \<Rightarrow>
       r = n \<and> pb_ok p' \<and> pb_text p' = pb_text p @ take (nat n) s \<or> r = -1 \<and> p' = p)"

text \<open>An implementation: a new block of the size that is needed, unless that is more than an \<open>int\<close>.\<close>

definition exact_memappend :: memappend where
  "exact_memappend p s n =
     (if bpos p + n + 1 > INT_MAX then (-1, p)
      else (n, p\<lparr>pb_buf := pb_text p @ take (nat n) s @ [NUL], bpos := bpos p + n, pb_size := bpos p + n + 1\<rparr>))"

definition demo_pb :: printbuf where
  "demo_pb = \<lparr>pb_buf = [NUL, NUL, NUL, NUL], bpos = 0, pb_size = 4\<rparr>"

section \<open>Formatting into a new block\<close>

text \<open>
  What the C library answers while \<open>vasprintf\<close> runs: the result of \<open>vsnprintf\<close> on no space, whether
  \<open>malloc\<close> gives a block, and the text \<open>vsprintf\<close> writes (\<open>None\<close> when it fails).
\<close>

record printf_answers =
  v_snprintf :: int
  v_malloc :: bool
  v_sprintf :: "string option"

text \<open>The result is the return value and what \<open>*buf\<close> is set to.\<close>

definition vasprintf :: "bool \<Rightarrow> bool \<Rightarrow> printf_answers \<Rightarrow> (int \<times> string option) option" where
  "vasprintf win32 buf a =
     (if \<not> buf then Some (-1, None)
      else
        let chars = v_snprintf a + 1;
            chars = (if \<not> win32 \<and> chars < 0 then chars * -1 else chars);
            block = uint (word_of_int chars :: 64 word)
        in
        if \<not> v_malloc a then Some (-1, None)
        else (case v_sprintf a of
            None \<Rightarrow> Some (-1, None)
          | Some t \<Rightarrow>
              if int (length t) + 1 \<le> block then Some (int (length t), Some t) else None))"

section \<open>Small helpers\<close>

definition hexdigit :: "int \<Rightarrow> int" where
  "hexdigit x = (if x \<le> int (of_char (CHR ''9'')) then x - int (of_char (CHR ''0'')) else (x AND 7) + 9)"

definition is_error :: "'a option \<Rightarrow> bool" where
  "is_error ptr \<longleftrightarrow> ptr = None"

definition json_min :: "int \<Rightarrow> int \<Rightarrow> int" where
  "json_min a b = (if a < b then a else b)"

definition json_max :: "int \<Rightarrow> int \<Rightarrow> int" where
  "json_max a b = (if a > b then a else b)"

definition JSON_C_VERSION_NUM :: int where
  "JSON_C_VERSION_NUM = push_bit 16 0 OR push_bit 8 12 OR 99"

section \<open>Lemmas\<close>

lemma exact_memappend_law:
  assumes "pb_ok p" and "0 \<le> n" and "n \<le> int (length s)"
  shows "case exact_memappend p s n of (r, p') \<Rightarrow>
    r = n \<and> pb_ok p' \<and> pb_text p' = pb_text p @ take (nat n) s \<or> r = -1 \<and> p' = p"
proof -
  let ?t = "pb_text p @ take (nat n) s"
  have "int (length (pb_text p)) = bpos p" using assms(1) by (auto simp: pb_ok_def pb_text_def)
  then have len: "int (length ?t) = bpos p + n" using assms(2,3) by simp
  then have "nat (bpos p + n) = length ?t" by linarith
  moreover have "0 \<le> bpos p" using assms(1) by (simp add: pb_ok_def)
  ultimately show ?thesis
    using assms(2) len
    by (auto simp: exact_memappend_def pb_ok_def pb_text_def nth_append simp flip: append_assoc)
qed

interpretation exact: printbuf_lib exact_memappend
  by unfold_locales (rule exact_memappend_law)

lemma fast_copies:
  assumes "pb_ok p" and "0 \<le> n" and "n \<le> int (length s)" and "pb_size p - bpos p > n"
  shows "\<exists>p'. printbuf_memappend_fast f p s n = Some p' \<and> pb_ok p' \<and> pb_text p' = pb_text p @ take (nat n) s"
proof -
  let ?i = "nat (bpos p)" and ?n = "nat n"
  have p: "0 \<le> bpos p" "?i + ?n < length (pb_buf p)" "int (length (pb_buf p)) = pb_size p" "pb_size p \<le> INT_MAX"
    "nat (bpos p + n) = ?i + ?n" "bpos p + n < pb_size p" "?n \<le> length s"
    using assms unfolding pb_ok_def by linarith+
  let ?b = "take ?i (pb_buf p) @ take ?n s @ drop (?i + ?n) (pb_buf p)"
  have len: "length ?b = length (pb_buf p)" using p(2,7) by simp
  have "take (?i + ?n) ?b = take ?i (pb_buf p) @ take ?n s" using p(2,7) by simp
  then show ?thesis
    using assms p len
    by (simp add: printbuf_memappend_fast_def c_memcpy_def Let_def pb_ok_def pb_text_def)
qed

context printbuf_lib
begin

lemma fast_appends:
  assumes "pb_ok p" and "0 \<le> n" and "n \<le> int (length s)"
  shows "\<exists>p'. printbuf_memappend_fast memappend p s n = Some p' \<and> pb_ok p' \<and>
    pb_text p' = (if pb_size p - bpos p \<le> n \<and> fst (memappend p s n) = -1 then pb_text p
                  else pb_text p @ take (nat n) s)"
proof (cases "pb_size p - bpos p > n")
  case True
  then show ?thesis using fast_copies [OF assms, of memappend] by auto
next
  case False
  then show ?thesis
    using memappend_law [OF assms] assms(1,2) by (auto simp: printbuf_memappend_fast_def split: prod.splits)
qed

lemma append_all_concat:
  assumes "pb_ok p" and "append_ok memappend p ss"
  shows "\<exists>p'. append_all memappend p ss = Some p' \<and> pb_ok p' \<and> pb_text p' = pb_text p @ concat ss"
  using assms
proof (induction ss arbitrary: p)
  case (Cons s ss)
  obtain p1 where p1: "printbuf_memappend_fast memappend p s (int (length s)) = Some p1" "pb_ok p1"
      "pb_text p1 = pb_text p @ s"
    using fast_appends [OF Cons.prems(1), of "int (length s)" s] Cons.prems(2) by auto
  have "\<exists>p'. append_all memappend p1 ss = Some p' \<and> pb_ok p' \<and> pb_text p' = pb_text p1 @ concat ss"
    by (rule Cons.IH [OF p1(2)]) (use Cons.prems(2) p1(1) in simp)
  with p1 show ?case by auto
qed simp

lemma strappend_whole:
  assumes "pb_ok p" and "fst (memappend p s (int (length s))) \<noteq> -1"
  shows "case printbuf_strappend memappend p s of (r, p') \<Rightarrow> r = int (length s) \<and> pb_ok p' \<and> pb_text p' = pb_text p @ s"
  using memappend_law [OF assms(1), of "int (length s)" s] assms(2)
  by (auto simp: printbuf_strappend_def split: prod.splits)

end

lemma demo_pb_ok: "pb_ok demo_pb" "pb_text demo_pb = []"
  by (simp_all add: pb_ok_def pb_text_def demo_pb_def)

section \<open>Properties\<close>

text \<open>
  Appending through the macro: a well-formed buffer stays well-formed, and its text grows by exactly
  the bytes given, whether they fit or the library's function has to be called; unless that function
  fails, in which case the bytes are dropped and the caller is not told.
\<close>

theorem memappend_fast_appends:
  assumes "printbuf_lib f" and "pb_ok p" and "0 \<le> n" and "n \<le> int (length s)"
  shows "\<exists>p'. printbuf_memappend_fast f p s n = Some p' \<and> pb_ok p' \<and>
    pb_text p' = (if pb_size p - bpos p \<le> n \<and> fst (f p s n) = -1 then pb_text p
                  else pb_text p @ take (nat n) s)"
  by (rule printbuf_lib.fast_appends [OF assms])

theorem memappend_fast_appends_witness:
  "\<exists>p'. printbuf_memappend_fast exact_memappend demo_pb ''json'' 4 = Some p' \<and> pb_text p' = ''json''"
proof -
  have "fst (exact_memappend demo_pb ''json'' 4) \<noteq> -1" by code_simp
  then show ?thesis
    using memappend_fast_appends [OF exact.printbuf_lib_axioms demo_pb_ok(1), of 4 "''json''"]
    by (auto simp: demo_pb_ok)
qed

text \<open>A sequence of appends gives the concatenation of the pieces, as long as no call fails.\<close>

theorem append_all_concatenates:
  assumes "printbuf_lib f" and "pb_ok p" and "append_ok f p ss"
  shows "\<exists>p'. append_all f p ss = Some p' \<and> pb_ok p' \<and> pb_text p' = pb_text p @ concat ss"
  by (rule printbuf_lib.append_all_concat [OF assms])

theorem append_all_concatenates_witness:
  "\<exists>p'. append_all exact_memappend demo_pb [''{'', ''key'', ''}''] = Some p' \<and> pb_text p' = ''{key}''"
proof -
  have "append_ok exact_memappend demo_pb [''{'', ''key'', ''}'']" by code_simp
  from append_all_concatenates [OF exact.printbuf_lib_axioms demo_pb_ok(1) this] show ?thesis
    by (auto simp: demo_pb_ok)
qed

text \<open>
  The replacement for \<open>vasprintf\<close> returns the formatted text when \<open>vsnprintf\<close> counts it. With a C library
  whose \<open>vsnprintf\<close> returns \<open>-1\<close> when the space is too small, the case the comment in the code is
  about, the block has no bytes at all, and whatever is formatted is written behind it.
\<close>

theorem vasprintf_needs_count:
  assumes "v_malloc a" and "v_sprintf a = Some t" and "int (length t) < INT_MAX"
  shows "(v_snprintf a = int (length t) \<longrightarrow> vasprintf win32 True a = Some (int (length t), Some t)) \<and>
    (v_snprintf a = -1 \<longrightarrow> vasprintf win32 True a = None)"
proof -
  have "uint (word_of_int (int (length t) + 1) :: 64 word) = int (length t) + 1"
    using assms(3) unfolding uint_word_of_int by (intro mod_pos_pos_trivial) simp_all
  then show ?thesis using assms(1,2) by (simp add: vasprintf_def Let_def)
qed

theorem vasprintf_needs_count_witness:
  "vasprintf False True \<lparr>v_snprintf = 2, v_malloc = True, v_sprintf = Some ''ok''\<rparr> = Some (2, Some ''ok'') \<and>
   vasprintf False True \<lparr>v_snprintf = -1, v_malloc = True, v_sprintf = Some ''ok''\<rparr> = None"
  using vasprintf_needs_count [of "\<lparr>v_snprintf = 2, v_malloc = True, v_sprintf = Some ''ok''\<rparr>" "''ok''" False]
    vasprintf_needs_count [of "\<lparr>v_snprintf = -1, v_malloc = True, v_sprintf = Some ''ok''\<rparr>" "''ok''" False]
  by simp

text \<open>\<open>hexdigit\<close> reads the hexadecimal digits of either case, and accepts other letters as well.\<close>

theorem hexdigit_reads_digits:
  "map (\<lambda>c. hexdigit (int (of_char c))) ''0123456789abcdef'' = map int [0..<16] \<and>
   map (\<lambda>c. hexdigit (int (of_char c))) ''ABCDEF'' = map int [10..<16] \<and>
   hexdigit (int (of_char (CHR ''i''))) = hexdigit (int (of_char (CHR ''a'')))"
  by code_simp

end
