(* ===== verification/Ssl_Options.thy ===== *)
theory Ssl_Options
  imports Agent_Prelude
begin

text \<open>
  The TLS options of the MySQL command line clients: \<^verbatim>\<open>sslopt-longopts.h\<close> (the table of options),
  \<^verbatim>\<open>sslopt-case.h\<close> (what each option does), \<^verbatim>\<open>sslopt-vars.h\<close> (the variables, and how they reach the
  library), for a build with OpenSSL. The option parser and \<open>find_type_or_exit\<close> are functions of the
  library.
\<close>

section \<open>Variables and options\<close>

abbreviation (input) SSL_MODE_DISABLED :: nat where "SSL_MODE_DISABLED \<equiv> 1"
abbreviation (input) SSL_MODE_PREFERRED :: nat where "SSL_MODE_PREFERRED \<equiv> 2"
abbreviation (input) SSL_MODE_REQUIRED :: nat where "SSL_MODE_REQUIRED \<equiv> 3"
abbreviation (input) SSL_MODE_VERIFY_CA :: nat where "SSL_MODE_VERIFY_CA \<equiv> 4"
abbreviation (input) SSL_MODE_VERIFY_IDENTITY :: nat where "SSL_MODE_VERIFY_IDENTITY \<equiv> 5"

definition ssl_mode_names_lib :: "string list" where
  "ssl_mode_names_lib = [''DISABLED'', ''PREFERRED'', ''REQUIRED'', ''VERIFY_CA'', ''VERIFY_IDENTITY'']"

record ssl_vars =
  opt_ssl_mode :: nat
  opt_ssl_ca :: "string option"
  opt_ssl_capath :: "string option"
  opt_ssl_cert :: "string option"
  opt_ssl_cipher :: "string option"
  opt_ssl_key :: "string option"
  opt_ssl_crl :: "string option"
  opt_ssl_crlpath :: "string option"
  opt_tls_version :: "string option"
  ssl_mode_set_explicitly :: bool
  opt_use_ssl_arg :: bool
  opt_ssl_verify_server_cert_arg :: bool

definition ssl_vars_init :: ssl_vars where
  "ssl_vars_init = \<lparr>opt_ssl_mode = SSL_MODE_PREFERRED, opt_ssl_ca = None, opt_ssl_capath = None,
     opt_ssl_cert = None, opt_ssl_cipher = None, opt_ssl_key = None, opt_ssl_crl = None,
     opt_ssl_crlpath = None, opt_tls_version = None, ssl_mode_set_explicitly = False,
     opt_use_ssl_arg = True, opt_ssl_verify_server_cert_arg = False\<rparr>"

text \<open>An option of the table with its argument.\<close>

datatype ssl_option =
    OPT_SSL_MODE string
  | OPT_SSL_SSL bool
  | OPT_SSL_VERIFY_SERVER_CERT bool
  | OPT_SSL_CA string
  | OPT_SSL_CAPATH string
  | OPT_SSL_CERT string
  | OPT_SSL_CIPHER string
  | OPT_SSL_KEY string
  | OPT_SSL_CRL string
  | OPT_SSL_CRLPATH string
  | OPT_TLS_VERSION string

text \<open>
  The table says under which name an option is given and in which variable the parser puts its
  argument before the case of the option is run; \<^verbatim>\<open>--ssl-mode\<close> has no variable.
\<close>

fun option_name :: "ssl_option \<Rightarrow> string" where
  "option_name (OPT_SSL_MODE _) = ''ssl-mode''"
| "option_name (OPT_SSL_SSL _) = ''ssl''"
| "option_name (OPT_SSL_VERIFY_SERVER_CERT _) = ''ssl-verify-server-cert''"
| "option_name (OPT_SSL_CA _) = ''ssl-ca''"
| "option_name (OPT_SSL_CAPATH _) = ''ssl-capath''"
| "option_name (OPT_SSL_CERT _) = ''ssl-cert''"
| "option_name (OPT_SSL_CIPHER _) = ''ssl-cipher''"
| "option_name (OPT_SSL_KEY _) = ''ssl-key''"
| "option_name (OPT_SSL_CRL _) = ''ssl-crl''"
| "option_name (OPT_SSL_CRLPATH _) = ''ssl-crlpath''"
| "option_name (OPT_TLS_VERSION _) = ''tls-version''"

fun option_variable :: "ssl_option \<Rightarrow> ssl_vars \<Rightarrow> ssl_vars" where
  "option_variable (OPT_SSL_MODE x) v = v"
| "option_variable (OPT_SSL_SSL b) v = v\<lparr>opt_use_ssl_arg := b\<rparr>"
| "option_variable (OPT_SSL_VERIFY_SERVER_CERT b) v = v\<lparr>opt_ssl_verify_server_cert_arg := b\<rparr>"
| "option_variable (OPT_SSL_CA x) v = v\<lparr>opt_ssl_ca := Some x\<rparr>"
| "option_variable (OPT_SSL_CAPATH x) v = v\<lparr>opt_ssl_capath := Some x\<rparr>"
| "option_variable (OPT_SSL_CERT x) v = v\<lparr>opt_ssl_cert := Some x\<rparr>"
| "option_variable (OPT_SSL_CIPHER x) v = v\<lparr>opt_ssl_cipher := Some x\<rparr>"
| "option_variable (OPT_SSL_KEY x) v = v\<lparr>opt_ssl_key := Some x\<rparr>"
| "option_variable (OPT_SSL_CRL x) v = v\<lparr>opt_ssl_crl := Some x\<rparr>"
| "option_variable (OPT_SSL_CRLPATH x) v = v\<lparr>opt_ssl_crlpath := Some x\<rparr>"
| "option_variable (OPT_TLS_VERSION x) v = v\<lparr>opt_tls_version := Some x\<rparr>"

section \<open>What the options do\<close>

text \<open>
  \<open>find_type\<close> is \<open>find_type_or_exit\<close>: the position of the argument among the names, counted from one;
  \<open>None\<close> when the process exits. The last six options share their case; a build with yaSSL has no
  revocation lists.
\<close>

definition no_crl :: "bool \<Rightarrow> ssl_vars \<Rightarrow> ssl_vars" where
  "no_crl yassl v = (if yassl then v\<lparr>opt_ssl_crl := None, opt_ssl_crlpath := None\<rparr> else v)"

fun ssl_case :: "(string \<Rightarrow> string list \<Rightarrow> nat option) \<Rightarrow> bool \<Rightarrow> ssl_option \<Rightarrow> ssl_vars \<Rightarrow> ssl_vars option" where
  "ssl_case find_type yassl (OPT_SSL_MODE x) v = (case find_type x ssl_mode_names_lib of
       None \<Rightarrow> None
     | Some m \<Rightarrow> Some (v\<lparr>opt_ssl_mode := m, ssl_mode_set_explicitly := True\<rparr>))"
| "ssl_case find_type yassl (OPT_SSL_SSL b) v = Some
     (if \<not> opt_use_ssl_arg v then v\<lparr>opt_ssl_mode := SSL_MODE_DISABLED\<rparr>
      else if opt_ssl_mode v < SSL_MODE_REQUIRED then v\<lparr>opt_ssl_mode := SSL_MODE_REQUIRED\<rparr>
      else v)"
| "ssl_case find_type yassl (OPT_SSL_VERIFY_SERVER_CERT b) v = Some
     (if \<not> opt_ssl_verify_server_cert_arg v then
        (if opt_ssl_mode v \<ge> SSL_MODE_VERIFY_IDENTITY then v\<lparr>opt_ssl_mode := SSL_MODE_VERIFY_CA\<rparr> else v)
      else v\<lparr>opt_ssl_mode := SSL_MODE_VERIFY_IDENTITY\<rparr>)"
| "ssl_case find_type yassl (OPT_SSL_CA x) v = Some
     (if \<not> ssl_mode_set_explicitly v then v\<lparr>opt_ssl_mode := SSL_MODE_VERIFY_CA\<rparr> else v)"
| "ssl_case find_type yassl (OPT_SSL_CAPATH x) v = Some
     (if \<not> ssl_mode_set_explicitly v then v\<lparr>opt_ssl_mode := SSL_MODE_VERIFY_CA\<rparr> else v)"
| "ssl_case find_type yassl (OPT_SSL_KEY x) v = Some (no_crl yassl v)"
| "ssl_case find_type yassl (OPT_SSL_CERT x) v = Some (no_crl yassl v)"
| "ssl_case find_type yassl (OPT_SSL_CIPHER x) v = Some (no_crl yassl v)"
| "ssl_case find_type yassl (OPT_SSL_CRL x) v = Some (no_crl yassl v)"
| "ssl_case find_type yassl (OPT_SSL_CRLPATH x) v = Some (no_crl yassl v)"
| "ssl_case find_type yassl (OPT_TLS_VERSION x) v = Some (no_crl yassl v)"

fun ssl_options ::
  "(string \<Rightarrow> string list \<Rightarrow> nat option) \<Rightarrow> bool \<Rightarrow> ssl_option list \<Rightarrow> ssl_vars \<Rightarrow> ssl_vars option" where
  "ssl_options find_type yassl [] v = Some v"
| "ssl_options find_type yassl (opt # opts) v = (case ssl_case find_type yassl opt (option_variable opt v) of
       None \<Rightarrow> None | Some v' \<Rightarrow> ssl_options find_type yassl opts v')"

text \<open>The calls made to the library, and the warning.\<close>

datatype ssl_call =
    Warn_no_verification
  | Mysql_ssl_set "string option" "string option" "string option" "string option" "string option"
  | MYSQL_OPT_SSL_CRL "string option"
  | MYSQL_OPT_SSL_CRLPATH "string option"
  | MYSQL_OPT_TLS_VERSION "string option"
  | MYSQL_OPT_SSL_MODE nat

definition set_client_ssl_options :: "ssl_vars \<Rightarrow> ssl_call list" where
  "set_client_ssl_options v =
     (if ssl_mode_set_explicitly v \<and> opt_ssl_mode v < SSL_MODE_VERIFY_CA \<and>
         (opt_ssl_ca v \<noteq> None \<or> opt_ssl_capath v \<noteq> None)
      then [Warn_no_verification] else []) @
     (if opt_ssl_mode v \<ge> SSL_MODE_VERIFY_CA
      then [Mysql_ssl_set (opt_ssl_key v) (opt_ssl_cert v) (opt_ssl_ca v) (opt_ssl_capath v) (opt_ssl_cipher v)]
      else [Mysql_ssl_set (opt_ssl_key v) (opt_ssl_cert v) None None (opt_ssl_cipher v)]) @
     [MYSQL_OPT_SSL_CRL (opt_ssl_crl v), MYSQL_OPT_SSL_CRLPATH (opt_ssl_crlpath v),
      MYSQL_OPT_TLS_VERSION (opt_tls_version v), MYSQL_OPT_SSL_MODE (opt_ssl_mode v)]"

section \<open>What find\_type\_or\_exit promises\<close>

locale type_finder =
  fixes find_type :: "string \<Rightarrow> string list \<Rightarrow> nat option"
  assumes find_range: "find_type x names = Some i \<Longrightarrow> 1 \<le> i \<and> i \<le> length names"
    and find_name: "i < length names \<Longrightarrow> distinct names \<Longrightarrow> find_type (names ! i) names = Some (Suc i)"

text \<open>A finder that takes whole names only.\<close>

fun whole_name :: "string \<Rightarrow> string list \<Rightarrow> nat option" where
  "whole_name x [] = None"
| "whole_name x (n # ns) = (if x = n then Some 1 else map_option Suc (whole_name x ns))"

text \<open>Options that may weaken what an earlier \<^verbatim>\<open>--ssl-ca\<close> or \<^verbatim>\<open>--ssl-capath\<close> asked for.\<close>

fun weakens :: "ssl_option \<Rightarrow> bool" where
  "weakens (OPT_SSL_MODE _) = True"
| "weakens (OPT_SSL_SSL b) = (\<not> b)"
| "weakens _ = False"

fun gives_ca :: "ssl_option \<Rightarrow> bool" where
  "gives_ca (OPT_SSL_CA _) = True"
| "gives_ca (OPT_SSL_CAPATH _) = True"
| "gives_ca _ = False"

text \<open>What the server's certificate is checked against: the arguments of \<open>mysql_ssl_set\<close>.\<close>

definition verifies :: "ssl_vars \<Rightarrow> bool" where
  "verifies v \<longleftrightarrow> (\<exists>key cert ca capath cipher.
     Mysql_ssl_set key cert ca capath cipher \<in> set (set_client_ssl_options v) \<and> (ca \<noteq> None \<or> capath \<noteq> None))"

section \<open>Lemmas\<close>

lemma whole_name_range: "whole_name x names = Some i \<Longrightarrow> 1 \<le> i \<and> i \<le> length names"
  by (induction names arbitrary: i) (auto split: if_splits)

lemma whole_name_nth: "i < length names \<Longrightarrow> distinct names \<Longrightarrow> whole_name (names ! i) names = Some (Suc i)"
proof (induction names arbitrary: i)
  case (Cons n ns)
  then show ?case by (cases i) auto
qed simp

interpretation whole: type_finder whole_name
  by unfold_locales (rule whole_name_range whole_name_nth; assumption)+

lemma no_crl_simps [simp]:
  "opt_ssl_mode (no_crl y v) = opt_ssl_mode v" "opt_ssl_ca (no_crl y v) = opt_ssl_ca v"
  "opt_ssl_capath (no_crl y v) = opt_ssl_capath v"
  "ssl_mode_set_explicitly (no_crl y v) = ssl_mode_set_explicitly v"
  by (simp_all add: no_crl_def)

lemma ssl_options_append:
  "ssl_options find_type y (xs @ ys) v = (case ssl_options find_type y xs v of None \<Rightarrow> None | Some u \<Rightarrow> ssl_options find_type y ys u)"
  by (induction xs arbitrary: v) (auto split: option.split)

lemma verifies_iff:
  "verifies v \<longleftrightarrow> opt_ssl_mode v \<ge> SSL_MODE_VERIFY_CA \<and> (opt_ssl_ca v \<noteq> None \<or> opt_ssl_capath v \<noteq> None)"
  by (auto simp: verifies_def set_client_ssl_options_def)

text \<open>Induction over the options for a property every case keeps.\<close>

lemma ssl_options_invariant:
  assumes "P v" and "ssl_options find_type y opts v = Some u"
    and "\<And>opt v u. opt \<in> set opts \<Longrightarrow> P v \<Longrightarrow> ssl_case find_type y opt (option_variable opt v) = Some u \<Longrightarrow> P u"
  shows "P u"
  using assms
proof (induction opts arbitrary: v)
  case (Cons opt opts)
  obtain v1 where v1: "ssl_case find_type y opt (option_variable opt v) = Some v1" "ssl_options find_type y opts v1 = Some u"
    using Cons.prems(2) by (auto split: option.splits)
  have "P v1" using Cons.prems(3) [OF _ Cons.prems(1) v1(1)] by simp
  show ?case
  proof (rule Cons.IH [OF \<open>P v1\<close> v1(2)])
    fix opt' v u
    assume "opt' \<in> set opts" "P v" "ssl_case find_type y opt' (option_variable opt' v) = Some u"
    then show "P u" using Cons.prems(3) [of opt' v u] by simp
  qed
qed simp

lemma ssl_case_mode:
  assumes "ssl_case find_type y opt v = Some u" and "\<And>x. opt \<noteq> OPT_SSL_MODE x"
  shows "ssl_mode_set_explicitly u = ssl_mode_set_explicitly v" "opt_ssl_ca u = opt_ssl_ca v"
    "opt_ssl_capath u = opt_ssl_capath v"
  using assms by (cases opt; auto split: if_splits)+

lemma option_variable_simps [simp]:
  "opt_ssl_mode (option_variable opt v) = opt_ssl_mode v"
  "ssl_mode_set_explicitly (option_variable opt v) = ssl_mode_set_explicitly v"
  by (cases opt; simp)+

text \<open>Once a CA is known, and the mode was not chosen explicitly, only \<^verbatim>\<open>--ssl=0\<close> lowers the mode below verification.\<close>

lemma verifying_kept:
  assumes "verifies v" and "\<not> ssl_mode_set_explicitly v" and "\<not> weakens opt"
    and "ssl_case find_type y opt (option_variable opt v) = Some u"
  shows "verifies u \<and> \<not> ssl_mode_set_explicitly u"
  using assms by (cases opt) (auto simp: verifies_iff split: if_splits)

lemma explicit_only_by_mode:
  assumes "ssl_options find_type y opts v = Some u" and "\<not> ssl_mode_set_explicitly v"
    and "\<And>x. OPT_SSL_MODE x \<notin> set opts"
  shows "\<not> ssl_mode_set_explicitly u"
proof (rule ssl_options_invariant [of "\<lambda>v. \<not> ssl_mode_set_explicitly v", OF assms(2,1)])
  fix opt v u
  assume o: "opt \<in> set opts" "\<not> ssl_mode_set_explicitly v" "ssl_case find_type y opt (option_variable opt v) = Some u"
  have "opt \<noteq> OPT_SSL_MODE x" for x using o(1) assms(3) by blast
  then show "\<not> ssl_mode_set_explicitly u" using ssl_case_mode(1) [OF o(3)] o(2) by simp
qed

section \<open>Properties\<close>

text \<open>Whatever options are given, the mode handed to the library is one of the five.\<close>

theorem ssl_mode_in_range:
  assumes "type_finder find_type" and "ssl_options find_type y opts ssl_vars_init = Some v"
  shows "SSL_MODE_DISABLED \<le> opt_ssl_mode v \<and> opt_ssl_mode v \<le> SSL_MODE_VERIFY_IDENTITY"
proof -
  let ?P = "\<lambda>v. SSL_MODE_DISABLED \<le> opt_ssl_mode v \<and> opt_ssl_mode v \<le> SSL_MODE_VERIFY_IDENTITY"
  have five: "length ssl_mode_names_lib = 5" by (simp add: ssl_mode_names_lib_def)
  show ?thesis
  proof (rule ssl_options_invariant [of ?P, OF _ assms(2)])
    fix opt v u
    assume "?P v" and "ssl_case find_type y opt (option_variable opt v) = Some u"
    then show "?P u"
      using type_finder.find_range [OF assms(1), of _ ssl_mode_names_lib, unfolded five]
      by (cases opt) (auto split: if_splits option.splits)
  qed (simp add: ssl_vars_init_def)
qed

theorem ssl_mode_in_range_witness:
  "\<exists>v. ssl_options whole_name False [OPT_SSL_MODE ''REQUIRED'', OPT_SSL_SSL False] ssl_vars_init = Some v \<and>
     SSL_MODE_DISABLED \<le> opt_ssl_mode v \<and> opt_ssl_mode v \<le> SSL_MODE_VERIFY_IDENTITY"
proof -
  obtain v where v: "ssl_options whole_name False [OPT_SSL_MODE ''REQUIRED'', OPT_SSL_SSL False] ssl_vars_init = Some v"
    by (simp add: ssl_mode_names_lib_def)
  from ssl_mode_in_range [OF whole.type_finder_axioms v] v show ?thesis by blast
qed

text \<open>
  C36. A certificate authority given on the command line is used: unless the mode is chosen explicitly
  or TLS is turned off afterwards, the server's certificate is verified against it, whatever
  other options come before or after.
\<close>

theorem given_ca_is_used:
  assumes "ssl_options find_type y (before @ ca # after) ssl_vars_init = Some v" and "gives_ca ca"
    and "\<And>x. OPT_SSL_MODE x \<notin> set before" and "\<And>opt. opt \<in> set after \<Longrightarrow> \<not> weakens opt"
  shows "verifies v"
proof -
  obtain v1 v2 where 1: "ssl_options find_type y before ssl_vars_init = Some v1"
    and 2: "ssl_case find_type y ca (option_variable ca v1) = Some v2"
    and 3: "ssl_options find_type y after v2 = Some v"
    using assms(1) by (auto simp: ssl_options_append split: option.splits)
  have "\<not> ssl_mode_set_explicitly v1"
    by (rule explicit_only_by_mode [OF 1 _ assms(3)]) (simp add: ssl_vars_init_def)
  with 2 assms(2) have "verifies v2 \<and> \<not> ssl_mode_set_explicitly v2"
    by (cases ca) (auto simp: verifies_iff)
  then have "verifies v \<and> \<not> ssl_mode_set_explicitly v"
    by (rule ssl_options_invariant [of "\<lambda>v. verifies v \<and> \<not> ssl_mode_set_explicitly v", OF _ 3])
      (use verifying_kept assms(4) in blast)
  then show ?thesis ..
qed

theorem given_ca_is_used_witness:
  "\<exists>v. ssl_options whole_name False ([OPT_SSL_SSL False] @ OPT_SSL_CA ''ca.pem'' # [OPT_SSL_SSL True]) ssl_vars_init =
     Some v \<and> verifies v"
proof -
  obtain v where v: "ssl_options whole_name False ([OPT_SSL_SSL False] @ OPT_SSL_CA ''ca.pem'' # [OPT_SSL_SSL True])
      ssl_vars_init = Some v" by simp
  have "verifies v" by (rule given_ca_is_used [OF v]) auto
  with v show ?thesis by blast
qed

text \<open>
  A given certificate authority that is not used is announced, as long as TLS is never turned off: either the
  certificate is verified or the warning is printed.
\<close>

theorem unused_ca_is_announced:
  assumes "ssl_options find_type y opts ssl_vars_init = Some v" and "OPT_SSL_SSL False \<notin> set opts"
    and "opt_ssl_ca v \<noteq> None \<or> opt_ssl_capath v \<noteq> None"
  shows "verifies v \<or> Warn_no_verification \<in> set (set_client_ssl_options v)"
proof -
  let ?P = "\<lambda>v. ssl_mode_set_explicitly v \<or> opt_ssl_ca v = None \<and> opt_ssl_capath v = None \<or>
    opt_ssl_mode v \<ge> SSL_MODE_VERIFY_CA"
  have "?P v"
  proof (rule ssl_options_invariant [of ?P, OF _ assms(1)])
    fix opt v u
    assume o: "opt \<in> set opts" "?P v" "ssl_case find_type y opt (option_variable opt v) = Some u"
    from o(1) assms(2) have "opt \<noteq> OPT_SSL_SSL False" by blast
    with o(2,3) show "?P u" by (cases opt) (auto split: if_splits option.splits)
  qed (simp add: ssl_vars_init_def)
  with assms(3) show ?thesis by (auto simp: verifies_iff set_client_ssl_options_def)
qed

theorem unused_ca_is_announced_witness:
  "\<exists>v. ssl_options whole_name False [OPT_SSL_MODE ''REQUIRED'', OPT_SSL_CA ''ca.pem''] ssl_vars_init = Some v \<and>
     \<not> verifies v \<and> Warn_no_verification \<in> set (set_client_ssl_options v)"
proof -
  obtain v where v: "ssl_options whole_name False [OPT_SSL_MODE ''REQUIRED'', OPT_SSL_CA ''ca.pem''] ssl_vars_init =
      Some v" "opt_ssl_mode v = SSL_MODE_REQUIRED" "opt_ssl_ca v = Some ''ca.pem''"
    by (simp add: ssl_mode_names_lib_def)
  have "verifies v \<or> Warn_no_verification \<in> set (set_client_ssl_options v)"
    by (rule unused_ca_is_announced [OF v(1)]) (simp_all add: v(3))
  moreover have "\<not> verifies v" by (simp add: verifies_iff v(2))
  ultimately show ?thesis using v(1) by blast
qed

text \<open>
  Turning TLS off and on again loses the verification without a word: the certificate authority is
  known, the connection is encrypted, nothing is verified and nothing is printed.
\<close>

theorem verification_lost_silently:
  "\<exists>v. ssl_options find_type y [OPT_SSL_CA f, OPT_SSL_SSL False, OPT_SSL_SSL True] ssl_vars_init = Some v \<and>
     opt_ssl_ca v = Some f \<and> opt_ssl_mode v = SSL_MODE_REQUIRED \<and> \<not> verifies v \<and>
     Warn_no_verification \<notin> set (set_client_ssl_options v)"
  by (simp add: ssl_vars_init_def verifies_iff set_client_ssl_options_def)

text \<open>
  The order of two options decides whether the server's name is checked: \<^verbatim>\<open>--ssl-verify-server-cert\<close> asks for it,
  and a \<^verbatim>\<open>--ssl-ca\<close> behind it takes it back to checking the authority only.
\<close>

theorem identity_check_depends_on_order:
  assumes "ssl_options find_type y opts ssl_vars_init = Some v" and "\<And>x. OPT_SSL_MODE x \<notin> set opts"
  shows "\<exists>u1 u2. ssl_options find_type y (opts @ [OPT_SSL_CA f, OPT_SSL_VERIFY_SERVER_CERT True]) ssl_vars_init = Some u1 \<and>
    ssl_options find_type y (opts @ [OPT_SSL_VERIFY_SERVER_CERT True, OPT_SSL_CA f]) ssl_vars_init = Some u2 \<and>
    opt_ssl_mode u1 = SSL_MODE_VERIFY_IDENTITY \<and> opt_ssl_mode u2 = SSL_MODE_VERIFY_CA"
proof -
  have "\<not> ssl_mode_set_explicitly v"
    by (rule explicit_only_by_mode [OF assms(1) _ assms(2)]) (simp add: ssl_vars_init_def)
  with assms(1) show ?thesis by (simp add: ssl_options_append)
qed

theorem identity_check_depends_on_order_witness:
  "\<exists>u1 u2. ssl_options whole_name False ([OPT_SSL_SSL True] @ [OPT_SSL_CA ''ca.pem'', OPT_SSL_VERIFY_SERVER_CERT True])
      ssl_vars_init = Some u1 \<and>
    ssl_options whole_name False ([OPT_SSL_SSL True] @ [OPT_SSL_VERIFY_SERVER_CERT True, OPT_SSL_CA ''ca.pem''])
      ssl_vars_init = Some u2 \<and>
    opt_ssl_mode u1 = SSL_MODE_VERIFY_IDENTITY \<and> opt_ssl_mode u2 = SSL_MODE_VERIFY_CA"
proof -
  obtain v where v: "ssl_options whole_name False [OPT_SSL_SSL True] ssl_vars_init = Some v" by simp
  show ?thesis by (rule identity_check_depends_on_order [OF v]) simp
qed

text \<open>A build with yaSSL never hands a revocation list to the library.\<close>

theorem yassl_has_no_crl:
  assumes "ssl_options find_type True opts ssl_vars_init = Some v"
  shows "opt_ssl_crl v = None \<and> opt_ssl_crlpath v = None"
proof -
  let ?P = "\<lambda>v. opt_ssl_crl v = None \<and> opt_ssl_crlpath v = None"
  show ?thesis
  proof (rule ssl_options_invariant [of ?P, OF _ assms])
    fix opt v u
    assume "?P v" and "ssl_case find_type True opt (option_variable opt v) = Some u"
    then show "?P u" by (cases opt) (auto simp: no_crl_def split: if_splits option.splits)
  qed (simp add: ssl_vars_init_def)
qed

theorem yassl_has_no_crl_witness:
  "\<exists>v. ssl_options whole_name True [OPT_SSL_CRL ''crl.pem''] ssl_vars_init = Some v \<and> opt_ssl_crl v = None"
proof -
  obtain v where v: "ssl_options whole_name True [OPT_SSL_CRL ''crl.pem''] ssl_vars_init = Some v" by simp
  from yassl_has_no_crl [OF v] v show ?thesis by blast
qed

end
