(* ===== verification/Io_Cache.thy ===== *)
theory Io_Cache
  imports Byte_Order
begin

text \<open>
  The buffered files of \<^verbatim>\<open>my_sys.h\<close>: the struct \<open>IO_CACHE\<close> and the macros that read from, write to and
  ask about its buffers. A macro serves what it can from the buffer and calls \<open>read_function\<close>,
  \<open>write_function\<close> or \<open>_my_b_get\<close>, functions of the library, for the rest. Memory is that of \<open>Byte_Order\<close>;
  addresses are natural numbers, and adding to a pointer wraps around at \<open>2 ^ 64\<close>. \<open>None\<close> is undefined
  behaviour.
\<close>

section \<open>The cache\<close>

datatype cache_type = TYPE_NOT_SET | READ_CACHE | WRITE_CACHE | SEQ_READ_APPEND | READ_FIFO | READ_NET | WRITE_NET

text \<open>\<open>current_pos\<close> and \<open>current_end\<close> point at the pair of pointers of one side of the cache.\<close>

datatype side = Read_side | Write_side

text \<open>The members the macros use, and the sizes, flags and counters beside them.\<close>

record io_cache =
  pos_in_file :: "64 word"
  end_of_file :: "64 word"
  read_pos :: nat
  read_end :: nat
  io_buffer :: nat
  request_pos :: nat
  write_buffer :: nat
  append_read_pos :: nat
  write_pos :: nat
  write_end :: nat
  current_pos :: side
  current_end :: side
  io_type :: cache_type
  disk_writes :: "64 word"
  io_file :: int
  seek_not_done :: int
  io_error :: int
  buffer_length :: nat
  read_length :: nat
  myflags :: int
  alloced_buffer :: bool

text \<open>The state a cache function works on: the struct, memory, and the rest (the file).\<close>

type_synonym 'f io_state = "io_cache \<times> memory \<times> 'f"
type_synonym 'f io_function = "io_cache \<Rightarrow> nat \<Rightarrow> nat \<Rightarrow> memory \<Rightarrow> 'f \<Rightarrow> (int \<times> 'f io_state) option"

definition ptr_add :: "nat \<Rightarrow> nat \<Rightarrow> nat" where
  "ptr_add p n = (p + n) mod 2 ^ 64"

text \<open>\<open>memcpy\<close>: of overlapping blocks undefined.\<close>

definition mem_copy :: "nat \<Rightarrow> nat \<Rightarrow> nat \<Rightarrow> memory \<Rightarrow> memory option" where
  "mem_copy dst src n m =
     (if n = 0 \<or> dst + n \<le> src \<or> src + n \<le> dst
      then (case load_bytes n src m of None \<Rightarrow> None | Some bs \<Rightarrow> store_bytes dst bs m)
      else None)"

section \<open>The macros\<close>

definition my_b_clear :: "io_cache \<Rightarrow> io_cache" where
  "my_b_clear info = info\<lparr>io_buffer := 0\<rparr>"

definition my_b_inited :: "io_cache \<Rightarrow> bool" where
  "my_b_inited info \<longleftrightarrow> io_buffer info \<noteq> 0"

definition my_b_read :: "'f io_function \<Rightarrow> 'f io_function" where
  "my_b_read read_function info Buffer Count m fs =
     (if ptr_add (read_pos info) Count \<le> read_end info then
        (case mem_copy Buffer (read_pos info) Count m of
           None \<Rightarrow> None
         | Some m' \<Rightarrow> Some (0, info\<lparr>read_pos := ptr_add (read_pos info) Count\<rparr>, m', fs))
      else read_function info Buffer Count m fs)"


definition my_b_get ::
  "(io_cache \<Rightarrow> memory \<Rightarrow> 'f \<Rightarrow> (int \<times> 'f io_state) option) \<Rightarrow> io_cache \<Rightarrow> memory \<Rightarrow> 'f \<Rightarrow> (int \<times> 'f io_state) option" where
  "my_b_get get info m fs =
     (if read_pos info \<noteq> read_end info then
        (case m (read_pos info) of
           None \<Rightarrow> None
         | Some b \<Rightarrow> Some (uint b, info\<lparr>read_pos := ptr_add (read_pos info) 1\<rparr>, m, fs))
      else get info m fs)"

definition at_pos :: "io_cache \<Rightarrow> nat" where
  "at_pos info = (case current_pos info of Read_side \<Rightarrow> read_pos info | Write_side \<Rightarrow> write_pos info)"

definition at_end :: "io_cache \<Rightarrow> nat" where
  "at_end info = (case current_end info of Read_side \<Rightarrow> read_end info | Write_side \<Rightarrow> write_end info)"

definition my_b_tell :: "io_cache \<Rightarrow> 64 word" where
  "my_b_tell info = pos_in_file info + word_of_int (int (at_pos info) - int (request_pos info))"

definition my_b_get_buffer_start :: "io_cache \<Rightarrow> nat" where
  "my_b_get_buffer_start info = request_pos info"

definition my_b_get_bytes_in_buffer :: "io_cache \<Rightarrow> int" where
  "my_b_get_bytes_in_buffer info = int (read_end info) - int (my_b_get_buffer_start info)"

definition my_b_get_pos_in_file :: "io_cache \<Rightarrow> 64 word" where
  "my_b_get_pos_in_file info = pos_in_file info"

definition my_b_bytes_in_cache :: "io_cache \<Rightarrow> 64 word" where
  "my_b_bytes_in_cache info = word_of_int (int (at_end info) - int (at_pos info))"

section \<open>What a cache is meant to be\<close>

definition mem_block :: "memory \<Rightarrow> nat \<Rightarrow> nat \<Rightarrow> uchar list" where
  "mem_block m p q = map (\<lambda>a. the (m a)) [p..<q]"

text \<open>A reading cache: its pointers are in order inside the buffer, which is allocated.\<close>

definition reader_ok :: "io_cache \<Rightarrow> memory \<Rightarrow> bool" where
  "reader_ok info m \<longleftrightarrow> io_buffer info \<le> read_pos info \<and> read_pos info \<le> read_end info \<and>
     read_end info \<le> io_buffer info + buffer_length info \<and> io_buffer info + buffer_length info < 2 ^ 64 \<and>
     {io_buffer info..<io_buffer info + buffer_length info} \<subseteq> dom m"

text \<open>The bytes in the buffer that were not read yet; a place to read to.\<close>

definition unread :: "io_cache \<Rightarrow> memory \<Rightarrow> uchar list" where
  "unread info m = mem_block m (read_pos info) (read_end info)"

definition place_ok :: "io_cache \<Rightarrow> memory \<Rightarrow> nat \<Rightarrow> nat \<Rightarrow> bool" where
  "place_ok info m p n \<longleftrightarrow> {p..<p + n} \<subseteq> dom m \<and>
     (p + n \<le> io_buffer info \<or> io_buffer info + buffer_length info \<le> p)"

text \<open>The next \<open>n\<close> bytes of the stream, the buffer and then the file, are delivered to a place.\<close>

definition served ::
  "('f \<Rightarrow> uchar list) \<Rightarrow> nat \<Rightarrow> nat \<Rightarrow> 'f io_state \<Rightarrow> 'f io_state \<Rightarrow> bool" where
  "served rest dst n st st' \<longleftrightarrow> (case (st, st') of ((info, m, fs), (info', m', fs')) \<Rightarrow>
     reader_ok info' m' \<and> dom m' = dom m \<and> io_buffer info' = io_buffer info \<and>
     buffer_length info' = buffer_length info \<and>
     load_bytes n dst m' = Some (take n (unread info m @ rest fs)) \<and>
     unread info' m' @ rest fs' = drop n (unread info m @ rest fs))"

text \<open>What the comments of the struct ask of \<open>read_function\<close>, where the buffer has too little.\<close>

locale cached_reader =
  fixes read_function :: "'f io_function"
    and rest :: "'f \<Rightarrow> uchar list"
  assumes read_law: "reader_ok info m \<Longrightarrow> place_ok info m dst n \<Longrightarrow> read_end info < read_pos info + n \<Longrightarrow>
      n \<le> length (unread info m @ rest fs) \<Longrightarrow>
      \<exists>st'. read_function info dst n m fs = Some (0, st') \<and> served rest dst n (info, m, fs) st'"
    and short_law: "reader_ok info m \<Longrightarrow> place_ok info m dst n \<Longrightarrow> length (unread info m @ rest fs) < n \<Longrightarrow>
      \<exists>r st'. read_function info dst n m fs = Some (r, st') \<and> r \<noteq> 0"

text \<open>
  A writing cache, what is waiting in its buffer, and a block that can be written: it does not overlap the
  buffer, and adding its length to a position in the buffer does not carry around the address space.
\<close>

definition writer_ok :: "io_cache \<Rightarrow> memory \<Rightarrow> bool" where
  "writer_ok info m \<longleftrightarrow> write_buffer info \<le> write_pos info \<and> write_pos info \<le> write_end info \<and>
     write_end info \<le> write_buffer info + buffer_length info \<and> write_buffer info + buffer_length info < 2 ^ 64 \<and>
     {write_buffer info..<write_buffer info + buffer_length info} \<subseteq> dom m"


definition source_ok :: "io_cache \<Rightarrow> memory \<Rightarrow> nat \<Rightarrow> nat \<Rightarrow> bool" where
  "source_ok info m p n \<longleftrightarrow> {p..<p + n} \<subseteq> dom m \<and> write_buffer info + buffer_length info + n < 2 ^ 64 \<and>
     (p + n \<le> write_buffer info \<or> write_buffer info + buffer_length info \<le> p)"





text \<open>A run of reads to one place, collecting what arrives there.\<close>

fun read_seq ::
  "'f io_function \<Rightarrow> nat \<Rightarrow> nat list \<Rightarrow> io_cache \<Rightarrow> memory \<Rightarrow> 'f \<Rightarrow> (uchar list list \<times> 'f io_state) option" where
  "read_seq rfun dst [] info m fs = Some ([], info, m, fs)"
| "read_seq rfun dst (n # ns) info m fs = (case my_b_read rfun info dst n m fs of
       Some (r, info', m', fs') \<Rightarrow>
         (if r = 0 then
            (case load_bytes n dst m' of
               None \<Rightarrow> None
             | Some bs \<Rightarrow> (case read_seq rfun dst ns info' m' fs' of
                   None \<Rightarrow> None | Some (bss, st) \<Rightarrow> Some (bs # bss, st)))
          else None)
     | None \<Rightarrow> None)"

text \<open>
  A library that does not refill the buffer: what is missing comes from the file, a list of bytes,
  or goes to it. A failing call reports the bytes there were in \<open>error\<close>.
\<close>

definition plain_read :: "uchar list io_function" where
  "plain_read info dst n m fs =
     (let bs = unread info m; k = length bs in
      if n \<le> k + length fs then
        (case store_bytes dst (bs @ take (n - k) fs) m of
           None \<Rightarrow> None
         | Some m' \<Rightarrow> Some (0, info\<lparr>read_pos := read_end info\<rparr>, m', drop (n - k) fs))
      else Some (1, info\<lparr>io_error := int (k + length fs)\<rparr>, m, fs))"


text \<open>A cache with two bytes left in a buffer of four, and a file that goes on.\<close>

definition demo_cache :: io_cache where
  "demo_cache = \<lparr>pos_in_file = 0, end_of_file = 8, read_pos = 102, read_end = 104, io_buffer = 100, request_pos = 100,
     write_buffer = 200, append_read_pos = 0, write_pos = 201, write_end = 204, current_pos = Read_side,
     current_end = Read_side, io_type = READ_CACHE, disk_writes = 0, io_file = 3, seek_not_done = 0, io_error = 0,
     buffer_length = 4, read_length = 4, myflags = 0, alloced_buffer = True\<rparr>"

definition demo_memory :: memory where
  "demo_memory = (\<lambda>a. if 100 \<le> a \<and> a < 400 then Some (of_nat a) else None)"

section \<open>Lemmas\<close>

lemma range_within: "{a..<b} \<subseteq> D \<Longrightarrow> a \<le> c \<Longrightarrow> d \<le> b \<Longrightarrow> {c..<d :: nat} \<subseteq> D"
  by (rule order_trans [rotated]) auto

lemma load_mem_block: "{p..<p + n} \<subseteq> dom m \<Longrightarrow> load_bytes n p m = Some (mem_block m p (p + n))"
  by (simp add: load_bytes_iff mem_block_def)

lemma length_mem_block [simp]: "length (mem_block m p q) = q - p"
  by (simp add: mem_block_def)

lemma mem_block_append: "p \<le> q \<Longrightarrow> q \<le> r \<Longrightarrow> mem_block m p r = mem_block m p q @ mem_block m q r"
  using upt_add_eq_append [of p q "r - q"] by (simp add: mem_block_def)

lemma mem_block_cong: "(\<And>a. p \<le> a \<Longrightarrow> a < q \<Longrightarrow> m' a = m a) \<Longrightarrow> mem_block m' p q = mem_block m p q"
  by (simp add: mem_block_def)

lemma mem_copy_block:
  assumes "{dst..<dst + n} \<subseteq> dom m" and "{src..<src + n} \<subseteq> dom m" and "n = 0 \<or> dst + n \<le> src \<or> src + n \<le> dst"
  shows "\<exists>m'. mem_copy dst src n m = Some m' \<and> dom m' = dom m \<and> mem_block m' dst (dst + n) = mem_block m src (src + n) \<and>
    (\<forall>a. a < dst \<or> dst + n \<le> a \<longrightarrow> m' a = m a)"
proof -
  let ?bs = "mem_block m src (src + n)" and ?m = "m ++ block dst (mem_block m src (src + n))"
  have "mem_copy dst src n m = Some ?m"
    using assms by (simp add: mem_copy_def load_mem_block store_bytes_iff)
  moreover have "dom ?m = dom m" using assms(1) by auto
  moreover have "mem_block ?m dst (dst + n) = ?bs"
    using map_the_block [of m dst ?bs] by (simp add: mem_block_def)
  moreover have "\<forall>a. a < dst \<or> dst + n \<le> a \<longrightarrow> ?m a = m a"
    by (auto simp: block_def map_add_def)
  ultimately show ?thesis by blast
qed

lemma ptr_add_small: "p + n < 2 ^ 64 \<Longrightarrow> ptr_add p n = p + n"
  by (simp add: ptr_add_def)

lemma unread_length: "length (unread info m) = read_end info - read_pos info"
  by (simp add: unread_def)

text \<open>The buffer has enough: the bytes are copied and the read position moves.\<close>

lemma read_from_buffer:
  assumes "reader_ok info m" and "place_ok info m dst n" and "read_pos info + n \<le> read_end info"
  shows "\<exists>m'. my_b_read rfun info dst n m fs = Some (0, info\<lparr>read_pos := read_pos info + n\<rparr>, m', fs) \<and>
    served rest dst n (info, m, fs) (info\<lparr>read_pos := read_pos info + n\<rparr>, m', fs)"
proof -
  let ?r = "read_pos info" and ?info = "info\<lparr>read_pos := read_pos info + n\<rparr>"
  have buf: "{?r..<?r + n} \<subseteq> dom m"
    by (rule range_within [of "io_buffer info" "io_buffer info + buffer_length info"])
      (use assms in \<open>simp_all add: reader_ok_def\<close>)
  have far: "?r + n < 2 ^ 64" "dst + n \<le> ?r \<or> ?r + n \<le> dst"
    using assms by (auto simp: reader_ok_def place_ok_def)
  obtain m' where m': "mem_copy dst ?r n m = Some m'" "dom m' = dom m"
      "mem_block m' dst (dst + n) = mem_block m ?r (?r + n)" "\<forall>a. a < dst \<or> dst + n \<le> a \<longrightarrow> m' a = m a"
    using mem_copy_block [of dst n m ?r] assms(2) buf far(2) by (auto simp: place_ok_def)
  have "unread ?info m' = mem_block m (?r + n) (read_end info)"
    unfolding unread_def using assms m'(4)
    by (auto simp: reader_ok_def place_ok_def intro!: mem_block_cong)
  moreover have "unread info m = mem_block m ?r (?r + n) @ mem_block m (?r + n) (read_end info)"
    unfolding unread_def by (rule mem_block_append) (use assms(3) in simp_all)
  moreover have "load_bytes n dst m' = Some (mem_block m ?r (?r + n))"
    using load_mem_block [of dst n m'] m'(2,3) assms(2) by (simp add: place_ok_def)
  moreover have "reader_ok ?info m'" using assms(1,3) m'(2) by (simp add: reader_ok_def)
  ultimately have "served rest dst n (info, m, fs) (?info, m', fs)"
    using m'(2) by (simp add: served_def)
  then show ?thesis using assms(3) far(1) m'(1) by (simp add: my_b_read_def ptr_add_small)
qed

context cached_reader
begin

lemma read_serves:
  assumes "reader_ok info m" and "place_ok info m dst n" and "read_pos info + n < 2 ^ 64"
    and "n \<le> length (unread info m @ rest fs)"
  shows "\<exists>st'. my_b_read read_function info dst n m fs = Some (0, st') \<and> served rest dst n (info, m, fs) st'"
proof (cases "read_pos info + n \<le> read_end info")
  case True
  then show ?thesis using read_from_buffer [OF assms(1,2), of read_function fs rest] by blast
next
  case False
  then have "my_b_read read_function info dst n m fs = read_function info dst n m fs"
    using assms(3) by (simp add: my_b_read_def ptr_add_small)
  then show ?thesis using read_law [OF assms(1,2) _ assms(4)] False by simp
qed

lemma read_short:
  assumes "reader_ok info m" and "place_ok info m dst n" and "read_pos info + n < 2 ^ 64"
    and "length (unread info m @ rest fs) < n"
  shows "\<exists>r st'. my_b_read read_function info dst n m fs = Some (r, st') \<and> r \<noteq> 0"
proof -
  have "read_end info < read_pos info + n" using assms(4) by (simp add: unread_length)
  then have "my_b_read read_function info dst n m fs = read_function info dst n m fs"
    using assms(3) by (simp add: my_b_read_def ptr_add_small)
  then show ?thesis using short_law [OF assms(1,2,4)] by simp
qed

end

lemma served_state:
  assumes "served rest dst n (info, m, fs) (info', m', fs')"
  shows "reader_ok info' m'" "place_ok info m p k \<Longrightarrow> place_ok info' m' p k"
    "load_bytes n dst m' = Some (take n (unread info m @ rest fs))"
    "unread info' m' @ rest fs' = drop n (unread info m @ rest fs)"
    "read_pos info' < 2 ^ 64" "io_buffer info' = io_buffer info" "buffer_length info' = buffer_length info"
  using assms by (simp_all add: served_def place_ok_def) (simp add: reader_ok_def)

context cached_reader
begin

lemma read_seq_slices:
  assumes "reader_ok info m" and "\<And>n. n \<in> set ns \<Longrightarrow> place_ok info m dst n"
    and "io_buffer info + buffer_length info + sum_list ns < 2 ^ 64"
    and "sum_list ns \<le> length (unread info m @ rest fs)"
  shows "\<exists>bss st. read_seq read_function dst ns info m fs = Some (bss, st) \<and> map length bss = ns \<and>
    concat bss = take (sum_list ns) (unread info m @ rest fs)"
  using assms
proof (induction ns arbitrary: info m fs)
  case (Cons n ns)
  let ?s = "unread info m @ rest fs"
  have "read_pos info + n < 2 ^ 64" using Cons.prems(1,3) by (simp add: reader_ok_def)
  then obtain info' m' fs' where 1: "my_b_read read_function info dst n m fs = Some (0, info', m', fs')"
      "served rest dst n (info, m, fs) (info', m', fs')"
    using read_serves [OF Cons.prems(1), of dst n fs] Cons.prems(2,4) by auto
  note st = served_state [OF 1(2)]
  have "\<exists>bss st. read_seq read_function dst ns info' m' fs' = Some (bss, st) \<and> map length bss = ns \<and>
      concat bss = take (sum_list ns) (unread info' m' @ rest fs')"
  proof (rule Cons.IH [OF st(1)])
    show "place_ok info' m' dst k" if "k \<in> set ns" for k using st(2) Cons.prems(2) that by simp
    show "io_buffer info' + buffer_length info' + sum_list ns < 2 ^ 64" using Cons.prems(3) st(6,7) by simp
    show "sum_list ns \<le> length (unread info' m' @ rest fs')"
      unfolding st(4) using Cons.prems(4) by simp
  qed
  then obtain bss sf where 2: "read_seq read_function dst ns info' m' fs' = Some (bss, sf)" "map length bss = ns"
      "concat bss = take (sum_list ns) (drop n ?s)"
    unfolding st(4) by blast
  have "length (take n ?s) = n" using Cons.prems(4) by simp
  moreover have "take n ?s @ take (sum_list ns) (drop n ?s) = take (n + sum_list ns) ?s"
    by (simp only: take_add)
  ultimately show ?case
    using 1(1) 2 st(3) by (intro exI [of _ "take n ?s # bss"] exI [of _ sf]) (simp del: append_take_drop_id take_append)
qed simp

end

lemma plain_read_served:
  assumes "reader_ok info m" and "place_ok info m dst n" and "read_end info < read_pos info + n"
    and "n \<le> length (unread info m @ fs)"
  shows "\<exists>st'. plain_read info dst n m fs = Some (0, st') \<and> served (\<lambda>fs. fs) dst n (info, m, fs) st'"
proof -
  let ?k = "length (unread info m)" and ?bs = "unread info m @ take (n - length (unread info m)) fs"
  have k: "?k < n" using assms(1,3) by (auto simp: unread_length reader_ok_def)
  have len: "length ?bs = n" and bs: "?bs = take n (unread info m @ fs)"
    using assms(4) k by simp_all
  have dom: "{dst..<dst + length ?bs} \<subseteq> dom m" using assms(2) len by (simp add: place_ok_def)
  let ?m = "m ++ block dst ?bs"
  have st: "store_bytes dst ?bs m = Some ?m" using dom by (simp only: store_bytes_iff if_True)
  have "load_bytes n dst ?m = Some ?bs" using load_store_bytes [OF st] len by simp
  moreover have "dom ?m = dom m" using dom by auto
  ultimately have "served (\<lambda>fs. fs) dst n (info, m, fs) (info\<lparr>read_pos := read_end info\<rparr>, ?m, drop (n - ?k) fs)"
    using assms(1) k bs by (simp add: served_def reader_ok_def unread_def mem_block_def)
  then show ?thesis using assms(4) st by (simp add: plain_read_def Let_def)
qed

interpretation plain: cached_reader plain_read "\<lambda>fs. fs"
proof
  show "\<exists>st'. plain_read info dst n m fs = Some (0, st') \<and> served (\<lambda>fs. fs) dst n (info, m, fs) st'"
    if "reader_ok info m" "place_ok info m dst n" "read_end info < read_pos info + n"
      "n \<le> length (unread info m @ fs)" for info m dst n fs
    using that by (rule plain_read_served)
  show "\<exists>r st'. plain_read info dst n m fs = Some (r, st') \<and> r \<noteq> 0"
    if "reader_ok info m" "place_ok info m dst n" "length (unread info m @ fs) < n" for info m dst n fs
    using that(3) by (simp add: plain_read_def Let_def)
qed







lemma demo_reader: "reader_ok demo_cache demo_memory" "writer_ok demo_cache demo_memory"
  by (auto simp: reader_ok_def writer_ok_def demo_cache_def demo_memory_def)

lemma demo_place: "n \<le> 3 \<Longrightarrow> place_ok demo_cache demo_memory 300 n" "n \<le> 3 \<Longrightarrow> source_ok demo_cache demo_memory 300 n"
  by (auto simp: place_ok_def source_ok_def demo_cache_def demo_memory_def)

lemma demo_unread: "unread demo_cache demo_memory = [102, 103]"
  by (simp add: unread_def mem_block_def demo_cache_def demo_memory_def upt_rec)

section \<open>Properties\<close>

text \<open>
  C34. A cache reads like its file: whatever part is in the buffer, \<open>my_b_read\<close> delivers the next bytes of
  the stream and leaves the stream behind them, or fails when there are not enough; provided the count
  does not carry the read position around the address space.
\<close>

theorem my_b_read_next_bytes:
  assumes "cached_reader rfun rest" and "reader_ok info m" and "place_ok info m dst n"
    and "read_pos info + n < 2 ^ 64"
  shows "if n \<le> length (unread info m @ rest fs)
    then \<exists>st'. my_b_read rfun info dst n m fs = Some (0, st') \<and> served rest dst n (info, m, fs) st'
    else \<exists>r st'. my_b_read rfun info dst n m fs = Some (r, st') \<and> r \<noteq> 0"
  using cached_reader.read_serves [OF assms] cached_reader.read_short [OF assms] by auto

theorem my_b_read_next_bytes_witness:
  "\<exists>info m fs. my_b_read plain_read demo_cache 300 3 demo_memory [7, 8] = Some (0, info, m, fs) \<and>
     load_bytes 3 300 m = Some [102, 103, 7] \<and> unread info m @ fs = [8]"
proof -
  have "read_pos demo_cache + 3 < 2 ^ 64" by (simp add: demo_cache_def)
  from my_b_read_next_bytes [OF plain.cached_reader_axioms demo_reader(1) demo_place(1) [of 3] this, of "[7, 8]"]
  obtain info m fs where "my_b_read plain_read demo_cache 300 3 demo_memory [7, 8] = Some (0, info, m, fs)"
      "served (\<lambda>fs. fs) 300 3 (demo_cache, demo_memory, [7, 8]) (info, m, fs)"
    by (auto simp: demo_unread)
  then show ?thesis by (auto simp: served_def demo_unread)
qed

text \<open>A run of reads, of whatever sizes, gives consecutive pieces of the stream.\<close>

theorem reads_are_slices:
  assumes "cached_reader rfun rest" and "reader_ok info m" and "\<And>n. n \<in> set ns \<Longrightarrow> place_ok info m dst n"
    and "io_buffer info + buffer_length info + sum_list ns < 2 ^ 64"
    and "sum_list ns \<le> length (unread info m @ rest fs)"
  shows "\<exists>bss st. read_seq rfun dst ns info m fs = Some (bss, st) \<and> map length bss = ns \<and>
    concat bss = take (sum_list ns) (unread info m @ rest fs)"
  by (rule cached_reader.read_seq_slices [OF assms])

theorem reads_are_slices_witness:
  "\<exists>bss st. read_seq plain_read 300 [1, 2, 1] demo_cache demo_memory [7, 8] = Some (bss, st) \<and>
     map length bss = [1, 2, 1] \<and> concat bss = [102, 103, 7, 8]"
proof -
  have "\<exists>bss st. read_seq plain_read 300 [1, 2, 1] demo_cache demo_memory [7, 8] = Some (bss, st) \<and>
      map length bss = [1, 2, 1] \<and> concat bss = take (sum_list [1, 2, 1]) (unread demo_cache demo_memory @ [7, 8])"
    by (rule reads_are_slices [OF plain.cached_reader_axioms demo_reader(1)])
      (auto simp: demo_unread intro: demo_place(1), simp add: demo_cache_def)
  then show ?thesis by (simp add: demo_unread)
qed



text \<open>
  The test of \<open>my_b_read\<close> adds the count to a pointer: a count that carries it around the address
  space looks as if the bytes were in the buffer, and memory behind every object is read.
\<close>

theorem my_b_read_huge_count:
  assumes "reader_ok info m" and "2 ^ 64 < read_pos info + n" and "n < 2 ^ 64" and "dom m \<subseteq> {..<2 ^ 64}"
  shows "my_b_read rfun info dst n m fs = None"
proof -
  have "ptr_add (read_pos info) n = read_pos info + n - 2 ^ 64" and "n \<noteq> 0"
    using assms by (auto simp: ptr_add_def reader_ok_def mod_if)
  moreover have "read_pos info \<le> read_end info" using assms(1) by (simp add: reader_ok_def)
  ultimately have "ptr_add (read_pos info) n \<le> read_end info" using assms(3) by linarith
  moreover have "\<not> {read_pos info..<read_pos info + n} \<subseteq> dom m"
  proof
    assume "{read_pos info..<read_pos info + n} \<subseteq> dom m"
    moreover have "read_pos info + n - 1 \<in> {read_pos info..<read_pos info + n}" using \<open>n \<noteq> 0\<close> by simp
    ultimately have "read_pos info + n - 1 \<in> {..<2 ^ 64}" using assms(4) by blast
    then show False using assms(2) by simp
  qed
  ultimately show ?thesis by (simp add: my_b_read_def mem_copy_def load_bytes_iff)
qed

theorem my_b_read_huge_count_witness:
  "my_b_read plain_read demo_cache 300 (2 ^ 64 - 1) demo_memory [] = None"
  by (rule my_b_read_huge_count [OF demo_reader(1)]) (auto simp: demo_cache_def demo_memory_def split: if_splits)

text \<open>\<open>my_b_tell\<close> follows what is read from the buffer, and \<open>my_b_get\<close> reads the one byte \<open>my_b_read\<close> would.\<close>

theorem my_b_tell_follows:
  assumes "reader_ok info m" and "place_ok info m dst n" and "read_pos info + n \<le> read_end info"
    and "current_pos info = Read_side"
  shows "\<exists>info' m'. my_b_read rfun info dst n m fs = Some (0, info', m', fs) \<and>
    my_b_tell info' = my_b_tell info + of_nat n \<and>
    (n = 1 \<longrightarrow> my_b_get g info m fs = Some (uint (hd (unread info m)), info', m, fs))"
proof -
  obtain m' where 1: "my_b_read rfun info dst n m fs = Some (0, info\<lparr>read_pos := read_pos info + n\<rparr>, m', fs)"
    using read_from_buffer [OF assms(1-3), of rfun fs "\<lambda>_. []"] by blast
  have "my_b_tell (info\<lparr>read_pos := read_pos info + n\<rparr>) = my_b_tell info + of_nat n"
    using assms(4) by (simp add: my_b_tell_def at_pos_def algebra_simps)
  moreover have "my_b_get g info m fs = Some (uint (hd (unread info m)), info\<lparr>read_pos := read_pos info + n\<rparr>, m, fs)"
    if "n = 1"
  proof -
    have "{read_pos info..<read_pos info + 1} \<subseteq> dom m"
      by (rule range_within [of "io_buffer info" "io_buffer info + buffer_length info"])
        (use assms(1,3) that in \<open>simp_all add: reader_ok_def\<close>)
    then obtain b where b: "m (read_pos info) = Some b" by auto
    have "read_pos info < read_end info" "read_pos info + 1 < 2 ^ 64" using assms(1,3) that by (auto simp: reader_ok_def)
    then show ?thesis
      using b that by (simp add: my_b_get_def unread_def mem_block_def upt_rec ptr_add_small)
  qed
  ultimately show ?thesis using 1 by blast
qed

theorem my_b_tell_follows_witness:
  "\<exists>info m. my_b_read plain_read demo_cache 300 1 demo_memory [] = Some (0, info, m, []) \<and> my_b_tell info = 3"
proof -
  have "my_b_tell demo_cache = 2" by (simp add: my_b_tell_def at_pos_def demo_cache_def)
  moreover have "read_pos demo_cache + 1 \<le> read_end demo_cache" "current_pos demo_cache = Read_side"
    by (simp_all add: demo_cache_def)
  ultimately show ?thesis
    using my_b_tell_follows [OF demo_reader(1) demo_place(1) [of 1], of plain_read "[]" "\<lambda>_ _ _. None"] by auto
qed

end
