(* ===== verification/Mysql_Ctype.thy ===== *)
theory Mysql_Ctype
  imports "HOL-Library.Word"
begin

unbundle bit_operations_syntax

text \<open>
  The character classes of \<^verbatim>\<open>m_ctype.h\<close> and the classes of column types of \<^verbatim>\<open>mysql.h\<close> and \<^verbatim>\<open>mysql_com.h\<close>:
  macros over the tables of a character set, and over the codes of \<open>enum_field_types\<close>. \<open>None\<close> is an access
  outside a table.
\<close>

section \<open>Character sets\<close>

text \<open>
  The functions of a character set the macros call (\<open>ismbchar\<close> may be \<open>NULL\<close>), and \<open>CHARSET_INFO\<close>
  without its pointers to the library's own tables (\<open>uca\<close>, \<open>tab_to_uni\<close>, \<open>tab_from_uni\<close>, \<open>caseinfo\<close>,
  \<open>state_maps\<close>, \<open>coll\<close>).
\<close>

record charset_handler =
  ismbchar :: "(string \<Rightarrow> 32 word) option"
  mbcharlen :: "32 word \<Rightarrow> 32 word"

record charset_info =
  cs_number :: "32 word"
  primary_number :: "32 word"
  binary_number :: "32 word"
  cs_state :: "32 word"
  csname :: string
  cs_name :: string
  cs_comment :: string
  tailoring :: "string option"
  ctype :: "8 word list"
  to_lower :: "8 word list"
  to_upper :: "8 word list"
  sort_order :: "8 word list"
  ident_map :: "8 word list"
  strxfrm_multiply :: "32 word"
  caseup_multiply :: "8 word"
  casedn_multiply :: "8 word"
  mbminlen :: "32 word"
  mbmaxlen :: "32 word"
  mbmaxlenlen :: "32 word"
  min_sort_char :: "64 word"
  max_sort_char :: "64 word"
  pad_char :: "8 word"
  escape_with_backslash_is_dangerous :: bool
  levels_for_compare :: "8 word"
  levels_for_order :: "8 word"
  cset :: charset_handler

abbreviation (input) MY_U :: "8 word" where "MY_U \<equiv> 0x01"
abbreviation (input) MY_L :: "8 word" where "MY_L \<equiv> 0x02"
abbreviation (input) MY_NMR :: "8 word" where "MY_NMR \<equiv> 0x04"
abbreviation (input) MY_SPC :: "8 word" where "MY_SPC \<equiv> 0x08"
abbreviation (input) MY_PNT :: "8 word" where "MY_PNT \<equiv> 0x10"
abbreviation (input) MY_CTR :: "8 word" where "MY_CTR \<equiv> 0x20"
abbreviation (input) MY_B :: "8 word" where "MY_B \<equiv> 0x40"
abbreviation (input) MY_X :: "8 word" where "MY_X \<equiv> 0x80"

text \<open>\<open>c\<close> is an \<open>int\<close>, or a \<open>char\<close> that was promoted to one.\<close>

definition my_isascii :: "32 word \<Rightarrow> bool" where
  "my_isascii c \<longleftrightarrow> c AND NOT 0x7F = 0"

definition my_toascii :: "32 word \<Rightarrow> 32 word" where
  "my_toascii c = c AND 0x7F"

definition my_tocntrl :: "32 word \<Rightarrow> 32 word" where
  "my_tocntrl c = c AND 31"

definition my_toprint :: "32 word \<Rightarrow> 32 word" where
  "my_toprint c = c OR 64"

definition table_get :: "'a list \<Rightarrow> nat \<Rightarrow> 'a option" where
  "table_get xs i = (if i < length xs then Some (xs ! i) else None)"

definition uchar_of :: "32 word \<Rightarrow> nat" where
  "uchar_of c = unat (ucast c :: 8 word)"

definition my_toupper :: "charset_info \<Rightarrow> 32 word \<Rightarrow> 8 word option" where
  "my_toupper s c = table_get (to_upper s) (uchar_of c)"

definition my_tolower :: "charset_info \<Rightarrow> 32 word \<Rightarrow> 8 word option" where
  "my_tolower s c = table_get (to_lower s) (uchar_of c)"

text \<open>The table of classes has an entry before that of byte 0.\<close>

definition my_class :: "8 word \<Rightarrow> charset_info \<Rightarrow> 32 word \<Rightarrow> 8 word option" where
  "my_class bits s c = map_option (\<lambda>b. b AND bits) (table_get (ctype s) (1 + uchar_of c))"

definition my_isalpha where "my_isalpha = my_class (MY_U OR MY_L)"
definition my_isupper where "my_isupper = my_class MY_U"
definition my_islower where "my_islower = my_class MY_L"
definition my_isdigit where "my_isdigit = my_class MY_NMR"
definition my_isxdigit where "my_isxdigit = my_class MY_X"
definition my_isalnum where "my_isalnum = my_class (MY_U OR MY_L OR MY_NMR)"
definition my_isspace where "my_isspace = my_class MY_SPC"
definition my_ispunct where "my_ispunct = my_class MY_PNT"
definition my_isprint where "my_isprint = my_class (MY_PNT OR MY_U OR MY_L OR MY_NMR OR MY_B)"
definition my_isgraph where "my_isgraph = my_class (MY_PNT OR MY_U OR MY_L OR MY_NMR)"
definition my_iscntrl where "my_iscntrl = my_class MY_CTR"

text \<open>A result used as a condition.\<close>

definition is_true :: "8 word option \<Rightarrow> bool" where
  "is_true r \<longleftrightarrow> (case r of None \<Rightarrow> False | Some b \<Rightarrow> b \<noteq> 0)"

definition my_isvar :: "charset_info \<Rightarrow> 32 word \<Rightarrow> bool" where
  "my_isvar s c \<longleftrightarrow> is_true (my_isalnum s c) \<or> c = 95"

definition my_isvar_start :: "charset_info \<Rightarrow> 32 word \<Rightarrow> bool" where
  "my_isvar_start s c \<longleftrightarrow> is_true (my_isalpha s c) \<or> c = 95"

definition my_binary_compare :: "charset_info \<Rightarrow> bool" where
  "my_binary_compare s \<longleftrightarrow> cs_state s AND 16 \<noteq> 0"

definition use_strnxfrm :: "charset_info \<Rightarrow> bool" where
  "use_strnxfrm s \<longleftrightarrow> cs_state s AND 64 \<noteq> 0"

definition use_mb :: "charset_info \<Rightarrow> bool" where
  "use_mb s \<longleftrightarrow> ismbchar (cset s) \<noteq> None"

definition my_ismbchar :: "charset_info \<Rightarrow> string \<Rightarrow> 32 word option" where
  "my_ismbchar s t = map_option (\<lambda>f. f t) (ismbchar (cset s))"

definition my_mbcharlen :: "charset_info \<Rightarrow> 32 word \<Rightarrow> 32 word" where
  "my_mbcharlen s a = mbcharlen (cset s) a"

definition my_mbcharlen_2 :: "charset_info \<Rightarrow> 32 word \<Rightarrow> 32 word \<Rightarrow> 32 word" where
  "my_mbcharlen_2 s a b = mbcharlen (cset s) (push_bit 8 (a AND 0xFF) + (b AND 0xFF))"

definition my_mbmaxlenlen :: "charset_info \<Rightarrow> 32 word" where
  "my_mbmaxlenlen s = mbmaxlenlen s"

definition my_ismb1st :: "charset_info \<Rightarrow> 32 word \<Rightarrow> bool" where
  "my_ismb1st s i \<longleftrightarrow> my_mbcharlen s i > 1 \<or> my_mbmaxlenlen s = 2 \<and> my_mbcharlen s i = 0"

section \<open>Columns\<close>

definition IS_PRI_KEY :: "32 word \<Rightarrow> bool" where "IS_PRI_KEY n \<longleftrightarrow> n AND 2 \<noteq> 0"
definition IS_NOT_NULL :: "32 word \<Rightarrow> bool" where "IS_NOT_NULL n \<longleftrightarrow> n AND 1 \<noteq> 0"
definition IS_BLOB :: "32 word \<Rightarrow> bool" where "IS_BLOB n \<longleftrightarrow> n AND 16 \<noteq> 0"

text \<open>The codes of \<open>enum_field_types\<close>, by name.\<close>

definition enum_field_types :: "(string \<times> int) list" where
  "enum_field_types =
     zip [''DECIMAL'', ''TINY'', ''SHORT'', ''LONG'', ''FLOAT'', ''DOUBLE'', ''NULL'', ''TIMESTAMP'',
          ''LONGLONG'', ''INT24'', ''DATE'', ''TIME'', ''DATETIME'', ''YEAR'', ''NEWDATE'', ''VARCHAR'',
          ''BIT'', ''TIMESTAMP2'', ''DATETIME2'', ''TIME2''] (map int [0..<20]) @
     zip [''JSON'', ''NEWDECIMAL'', ''ENUM'', ''SET'', ''TINY_BLOB'', ''MEDIUM_BLOB'', ''LONG_BLOB'', ''BLOB'',
          ''VAR_STRING'', ''STRING'', ''GEOMETRY''] (map int [245..<256])"

definition IS_NUM :: "int \<Rightarrow> bool" where
  "IS_NUM t \<longleftrightarrow> t \<le> 9 \<and> t \<noteq> 7 \<or> t = 13 \<or> t = 246"

definition IS_LONGDATA :: "int \<Rightarrow> bool" where
  "IS_LONGDATA t \<longleftrightarrow> t \<ge> 249 \<and> t \<le> 254"

text \<open>The kinds of session state the server tracks have the codes 0 to 5.\<close>

definition IS_SESSION_STATE_TYPE :: "int \<Rightarrow> bool" where
  "IS_SESSION_STATE_TYPE T \<longleftrightarrow> T \<ge> 0 \<and> T \<le> 5"

text \<open>A character set that knows ASCII letters, digits, the blank and some punctuation.\<close>

definition ascii_class :: "nat \<Rightarrow> 8 word" where
  "ascii_class n =
     (if 65 \<le> n \<and> n \<le> 90 then MY_U else if 97 \<le> n \<and> n \<le> 122 then MY_L
      else if 48 \<le> n \<and> n \<le> 57 then MY_NMR OR MY_X else if n = 32 then MY_SPC OR MY_B
      else if 33 \<le> n \<and> n < 127 then MY_PNT else MY_CTR)"

definition ascii_set :: charset_info where
  "ascii_set = \<lparr>cs_number = 1, primary_number = 1, binary_number = 2, cs_state = 0, csname = ''ascii'',
     cs_name = ''ascii'', cs_comment = [], tailoring = None, ctype = 0 # map ascii_class [0..<256], to_lower = map of_nat [0..<256],
     to_upper = map of_nat [0..<256], sort_order = map of_nat [0..<256], ident_map = [],
     strxfrm_multiply = 1, caseup_multiply = 1, casedn_multiply = 1, mbminlen = 1, mbmaxlen = 1,
     mbmaxlenlen = 1, min_sort_char = 0, max_sort_char = 255, pad_char = 32,
     escape_with_backslash_is_dangerous = False, levels_for_compare = 1, levels_for_order = 1, cset = \<lparr>ismbchar = None, mbcharlen = (\<lambda>_. 1)\<rparr>\<rparr>"

section \<open>Lemmas\<close>

lemma uchar_of_less: "uchar_of c < 256"
proof -
  have "unat (ucast c :: 8 word) < 2 ^ LENGTH(8)" by (rule unsigned_less)
  then show ?thesis by (simp add: uchar_of_def)
qed

lemma table_get_Some: "i < length xs \<Longrightarrow> table_get xs i = Some (xs ! i)"
  by (simp add: table_get_def)

lemma my_class_at:
  assumes "length (ctype s) = 257"
  shows "my_class bits s c = Some (ctype s ! (1 + uchar_of c) AND bits)"
  using uchar_of_less [of c] assms by (simp add: my_class_def table_get_Some)

lemma is_true_class:
  assumes "length (ctype s) = 257"
  shows "is_true (my_class bits s c) \<longleftrightarrow> ctype s ! (1 + uchar_of c) AND bits \<noteq> 0"
  by (simp add: is_true_def my_class_at [OF assms])

lemma is_true_class_or:
  assumes "length (ctype s) = 257"
  shows "is_true (my_class (a OR b) s c) \<longleftrightarrow> is_true (my_class a s c) \<or> is_true (my_class b s c)"
  by (simp add: is_true_class [OF assms] bit.conj_disj_distrib or_eq_0_iff)

lemma and_not_zero: "c AND NOT m = 0 \<longleftrightarrow> c AND m = c" for c m :: "32 word"
  by (auto simp: bit_eq_iff bit_simps)

lemma and_low:
  "uint (x AND 0x7F) = uint x mod 128" "uint (x AND 31) = uint x mod 32" "uint (x AND 0xFF) = uint x mod 256"
  for x :: "32 word"
proof -
  have "i AND 127 = i mod 128" "i AND 31 = i mod 32" "i AND 255 = i mod 256" for i :: int
    using take_bit_eq_mask [of 7 i] take_bit_eq_mask [of 5 i] take_bit_eq_mask [of 8 i]
    by (simp_all add: take_bit_eq_mod mask_eq_exp_minus_1)
  then show "uint (x AND 0x7F) = uint x mod 128" "uint (x AND 31) = uint x mod 32" "uint (x AND 0xFF) = uint x mod 256"
    by (simp_all add: unsigned_and_eq)
qed

lemmas class_defs =
  my_isalpha_def my_isupper_def my_islower_def my_isdigit_def my_isxdigit_def my_isalnum_def my_isspace_def
  my_ispunct_def my_isprint_def my_isgraph_def my_iscntrl_def

section \<open>Properties\<close>

text \<open>
  The classes of a character set with a table of 257 entries: every \<open>int\<close>, negative characters and \<open>EOF\<close>
  included, has its entry in the table, and the compound classes are the unions of the simple
  ones.
\<close>

theorem character_classes:
  assumes "length (ctype s) = 257"
  shows "my_class bits s c \<noteq> None \<and>
    (is_true (my_isalpha s c) \<longleftrightarrow> is_true (my_isupper s c) \<or> is_true (my_islower s c)) \<and>
    (is_true (my_isalnum s c) \<longleftrightarrow> is_true (my_isalpha s c) \<or> is_true (my_isdigit s c)) \<and>
    (is_true (my_isgraph s c) \<longleftrightarrow> is_true (my_isalnum s c) \<or> is_true (my_ispunct s c)) \<and>
    (is_true (my_isprint s c) \<longleftrightarrow> is_true (my_isgraph s c) \<or> is_true (my_class MY_B s c)) \<and>
    (my_isvar s c \<longleftrightarrow> my_isvar_start s c \<or> is_true (my_isdigit s c))"
proof (intro conjI)
  show "my_class bits s c \<noteq> None" by (simp add: my_class_at [OF assms])
qed (unfold class_defs is_true_class_or [OF assms] my_isvar_def my_isvar_start_def, blast+)

text \<open>The sample set: the classes of ASCII letters, digits, blank and underscore.\<close>

theorem character_classes_witness:
  "is_true (my_isalnum ascii_set 53) \<and> is_true (my_isdigit ascii_set 53) \<and> my_isvar ascii_set 95"
proof -
  have n: "length (ctype ascii_set) = 257" by (simp add: ascii_set_def)
  have d: "is_true (my_isdigit ascii_set 53)" by code_simp
  with character_classes [OF n, of 0 53] have "is_true (my_isalnum ascii_set 53)" by blast
  with d show ?thesis by (simp add: my_isvar_def)
qed

text \<open>
  The table has an entry for \<open>EOF\<close>, at the front, but the conversion to \<open>unsigned char\<close> sends \<open>EOF\<close> to byte
  255: the entry is never read, and \<open>EOF\<close> is whatever class that byte has.
\<close>

theorem eof_entry_dead:
  assumes "ctype s = e # cs" and "ctype s' = e' # cs"
  shows "my_class bits s c = my_class bits s' c \<and> my_class bits s (- 1) = my_class bits s 255"
proof -
  have "uchar_of (- 1) = 255" "uchar_of 255 = 255" by code_simp+
  with assms show ?thesis by (simp add: my_class_def table_get_def)
qed

theorem eof_entry_dead_witness:
  "my_class MY_U (ascii_set\<lparr>ctype := 0 # tl (ctype ascii_set)\<rparr>) 65 = my_class MY_U (ascii_set\<lparr>ctype := 255 # tl (ctype ascii_set)\<rparr>) 65"
  using eof_entry_dead [of "ascii_set\<lparr>ctype := 0 # tl (ctype ascii_set)\<rparr>" 0 "tl (ctype ascii_set)"
      "ascii_set\<lparr>ctype := 255 # tl (ctype ascii_set)\<rparr>" 255 MY_U 65] by simp

text \<open>
  The conversions of \<open>int\<close>: a character is ASCII exactly if it is below 128, the three conversions stay
  in their ranges, and the code that stands for the first two bytes of a character has 16 bits.
\<close>

theorem ascii_conversions:
  "(my_isascii c \<longleftrightarrow> uint c < 128) \<and> uint (my_toascii c) = uint c mod 128 \<and>
   uint (my_tocntrl c) = uint c mod 32 \<and> (my_isascii c \<longrightarrow> my_toascii c = c) \<and>
   uint (push_bit 8 (a AND 0xFF) + (b AND 0xFF) :: 32 word) = 256 * (uint a mod 256) + uint b mod 256"
  for a b c :: "32 word"
proof -
  have "uint c mod 128 = uint c \<longleftrightarrow> uint c < 128"
    using pos_mod_bound [of 128 "uint c"] by (auto simp: mod_pos_pos_trivial)
  moreover have "my_isascii c \<longleftrightarrow> my_toascii c = c"
    unfolding my_isascii_def my_toascii_def by (rule and_not_zero)
  moreover have "my_toascii c = c \<longleftrightarrow> uint c mod 128 = uint c"
    by (simp add: my_toascii_def word_uint_eq_iff and_low)
  moreover have "uint (push_bit 8 (a AND 0xFF) + (b AND 0xFF) :: 32 word) = 256 * (uint a mod 256) + uint b mod 256"
  proof -
    have "uint (push_bit 8 (a AND 0xFF) :: 32 word) = 256 * (uint a mod 256)"
      using pos_mod_bound [of 256 "uint a"]
      by (simp add: push_bit_eq_mult uint_word_ariths and_low mod_pos_pos_trivial mult.commute)
    then show ?thesis
      using pos_mod_bound [of 256 "uint a"] pos_mod_bound [of 256 "uint b"]
      by (simp add: uint_word_ariths and_low mod_pos_pos_trivial)
  qed
  ultimately show ?thesis by (simp add: my_toascii_def my_tocntrl_def and_low)
qed

text \<open>
  The numeric columns by name. The comment on \<open>IS_NUM\<close> promises a number; the null type is among them,
  and the newer types of bits are not.
\<close>

theorem numeric_types:
  "map fst (filter (\<lambda>(n, t). IS_NUM t) enum_field_types) =
     [''DECIMAL'', ''TINY'', ''SHORT'', ''LONG'', ''FLOAT'', ''DOUBLE'', ''NULL'', ''LONGLONG'', ''INT24'', ''YEAR'',
      ''NEWDECIMAL''] \<and>
   map fst (filter (\<lambda>(n, t). IS_LONGDATA t) enum_field_types) =
     [''TINY_BLOB'', ''MEDIUM_BLOB'', ''LONG_BLOB'', ''BLOB'', ''VAR_STRING'', ''STRING'']"
  by code_simp

end
