(* ===== verification/My_Thread.thy ===== *)
theory My_Thread
  imports "HOL-Library.Word"
begin

text \<open>
  The portable thread layer: thread attributes (\<^verbatim>\<open>my_thread.h\<close>), thread-local storage
  (\<^verbatim>\<open>my_thread_local.h\<close>) and \<open>my_sleep\<close> (\<^verbatim>\<open>my_sys.h\<close>), each for Windows and for POSIX. The functions of the
  operating system are parameters (\<open>posix\<close>, \<open>tls\<close>, \<open>pthread_keys\<close>); a function returns its result, the values
  it stores through pointers and the changed state.
\<close>

section \<open>Attributes\<close>

record win_attr =
  dwStackSize :: "32 word"
  detachstate :: int

abbreviation (input) MY_THREAD_CREATE_JOINABLE :: int where "MY_THREAD_CREATE_JOINABLE \<equiv> 0"
abbreviation (input) MY_THREAD_CREATE_DETACHED :: int where "MY_THREAD_CREATE_DETACHED \<equiv> 1"

record 'a posix =
  pthread_attr_init :: "'a \<Rightarrow> int \<times> 'a"
  pthread_attr_destroy :: "'a \<Rightarrow> int \<times> 'a"
  pthread_attr_setstacksize :: "'a \<Rightarrow> 64 word \<Rightarrow> int \<times> 'a"
  pthread_attr_setdetachstate :: "'a \<Rightarrow> int \<Rightarrow> int \<times> 'a"
  pthread_attr_getstacksize :: "'a \<Rightarrow> int \<times> 64 word"
  pthread_equal :: "nat \<Rightarrow> nat \<Rightarrow> int"

definition my_thread_attr_init_win :: "win_attr \<Rightarrow> int \<times> win_attr" where
  "my_thread_attr_init_win attr = (0, attr\<lparr>dwStackSize := 0, detachstate := MY_THREAD_CREATE_JOINABLE\<rparr>)"

definition my_thread_attr_init_posix :: "'a posix \<Rightarrow> 'a \<Rightarrow> int \<times> 'a" where
  "my_thread_attr_init_posix os attr = pthread_attr_init os attr"

definition my_thread_attr_destroy_win :: "win_attr \<Rightarrow> int \<times> win_attr" where
  "my_thread_attr_destroy_win attr = (0, attr\<lparr>dwStackSize := 0, detachstate := MY_THREAD_CREATE_JOINABLE\<rparr>)"

definition my_thread_attr_destroy_posix :: "'a posix \<Rightarrow> 'a \<Rightarrow> int \<times> 'a" where
  "my_thread_attr_destroy_posix os attr = pthread_attr_destroy os attr"

text \<open>A \<open>size_t\<close> becomes a \<open>DWORD\<close>.\<close>

definition my_thread_attr_setstacksize_win :: "win_attr \<Rightarrow> 64 word \<Rightarrow> int \<times> win_attr" where
  "my_thread_attr_setstacksize_win attr stacksize = (0, attr\<lparr>dwStackSize := ucast stacksize\<rparr>)"

definition my_thread_attr_setstacksize_posix :: "'a posix \<Rightarrow> 'a \<Rightarrow> 64 word \<Rightarrow> int \<times> 'a" where
  "my_thread_attr_setstacksize_posix os attr stacksize = pthread_attr_setstacksize os attr stacksize"

definition my_thread_attr_setdetachstate_win :: "win_attr \<Rightarrow> int \<Rightarrow> int \<times> win_attr" where
  "my_thread_attr_setdetachstate_win attr state = (0, attr\<lparr>detachstate := state\<rparr>)"

definition my_thread_attr_setdetachstate_posix :: "'a posix \<Rightarrow> 'a \<Rightarrow> int \<Rightarrow> int \<times> 'a" where
  "my_thread_attr_setdetachstate_posix os attr state = pthread_attr_setdetachstate os attr state"

definition my_thread_attr_getstacksize_win :: "win_attr \<Rightarrow> int \<times> 64 word" where
  "my_thread_attr_getstacksize_win attr = (0, ucast (dwStackSize attr))"

definition my_thread_attr_getstacksize_posix :: "'a posix \<Rightarrow> 'a \<Rightarrow> int \<times> 64 word" where
  "my_thread_attr_getstacksize_posix os attr = pthread_attr_getstacksize os attr"

definition my_thread_equal_win :: "nat \<Rightarrow> nat \<Rightarrow> int" where
  "my_thread_equal_win t1 t2 = (if t1 = t2 then 1 else 0)"

definition my_thread_equal_posix :: "'a posix \<Rightarrow> nat \<Rightarrow> nat \<Rightarrow> int" where
  "my_thread_equal_posix os t1 t2 = pthread_equal os t1 t2"

section \<open>Thread-local storage\<close>

text \<open>A value is a pointer, 0 for \<open>NULL\<close>. The Windows functions return whether they succeeded.\<close>

abbreviation TLS_OUT_OF_INDEXES :: "32 word" where "TLS_OUT_OF_INDEXES \<equiv> 0xFFFFFFFF"

record 's tls =
  TlsAlloc :: "'s \<Rightarrow> 32 word \<times> 's"
  TlsFree :: "32 word \<Rightarrow> 's \<Rightarrow> bool \<times> 's"
  TlsGetValue :: "32 word \<Rightarrow> 's \<Rightarrow> nat"
  TlsSetValue :: "32 word \<Rightarrow> nat \<Rightarrow> 's \<Rightarrow> bool \<times> 's"

record 's pthread_keys =
  pthread_key_create :: "nat \<Rightarrow> 's \<Rightarrow> int \<times> 32 word \<times> 's"
  pthread_key_delete :: "32 word \<Rightarrow> 's \<Rightarrow> int \<times> 's"
  pthread_getspecific :: "32 word \<Rightarrow> 's \<Rightarrow> nat"
  pthread_setspecific :: "32 word \<Rightarrow> nat \<Rightarrow> 's \<Rightarrow> int \<times> 's"

text \<open>The result is the return value, the key stored through the pointer, and the state.\<close>

definition my_create_thread_local_key_win :: "'s tls \<Rightarrow> nat \<Rightarrow> 's \<Rightarrow> int \<times> 32 word \<times> 's" where
  "my_create_thread_local_key_win os destructor s =
     (case TlsAlloc os s of (key, s') \<Rightarrow> (if key = TLS_OUT_OF_INDEXES then 1 else 0, key, s'))"

definition my_create_thread_local_key_posix :: "'s pthread_keys \<Rightarrow> nat \<Rightarrow> 's \<Rightarrow> int \<times> 32 word \<times> 's" where
  "my_create_thread_local_key_posix os destructor s = pthread_key_create os destructor s"

definition my_delete_thread_local_key_win :: "'s tls \<Rightarrow> 32 word \<Rightarrow> 's \<Rightarrow> int \<times> 's" where
  "my_delete_thread_local_key_win os key s = (case TlsFree os key s of (ok, s') \<Rightarrow> (if ok then 0 else 1, s'))"

definition my_delete_thread_local_key_posix :: "'s pthread_keys \<Rightarrow> 32 word \<Rightarrow> 's \<Rightarrow> int \<times> 's" where
  "my_delete_thread_local_key_posix os key s = pthread_key_delete os key s"

definition my_get_thread_local_win :: "'s tls \<Rightarrow> 32 word \<Rightarrow> 's \<Rightarrow> nat" where
  "my_get_thread_local_win os key s = TlsGetValue os key s"

definition my_get_thread_local_posix :: "'s pthread_keys \<Rightarrow> 32 word \<Rightarrow> 's \<Rightarrow> nat" where
  "my_get_thread_local_posix os key s = pthread_getspecific os key s"

definition my_set_thread_local_win :: "'s tls \<Rightarrow> 32 word \<Rightarrow> nat \<Rightarrow> 's \<Rightarrow> int \<times> 's" where
  "my_set_thread_local_win os key value s = (case TlsSetValue os key value s of (ok, s') \<Rightarrow> (if ok then 0 else 1, s'))"

definition my_set_thread_local_posix :: "'s pthread_keys \<Rightarrow> 32 word \<Rightarrow> nat \<Rightarrow> 's \<Rightarrow> int \<times> 's" where
  "my_set_thread_local_posix os key value s = pthread_setspecific os key value s"

section \<open>Sleeping\<close>

text \<open>
  The argument is in microseconds, whatever its name says: the milliseconds handed to \<open>Sleep\<close> (the cast
  binds tighter than the division), and the \<open>struct timeval\<close> handed to \<open>select\<close>.
\<close>

definition my_sleep_win :: "64 word \<Rightarrow> 32 word" where
  "my_sleep_win m_seconds = (ucast m_seconds :: 32 word) div 1000 + 1"

definition my_sleep_posix :: "int \<Rightarrow> int \<times> int" where
  "my_sleep_posix m_seconds = (m_seconds div 1000000, m_seconds mod 1000000)"

text \<open>The operating systems' storage as a finite map from keys to values, with a last key of its own.\<close>

type_synonym slots = "(32 word \<times> nat) list"

definition slot_value :: "32 word \<Rightarrow> slots \<Rightarrow> nat" where
  "slot_value key s = (case map_of s key of None \<Rightarrow> 0 | Some v \<Rightarrow> v)"

fun free_key :: "32 word \<Rightarrow> nat \<Rightarrow> slots \<Rightarrow> 32 word option" where
  "free_key k 0 s = None"
| "free_key k (Suc n) s = (if k \<in> fst ` set s then free_key (k + 1) n s else Some k)"

definition slot_create :: "slots \<Rightarrow> 32 word option" where
  "slot_create s = (case free_key 0 (Suc (length s)) s of
     None \<Rightarrow> None | Some k \<Rightarrow> if k = TLS_OUT_OF_INDEXES then None else Some k)"

definition map_tls :: "slots tls" where
  "map_tls = \<lparr>TlsAlloc = (\<lambda>s. case slot_create s of None \<Rightarrow> (TLS_OUT_OF_INDEXES, s) | Some k \<Rightarrow> (k, (k, 0) # s)),
     TlsFree = (\<lambda>k s. (k \<in> fst ` set s, filter (\<lambda>(i, v). i \<noteq> k) s)), TlsGetValue = slot_value,
     TlsSetValue = (\<lambda>k v s. (k \<in> fst ` set s, map (\<lambda>(i, u). (i, if i = k then v else u)) s))\<rparr>"

definition map_keys :: "slots pthread_keys" where
  "map_keys = \<lparr>pthread_key_create = (\<lambda>d s. case slot_create s of None \<Rightarrow> (11, 0, s) | Some k \<Rightarrow> (0, k, (k, 0) # s)),
     pthread_key_delete = (\<lambda>k s. (if k \<in> fst ` set s then 0 else 22, filter (\<lambda>(i, v). i \<noteq> k) s)),
     pthread_getspecific = slot_value,
     pthread_setspecific = (\<lambda>k v s. (if k \<in> fst ` set s then 0 else 22, map (\<lambda>(i, u). (i, if i = k then v else u)) s))\<rparr>"

section \<open>What the layer promises\<close>

text \<open>The four operations of thread-local storage, over either operating system.\<close>

locale thread_local =
  fixes create :: "nat \<Rightarrow> 's \<Rightarrow> int \<times> 32 word \<times> 's"
    and delete :: "32 word \<Rightarrow> 's \<Rightarrow> int \<times> 's"
    and lookup :: "32 word \<Rightarrow> 's \<Rightarrow> nat"
    and assign :: "32 word \<Rightarrow> nat \<Rightarrow> 's \<Rightarrow> int \<times> 's"
    and live :: "'s \<Rightarrow> 32 word set"
  assumes create_law: "create d s = (0, key, s') \<Longrightarrow>
      key \<notin> live s \<and> live s' = insert key (live s) \<and> lookup key s' = 0 \<and> (\<forall>k \<in> live s. lookup k s' = lookup k s)"
    and assign_law: "key \<in> live s \<Longrightarrow> assign key v s = (0, s') \<Longrightarrow>
      live s' = live s \<and> (\<forall>k \<in> live s. lookup k s' = (if k = key then v else lookup k s))"
    and delete_law: "key \<in> live s \<Longrightarrow> delete key s = (0, s') \<Longrightarrow>
      live s' = live s - {key} \<and> (\<forall>k \<in> live s'. lookup k s' = lookup k s)"
begin

text \<open>A slot keeps its value while others come and go.\<close>

lemma slot_keeps_value:
  assumes "key \<in> live s" and "assign key v s = (0, s1)" and "create d s1 = (0, key2, s2)"
    and "assign key2 v2 s2 = (0, s3)" and "delete key2 s3 = (0, s4)"
  shows "lookup key s4 = v \<and> live s4 = live s"
proof -
  have 1: "live s1 = live s" "lookup key s1 = v" using assign_law [OF assms(1,2)] assms(1) by auto
  have 2: "key2 \<notin> live s" "live s2 = insert key2 (live s)" "lookup key s2 = v"
    using create_law [OF assms(3)] 1 assms(1) by auto
  have 3: "live s3 = insert key2 (live s)" "lookup key s3 = v"
    using assign_law [OF _ assms(4)] 2 assms(1) by auto
  show ?thesis using delete_law [OF _ assms(5)] 2(1) 3 assms(1) by auto
qed

end

text \<open>What is asked of the two operating systems.\<close>

locale tls_os =
  fixes os :: "'s tls"
    and live :: "'s \<Rightarrow> 32 word set"
  assumes alloc_law: "TlsAlloc os s = (key, s') \<Longrightarrow> key \<noteq> TLS_OUT_OF_INDEXES \<Longrightarrow>
      key \<notin> live s \<and> live s' = insert key (live s) \<and> TlsGetValue os key s' = 0 \<and>
      (\<forall>k \<in> live s. TlsGetValue os k s' = TlsGetValue os k s)"
    and set_value_law: "key \<in> live s \<Longrightarrow> TlsSetValue os key v s = (True, s') \<Longrightarrow>
      live s' = live s \<and> (\<forall>k \<in> live s. TlsGetValue os k s' = (if k = key then v else TlsGetValue os k s))"
    and free_law: "key \<in> live s \<Longrightarrow> TlsFree os key s = (True, s') \<Longrightarrow>
      live s' = live s - {key} \<and> (\<forall>k \<in> live s'. TlsGetValue os k s' = TlsGetValue os k s)"

sublocale tls_os \<subseteq> win: thread_local
  "my_create_thread_local_key_win os" "my_delete_thread_local_key_win os" "my_get_thread_local_win os"
  "my_set_thread_local_win os" live
proof
  show "key \<notin> live s \<and> live s' = insert key (live s) \<and> my_get_thread_local_win os key s' = 0 \<and>
      (\<forall>k \<in> live s. my_get_thread_local_win os k s' = my_get_thread_local_win os k s)"
    if "my_create_thread_local_key_win os d s = (0, key, s')" for d s key s'
    using that alloc_law [of s key s']
    by (auto simp: my_create_thread_local_key_win_def my_get_thread_local_win_def split: prod.splits if_splits)
  show "live s' = live s \<and> (\<forall>k \<in> live s. my_get_thread_local_win os k s' =
      (if k = key then v else my_get_thread_local_win os k s))"
    if "key \<in> live s" "my_set_thread_local_win os key v s = (0, s')" for key s v s'
    using that set_value_law [of key s v s']
    by (auto simp: my_set_thread_local_win_def my_get_thread_local_win_def split: prod.splits if_splits)
  show "live s' = live s - {key} \<and> (\<forall>k \<in> live s'. my_get_thread_local_win os k s' = my_get_thread_local_win os k s)"
    if "key \<in> live s" "my_delete_thread_local_key_win os key s = (0, s')" for key s s'
    using that free_law [of key s s']
    by (auto simp: my_delete_thread_local_key_win_def my_get_thread_local_win_def split: prod.splits if_splits)
qed

context tls_os
begin

lemmas slots = win.slot_keeps_value

end

locale pthread_os = thread_local "pthread_key_create os" "pthread_key_delete os" "pthread_getspecific os"
    "pthread_setspecific os" live
  for os :: "'s pthread_keys" and live :: "'s \<Rightarrow> 32 word set"

sublocale pthread_os \<subseteq> posix: thread_local
  "my_create_thread_local_key_posix os" "my_delete_thread_local_key_posix os" "my_get_thread_local_posix os"
  "my_set_thread_local_posix os" live
  using thread_local_axioms
  by (simp add: my_create_thread_local_key_posix_def [abs_def] my_delete_thread_local_key_posix_def [abs_def]
      my_get_thread_local_posix_def [abs_def] my_set_thread_local_posix_def [abs_def])

section \<open>Lemmas\<close>

lemma free_key_fresh: "free_key k n s = Some i \<Longrightarrow> i \<notin> fst ` set s"
  by (induction k n s rule: free_key.induct) (auto split: if_splits)

lemma slot_create_fresh: "slot_create s = Some k \<Longrightarrow> k \<notin> fst ` set s \<and> k \<noteq> TLS_OUT_OF_INDEXES"
  by (auto simp: slot_create_def split: option.splits if_splits dest: free_key_fresh)

lemma map_of_assign:
  "map_of (map (\<lambda>(i, u). (i, if i = k then v else u)) s) j = (if j = k then map_option (\<lambda>_. v) (map_of s j) else map_of s j)"
  by (induction s) auto

lemma map_of_drop: "map_of (filter (\<lambda>(i, v). i \<noteq> k) s) j = (if j = k then None else map_of s j)"
  by (induction s) auto

lemma fst_assign: "fst ` set (map (\<lambda>(i, u). (i, if i = k then v else u)) s) = fst ` set s"
  by force

lemma fst_drop: "fst ` set (filter (\<lambda>(i, v). i \<noteq> k) s) = fst ` set s - {k}"
  by force

lemma slot_value_laws:
  "slot_value k ((k, 0) # s) = 0" "j \<noteq> k \<Longrightarrow> slot_value j ((k, v) # s) = slot_value j s"
  "j \<noteq> k \<Longrightarrow> slot_value j (filter (\<lambda>(i, v). i \<noteq> k) s) = slot_value j s"
  "j \<in> fst ` set s \<Longrightarrow> slot_value j (map (\<lambda>(i, u). (i, if i = k then v else u)) s) = (if j = k then v else slot_value j s)"
  by (auto simp: slot_value_def map_of_drop map_of_assign map_of_eq_None_iff split: option.split)

lemma slot_create_laws:
  assumes "slot_create s = Some key"
  shows "key \<notin> fst ` set s \<and> fst ` set ((key, 0) # s) = insert key (fst ` set s) \<and> slot_value key ((key, 0) # s) = 0 \<and>
    (\<forall>k \<in> fst ` set s. slot_value k ((key, 0) # s) = slot_value k s)"
proof -
  have "key \<notin> fst ` set s" using slot_create_fresh [OF assms] by simp
  then have "slot_value k ((key, 0) # s) = slot_value k s" if "k \<in> fst ` set s" for k
    using that by (intro slot_value_laws(2)) auto
  then show ?thesis using \<open>key \<notin> fst ` set s\<close> by (auto simp: slot_value_laws(1))
qed

interpretation map_tls: tls_os map_tls "\<lambda>s. fst ` set s"
proof
  show "key \<notin> fst ` set s \<and> fst ` set s' = insert key (fst ` set s) \<and> TlsGetValue map_tls key s' = 0 \<and>
      (\<forall>k \<in> fst ` set s. TlsGetValue map_tls k s' = TlsGetValue map_tls k s)"
    if "TlsAlloc map_tls s = (key, s')" "key \<noteq> TLS_OUT_OF_INDEXES" for s key s'
    using that slot_create_laws [of s] by (auto simp: map_tls_def split: option.splits)
  show "fst ` set s' = fst ` set s \<and> (\<forall>k \<in> fst ` set s. TlsGetValue map_tls k s' =
      (if k = key then v else TlsGetValue map_tls k s))"
    if "key \<in> fst ` set s" "TlsSetValue map_tls key v s = (True, s')" for key s v s'
    using that fst_assign [of key v s] slot_value_laws(4) [of _ s key v] by (auto simp: map_tls_def)
  show "fst ` set s' = fst ` set s - {key} \<and> (\<forall>k \<in> fst ` set s'. TlsGetValue map_tls k s' = TlsGetValue map_tls k s)"
    if "key \<in> fst ` set s" "TlsFree map_tls key s = (True, s')" for key s s'
    using that fst_drop [of key s] slot_value_laws(3) [of _ key s] by (auto simp: map_tls_def)
qed

interpretation map_keys: pthread_os map_keys "\<lambda>s. fst ` set s"
proof
  show "key \<notin> fst ` set s \<and> fst ` set s' = insert key (fst ` set s) \<and> pthread_getspecific map_keys key s' = 0 \<and>
      (\<forall>k \<in> fst ` set s. pthread_getspecific map_keys k s' = pthread_getspecific map_keys k s)"
    if "pthread_key_create map_keys d s = (0, key, s')" for d s key s'
    using that slot_create_laws [of s] by (auto simp: map_keys_def split: option.splits)
  show "fst ` set s' = fst ` set s \<and> (\<forall>k \<in> fst ` set s. pthread_getspecific map_keys k s' =
      (if k = key then v else pthread_getspecific map_keys k s))"
    if "key \<in> fst ` set s" "pthread_setspecific map_keys key v s = (0, s')" for key s v s'
    using that fst_assign [of key v s] slot_value_laws(4) [of _ s key v] by (auto simp: map_keys_def)
  show "fst ` set s' = fst ` set s - {key} \<and>
      (\<forall>k \<in> fst ` set s'. pthread_getspecific map_keys k s' = pthread_getspecific map_keys k s)"
    if "key \<in> fst ` set s" "pthread_key_delete map_keys key s = (0, s')" for key s s'
    using that fst_drop [of key s] slot_value_laws(3) [of _ key s] by (auto simp: map_keys_def)
qed

section \<open>Properties\<close>

text \<open>
  Thread-local slots on Windows: a value stays in its slot while another slot is made, used and
  deleted; so do the slots on POSIX.
\<close>

theorem win_slot_keeps_value:
  assumes "tls_os os live" and "key \<in> live s" and "my_set_thread_local_win os key v s = (0, s1)"
    and "my_create_thread_local_key_win os d s1 = (0, key2, s2)"
    and "my_set_thread_local_win os key2 v2 s2 = (0, s3)" and "my_delete_thread_local_key_win os key2 s3 = (0, s4)"
  shows "my_get_thread_local_win os key s4 = v \<and> live s4 = live s"
  by (rule tls_os.slots [OF assms])

theorem win_slot_keeps_value_witness:
  "my_get_thread_local_win map_tls 0 [(0, 7)] = 7 \<and>
   (\<exists>s2 s3 s4. my_create_thread_local_key_win map_tls 0 [(0, 7)] = (0, 1, s2) \<and>
     my_set_thread_local_win map_tls 1 9 s2 = (0, s3) \<and> my_delete_thread_local_key_win map_tls 1 s3 = (0, s4) \<and>
     my_get_thread_local_win map_tls 0 s4 = 7)"
proof -
  have 1: "my_set_thread_local_win map_tls 0 7 [(0, 0)] = (0, [(0, 7)])" by code_simp
  have 2: "my_create_thread_local_key_win map_tls 0 [(0, 7)] = (0, 1, [(1, 0), (0, 7)])" by code_simp
  have 3: "my_set_thread_local_win map_tls 1 9 [(1, 0), (0, 7)] = (0, [(1, 9), (0, 7)])" by code_simp
  have 4: "my_delete_thread_local_key_win map_tls 1 [(1, 9), (0, 7)] = (0, [(0, 7)])" by code_simp
  from win_slot_keeps_value [OF map_tls.tls_os_axioms _ 1 2 3 4] have "my_get_thread_local_win map_tls 0 [(0, 7)] = 7"
    by simp
  with 2 3 4 show ?thesis by blast
qed

text \<open>
  The size of a stack on Windows: what is read back is what was set, up to 32 bits; a size of four
  gigabytes or more is cut off without an error.
\<close>

theorem win_stacksize_truncates:
  "my_thread_attr_getstacksize_win (snd (my_thread_attr_setstacksize_win attr n)) = (0, of_int (uint n mod 2 ^ 32)) \<and>
   (my_thread_attr_getstacksize_win (snd (my_thread_attr_setstacksize_win attr n)) = (0, n) \<longleftrightarrow> uint n < 2 ^ 32)"
proof -
  have cut: "(ucast (ucast n :: 32 word) :: 64 word) = of_int (uint n mod 2 ^ 32)"
    by (simp add: unsigned_ucast_eq word_uint_eq_iff take_bit_eq_mod uint_word_of_int mod_pos_pos_trivial uint_mod_distrib)
  have "(of_int (uint n mod 2 ^ 32) :: 64 word) = n \<longleftrightarrow> uint n mod 2 ^ 32 = uint n"
    by (simp add: word_uint_eq_iff uint_word_of_int mod_pos_pos_trivial)
  also have "\<dots> \<longleftrightarrow> uint n < 2 ^ 32"
    using pos_mod_bound [of "2 ^ 32" "uint n"] by (auto simp: mod_pos_pos_trivial)
  finally show ?thesis
    by (simp add: my_thread_attr_getstacksize_win_def my_thread_attr_setstacksize_win_def cut)
qed

text \<open>
  \<open>my_sleep\<close> waits at least as long as asked: exactly on POSIX, where the two fields make up the
  argument, and for at most one millisecond more on Windows; there only the low 32 bits of the argument
  count.
\<close>

theorem my_sleep_duration:
  assumes "0 \<le> m"
  shows "fst (my_sleep_posix m) * 1000000 + snd (my_sleep_posix m) = m \<and> 0 \<le> snd (my_sleep_posix m) \<and>
    snd (my_sleep_posix m) < 1000000 \<and>
    m mod 2 ^ 32 < 1000 * uint (my_sleep_win (word_of_int m)) \<and>
    1000 * uint (my_sleep_win (word_of_int m)) \<le> m mod 2 ^ 32 + 1000"
proof -
  let ?l = "m mod 2 ^ 32"
  have l: "uint (ucast (word_of_int m :: 64 word) :: 32 word) = ?l"
    by (simp add: unsigned_ucast_eq uint_word_of_int take_bit_eq_mod mod_mod_cancel)
  have b: "0 \<le> ?l" "?l < 2 ^ 32" by simp_all
  have "uint (my_sleep_win (word_of_int m)) = ?l div 1000 + 1"
    using b l by (simp add: my_sleep_win_def uint_word_ariths uint_div_distrib mod_pos_pos_trivial)
  then show ?thesis by (simp add: my_sleep_posix_def) (use b in linarith)
qed

theorem my_sleep_duration_witness:
  "my_sleep_posix 2500000 = (2, 500000) \<and> 2500000 < 1000 * uint (my_sleep_win (word_of_int 2500000))"
  using my_sleep_duration [of 2500000] by (simp add: my_sleep_posix_def)

end
