(* ===== verification/My_Global.thy ===== *)
theory My_Global
  imports Agent_Prelude Byte_Order
begin

unbundle bit_operations_syntax

text \<open>
  The macros and inline functions of \<^verbatim>\<open>my_global.h\<close> that compute (the times are in \<open>Thr_Locks\<close>), the memory
  helpers of \<^verbatim>\<open>my_sys.h\<close>, and the macros of \<^verbatim>\<open>decimal.h\<close> and \<^verbatim>\<open>my_dir.h\<close>. \<open>win\<close> is whether the build is for
  Windows.
\<close>

section \<open>General macros (my\_global.h)\<close>

definition MY_ALIGN :: "64 word \<Rightarrow> 64 word \<Rightarrow> 64 word" where
  "MY_ALIGN A L = (A + L - 1) AND NOT (L - 1)"

definition ALIGN_SIZE :: "64 word \<Rightarrow> 64 word" where
  "ALIGN_SIZE A = MY_ALIGN A 8"

definition MY_TEST :: "64 word \<Rightarrow> int" where
  "MY_TEST a = (if a \<noteq> 0 then 1 else 0)"

definition set_if_bigger :: "'a::linorder \<Rightarrow> 'a \<Rightarrow> 'a" where
  "set_if_bigger a b = (if a < b then b else a)"

definition set_if_smaller :: "'a::linorder \<Rightarrow> 'a \<Rightarrow> 'a" where
  "set_if_smaller a b = (if a > b then b else a)"

definition MY_MAX :: "'a::linorder \<Rightarrow> 'a \<Rightarrow> 'a" where
  "MY_MAX a b = (if a > b then a else b)"

definition MY_MIN :: "'a::linorder \<Rightarrow> 'a \<Rightarrow> 'a" where
  "MY_MIN a b = (if a < b then a else b)"

definition test_all_bits :: "64 word \<Rightarrow> 64 word \<Rightarrow> bool" where
  "test_all_bits a b \<longleftrightarrow> a AND b = b"

definition swap_variables :: "'a \<times> 'a \<Rightarrow> 'a \<times> 'a" where
  "swap_variables ab = (let dummy = fst ab; a = snd ab; b = dummy in (a, b))"

definition YESNO :: "bool \<Rightarrow> string" where
  "YESNO X = (if X then ''yes'' else ''no'')"

definition is_directory_separator :: "bool \<Rightarrow> char \<Rightarrow> bool" where
  "is_directory_separator win c \<longleftrightarrow> (if win then c = CHR 0x5C \<or> c = CHR ''/'' else c = CHR ''/'')"

text \<open>\<open>sleep\<close> on Windows, where \<open>unsigned long\<close> has 32 bits: the milliseconds given to \<open>Sleep\<close>.\<close>

definition sleep_win :: "32 word \<Rightarrow> 32 word" where
  "sleep_win seconds = seconds * 1000"

text \<open>
  \<open>localtime_s\<close> and \<open>gmtime_s\<close> say whether they could convert and what they left in the structure;
  \<open>None\<close> is a \<open>NULL\<close> result, which these replacements never give.
\<close>

definition localtime_r_win :: "('t \<Rightarrow> 'tm \<Rightarrow> int \<times> 'tm) \<Rightarrow> 't \<Rightarrow> 'tm \<Rightarrow> 'tm option" where
  "localtime_r_win localtime_s timep tmp = Some (snd (localtime_s timep tmp))"

definition gmtime_r_win :: "('t \<Rightarrow> 'tm \<Rightarrow> int \<times> 'tm) \<Rightarrow> 't \<Rightarrow> 'tm \<Rightarrow> 'tm option" where
  "gmtime_r_win gmtime_s clock res = Some (snd (gmtime_s clock res))"

subsection \<open>The text of a dlopen error\<close>

text \<open>
  The set of \<open>strchr\<close> as the C compiler reads the literal: the octal escape of a NUL byte, then three
  ordinary characters. \<open>strchr\<close> looks at the text up to and including its terminator.
\<close>

definition trim_literal :: string where
  "trim_literal = [CHR 0x0D, CHR 0x0A, CHR 0x09, NUL, CHR ''x'', CHR ''2'', CHR ''0'']"

definition c_strchr :: "string \<Rightarrow> char \<Rightarrow> bool" where
  "c_strchr s c \<longleftrightarrow> c \<in> set (c_str s) \<or> c = NUL"

text \<open>The loop: \<open>ptr\<close> stands before the \<open>i\<close>th byte of the buffer.\<close>

fun trim_loop :: "nat \<Rightarrow> string \<Rightarrow> string" where
  "trim_loop 0 buf = buf"
| "trim_loop (Suc i) buf = (if c_strchr trim_literal (buf ! i) then trim_loop i (buf[i := NUL]) else buf)"

text \<open>\<open>FormatMessage\<close> gives the number of characters and the buffer it filled.\<close>

definition DLERROR_GENERATE :: "bool \<Rightarrow> (int \<Rightarrow> nat \<times> string) \<Rightarrow> string \<Rightarrow> int \<Rightarrow> string" where
  "DLERROR_GENERATE win FormatMessage dlerror error_number =
     (if win then
        (case FormatMessage error_number of (n, win_errormsg) \<Rightarrow>
           if n \<noteq> 0 then c_str (trim_loop (length (c_str win_errormsg)) win_errormsg) else [])
      else dlerror)"

text \<open>What the loop trims: the literal ends, for \<open>strchr\<close>, at its NUL.\<close>

definition trimmed :: "char \<Rightarrow> bool" where
  "trimmed c \<longleftrightarrow> c = CHR 0x0D \<or> c = CHR 0x0A \<or> c = CHR 0x09"

section \<open>Memory (my\_sys.h, my\_alloc.h)\<close>

text \<open>A block and the blocks \<open>my_malloc\<close> has handed out; \<open>None\<close> is the release of something that is not one of them.\<close>

datatype block = Null_block | Stack_block | Heap_block nat

definition my_free_block :: "block \<Rightarrow> nat set \<Rightarrow> nat set option" where
  "my_free_block b H = (case b of
       Null_block \<Rightarrow> Some H
     | Stack_block \<Rightarrow> None
     | Heap_block a \<Rightarrow> if a \<in> H then Some (H - {a}) else None)"

definition my_safe_alloca :: "(nat \<Rightarrow> nat set \<Rightarrow> nat option) \<Rightarrow> nat \<Rightarrow> nat \<Rightarrow> nat set \<Rightarrow> block \<times> nat set" where
  "my_safe_alloca malloc sz max_alloca_sz H =
     (if sz \<le> max_alloca_sz then (Stack_block, H)
      else (case malloc sz H of None \<Rightarrow> (Null_block, H) | Some a \<Rightarrow> (Heap_block a, insert a H)))"

definition my_safe_afree :: "block \<Rightarrow> nat \<Rightarrow> nat \<Rightarrow> nat set \<Rightarrow> nat set option" where
  "my_safe_afree ptr sz max_alloca_sz H = (if sz > max_alloca_sz then my_free_block ptr H else Some H)"

definition TRASH :: "bool \<Rightarrow> nat \<Rightarrow> nat \<Rightarrow> memory \<Rightarrow> memory option" where
  "TRASH debug A B m = (if debug then store_bytes A (replicate B 0x8F) m else Some m)"

definition DEBUG_SYNC_C :: "(string \<Rightarrow> nat \<Rightarrow> 's \<Rightarrow> 's) option \<Rightarrow> string \<Rightarrow> 's \<Rightarrow> 's" where
  "DEBUG_SYNC_C callback name s = (case callback of None \<Rightarrow> s | Some f \<Rightarrow> f name (length name) s)"

definition DEBUG_SYNC_C_IF_THD :: "(string \<Rightarrow> nat \<Rightarrow> 's \<Rightarrow> 's) option \<Rightarrow> bool \<Rightarrow> string \<Rightarrow> 's \<Rightarrow> 's" where
  "DEBUG_SYNC_C_IF_THD callback thd name s =
     (if callback \<noteq> None \<and> thd then the callback name (length name) s else s)"

record dynamic_array =
  da_buffer :: nat
  elements :: "32 word"
  max_element :: "32 word"
  alloc_increment :: "32 word"
  size_of_element :: "32 word"

text \<open>The address of an element: the buffer is taken as an array of a type of \<open>sizeof_type\<close> bytes.\<close>

definition dynamic_element :: "dynamic_array \<Rightarrow> nat \<Rightarrow> nat \<Rightarrow> nat" where
  "dynamic_element array array_index sizeof_type = da_buffer array + array_index * sizeof_type"

definition reset_dynamic :: "dynamic_array \<Rightarrow> dynamic_array" where
  "reset_dynamic array = array\<lparr>elements := 0\<rparr>"

record mem_root =
  mr_free :: "nat option"
  mr_used :: "nat option"
  mr_pre_alloc :: "nat option"
  min_malloc :: "64 word"
  block_size :: "64 word"
  block_num :: "32 word"
  first_block_usage :: "32 word"
  max_capacity :: "64 word"
  allocated_size :: "64 word"
  error_for_capacity_exceeded :: bool

definition alloc_root_inited :: "mem_root \<Rightarrow> bool" where
  "alloc_root_inited A \<longleftrightarrow> min_malloc A \<noteq> 0"

definition clear_alloc_root :: "mem_root \<Rightarrow> mem_root" where
  "clear_alloc_root A = A\<lparr>mr_free := None, mr_used := None, mr_pre_alloc := None, min_malloc := 0\<rparr>"

definition safe_strdup_root :: "(string \<Rightarrow> 's \<Rightarrow> nat option \<times> 's) \<Rightarrow> string option \<Rightarrow> 's \<Rightarrow> nat option \<times> 's" where
  "safe_strdup_root strdup_root str s = (case str of Some t \<Rightarrow> strdup_root t s | None \<Rightarrow> (None, s))"

definition my_getpagesize :: "bool \<Rightarrow> int \<Rightarrow> 32 word \<Rightarrow> int" where
  "my_getpagesize win getpagesize dwPageSize = (if win then sint dwPageSize else getpagesize)"

section \<open>Decimals (decimal.h)\<close>

record decimal =
  intg :: int
  frac :: int
  dec_len :: int
  dec_sign :: bool
  dec_buf :: "int list"

text \<open>\<open>None\<close> when the decimal has no digits to write to.\<close>

definition decimal_make_zero :: "decimal \<Rightarrow> decimal option" where
  "decimal_make_zero dec =
     (if dec_buf dec = [] then None
      else Some (dec\<lparr>dec_buf := (dec_buf dec)[0 := 0], intg := 1, frac := 0, dec_sign := False\<rparr>))"

definition decimal_string_size :: "decimal \<Rightarrow> int" where
  "decimal_string_size dec =
     (if intg dec \<noteq> 0 then intg dec else 1) + frac dec + (if frac dec > 0 then 1 else 0) + 2"

section \<open>File types (my\_dir.h)\<close>

abbreviation (input) MY_S_IFMT :: "32 word" where "MY_S_IFMT \<equiv> 0xF000"

definition MY_S_ISDIR :: "32 word \<Rightarrow> bool" where "MY_S_ISDIR m \<longleftrightarrow> m AND MY_S_IFMT = 0x4000"

definition MY_S_ISCHR :: "32 word \<Rightarrow> bool" where "MY_S_ISCHR m \<longleftrightarrow> m AND MY_S_IFMT = 0x2000"

definition MY_S_ISBLK :: "32 word \<Rightarrow> bool" where "MY_S_ISBLK m \<longleftrightarrow> m AND MY_S_IFMT = 0x6000"

definition MY_S_ISREG :: "32 word \<Rightarrow> bool" where "MY_S_ISREG m \<longleftrightarrow> m AND MY_S_IFMT = 0x8000"

definition MY_S_ISFIFO :: "32 word \<Rightarrow> bool" where "MY_S_ISFIFO m \<longleftrightarrow> m AND MY_S_IFMT = 0x1000"

section \<open>Lemmas\<close>

lemma clear_low_bits: "x AND NOT (mask k) = push_bit k (drop_bit k x)" for x :: "64 word"
  by (auto simp: bit_eq_iff bit_simps)

lemma uint_clear_low_bits: "uint (x AND NOT (mask k)) = uint x div 2 ^ k * 2 ^ k" for x :: "64 word"
proof -
  have "0 \<le> uint x mod 2 ^ k" by simp
  with div_mult_mod_eq [of "uint x" "2 ^ k"] have "uint x div 2 ^ k * 2 ^ k \<le> uint x" by linarith
  then have "uint x div 2 ^ k * 2 ^ k < 2 ^ 64" using uint_lt2p [of x] by simp
  moreover have "0 \<le> uint x div 2 ^ k * 2 ^ k" by (simp add: pos_imp_zdiv_nonneg_iff)
  moreover have "uint (x AND NOT (mask k)) = take_bit 64 (push_bit k (drop_bit k (uint x)))"
    unfolding clear_low_bits using uint_lt2p [of x]
    by (simp only: unsigned_push_bit_eq unsigned_drop_bit_eq) (simp add: take_bit_int_eq_self)
  ultimately show ?thesis
    by (simp add: push_bit_eq_mult drop_bit_eq_div take_bit_eq_mod mod_pos_pos_trivial)
qed

lemma align_eq: "MY_ALIGN A (2 ^ k) = (A + mask k) AND NOT (mask k)"
  by (simp add: MY_ALIGN_def mask_eq_exp_minus_1 add_diff_eq)

lemma div_bounds:
  fixes a m :: int
  assumes "0 < m"
  shows "a \<le> (a + (m - 1)) div m * m \<and> (a + (m - 1)) div m * m < a + m"
  using pos_mod_bound [OF assms, of "a + (m - 1)"] pos_mod_sign [OF assms, of "a + (m - 1)"]
    div_mult_mod_eq [of "a + (m - 1)" m] by linarith

lemma c_str_take: "i \<le> length buf \<Longrightarrow> nul_free (take i buf) \<Longrightarrow> buf ! i = NUL \<Longrightarrow> i < length buf \<Longrightarrow> c_str buf = take i buf"
  using c_str_append_nul [of "take i buf" "drop (Suc i) buf"] id_take_nth_drop [of i buf] by simp

lemma strchr_trimmed: "c \<noteq> NUL \<Longrightarrow> c_strchr trim_literal c \<longleftrightarrow> trimmed c"
  by (auto simp: c_strchr_def trim_literal_def trimmed_def c_str_def)

lemma trim_loop_text:
  assumes "i < length buf" and "nul_free (take i buf)" and "buf ! i = NUL"
  shows "c_str (trim_loop i buf) = rev (dropWhile trimmed (rev (take i buf)))"
  using assms
proof (induction i arbitrary: buf)
  case 0
  then show ?case using c_str_take [of 0 buf] by simp
next
  case (Suc i)
  have parts: "take (Suc i) buf = take i buf @ [buf ! i]" using Suc.prems(1) by (simp add: take_Suc_conv_app_nth)
  with Suc.prems(2) have nz: "buf ! i \<noteq> NUL" "nul_free (take i buf)" by (auto simp: nul_free_def)
  show ?case
  proof (cases "trimmed (buf ! i)")
    case True
    have "c_str (trim_loop i (buf[i := NUL])) = rev (dropWhile trimmed (rev (take i (buf[i := NUL]))))"
      by (rule Suc.IH) (use Suc.prems(1) nz(2) in simp_all)
    then show ?thesis using True nz(1) by (simp add: strchr_trimmed parts)
  next
    case False
    then have "c_str (trim_loop (Suc i) buf) = c_str buf" using nz(1) by (simp add: strchr_trimmed)
    also have "\<dots> = take (Suc i) buf" by (rule c_str_take) (use Suc.prems in simp_all)
    finally show ?thesis using False by (simp add: parts)
  qed
qed

lemma c_str_end:
  assumes "\<not> nul_free buf"
  shows "length (c_str buf) < length buf" "take (length (c_str buf)) buf = c_str buf" "buf ! length (c_str buf) = NUL"
proof -
  obtain s t where "buf = s @ NUL # t" "NUL \<notin> set s"
    using assms split_list_first [of NUL buf] by (auto simp: nul_free_def)
  then have "buf = s @ NUL # t" "c_str buf = s" using c_str_append_nul [of s t] by (simp_all add: nul_free_def)
  then show "length (c_str buf) < length buf" "take (length (c_str buf)) buf = c_str buf" "buf ! length (c_str buf) = NUL"
    by simp_all
qed

section \<open>Properties\<close>

text \<open>
  \<open>MY_ALIGN\<close> to a power of two gives the least multiple that is not below its argument; where there is none in
  64 bits it gives zero.
\<close>

theorem my_align_least:
  assumes "k < 64"
  shows "if uint A + 2 ^ k \<le> 2 ^ 64
    then 2 ^ k dvd uint (MY_ALIGN A (2 ^ k)) \<and> uint A \<le> uint (MY_ALIGN A (2 ^ k)) \<and>
      uint (MY_ALIGN A (2 ^ k)) < uint A + 2 ^ k
    else MY_ALIGN A (2 ^ k) = 0"
proof -
  have m: "uint (mask k :: 64 word) = 2 ^ k - 1"
    using assms by (simp add: uint_mask_eq min_def) (simp add: mask_eq_exp_minus_1)
  have align: "uint (MY_ALIGN A (2 ^ k)) = uint (A + mask k) div 2 ^ k * 2 ^ k"
    unfolding align_eq by (rule uint_clear_low_bits)
  show ?thesis
  proof (cases "uint A + 2 ^ k \<le> 2 ^ 64")
    case True
    then have "uint (A + mask k) = uint A + (2 ^ k - 1)"
      by (simp add: uint_word_ariths m mod_pos_pos_trivial)
    then show ?thesis using True div_bounds [of "2 ^ k" "uint A"] align by simp
  next
    case False
    have "uint A < 2 ^ 64" "(2 :: int) ^ k < 2 ^ 64"
      using uint_lt2p [of A] assms power_strict_increasing [of k 64 "2 :: int"] by simp_all
    then have "uint (A + mask k) = uint A + (2 ^ k - 1) - 2 ^ 64"
      using False by (simp add: uint_word_ariths m mod_pos_geq mod_pos_pos_trivial)
    then have "0 \<le> uint (A + mask k)" "uint (A + mask k) < 2 ^ k" using \<open>uint A < 2 ^ 64\<close> False by simp_all
    then have "uint (MY_ALIGN A (2 ^ k)) = uint (0 :: 64 word)" using align by (simp add: div_pos_pos_trivial)
    then show ?thesis using False by (simp only: word_uint_eq_iff if_False)
  qed
qed

theorem my_align_least_witness:
  "8 dvd uint (ALIGN_SIZE 13) \<and> 13 \<le> uint (ALIGN_SIZE 13) \<and> uint (ALIGN_SIZE 13) < 21 \<and> MY_ALIGN (- 1) 8 = 0"
proof -
  have "uint (- 1 :: 64 word) = 18446744073709551615" by code_simp
  then have "MY_ALIGN (- 1) 8 = 0" using my_align_least [of 3 "- 1"] by simp
  then show ?thesis using my_align_least [of 3 13] by (simp add: ALIGN_SIZE_def)
qed

text \<open>
  The text of a Windows error is the message without the line ends and tabs behind it. The literal that
  lists what is trimmed was meant to have the blank too, but names a NUL byte and three more
  characters, so a message that ends in a blank keeps it.
\<close>

theorem dlerror_trims:
  assumes "FormatMessage err = (n, buf)" and "n \<noteq> 0" and "\<not> nul_free buf"
  shows "DLERROR_GENERATE True FormatMessage d err = rev (dropWhile trimmed (rev (c_str buf))) \<and>
    (c_str buf \<noteq> [] \<and> last (c_str buf) = CHR '' '' \<longrightarrow> DLERROR_GENERATE True FormatMessage d err = c_str buf)"
proof -
  have "c_str (trim_loop (length (c_str buf)) buf) = rev (dropWhile trimmed (rev (c_str buf)))"
    using trim_loop_text [of "length (c_str buf)" buf] c_str_end [OF assms(3)] by simp
  then have "DLERROR_GENERATE True FormatMessage d err = rev (dropWhile trimmed (rev (c_str buf)))"
    using assms(1,2) by (simp add: DLERROR_GENERATE_def)
  moreover have "dropWhile trimmed (rev s) = rev s" if "s \<noteq> []" "last s = CHR '' ''" for s
    using that by (cases s rule: rev_cases) (simp_all add: trimmed_def)
  ultimately show ?thesis by simp
qed

theorem dlerror_trims_witness:
  "DLERROR_GENERATE True (\<lambda>_. (9, ''no such '' @ [CHR 0x0D, CHR 0x0A, NUL])) [] 126 = ''no such ''"
  using dlerror_trims [of "\<lambda>_. (9, ''no such '' @ [CHR 0x0D, CHR 0x0A, NUL])" 126 9
      "''no such '' @ [CHR 0x0D, CHR 0x0A, NUL]" "[]"]
  by (simp add: c_str_def trimmed_def nul_free_def)

text \<open>
  \<open>my_safe_alloca\<close> and \<open>my_safe_afree\<close> with the same size and limit: the release is defined and leaves exactly the
  blocks there were before. With two different limits either the block is lost or memory of the stack is released.
\<close>

theorem safe_alloca_pairs:
  assumes "\<And>n H a. malloc n H = Some a \<Longrightarrow> a \<notin> H" and "my_safe_alloca malloc sz lim H = (b, H')"
  shows "my_safe_afree b sz lim H' = Some H \<and>
    (sz \<le> lim \<and> lim' < sz \<longrightarrow> my_safe_afree b sz lim' H' = None) \<and>
    (lim < sz \<and> sz \<le> lim' \<and> b \<noteq> Null_block \<longrightarrow> (\<exists>a. a \<notin> H \<and> my_safe_afree b sz lim' H' = Some (insert a H)))"
  using assms(2) assms(1) [of sz H]
  by (auto simp: my_safe_alloca_def my_safe_afree_def my_free_block_def split: if_splits option.splits)

theorem safe_alloca_pairs_witness:
  "my_safe_afree (Heap_block 2) 10 8 {1, 2} = Some {1} \<and> my_safe_afree (Heap_block 2) 10 16 {1, 2} = Some {1, 2}"
proof -
  let ?malloc = "\<lambda>n H. if (2 :: nat) \<in> H then None else Some 2"
  have "my_safe_alloca ?malloc 10 8 {1} = (Heap_block 2, {1, 2})" by (auto simp: my_safe_alloca_def)
  then have "my_safe_afree (Heap_block 2) 10 8 {1, 2} = Some {1}"
    by (intro conjunct1 [OF safe_alloca_pairs [where malloc = ?malloc]]) (simp_all split: if_splits)
  then show ?thesis by (simp add: my_safe_afree_def)
qed

text \<open>A mode has at most one file type.\<close>

theorem file_types_exclusive:
  "length (filter (\<lambda>p. p m) [MY_S_ISDIR, MY_S_ISCHR, MY_S_ISBLK, MY_S_ISREG, MY_S_ISFIFO]) \<le> 1"
  by (simp add: MY_S_ISDIR_def MY_S_ISCHR_def MY_S_ISBLK_def MY_S_ISREG_def MY_S_ISFIFO_def)

end
