(* ===== verification/Mysql_Dbug.thy ===== *)
theory Mysql_Dbug
  imports Main
begin

text \<open>
  The debugging macros of \<^verbatim>\<open>my_dbug.h\<close>, which the functions of the client library are written with, in
  both builds: \<open>off\<close> is whether \<^verbatim>\<open>DBUG_OFF\<close> is defined. The functions of the debugger behind them are the
  parameter \<open>debugger\<close>. A piece of code works on the state of the program beside that of the
  debugger and says how it ends.
\<close>

section \<open>Code and debugger\<close>

record 'd debugger =
  db_enter :: "string \<Rightarrow> nat \<Rightarrow> 'd \<Rightarrow> 'd"
  db_return :: "nat \<Rightarrow> 'd \<Rightarrow> 'd"
  db_keyword :: "string \<Rightarrow> bool \<Rightarrow> 'd \<Rightarrow> bool"
  db_pargs :: "nat \<Rightarrow> string \<Rightarrow> 'd \<Rightarrow> 'd"
  db_enabled :: "'d \<Rightarrow> bool"
  db_doprnt :: "string \<Rightarrow> 'd \<Rightarrow> 'd"
  db_doputs :: "string \<Rightarrow> 'd \<Rightarrow> 'd"
  db_dump :: "nat \<Rightarrow> string \<Rightarrow> string \<Rightarrow> 'd \<Rightarrow> 'd"
  db_push :: "string \<Rightarrow> 'd \<Rightarrow> 'd"
  db_set :: "string \<Rightarrow> 'd \<Rightarrow> 'd"
  db_set_init :: "string \<Rightarrow> 'd \<Rightarrow> 'd"
  db_process :: "string \<Rightarrow> 'd \<Rightarrow> 'd"
  db_pop :: "'d \<Rightarrow> 'd"
  db_end :: "'d \<Rightarrow> 'd"
  db_lock_file :: "'d \<Rightarrow> 'd"
  db_unlock_file :: "'d \<Rightarrow> 'd"
  db_flush :: "'d \<Rightarrow> 'd"
  db_get_func :: "'d \<Rightarrow> string"
  strxnmov :: "nat \<Rightarrow> string list \<Rightarrow> string"

text \<open>\<open>dbug_on\<close> is the variable \<open>_dbug_on_\<close>, \<open>dbug\<close> the debugger's own state, \<open>prog\<close> the program's.\<close>

record ('d, 's) dbug_state =
  dbug_on :: bool
  dbug :: 'd
  prog :: 's

datatype 'v ending = Falls | Returns 'v | Aborts

type_synonym ('d, 's, 'v) code = "('d, 's) dbug_state \<Rightarrow> 'v ending \<times> ('d, 's) dbug_state"

definition skip_code :: "('d, 's, 'v) code" where
  "skip_code st = (Falls, st)"

definition db_do :: "('d \<Rightarrow> 'd) \<Rightarrow> ('d, 's, 'v) code" where
  "db_do f st = (Falls, st\<lparr>dbug := f (dbug st)\<rparr>)"

definition and_then :: "('d, 's, 'v) code \<Rightarrow> ('d, 's, 'v) code \<Rightarrow> ('d, 's, 'v) code" where
  "and_then c1 c2 st = (case c1 st of (Falls, st') \<Rightarrow> c2 st' | r \<Rightarrow> r)"

text \<open>An expression: evaluating it may have an effect, of which the value comes first.\<close>

type_synonym ('d, 's, 'a) expr = "('d, 's) dbug_state \<Rightarrow> 'a \<times> ('d, 's) dbug_state"

definition c_return :: "('d, 's, 'v) expr \<Rightarrow> ('d, 's, 'v) code" where
  "c_return a st = (case a st of (v, st') \<Rightarrow> (Returns v, st'))"

definition c_abort :: "('d, 's, 'v) code" where
  "c_abort st = (Aborts, st)"

section \<open>The macros\<close>

definition DBUG_ENTER :: "bool \<Rightarrow> 'd debugger \<Rightarrow> nat \<Rightarrow> string \<Rightarrow> ('d, 's, 'v) code" where
  "DBUG_ENTER off dbg line a = (if off then skip_code else db_do (db_enter dbg a line))"

definition DBUG_LEAVE :: "bool \<Rightarrow> 'd debugger \<Rightarrow> nat \<Rightarrow> ('d, 's, 'v) code" where
  "DBUG_LEAVE off dbg line = (if off then skip_code else db_do (db_return dbg line))"

definition DBUG_RETURN ::
  "bool \<Rightarrow> 'd debugger \<Rightarrow> nat \<Rightarrow> ('d, 's, 'v) expr \<Rightarrow> ('d, 's, 'v) code" where
  "DBUG_RETURN off dbg line a1 =
     (if off then c_return a1 else and_then (DBUG_LEAVE off dbg line) (c_return a1))"

definition DBUG_VOID_RETURN :: "bool \<Rightarrow> 'd debugger \<Rightarrow> nat \<Rightarrow> ('d, 's, unit) code" where
  "DBUG_VOID_RETURN off dbg line =
     (if off then c_return (Pair ()) else and_then (DBUG_LEAVE off dbg line) (c_return (Pair ())))"

definition DBUG_EXECUTE :: "bool \<Rightarrow> 'd debugger \<Rightarrow> string \<Rightarrow> ('d, 's, 'v) code \<Rightarrow> ('d, 's, 'v) code" where
  "DBUG_EXECUTE off dbg keyword a1 =
     (if off then skip_code else (\<lambda>st. if db_keyword dbg keyword False (dbug st) then a1 st else skip_code st))"

definition DBUG_EXECUTE_IF :: "bool \<Rightarrow> 'd debugger \<Rightarrow> string \<Rightarrow> ('d, 's, 'v) code \<Rightarrow> ('d, 's, 'v) code" where
  "DBUG_EXECUTE_IF off dbg keyword a1 =
     (if off then skip_code else (\<lambda>st. if db_keyword dbg keyword True (dbug st) then a1 st else skip_code st))"

definition DBUG_EVALUATE :: "bool \<Rightarrow> 'd debugger \<Rightarrow> string \<Rightarrow> 'a \<Rightarrow> 'a \<Rightarrow> ('d, 's) dbug_state \<Rightarrow> 'a" where
  "DBUG_EVALUATE off dbg keyword a1 a2 st =
     (if off then a2 else if db_keyword dbg keyword False (dbug st) then a1 else a2)"

definition DBUG_EVALUATE_IF :: "bool \<Rightarrow> 'd debugger \<Rightarrow> string \<Rightarrow> 'a \<Rightarrow> 'a \<Rightarrow> ('d, 's) dbug_state \<Rightarrow> 'a" where
  "DBUG_EVALUATE_IF off dbg keyword a1 a2 st =
     (if off then a2 else if db_keyword dbg keyword True (dbug st) then a1 else a2)"

text \<open>\<open>arglist\<close> evaluates to the text the arguments print to; it is only evaluated when it is printed.\<close>

definition DBUG_PRINT :: "bool \<Rightarrow> 'd debugger \<Rightarrow> nat \<Rightarrow> string \<Rightarrow> ('d, 's, string) expr \<Rightarrow> ('d, 's, 'v) code" where
  "DBUG_PRINT off dbg line keyword arglist =
     (if off then skip_code else (\<lambda>st.
        if dbug_on st then
          let st = st\<lparr>dbug := db_pargs dbg line keyword (dbug st)\<rparr> in
          if db_enabled dbg (dbug st) then (case arglist st of (t, st) \<Rightarrow> db_do (db_doprnt dbg t) st) else skip_code st
        else skip_code st))"

definition DBUG_PUTS :: "bool \<Rightarrow> 'd debugger \<Rightarrow> nat \<Rightarrow> string \<Rightarrow> ('d, 's, string) expr \<Rightarrow> ('d, 's, 'v) code" where
  "DBUG_PUTS off dbg line keyword arg =
     (if off then skip_code else (\<lambda>st.
        if dbug_on st then
          let st = st\<lparr>dbug := db_pargs dbg line keyword (dbug st)\<rparr> in
          if db_enabled dbg (dbug st) then (case arg st of (t, st) \<Rightarrow> db_do (db_doputs dbg t) st) else skip_code st
        else skip_code st))"

definition DBUG_DUMP :: "bool \<Rightarrow> 'd debugger \<Rightarrow> nat \<Rightarrow> string \<Rightarrow> ('d, 's, string) expr \<Rightarrow> ('d, 's, 'v) code" where
  "DBUG_DUMP off dbg line keyword a1 =
     (if off then skip_code else (\<lambda>st. case a1 st of (t, st) \<Rightarrow> db_do (db_dump dbg line keyword t) st))"

definition DBUG_PUSH :: "bool \<Rightarrow> 'd debugger \<Rightarrow> string \<Rightarrow> ('d, 's, 'v) code" where
  "DBUG_PUSH off dbg a1 = (if off then skip_code else db_do (db_push dbg a1))"

definition DBUG_POP :: "bool \<Rightarrow> 'd debugger \<Rightarrow> ('d, 's, 'v) code" where
  "DBUG_POP off dbg = (if off then skip_code else db_do (db_pop dbg))"

definition DBUG_SET :: "bool \<Rightarrow> 'd debugger \<Rightarrow> string \<Rightarrow> ('d, 's, 'v) code" where
  "DBUG_SET off dbg a1 = (if off then skip_code else db_do (db_set dbg a1))"

definition DBUG_SET_INITIAL :: "bool \<Rightarrow> 'd debugger \<Rightarrow> string \<Rightarrow> ('d, 's, 'v) code" where
  "DBUG_SET_INITIAL off dbg a1 = (if off then skip_code else db_do (db_set_init dbg a1))"

definition DBUG_PROCESS :: "bool \<Rightarrow> 'd debugger \<Rightarrow> string \<Rightarrow> ('d, 's, 'v) code" where
  "DBUG_PROCESS off dbg a1 = (if off then skip_code else db_do (db_process dbg a1))"

definition DBUG_END :: "bool \<Rightarrow> 'd debugger \<Rightarrow> ('d, 's, 'v) code" where
  "DBUG_END off dbg = (if off then skip_code else db_do (db_end dbg))"

definition DBUG_LOCK_FILE :: "bool \<Rightarrow> 'd debugger \<Rightarrow> ('d, 's, 'v) code" where
  "DBUG_LOCK_FILE off dbg = (if off then skip_code else db_do (db_lock_file dbg))"

definition DBUG_UNLOCK_FILE :: "bool \<Rightarrow> 'd debugger \<Rightarrow> ('d, 's, 'v) code" where
  "DBUG_UNLOCK_FILE off dbg = (if off then skip_code else db_do (db_unlock_file dbg))"

definition DBUG_ASSERT :: "bool \<Rightarrow> ('d, 's, bool) expr \<Rightarrow> ('d, 's, 'v) code" where
  "DBUG_ASSERT off A =
     (if off then skip_code else (\<lambda>st. case A st of (b, st) \<Rightarrow> if b then skip_code st else c_abort st))"

definition DEBUGGER_OFF :: "bool \<Rightarrow> ('d, 's, 'v) code" where
  "DEBUGGER_OFF off = (if off then skip_code else (\<lambda>st. (Falls, st\<lparr>dbug_on := False\<rparr>)))"

definition DEBUGGER_ON :: "bool \<Rightarrow> ('d, 's, 'v) code" where
  "DEBUGGER_ON off = (if off then skip_code else (\<lambda>st. (Falls, st\<lparr>dbug_on := True\<rparr>)))"

definition DBUG_ABORT :: "bool \<Rightarrow> 'd debugger \<Rightarrow> ('d, 's, 'v) code" where
  "DBUG_ABORT off dbg = (if off then skip_code else and_then (db_do (db_flush dbg)) c_abort)"

definition DBUG_SUICIDE :: "bool \<Rightarrow> 'd debugger \<Rightarrow> ('d, 's, 'v) code" where
  "DBUG_SUICIDE off dbg = (if off then skip_code else and_then (db_do (db_flush dbg)) c_abort)"

text \<open>Only the build with the debugger has \<open>DBUG_CHECK_CRASH\<close>.\<close>

definition DBUG_CHECK_CRASH :: "'d debugger \<Rightarrow> string \<Rightarrow> string \<Rightarrow> ('d, 's, 'v) code" where
  "DBUG_CHECK_CRASH dbg func op =
     (let dbuf = strxnmov dbg 254 [func, op] in DBUG_EXECUTE_IF False dbg dbuf (DBUG_ABORT False dbg))"

definition DBUG_CRASH_ENTER :: "bool \<Rightarrow> 'd debugger \<Rightarrow> nat \<Rightarrow> string \<Rightarrow> ('d, 's, 'v) code" where
  "DBUG_CRASH_ENTER off dbg line func =
     (if off then skip_code
      else and_then (DBUG_ENTER off dbg line func) (DBUG_CHECK_CRASH dbg func ''_crash_enter''))"

definition DBUG_CRASH_RETURN :: "bool \<Rightarrow> 'd debugger \<Rightarrow> ('d, 's, 'v) expr \<Rightarrow> ('d, 's, 'v) code" where
  "DBUG_CRASH_RETURN off dbg val =
     (if off then c_return val
      else (\<lambda>st. DBUG_CHECK_CRASH dbg (db_get_func dbg (dbug st)) ''_crash_return'' st))"

definition DBUG_CRASH_VOID_RETURN :: "bool \<Rightarrow> 'd debugger \<Rightarrow> ('d, 's, unit) code" where
  "DBUG_CRASH_VOID_RETURN off dbg =
     (if off then c_return (Pair ())
      else (\<lambda>st. DBUG_CHECK_CRASH dbg (db_get_func dbg (dbug st)) ''_crash_return'' st))"

section \<open>Functions written with the macros\<close>

text \<open>
  The lines of a function's body: statements of the program, calls of other such functions, and the macros.
  A \<open>Call\<close> has the name, the lines and the final result of the function it calls, and
  what the caller does with the value. \<open>Return_when\<close> is a conditional \<open>DBUG_RETURN\<close>. The expressions among the
  arguments of a macro may change the program's state.
\<close>

datatype ('s, 'v) line =
    Stmt "'s \<Rightarrow> 's"
  | Call string "('s, 'v) line list" "'s \<Rightarrow> 'v \<times> 's" "'v \<Rightarrow> 's \<Rightarrow> 's"
  | Return_when "'s \<Rightarrow> bool" "'s \<Rightarrow> 'v \<times> 's"
  | Crash_return_when "'s \<Rightarrow> bool" "'s \<Rightarrow> 'v \<times> 's"
  | Print string "'s \<Rightarrow> string \<times> 's"
  | Puts string "'s \<Rightarrow> string \<times> 's"
  | Dump string "'s \<Rightarrow> string \<times> 's"
  | Execute string "'s \<Rightarrow> 's"
  | Execute_if string "'s \<Rightarrow> 's"
  | Evaluate string "'s \<Rightarrow> 's" "'s \<Rightarrow> 's"
  | Evaluate_if string "'s \<Rightarrow> 's" "'s \<Rightarrow> 's"
  | Assert "'s \<Rightarrow> bool \<times> 's"
  | Lock_file
  | Unlock_file

definition on_prog :: "('s \<Rightarrow> 'a \<times> 's) \<Rightarrow> ('d, 's, 'a) expr" where
  "on_prog f st = (case f (prog st) of (v, s) \<Rightarrow> (v, st\<lparr>prog := s\<rparr>))"

definition stmt :: "('s \<Rightarrow> 's) \<Rightarrow> ('d, 's, 'v) code" where
  "stmt f st = (Falls, st\<lparr>prog := f (prog st)\<rparr>)"

definition guarded :: "('s \<Rightarrow> bool) \<Rightarrow> ('d, 's, 'v) code \<Rightarrow> ('d, 's, 'v) code" where
  "guarded b c st = (if b (prog st) then c st else skip_code st)"

text \<open>The value of a call, used by the caller.\<close>

definition used_by :: "('v \<Rightarrow> 's \<Rightarrow> 's) \<Rightarrow> ('d, 's, 'v) code \<Rightarrow> ('d, 's, 'v) code" where
  "used_by k c st = (case c st of
       (Returns v, st') \<Rightarrow> (Falls, st'\<lparr>prog := k v (prog st')\<rparr>)
     | r \<Rightarrow> r)"

text \<open>
  \<open>run_lines off dbg n ls\<close> runs \<open>ls\<close>, the first of which is line \<open>n\<close> of its function.
\<close>

fun run_line :: "bool \<Rightarrow> 'd debugger \<Rightarrow> nat \<Rightarrow> ('s, 'v) line \<Rightarrow> ('d, 's, 'v) code"
  and run_lines :: "bool \<Rightarrow> 'd debugger \<Rightarrow> nat \<Rightarrow> ('s, 'v) line list \<Rightarrow> ('d, 's, 'v) code" where
  "run_line off dbg n (Stmt f) = stmt f"
| "run_line off dbg n (Call func ls e k) =
     used_by k (and_then (DBUG_ENTER off dbg 0 func)
       (and_then (run_lines off dbg 1 ls) (DBUG_RETURN off dbg (1 + length ls) (on_prog e))))"
| "run_line off dbg n (Return_when b e) = guarded b (DBUG_RETURN off dbg n (on_prog e))"
| "run_line off dbg n (Crash_return_when b e) = guarded b (DBUG_CRASH_RETURN off dbg (on_prog e))"
| "run_line off dbg n (Print kw t) = DBUG_PRINT off dbg n kw (on_prog t)"
| "run_line off dbg n (Puts kw t) = DBUG_PUTS off dbg n kw (on_prog t)"
| "run_line off dbg n (Dump kw t) = DBUG_DUMP off dbg n kw (on_prog t)"
| "run_line off dbg n (Execute kw f) = DBUG_EXECUTE off dbg kw (stmt f)"
| "run_line off dbg n (Execute_if kw f) = DBUG_EXECUTE_IF off dbg kw (stmt f)"
| "run_line off dbg n (Evaluate kw f g) = (\<lambda>st. stmt (DBUG_EVALUATE off dbg kw f g st) st)"
| "run_line off dbg n (Evaluate_if kw f g) = (\<lambda>st. stmt (DBUG_EVALUATE_IF off dbg kw f g st) st)"
| "run_line off dbg n (Assert b) = DBUG_ASSERT off (on_prog b)"
| "run_line off dbg n Lock_file = DBUG_LOCK_FILE off dbg"
| "run_line off dbg n Unlock_file = DBUG_UNLOCK_FILE off dbg"
| "run_lines off dbg n [] = skip_code"
| "run_lines off dbg n (l # ls) = and_then (run_line off dbg n l) (run_lines off dbg (Suc n) ls)"

text \<open>A whole function: \<open>DBUG_ENTER\<close>, its lines, and \<open>DBUG_RETURN\<close> at the end.\<close>

definition run_function ::
  "bool \<Rightarrow> 'd debugger \<Rightarrow> string \<Rightarrow> ('s, 'v) line list \<Rightarrow> ('s \<Rightarrow> 'v \<times> 's) \<Rightarrow> ('d, 's, 'v) code" where
  "run_function off dbg func ls e =
     and_then (DBUG_ENTER off dbg 0 func)
       (and_then (run_lines off dbg 1 ls) (DBUG_RETURN off dbg (1 + length ls) (on_prog e)))"

text \<open>
  No line, in the function or in one it calls, is a \<open>DBUG_CRASH_RETURN\<close>, and what only the build with the debugger
  evaluates has no effect.
\<close>

definition no_effect :: "('s \<Rightarrow> 'a \<times> 's) \<Rightarrow> bool" where
  "no_effect f \<longleftrightarrow> (\<forall>s. snd (f s) = s)"

fun plain_line :: "('s, 'v) line \<Rightarrow> bool" where
  "plain_line (Call func ls e k) \<longleftrightarrow> (\<forall>l \<in> set ls. plain_line l)"
| "plain_line (Crash_return_when b e) \<longleftrightarrow> False"
| "plain_line (Print kw t) \<longleftrightarrow> no_effect t"
| "plain_line (Puts kw t) \<longleftrightarrow> no_effect t"
| "plain_line (Dump kw t) \<longleftrightarrow> no_effect t"
| "plain_line (Assert b) \<longleftrightarrow> no_effect b"
| "plain_line _ \<longleftrightarrow> True"

section \<open>What the debugger promises\<close>

text \<open>
  Entering a function pushes its name on the stack of frames and returning pops it; nothing else the lines
  of a function call changes the stack. A debugger that is \<open>silent\<close> has no keyword enabled, and none of
  these calls enables one.
\<close>

locale dbug_lib =
  fixes dbg :: "'d debugger"
    and frames :: "'d \<Rightarrow> string list"
    and silent :: "'d \<Rightarrow> bool"
  assumes enter_frames: "frames (db_enter dbg f n d) = f # frames d"
    and return_frames: "frames (db_return dbg n d) = tl (frames d)"
    and print_frames: "frames (db_pargs dbg n kw d) = frames d" "frames (db_doprnt dbg t d) = frames d"
      "frames (db_doputs dbg t d) = frames d" "frames (db_dump dbg n kw t d) = frames d"
    and file_frames: "frames (db_lock_file dbg d) = frames d" "frames (db_unlock_file dbg d) = frames d"
    and silent_keyword: "silent d \<Longrightarrow> \<not> db_keyword dbg kw strict d"
    and silent_enter: "silent d \<Longrightarrow> silent (db_enter dbg f n d)"
    and silent_return: "silent d \<Longrightarrow> silent (db_return dbg n d)"
    and silent_print: "silent d \<Longrightarrow> silent (db_pargs dbg n kw d)" "silent d \<Longrightarrow> silent (db_doprnt dbg t d)"
      "silent d \<Longrightarrow> silent (db_doputs dbg t d)" "silent d \<Longrightarrow> silent (db_dump dbg n kw t d)"
    and silent_file: "silent d \<Longrightarrow> silent (db_lock_file dbg d)" "silent d \<Longrightarrow> silent (db_unlock_file dbg d)"

text \<open>
  Code of a function is \<open>balanced\<close> when it leaves the stack of frames alone as long as it goes on, and
  pops the function's own frame when it returns. Two builds of a piece of code agree when the
  release build ends like the debug build, with the same effect on the program, unless the debug
  build aborts.
\<close>

definition balanced :: "('d \<Rightarrow> string list) \<Rightarrow> ('d, 's, 'v) code \<Rightarrow> bool" where
  "balanced frames c \<longleftrightarrow> (\<forall>st r st'. c st = (r, st') \<longrightarrow> (case r of
       Falls \<Rightarrow> frames (dbug st') = frames (dbug st)
     | Returns v \<Rightarrow> frames (dbug st') = tl (frames (dbug st))
     | Aborts \<Rightarrow> True))"

definition builds_agree :: "('d \<Rightarrow> bool) \<Rightarrow> ('d, 's, 'v) code \<Rightarrow> ('d, 's, 'v) code \<Rightarrow> bool" where
  "builds_agree silent c1 c0 \<longleftrightarrow> (\<forall>st st0 r st'. silent (dbug st) \<longrightarrow> prog st0 = prog st \<longrightarrow> c1 st = (r, st') \<longrightarrow>
     r \<noteq> Aborts \<longrightarrow> silent (dbug st') \<and> fst (c0 st0) = r \<and> prog (snd (c0 st0)) = prog st')"

text \<open>A debugger that keeps the frames, the enabled keywords and what it printed.\<close>

record tracer_state =
  tr_frames :: "string list"
  tr_keywords :: "string list"
  tr_output :: "string list"

definition tracer :: "tracer_state debugger" where
  "tracer = \<lparr>db_enter = (\<lambda>f n d. d\<lparr>tr_frames := f # tr_frames d\<rparr>),
     db_return = (\<lambda>n d. d\<lparr>tr_frames := tl (tr_frames d)\<rparr>),
     db_keyword = (\<lambda>kw strict d. kw \<in> set (tr_keywords d)),
     db_pargs = (\<lambda>n kw d. d), db_enabled = (\<lambda>d. tr_keywords d \<noteq> []),
     db_doprnt = (\<lambda>t d. d\<lparr>tr_output := t # tr_output d\<rparr>), db_doputs = (\<lambda>t d. d\<lparr>tr_output := t # tr_output d\<rparr>),
     db_dump = (\<lambda>n kw t d. d\<lparr>tr_output := t # tr_output d\<rparr>),
     db_push = (\<lambda>c d. d\<lparr>tr_keywords := [c]\<rparr>), db_set = (\<lambda>c d. d\<lparr>tr_keywords := [c]\<rparr>),
     db_set_init = (\<lambda>c d. d\<lparr>tr_keywords := [c]\<rparr>), db_process = (\<lambda>c d. d), db_pop = (\<lambda>d. d\<lparr>tr_keywords := []\<rparr>),
     db_end = (\<lambda>d. d), db_lock_file = (\<lambda>d. d), db_unlock_file = (\<lambda>d. d), db_flush = (\<lambda>d. d),
     db_get_func = (\<lambda>d. case tr_frames d of [] \<Rightarrow> [] | f # _ \<Rightarrow> f),
     strxnmov = (\<lambda>n ss. take n (concat ss))\<rparr>"

definition demo_lines :: "(int, int) line list" where
  "demo_lines = [Print ''enter'' (\<lambda>n. (''n'', n)), Assert (\<lambda>n. (0 < n, n)), Stmt (\<lambda>n. n + 1),
     Call ''twice'' [Execute_if ''zero'' (\<lambda>_. 0), Return_when (\<lambda>n. n > 10) (Pair 20)] (\<lambda>n. (2 * n, n)) (\<lambda>v _. v)]"

section \<open>Lemmas\<close>

lemmas code_defs = skip_code_def db_do_def and_then_def c_return_def c_abort_def stmt_def guarded_def on_prog_def

lemmas macro_defs =
  DBUG_ENTER_def DBUG_LEAVE_def DBUG_RETURN_def DBUG_EXECUTE_def DBUG_EXECUTE_IF_def DBUG_EVALUATE_def
  DBUG_EVALUATE_IF_def DBUG_PRINT_def DBUG_PUTS_def DBUG_DUMP_def DBUG_ASSERT_def DBUG_LOCK_FILE_def
  DBUG_UNLOCK_FILE_def DBUG_ABORT_def DBUG_CHECK_CRASH_def DBUG_CRASH_RETURN_def Let_def

lemma run_line_call: "run_line off dbg n (Call func ls e k) = used_by k (run_function off dbg func ls e)"
  by (simp add: run_function_def)

lemma no_effect_eq: "no_effect f \<Longrightarrow> f s = (v, s') \<longleftrightarrow> v = fst (f s) \<and> s' = s"
  by (cases "f s") (auto simp: no_effect_def dest: spec [of _ s])

lemma and_then_db_do: "and_then (db_do f) c st = c (st\<lparr>dbug := f (dbug st)\<rparr>)"
  by (simp add: and_then_def db_do_def)

interpretation tracer: dbug_lib tracer tr_frames "\<lambda>d. tr_keywords d = []"
  by unfold_locales (simp_all add: tracer_def)

subsection \<open>Balanced code\<close>

lemma balanced_and_then:
  assumes "balanced frames c1" and "balanced frames c2"
  shows "balanced frames (and_then c1 c2)"
  using assms unfolding balanced_def and_then_def
  by (fastforce split: prod.splits ending.splits)

lemma balanced_guarded: "balanced frames c \<Longrightarrow> balanced frames (guarded b c)"
  by (simp add: balanced_def guarded_def skip_code_def)

context dbug_lib
begin

lemma balanced_return: "balanced frames (DBUG_RETURN False dbg n (on_prog e))"
  by (auto simp: balanced_def macro_defs code_defs return_frames split: prod.splits)

lemma balanced_crash_return: "balanced frames (DBUG_CRASH_RETURN False dbg e)"
  by (simp add: balanced_def macro_defs code_defs)

lemma balanced_lines:
  assumes "\<And>l n. l \<in> set ls \<Longrightarrow> balanced frames (run_line False dbg n l)"
  shows "balanced frames (run_lines False dbg n ls)"
  using assms
proof (induction ls arbitrary: n)
  case Nil
  show ?case by (simp add: balanced_def skip_code_def)
qed (simp add: balanced_and_then)

lemma function_frames:
  assumes "balanced frames (run_lines False dbg 1 ls)" and "run_function False dbg f ls e st = (r, st')"
  shows "r \<noteq> Falls \<and> (r \<noteq> Aborts \<longrightarrow> frames (dbug st') = frames (dbug st))"
proof -
  define rest where "rest =
    and_then (run_lines False dbg 1 ls) (DBUG_RETURN False dbg (1 + length ls) (on_prog e))"
  have bal: "balanced frames rest"
    unfolding rest_def by (intro balanced_and_then assms(1) balanced_return)
  have stops: "fst (rest u) \<noteq> Falls" for u
    by (auto simp: rest_def and_then_def DBUG_RETURN_def DBUG_LEAVE_def db_do_def c_return_def
        split: prod.splits ending.splits)
  have "rest (st\<lparr>dbug := db_enter dbg f 0 (dbug st)\<rparr>) = (r, st')"
    using assms(2) by (simp add: run_function_def rest_def DBUG_ENTER_def and_then_db_do)
  with bal stops [of "st\<lparr>dbug := db_enter dbg f 0 (dbug st)\<rparr>"] show ?thesis
    by (cases r) (fastforce simp: balanced_def enter_frames)+
qed

lemma balanced_line: "balanced frames (run_line False dbg n l)"
proof (induction l arbitrary: n)
  case (Call f ls e k)
  have "balanced frames (run_lines False dbg 1 ls)" by (rule balanced_lines) (rule Call.IH)
  note frames = function_frames [OF this]
  show ?case
    unfolding run_line_call balanced_def used_by_def
    by (auto dest: frames split: prod.splits ending.splits)
qed (auto simp: balanced_guarded balanced_return balanced_crash_return,
    auto simp: balanced_def macro_defs code_defs print_frames file_frames split: prod.splits if_splits)

lemma function_balanced:
  "run_function False dbg f ls e st = (Returns v, st') \<Longrightarrow> frames (dbug st') = frames (dbug st)"
  using function_frames [OF balanced_lines [OF balanced_line]] by blast

end

subsection \<open>Agreement of the builds\<close>

lemma agree_and_then:
  fixes c1 :: "('d, 's, 'v) code"
  assumes "builds_agree silent c1 c0" and "builds_agree silent d1 d0"
  shows "builds_agree silent (and_then c1 d1) (and_then c0 d0)"
  unfolding builds_agree_def
proof (intro allI impI)
  fix st st0 :: "('d, 's) dbug_state" and r st'
  assume st: "silent (dbug st)" "prog st0 = prog st" "and_then c1 d1 st = (r, st')" "r \<noteq> Aborts"
  obtain q u where u: "c1 st = (q, u)" by fastforce
  then have "q \<noteq> Aborts" using st(3,4) by (auto simp: and_then_def)
  then have c: "silent (dbug u)" "fst (c0 st0) = q" "prog (snd (c0 st0)) = prog u"
    using assms(1) st(1,2) u by (auto simp: builds_agree_def)
  show "silent (dbug st') \<and> fst (and_then c0 d0 st0) = r \<and> prog (snd (and_then c0 d0 st0)) = prog st'"
  proof (cases "q = Falls")
    case True
    then have "d1 u = (r, st')" using st(3) u by (simp add: and_then_def)
    then have "silent (dbug st') \<and> fst (d0 (snd (c0 st0))) = r \<and> prog (snd (d0 (snd (c0 st0)))) = prog st'"
      using assms(2) c st(4) by (auto simp: builds_agree_def)
    then show ?thesis using c(2) True by (cases "c0 st0") (simp add: and_then_def)
  next
    case False
    then have "and_then c1 d1 st = (q, u)" using u by (simp add: and_then_def split: ending.splits)
    then have "r = q" "st' = u" using st(3) by simp_all
    then show ?thesis using c False by (cases "c0 st0") (simp add: and_then_def split: ending.splits)
  qed
qed

lemma agree_used_by: "builds_agree silent c1 c0 \<Longrightarrow> builds_agree silent (used_by k c1) (used_by k c0)"
  unfolding builds_agree_def used_by_def by (fastforce split: prod.splits ending.splits)

lemma agree_guarded: "builds_agree silent c1 c0 \<Longrightarrow> builds_agree silent (guarded b c1) (guarded b c0)"
  by (simp add: builds_agree_def guarded_def skip_code_def)

context dbug_lib
begin

lemma agree_enter: "builds_agree silent (DBUG_ENTER False dbg n f) (DBUG_ENTER True dbg n f)"
  by (simp add: builds_agree_def macro_defs code_defs silent_enter)

lemma agree_return:
  "builds_agree silent (DBUG_RETURN False dbg n (on_prog e)) (DBUG_RETURN True dbg n (on_prog e))"
  by (auto simp: builds_agree_def macro_defs code_defs silent_return split: prod.splits)

lemma agree_lines:
  assumes "\<And>l n. l \<in> set ls \<Longrightarrow> builds_agree silent (run_line False dbg n l) (run_line True dbg n l)"
  shows "builds_agree silent (run_lines False dbg n ls) (run_lines True dbg n ls)"
  using assms
proof (induction ls arbitrary: n)
  case Nil
  show ?case by (simp add: builds_agree_def skip_code_def)
qed (simp add: agree_and_then)

lemma agree_function:
  assumes "builds_agree silent (run_lines False dbg 1 ls) (run_lines True dbg 1 ls)"
  shows "builds_agree silent (run_function False dbg f ls e) (run_function True dbg f ls e)"
  unfolding run_function_def by (intro agree_and_then assms agree_enter agree_return)

lemma agree_line: "plain_line l \<Longrightarrow> builds_agree silent (run_line False dbg n l) (run_line True dbg n l)"
proof (induction l arbitrary: n)
  case (Call f ls e k)
  then show ?case unfolding run_line_call by (intro agree_used_by agree_function agree_lines) simp_all
next
  case (Return_when b e)
  then show ?case by (simp add: agree_guarded agree_return)
next
  case (Print kw t)
  then show ?case
    by (auto simp: builds_agree_def macro_defs code_defs silent_print no_effect_eq split: if_splits prod.splits)
next
  case (Puts kw t)
  then show ?case
    by (auto simp: builds_agree_def macro_defs code_defs silent_print no_effect_eq split: if_splits prod.splits)
next
  case (Dump kw t)
  then show ?case
    by (auto simp: builds_agree_def macro_defs code_defs silent_print no_effect_eq split: if_splits prod.splits)
next
  case (Assert b)
  then show ?case by (auto simp: builds_agree_def macro_defs code_defs no_effect_eq split: if_splits prod.splits)
qed (auto simp: builds_agree_def macro_defs code_defs silent_file silent_keyword split: if_splits)

lemma function_builds_agree:
  assumes "\<forall>l \<in> set ls. plain_line l"
  shows "builds_agree silent (run_function False dbg f ls e) (run_function True dbg f ls e)"
  by (rule agree_function [OF agree_lines]) (use agree_line assms in blast)

end

section \<open>Properties\<close>

text \<open>
  C39. Debugging does not change what a function does: with no keyword enabled, a function written with
  \<open>DBUG_RETURN\<close> and the other macros, calling such functions in turn, returns the same value
  and leaves the program in the same state in both builds, unless an assertion stops the build with
  the debugger; provided the arguments of \<open>DBUG_PRINT\<close>, \<open>DBUG_PUTS\<close>, \<open>DBUG_DUMP\<close> and \<open>DBUG_ASSERT\<close> have no side
  effects and none of the functions uses \<open>DBUG_CRASH_RETURN\<close>. Both conditions are needed, as the next theorems
  show.
\<close>

theorem dbug_builds_agree:
  assumes "dbug_lib dbg frames silent" and "silent d" and "\<forall>l \<in> set ls. plain_line l"
    and "run_function False dbg f ls e \<lparr>dbug_on = b, dbug = d, prog = s\<rparr> = (r, st')" and "r \<noteq> Aborts"
  shows "\<exists>v. r = Returns v \<and>
    (case run_function True dbg f ls e \<lparr>dbug_on = b', dbug = d', prog = s\<rparr> of
       (r0, st0) \<Rightarrow> r0 = Returns v \<and> prog st0 = prog st')"
proof -
  obtain r0 st0 where r0: "run_function True dbg f ls e \<lparr>dbug_on = b', dbug = d', prog = s\<rparr> = (r0, st0)" by fastforce
  have agree: "builds_agree silent (run_function False dbg f ls e) (run_function True dbg f ls e)"
    by (rule dbug_lib.function_builds_agree [OF assms(1,3)])
  have "r0 = r \<and> prog st0 = prog st'"
    using agree [unfolded builds_agree_def, rule_format, OF _ _ assms(4,5), of "\<lparr>dbug_on = b', dbug = d', prog = s\<rparr>"]
      assms(2) r0 by simp
  moreover have "r \<noteq> Falls"
    using dbug_lib.function_frames [OF assms(1) dbug_lib.balanced_lines [OF assms(1) dbug_lib.balanced_line [OF assms(1)]]
        assms(4)] by simp
  ultimately show ?thesis using r0 assms(5) by (cases r) auto
qed

theorem dbug_builds_agree_witness:
  "\<exists>v. fst (run_function False tracer ''f'' demo_lines (\<lambda>n. (n, n)) \<lparr>dbug_on = True, dbug = \<lparr>tr_frames = [], tr_keywords = [],
        tr_output = []\<rparr>, prog = 3\<rparr>) = Returns v \<and> v = 8 \<and>
     fst (run_function True tracer ''f'' demo_lines (\<lambda>n. (n, n)) \<lparr>dbug_on = True, dbug = \<lparr>tr_frames = [], tr_keywords = [],
        tr_output = []\<rparr>, prog = 3\<rparr>) = Returns v"
proof -
  let ?d = "\<lparr>tr_frames = [], tr_keywords = [], tr_output = []\<rparr>"
  have plain: "\<forall>l \<in> set demo_lines. plain_line l" by (simp add: demo_lines_def no_effect_def)
  obtain st' where run: "run_function False tracer ''f'' demo_lines (\<lambda>n. (n, n)) \<lparr>dbug_on = True, dbug = ?d, prog = 3\<rparr> =
      (Returns 8, st')"
    by (simp add: demo_lines_def run_function_def macro_defs code_defs used_by_def tracer_def)
  from dbug_builds_agree [OF tracer.dbug_lib_axioms _ plain run, of True ?d]
  show ?thesis using run by (auto split: prod.splits)
qed

text \<open>
  C40. Frames nest: whatever keywords are enabled, a function that returns with the debugger compiled in leaves the
  stack of frames as it found it, and so do the functions it calls.
\<close>

theorem dbug_frames_nest:
  assumes "dbug_lib dbg frames silent" and "run_function False dbg f ls e st = (Returns v, st')"
  shows "frames (dbug st') = frames (dbug st)"
  by (rule dbug_lib.function_balanced [OF assms])

theorem dbug_frames_nest_witness:
  "tr_frames (dbug (snd (run_function False tracer ''f'' demo_lines (\<lambda>n. (n, n)) \<lparr>dbug_on = True,
     dbug = \<lparr>tr_frames = [''main''], tr_keywords = [''zero''], tr_output = []\<rparr>, prog = 3\<rparr>))) = [''main'']"
proof -
  obtain st' where "run_function False tracer ''f'' demo_lines (\<lambda>n. (n, n)) \<lparr>dbug_on = True,
      dbug = \<lparr>tr_frames = [''main''], tr_keywords = [''zero''], tr_output = []\<rparr>, prog = 3\<rparr> = (Returns 0, st')"
    by (simp add: demo_lines_def run_function_def macro_defs code_defs used_by_def tracer_def)
  with dbug_frames_nest [OF tracer.dbug_lib_axioms this] show ?thesis by simp
qed

text \<open>An assertion with a side effect makes the builds differ: the release build does not evaluate it.\<close>

theorem assert_effect_lost:
  "fst (run_function False dbg f [Assert (\<lambda>s. (True, h s))] (\<lambda>s. (s, s)) \<lparr>dbug_on = on, dbug = d, prog = s\<rparr>) = Returns (h s) \<and>
   fst (run_function True dbg f [Assert (\<lambda>s. (True, h s))] (\<lambda>s. (s, s)) \<lparr>dbug_on = on, dbug = d, prog = s\<rparr>) = Returns s"
  by (simp add: run_function_def macro_defs code_defs)

text \<open>
  \<open>DBUG_CRASH_RETURN\<close> makes them differ too: where the release build returns its value, the build with the
  debugger goes on with the lines behind it.
\<close>

theorem crash_return_falls_through:
  assumes "dbug_lib dbg frames silent" and "silent d" and "b s"
  shows "fst (run_function True dbg f [Crash_return_when b g, Stmt h] e \<lparr>dbug_on = on, dbug = d, prog = s\<rparr>) = Returns (fst (g s)) \<and>
    fst (run_function False dbg f [Crash_return_when b g, Stmt h] e \<lparr>dbug_on = on, dbug = d, prog = s\<rparr>) = Returns (fst (e (h s)))"
proof -
  have "\<not> db_keyword dbg kw strict (db_enter dbg f 0 d)" for kw strict
    by (rule dbug_lib.silent_keyword [OF assms(1) dbug_lib.silent_enter [OF assms(1,2)]])
  then show ?thesis using assms(3) by (simp add: run_function_def macro_defs code_defs split: prod.split)
qed

theorem crash_return_falls_through_witness:
  "fst (run_function True tracer ''f'' [Crash_return_when (\<lambda>n. n < 0) (Pair (- 1)), Stmt (\<lambda>n. n * 2)] (\<lambda>n. (n, n))
      \<lparr>dbug_on = False, dbug = \<lparr>tr_frames = [], tr_keywords = [], tr_output = []\<rparr>, prog = - 3 :: int\<rparr>) = Returns (- 1 :: int) \<and>
   fst (run_function False tracer ''f'' [Crash_return_when (\<lambda>n. n < 0) (Pair (- 1)), Stmt (\<lambda>n. n * 2)] (\<lambda>n. (n, n))
      \<lparr>dbug_on = False, dbug = \<lparr>tr_frames = [], tr_keywords = [], tr_output = []\<rparr>, prog = - 3 :: int\<rparr>) = Returns (- 6)"
  using crash_return_falls_through [OF tracer.dbug_lib_axioms, of _ "\<lambda>n. n < 0" "- 3 :: int" "''f''" "Pair (- 1 :: int)"
      "\<lambda>n. n * 2" "\<lambda>n. (n, n)"] by simp

end
