(* ===== verification/Ulonglong_Double.thy ===== *)
theory Ulonglong_Double
  imports "HOL-Library.Word"
begin

text \<open>
  The conversions between \<open>unsigned long long\<close> and \<open>double\<close> that \<^verbatim>\<open>my_global.h\<close> has for compilers for Windows,
  which convert signed integers only. A \<open>double\<close> is an integer here: the first conversion gives no
  others, and those are the ones the second is applied to.
\<close>

section \<open>Rounding\<close>

text \<open>The number of bits of a number.\<close>

function bit_length :: "int \<Rightarrow> nat" where
  "bit_length n = (if n \<le> 0 then 0 else Suc (bit_length (n div 2)))"
  by auto
termination by (relation "measure nat") auto

declare bit_length.simps [simp del]

text \<open>
  Conversion of an integer to the nearest number with 53 significant bits, to the even one of two that are
  equally near: what the compiler's conversion to \<open>double\<close> and the additions of doubles round to.
\<close>

definition to_double :: "int \<Rightarrow> int" where
  "to_double n =
     (let m = \<bar>n\<bar>; e = bit_length m - 53; q = m div 2 ^ e; r = m mod 2 ^ e;
          q' = (if 2 * r > 2 ^ e \<or> 2 * r = 2 ^ e \<and> odd q then q + 1 else q)
      in sgn n * (q' * 2 ^ e))"

section \<open>The conversions\<close>

definition my_ulonglong2double :: "64 word \<Rightarrow> int" where
  "my_ulonglong2double value =
     (let nr = sint value in
      if nr \<ge> 0 then to_double nr else to_double (18446744073709551616 + to_double nr))"

text \<open>A cast to \<open>unsigned long long\<close> is undefined (\<open>None\<close>) outside its range.\<close>

definition double_to_ull :: "int \<Rightarrow> 64 word option" where
  "double_to_ull d = (if 0 \<le> d \<and> d < 2 ^ 64 then Some (word_of_int d) else None)"

definition my_double2ulonglong :: "int \<Rightarrow> 64 word option" where
  "my_double2ulonglong d =
     (let t = to_double (d - to_double 0x8000000000000000) in
      if t \<ge> 0 then map_option (\<lambda>u. u + 0x8000000000000000) (double_to_ull t) else double_to_ull d)"

section \<open>Lemmas\<close>

lemma bit_length_le: "0 \<le> n \<Longrightarrow> bit_length n \<le> k \<longleftrightarrow> n < 2 ^ k"
proof (induction k arbitrary: n)
  case 0
  then show ?case by (subst bit_length.simps) simp
next
  case (Suc k)
  then show ?case using Suc.IH [of "n div 2"] by (subst bit_length.simps) auto
qed

lemma to_double_dvd:
  assumes "\<bar>n\<bar> < 2 ^ (53 + j)" "2 ^ j dvd n"
  shows "to_double n = n"
proof -
  let ?m = "\<bar>n\<bar>"
  let ?e = "bit_length ?m - 53"
  have "?e \<le> j" using bit_length_le [of ?m "53 + j"] assms(1) by simp
  then have "2 ^ ?e dvd ?m" using assms(2) dvd_trans le_imp_power_dvd by (metis dvd_abs_iff)
  then have "?m mod 2 ^ ?e = 0" "?m div 2 ^ ?e * 2 ^ ?e = ?m" by simp_all
  then have "to_double n = sgn n * ?m" by (simp add: to_double_def Let_def)
  then show ?thesis by (simp add: sgn_mult_abs)
qed

lemma to_double_multiple: "2 ^ (bit_length \<bar>n\<bar> - 53) dvd to_double n"
  by (simp add: to_double_def Let_def)

lemma sint_split: "sint v = (if uint v < 2 ^ 63 then uint v else uint v - 2 ^ 64)" for v :: "64 word"
proof (cases "uint v < 2 ^ 63")
  case False
  have "(uint v + 2 ^ 63) mod 2 ^ 64 = (uint v - 2 ^ 63) mod 2 ^ 64"
    using mod_add_self2 [of "uint v - 2 ^ 63" "2 ^ 64"] by (simp add: add.commute)
  with False uint_lt2p [of v] show ?thesis
    by (simp add: sint_uint signed_take_bit_eq_take_bit_shift take_bit_eq_mod mod_pos_pos_trivial)
qed (simp add: sint_uint signed_take_bit_eq_take_bit_shift take_bit_eq_mod mod_pos_pos_trivial)

lemma to_double_neg:
  assumes "n < 0"
  shows "to_double n < 0"
proof -
  let ?e = "bit_length \<bar>n\<bar> - 53"
  have "\<not> bit_length \<bar>n\<bar> \<le> 0" using bit_length_le [of "\<bar>n\<bar>" 0] assms by simp
  then have "\<not> bit_length \<bar>n\<bar> \<le> ?e" by simp
  then have "2 ^ ?e \<le> \<bar>n\<bar>" using bit_length_le [of "\<bar>n\<bar>" ?e] by simp
  then have "0 < \<bar>n\<bar> div 2 ^ ?e" by (simp add: pos_imp_zdiv_pos_iff)
  then show ?thesis using assms by (simp add: to_double_def Let_def)
qed

lemma bit_length_top:
  assumes "2 ^ 63 \<le> n" "n < 2 ^ 64"
  shows "bit_length n = 64"
proof -
  have "bit_length n \<le> 64" "\<not> bit_length n \<le> 63" using bit_length_le [of n 64] bit_length_le [of n 63] assms by simp_all
  then show ?thesis by simp
qed

lemma half_exact: "to_double 9223372036854775808 = 9223372036854775808"
  by code_simp

lemma to_double_near: "2 * \<bar>to_double n - n\<bar> \<le> 2 ^ (bit_length \<bar>n\<bar> - 53)"
proof -
  define e where "e = bit_length \<bar>n\<bar> - 53"
  define q r where "q = \<bar>n\<bar> div 2 ^ e" and "r = \<bar>n\<bar> mod 2 ^ e"
  have "q * 2 ^ e + r = \<bar>n\<bar>" unfolding q_def r_def by (rule div_mult_mod_eq)
  then have n: "n = sgn n * (q * 2 ^ e + r)" by (simp only: sgn_mult_abs)
  have r: "0 \<le> r" "r < 2 ^ e" by (simp_all add: r_def)
  define q' where "q' = (if 2 * r > 2 ^ e \<or> 2 * r = 2 ^ e \<and> odd q then q + 1 else q)"
  have "to_double n = sgn n * (q' * 2 ^ e)" by (simp add: to_double_def Let_def q'_def q_def r_def e_def)
  with n have "to_double n - n = sgn n * (q' * 2 ^ e - (q * 2 ^ e + r))" by (simp add: right_diff_distrib)
  then have "\<bar>to_double n - n\<bar> \<le> \<bar>q' * 2 ^ e - (q * 2 ^ e + r)\<bar>" by (simp add: abs_mult abs_sgn_eq)
  moreover have "2 * \<bar>q' * 2 ^ e - (q * 2 ^ e + r)\<bar> \<le> 2 ^ e"
    using r by (auto simp: q'_def algebra_simps)
  ultimately show ?thesis by (simp add: e_def)
qed

lemma to_double_error:
  assumes "\<bar>n\<bar> < 2 ^ (53 + j)"
  shows "2 * \<bar>to_double n - n\<bar> \<le> 2 ^ j"
proof -
  have "bit_length \<bar>n\<bar> - 53 \<le> j" using bit_length_le [of "\<bar>n\<bar>" "53 + j"] assms by simp
  then have "(2 :: int) ^ (bit_length \<bar>n\<bar> - 53) \<le> 2 ^ j" by (simp add: power_increasing)
  with to_double_near [of n] show ?thesis by linarith
qed

section \<open>Properties\<close>

text \<open>
  C38. A number that a \<open>double\<close> can hold survives both conversions.
\<close>

theorem exact_conversions:
  assumes "to_double (uint v) = uint v"
  shows "my_ulonglong2double v = uint v \<and> my_double2ulonglong (my_ulonglong2double v) = Some v"
proof (cases "uint v < 2 ^ 63")
  case True
  then have "to_double (uint v - 9223372036854775808) < 0" by (intro to_double_neg) simp
  then show ?thesis
    using True assms by (simp add: my_ulonglong2double_def my_double2ulonglong_def double_to_ull_def sint_split half_exact)
next
  case False
  have v: "uint v < 2 ^ 64" using uint_lt2p [of v] by simp
  then have "2 ^ 11 dvd uint v"
    using to_double_multiple [of "uint v"] bit_length_top [of "uint v"] False assms by simp
  then have "2 ^ 11 dvd uint v - 2 ^ 64" "2 ^ 11 dvd uint v - 2 ^ 63" by (simp_all add: dvd_diff)
  then have "to_double (uint v - 2 ^ 64) = uint v - 2 ^ 64" "to_double (uint v - 2 ^ 63) = uint v - 2 ^ 63"
    using v False to_double_dvd [of "uint v - 2 ^ 64" 11] to_double_dvd [of "uint v - 2 ^ 63" 11] by simp_all
  then show ?thesis
    using v False assms
    by (simp add: my_ulonglong2double_def my_double2ulonglong_def double_to_ull_def sint_split half_exact)
qed

theorem exact_conversions_witness:
  "my_ulonglong2double 18446744073709549568 = 18446744073709549568 \<and>
   my_double2ulonglong (my_ulonglong2double 18446744073709549568) = Some 18446744073709549568"
proof -
  have "to_double (uint (18446744073709549568 :: 64 word)) = uint (18446744073709549568 :: 64 word)" by code_simp
  from exact_conversions [OF this] show ?thesis by fastforce
qed

text \<open>
  Any other number is converted to one at most 1536 away, where the nearest \<open>double\<close> is at most 1024 away.
\<close>

theorem ulonglong2double_error: "\<bar>my_ulonglong2double v - uint v\<bar> \<le> 1536"
proof (cases "uint v < 2 ^ 63")
  case True
  then have "2 * \<bar>to_double (uint v) - uint v\<bar> \<le> 2 ^ 10" by (intro to_double_error) simp
  with True show ?thesis by (simp add: my_ulonglong2double_def sint_split)
next
  case False
  define nr s where "nr = uint v - 2 ^ 64" and "s = 2 ^ 64 + to_double nr"
  have v: "uint v < 2 ^ 64" using uint_lt2p [of v] by simp
  have "to_double nr < 0" by (rule to_double_neg) (use v nr_def in simp)
  have near: "2 * \<bar>to_double nr - nr\<bar> \<le> 2 ^ 10"
  proof (cases "uint v = 2 ^ 63")
    case True
    then have "to_double nr = nr" by (intro to_double_dvd [of _ 11]) (simp_all add: nr_def)
    then show ?thesis by simp
  qed (rule to_double_error, use v False nr_def in simp)
  then have "2 * \<bar>to_double s - s\<bar> \<le> 2 ^ 11"
    by (intro to_double_error) (use \<open>to_double nr < 0\<close> False in \<open>simp add: s_def nr_def\<close>)
  moreover have "my_ulonglong2double v = to_double s"
    using False v by (simp add: my_ulonglong2double_def sint_split s_def nr_def)
  moreover have "s - uint v = to_double nr - nr" by (simp add: s_def nr_def)
  ultimately show ?thesis using near by simp
qed

text \<open>
  It is not always the nearest, because it rounds twice: \<open>2^63 + 1025\<close> becomes \<open>2^63\<close> where the compiler's
  own conversion gives \<open>2^63 + 2048\<close>. And the largest number, converted and back, is zero.
\<close>

theorem ulonglong2double_rounds_twice:
  "my_ulonglong2double (2 ^ 63 + 1025) = 2 ^ 63 \<and> to_double (uint (2 ^ 63 + 1025 :: 64 word)) = 2 ^ 63 + 2048 \<and>
   my_double2ulonglong (my_ulonglong2double (- 1)) = Some 0"
proof (intro conjI)
  show "my_ulonglong2double (2 ^ 63 + 1025) = 2 ^ 63" by code_simp
  show "to_double (uint (2 ^ 63 + 1025 :: 64 word)) = 2 ^ 63 + 2048" by code_simp
  show "my_double2ulonglong (my_ulonglong2double (- 1)) = Some 0" by code_simp
qed

end
