(* ===== verification/Agent_Crash.thy ===== *)
theory Agent_Crash
  imports Agent_Router
begin

text \<open>
  Runs of the server that end: messages on which it dereferences NULL, wherever in a run they come. The router of
  \<open>Agent_Router\<close> says who is connected and which names are bound when the message arrives.
\<close>

section \<open>Fatal messages\<close>




section \<open>Lemmas\<close>






section \<open>Properties\<close>



end
