(* ===== verification/Agent_Debug.thy ===== *)
theory Agent_Debug
  imports Agent_Router
begin

text \<open>
  What the server prints with \<^verbatim>\<open>DEBUG\<close>, which is always compiled in; standard output is unbuffered in the
  loop, so a line is out before whatever comes next. Each function that prints, or calls one that does, is
  given again with its lines: the definition has the name of the function with the suffix \<open>_dbg\<close>.
\<close>

section \<open>Lines beside an outcome\<close>

type_synonym ('a, 'w) traced = "string list \<times> ('a, 'w) outcome"

definition tbind :: "('a, 'w) traced \<Rightarrow> ('a \<Rightarrow> 'w \<Rightarrow> ('b, 'w) traced) \<Rightarrow> ('b, 'w) traced" where
  "tbind m f = (case snd m of
       Ok x w \<Rightarrow> (fst m @ fst (f x w), snd (f x w))
     | Stop z w \<Rightarrow> (fst m, Stop z w))"

definition quietly :: "('a, 'w) outcome \<Rightarrow> ('a, 'w) traced" where
  "quietly m = ([], m)"

text \<open>The macro: the name of the function, the text and a newline.\<close>

definition debug_line :: "string \<Rightarrow> string \<Rightarrow> string" where
  "debug_line func x = func @ '': '' @ x @ [CHR 0x0A]"

definition DEBUG :: "string \<Rightarrow> string \<Rightarrow> ('a, 'w) traced \<Rightarrow> ('a, 'w) traced" where
  "DEBUG func x m = (debug_line func x # fst m, snd m)"

section \<open>The functions of log.c\<close>

text \<open>\<open>err\<close> is the text \<open>mysql_error\<close> gives.\<close>

definition mysql_conn_dbg :: "string \<Rightarrow> bool \<Rightarrow> ('db, 'z) world_scheme \<Rightarrow> string list \<times> bool \<times> ('db, 'z) world_scheme" where
  "mysql_conn_dbg err connected w =
     (case mysql_conn connected w of (conn, w) \<Rightarrow>
        (if \<not> conn then [debug_line ''mysql_conn'' (''Fail : mysql_real_connectr ['' @ err @ '']'' @ [CHR 0x0A])]
         else [], conn, w))"

definition mysql_insert_fd_dbg ::
  "'db mysql_api \<Rightarrow> cptr \<Rightarrow> int \<Rightarrow> agent_type_t \<Rightarrow> ('db, 'z) world_scheme \<Rightarrow>
     (int, ('db, 'z) world_scheme) traced" where
  "mysql_insert_fd_dbg api mac_ptr fd atype w =
     tbind (quietly (c_read mac_ptr w)) (\<lambda>mac w.
     tbind (quietly (sprintf_buf QUERY_LEN (insert_sql mac fd (agent_type_code atype)) w)) (\<lambda>query_insert w.
     tbind (quietly (sprintf_buf QUERY_LEN (update_sql fd (agent_type_code atype) mac) w)) (\<lambda>query_update w.
       case do_query api query_insert w of (rc, w) \<Rightarrow>
         if rc = 0 then quietly (Ok fd w)
         else (case do_query api query_update w of (rc, w) \<Rightarrow>
           if rc = 0 then quietly (Ok fd w)
           else DEBUG ''mysql_insert_fd'' ''[Fail] mysql_query'' (quietly (Ok (-2) w))))))"

definition mysql_delete_mac_dbg ::
  "'db mysql_api \<Rightarrow> cptr \<Rightarrow> ('db, 'z) world_scheme \<Rightarrow> (int, ('db, 'z) world_scheme) traced" where
  "mysql_delete_mac_dbg api mac_ptr w =
     tbind (quietly (c_read mac_ptr w)) (\<lambda>mac w.
     tbind (quietly (sprintf_buf QUERY_LEN (delete_mac_sql mac) w)) (\<lambda>query w.
       case do_query api query w of (rc, w) \<Rightarrow>
         if rc = 0 then quietly (Ok 0 w)
         else DEBUG ''mysql_delete_mac'' ''[Fail] mysql_query'' (quietly (Ok (-2) w))))"

definition mysql_delete_fd_dbg ::
  "'db mysql_api \<Rightarrow> int \<Rightarrow> ('db, 'z) world_scheme \<Rightarrow> (int, ('db, 'z) world_scheme) traced" where
  "mysql_delete_fd_dbg api fd w =
     tbind (quietly (sprintf_buf QUERY_LEN (delete_fd_sql fd) w)) (\<lambda>query w.
       case do_query api query w of (rc, w) \<Rightarrow>
         if rc = 0 then quietly (Ok 0 w)
         else DEBUG ''mysql_delete_fd'' ''[Fail] mysql_query'' (quietly (Ok (-2) w)))"

definition mysql_update_log_dbg ::
  "'db mysql_api \<Rightarrow> int \<Rightarrow> cptr \<Rightarrow> int \<Rightarrow> ('db, 'z) world_scheme \<Rightarrow>
     (int, ('db, 'z) world_scheme) traced" where
  "mysql_update_log_dbg api seqno mac_ptr status w =
     tbind (quietly (c_read mac_ptr w)) (\<lambda>mac w.
     tbind (quietly (sprintf_buf QUERY_LEN (update_log_sql status seqno mac) w)) (\<lambda>query_update w.
       case do_query api query_update w of (rc, w) \<Rightarrow>
         if rc = 0 then quietly (Ok 0 w)
         else DEBUG ''mysql_update_log'' ''[Fail] mysql_query'' (quietly (Ok (-2) w))))"

definition mysql_select_session_dbg ::
  "'db mysql_api \<Rightarrow> int \<Rightarrow> ('db, 'z) world_scheme \<Rightarrow> (int, ('db, 'z) world_scheme) traced" where
  "mysql_select_session_dbg api fd w =
     tbind (quietly (sprintf_buf QUERY_LEN (select_session_sql fd) w)) (\<lambda>query w.
       let say = DEBUG ''mysql_select_session'' in
       case do_query api query w of (rc, w) \<Rightarrow>
         if rc = 0 then
           (case mysql_store_result api (w_db w) of (ret, d) \<Rightarrow>
             let w = w\<lparr>w_db := d\<rparr> in
             (case ret of
                None \<Rightarrow> say ''Fail : mysql_store_result'' (quietly (Ok (-4) w))
              | Some res \<Rightarrow>
                  let w = emit StoreResult w in
                  (case mysql_fetch_row api res of
                     None \<Rightarrow> say ''Fail : mysql_fetch_row'' (quietly (Ok (-5) w))
                   | Some row \<Rightarrow> quietly (case row of
                         [] \<Rightarrow> Stop (Crash WildPtr) w
                       | None # _ \<Rightarrow> Stop (Crash NullDeref) w
                       | Some t # _ \<Rightarrow> Ok (sint (word_of_int (atoi t) :: 32 word)) w))))
         else say ''Fail : mysql_query'' (quietly (Ok (-3) w)))"

section \<open>The functions of parse.c and session.c\<close>

definition parse_cmd_type_dbg :: "cptr \<Rightarrow> 'w \<Rightarrow> (int, 'w) traced" where
  "parse_cmd_type_dbg p w =
     tbind (quietly (c_read p w)) (\<lambda>cmd w.
       DEBUG ''parse_cmd_type'' (''cmd_type ['' @ cmd @ '']'')
         (quietly (if strcmp_eq cmd ''file-download'' then Ok 1 w else Ok (-1) w)))"

text \<open>\<open>fread\<close> reads the whole file, so it gives nothing exactly for an empty one.\<close>

definition msg_read_file_dbg ::
  "(string \<Rightarrow> string option) \<Rightarrow> string \<Rightarrow> ('db, 'z) world_scheme \<Rightarrow>
     (string option, ('db, 'z) world_scheme) traced" where
  "msg_read_file_dbg fs file w =
     (if fs file = Some [] then DEBUG ''msg_client_info'' ''not found fils'' (quietly (msg_read_file fs file w))
      else quietly (msg_read_file fs file w))"

definition msg_client_info_dbg ::
  "json_api \<Rightarrow> (string \<Rightarrow> string option) \<Rightarrow> session_t \<Rightarrow> ('db, 'z) world_scheme \<Rightarrow>
     (string, ('db, 'z) world_scheme) traced" where
  "msg_client_info_dbg api fs session w =
     (let add = json_object_object_add api; w = emit JsonNew w in
      tbind (quietly (c_read (cmd_type session) w)) (\<lambda>cmd w.
      tbind (quietly (c_read (path session) w)) (\<lambda>file w.
      let json = add (JObject []) ''commend_type'' (JString cmd);
          json = add json ''path'' (JString file);
          json = add json ''sequence'' (JInt (sequence session))
      in
      tbind (parse_cmd_type_dbg (cmd_type session) w) (\<lambda>cmd_type w.
      tbind (if cmd_type = 1 then msg_read_file_dbg fs file w else quietly (Ok None w)) (\<lambda>file_buff w.
      tbind (quietly (json_object_new_string file_buff w)) (\<lambda>content w.
      let json = add json ''content'' content in
      tbind (quietly (c_read (path_install session) w)) (\<lambda>install w.
      let json = add json ''path_install'' (JString install);
          buff = c_str (json_object_to_json_string api json);
          w = mj_free file_buff (emit Malloc w)
      in
      tbind (quietly (c_fclose file_buff w)) (\<lambda>_ w. quietly (Ok buff w)))))))))"

section \<open>The functions of main.c\<close>

definition ux_request_dbg ::
  "'db mysql_api \<Rightarrow> json_api \<Rightarrow> answers \<Rightarrow> session_t \<Rightarrow> ('db, 'z) world_scheme \<Rightarrow>
     (ux_report, ('db, 'z) world_scheme) traced" where
  "ux_request_dbg db js a session w =
     tbind (mysql_insert_fd_dbg db (Lit ''UX_SESSION'') (s_fd session) REQ_UX w) (\<lambda>_ w.
     tbind (quietly (mysql_select_fd db (miner_mac session) w)) (\<lambda>ret w.
       if ret < 0 then DEBUG ''on_peer_ready_recv'' ''Fail : not found session'' (quietly (Ok UX_not_found w))
       else
         tbind (msg_client_info_dbg js (a_fs a) session w) (\<lambda>msg w.
         tbind (quietly (c_send (a_send a) ret (Lit msg) (length msg) w)) (\<lambda>n w.
           let result = to_size_t n in
           if result > 0 then quietly (Ok UX_sent w)
           else DEBUG ''on_peer_ready_recv'' ''fail : session_table_match_non_client''
             (quietly (Ok UX_send_failed w))))))"

definition recv_text :: "string \<Rightarrow> int \<Rightarrow> string" where
  "recv_text recv_data fd = ''recv_data ['' @ c_str recv_data @ ''] fd ['' @ fmt_d fd @ '']''"

definition handle_message_dbg ::
  "'db mysql_api \<Rightarrow> json_api \<Rightarrow> answers \<Rightarrow> int \<Rightarrow> string \<Rightarrow> session_t \<Rightarrow> ('db, 'z) world_scheme \<Rightarrow>
     (fd_status_t \<times> session_t, ('db, 'z) world_scheme) traced" where
  "handle_message_dbg db js a fd recv_data session w =
     DEBUG ''on_peer_ready_recv'' (recv_text recv_data fd)
     (let recv_data_json = parse_string_to_json js recv_data;
          w = (if recv_data_json = JNull then w else emit JsonNew w)
      in
      tbind (quietly (get_agent_type recv_data_json w)) (\<lambda>atype w.
      tbind (quietly (if atype = REQ_UX then
               parse_json_cmd recv_data_json (session\<lparr>s_fd := fd, agent_type := REQ_UX\<rparr>) w
             else if atype = REQ_LINUX_CLAYMORE then
               parse_json_agent recv_data_json (session\<lparr>s_fd := fd, agent_type := REQ_LINUX_CLAYMORE\<rparr>) w
             else Ok session w)) (\<lambda>session w.
      tbind (case atype of
               REQ_INVALID \<Rightarrow> quietly (Ok () w)
             | REQ_UX \<Rightarrow> tbind (ux_request_dbg db js a session w) (\<lambda>_ w. quietly (Ok () w))
             | REQ_LINUX_CLAYMORE \<Rightarrow>
                 tbind (mysql_insert_fd_dbg db (miner_mac session) (s_fd session) REQ_LINUX_CLAYMORE w)
                   (\<lambda>_ w. quietly (Ok () w))
             | REQ_WINDOW_CLAYMORE \<Rightarrow> quietly (Ok () w)) (\<lambda>_ w.
        let w = emit JsonPut (mj_free (Some recv_data) w);
            ready_to_send = False
        in quietly (Ok (\<lparr>want_read = \<not> ready_to_send, want_write = ready_to_send\<rparr>,
               json_object_put_session session) w)))))"

definition on_peer_ready_recv_dbg ::
  "'db mysql_api \<Rightarrow> json_api \<Rightarrow> answers \<Rightarrow> int \<Rightarrow> session_t \<Rightarrow> ('db, 'z) world_scheme \<Rightarrow>
     (fd_status_t \<times> session_t, ('db, 'z) world_scheme) traced" where
  "on_peer_ready_recv_dbg db js a fd session w =
     (if \<not> fd < MAXFDS then quietly (Stop Assert_failed w)
      else tbind (quietly (socket_read (a_slack a) (a_recv a) w)) (\<lambda>(recv_data, ret) w.
        case recv_data of
          None \<Rightarrow> quietly (Ok (fd_status_NORW, session) (mj_free recv_data w))
        | Some data \<Rightarrow>
            if ret = -1 then quietly (Ok (fd_status_NORW, session) w)
            else if ret = -2 then quietly (Ok (fd_status_R, session) w)
            else if ret = -3 then quietly (perror_die ''recv'' w)
            else handle_message_dbg db js a fd data session w))"

definition handle_readable_dbg ::
  "'db mysql_api \<Rightarrow> json_api \<Rightarrow> answers \<Rightarrow> int \<Rightarrow> session_t \<Rightarrow> ('db, 'z) server_scheme \<Rightarrow>
     (session_t, ('db, 'z) server_scheme) traced" where
  "handle_readable_dbg db js a fd session w =
     tbind (on_peer_ready_recv_dbg db js a fd session w) (\<lambda>(status, session) w.
       let events = events_of status in
       if events = 0 then
         tbind (mysql_delete_fd_dbg db fd w) (\<lambda>_ w.
         tbind (quietly (epoll_del a fd w)) (\<lambda>_ w.
           quietly (Ok session (close_fd fd (emit (Print (closing_text fd)) w)))))
       else
         tbind (quietly (epoll_mod a fd events w)) (\<lambda>_ w. quietly (Ok session w)))"

definition handle_event_dbg ::
  "'db mysql_api \<Rightarrow> json_api \<Rightarrow> int \<Rightarrow> event \<Rightarrow> answers \<Rightarrow> session_t \<Rightarrow> ('db, 'z) server_scheme \<Rightarrow>
     (session_t, ('db, 'z) server_scheme) traced" where
  "handle_event_dbg db js listener_sockfd ev a session w =
     (if ev_events ev AND EPOLLERR \<noteq> 0 then quietly (perror_die ''epoll_wait returned EPOLLERR'' w)
      else if ev_fd ev = listener_sockfd then tbind (quietly (handle_accept a w)) (\<lambda>_ w. quietly (Ok session w))
      else if ev_events ev AND EPOLLIN \<noteq> 0 then handle_readable_dbg db js a (ev_fd ev) session w
      else if ev_events ev AND EPOLLOUT \<noteq> 0 then
        tbind (quietly (handle_writable a (ev_fd ev) w)) (\<lambda>_ w. quietly (Ok session w))
      else quietly (Ok session w))"

fun handle_events_dbg ::
  "'db mysql_api \<Rightarrow> json_api \<Rightarrow> int \<Rightarrow> (event \<times> answers) list \<Rightarrow> session_t \<Rightarrow> ('db, 'z) server_scheme \<Rightarrow>
     (session_t, ('db, 'z) server_scheme) traced" where
  "handle_events_dbg db js lfd [] session w = quietly (Ok session w)"
| "handle_events_dbg db js lfd ((ev, a) # evs) session w =
     tbind (handle_event_dbg db js lfd ev a session w) (\<lambda>session w. handle_events_dbg db js lfd evs session w)"

definition loop_turn_dbg ::
  "'db mysql_api \<Rightarrow> json_api \<Rightarrow> int \<Rightarrow> session_t \<times> (event \<times> answers) list \<Rightarrow> ('db, 'z) server_scheme \<Rightarrow>
     (unit, ('db, 'z) server_scheme) traced" where
  "loop_turn_dbg db js lfd turn w =
     (case turn of (junk, evs) \<Rightarrow>
        tbind (handle_events_dbg db js lfd evs (malloc_session junk) (emit Malloc w)) (\<lambda>session w.
          quietly (Ok () (mj_free (Some session) w))))"

fun main_loop_dbg ::
  "'db mysql_api \<Rightarrow> json_api \<Rightarrow> int \<Rightarrow> (session_t \<times> (event \<times> answers) list) list \<Rightarrow>
     ('db, 'z) server_scheme \<Rightarrow> (unit, ('db, 'z) server_scheme) traced" where
  "main_loop_dbg db js lfd [] w = quietly (Ok () w)"
| "main_loop_dbg db js lfd (turn # turns) w =
     tbind (loop_turn_dbg db js lfd turn w) (\<lambda>_ w. main_loop_dbg db js lfd turns w)"

text \<open>The start of \<open>main\<close> prints only when the database cannot be reached.\<close>

definition main_start_dbg ::
  "string \<Rightarrow> start_answers \<Rightarrow> string list \<Rightarrow> ('db, 'z) server_scheme \<Rightarrow>
     (int option, ('db, 'z) server_scheme) traced" where
  "main_start_dbg err a argv w =
     (case mysql_conn_dbg err (st_connected a) w of (ls, conn, w') \<Rightarrow>
        if \<not> conn then (ls @ [debug_line ''main'' ''Fail : conn databases''], Ok None w')
        else quietly (main_start a argv w))"

section \<open>What a run of the router prints\<close>

text \<open>What \<open>recv\<close> gave, and the file an order names.\<close>

definition heard :: "answers \<Rightarrow> string" where
  "heard a = concat (map piece (a_recv a))"

definition heard_line :: "answers \<Rightarrow> int \<Rightarrow> string" where
  "heard_line a fd = debug_line ''on_peer_ready_recv'' (recv_text (heard a) fd)"

fun ordered_file :: "json \<Rightarrow> string option" where
  "ordered_file (JObject es) = last_string ''path'' es"
| "ordered_file _ = None"

text \<open>The lines of an event that carries an action; the number of bytes \<open>send\<close> took is not among what they depend on.\<close>

fun action_lines :: "router \<Rightarrow> answers \<Rightarrow> action \<Rightarrow> string list" where
  "action_lines r a (Joins fd) = []"
| "action_lines r a (Registers fd mac) = [heard_line a fd]"
| "action_lines r a (Orders fd mac cmd k) = heard_line a fd #
     (case book r mac of
        None \<Rightarrow> [debug_line ''on_peer_ready_recv'' ''Fail : not found session'']
      | Some agent \<Rightarrow> debug_line ''parse_cmd_type'' ''cmd_type [file-download]'' #
          (if Option.bind (ordered_file cmd) (a_fs a) = Some []
           then [debug_line ''msg_client_info'' ''not found fils''] else []))"
| "action_lines r a (Ignored fd) = (if last (heard a) = NUL then [heard_line a fd] else [])"
| "action_lines r a (Hangs_up fd) = []"

fun batch_lines :: "router \<Rightarrow> (event \<times> answers) list \<Rightarrow> action list \<Rightarrow> string list" where
  "batch_lines r ((ev, a) # evs) (act # acts) = action_lines r a act @ batch_lines (router_step act r) evs acts"
| "batch_lines r _ _ = []"

fun run_lines :: "router \<Rightarrow> (session_t \<times> (event \<times> answers) list) list \<Rightarrow> action list list \<Rightarrow> string list" where
  "run_lines r ((junk, evs) # turns) (acts # actss) =
     batch_lines r evs acts @ run_lines (fold router_step acts r) turns actss"
| "run_lines r _ _ = []"

text \<open>Two runs that differ only in what \<open>send\<close> gave.\<close>

fun unsent :: "action \<Rightarrow> action" where
  "unsent (Orders fd mac cmd k) = Orders fd mac cmd 0"
| "unsent act = act"

definition unsent_turns ::
  "(session_t \<times> (event \<times> answers) list) list \<Rightarrow> (session_t \<times> (event \<times> answers) list) list" where
  "unsent_turns turns = map (\<lambda>(junk, evs). (junk, map (\<lambda>(ev, a). (ev, a\<lparr>a_send := Sent 0\<rparr>)) evs)) turns"

definition demo_turns_lost :: "(session_t \<times> (event \<times> answers) list) list" where
  "demo_turns_lost =
     [(blank, [(input_event 4, accepting 5)]),
      (blank, [(input_event 5, receives hello), (input_event 4, accepting 6)]),
      (blank, [(input_event 6, receives (order ''/srv/m'')\<lparr>a_send := SendErr (EOTHER 104)\<rparr>)])]"

definition demo_actions_lost :: "action list list" where
  "demo_actions_lost = [[Joins 5], [Registers 5 ''00:1b'', Joins 6], [Orders 6 ''00:1b'' demo_command (-1)]]"

section \<open>Lemmas\<close>

lemma tbind_simps [simp]:
  "snd (tbind m f) = obind (snd m) (\<lambda>x w. snd (f x w))"
  "snd (quietly z) = z" "fst (quietly z) = []" "snd (DEBUG g x m) = snd m" "fst (DEBUG g x m) = debug_line g x # fst m"
  by (simp_all add: tbind_def obind_def quietly_def DEBUG_def split: outcome.split)

lemma tbind_quietly [simp]:
  "tbind (quietly (Ok x w)) f = f x w" "tbind (quietly (Stop z w)) f = quietly (Stop z w)"
  "tbind (DEBUG g l m) f = DEBUG g l (tbind m f)"
  by (simp_all add: tbind_def quietly_def DEBUG_def split: outcome.split)

text \<open>The lines of a sequence whose first part returns.\<close>

lemma tbind_lines: "snd m = Ok x w \<Longrightarrow> fst (tbind m f) = fst m @ fst (f x w)"
  by (simp add: tbind_def)

lemma tbind_quiet_tail [simp]: "fst (tbind m (\<lambda>x w. quietly (f x w))) = fst m"
  by (simp add: tbind_def split: outcome.split)

subsection \<open>Forgetting the lines\<close>

named_theorems erase \<open>forgetting the lines of each construct\<close>

lemma snd_splits [erase]:
  "snd (if b then m else m') = (if b then snd m else snd m')"
  "snd (case p of (x, y) \<Rightarrow> g x y) = (case p of (x, y) \<Rightarrow> snd (g x y))"
  "snd (case q of None \<Rightarrow> m | Some z \<Rightarrow> h z) = (case q of None \<Rightarrow> snd m | Some z \<Rightarrow> snd (h z))"
  "snd ((case p of (x, y) \<Rightarrow> k x y) w) = (case p of (x, y) \<Rightarrow> \<lambda>w. snd (k x y w)) w"
  by (simp_all split: prod.split option.split)

declare tbind_simps [erase] Let_def [erase] agent_type_t.case_distrib [of snd, erase]

lemma log_erase [erase]:
  "snd (mysql_insert_fd_dbg api p fd t w) = mysql_insert_fd api p fd t w"
  "snd (mysql_delete_mac_dbg api p w) = mysql_delete_mac api p w"
  "snd (mysql_delete_fd_dbg api fd w) = mysql_delete_fd api fd w"
  "snd (mysql_update_log_dbg api n p status w) = mysql_update_log api n p status w"
  "snd (mysql_select_session_dbg api fd w) = mysql_select_session api fd w"
  unfolding mysql_insert_fd_dbg_def mysql_insert_fd_def mysql_delete_mac_dbg_def mysql_delete_mac_def
    mysql_delete_fd_dbg_def mysql_delete_fd_def mysql_update_log_dbg_def mysql_update_log_def
    mysql_select_session_dbg_def mysql_select_session_def select_first_int_def erase
  by (rule refl)+

lemma session_erase [erase]:
  "snd (parse_cmd_type_dbg p w) = parse_cmd_type p w"
  "snd (msg_read_file_dbg fs f w) = msg_read_file fs f w"
  unfolding parse_cmd_type_dbg_def parse_cmd_type_def msg_read_file_dbg_def erase by simp_all

lemma msg_client_info_erase [erase]:
  "snd (msg_client_info_dbg js fs s w) = msg_client_info js fs s w"
  unfolding msg_client_info_dbg_def msg_client_info_def erase by (rule refl)

lemma ux_erase [erase]: "snd (ux_request_dbg db js a s w) = ux_request db js a s w"
  unfolding ux_request_dbg_def ux_request_def erase by (rule refl)

lemma handle_message_erase [erase]:
  "snd (handle_message_dbg db js a fd d s w) = handle_message db js a fd d s w"
  unfolding handle_message_dbg_def handle_message_def erase by (rule refl)

lemma on_peer_ready_recv_erase [erase]:
  "snd (on_peer_ready_recv_dbg db js a fd s w) = on_peer_ready_recv db js a fd s w"
  unfolding on_peer_ready_recv_dbg_def on_peer_ready_recv_def erase by (rule refl)

lemma handle_readable_erase [erase]:
  "snd (handle_readable_dbg db js a fd s w) = handle_readable db js a fd s w"
  unfolding handle_readable_dbg_def handle_readable_def erase by (rule refl)

lemma event_erase [erase]:
  "snd (handle_event_dbg db js lfd ev a s w) = handle_event db js lfd ev a s w"
  unfolding handle_event_dbg_def handle_event_def erase by (rule refl)

lemma events_erase [erase]:
  "snd (handle_events_dbg db js lfd evs s w) = handle_events db js lfd evs s w"
  by (induction evs arbitrary: s w) (auto simp: event_erase)

lemma loop_turn_erase [erase]: "snd (loop_turn_dbg db js lfd turn w) = loop_turn db js lfd turn w"
  unfolding loop_turn_dbg_def loop_turn_def erase by (rule refl)

lemma main_loop_erase [erase]: "snd (main_loop_dbg db js lfd turns w) = main_loop db js lfd turns w"
  by (induction turns arbitrary: w) (simp_all add: loop_turn_erase)

lemma main_start_erase [erase]: "snd (main_start_dbg err a argv w) = main_start a argv w"
  by (simp add: main_start_dbg_def main_start_def mysql_conn_dbg_def split: prod.split)

subsection \<open>The lines of each function\<close>

lemma mysql_insert_fd_lines:
  "mysql_insert_fd db p fd t w = Ok r v \<Longrightarrow> r \<noteq> -2 \<Longrightarrow> fst (mysql_insert_fd_dbg db p fd t w) = []"
  by (auto simp: mysql_insert_fd_dbg_def mysql_insert_fd_def ok_iffs split: prod.splits if_splits)

lemma parse_cmd_type_dbg_readable:
  "readable p \<Longrightarrow> parse_cmd_type_dbg p w =
     DEBUG ''parse_cmd_type'' (''cmd_type ['' @ ptr_text p @ '']'') (quietly (parse_cmd_type p w))"
  by (simp add: parse_cmd_type_dbg_def parse_cmd_type_def)

lemma msg_client_info_lines:
  assumes "sendable fs s" and "fs (ptr_text (path s)) = Some bytes"
  shows "fst (msg_client_info_dbg js fs s w) =
    debug_line ''parse_cmd_type'' ''cmd_type [file-download]'' #
    (if bytes = [] then [debug_line ''msg_client_info'' ''not found fils''] else [])"
proof -
  have "readable (cmd_type s)" "readable (path s)" "readable (path_install s)"
    "ptr_text (cmd_type s) = ''file-download''"
    using assms(1) by (auto simp: sendable_def)
  with assms(2) show ?thesis
    by (simp add: msg_client_info_dbg_def Let_def parse_cmd_type_dbg_readable parse_cmd_type_eq
        msg_read_file_dbg_def msg_read_file_def json_object_new_string_def c_fclose_def)
qed

lemma on_peer_ready_recv_dbg_arrives:
  assumes "arrives a cs m" and "fd < MAXFDS"
  shows "on_peer_ready_recv_dbg db js a fd s w =
    handle_message_dbg db js a fd (m @ [NUL]) s (w\<lparr>w_log := w_log w @ Malloc # prefix_reads 0 cs\<rparr>)"
  using assms by (simp add: on_peer_ready_recv_dbg_def arrives_read)

text \<open>A complete message: nothing is printed after \<open>handle_message\<close>.\<close>

lemma handle_event_message_lines:
  fixes w :: "('db, 'z) server_scheme"
  assumes "server_inv lfd w" and "peer_input w ev a cs m"
  shows "fst (handle_event_dbg db js lfd ev a s w) =
    fst (handle_message_dbg db js a (ev_fd ev) (m @ [NUL]) s (w\<lparr>w_log := w_log w @ Malloc # prefix_reads 0 cs\<rparr>))"
proof -
  let ?m = "handle_message_dbg db js a (ev_fd ev) (m @ [NUL]) s (w\<lparr>w_log := w_log w @ Malloc # prefix_reads 0 cs\<rparr>)"
  have fd: "ev_fd ev \<noteq> lfd" "ev_fd ev < MAXFDS"
    using assms by (auto simp: server_inv_def peer_input_def)
  have ev: "handle_event_dbg db js lfd ev a s w = handle_readable_dbg db js a (ev_fd ev) s w"
    using assms(2) fd(1) by (simp add: handle_event_dbg_def peer_input_def)
  have recv: "on_peer_ready_recv_dbg db js a (ev_fd ev) s w = ?m"
    using assms(2) fd(2) by (simp add: on_peer_ready_recv_dbg_arrives peer_input_def)
  show ?thesis
  proof (cases "snd ?m")
    case (Stop z v)
    then show ?thesis by (simp add: ev handle_readable_dbg_def recv tbind_def)
  next
    case (Ok x v)
    obtain st s' where x: "x = (st, s')" by fastforce
    with Ok have "st = fd_status_R"
      using handle_message_status by (simp add: handle_message_erase)
    then show ?thesis
      using assms(2) by (simp add: ev handle_readable_dbg_def recv tbind_lines [OF Ok] x epoll_mod_def peer_input_def)
  qed
qed

lemma heard_arrives: "arrives a cs m \<Longrightarrow> heard a = m @ [NUL]"
  by (simp add: arrives_def heard_def comp_def)

lemma handle_message_dbg_ux:
  assumes "parse_string_to_json js d = JObject es" and "get_agent_type_loop es = REQ_UX"
  shows "fst (handle_message_dbg db js a fd d s w) =
    debug_line ''on_peer_ready_recv'' (recv_text d fd) #
    fst (ux_request_dbg db js a (cmd_session es (s\<lparr>s_fd := fd, agent_type := REQ_UX\<rparr>))
      (w\<lparr>w_log := w_log w @ JsonNew # replicate (empty_paths es) Malloc\<rparr>))"
  using assms
  by (simp add: handle_message_dbg_def Let_def get_agent_type_def outcome_simps emit_def)

lemma handle_message_dbg_linux:
  assumes "parse_string_to_json js d = JObject es" and "get_agent_type_loop es = REQ_LINUX_CLAYMORE"
    and "last_string ''miner_mac'' es = Some mac"
  shows "fst (handle_message_dbg db js a fd d s w) =
    debug_line ''on_peer_ready_recv'' (recv_text d fd) #
    fst (mysql_insert_fd_dbg db (Owned mac) fd REQ_LINUX_CLAYMORE (emit JsonNew w))"
  using assms
  by (simp add: handle_message_dbg_def Let_def get_agent_type_def outcome_simps)

lemma handle_message_dbg_invalid:
  assumes "parse_string_to_json js d = JObject es" and "get_agent_type_loop es = REQ_INVALID"
  shows "fst (handle_message_dbg db js a fd d s w) = [debug_line ''on_peer_ready_recv'' (recv_text d fd)]"
  using assms by (simp add: handle_message_dbg_def Let_def get_agent_type_def outcome_simps)

text \<open>Events without a complete message print nothing.\<close>

lemma joins_lines:
  assumes "ev_fd ev = lfd" and "ev_events ev AND EPOLLERR = 0"
  shows "fst (handle_event_dbg db js lfd ev a s w) = []"
  using assms by (simp add: handle_event_dbg_def)

lemma fragment_lines:
  fixes w :: "('db, 'z) server_scheme"
  assumes "server_inv lfd w" and "readable_on (sockets w) ev a" and "a_recv a = [Recv c]" and "c \<noteq> []"
    and "length c \<le> MAX_RECV_BUFF_SIZE" and "last c \<noteq> NUL" and "a_slack a (length c) \<noteq> NUL"
  shows "fst (handle_event_dbg db js lfd ev a s w) = []"
proof -
  have fd: "ev_fd ev \<noteq> lfd" "ev_fd ev < MAXFDS"
    using assms(1,2) by (auto simp: server_inv_def readable_on_def)
  then show ?thesis
    using assms(2-7)
    by (simp add: handle_event_dbg_def readable_on_def handle_readable_dbg_def on_peer_ready_recv_dbg_def
        socket_read_def epoll_mod_def Let_def last_conv_nth)
qed

context mysql_table
begin

lemma hangs_up_lines:
  fixes w :: "('db, 'z) server_scheme"
  assumes "server_inv lfd w" and "db_up up w" and "readable_on (sockets w) ev a" and "a_recv a = Recv [] # rs"
  shows "fst (handle_event_dbg api js lfd ev a s w) = []"
proof -
  have fd: "ev_fd ev \<noteq> lfd" "ev_fd ev < MAXFDS" "int32 (ev_fd ev)" "0 \<le> a_epoll_ctl a"
    using assms(1,3) by (auto simp: server_inv_def readable_on_def int32_def)
  let ?w = "emit Free (emit Malloc w)"
  have "db_up up ?w" using assms(2) by (simp add: db_up_def)
  then obtain u where "mysql_delete_fd api (ev_fd ev) ?w = Ok 0 u"
    using registry.delete_law [OF _ fd(3)] by blast
  then have "fst (mysql_delete_fd_dbg api (ev_fd ev) ?w) = []"
    by (auto simp: mysql_delete_fd_dbg_def mysql_delete_fd_def ok_iffs split: prod.splits if_splits)
  then show ?thesis
    using assms(3,4) fd
    by (simp add: handle_event_dbg_def readable_on_def handle_readable_dbg_def on_peer_ready_recv_dbg_def
        socket_read_def Let_def tbind_def split: outcome.split)
qed

lemma registers_lines:
  fixes w :: "('db, 'z) server_scheme"
  assumes "server_inv lfd w" and "db_up up w" and "peer_input w ev a cs m"
    and "json_tokener_parse js m = JObject es" and "get_agent_type_loop es = REQ_LINUX_CLAYMORE"
    and "last_string ''miner_mac'' es = Some mac" and "mac_ok (c_str mac)"
  shows "fst (handle_event_dbg api js lfd ev a s w) = [debug_line ''on_peer_ready_recv'' (recv_text (m @ [NUL]) (ev_fd ev))]"
proof -
  let ?w = "emit JsonNew (w\<lparr>w_log := w_log w @ Malloc # prefix_reads 0 cs\<rparr>)"
  have j: "parse_string_to_json js (m @ [NUL]) = JObject es"
    using parse_arrived [OF assms(3)] assms(4) by simp
  have "0 \<le> ev_fd ev" using assms(1,3) by (auto simp: server_inv_def peer_input_def)
  moreover have "db_up up ?w" using assms(2) by (simp add: db_up_def)
  then obtain v where v: "mysql_insert_fd api (Owned mac) (ev_fd ev) REQ_LINUX_CLAYMORE ?w = Ok (ev_fd ev) v"
    using registry.insert_law [OF _ _ _ peer_fd [OF assms(1,3)], of ?w "Owned mac"] assms(7) by auto
  ultimately show ?thesis
    using mysql_insert_fd_lines [OF v]
    by (simp add: handle_event_message_lines [OF assms(1,3)] handle_message_dbg_linux [OF j assms(5,6)])
qed

lemma ux_request_lines:
  assumes "db_up up w" and "0 \<le> s_fd s" and "int32 (s_fd s)" and "readable (miner_mac s)"
    and "mac_ok (ptr_text (miner_mac s))" and "ptr_text (miner_mac s) \<noteq> ''UX_SESSION''"
    and "\<And>agent. registry_of tbl w (ptr_text (miner_mac s)) = Some agent \<Longrightarrow> 0 \<le> agent"
    and "sendable (a_fs a) s" and "a_fs a (ptr_text (path s)) = Some bytes" and "send_gives (a_send a) k"
  shows "fst (ux_request_dbg api js a s w) = (case registry_of tbl w (ptr_text (miner_mac s)) of
      None \<Rightarrow> [debug_line ''on_peer_ready_recv'' ''Fail : not found session'']
    | Some agent \<Rightarrow> debug_line ''parse_cmd_type'' ''cmd_type [file-download]'' #
        (if bytes = [] then [debug_line ''msg_client_info'' ''not found fils''] else []))"
proof -
  obtain w1 w2 where 1: "mysql_insert_fd api (Lit ''UX_SESSION'') (s_fd s) REQ_UX w = Ok (s_fd s) w1"
    and 2: "mysql_select_fd api (miner_mac s) w1 = Ok (case registry_of tbl w (ptr_text (miner_mac s)) of
      None \<Rightarrow> -5 | Some fd \<Rightarrow> fd) w2"
    by (rule ux_lookup [OF assms(1,3-5)]) (simp add: assms(6))
  have ins: "fst (tbind (mysql_insert_fd_dbg api (Lit ''UX_SESSION'') (s_fd s) REQ_UX w) f) = fst (f (s_fd s) w1)" for f
    using tbind_lines [of "mysql_insert_fd_dbg api (Lit ''UX_SESSION'') (s_fd s) REQ_UX w" "s_fd s" w1 f] 1
      mysql_insert_fd_lines [OF 1] assms(2) by (simp add: log_erase)
  obtain msg w3 where 3: "msg_client_info js (a_fs a) s w2 = Ok msg w3"
    using msg_client_info_sendable [OF assms(8)] by blast
  have "0 < to_size_t k" using to_size_t_pos [of k] assms(10) by (auto simp: send_gives_def)
  then have sent: "fst (tbind (quietly (c_send (a_send a) fd (Lit msg) n w3)) (\<lambda>n w.
      if 0 < to_size_t n then quietly (Ok UX_sent w)
      else DEBUG g l (quietly (Ok UX_send_failed w)))) = []" for fd n g l
    using assms(10) by (auto simp: c_send_def send_gives_def)
  show ?thesis
  proof (cases "registry_of tbl w (ptr_text (miner_mac s))")
    case None
    then show ?thesis using 2 by (simp add: ux_request_dbg_def ins)
  next
    case (Some agent)
    with assms(7) 2 3 sent show ?thesis
      by (simp add: ux_request_dbg_def ins Let_def tbind_lines [of _ msg w3] msg_client_info_erase
          msg_client_info_lines [OF assms(8,9)])
  qed
qed

lemma orders_lines:
  fixes w :: "('db, 'z) server_scheme"
  assumes "server_inv lfd w" and "db_up up w" and "registered_open tbl w"
    and "peer_input w ev a cs m" and "json_tokener_parse js m = JObject es"
    and "download_request es mac file install seqno" and "mac_ok mac" and "mac \<noteq> ''UX_SESSION''"
    and "a_fs a file = Some bytes" and "send_gives (a_send a) k"
  shows "fst (handle_event_dbg api js lfd ev a s w) =
    debug_line ''on_peer_ready_recv'' (recv_text (m @ [NUL]) (ev_fd ev)) #
    (case registry_of tbl w mac of
      None \<Rightarrow> [debug_line ''on_peer_ready_recv'' ''Fail : not found session'']
    | Some agent \<Rightarrow> debug_line ''parse_cmd_type'' ''cmd_type [file-download]'' #
        (if bytes = [] then [debug_line ''msg_client_info'' ''not found fils''] else []))"
proof -
  let ?w1 = "ux_world w cs es" and ?s = "ux_session es (ev_fd ev) s"
  note s = download_session [OF assms(6), of "s\<lparr>s_fd := ev_fd ev, agent_type := REQ_UX\<rparr>", folded ux_session_def]
  have j: "parse_string_to_json js (m @ [NUL]) = JObject es" and t: "get_agent_type_loop es = REQ_UX"
    using parse_arrived [OF assms(4)] assms(5,6) by (simp_all add: download_request_def)
  have fd: "0 \<le> ev_fd ev" and agent: "\<And>agent. registry_of tbl w mac = Some agent \<Longrightarrow> 0 \<le> agent"
    using assms(1,3,4) by (auto simp: server_inv_def peer_input_def registered_open_def ran_def)
  have "sendable (a_fs a) ?s" using s assms(9) by (simp add: sendable_def)
  then have "fst (ux_request_dbg api js a ?s ?w1) = (case registry_of tbl w mac of
      None \<Rightarrow> [debug_line ''on_peer_ready_recv'' ''Fail : not found session'']
    | Some agent \<Rightarrow> debug_line ''parse_cmd_type'' ''cmd_type [file-download]'' #
        (if bytes = [] then [debug_line ''msg_client_info'' ''not found fils''] else []))"
    using ux_request_lines [of ?w1 ?s a bytes k js] assms(2,7-10) s(1,2,6) fd agent peer_fd [OF assms(1,4)] by simp
  then show ?thesis
    by (simp add: handle_event_message_lines [OF assms(1,4)] handle_message_dbg_ux [OF j t] ux_session_def ux_world_def)
qed

lemma carries_lines:
  fixes w :: "('db, 'z) server_scheme"
  assumes "routes tbl up lfd w" and "carries js mac_ok lfd (sockets w) ev a act"
  shows "fst (handle_event_dbg api js lfd ev a s w) = action_lines (router_of js' tbl w) a act"
proof -
  have inv: "server_inv lfd w" "db_up up w" "registered_open tbl w" using assms(1) by (simp_all add: routes_def)
  from assms(2) show ?thesis
  proof cases
    case (joins fd)
    then show ?thesis by (simp add: joins_lines)
  next
    case (registers cs m es mac)
    then show ?thesis
      using registers_lines [OF inv(1,2) readable_on_input [OF registers(2,3)]]
      by (simp add: heard_line_def heard_arrives [OF registers(3)])
  next
    case (orders cs m es mac src install seqno bytes k)
    have "ordered_file (JObject (command_entries ''file-download'' src seqno (c_str bytes) install)) = Some src"
      by (simp add: command_entries_def last_string_Cons)
    then show ?thesis
      using orders_lines [OF inv readable_on_input [OF orders(2,3)] orders(4-9)] orders(1,8)
      by (simp add: heard_line_def heard_arrives [OF orders(3)] cong: option.case_cong)
  next
    case (no_type cs m es)
    have j: "parse_string_to_json js (m @ [NUL]) = JObject es"
      using parse_arrived [OF readable_on_input [OF no_type(2,3)]] no_type(4) by simp
    show ?thesis
      using no_type(1) handle_event_message_lines [OF inv(1) readable_on_input [OF no_type(2,3)]]
      by (simp add: handle_message_dbg_invalid [OF j no_type(5)] heard_line_def heard_arrives [OF no_type(3)])
  next
    case (fragment c)
    then show ?thesis using fragment_lines [OF inv(1) fragment(2-7)] by (simp add: heard_def)
  next
    case (hangs_up rs)
    then show ?thesis using hangs_up_lines [OF inv(1,2) hangs_up(2,3)] by simp
  qed
qed

lemma handle_events_lines:
  fixes w :: "('db, 'z) server_scheme"
  assumes "json_lib js" and "routes tbl up lfd w" and "all_carry js mac_ok lfd (router_of js tbl w) evs acts"
  shows "fst (handle_events_dbg api js lfd evs s w) = batch_lines (router_of js tbl w) evs acts"
  using assms(2,3)
proof (induction evs arbitrary: acts s w)
  case (Cons e evs)
  obtain ev a where e: "e = (ev, a)" by fastforce
  obtain act acts' where acts: "acts = act # acts'" "carries js mac_ok lfd (sockets w) ev a act"
      "all_carry js mac_ok lfd (router_step act (router_of js tbl w)) evs acts'"
    using Cons.prems(2) by (cases acts) (auto simp: e)
  obtain s1 w1 where 1: "handle_event api js lfd ev a s w = Ok s1 w1" "routes tbl up lfd w1"
      "router_of js tbl w1 = router_step act (router_of js tbl w)"
    using carries_event [OF assms(1) Cons.prems(1) acts(2)] by blast
  then have "snd (handle_event_dbg api js lfd ev a s w) = Ok s1 w1" by (simp add: event_erase)
  then show ?case
    using Cons.IH [OF 1(2), of acts' s1] acts(1,3) 1(3) carries_lines [OF Cons.prems(1) acts(2), of s js]
    by (simp add: e tbind_lines)
qed simp

lemma main_loop_lines:
  fixes w :: "('db, 'z) server_scheme"
  assumes "json_lib js" and "routes tbl up lfd w" and "turns_carry js mac_ok lfd (router_of js tbl w) turns actss"
  shows "fst (main_loop_dbg api js lfd turns w) = run_lines (router_of js tbl w) turns actss"
  using assms(2,3)
proof (induction turns arbitrary: actss w)
  case (Cons t turns)
  obtain junk evs where t: "t = (junk, evs)" by fastforce
  obtain acts actss' where acts: "actss = acts # actss'" "all_carry js mac_ok lfd (router_of js tbl w) evs acts"
      "turns_carry js mac_ok lfd (fold router_step acts (router_of js tbl w)) turns actss'"
    using Cons.prems(2) by (cases actss) (auto simp: t)
  have m: "routes tbl up lfd (emit Malloc w)" "all_carry js mac_ok lfd (router_of js tbl (emit Malloc w)) evs acts"
    using Cons.prems(1) acts(2) by simp_all
  obtain s1 w1 where 1: "handle_events api js lfd evs (malloc_session junk) (emit Malloc w) = Ok s1 w1"
      "routes tbl up lfd w1" "router_of js tbl w1 = fold router_step acts (router_of js tbl w)"
    using handle_events_routes [OF assms(1) m, of "malloc_session junk"] by auto
  have "snd (loop_turn_dbg api js lfd t w) = Ok () (mj_free (Some s1) w1)"
    using 1(1) by (simp add: loop_turn_erase loop_turn_def t)
  moreover have "fst (loop_turn_dbg api js lfd t w) = batch_lines (router_of js tbl w) evs acts"
    using handle_events_lines [OF assms(1) m, of "malloc_session junk"] by (simp add: loop_turn_dbg_def t)
  ultimately show ?case
    using Cons.IH [of "mj_free (Some s1) w1" actss'] 1(2,3) acts(1,3) by (simp add: t tbind_lines)
qed simp

end

text \<open>The lines of a run do not depend on what \<open>send\<close> gave.\<close>

lemma heard_line_unsent [simp]: "heard_line (a\<lparr>a_send := x\<rparr>) = heard_line a" "heard (a\<lparr>a_send := x\<rparr>) = heard a"
  by (auto simp: heard_line_def heard_def)

lemma action_lines_unsent: "action_lines r (a\<lparr>a_send := x\<rparr>) (unsent act) = action_lines r a act"
  by (cases act) (simp_all cong: option.case_cong)

lemma action_lines_same_book: "book r = book r' \<Longrightarrow> action_lines r a act = action_lines r' a act"
  by (cases act) simp_all

lemma book_unsent: "book r = book r' \<Longrightarrow> book (router_step act r) = book (router_step (unsent act) r')"
  by (cases act) (simp_all cong: if_cong)

lemma book_unsent_fold:
  assumes "book r = book r'"
  shows "book (fold router_step acts r) = book (fold router_step (map unsent acts) r')"
  using assms
proof (induction acts arbitrary: r r')
  case (Cons act acts)
  show ?case using Cons.IH [OF book_unsent [OF Cons.prems]] by simp
qed simp

lemma batch_lines_unsent:
  "book r = book r' \<Longrightarrow> batch_lines r evs acts =
     batch_lines r' (map (\<lambda>(ev, a). (ev, a\<lparr>a_send := Sent 0\<rparr>)) evs) (map unsent acts)"
proof (induction r evs acts arbitrary: r' rule: batch_lines.induct)
  case (1 r ev a evs act acts)
  then show ?case
    using 1(1) [OF book_unsent [OF 1(2)]] action_lines_same_book [OF 1(2)] by (simp add: action_lines_unsent)
qed auto

lemma run_lines_unsent:
  "book r = book r' \<Longrightarrow> run_lines r turns actss = run_lines r' (unsent_turns turns) (map (map unsent) actss)"
proof (induction r turns actss arbitrary: r' rule: run_lines.induct)
  case (1 r junk evs turns acts actss)
  then show ?case
    using 1(1) [OF book_unsent_fold [OF 1(2)]] batch_lines_unsent [OF 1(2)] by (simp add: unsent_turns_def)
qed (auto simp: unsent_turns_def)

lemma demo_carries_lost: "turns_carry ref_json ref_mac_ok 4 empty_router demo_turns_lost demo_actions_lost"
proof -
  let ?a = "receives (order ''/srv/m'')\<lparr>a_send := SendErr (EOTHER 104)\<rparr>"
  have "carries ref_json ref_mac_ok 4 C (input_event 6) ?a (Orders 6 ''00:1b'' demo_command (-1))" if "6 \<in> C" for C
  proof -
    have on: "readable_on C (input_event 6) ?a"
      using that by (simp add: readable_on_def input_event_def receives_def quiet_def)
    have "arrives ?a [order ''/srv/m'' @ [NUL]] (order ''/srv/m'')"
      using order_input [of "[]"] by (simp add: peer_input_def arrives_def)
    from carries.orders [where mac_ok = ref_mac_ok, OF on this order_parses [OF demo_facts(7)]
        order_request [OF demo_facts(7)] demo_facts(1,2), of "''#!x''" "-1" 4]
    show ?thesis by (simp add: input_event_def send_gives_def demo_command_def)
  qed
  then show ?thesis
    by (simp add: demo_turns_lost_def demo_actions_lost_def empty_router_def accepting_carries hello_carries)
qed

lemma main_lines:
  assumes "mysql_table db tbl up mac_ok" and "json_lib js" and "up d" and "tbl d = []"
    and "main_start st argv (boot d) = Ok (Some lfd) w"
    and "turns_carry js mac_ok lfd empty_router turns actss"
  shows "fst (main_loop_dbg db js lfd turns w) = run_lines empty_router turns actss"
proof -
  have "routes tbl up lfd w" and empty: "router_of js tbl w = empty_router"
    using boot_routes(1) [of up d tbl st argv lfd w] boot_routes(2) [of up d tbl st argv lfd w js] assms(3-5)
    by simp_all
  then show ?thesis
    using mysql_table.main_loop_lines [OF assms(1,2), of lfd w turns actss] assms(6) by simp
qed

section \<open>Properties\<close>

text \<open>
  C12. What the server prints is a record of what it heard: over any run, started on an empty session
  table, whose events carry connections, registrations, orders, unintelligible input and
  hang-ups in any order, every complete message is printed word for word with the descriptor
  it came from, in the order of arrival, an order for a name that is not bound adds one line, an
  order for a bound name the type of its command and, for an empty file, one more line, and no other
  line comes from \<^verbatim>\<open>DEBUG\<close>; with the printing taken away, the run is the one of the event loop.
\<close>

theorem run_prints_messages:
  assumes "mysql_table db tbl up mac_ok" and "json_lib js" and "up d" and "tbl d = []"
    and "main_start st argv (boot d) = Ok (Some lfd) w"
    and "turns_carry js mac_ok lfd empty_router turns actss"
  shows "main_loop_dbg db js lfd turns w = (run_lines empty_router turns actss, main_loop db js lfd turns w)"
  using main_lines [OF assms] main_loop_erase [of db js lfd turns w] by (metis prod.collapse)

theorem run_prints_messages_witness:
  "main_loop_dbg ref_mysql ref_json 4 demo_turns (started empty_db) =
     (run_lines empty_router demo_turns demo_actions, main_loop ref_mysql ref_json 4 demo_turns (started empty_db)) \<and>
   run_lines empty_router demo_turns demo_actions =
     [debug_line ''on_peer_ready_recv'' (recv_text (hello @ [NUL]) 5),
      debug_line ''on_peer_ready_recv'' (recv_text (order ''/srv/m'' @ [NUL]) 6),
      debug_line ''parse_cmd_type'' ''cmd_type [file-download]'']"
proof
  show "main_loop_dbg ref_mysql ref_json 4 demo_turns (started empty_db) =
     (run_lines empty_router demo_turns demo_actions, main_loop ref_mysql ref_json 4 demo_turns (started empty_db))"
    by (rule run_prints_messages [OF ref_mysql.mysql_table_axioms ref_json.json_lib_axioms _ _ main_start_started
          demo_carries]) (simp_all add: empty_db_def ref_up_def)
  show "run_lines empty_router demo_turns demo_actions =
     [debug_line ''on_peer_ready_recv'' (recv_text (hello @ [NUL]) 5),
      debug_line ''on_peer_ready_recv'' (recv_text (order ''/srv/m'' @ [NUL]) 6),
      debug_line ''parse_cmd_type'' ''cmd_type [file-download]'']"
    by (simp add: demo_turns_def demo_actions_def empty_router_def heard_line_def heard_def receives_def quiet_def
        demo_command_def command_entries_def last_string_Cons)
qed

text \<open>
  C13. A lost command leaves no trace: two runs over the same events, in one of which \<open>send\<close> takes the
  commands and in the other fails for some or all of them with an error that does not raise a signal,
  print the same lines, although the line for a failed delivery is there.
\<close>

theorem lost_commands_leave_no_trace:
  assumes "mysql_table db tbl up mac_ok" and "json_lib js" and "up d" and "tbl d = []"
    and "main_start st argv (boot d) = Ok (Some lfd) w"
    and "turns_carry js mac_ok lfd empty_router turns actss"
    and "turns_carry js mac_ok lfd empty_router turns' actss'"
    and "unsent_turns turns = unsent_turns turns'" and "map (map unsent) actss = map (map unsent) actss'"
  shows "fst (main_loop_dbg db js lfd turns w) = fst (main_loop_dbg db js lfd turns' w)"
  using main_lines [OF assms(1-6)] main_lines [OF assms(1-5,7)] assms(8,9)
    run_lines_unsent [of empty_router empty_router turns actss]
    run_lines_unsent [of empty_router empty_router turns' actss'] by simp

theorem lost_commands_leave_no_trace_witness:
  "fst (main_loop_dbg ref_mysql ref_json 4 demo_turns (started empty_db)) =
     fst (main_loop_dbg ref_mysql ref_json 4 demo_turns_lost (started empty_db)) \<and>
   demo_actions \<noteq> demo_actions_lost"
proof
  show "fst (main_loop_dbg ref_mysql ref_json 4 demo_turns (started empty_db)) =
     fst (main_loop_dbg ref_mysql ref_json 4 demo_turns_lost (started empty_db))"
    by (rule lost_commands_leave_no_trace [OF ref_mysql.mysql_table_axioms ref_json.json_lib_axioms _ _
          main_start_started demo_carries demo_carries_lost])
      (simp_all add: empty_db_def ref_up_def unsent_turns_def demo_turns_def demo_turns_lost_def
        demo_actions_def demo_actions_lost_def)
qed (simp add: demo_actions_def demo_actions_lost_def)

end
