(* ===== verification/Spec2Isabelle.thy ===== *)
theory Spec2Isabelle
  imports Agent_Utils Agent_Parse Agent_Session Agent_Log Agent_Reference Agent_Server Agent_System
    Agent_Resources Agent_Scenarios Agent_Behaviour Byte_Order Psi_Prelude Mysql_Socket Mysql_File
    Thr_Locks Thr_Rwlock Mysql_Thread Mysql_String Psi_Events
    Agent_Router Agent_Outage Json_C Json_Print Ssl_Options Io_Cache Mysql_Ctype My_Thread
    My_Global Mysql_Dbug Ulonglong_Double Agent_Crash Agent_Debug
begin

text \<open>
  A model of the command agent server, a single-threaded epoll server that passes
  commands from an operator's console to mining agents, and of what makes it correct.

  \<^bold>\<open>The program.\<close> \<^verbatim>\<open>src/src/main.c\<close> accepts TCP connections and reads one JSON message per readable
  event. A message whose first string member is \<^verbatim>\<open>linux-claymore-nvidia\<close> registers the agent:
  its \<^verbatim>\<open>miner_mac\<close> is stored with the descriptor of the connection in the MySQL table
  \<^verbatim>\<open>cmd_agent_session\<close> (\<^verbatim>\<open>log.c\<close>). A message whose first string member is \<^verbatim>\<open>ux\<close> is a command for one
  agent: its descriptor is looked up and a message built by \<^verbatim>\<open>session.c\<close>, with the content
  of a file of the server, is sent to it. \<^verbatim>\<open>parse.c\<close> classifies messages and fills the session,
  \<^verbatim>\<open>utils.c\<close> opens the listening socket and ends the process on errors.

  \<^bold>\<open>The theories.\<close>
  \<^item> \<open>Agent_Prelude\<close>: what the program uses of C. Strings are byte lists read up to the first NUL
    (\<open>c_str\<close>), \<open>int\<close> is \<open>int\<close> with \<open>int32\<close> for its range, \<open>atoi\<close> and \<open>%d\<close> are written out
    (\<open>atoi\<close>, \<open>fmt_d\<close>, with their round trip). A function returns an \<open>outcome\<close>: a value and the new
    world, or \<open>Stop\<close> with the reason the process ended (exit, failed assertion, SIGPIPE, or a
    fault such as a NULL dereference or a buffer overflow). A \<open>char *\<close> is a \<open>cptr\<close>: uninitialised,
    NULL, a literal, into a live JSON object, or into a released one. The world has the
    database connection and a log of effects.
  \<^item> \<open>Agent_Utils\<close>, \<open>Agent_Parse\<close>, \<open>Agent_Session\<close>, \<open>Agent_Log\<close>: the functions of \<^verbatim>\<open>utils.c\<close>, \<^verbatim>\<open>parse.c\<close>,
    \<^verbatim>\<open>session.c\<close> and \<^verbatim>\<open>log.c\<close>, one definition each under the same name, loops as recursive functions
    of the name with the suffix \<open>_loop\<close>; \<open>session_t\<close> and \<open>agent_type_t\<close> are those of \<^verbatim>\<open>main.h\<close>.
  \<^item> \<open>Agent_Server\<close>: \<^verbatim>\<open>main.c\<close>. The record \<open>server\<close> adds to the world the array \<open>global_state\<close>, the
    interest list of the epoll instance and the set of open connections. \<open>on_peer_connected\<close>,
    \<open>on_peer_ready_recv\<close> (with \<open>handle_message\<close> and \<open>ux_request\<close> for its second half and its \<open>REQ_UX\<close>
    case) and \<open>on_peer_ready_send\<close> are the callbacks; \<open>handle_accept\<close>, \<open>handle_readable\<close>,
    \<open>handle_writable\<close> are the three branches of the loop body \<open>handle_event\<close>; \<open>handle_events\<close> is
    the \<open>for\<close> loop, \<open>loop_turn\<close> and \<open>main_loop\<close> the \<open>while\<close> loop, \<open>main_start\<close> the part of \<open>main\<close>
    before it. \<open>server_inv\<close> is the invariant.
  \<^item> \<open>Agent_System\<close>: the states the loop can reach (\<open>reachable\<close>, an inductive definition over
    events), the effect of complete messages on the session table, and which messages the server
    survives. \<open>Agent_Resources\<close>: the files, JSON objects, result sets and blocks in use.
  \<^item> \<open>Agent_Reference\<close>: executable stand-ins for MySQL and json-c that meet the contracts.
    \<open>Agent_Scenarios\<close>: concrete servers and messages. \<open>Agent_Behaviour\<close>: properties of single steps.
  \<^item> \<open>Agent_Router\<close>: the abstract specification of the server, a router with its connections, a book of
    names and an outbox. \<open>carries\<close> says which event, with which answers of the kernel, carries which
    action (a connection joins, registers, orders, sends something unintelligible or part of a
    message, hangs up); \<open>router_of\<close> reads the router off the server's state.
    \<open>Agent_Outage\<close>: the same runs on a database whose connection is lost. \<open>Agent_Crash\<close>: messages on which the
    server dereferences NULL, wherever they stand in a batch.
  \<^item> \<open>Agent_Debug\<close>: the lines of the \<^verbatim>\<open>DEBUG\<close> macro, beside the outcome of every function that prints or
    calls one that does (\<open>handle_message_dbg\<close> and so on, with lemmas that the outcome is that of the
    function without the suffix), and what a run of the router prints (\<open>run_lines\<close>).
  \<^item> This theory: the properties that span components.

  \<^bold>\<open>The library's headers.\<close> The repository carries the headers of the MySQL client library, and with
  them code that is compiled into every client: inline functions and macros under
  \<^verbatim>\<open>src/lib/mysql\<close>. They are modelled one definition per function, under its name.
  \<^item> \<open>Byte_Order\<close>: \<^verbatim>\<open>my_byteorder.h\<close> and the four headers it selects from, on a memory of bytes, for
    every kind of machine the preprocessor distinguishes.
  \<^item> \<open>Mysql_String\<close>: \<^verbatim>\<open>m_string.h\<close>, with the two optimised versions of \<open>skip_trailing_space\<close>.
  \<^item> \<open>Psi_Prelude\<close>: the instrumentation interface of \<^verbatim>\<open>psi.h\<close>. The service behind it and the system
    calls are parameters; an instrumented function is a computation in the state monad over the state of the
    system and the log of the calls made to the service. \<open>Mysql_Socket\<close>, \<open>Mysql_File\<close>, \<open>Mysql_Thread\<close> and
    \<open>Psi_Events\<close>: the wrappers of \<^verbatim>\<open>mysql_socket.h\<close>, \<^verbatim>\<open>mysql_file.h\<close>, \<^verbatim>\<open>mysql_thread.h\<close> and of the nine headers
    for statements, transactions, stages and the like.
  \<^item> \<open>Json_C\<close>: the entries and tables of \<^verbatim>\<open>linkhash.h\<close> in a heap in which entries can be released, the five
    iteration macros of json-c, and the loops of \<^verbatim>\<open>parse.c\<close> over them. \<open>Json_Print\<close>: \<^verbatim>\<open>printbuf.h\<close>, \<^verbatim>\<open>vasprintf_compat.h\<close>
    and the small macros of \<^verbatim>\<open>bits.h\<close> and \<^verbatim>\<open>json_util.h\<close>.
  \<^item> \<open>Io_Cache\<close>: the buffered files of \<^verbatim>\<open>my_sys.h\<close>. \<open>Ssl_Options\<close>: the TLS options of a client, \<^verbatim>\<open>sslopt-vars.h\<close>,
    \<^verbatim>\<open>sslopt-case.h\<close> and \<^verbatim>\<open>sslopt-longopts.h\<close>. \<open>Mysql_Ctype\<close>: the classes of characters (\<^verbatim>\<open>m_ctype.h\<close>) and of columns
    (\<^verbatim>\<open>mysql.h\<close>). \<open>My_Thread\<close>: \<^verbatim>\<open>my_thread.h\<close>, \<^verbatim>\<open>my_thread_local.h\<close> and \<open>my_sleep\<close>, for Windows and POSIX.
  \<^item> \<open>Mysql_Dbug\<close>: the macros of \<^verbatim>\<open>my_dbug.h\<close> in the builds with and without the debugger, and functions written
    with them. \<open>My_Global\<close>: the macros of \<^verbatim>\<open>my_global.h\<close> that compute, and the memory helpers, decimals and
    file types of \<^verbatim>\<open>my_sys.h\<close>, \<^verbatim>\<open>decimal.h\<close> and \<^verbatim>\<open>my_dir.h\<close>. \<open>Ulonglong_Double\<close>: the conversions between
    64-bit integers and doubles, on the integers a double can hold.
  \<^item> \<open>Thr_Locks\<close>: the platform layer below \<open>Mysql_Thread\<close> (\<^verbatim>\<open>thr_mutex.h\<close>, \<^verbatim>\<open>thr_rwlock.h\<close>, \<^verbatim>\<open>thr_cond.h\<close> and
    the times of \<^verbatim>\<open>my_global.h\<close>). \<open>Thr_Rwlock\<close>: the Windows reader-writer lock as a step relation of
    interleaved threads.

  \<^bold>\<open>Interfaces.\<close> The two libraries are parameters. \<open>json_lib\<close> asks of json-c that adding a new key
  appends it and that a printed flat object parses back; \<open>mysql_table\<close> asks of MySQL that the
  statements of \<^verbatim>\<open>log.c\<close> do to the table what they say, with \<open>mac\<close> as primary key compared byte by
  byte. From \<open>mysql_table\<close> the sublocale \<open>session_registry\<close> follows for the program's own
  \<open>mysql_insert_fd\<close>, \<open>mysql_select_fd\<close> and \<open>mysql_delete_fd\<close>: a finite map from names to descriptors.
  The server's properties rest on that contract. Both library contracts are interpreted on the
  definitions of \<open>Agent_Reference\<close>. In the headers, \<open>le_format\<close> and \<open>object_format\<close> are the contracts of a
  stored format (what is stored is read back, nothing else is written) and \<open>instrumented_call\<close> that
  of a wrapper (the result and the system of the plain call, and a log in which every wait ends);
  they are interpreted on each of the load and store routines and on each wrapper.
  Where a header calls a function of its library, a locale states what that function promises:
  \<open>printbuf_lib\<close> (appending), \<open>cached_reader\<close> and \<open>cached_writer\<close> (refilling and flushing a buffer), \<open>type_finder\<close>
  (looking up the name of a mode), \<open>tls_os\<close> and \<open>pthread_os\<close> (slots of a thread, two instances of
  \<open>thread_local\<close>), \<open>dbug_lib\<close> (the debugger's frames and keywords); each is interpreted on a function that keeps it. \<open>lost_connection\<close> is the contract of
  MySQL after the connection broke: every query fails.

  \<^bold>\<open>What is shown.\<close> The event loop refines the router: after any run of actions its connections, its
  table and the commands it sent are the router's, so an order reaches the connection that registered
  the name last; when the database is lost the loop goes on and falls silent; and after any run one
  message of the wrong kind from any connection makes the server dereference NULL.
  The session table is refined to a finite map; a reconnecting agent stays
  reachable; all seven statements keep their shape for names without quotes. \<open>socket_read\<close> returns whatever an endless
  socket answers, at the first answer that ends it and with the result for that answer; which pieces of a
  message it gives is determined, for every content of the memory behind its block. Each parser computes the fields of the last matching member. In every
  reachable state the epoll set, the open connections and the peer states agree, the writing
  half of the server is never entered, and, from an empty table and with names free of quotes, registered descriptors are open.
  A registration is stored, a command for a registered agent is sent to its connection and
  parses to the request's fields, a command for an unknown one is dropped, and the messages that are handled to
  the end without undefined behaviour are characterised. What the
  server prints is determined by the messages and the bound names, and a lost command leaves no trace in it.
  What a run leaves allocated is bounded by its events. The other properties
  say exactly where the code loses data, leaks, overruns a buffer or ends the process.
  Of the headers: the optimised byte order routines equal the generic ones and what one machine
  stores another reads; trailing spaces are skipped alike by both versions; instrumentation changes neither
  the result nor the effect of a socket, file or lock call, its waits nest, and from the initialisation of an object on
  the service is only given hooks and lockers it handed out (but for a condition's wait on a mutex without a hook, which
  names NULL as the mutex); the Windows lock is always
  released in the mode it is held, and its functions are the runs of a thread that is not interrupted; times are exact or bounded. The parsers compute the same over
  json-c's linked entries, and which deletions its loops survive is determined; a buffered file
  reads like the file, and writes what it is given up to the first failure of the flush; a print buffer grows by what is appended; a given certificate
  authority is used, or announced as unused; the debugger changes no result where
  the arguments of its macros have no effects, and its frames nest.

  \<^bold>\<open>Choices.\<close> The kernel's answers are arguments (\<open>answers\<close>, one record per event; \<open>start_answers\<close>).
  \<open>recv\<close> never blocks (\<open>MSG_DONTWAIT\<close>), so in an event its answers to one \<open>socket_read\<close> are a finite list
  followed by EAGAIN, and the loop recurses over that list; \<open>socket_read_endless\<close> is the same loop on an endless
  sequence of answers, which ends because the \<open>int\<close> that counts the bytes is bounded. No fuel is used for the program. The only
  fuel is that of the stand-in JSON parser, the length of its input, which is more than the number of
  members. The byte behind a heap block, which \<open>socket_read\<close> reads, is an arbitrary
  function (\<open>slack\<close>); it may be the zero of the cleared buffer when \<open>realloc\<close> shrinks the block in place. Reads and writes one byte outside a block are logged and do not stop the
  model, while a statement longer than its array stops it. Reading a pointer that was never set or that points into
  a released object stops the model too: it is undefined behaviour, after which a process may go on, so an \<open>Ok\<close> result
  means that there was none, and the properties that end in a fault name a NULL dereference. The names with which a
  statement means what its template says are a parameter (\<open>mac_ok\<close>) of the database contract; the
  properties of the table ask it of the names that arrive. Files are regular ones that are read whole. \<open>malloc\<close> succeeds except in \<open>xmalloc\<close>
  and for the array of epoll events, where the code checks it. \<open>json_object_new_string(NULL)\<close> and iterating over something that is not an object
  are faults. \<open>main_loop\<close> takes any finite number of turns of the endless loop.

  In the headers, \<open>None\<close> stands for undefined behaviour (an unmapped or misaligned access, a
  \<open>NULL\<close> dereference). The service may answer anything, depending on all earlier calls, but does
  not act on the system. The loops of \<open>skip_trailing_space\<close> terminate by a measure; \<open>strlen_at\<close>
  is partial and proved to return on terminated strings.

  \<^bold>\<open>Not modelled.\<close> The \<^verbatim>\<open>BREAK\<close> macro, which nothing uses, the code under \<^verbatim>\<open>#if 0\<close>, the unreachable end of
  \<open>main\<close>; of the vendored headers, what only declares functions of the prebuilt libraries, types and
  constants, macros and inline functions that do no more than call such a function (those of \<^verbatim>\<open>my_list.h\<close>, and the
  wrappers of \<^verbatim>\<open>m_string.h\<close> and \<^verbatim>\<open>m_ctype.h\<close> that pick the platform's name of a C function), and the generated tables
  of errors (\<^verbatim>\<open>mysqld_error.h\<close>, \<^verbatim>\<open>mysqld_ername.h\<close>, \<^verbatim>\<open>sql_state.h\<close>); the build files. Of what the server itself does
  nothing is left out.
\<close>

unbundle bit_operations_syntax

section \<open>The session table\<close>

text \<open>
  C5. On a database that keeps its contract the three operations of \<^verbatim>\<open>log.c\<close> the server uses
  implement a finite map from names to descriptors: \<open>mysql_insert_fd\<close> binds the name, new or
  already known, and returns the descriptor, \<open>mysql_select_fd\<close> looks a name up (\<open>-5\<close> when it is
  unbound), \<open>mysql_delete_fd\<close> removes every binding to the descriptor.
\<close>

theorem session_table_refines_map:
  assumes "mysql_table db tbl up mac_ok" and "db_up up w" and "readable p" and "mac_ok (ptr_text p)"
    and "int32 fd"
  shows "(\<exists>v. mysql_insert_fd db p fd t w = Ok fd v \<and> db_up up v \<and>
      registry_of tbl v = (registry_of tbl w)(ptr_text p \<mapsto> fd)) \<and>
    (\<exists>v. mysql_select_fd db p w = Ok (case registry_of tbl w (ptr_text p) of None \<Rightarrow> -5 | Some f \<Rightarrow> f) v \<and>
      db_up up v \<and> registry_of tbl v = registry_of tbl w) \<and>
    (\<exists>v. mysql_delete_fd db fd w = Ok 0 v \<and> db_up up v \<and>
      registry_of tbl v = (\<lambda>m. if registry_of tbl w m = Some fd then None else registry_of tbl w m))"
  using mysql_table.mysql_insert_fd_law [OF assms(1-5), of t]
    mysql_table.mysql_select_fd_law [OF assms(1-4)] mysql_table.mysql_delete_fd_law [OF assms(1,2,5)]
  by blast

theorem session_table_refines_map_witness:
  "(\<exists>v. mysql_insert_fd ref_mysql (Lit ''00:1b'') 9 REQ_LINUX_CLAYMORE (two_peers [(''00:1b'', 5, 2)]) = Ok 9 v) \<and>
    (\<exists>v. mysql_select_fd ref_mysql (Lit ''00:1b'') (two_peers [(''00:1b'', 5, 2)]) = Ok 5 v)"
proof -
  have "readable (Lit ''00:1b'')" "ref_mac_ok (ptr_text (Lit ''00:1b''))" "int32 9"
    using ref_mac_ok_demo by (simp_all add: int32_def)
  from session_table_refines_map [OF ref_mysql.mysql_table_axioms registered_up this]
  show ?thesis by (auto simp: registered_mac)
qed

text \<open>
  An agent that reconnects stays reachable: when it registers on a new descriptor and the
  old connection is cleaned up afterwards, a lookup gives the new descriptor.
\<close>

theorem reconnect_survives_cleanup:
  assumes "mysql_table db tbl up mac_ok" and "db_up up w" and "readable p" and "mac_ok (ptr_text p)"
    and "int32 old" and "int32 new" and "old \<noteq> new"
  shows "\<exists>v. obind (mysql_insert_fd db p old t w) (\<lambda>_ w. obind (mysql_insert_fd db p new t w) (\<lambda>_ w.
    obind (mysql_delete_fd db old w) (\<lambda>_ w. mysql_select_fd db p w))) = Ok new v"
  by (rule session_registry.reconnect(2) [OF mysql_table_registry [OF assms(1)] assms(2-7)])

theorem reconnect_survives_cleanup_witness:
  "\<exists>v. obind (mysql_insert_fd ref_mysql (Lit ''00:1b'') 5 REQ_LINUX_CLAYMORE (two_peers [])) (\<lambda>_ w.
    obind (mysql_insert_fd ref_mysql (Lit ''00:1b'') 7 REQ_LINUX_CLAYMORE w) (\<lambda>_ w.
    obind (mysql_delete_fd ref_mysql 5 w) (\<lambda>_ w. mysql_select_fd ref_mysql (Lit ''00:1b'') w))) = Ok 7 v"
  by (rule reconnect_survives_cleanup [OF ref_mysql.mysql_table_axioms fresh_up])
    (use ref_mac_ok_demo in \<open>simp_all add: int32_def\<close>)

text \<open>
  \<open>mysql_select_session\<close> gives back the agent type with which a descriptor was registered
  by \<open>mysql_insert_fd\<close>, as long as the table had no other session on that descriptor.
\<close>

theorem session_type_roundtrip:
  assumes "mysql_table db tbl up mac_ok" and "db_up up w" and "readable p" and "mac_ok (ptr_text p)"
    and "int32 fd" and "fd \<notin> ran (registry_of tbl w)"
  shows "\<exists>v. obind (mysql_insert_fd db p fd t w) (\<lambda>_ w. mysql_select_session db fd w) =
    Ok (agent_type_code t) v"
  by (rule mysql_table.session_type_after_insert [OF assms])

theorem session_type_roundtrip_witness:
  "\<exists>v. obind (mysql_insert_fd ref_mysql (Lit ''00:1b'') 7 REQ_LINUX_CLAYMORE (two_peers []))
    (\<lambda>_ w. mysql_select_session ref_mysql 7 w) = Ok (agent_type_code REQ_LINUX_CLAYMORE) v"
  by (rule session_type_roundtrip [OF ref_mysql.mysql_table_axioms fresh_up])
    (use ref_mac_ok_demo in \<open>simp_all add: int32_def registry_of_def two_peers_def ran_def\<close>)

text \<open>\<open>mysql_delete_mac\<close> removes the binding of exactly one name.\<close>

theorem mysql_delete_mac_forgets:
  assumes "mysql_table db tbl up mac_ok" and "db_up up w" and "readable p" and "mac_ok (ptr_text p)"
  shows "\<exists>v. mysql_delete_mac db p w = Ok 0 v \<and> db_up up v \<and>
    registry_of tbl v = (registry_of tbl w)(ptr_text p := None)"
  by (rule mysql_table.mysql_delete_mac_law [OF assms])

theorem mysql_delete_mac_forgets_witness:
  "\<exists>v. mysql_delete_mac ref_mysql (Lit ''00:1b'') (two_peers [(''00:1b'', 5, 2)]) = Ok 0 v \<and> db_up ref_up v \<and>
    registry_of rows v = (registry_of rows (two_peers [(''00:1b'', 5, 2)]))(ptr_text (Lit ''00:1b'') := None)"
  by (rule mysql_delete_mac_forgets [OF ref_mysql.mysql_table_axioms registered_up])
    (use ref_mac_ok_demo in simp_all)

section \<open>The event loop\<close>

text \<open>
  C7. In every reachable state of the server each open connection has a descriptor below
  \<open>MAXFDS\<close>, is in the state \<open>INITIAL_ACK\<close> with the eight bytes of its handshake unsent, and is watched
  for input and nothing else; the listener is watched for input, and nothing else is watched.
\<close>

theorem reachable_server_inv:
  assumes "reachable db js mac_ok d lfd s w"
  shows "server_inv lfd w"
  by (rule reachable_inv [OF assms])

theorem reachable_server_inv_witness:
  "\<exists>s w. reachable ref_mysql ref_json ref_mac_ok empty_db 4 s w \<and> sockets w = {5} \<and> server_inv 4 w"
proof -
  obtain s w where w: "reachable ref_mysql ref_json ref_mac_ok empty_db 4 s w" "sockets w = {5}"
    using agent_registered by blast
  show ?thesis using w reachable_server_inv [OF w(1)] by (intro exI conjI)
qed

text \<open>
  C10. The writing half of the server is dead code: in a reachable state no event the kernel may
  report reaches \<open>on_peer_ready_send\<close>, so the handler behaves as if that branch were not there.
\<close>

theorem writable_branch_dead:
  assumes "reachable db js mac_ok d lfd s w" and "event_ok lfd w ev a"
  shows "handle_event db js lfd ev a s w =
    (if ev_events ev AND EPOLLERR \<noteq> 0 then perror_die ''epoll_wait returned EPOLLERR'' w
     else if ev_fd ev = lfd then obind (handle_accept a w) (\<lambda>_ w. Ok s w)
     else if ev_events ev AND EPOLLIN \<noteq> 0 then handle_readable db js a (ev_fd ev) s w
     else Ok s w)"
  using event_ok_no_epollout [OF reachable_inv [OF assms(1)] assms(2)] by (simp add: handle_event_def)

theorem writable_branch_dead_witness:
  "handle_event ref_mysql ref_json 4 (input_event 4) (accepting 5) blank (emit Malloc (started empty_db)) =
    obind (handle_accept (accepting 5) (emit Malloc (started empty_db))) (\<lambda>_ w. Ok blank w)"
proof -
  have r: "reachable ref_mysql ref_json ref_mac_ok empty_db 4 blank (emit Malloc (started empty_db))"
    unfolding blank_def by (rule reachable.start [OF main_start_started])
  have "event_ok 4 (emit Malloc (started empty_db)) (input_event 4) (accepting 5)"
    by (rule accepting_event(1) [OF reachable_inv [OF r]]) simp_all
  from writable_branch_dead [OF r this] show ?thesis by (simp add: input_event_def)
qed

text \<open>
  C6. When the server starts on an empty session table and every name that arrives is one the database
  contract covers (for the reference database, at most 172 characters without quotes and backslashes), every descriptor
  in the table belongs to an open connection after any sequence of events: a command is never sent to a
  descriptor that was closed or handed to another peer. The condition on the names is needed: a name
  with a quote becomes part of the unescaped statement and can bind any descriptor
  (\<open>insert_fd_injection\<close> in \<open>Agent_Log\<close>).
\<close>

theorem registered_descriptors_open:
  assumes "mysql_table db tbl up mac_ok" and "up d" and "tbl d = []"
    and "reachable db js mac_ok d lfd s w"
  shows "registered_open tbl w"
  using mysql_table.reachable_registry [OF assms] by simp

theorem registered_descriptors_open_witness:
  "\<exists>s w. reachable ref_mysql ref_json ref_mac_ok empty_db 4 s w \<and> registry_of rows w ''00:1b'' = Some 5 \<and>
     registered_open rows w"
proof -
  obtain s w where w: "reachable ref_mysql ref_json ref_mac_ok empty_db 4 s w" "registry_of rows w = [''00:1b'' \<mapsto> 5]"
    using agent_registered by blast
  have "registered_open rows w"
    by (rule registered_descriptors_open [OF ref_mysql.mysql_table_axioms _ _ w(1)])
      (simp_all add: empty_db_def ref_up_def)
  with w show ?thesis by (intro exI [of _ s] exI [of _ w]) simp
qed

text \<open>
  The table is not cleared at the start: after a start on a table that still holds the
  session of an earlier run, the next connection that gets the old descriptor takes over
  the name. In this run the server has not made one query, peer 5 has just connected,
  and a command for \<^verbatim>\<open>00:1b\<close> would go to it.
\<close>

theorem stale_row_hijacks_name:
  "\<exists>s w. reachable ref_mysql ref_json ref_mac_ok \<lparr>rows = [(''00:1b'', 5, 2)], pending = None\<rparr> 4 s w \<and>
     sockets w = {5} \<and> registry_of rows w ''00:1b'' = Some 5 \<and> (\<forall>q. Query q \<notin> set (w_log w))"
proof -
  let ?d = "\<lparr>rows = [(''00:1b'', 5, 2)], pending = None\<rparr>"
  let ?w0 = "emit Malloc (started ?d)"
  have r: "reachable ref_mysql ref_json ref_mac_ok ?d 4 blank ?w0"
    unfolding blank_def by (rule reachable.start [OF main_start_started])
  obtain w1 where 1: "handle_event ref_mysql ref_json 4 (input_event 4) (accepting 5) blank ?w0 = Ok blank w1"
      "sockets w1 = {5}" "w_db w1 = ?d" "\<forall>q. Query q \<in> set (w_log w1) \<longrightarrow> Query q \<in> set (w_log ?w0)"
    using accepting_event(2) [OF reachable_inv [OF r], of 5 ref_mysql ref_json blank] by auto
  have "reachable ref_mysql ref_json ref_mac_ok ?d 4 blank w1"
    using reachable.event [OF r accepting_event(1) [OF reachable_inv [OF r]] accepting_message_ok 1(1)] by simp
  moreover have "registry_of rows w1 ''00:1b'' = Some 5" by (simp add: registry_of_def 1(3))
  moreover have "\<forall>q. Query q \<notin> set (w_log w1)" using 1(4) started_no_query by auto
  ultimately show ?thesis using 1(2) by blast
qed

text \<open>
  Runs of \<open>main\<close>: whatever the events of the turns of the loop are, as long as the kernel keeps
  its promises and the names are storable, if the process has not stopped then the invariant
  holds after the last turn and every registered descriptor is an open connection.
\<close>

theorem main_loop_invariants:
  assumes "mysql_table db tbl up mac_ok" and "up d" and "tbl d = []"
    and "main_start st argv (boot d) = Ok (Some lfd) w" and "turns_ok db js mac_ok lfd turns w"
    and "main_loop db js lfd turns w = Ok () v"
  shows "server_inv lfd v \<and> registered_open tbl v"
proof -
  have "reachable db js mac_ok d lfd (malloc_session junk) (emit Malloc v)" for junk
    by (rule main_loop_reachable [OF reachable.start [OF assms(4)] assms(5,6)])
  from mysql_table.reachable_registry [OF assms(1-3) this] show ?thesis
    by (simp add: server_inv_log registered_open_def registry_of_def)
qed

theorem main_loop_invariants_witness:
  "\<exists>v. main_loop ref_mysql ref_json 4 [(blank, [(input_event 4, accepting 5)])] (started empty_db) = Ok () v \<and>
     sockets v = {5} \<and> server_inv 4 v \<and> registered_open rows v"
proof -
  obtain v where run: "main_loop ref_mysql ref_json 4 [(blank, [(input_event 4, accepting 5)])] (started empty_db) = Ok () v"
      "sockets v = {5}"
      "turns_ok ref_mysql ref_json ref_mac_ok 4 [(blank, [(input_event 4, accepting 5)])] (started empty_db)"
    using accept_turn by blast
  have "server_inv 4 v \<and> registered_open rows v"
    by (rule main_loop_invariants [OF ref_mysql.mysql_table_axioms _ _ main_start_started run(3,1)])
      (simp_all add: empty_db_def ref_up_def)
  with run show ?thesis by (intro exI [of _ v]) simp
qed

text \<open>
  C20. What a run of the loop leaves behind is bounded by the number of its events: at most one file and
  one result set per event, exactly one JSON object per file, at least one block per
  file; and nothing is given back that was not taken, so in the balance no block, object or
  file is released twice. The sessions of the turns are all released.
\<close>

theorem main_loop_leak_bound:
  assumes "main_loop db js lfd turns w = Ok () v"
  shows "modest (sum_list (map (\<lambda>(junk, evs). length evs) turns)) w v"
  by (rule main_loop_modest [OF assms])

theorem main_loop_leak_bound_witness:
  "\<exists>v. main_loop ref_mysql ref_json 4 [(blank, [(input_event 4, accepting 5)])] (started empty_db) = Ok () v \<and>
     modest 1 (started empty_db) v"
proof -
  obtain v where run: "main_loop ref_mysql ref_json 4 [(blank, [(input_event 4, accepting 5)])] (started empty_db) = Ok () v"
    using accept_turn by blast
  from main_loop_leak_bound [OF run] run show ?thesis by (intro exI [of _ v]) simp
qed

section \<open>Messages\<close>

text \<open>
  C4. Registration: when a complete message of a Linux agent with a storable name arrives on an
  open connection, in whatever pieces, the event loop comes back, the name is bound to
  that connection, nothing else in the table or in the server's state changes, and every block and
  JSON object the event used has been released.
\<close>

theorem agent_registration:
  assumes "mysql_table db tbl up mac_ok" and "server_inv lfd w" and "db_up up w"
    and "peer_input w ev a cs m" and "json_tokener_parse js m = JObject es"
    and "get_agent_type_loop es = REQ_LINUX_CLAYMORE" and "last_string ''miner_mac'' es = Some mac"
    and "mac_ok (c_str mac)"
  shows "\<exists>s' v. handle_event db js lfd ev a s w = Ok s' v \<and>
    registry_of tbl v = (registry_of tbl w)(c_str mac \<mapsto> ev_fd ev) \<and>
    epoll_set v = epoll_set w \<and> sockets v = sockets w \<and> global_state v = global_state w \<and>
    tally block_use (w_log v) = tally block_use (w_log w) \<and>
    tally json_use (w_log v) = tally json_use (w_log w)"
proof -
  obtain s' v qs where "handle_event db js lfd ev a s w = Ok s' v"
      "registry_of tbl v = (registry_of tbl w)(c_str mac \<mapsto> ev_fd ev)"
      "epoll_set v = epoll_set w" "sockets v = sockets w" "global_state v = global_state w"
    and log: "w_log v = w_log w @ Malloc # prefix_reads 0 cs @ [JsonNew] @ map Query qs @
      [Free, JsonPut, EpollMod (ev_fd ev) EPOLLIN]"
    using mysql_table.registration_event [OF assms, of s] by blast
  moreover have "tally block_use (w_log v) = tally block_use (w_log w)"
    "tally json_use (w_log v) = tally json_use (w_log w)"
    by (simp_all add: log)
  ultimately show ?thesis by blast
qed

theorem agent_registration_witness:
  "\<exists>s' v. handle_event ref_mysql ref_json 4 (input_event 5) (receives hello) blank (two_peers []) = Ok s' v \<and>
    registry_of rows v ''00:1b'' = Some 5"
proof -
  obtain s' v where "handle_event ref_mysql ref_json 4 (input_event 5) (receives hello) blank (two_peers []) = Ok s' v"
      "registry_of rows v = (registry_of rows (two_peers []))(c_str ''00:1b'' \<mapsto> ev_fd (input_event 5))"
    using agent_registration [OF ref_mysql.mysql_table_axioms two_peers_inv fresh_up hello_input hello_parses
        hello_type hello_mac ref_mac_ok_demo, of blank] by blast
  then show ?thesis by (intro exI [of _ s'] exI [of _ v]) (simp add: input_event_def)
qed

text \<open>
  C3. Delivery: when the console's request to download a readable file arrives for a
  registered agent, the event loop comes back, and what went out is one \<open>send\<close> to the descriptor the
  table has for the agent; its bytes parse to the command with the request's path,
  sequence number and install path and the file's content up to its first NUL byte. What
  reaches the agent is what that one \<open>send\<close> took: when it takes only \<open>k\<close> bytes, the rest of the
  command is lost. The console is registered as \<^verbatim>\<open>UX_SESSION\<close>.
\<close>

theorem command_delivery:
  assumes "mysql_table db tbl up mac_ok" and "json_lib js" and "server_inv lfd w" and "db_up up w"
    and "peer_input w ev a cs m" and "json_tokener_parse js m = JObject es"
    and "download_request es mac file install seqno" and "mac_ok mac" and "mac \<noteq> ''UX_SESSION''"
    and "registry_of tbl w mac = Some agent" and "0 \<le> agent" and "a_fs a file = Some bytes"
    and "a_send a = Sent k" and "0 < k" and "k \<le> INT_MAX"
  shows "\<exists>s' v msg. handle_event db js lfd ev a s w = Ok s' v \<and>
    filter is_send (w_log v) = filter is_send (w_log w) @ [Send agent (Lit msg) (length msg) k] \<and>
    wire agent (w_log v) = wire agent (w_log w) @ take (nat k) msg \<and>
    json_tokener_parse js msg =
      JObject (command_entries ''file-download'' file seqno (c_str bytes) install) \<and>
    registry_of tbl v = (registry_of tbl w)(''UX_SESSION'' \<mapsto> ev_fd ev) \<and>
    epoll_set v = epoll_set w \<and> sockets v = sockets w \<and> global_state v = global_state w"
proof -
  obtain s' v qs msg where "handle_event db js lfd ev a s w = Ok s' v"
      "json_tokener_parse js msg = JObject (command_entries ''file-download'' file seqno (c_str bytes) install)"
      "registry_of tbl v = (registry_of tbl w)(''UX_SESSION'' \<mapsto> ev_fd ev)"
      "epoll_set v = epoll_set w" "sockets v = sockets w" "global_state v = global_state w"
    and log: "w_log v = w_log w @ Malloc # prefix_reads 0 cs @ JsonNew # replicate (empty_paths es) Malloc @
      map Query qs @ delivery_log mac file bytes msg agent k @ [Free, JsonPut, EpollMod (ev_fd ev) EPOLLIN]"
    using mysql_table.delivery_event [OF assms, of s] by blast
  moreover have sent: "filter is_send (w_log v) = filter is_send (w_log w) @ [Send agent (Lit msg) (length msg) k]"
    by (simp add: log delivery_log_def no_sends)
  moreover have "wire agent (w_log v) = wire agent (w_log w) @ take (nat k) msg"
    using arg_cong [OF sent, of "wire agent"] by (simp add: wire_append wire_sends)
  ultimately show ?thesis by blast
qed

theorem command_delivery_witness:
  "\<exists>s' v msg. handle_event ref_mysql ref_json 4 (input_event 6) (receives (order ''/srv/m'')) blank
      (two_peers [(''00:1b'', 5, 2)]) = Ok s' v \<and>
    filter is_send (w_log v) = [Send 5 (Lit msg) (length msg) 20] \<and>
    wire 5 (w_log v) = take 20 msg \<and>
    json_tokener_parse ref_json msg = JObject (command_entries ''file-download'' ''/srv/m'' 7 ''#!x'' ''/opt/m'')"
proof -
  obtain s' v msg where "handle_event ref_mysql ref_json 4 (input_event 6) (receives (order ''/srv/m'')) blank
        (two_peers [(''00:1b'', 5, 2)]) = Ok s' v"
      "filter is_send (w_log v) = filter is_send (w_log (two_peers [(''00:1b'', 5, 2)])) @
        [Send 5 (Lit msg) (length msg) 20]"
      "wire 5 (w_log v) = wire 5 (w_log (two_peers [(''00:1b'', 5, 2)])) @ take (nat 20) msg"
      "json_tokener_parse ref_json msg =
        JObject (command_entries ''file-download'' ''/srv/m'' 7 (c_str ''#!x'') ''/opt/m'')"
    using command_delivery [OF ref_mysql.mysql_table_axioms ref_json.json_lib_axioms two_peers_inv registered_up
        order_input order_parses [OF demo_facts(7)] order_request [OF demo_facts(7)] demo_facts(1,2,6,3)
        receives_simps(2,1) demo_facts(4,5), of blank] by blast
  then show ?thesis by (intro exI [of _ s'] exI [of _ v] exI [of _ msg]) (simp add: two_peers_def)
qed

text \<open>
  A request for a name that is not in the table comes back and sends nothing to anybody; the
  console is not told.
\<close>

theorem command_to_unknown_agent:
  assumes "mysql_table db tbl up mac_ok" and "server_inv lfd w" and "db_up up w"
    and "peer_input w ev a cs m" and "json_tokener_parse js m = JObject es"
    and "get_agent_type_loop es = REQ_UX" and "last_string ''miner_mac'' es = Some mac"
    and "mac_ok (c_str mac)" and "c_str mac \<noteq> ''UX_SESSION''" and "registry_of tbl w (c_str mac) = None"
  shows "\<exists>s' v. handle_event db js lfd ev a s w = Ok s' v \<and>
    filter is_send (w_log v) = filter is_send (w_log w) \<and>
    epoll_set v = epoll_set w \<and> sockets v = sockets w \<and> global_state v = global_state w"
proof -
  obtain s' v qs where "handle_event db js lfd ev a s w = Ok s' v"
      "epoll_set v = epoll_set w" "sockets v = sockets w" "global_state v = global_state w"
    and log: "w_log v = w_log w @ Malloc # prefix_reads 0 cs @ JsonNew # replicate (empty_paths es) Malloc @
      map Query qs @ [StoreResult, Free, JsonPut, EpollMod (ev_fd ev) EPOLLIN]"
    using mysql_table.unknown_event [OF assms, of s] by blast
  moreover have "filter is_send (w_log v) = filter is_send (w_log w)" by (simp add: log no_sends)
  ultimately show ?thesis by blast
qed

theorem command_to_unknown_agent_witness:
  "\<exists>s' v. handle_event ref_mysql ref_json 4 (input_event 6) (receives (order ''/srv/m'')) blank (two_peers []) =
      Ok s' v \<and> filter is_send (w_log v) = filter is_send (w_log (two_peers [])) \<and>
    epoll_set v = epoll_set (two_peers []) \<and> sockets v = sockets (two_peers []) \<and>
    global_state v = global_state (two_peers [])"
proof (rule command_to_unknown_agent [OF ref_mysql.mysql_table_axioms two_peers_inv fresh_up order_input order_parses])
  show "get_agent_type_loop (order_entries ''/srv/m'') = REQ_UX"
    "last_string ''miner_mac'' (order_entries ''/srv/m'') = Some ''00:1b''"
    by (simp_all add: order_entries_def strcmp_eq_def last_string_string)
  show "registry_of rows (two_peers []) (c_str ''00:1b'') = None" by (simp add: registry_of_def two_peers_def)
qed (use ref_mac_ok_demo in simp_all)

text \<open>
  Any other request for a registered agent ends the server: when the command is not
  \<open>file-download\<close>, the file cannot be opened, or \<open>path_install\<close> is empty or missing, the event
  loop crashes.
\<close>

theorem unsendable_command_crashes:
  assumes "mysql_table db tbl up mac_ok" and "server_inv lfd w" and "db_up up w"
    and "peer_input w ev a cs m" and "json_tokener_parse js m = JObject es"
    and "get_agent_type_loop es = REQ_UX" and "last_string ''miner_mac'' es = Some mac"
    and "mac_ok (c_str mac)" and "c_str mac \<noteq> ''UX_SESSION''"
    and "registry_of tbl w (c_str mac) = Some agent" and "0 \<le> agent"
    and "\<not> sendable (a_fs a) (cmd_session es s)"
  shows "\<exists>f v. handle_event db js lfd ev a s w = Stop (Crash f) v"
  by (rule mysql_table.unsendable_event [OF assms])

theorem unsendable_command_crashes_witness:
  "\<exists>f v. handle_event ref_mysql ref_json 4 (input_event 6) (receives (order ''/no'')) blank
     (two_peers [(''00:1b'', 5, 2)]) = Stop (Crash f) v"
proof (rule unsendable_command_crashes [OF ref_mysql.mysql_table_axioms two_peers_inv registered_up order_no_input
      order_parses order_fields _ _ _ _ order_no_unsendable])
  show "registry_of rows (two_peers [(''00:1b'', 5, 2)]) (c_str ''00:1b'') = Some 5"
    by (simp add: registered_mac)
qed (use ref_mac_ok_demo in simp_all)



text \<open>
  Every delivered command leaks: one open file, one JSON object, one result set, the block with
  the message that was sent, and one more block for each empty path in the request.
\<close>

theorem delivery_leaks:
  assumes "mysql_table db tbl up mac_ok" and "json_lib js" and "server_inv lfd w" and "db_up up w"
    and "peer_input w ev a cs m" and "json_tokener_parse js m = JObject es"
    and "download_request es mac file install seqno" and "mac_ok mac" and "mac \<noteq> ''UX_SESSION''"
    and "registry_of tbl w mac = Some agent" and "0 \<le> agent" and "a_fs a file = Some bytes"
    and "a_send a = Sent k" and "0 < k" and "k \<le> INT_MAX"
  shows "\<exists>s' v. handle_event db js lfd ev a s w = Ok s' v \<and>
    tally file_use (w_log v) = tally file_use (w_log w) + 1 \<and>
    tally json_use (w_log v) = tally json_use (w_log w) + 1 \<and>
    tally result_use (w_log v) = tally result_use (w_log w) + 1 \<and>
    tally block_use (w_log v) = tally block_use (w_log w) + 1 + int (empty_paths es)"
proof -
  obtain s' v qs msg where "handle_event db js lfd ev a s w = Ok s' v"
    and log: "w_log v = w_log w @ Malloc # prefix_reads 0 cs @ JsonNew # replicate (empty_paths es) Malloc @
      map Query qs @ delivery_log mac file bytes msg agent k @ [Free, JsonPut, EpollMod (ev_fd ev) EPOLLIN]"
    using mysql_table.delivery_event [OF assms, of s] by blast
  moreover have "tally file_use (w_log v) = tally file_use (w_log w) + 1"
    "tally json_use (w_log v) = tally json_use (w_log w) + 1"
    "tally result_use (w_log v) = tally result_use (w_log w) + 1"
    "tally block_use (w_log v) = tally block_use (w_log w) + 1 + int (empty_paths es)"
    by (simp_all add: log delivery_log_def)
  ultimately show ?thesis by blast
qed

theorem delivery_leaks_witness:
  "\<exists>s' v. handle_event ref_mysql ref_json 4 (input_event 6) (receives (order ''/srv/m'')) blank
      (two_peers [(''00:1b'', 5, 2)]) = Ok s' v \<and> tally file_use (w_log v) = 1"
proof -
  obtain s' v where "handle_event ref_mysql ref_json 4 (input_event 6) (receives (order ''/srv/m'')) blank
        (two_peers [(''00:1b'', 5, 2)]) = Ok s' v"
      "tally file_use (w_log v) = tally file_use (w_log (two_peers [(''00:1b'', 5, 2)])) + 1"
    using delivery_leaks [OF ref_mysql.mysql_table_axioms ref_json.json_lib_axioms two_peers_inv registered_up
        order_input order_parses [OF demo_facts(7)] order_request [OF demo_facts(7)] demo_facts(1,2,6,3)
        receives_simps(2,1) demo_facts(4,5), of blank] by blast
  then show ?thesis by (intro exI [of _ s'] exI [of _ v]) (simp add: two_peers_def)
qed

text \<open>
  From registration to delivery: when an agent's registration and then a download request for
  its name arrive in one batch of events, the batch is handled, and the command goes out on
  the connection the registration came from.
\<close>

theorem registered_agent_gets_command:
  assumes "mysql_table db tbl up mac_ok" and "json_lib js" and "server_inv lfd w" and "db_up up w"
    and "peer_input w ev1 a1 cs1 m1" and "json_tokener_parse js m1 = JObject es1"
    and "get_agent_type_loop es1 = REQ_LINUX_CLAYMORE" and "last_string ''miner_mac'' es1 = Some mac"
    and "mac_ok (c_str mac)" and "c_str mac \<noteq> ''UX_SESSION''"
    and "peer_input w ev2 a2 cs2 m2" and "json_tokener_parse js m2 = JObject es2"
    and "download_request es2 (c_str mac) file install seqno" and "a_fs a2 file = Some bytes"
    and "a_send a2 = Sent k" and "0 < k" and "k \<le> INT_MAX"
  shows "\<exists>s' v msg. handle_events db js lfd [(ev1, a1), (ev2, a2)] s w = Ok s' v \<and>
    Send (ev_fd ev1) (Lit msg) (length msg) k \<in> set (w_log v) \<and>
    json_tokener_parse js msg =
      JObject (command_entries ''file-download'' file seqno (c_str bytes) install)"
proof -
  obtain s1 w1 where 1: "handle_event db js lfd ev1 a1 s w = Ok s1 w1" "db_up up w1"
      "registry_of tbl w1 = (registry_of tbl w)(c_str mac \<mapsto> ev_fd ev1)"
      "epoll_set w1 = epoll_set w" "sockets w1 = sockets w" "global_state w1 = global_state w"
    using mysql_table.registration_event [OF assms(1,3-9), of s] by blast
  have inv: "server_inv lfd w1" using assms(3) 1(4-6) by (simp add: server_inv_def)
  have input: "peer_input w1 ev2 a2 cs2 m2" using assms(11) 1(5) by (simp add: peer_input_def)
  have agent: "registry_of tbl w1 (c_str mac) = Some (ev_fd ev1)" by (simp add: 1(3))
  have "0 \<le> ev_fd ev1" using assms(3,5) by (auto simp: server_inv_def peer_input_def)
  then obtain s2 v qs msg where 2: "handle_event db js lfd ev2 a2 s1 w1 = Ok s2 v"
    and msg: "json_tokener_parse js msg =
      JObject (command_entries ''file-download'' file seqno (c_str bytes) install)"
    and log: "w_log v = w_log w1 @ Malloc # prefix_reads 0 cs2 @ JsonNew # replicate (empty_paths es2) Malloc @
      map Query qs @ delivery_log (c_str mac) file bytes msg (ev_fd ev1) k @
      [Free, JsonPut, EpollMod (ev_fd ev2) EPOLLIN]"
    using mysql_table.delivery_event [OF assms(1,2) inv 1(2) input assms(12,13,9,10) agent _ assms(14-17), of s1]
    by blast
  have "Send (ev_fd ev1) (Lit msg) (length msg) k \<in> set (w_log v)"
    by (simp add: log delivery_log_def)
  with 1(1) 2 msg show ?thesis by (intro exI [of _ s2] exI [of _ v] exI [of _ msg]) simp
qed

theorem registered_agent_gets_command_witness:
  "\<exists>s' v msg. handle_events ref_mysql ref_json 4
      [(input_event 5, receives hello), (input_event 6, receives (order ''/srv/m''))] blank (two_peers []) =
      Ok s' v \<and> Send (ev_fd (input_event 5)) (Lit msg) (length msg) 20 \<in> set (w_log v) \<and>
    json_tokener_parse ref_json msg =
      JObject (command_entries ''file-download'' ''/srv/m'' 7 (c_str ''#!x'') ''/opt/m'')"
proof -
  have request: "download_request (order_entries ''/srv/m'') (c_str ''00:1b'') ''/srv/m'' ''/opt/m'' 7"
    using order_request [OF demo_facts(7)] by simp
  have name: "c_str ''00:1b'' \<noteq> ''UX_SESSION''" by simp
  show ?thesis
    by (rule registered_agent_gets_command [OF ref_mysql.mysql_table_axioms ref_json.json_lib_axioms two_peers_inv
          fresh_up hello_input hello_parses hello_type hello_mac ref_mac_ok_demo name order_input
          order_parses [OF demo_facts(7)] request receives_simps(2,1) demo_facts(4,5)])
qed

end
